(* ===== verification/Prelude.thy ===== *)
theory Prelude
  imports Main "HOL-Library.List_Lexorder" "HOL-Library.Char_ord" "HOL-Library.Product_Lexorder"
begin

text \<open>
  What every component of the development shares: the collections the automation reads, the
  relational operations a table supports (a table is the list of its rows), and Go's maps as
  association lists. Nothing here mentions the service.
\<close>

named_theorems sentinel_simps "evaluation of the search through an error's causes"
named_theorems keeps_intro "introduction rules: an effectful operation keeps an invariant"
named_theorems table_simps "what a statement does to the rows of a table"

subsection \<open>Tables\<close>

text \<open>
  An SQL statement over one table: \<open>update_where\<close> rewrites the rows its condition selects and
  \<open>affected\<close> is the row count the driver reports for it; \<open>the_row\<close> is a lookup by a
  condition that selects one row at most.
\<close>

definition update_where :: "('r \<Rightarrow> bool) \<Rightarrow> ('r \<Rightarrow> 'r) \<Rightarrow> 'r list \<Rightarrow> 'r list" where
  "update_where p f rows = map (\<lambda>r. if p r then f r else r) rows"

definition affected :: "('r \<Rightarrow> bool) \<Rightarrow> 'r list \<Rightarrow> nat" where
  "affected p rows = length (filter p rows)"

definition delete_where :: "('r \<Rightarrow> bool) \<Rightarrow> 'r list \<Rightarrow> 'r list" where
  "delete_where p rows = filter (\<lambda>r. \<not> p r) rows"

definition the_row :: "('r \<Rightarrow> bool) \<Rightarrow> 'r list \<Rightarrow> 'r option" where
  "the_row p rows = find p rows"

lemma update_where_simps [simp]:
  "update_where p f [] = []"
  "update_where p f (r # rows) = (if p r then f r else r) # update_where p f rows"
  by (simp_all add: update_where_def)

lemma length_update_where [simp]: "length (update_where p f rows) = length rows"
  by (simp add: update_where_def)

lemma map_update_where [table_simps]:
  "(\<And>r. g (f r) = g r) \<Longrightarrow> map g (update_where p f rows) = map g rows"
  by (induction rows) simp_all

lemma set_update_where:
  "set (update_where p f rows) = (\<lambda>r. if p r then f r else r) ` set rows"
  by (simp add: update_where_def)

lemma in_update_where:
  "r' \<in> set (update_where p f rows) \<longleftrightarrow>
     (\<exists>r \<in> set rows. r' = (if p r then f r else r))"
  by (auto simp: set_update_where)

lemma update_where_none:
  "affected p rows = 0 \<Longrightarrow> update_where p f rows = rows"
  by (induction rows) (auto simp: affected_def split: if_splits)

lemma affected_simps [simp]:
  "affected p [] = 0"
  "affected p (r # rows) = (if p r then Suc (affected p rows) else affected p rows)"
  by (simp_all add: affected_def)

lemma affected_zero_iff: "affected p rows = 0 \<longleftrightarrow> (\<forall>r \<in> set rows. \<not> p r)"
  by (induction rows) auto

lemma affected_pos_iff: "0 < affected p rows \<longleftrightarrow> (\<exists>r \<in> set rows. p r)"
  by (induction rows) auto

lemma the_row_simps [simp]:
  "the_row p [] = None"
  "the_row p (r # rows) = (if p r then Some r else the_row p rows)"
  by (simp_all add: the_row_def)

lemma the_row_Some: "the_row p rows = Some r \<Longrightarrow> r \<in> set rows \<and> p r"
  by (induction rows) (auto split: if_splits)

lemma the_row_None_iff: "the_row p rows = None \<longleftrightarrow> (\<forall>r \<in> set rows. \<not> p r)"
  by (induction rows) auto

lemma the_row_unique:
  "distinct (map key rows) \<Longrightarrow> r \<in> set rows \<Longrightarrow> key r = k \<Longrightarrow> the_row (\<lambda>x. key x = k) rows = Some r"
  by (induction rows) (auto simp: image_iff)

lemma the_row_update_where_key:
  assumes "\<And>r. key (f r) = key r"
  shows "the_row (\<lambda>x. key x = k) (update_where p f rows) =
     map_option (\<lambda>r. if p r then f r else r) (the_row (\<lambda>x. key x = k) rows)"
  by (induction rows) (auto simp: assms)

lemma affected_by_key:
  assumes "distinct (map key rows)"
  shows "affected (\<lambda>r. key r = k \<and> q r) rows =
     (case the_row (\<lambda>r. key r = k) rows of None \<Rightarrow> 0 | Some r \<Rightarrow> if q r then 1 else 0)"
  using assms
proof (induction rows)
  case Nil
  then show ?case by simp
next
  case (Cons x rows)
  show ?case
  proof (cases "key x = k")
    case True
    with Cons.prems have "\<forall>r \<in> set rows. \<not> (key r = k \<and> q r)"
      by (auto simp: image_iff)
    then have "affected (\<lambda>r. key r = k \<and> q r) rows = 0"
      by (simp add: affected_zero_iff)
    with True show ?thesis by simp
  next
    case False
    with Cons show ?thesis by simp
  qed
qed

subsection \<open>Go maps\<close>

text \<open>
  A Go map is an association list with distinct keys. Its order stands for the order a
  \<open>range\<close> over the map happens to take, so a lemma over every list is a lemma over every
  iteration order. \<open>map_get\<close> is an index expression: the zero value where the key is absent.
\<close>

definition map_get :: "('k \<times> string) list \<Rightarrow> 'k \<Rightarrow> string" where
  "map_get m k = (case map_of m k of None \<Rightarrow> '''' | Some v \<Rightarrow> v)"

lemma map_get_simps [simp]:
  "map_get [] k = ''''"
  "map_get ((k', v) # m) k = (if k = k' then v else map_get m k)"
  by (simp_all add: map_get_def)

subsection \<open>Lists\<close>

lemma take_length_le: "length xs \<le> n \<Longrightarrow> take n xs = xs"
  by simp

lemma distinct_map_filter_keys: "distinct (map f xs) \<Longrightarrow> distinct (map f (filter p xs))"
  by (induction xs) auto

end
