(* ===== verification/GoLib.thy ===== *)
theory GoLib
  imports Prelude "HOL-Library.Word"
begin

unbundle bit_operations_syntax

text \<open>
  What the service uses of Go's standard library. A Go string is its bytes, so it is a
  \<open>string\<close> here and \<open>length\<close> is \<open>len\<close>. The library's small functions are modelled
  (package strings, strconv, unicode/utf8, the arithmetic of package time, the address classes
  of net/netip); its big ones (the parsers of net/mail, net/url and net/netip, the case tables
  of package unicode beyond ASCII, encoding/json, fmt) are the fields of the record \<open>golib\<close>,
  which every definition that needs one takes as an argument: the theorems hold for any of them.
\<close>

subsection \<open>Runes\<close>

definition byte :: "char \<Rightarrow> nat" where
  "byte c = of_char c"

definition rune_error :: nat where
  "rune_error = 0xFFFD"

definition is_cont :: "char \<Rightarrow> bool" where
  "is_cont c \<longleftrightarrow> 0x80 \<le> byte c \<and> byte c \<le> 0xBF"

text \<open>
  \<open>utf8.DecodeRuneInString\<close>: the first rune of a string and its width in bytes. An invalid
  sequence is U+FFFD with width 1.
\<close>

fun decode_rune :: "string \<Rightarrow> nat \<times> nat" where
  "decode_rune [] = (rune_error, 0)"
| "decode_rune (c # cs) =
    (let b0 = byte c; bad = (rune_error, 1) in
     if b0 < 0x80 then (b0, 1)
     else if b0 < 0xC2 then bad
     else if b0 < 0xE0 then
       (case cs of
          c1 # _ \<Rightarrow> if is_cont c1 then ((b0 - 0xC0) * 64 + (byte c1 - 0x80), 2) else bad
        | _ \<Rightarrow> bad)
     else if b0 < 0xF0 then
       (case cs of
          c1 # c2 # _ \<Rightarrow>
            if is_cont c1 \<and> is_cont c2 \<and> (b0 = 0xE0 \<longrightarrow> 0xA0 \<le> byte c1) \<and> (b0 = 0xED \<longrightarrow> byte c1 \<le> 0x9F)
            then ((b0 - 0xE0) * 4096 + (byte c1 - 0x80) * 64 + (byte c2 - 0x80), 3)
            else bad
        | _ \<Rightarrow> bad)
     else if b0 < 0xF5 then
       (case cs of
          c1 # c2 # c3 # _ \<Rightarrow>
            if is_cont c1 \<and> is_cont c2 \<and> is_cont c3
               \<and> (b0 = 0xF0 \<longrightarrow> 0x90 \<le> byte c1) \<and> (b0 = 0xF4 \<longrightarrow> byte c1 \<le> 0x8F)
            then ((b0 - 0xF0) * 262144 + (byte c1 - 0x80) * 4096
                  + (byte c2 - 0x80) * 64 + (byte c3 - 0x80), 4)
            else bad
        | _ \<Rightarrow> bad)
     else bad)"

text \<open>A \<open>range\<close> over a string: each rune with the bytes it was read from.\<close>

fun runes :: "string \<Rightarrow> (nat \<times> string) list" where
  "runes [] = []"
| "runes (c # cs) =
    (case decode_rune (c # cs) of
       (r, w) \<Rightarrow> (r, c # take (w - 1) cs) # runes (drop (w - 1) cs))"

definition encode_rune :: "nat \<Rightarrow> string" where
  "encode_rune r =
    (if r < 0x80 then [char_of r]
     else if r < 0x800 then [char_of (0xC0 + r div 64), char_of (0x80 + r mod 64)]
     else if 0xD800 \<le> r \<and> r \<le> 0xDFFF \<or> 0x10FFFF < r
       then [char_of (0xEF::nat), char_of (0xBF::nat), char_of (0xBD::nat)]
     else if r < 0x10000 then
       [char_of (0xE0 + r div 4096), char_of (0x80 + r div 64 mod 64), char_of (0x80 + r mod 64)]
     else
       [char_of (0xF0 + r div 262144), char_of (0x80 + r div 4096 mod 64),
        char_of (0x80 + r div 64 mod 64), char_of (0x80 + r mod 64)])"

definition ascii :: "string \<Rightarrow> bool" where
  "ascii s \<longleftrightarrow> list_all (\<lambda>c. byte c < 0x80) s"

lemma ascii_simps [simp]:
  "ascii []"
  "ascii (c # s) \<longleftrightarrow> byte c < 128 \<and> ascii s"
  "ascii (s @ t) \<longleftrightarrow> ascii s \<and> ascii t"
  by (simp_all add: ascii_def)

lemma runes_ascii: "ascii s \<Longrightarrow> runes s = map (\<lambda>c. (byte c, [c])) s"
  by (induction s) (simp_all add: Let_def)

lemma concat_runes: "concat (map snd (runes s)) = s"
proof (induction s rule: runes.induct)
  case 1
  then show ?case by simp
next
  case (2 c cs)
  obtain r w where rw: "decode_rune (c # cs) = (r, w)" by fastforce
  with 2 [OF rw [symmetric]] show ?case by (simp del: decode_rune.simps)
qed

text \<open>
  A string whose bytes are all ASCII letters of a class: a \<open>range\<close> that refuses any other
  rune refuses the same strings as a walk over the bytes, because a rune beyond ASCII starts
  with a byte beyond ASCII.
\<close>

lemma decode_rune_small:
  "decode_rune (c # cs) = (r, w) \<Longrightarrow> r < 128 \<Longrightarrow> r = byte c \<and> w = 1"
  by (auto simp: Let_def rune_error_def is_cont_def split: if_splits list.splits)

lemma runes_all_small:
  assumes "\<And>n. P n \<Longrightarrow> n < 128"
  shows "list_all (\<lambda>(r, _). P r) (runes s) \<longleftrightarrow> list_all (\<lambda>c. P (byte c)) s"
proof (induction s rule: runes.induct)
  case 1
  then show ?case by simp
next
  case (2 c cs)
  obtain r w where rw: "decode_rune (c # cs) = (r, w)" by fastforce
  show ?case
  proof (cases "byte c < 128")
    case True
    then have "r = byte c" "w = 1" using rw by (auto simp: Let_def)
    with 2 [OF rw [symmetric]] rw show ?thesis by (simp del: decode_rune.simps)
  next
    case False
    then have "\<not> P (byte c)" using assms by auto
    moreover have "\<not> P r"
      using decode_rune_small [OF rw] False assms by auto
    ultimately show ?thesis using rw by (simp del: decode_rune.simps)
  qed
qed

subsection \<open>Package strings\<close>

definition is_space_rune :: "nat \<Rightarrow> bool" where
  "is_space_rune r \<longleftrightarrow>
     r \<in> {9, 10, 11, 12, 13, 32, 0x85, 0xA0, 0x1680, 0x2028, 0x2029, 0x202F, 0x205F, 0x3000}
     \<or> 0x2000 \<le> r \<and> r \<le> 0x200A"

definition TrimSpace :: "string \<Rightarrow> string" where
  "TrimSpace s =
     concat (map snd (rev (dropWhile (is_space_rune \<circ> fst)
       (rev (dropWhile (is_space_rune \<circ> fst) (runes s))))))"

fun strip_prefix :: "string \<Rightarrow> string \<Rightarrow> string option" where
  "strip_prefix [] s = Some s"
| "strip_prefix (p # ps) [] = None"
| "strip_prefix (p # ps) (c # s) = (if p = c then strip_prefix ps s else None)"

definition HasPrefix :: "string \<Rightarrow> string \<Rightarrow> bool" where
  "HasPrefix s p \<longleftrightarrow> strip_prefix p s \<noteq> None"

definition HasSuffix :: "string \<Rightarrow> string \<Rightarrow> bool" where
  "HasSuffix s p \<longleftrightarrow> HasPrefix (rev s) (rev p)"

definition TrimSuffix :: "string \<Rightarrow> string \<Rightarrow> string" where
  "TrimSuffix s p = (if HasSuffix s p then take (length s - length p) s else s)"

text \<open>\<open>strings.CutPrefix\<close> is \<open>strip_prefix\<close>; \<open>strings.Cut\<close> around a one-byte separator.\<close>

fun cut_at :: "char \<Rightarrow> string \<Rightarrow> (string \<times> string) option" where
  "cut_at x [] = None"
| "cut_at x (c # s) =
    (if c = x then Some ([], s) else map_option (\<lambda>(a, b). (c # a, b)) (cut_at x s))"

lemma strip_prefix_Some: "strip_prefix p s = Some t \<longleftrightarrow> s = p @ t"
  by (induction p s rule: strip_prefix.induct) auto

lemma cut_at_Some: "cut_at x s = Some (a, b) \<Longrightarrow> s = a @ x # b"
  by (induction s arbitrary: a b) (auto split: if_splits)

lemma TrimSpace_ascii:
  assumes "ascii s"
  shows "TrimSpace s =
    rev (dropWhile (\<lambda>c. is_space_rune (byte c)) (rev (dropWhile (\<lambda>c. is_space_rune (byte c)) s)))"
proof -
  have *: "concat (map snd (map (\<lambda>c. (byte c, [c])) xs)) = xs" for xs
    by (induction xs) simp_all
  show ?thesis
    by (simp add: TrimSpace_def runes_ascii [OF assms] dropWhile_map comp_def rev_map
        del: map_map) (simp only: *)
qed

text \<open>A string that starts and ends in a visible ASCII character is its own trimming.\<close>

lemma TrimSpace_no_space:
  assumes "ascii s" "\<forall>c \<in> set s. \<not> is_space_rune (byte c)"
  shows "TrimSpace s = s"
proof -
  have d: "dropWhile (\<lambda>c. is_space_rune (byte c)) xs = xs"
    if "\<forall>c \<in> set xs. \<not> is_space_rune (byte c)" for xs
    using that by (cases xs) auto
  show ?thesis
    using assms by (simp add: TrimSpace_ascii d)
qed

subsection \<open>Package strconv\<close>

definition is_digit :: "char \<Rightarrow> bool" where
  "is_digit c \<longleftrightarrow> 48 \<le> byte c \<and> byte c \<le> 57"

definition digits_value :: "string \<Rightarrow> nat" where
  "digits_value s = foldl (\<lambda>n c. n * 10 + (byte c - 48)) 0 s"

text \<open>Base 10, 64 bits: an out-of-range value is an error, not a wrapped one.\<close>

definition ParseUint :: "string \<Rightarrow> nat option" where
  "ParseUint s =
     (if s \<noteq> [] \<and> list_all is_digit s \<and> digits_value s < 2 ^ 64 then Some (digits_value s) else None)"

definition ParseInt :: "string \<Rightarrow> int option" where
  "ParseInt s =
     (let (neg, ds) = (case s of
            c # cs \<Rightarrow> if c = CHR ''-'' then (True, cs) else if c = CHR ''+'' then (False, cs) else (False, s)
          | [] \<Rightarrow> (False, []))
      in case ParseUint ds of
           None \<Rightarrow> None
         | Some n \<Rightarrow>
             if neg then (if n \<le> 2 ^ 63 then Some (- int n) else None)
             else (if n < 2 ^ 63 then Some (int n) else None))"

subsection \<open>Package time\<close>

text \<open>
  An instant is the nanoseconds since Go's zero time and a duration is nanoseconds; both are
  integers. \<open>Sub\<close> saturates at the 64 bits of a \<open>Duration\<close>, as the library does.
\<close>

type_synonym time = int
type_synonym duration = int

definition IsZero :: "time \<Rightarrow> bool" where
  "IsZero t \<longleftrightarrow> t = 0"

definition time_Sub :: "time \<Rightarrow> time \<Rightarrow> duration" where
  "time_Sub t u = max (- (2 ^ 63)) (min (2 ^ 63 - 1) (t - u))"

definition second :: duration where
  "second = 1000000000"

definition minute :: duration where
  "minute = 60 * second"

definition hour :: duration where
  "hour = 60 * minute"

lemma durations [simp]: "second > 0" "minute > 0" "hour > 0"
  by (simp_all add: second_def minute_def hour_def)

lemma time_Sub_small:
  "\<bar>t - u\<bar> < 2 ^ 63 \<Longrightarrow> time_Sub t u = t - u"
  by (auto simp: time_Sub_def)

lemma time_Sub_less: "d < 2 ^ 63 - 1 \<Longrightarrow> - (2 ^ 63) < d \<Longrightarrow> time_Sub t u < d \<longleftrightarrow> t - u < d"
  by (auto simp: time_Sub_def)

text \<open>The conversion \<open>int32(n)\<close>.\<close>

definition to_int32 :: "int \<Rightarrow> int" where
  "to_int32 n = sint (word_of_int n :: 32 word)"

lemma to_int32_id: "- (2 ^ 31) \<le> n \<Longrightarrow> n < 2 ^ 31 \<Longrightarrow> to_int32 n = n"
  by (simp add: to_int32_def sint_sbintrunc' signed_take_bit_int_eq_self)


subsection \<open>Addresses of net/netip and net/url\<close>

datatype ip = IPv4 "32 word" | IPv6 "128 word"

text \<open>
  The classes of an address, as netip has them: an IPv4 address mapped into IPv6
  (\<open>::ffff:a.b.c.d\<close>) is classified as the IPv4 address it carries.
\<close>

definition unmap :: "ip \<Rightarrow> ip" where
  "unmap a = (case a of
      IPv4 w \<Rightarrow> IPv4 w
    | IPv6 w \<Rightarrow> if drop_bit 32 w = 0xFFFF then IPv4 (ucast w) else IPv6 w)"

definition IsLoopback :: "ip \<Rightarrow> bool" where
  "IsLoopback a = (case unmap a of
      IPv4 w \<Rightarrow> drop_bit 24 w = 127
    | IPv6 w \<Rightarrow> w = 1)"

definition IsPrivate :: "ip \<Rightarrow> bool" where
  "IsPrivate a = (case unmap a of
      IPv4 w \<Rightarrow> drop_bit 24 w = 10 \<or> drop_bit 20 w = 0xAC1 \<or> drop_bit 16 w = 0xC0A8
    | IPv6 w \<Rightarrow> drop_bit 121 w = 0x7E)"

definition IsUnspecified :: "ip \<Rightarrow> bool" where
  "IsUnspecified a \<longleftrightarrow> a = IPv4 0 \<or> a = IPv6 0"

definition IsLinkLocalUnicast :: "ip \<Rightarrow> bool" where
  "IsLinkLocalUnicast a = (case unmap a of
      IPv4 w \<Rightarrow> drop_bit 16 w = 0xA9FE
    | IPv6 w \<Rightarrow> drop_bit 118 w = 0x3FA)"

definition IsLinkLocalMulticast :: "ip \<Rightarrow> bool" where
  "IsLinkLocalMulticast a = (case unmap a of
      IPv4 w \<Rightarrow> drop_bit 8 w = 0xE00000
    | IPv6 w \<Rightarrow> drop_bit 112 w AND 0xFF0F = 0xFF02)"

record url =
  Scheme :: string
  Host :: string
  Hostname :: string
  has_User :: bool

datatype fmt_arg = FmtS string | FmtD int | FmtT time

record golib =
  ParseAddress :: "string \<Rightarrow> bool"
  upper_rune :: "nat \<Rightarrow> nat"
  lower_rune :: "nat \<Rightarrow> nat"
  url_Parse :: "string \<Rightarrow> url option"
  netip_ParseAddr :: "string \<Rightarrow> ip option"
  json_string :: "string \<Rightarrow> string option"
  json_quote :: "string \<Rightarrow> string"
  json_Valid :: "string \<Rightarrow> bool"
  duration_String :: "duration \<Rightarrow> string"
  Sprintf :: "string \<Rightarrow> fmt_arg list \<Rightarrow> string"

text \<open>
  The case conversions: ASCII here, every other rune by the library's table. \<open>strings.Map\<close>
  rewrites an invalid byte as U+FFFD, which \<open>runes\<close> already reads it as.
\<close>

definition to_upper_rune :: "golib \<Rightarrow> nat \<Rightarrow> nat" where
  "to_upper_rune L r =
     (if r < 128 then (if 97 \<le> r \<and> r \<le> 122 then r - 32 else r) else upper_rune L r)"

definition to_lower_rune :: "golib \<Rightarrow> nat \<Rightarrow> nat" where
  "to_lower_rune L r =
     (if r < 128 then (if 65 \<le> r \<and> r \<le> 90 then r + 32 else r) else lower_rune L r)"

definition ToUpper :: "golib \<Rightarrow> string \<Rightarrow> string" where
  "ToUpper L s = concat (map (\<lambda>(r, _). encode_rune (to_upper_rune L r)) (runes s))"

definition ToLower :: "golib \<Rightarrow> string \<Rightarrow> string" where
  "ToLower L s = concat (map (\<lambda>(r, _). encode_rune (to_lower_rune L r)) (runes s))"

lemma concat_map_single: "concat (map (\<lambda>x. [f x]) xs) = map f xs"
  by (induction xs) simp_all

lemma ToUpper_ascii:
  assumes "ascii s"
  shows "ToUpper L s = map (\<lambda>c. char_of (to_upper_rune L (byte c))) s"
proof -
  have "encode_rune (to_upper_rune L (byte c)) = [char_of (to_upper_rune L (byte c))]"
    if "byte c < 128" for c
    using that by (auto simp: encode_rune_def to_upper_rune_def)
  then have "concat (map (\<lambda>c. encode_rune (to_upper_rune L (byte c))) s) =
      concat (map (\<lambda>c. [char_of (to_upper_rune L (byte c))]) s)"
    using assms by (induction s) auto
  then show ?thesis
    by (simp add: ToUpper_def runes_ascii [OF assms] comp_def concat_map_single)
qed

lemma ToLower_ascii:
  assumes "ascii s"
  shows "ToLower L s = map (\<lambda>c. char_of (to_lower_rune L (byte c))) s"
proof -
  have "encode_rune (to_lower_rune L (byte c)) = [char_of (to_lower_rune L (byte c))]"
    if "byte c < 128" for c
    using that by (auto simp: encode_rune_def to_lower_rune_def)
  then have "concat (map (\<lambda>c. encode_rune (to_lower_rune L (byte c))) s) =
      concat (map (\<lambda>c. [char_of (to_lower_rune L (byte c))]) s)"
    using assms by (induction s) auto
  then show ?thesis
    by (simp add: ToLower_def runes_ascii [OF assms] comp_def)
qed

lemma ToLower_id:
  assumes "list_all (\<lambda>c. byte c < 128 \<and> \<not> (65 \<le> byte c \<and> byte c \<le> 90)) s"
  shows "ToLower L s = s"
proof -
  have "map (\<lambda>c. char_of (to_lower_rune L (byte c))) s = s"
  proof (rule map_idI)
    fix c assume "c \<in> set s"
    then have "byte c < 128 \<and> \<not> (65 \<le> byte c \<and> byte c \<le> 90)" using assms by (auto simp: list_all_iff)
    then show "char_of (to_lower_rune L (byte c)) = c"
      by (auto simp: to_lower_rune_def byte_def)
  qed
  moreover have "ascii s" using assms by (auto simp: ascii_def list_all_iff)
  ultimately show ?thesis by (simp add: ToLower_ascii)
qed

lemma length_ToUpper_ascii: "ascii s \<Longrightarrow> length (ToUpper L s) = length s"
  by (simp add: ToUpper_ascii)

end
