(* ===== verification/Errs.thy ===== *)
theory Errs
  imports GoLib
begin

text \<open>
  Errors. Each package's \<open>errors.go\<close> is a datatype of its sentinels (the constructors keep the
  source's names and are written with the datatype's name in front, as Go writes the package),
  with the text each carries. \<open>goerr\<close> is what a Go \<open>error\<close> value can be in this
  program; the second part models \<open>pkg/errs\<close>: the type of an error, the cause chain that
  \<open>WithErr\<close> and \<open>WithStr\<close> accumulate, and the searches \<open>errors.Is\<close> and
  \<open>errors.As\<close> make through it.
\<close>

subsection \<open>Sentinels\<close>

text \<open>The sentinels of \<open>pkg/crypto\<close> and of the senders.\<close>

datatype crypto_error =
    ErrNoKeys
  | ErrNoActiveKey
  | ErrKeySize
  | ErrKeyID
  | ErrMalformed
  | ErrOldVersion
  | ErrUnknownKey
  | ErrCannotOpen

datatype sender_error =
    ErrNoSender
  | telegram_errNoResult
  | bale_errNoResult
  | whatsapp_errNoMessageID
  | matrix_errNoEventID
  | gotify_errNoMessageID
  | fcm_errNoMessageName
  | apns_errNoNotificationID

datatype shared_error =
    ErrInvalidID
  | ErrUnknownChannel
  | ErrEmptyAddress
  | ErrInvalidAddress
  | ErrUnknownPriority

datatype delivery_error =
    ErrNoRecipients
  | ErrDuplicateRecipient
  | ErrNotFound
  | ErrAlreadySettled
  | ErrUnknownStatus
  | ErrUnknownFailureReason
  | ErrMissingNotification
  | ErrMissingIDFunc
  | ErrMissingFailureReason
  | ErrInvalidTransition

datatype notification_error =
    ErrMissingSource
  | ErrMissingTimestamp
  | ErrNotFound
  | ErrDuplicateKey
  | ErrEmptyBody
  | ErrAlreadyExpired
  | ErrUnknownWindow
  | ErrWindowTooLong

datatype source_error =
    ErrEmptyName
  | ErrKeyNotFound
  | ErrNotFound
  | ErrSourceInactive
  | ErrNoRoutes
  | ErrRateLimited
  | ErrCustomAddressNotAllowed
  | ErrNoAddressForChannel
  | ErrMissingSource
  | ErrNoReason
  | ErrAlreadyApproved
  | ErrNotApproved
  | ErrNotReviewed
  | ErrNoReachableAddress
  | ErrUnknownKey
  | ErrKeyLabelRequired
  | ErrKeyLabelTooLong
  | ErrKeyAlreadyExpired

datatype credential_error =
    ErrMissingSource
  | ErrEmptyName
  | ErrInvalidName
  | ErrNotFound
  | ErrInactive
  | ErrNoDefault
  | ErrNoCredentials
  | ErrDefaultUnusable

datatype webhook_error =
    ErrNotFound
  | ErrMissingSource
  | ErrEmptyURL
  | ErrMalformedURL
  | ErrInsecureURL
  | ErrPrivateURL
  | ErrCredentialsInURL

datatype user_error =
    ErrNotFound
  | ErrEmptyEmail
  | ErrInvalidEmail
  | ErrUnknownRole
  | ErrInactive

datatype logincode_error =
    ErrNotFound
  | ErrWrong
  | ErrSpent
  | ErrExpired
  | ErrTooManyGuesses
  | ErrTooManyRequests

datatype session_error =
    ErrNotFound
  | ErrClosed

datatype usecase_error =
    ErrNotOperator
  | ErrNotSuperAdmin
  | ErrSelfTarget
  | ErrTrialNoAddress
  | ErrTrialTooMany

datatype sentinel =
    SharedE shared_error
  | DeliveryE delivery_error
  | NotificationE notification_error
  | SourceE source_error
  | CredentialE credential_error
  | WebhookE webhook_error
  | UserE user_error
  | LogincodeE logincode_error
  | SessionE session_error
  | UsecaseE usecase_error
  | CryptoE crypto_error
  | SenderE sender_error

fun shared_error_text :: "shared_error \<Rightarrow> string" where
  "shared_error_text shared_error.ErrInvalidID = ''invalid id''"
| "shared_error_text shared_error.ErrUnknownChannel = ''unknown channel''"
| "shared_error_text shared_error.ErrEmptyAddress = ''delivery address is empty''"
| "shared_error_text shared_error.ErrInvalidAddress = ''delivery address has the wrong format''"
| "shared_error_text shared_error.ErrUnknownPriority = ''unknown priority''"

fun delivery_error_text :: "delivery_error \<Rightarrow> string" where
  "delivery_error_text delivery_error.ErrNoRecipients = ''at least one recipient is required''"
| "delivery_error_text delivery_error.ErrDuplicateRecipient = ''recipient listed more than once''"
| "delivery_error_text delivery_error.ErrNotFound = ''delivery not found''"
| "delivery_error_text delivery_error.ErrAlreadySettled = ''delivery was already settled by somebody else''"
| "delivery_error_text delivery_error.ErrUnknownStatus = ''unknown delivery status''"
| "delivery_error_text delivery_error.ErrUnknownFailureReason = ''unknown failure reason''"
| "delivery_error_text delivery_error.ErrMissingNotification = ''notification id is required''"
| "delivery_error_text delivery_error.ErrMissingIDFunc = ''delivery id generator is required''"
| "delivery_error_text delivery_error.ErrMissingFailureReason = ''failure reason is required''"
| "delivery_error_text delivery_error.ErrInvalidTransition = ''invalid delivery status transition''"

fun notification_error_text :: "notification_error \<Rightarrow> string" where
  "notification_error_text notification_error.ErrMissingSource = ''source is required''"
| "notification_error_text notification_error.ErrMissingTimestamp = ''creation timestamp is required''"
| "notification_error_text notification_error.ErrNotFound = ''notification not found''"
| "notification_error_text notification_error.ErrDuplicateKey = ''idempotency key already used''"
| "notification_error_text notification_error.ErrEmptyBody = ''body is required''"
| "notification_error_text notification_error.ErrAlreadyExpired = ''expiry is not in the future''"
| "notification_error_text notification_error.ErrUnknownWindow = ''unknown time window''"
| "notification_error_text notification_error.ErrWindowTooLong = ''the time window is longer than messages are kept''"

fun source_error_text :: "source_error \<Rightarrow> string" where
  "source_error_text source_error.ErrEmptyName = ''a source needs a name''"
| "source_error_text source_error.ErrKeyNotFound = ''key not found''"
| "source_error_text source_error.ErrNotFound = ''source not found''"
| "source_error_text source_error.ErrSourceInactive = ''source is not active''"
| "source_error_text source_error.ErrNoRoutes = ''at least one channel is required''"
| "source_error_text source_error.ErrRateLimited = ''source has sent too many requests''"
| "source_error_text source_error.ErrCustomAddressNotAllowed = ''source is not allowed to specify a custom address''"
| "source_error_text source_error.ErrNoAddressForChannel = ''no address configured for this channel''"
| "source_error_text source_error.ErrMissingSource = ''source id is required''"
| "source_error_text source_error.ErrNoReason = ''source: a refusal needs a reason''"
| "source_error_text source_error.ErrAlreadyApproved = ''source: an approved source cannot be refused, only suspended''"
| "source_error_text source_error.ErrNotApproved = ''source: a source that was never approved cannot be suspended''"
| "source_error_text source_error.ErrNotReviewed = ''source: a source nobody has decided about cannot be restored''"
| "source_error_text source_error.ErrNoReachableAddress = ''source: has no default address and does not allow a custom one, so it cannot be activated''"
| "source_error_text source_error.ErrUnknownKey = ''no live key with that hash''"
| "source_error_text source_error.ErrKeyLabelRequired = ''key label is required''"
| "source_error_text source_error.ErrKeyLabelTooLong = ''key label is too long''"
| "source_error_text source_error.ErrKeyAlreadyExpired = ''key expiry is not in the future''"

fun credential_error_text :: "credential_error \<Rightarrow> string" where
  "credential_error_text credential_error.ErrMissingSource = ''source id is required''"
| "credential_error_text credential_error.ErrEmptyName = ''credential name is required''"
| "credential_error_text credential_error.ErrInvalidName = ''credential name has the wrong format''"
| "credential_error_text credential_error.ErrNotFound = ''no credential with that name''"
| "credential_error_text credential_error.ErrInactive = ''credential is not active''"
| "credential_error_text credential_error.ErrNoDefault = ''no default credential for this channel''"
| "credential_error_text credential_error.ErrNoCredentials = ''source has no credential on this channel''"
| "credential_error_text credential_error.ErrDefaultUnusable = ''an inactive credential cannot be the default''"

fun webhook_error_text :: "webhook_error \<Rightarrow> string" where
  "webhook_error_text webhook_error.ErrNotFound = ''no callback registered for this source''"
| "webhook_error_text webhook_error.ErrMissingSource = ''source id is required''"
| "webhook_error_text webhook_error.ErrEmptyURL = ''callback url is required''"
| "webhook_error_text webhook_error.ErrMalformedURL = ''callback url cannot be parsed''"
| "webhook_error_text webhook_error.ErrInsecureURL = ''callback url must use https''"
| "webhook_error_text webhook_error.ErrPrivateURL = ''callback url points inside our own network''"
| "webhook_error_text webhook_error.ErrCredentialsInURL = ''callback url must not carry credentials''"

fun user_error_text :: "user_error \<Rightarrow> string" where
  "user_error_text user_error.ErrNotFound = ''user not found''"
| "user_error_text user_error.ErrEmptyEmail = ''email is required''"
| "user_error_text user_error.ErrInvalidEmail = ''email is not an address''"
| "user_error_text user_error.ErrUnknownRole = ''unknown role''"
| "user_error_text user_error.ErrInactive = ''user cannot sign in''"

fun logincode_error_text :: "logincode_error \<Rightarrow> string" where
  "logincode_error_text logincode_error.ErrNotFound = ''login code not found''"
| "logincode_error_text logincode_error.ErrWrong = ''that code is not right''"
| "logincode_error_text logincode_error.ErrSpent = ''that code has already been used''"
| "logincode_error_text logincode_error.ErrExpired = ''that code has expired''"
| "logincode_error_text logincode_error.ErrTooManyGuesses = ''too many attempts''"
| "logincode_error_text logincode_error.ErrTooManyRequests = ''too many sign-in requests''"

fun session_error_text :: "session_error \<Rightarrow> string" where
  "session_error_text session_error.ErrNotFound = ''session not found''"
| "session_error_text session_error.ErrClosed = ''session has ended''"

fun usecase_error_text :: "usecase_error \<Rightarrow> string" where
  "usecase_error_text usecase_error.ErrNotOperator = ''actor is not an operator''"
| "usecase_error_text usecase_error.ErrNotSuperAdmin = ''actor is not a super_admin''"
| "usecase_error_text usecase_error.ErrSelfTarget = ''actor is the target''"
| "usecase_error_text usecase_error.ErrTrialNoAddress = ''source has no default address on this channel''"
| "usecase_error_text usecase_error.ErrTrialTooMany = ''too many trials for this source''"

fun crypto_error_text :: "crypto_error \<Rightarrow> string" where
  "crypto_error_text crypto_error.ErrNoKeys = ''keyring is empty''"
| "crypto_error_text crypto_error.ErrNoActiveKey = ''keyring has no active key''"
| "crypto_error_text crypto_error.ErrKeySize = ''key is not 32 bytes''"
| "crypto_error_text crypto_error.ErrKeyID = ''key id is empty or contains a separator''"
| "crypto_error_text crypto_error.ErrMalformed = ''sealed value is malformed''"
| "crypto_error_text crypto_error.ErrOldVersion = ''sealed value was written by a version this build cannot read''"
| "crypto_error_text crypto_error.ErrUnknownKey = ''sealed value names a key the keyring does not hold''"
| "crypto_error_text crypto_error.ErrCannotOpen = ''sealed value could not be opened''"

fun sender_error_text :: "sender_error \<Rightarrow> string" where
  "sender_error_text ErrNoSender = ''no sender configured for this channel''"
| "sender_error_text telegram_errNoResult = ''telegram said ok with no result''"
| "sender_error_text bale_errNoResult = ''bale said ok with no result''"
| "sender_error_text whatsapp_errNoMessageID = ''whatsapp accepted the message without naming it''"
| "sender_error_text matrix_errNoEventID = ''matrix accepted the message without naming the event''"
| "sender_error_text gotify_errNoMessageID = ''gotify accepted the message without naming it''"
| "sender_error_text fcm_errNoMessageName = ''fcm accepted the message without naming it''"
| "sender_error_text apns_errNoNotificationID = ''apns accepted the message without naming it''"

fun sentinel_text :: "sentinel \<Rightarrow> string" where
  "sentinel_text (SharedE e) = shared_error_text e"
| "sentinel_text (DeliveryE e) = delivery_error_text e"
| "sentinel_text (NotificationE e) = notification_error_text e"
| "sentinel_text (SourceE e) = source_error_text e"
| "sentinel_text (CredentialE e) = credential_error_text e"
| "sentinel_text (WebhookE e) = webhook_error_text e"
| "sentinel_text (UserE e) = user_error_text e"
| "sentinel_text (LogincodeE e) = logincode_error_text e"
| "sentinel_text (SessionE e) = session_error_text e"
| "sentinel_text (UsecaseE e) = usecase_error_text e"
| "sentinel_text (CryptoE e) = crypto_error_text e"
| "sentinel_text (SenderE e) = sender_error_text e"

subsection \<open>Error values\<close>

text \<open>
  \<open>SendKind\<close> and \<open>SendError\<close> of \<open>shared/senderror.go\<close> are here because an
  error value may be one.
\<close>

datatype send_kind = SendTransient | SendPermanent | SendUnreachable

datatype err_type =
    ErrUnknown
  | ErrInvalidInput
  | ErrUnauthorized
  | ErrForbidden
  | ErrNotFound
  | ErrDuplicateEntry
  | ErrTooMany
  | ErrInternal
  | ErrUnavailable
  | ErrTimeout
  | ErrTypeOther int

text \<open>
  An error value: a sentinel; a text made with \<open>errors.New\<close> (a format and its operands);
  an \<open>AppError\<close> (type, message, reason); the double \<open>%w\<close> of \<open>chainReason\<close>;
  a \<open>fmt.Errorf\<close> with one \<open>%w\<close>; a \<open>SendError\<close> (kind, retry hint, detail, cause);
  and an error a library made, by its name.
\<close>

datatype goerr =
    Sentinel sentinel
  | Text string "fmt_arg list"
  | App err_type string "goerr option"
  | Joined goerr goerr
  | Wrapped string goerr
  | Send send_kind duration string "goerr option"
  | Foreign string

type_synonym 'a result = "goerr + 'a"

text \<open>A function whose only result is an \<open>error\<close>: \<open>Inr ()\<close> is nil.\<close>

abbreviation ok :: "unit result" where
  "ok \<equiv> Inr ()"

definition then_result :: "'a result \<Rightarrow> ('a \<Rightarrow> 'b result) \<Rightarrow> 'b result" where
  "then_result r f = (case r of Inl e \<Rightarrow> Inl e | Inr x \<Rightarrow> f x)"

lemma then_result_simps [simp]:
  "then_result (Inl e) f = Inl e"
  "then_result (Inr x) f = f x"
  by (simp_all add: then_result_def)

lemma then_result_Inr:
  "then_result r f = Inr y \<longleftrightarrow> (\<exists>x. r = Inr x \<and> f x = Inr y)"
  by (cases r) auto

subsection \<open>Package errs\<close>

fun Type_String :: "err_type \<Rightarrow> string" where
  "Type_String ErrInvalidInput = ''INVALID_INPUT''"
| "Type_String ErrUnauthorized = ''UNAUTHORIZED''"
| "Type_String ErrForbidden = ''FORBIDDEN''"
| "Type_String err_type.ErrNotFound = ''NOT_FOUND''"
| "Type_String ErrDuplicateEntry = ''DUPLICATE_ENTRY''"
| "Type_String ErrTooMany = ''TOO_MANY_REQUESTS''"
| "Type_String ErrInternal = ''INTERNAL_ERROR''"
| "Type_String ErrUnavailable = ''SERVICE_UNAVAILABLE''"
| "Type_String ErrTimeout = ''TIMEOUT''"
| "Type_String ErrUnknown = ''UNKNOWN''"
| "Type_String (ErrTypeOther n) = ''UNKNOWN''"

definition chainReason :: "goerr option \<Rightarrow> goerr option \<Rightarrow> goerr option" where
  "chainReason existing nxt =
     (case existing of
        None \<Rightarrow> nxt
      | Some a \<Rightarrow> (case nxt of None \<Rightarrow> existing | Some b \<Rightarrow> Some (Joined a b)))"

definition New :: "err_type \<Rightarrow> string \<Rightarrow> goerr" where
  "New t msg = App t msg None"

fun WithErr :: "goerr \<Rightarrow> goerr \<Rightarrow> goerr" where
  "WithErr (App t msg reason) err = App t msg (chainReason reason (Some err))"
| "WithErr e err = e"

fun WithStr :: "goerr \<Rightarrow> goerr \<Rightarrow> goerr" where
  "WithStr (App t msg reason) str = App t msg (chainReason reason (Some str))"
| "WithStr e str = e"

definition InvalidInputErr :: "string \<Rightarrow> goerr" where
  "InvalidInputErr msg = New ErrInvalidInput msg"

definition UnauthorizedErr :: "string \<Rightarrow> goerr" where
  "UnauthorizedErr msg = New ErrUnauthorized msg"

definition ForbiddenErr :: "string \<Rightarrow> goerr" where
  "ForbiddenErr msg = New ErrForbidden msg"

definition NotFoundErr :: "string \<Rightarrow> goerr" where
  "NotFoundErr msg = New err_type.ErrNotFound msg"

definition DuplicateErr :: "string \<Rightarrow> goerr" where
  "DuplicateErr msg = New ErrDuplicateEntry msg"

definition TooManyErr :: "string \<Rightarrow> goerr" where
  "TooManyErr msg = New ErrTooMany msg"

definition InternalErr :: "string \<Rightarrow> goerr" where
  "InternalErr msg = New ErrInternal msg"

definition UnavailableErr :: "string \<Rightarrow> goerr" where
  "UnavailableErr msg = New ErrUnavailable msg"

definition TimeoutErr :: "string \<Rightarrow> goerr" where
  "TimeoutErr msg = New ErrTimeout msg"

lemmas err_constructors =
  New_def InvalidInputErr_def UnauthorizedErr_def ForbiddenErr_def NotFoundErr_def DuplicateErr_def
  TooManyErr_def InternalErr_def UnavailableErr_def TimeoutErr_def

text \<open>
  \<open>errors.Is\<close> with a sentinel, and \<open>errors.As\<close> for each of the two error types: depth
  first, an error before its causes, the first operand of a join before the second.
\<close>

fun is_err :: "goerr \<Rightarrow> sentinel \<Rightarrow> bool" where
  "is_err (Sentinel s) t \<longleftrightarrow> s = t"
| "is_err (Text f args) t \<longleftrightarrow> False"
| "is_err (App ty m None) t \<longleftrightarrow> False"
| "is_err (App ty m (Some r)) t \<longleftrightarrow> is_err r t"
| "is_err (Joined a b) t \<longleftrightarrow> is_err a t \<or> is_err b t"
| "is_err (Wrapped m e) t \<longleftrightarrow> is_err e t"
| "is_err (Send k d m None) t \<longleftrightarrow> False"
| "is_err (Send k d m (Some r)) t \<longleftrightarrow> is_err r t"
| "is_err (Foreign n) t \<longleftrightarrow> False"

fun as_app :: "goerr \<Rightarrow> (err_type \<times> string \<times> goerr option) option" where
  "as_app (Sentinel s) = None"
| "as_app (Text f args) = None"
| "as_app (App ty m r) = Some (ty, m, r)"
| "as_app (Joined a b) = (case as_app a of None \<Rightarrow> as_app b | Some x \<Rightarrow> Some x)"
| "as_app (Wrapped m e) = as_app e"
| "as_app (Send k d m None) = None"
| "as_app (Send k d m (Some r)) = as_app r"
| "as_app (Foreign n) = None"

fun as_send :: "goerr \<Rightarrow> (send_kind \<times> duration) option" where
  "as_send (Sentinel s) = None"
| "as_send (Text f args) = None"
| "as_send (App ty m None) = None"
| "as_send (App ty m (Some r)) = as_send r"
| "as_send (Joined a b) = (case as_send a of None \<Rightarrow> as_send b | Some x \<Rightarrow> Some x)"
| "as_send (Wrapped m e) = as_send e"
| "as_send (Send k d m r) = Some (k, d)"
| "as_send (Foreign n) = None"

definition IsType :: "goerr \<Rightarrow> err_type \<Rightarrow> bool" where
  "IsType err t = (case as_app err of Some (ty, _, _) \<Rightarrow> ty = t | None \<Rightarrow> False)"

definition TypeOf :: "goerr \<Rightarrow> err_type" where
  "TypeOf err = (case as_app err of Some (ty, _, _) \<Rightarrow> ty | None \<Rightarrow> ErrInternal)"

text \<open>\<open>Error()\<close>. The detail of a text is formatted by package fmt.\<close>

fun Error :: "golib \<Rightarrow> goerr \<Rightarrow> string" where
  "Error L (Sentinel s) = sentinel_text s"
| "Error L (Text f args) = (if args = [] then f else Sprintf L f args)"
| "Error L (App ty m None) = Type_String ty @ '': '' @ m"
| "Error L (App ty m (Some r)) = (Type_String ty @ '': '' @ m) @ '' ('' @ Error L r @ '')''"
| "Error L (Joined a b) = Error L a @ '': '' @ Error L b"
| "Error L (Wrapped m e) = m @ '': '' @ Error L e"
| "Error L (Send k d m r) = m"
| "Error L (Foreign n) = n"

subsection \<open>Searching a chain\<close>

lemma is_err_simps [simp, sentinel_simps]:
  "is_err (New t m) s \<longleftrightarrow> False"
  "is_err (InvalidInputErr m) s \<longleftrightarrow> False"
  "is_err (UnauthorizedErr m) s \<longleftrightarrow> False"
  "is_err (ForbiddenErr m) s \<longleftrightarrow> False"
  "is_err (NotFoundErr m) s \<longleftrightarrow> False"
  "is_err (DuplicateErr m) s \<longleftrightarrow> False"
  "is_err (TooManyErr m) s \<longleftrightarrow> False"
  "is_err (InternalErr m) s \<longleftrightarrow> False"
  "is_err (UnavailableErr m) s \<longleftrightarrow> False"
  "is_err (TimeoutErr m) s \<longleftrightarrow> False"
  by (simp_all add: err_constructors)

text \<open>
  \<open>of_type t e\<close>: the error is an \<open>AppError\<close> of type \<open>t\<close> itself. Attaching causes keeps
  the type, and every cause attached stays findable.
\<close>

fun of_type :: "err_type \<Rightarrow> goerr \<Rightarrow> bool" where
  "of_type t (App ty m r) \<longleftrightarrow> ty = t"
| "of_type t e \<longleftrightarrow> False"

lemma of_type_App: "of_type t e \<longleftrightarrow> (\<exists>m r. e = App t m r)"
  by (cases e) auto

lemma of_type_simps [simp, sentinel_simps]:
  "of_type t (New t' m) \<longleftrightarrow> t' = t"
  "of_type t (InvalidInputErr m) \<longleftrightarrow> t = ErrInvalidInput"
  "of_type t (UnauthorizedErr m) \<longleftrightarrow> t = ErrUnauthorized"
  "of_type t (ForbiddenErr m) \<longleftrightarrow> t = ErrForbidden"
  "of_type t (NotFoundErr m) \<longleftrightarrow> t = err_type.ErrNotFound"
  "of_type t (DuplicateErr m) \<longleftrightarrow> t = ErrDuplicateEntry"
  "of_type t (TooManyErr m) \<longleftrightarrow> t = ErrTooMany"
  "of_type t (InternalErr m) \<longleftrightarrow> t = ErrInternal"
  "of_type t (UnavailableErr m) \<longleftrightarrow> t = ErrUnavailable"
  "of_type t (TimeoutErr m) \<longleftrightarrow> t = ErrTimeout"
  "of_type t (WithErr e c) \<longleftrightarrow> of_type t e"
  "of_type t (WithStr e c) \<longleftrightarrow> of_type t e"
  by (auto simp: err_constructors of_type_App) (cases e; auto)+

definition is_app :: "goerr \<Rightarrow> bool" where
  "is_app e \<longleftrightarrow> (\<exists>t m r. e = App t m r)"

lemma is_app_simps [simp, sentinel_simps]:
  "is_app (App t m r)"
  "is_app (New t m)"
  "is_app (InvalidInputErr m)"
  "is_app (UnauthorizedErr m)"
  "is_app (ForbiddenErr m)"
  "is_app (NotFoundErr m)"
  "is_app (DuplicateErr m)"
  "is_app (TooManyErr m)"
  "is_app (InternalErr m)"
  "is_app (UnavailableErr m)"
  "is_app (TimeoutErr m)"
  "is_app (WithErr e c) \<longleftrightarrow> is_app e"
  "is_app (WithStr e c) \<longleftrightarrow> is_app e"
  by (auto simp: is_app_def err_constructors) (cases e; auto)+

lemma is_err_WithErr [simp, sentinel_simps]:
  "is_app e \<Longrightarrow> is_err (WithErr e c) s \<longleftrightarrow> is_err e s \<or> is_err c s"
  "is_app e \<Longrightarrow> is_err (WithStr e c) s \<longleftrightarrow> is_err e s \<or> is_err c s"
  by (auto simp: is_app_def chainReason_def split: option.splits)

lemma TypeOf_of_type: "of_type t e \<Longrightarrow> TypeOf e = t \<and> IsType e t"
  by (auto simp: of_type_App TypeOf_def IsType_def)

lemma IsType_TypeOf: "IsType e t \<Longrightarrow> TypeOf e = t"
  by (auto simp: TypeOf_def IsType_def split: option.splits)

lemma is_app_as_app: "is_app e \<Longrightarrow> as_app e \<noteq> None"
  by (auto simp: is_app_def)

lemma as_send_simps [simp, sentinel_simps]:
  "as_send (New t m) = None"
  "as_send (InvalidInputErr m) = None"
  "as_send (NotFoundErr m) = None"
  "as_send (InternalErr m) = None"
  "as_send (UnavailableErr m) = None"
  by (simp_all add: err_constructors)

subsection \<open>Send errors\<close>

definition Final :: "send_kind \<Rightarrow> bool" where
  "Final k \<longleftrightarrow> k = SendPermanent \<or> k = SendUnreachable"

definition SendKindOf :: "goerr \<Rightarrow> send_kind" where
  "SendKindOf err = (case as_send err of Some (k, _) \<Rightarrow> k | None \<Rightarrow> SendTransient)"

definition IsPermanentSend :: "goerr \<Rightarrow> bool" where
  "IsPermanentSend err = Final (SendKindOf err)"

definition SendRetryAfter :: "goerr \<Rightarrow> duration" where
  "SendRetryAfter err = (case as_send err of Some (_, d) \<Rightarrow> d | None \<Rightarrow> 0)"

text \<open>
  Whatever \<open>WithErr\<close> and \<open>WithStr\<close> attach to an application error, in whatever
  order and however often, the error keeps its type, every sentinel that was findable in it or in
  an attached cause is findable in the result, and nothing else is.
\<close>

theorem attached_causes_findable:
  fixes causes :: "(bool \<times> goerr) list"
  defines "attach \<equiv> \<lambda>e (detail, c). if detail then WithStr e c else WithErr e c"
  shows "IsType (foldl attach (App t m r) causes) t \<and>
    (\<forall>s. is_err (foldl attach (App t m r) causes) s
       = (is_err (App t m r) s \<or> list_ex (\<lambda>(_, c). is_err c s) causes))"
proof (induction causes arbitrary: r)
  case Nil
  then show ?case by (simp add: IsType_def)
next
  case (Cons p causes)
  obtain b c where p: "p = (b, c)" by fastforce
  have "is_err (WithErr (App t m r) c) s = (is_err (App t m r) s \<or> is_err c s)" for s
    by (rule is_err_WithErr) simp
  moreover have "attach (App t m r) p = WithErr (App t m r) c"
    by (simp add: attach_def p)
  ultimately show ?case using Cons [of "chainReason r (Some c)"] by (auto simp: p)
qed

end
