(* ===== verification/Shared.thy ===== *)
theory Shared
  imports Errs
begin

text \<open>
  The value objects of \<open>internal/core/shared\<close>: channels and the address rule of each,
  identifiers, priorities, recipients, cursors, and the two messages the core hands out.
\<close>

subsection \<open>Channels\<close>

text \<open>
  \<open>Channel\<close> is a named string: its eight constants, and every other string, which only a
  conversion from a string can make. \<open>Channel\<close> is that conversion.
\<close>

datatype channel =
    ChannelEmail
  | ChannelTelegram
  | ChannelBale
  | ChannelWhatsApp
  | ChannelMatrix
  | ChannelGotify
  | ChannelFCM
  | ChannelAPNs
  | ChannelOther string

fun Channel_String :: "channel \<Rightarrow> string" where
  "Channel_String ChannelEmail = ''email''"
| "Channel_String ChannelTelegram = ''telegram''"
| "Channel_String ChannelBale = ''bale''"
| "Channel_String ChannelWhatsApp = ''whatsapp''"
| "Channel_String ChannelMatrix = ''matrix''"
| "Channel_String ChannelGotify = ''gotify''"
| "Channel_String ChannelFCM = ''fcm''"
| "Channel_String ChannelAPNs = ''apns''"
| "Channel_String (ChannelOther s) = s"

definition AllChannels :: "channel list" where
  "AllChannels =
     [ChannelEmail, ChannelTelegram, ChannelBale, ChannelWhatsApp,
      ChannelMatrix, ChannelGotify, ChannelFCM, ChannelAPNs]"

definition Channel :: "string \<Rightarrow> channel" where
  "Channel s = (case find (\<lambda>c. Channel_String c = s) AllChannels of
     Some c \<Rightarrow> c | None \<Rightarrow> ChannelOther s)"

fun Channel_Valid :: "channel \<Rightarrow> bool" where
  "Channel_Valid (ChannelOther s) = False"
| "Channel_Valid c = True"

lemma Channel_Valid_iff: "Channel_Valid c \<longleftrightarrow> c \<in> set AllChannels"
  by (cases c) (simp_all add: AllChannels_def)

lemma Channel_String_Channel [simp]: "Channel_String (Channel s) = s"
  by (auto simp: Channel_def find_Some_iff split: option.split)

lemma Channel_Channel_String [simp]: "Channel_Valid c \<Longrightarrow> Channel (Channel_String c) = c"
  by (cases c) (simp_all add: Channel_def AllChannels_def)

lemma Channel_String_inj:
  "Channel_Valid c \<Longrightarrow> Channel_Valid d \<Longrightarrow> Channel_String c = Channel_String d \<Longrightarrow> c = d"
  by (metis Channel_Channel_String)

definition ParseChannel :: "string \<Rightarrow> channel result" where
  "ParseChannel s =
     (let c = Channel s in
      if \<not> Channel_Valid c then
        Inl (WithStr (WithErr (InvalidInputErr ''unknown channel'')
               (Sentinel (SharedE ErrUnknownChannel)))
             (Text ''got %q'' [FmtS s]))
      else Inr c)"

subsection \<open>The shape of an address\<close>

definition idLength :: nat where "idLength = 26"

definition crockfordBase :: string where
  "crockfordBase = ''0123456789ABCDEFGHJKMNPQRSTVWXYZ''"

definition minUsernameLen :: nat where "minUsernameLen = 5"
definition maxUsernameLen :: nat where "maxUsernameLen = 32"
definition minE164Digits :: nat where "minE164Digits = 8"
definition maxE164Digits :: nat where "maxE164Digits = 15"
definition DefaultPageSize :: int where "DefaultPageSize = 50"
definition MaxPageSize :: int where "MaxPageSize = 500"
definition matrixRoomSigil :: string where "matrixRoomSigil = ''!''"
definition minDeviceTokenLen :: nat where "minDeviceTokenLen = 32"
definition maxDeviceTokenLen :: nat where "maxDeviceTokenLen = 4096"
definition minAPNsTokenLen :: nat where "minAPNsTokenLen = 32"
definition maxAPNsTokenLen :: nat where "maxAPNsTokenLen = 200"

lemmas shared_consts =
  idLength_def crockfordBase_def minUsernameLen_def maxUsernameLen_def minE164Digits_def
  maxE164Digits_def DefaultPageSize_def MaxPageSize_def matrixRoomSigil_def minDeviceTokenLen_def
  maxDeviceTokenLen_def minAPNsTokenLen_def maxAPNsTokenLen_def

definition invalidAddress :: "channel \<Rightarrow> string \<Rightarrow> string \<Rightarrow> goerr" where
  "invalidAddress c address detail =
     WithStr (WithErr (InvalidInputErr ''invalid delivery address'')
        (Sentinel (SharedE ErrInvalidAddress)))
      (Text ''channel %q, address %q: %s'' [FmtS (Channel_String c), FmtS address, FmtS detail])"

definition isChatID :: "string \<Rightarrow> bool" where
  "isChatID s \<longleftrightarrow> ParseInt s \<noteq> None"

text \<open>
  The loops over the runes of a string carry the byte index of each rune, which is what Go's
  \<open>range\<close> yields: \<open>isUsername\<close> compares it with \<open>len(s)-1\<close>.
\<close>

fun username_runes :: "nat \<Rightarrow> nat \<Rightarrow> (nat \<times> string) list \<Rightarrow> bool" where
  "username_runes len i [] = True"
| "username_runes len i ((r, bs) # rs) =
    (if 97 \<le> r \<and> r \<le> 122 \<or> 65 \<le> r \<and> r \<le> 90 then username_runes len (i + length bs) rs
     else if 48 \<le> r \<and> r \<le> 57 then
       (if i = 0 then False else username_runes len (i + length bs) rs)
     else if r = 95 then
       (if i = 0 \<or> i = len - 1 then False else username_runes len (i + length bs) rs)
     else False)"

definition isUsername :: "string \<Rightarrow> bool" where
  "isUsername s =
    (if length s < minUsernameLen \<or> maxUsernameLen < length s then False
     else username_runes (length s) 0 (runes s))"

definition isMatrixRoom :: "string \<Rightarrow> bool" where
  "isMatrixRoom s =
     (case strip_prefix matrixRoomSigil s of
        None \<Rightarrow> False
      | Some local \<Rightarrow>
          (case cut_at CHR '':'' local of
             None \<Rightarrow> False
           | Some (name, server) \<Rightarrow> name \<noteq> '''' \<and> server \<noteq> ''''))"

definition isGotifyAppID :: "string \<Rightarrow> bool" where
  "isGotifyAppID s = (case ParseUint s of None \<Rightarrow> False | Some n \<Rightarrow> 0 < n)"

definition isE164 :: "string \<Rightarrow> bool" where
  "isE164 s =
     (case strip_prefix ''+'' s of
        None \<Rightarrow> False
      | Some digits \<Rightarrow>
          if length digits < minE164Digits \<or> maxE164Digits < length digits then False
          else list_all (\<lambda>(r, _). \<not> (r < 48 \<or> 57 < r)) (runes digits))"

definition isHex :: "string \<Rightarrow> bool" where
  "isHex s = list_all (\<lambda>(r, _). 48 \<le> r \<and> r \<le> 57 \<or> 97 \<le> r \<and> r \<le> 102 \<or> 65 \<le> r \<and> r \<le> 70)
     (runes s)"

definition ValidateAddress :: "golib \<Rightarrow> channel \<Rightarrow> string \<Rightarrow> unit result" where
  "ValidateAddress L c address =
    (let t = TrimSpace address in
     if t = '''' then
       Inl (WithStr (WithErr (InvalidInputErr ''delivery address is empty'')
              (Sentinel (SharedE ErrEmptyAddress)))
            (Text ''channel %q'' [FmtS (Channel_String c)]))
     else case c of
       ChannelEmail \<Rightarrow>
         if \<not> ParseAddress L t then Inl (invalidAddress c t ''not a valid email address'') else ok
     | ChannelTelegram \<Rightarrow>
         if HasPrefix t ''@'' then
           (if \<not> isUsername (drop 1 t) then Inl (invalidAddress c t ''not a valid @name'') else ok)
         else if \<not> isChatID t then Inl (invalidAddress c t ''neither a chat id nor an @name'')
         else ok
     | ChannelBale \<Rightarrow>
         if HasPrefix t ''@'' then
           (if \<not> isUsername (drop 1 t) then Inl (invalidAddress c t ''not a valid @name'') else ok)
         else if \<not> isChatID t then Inl (invalidAddress c t ''neither a chat id nor an @name'')
         else ok
     | ChannelWhatsApp \<Rightarrow>
         if \<not> isE164 t then Inl (invalidAddress c t ''not an E.164 phone number'') else ok
     | ChannelFCM \<Rightarrow>
         if length t < minDeviceTokenLen \<or> maxDeviceTokenLen < length t
         then Inl (invalidAddress c t ''not a device token'') else ok
     | ChannelAPNs \<Rightarrow>
         if length t < minAPNsTokenLen \<or> maxAPNsTokenLen < length t \<or> \<not> isHex t
         then Inl (invalidAddress c t ''not a device token'') else ok
     | ChannelMatrix \<Rightarrow>
         if \<not> isMatrixRoom t then Inl (invalidAddress c t ''not a matrix room id'') else ok
     | ChannelGotify \<Rightarrow>
         if \<not> isGotifyAppID t then Inl (invalidAddress c t ''not a gotify application id'') else ok
     | ChannelOther _ \<Rightarrow>
         Inl (WithStr (WithErr (InvalidInputErr ''unknown channel'')
                (Sentinel (SharedE ErrUnknownChannel)))
              (Text ''no address rule for %q'' [FmtS (Channel_String c)])))"

lemma invalidAddress_simps [simp, sentinel_simps]:
  "is_err (invalidAddress c a d) s \<longleftrightarrow> s = SharedE ErrInvalidAddress"
  "of_type t (invalidAddress c a d) \<longleftrightarrow> t = ErrInvalidInput"
  by (auto simp: invalidAddress_def)

text \<open>What a validated address looks like, channel by channel, over the bytes of the string.\<close>

definition letter :: "char \<Rightarrow> bool" where
  "letter c \<longleftrightarrow> 97 \<le> byte c \<and> byte c \<le> 122 \<or> 65 \<le> byte c \<and> byte c \<le> 90"

definition word_char :: "char \<Rightarrow> bool" where
  "word_char c \<longleftrightarrow> letter c \<or> is_digit c \<or> c = CHR ''_''"

definition hex_char :: "char \<Rightarrow> bool" where
  "hex_char c \<longleftrightarrow> is_digit c \<or> 97 \<le> byte c \<and> byte c \<le> 102 \<or> 65 \<le> byte c \<and> byte c \<le> 70"

definition address_shape :: "golib \<Rightarrow> channel \<Rightarrow> string \<Rightarrow> bool" where
  "address_shape L c t \<longleftrightarrow> (case c of
      ChannelEmail \<Rightarrow> ParseAddress L t
    | ChannelWhatsApp \<Rightarrow> (\<exists>ds. t = ''+'' @ ds \<and> 8 \<le> length ds \<and> length ds \<le> 15 \<and> list_all is_digit ds)
    | ChannelFCM \<Rightarrow> 32 \<le> length t \<and> length t \<le> 4096
    | ChannelAPNs \<Rightarrow> 32 \<le> length t \<and> length t \<le> 200 \<and> list_all hex_char t
    | ChannelMatrix \<Rightarrow> (\<exists>a b. t = ''!'' @ a @ '':'' @ b \<and> a \<noteq> [] \<and> CHR '':'' \<notin> set a \<and> b \<noteq> [])
    | ChannelGotify \<Rightarrow> list_all is_digit t \<and> 0 < digits_value t \<and> digits_value t < 2 ^ 64
    | ChannelOther _ \<Rightarrow> False
    | _ \<Rightarrow>
        (\<exists>u. t = ''@'' @ u \<and> 5 \<le> length u \<and> length u \<le> 32 \<and> list_all word_char u
             \<and> letter (hd u) \<and> last u \<noteq> CHR ''_'')
        \<or> (\<exists>ds. (t = ds \<or> t = ''+'' @ ds) \<and> ds \<noteq> [] \<and> list_all is_digit ds \<and> digits_value ds < 2 ^ 63)
        \<or> (\<exists>ds. t = ''-'' @ ds \<and> ds \<noteq> [] \<and> list_all is_digit ds \<and> digits_value ds \<le> 2 ^ 63))"

lemma byte_eq_iff: "byte c = byte d \<longleftrightarrow> c = d"
  by (simp add: byte_def)

lemma byte_simps [simp]:
  "byte CHR ''_'' = 95" "byte CHR ''@'' = 64" "byte CHR ''-'' = 45" "byte CHR ''+'' = 43"
  by (simp_all add: byte_def)

text \<open>The loop of \<open>isUsername\<close>: its failures are at the first and the last byte only.\<close>

lemma username_runes_bytes:
  "username_runes len i (runes s) \<longleftrightarrow>
     list_all word_char s
     \<and> (\<forall>j < length s. i + j = 0 \<longrightarrow> letter (s ! j))
     \<and> (\<forall>j < length s. i + j = len - 1 \<longrightarrow> s ! j \<noteq> CHR ''_'')"
proof (induction s arbitrary: i rule: runes.induct)
  case 1
  then show ?case by simp
next
  case (2 c cs)
  obtain r w where rw: "decode_rune (c # cs) = (r, w)" by fastforce
  show ?case
  proof (cases "byte c < 128")
    case True
    then have [simp]: "r = byte c" "w = 1" using rw by (auto simp: Let_def)
    have c95: "byte c = 95 \<longleftrightarrow> c = CHR ''_''"
      using byte_eq_iff [of c "CHR ''_''"] by simp
    let ?R = "username_runes len (Suc i) (runes cs)"
    define P where "P j \<longleftrightarrow> i + j = len - 1" for j
    have IH: "?R \<longleftrightarrow> list_all word_char cs \<and> (\<forall>j < length cs. P (Suc j) \<longrightarrow> cs ! j \<noteq> CHR ''_'')"
      using 2 [OF rw [symmetric], of "Suc i"] by (simp add: P_def)
    have step: "username_runes len i (runes (c # cs)) =
        (if letter c then ?R else if is_digit c then i \<noteq> 0 \<and> ?R
         else c = CHR ''_'' \<and> i \<noteq> 0 \<and> \<not> P 0 \<and> ?R)"
      using rw by (simp del: decode_rune.simps add: P_def c95 letter_def is_digit_def)
    have split_all: "(\<forall>j < length (c # cs). Q j) \<longleftrightarrow> Q 0 \<and> (\<forall>j < length cs. Q (Suc j))" for Q
      by (auto simp: less_Suc_eq_0_disj)
    have "\<not> letter CHR ''_''" "\<not> is_digit CHR ''_''" "\<not> (letter c \<and> is_digit c)"
      "word_char c \<longleftrightarrow> letter c \<or> is_digit c \<or> c = CHR ''_''"
      by (auto simp: letter_def is_digit_def word_char_def)
    then show ?thesis
      unfolding split_all step IH P_def [symmetric]
      by (cases "letter c"; cases "is_digit c"; cases "c = CHR ''_''"; cases "i = 0") auto
  next
    case False
    then have "\<not> word_char c"
      by (auto simp: word_char_def letter_def is_digit_def)
    moreover have "\<not> r < 128"
      using decode_rune_small [OF rw] False by auto
    ultimately show ?thesis using rw by (simp del: decode_rune.simps)
  qed
qed

lemma isUsername_iff:
  "isUsername u \<longleftrightarrow> 5 \<le> length u \<and> length u \<le> 32 \<and> list_all word_char u
     \<and> letter (hd u) \<and> last u \<noteq> CHR ''_''"
proof (cases "5 \<le> length u")
  case True
  then have ne: "u \<noteq> []" by auto
  then have "hd u = u ! 0" "last u = u ! (length u - 1)"
    by (simp_all add: hd_conv_nth last_conv_nth)
  with True show ?thesis
    by (auto simp: isUsername_def username_runes_bytes shared_consts)
next
  case False
  then show ?thesis by (auto simp: isUsername_def shared_consts)
qed

lemma isE164_iff:
  "isE164 t \<longleftrightarrow> (\<exists>ds. t = ''+'' @ ds \<and> 8 \<le> length ds \<and> length ds \<le> 15 \<and> list_all is_digit ds)"
proof -
  have "list_all (\<lambda>(r, _). \<not> (r < 48 \<or> 57 < r)) (runes ds) \<longleftrightarrow> list_all is_digit ds" for ds
    using runes_all_small [of "\<lambda>r. \<not> (r < 48 \<or> 57 < r)" ds]
    by (simp add: is_digit_def [abs_def] not_less)
  then show ?thesis
    by (cases "strip_prefix ''+'' t")
      (auto simp: isE164_def shared_consts strip_prefix_Some simp flip: not_None_eq)
qed

lemma isHex_iff: "isHex t \<longleftrightarrow> list_all hex_char t"
  unfolding isHex_def hex_char_def [abs_def] is_digit_def
  by (rule runes_all_small [of "\<lambda>r. 48 \<le> r \<and> r \<le> 57 \<or> 97 \<le> r \<and> r \<le> 102 \<or> 65 \<le> r \<and> r \<le> 70"])
    auto

lemma cut_at_iff: "cut_at x s = Some (a, b) \<longleftrightarrow> s = a @ x # b \<and> x \<notin> set a"
  by (induction s arbitrary: a b) (auto simp: Cons_eq_append_conv)

lemma isMatrixRoom_iff:
  "isMatrixRoom t \<longleftrightarrow>
     (\<exists>a b. t = ''!'' @ a @ '':'' @ b \<and> a \<noteq> [] \<and> CHR '':'' \<notin> set a \<and> b \<noteq> [])"
proof -
  have "isMatrixRoom t \<longleftrightarrow> (\<exists>l. strip_prefix ''!'' t = Some l \<and>
      (\<exists>a b. cut_at CHR '':'' l = Some (a, b) \<and> a \<noteq> [] \<and> b \<noteq> []))"
    by (auto simp: isMatrixRoom_def shared_consts split: option.split)
  then show ?thesis
    unfolding strip_prefix_Some cut_at_iff by auto
qed

lemma isGotifyAppID_iff:
  "isGotifyAppID t \<longleftrightarrow> list_all is_digit t \<and> 0 < digits_value t \<and> digits_value t < 2 ^ 64"
  by (auto simp: isGotifyAppID_def ParseUint_def digits_value_def)

lemma isChatID_iff:
  "isChatID t \<longleftrightarrow>
     (\<exists>ds. (t = ds \<or> t = ''+'' @ ds) \<and> ds \<noteq> [] \<and> list_all is_digit ds \<and> digits_value ds < 2 ^ 63)
     \<or> (\<exists>ds. t = ''-'' @ ds \<and> ds \<noteq> [] \<and> list_all is_digit ds \<and> digits_value ds \<le> 2 ^ 63)"
proof -
  have sign: "\<not> is_digit CHR ''-''" "\<not> is_digit CHR ''+''"
    by (simp_all add: is_digit_def)
  consider "t = []" | ds where "t = CHR ''-'' # ds" | ds where "t = CHR ''+'' # ds"
    | c ds where "t = c # ds" "c \<noteq> CHR ''-''" "c \<noteq> CHR ''+''"
    by (cases t) auto
  then show ?thesis
    by cases (auto simp: isChatID_def ParseInt_def ParseUint_def sign)
qed

lemma HasPrefix_at: "HasPrefix t ''@'' \<longleftrightarrow> (\<exists>u. t = CHR ''@'' # u)"
  by (cases t) (auto simp: HasPrefix_def)

text \<open>
  For every channel \<open>ValidateAddress\<close> accepts exactly the addresses that, trimmed, have
  the channel's shape: 5 to 32 word characters after an at sign, or a number in the range of an
  int64, for Telegram and Bale; a plus sign and 8 to 15 digits for WhatsApp; 32 to 200 hexadecimal
  digits for APNs; a room and a server for Matrix; a positive integer of 64 bits for Gotify; and
  none for a channel that does not exist. Every refusal is an invalid input of one of three causes.
\<close>

theorem ValidateAddress_shape:
  "(ValidateAddress L c a = ok) =
      (TrimSpace a \<noteq> '''' \<and> address_shape L c (TrimSpace a))
   \<and> (case ValidateAddress L c a of Inr _ \<Rightarrow> True | Inl e \<Rightarrow>
        IsType e ErrInvalidInput
        \<and> is_err e (SharedE ErrEmptyAddress) = (TrimSpace a = '''')
        \<and> is_err e (SharedE ErrUnknownChannel) = (TrimSpace a \<noteq> '''' \<and> \<not> Channel_Valid c)
        \<and> is_err e (SharedE ErrInvalidAddress) = (TrimSpace a \<noteq> '''' \<and> Channel_Valid c))"
proof -
  define t where "t = TrimSpace a"
  have chat: "(if HasPrefix t ''@'' then isUsername (drop 1 t) else isChatID t)
      = address_shape L ChannelTelegram t"
    by (auto simp: HasPrefix_at address_shape_def isUsername_iff isChatID_iff is_digit_def)
  have "address_shape L ChannelBale t = address_shape L ChannelTelegram t"
    by (simp add: address_shape_def)
  moreover have "IsType (invalidAddress c x d) ErrInvalidInput" for x d
    by (rule TypeOf_of_type [THEN conjunct2]) simp
  ultimately show ?thesis
    using chat unfolding ValidateAddress_def Let_def t_def [symmetric]
    by (cases c) (auto simp: address_shape_def isE164_iff isHex_iff isMatrixRoom_iff
        isGotifyAppID_iff shared_consts intro!: TypeOf_of_type [THEN conjunct2] split: if_splits)
qed

subsection \<open>Identifiers\<close>

type_synonym ID = string

definition crockford :: "nat \<Rightarrow> bool" where
  "crockford r \<longleftrightarrow> r \<in> set (map byte crockfordBase)"

definition ParseID :: "golib \<Rightarrow> string \<Rightarrow> ID result" where
  "ParseID L s =
    (if length s \<noteq> idLength then
       Inl (WithStr (WithErr (InvalidInputErr ''invalid id'') (Sentinel (SharedE ErrInvalidID)))
            (Text ''expected %d chars, got %d'' [FmtD (int idLength), FmtD (int (length s))]))
     else
       let upper = ToUpper L s in
       case find (\<lambda>(r, _). \<not> crockford r) (runes upper) of
         Some (r, _) \<Rightarrow>
           Inl (WithStr (WithErr (InvalidInputErr ''invalid id'') (Sentinel (SharedE ErrInvalidID)))
                (Text ''illegal character %q'' [FmtD (int r)]))
       | None \<Rightarrow> Inr upper)"

definition ID_IsZero :: "ID \<Rightarrow> bool" where
  "ID_IsZero i \<longleftrightarrow> i = ''''"

lemma crockford_small: "crockford r \<Longrightarrow> r < 128"
  by (auto simp: crockford_def crockfordBase_def byte_def)

lemma crockford_not_lower: "crockford r \<Longrightarrow> r < 97"
  by (auto simp: crockford_def crockfordBase_def byte_def)

lemma find_None_list_all: "find p xs = None \<longleftrightarrow> list_all (\<lambda>x. \<not> p x) xs"
  by (induction xs) auto

lemma ParseID_Inr_iff:
  "ParseID L s = Inr i \<longleftrightarrow>
     length s = 26 \<and> i = ToUpper L s \<and> list_all (\<lambda>c. crockford (byte c)) i"
proof -
  let ?u = "ToUpper L s"
  have "find (\<lambda>(r, _). \<not> crockford r) (runes ?u) = None \<longleftrightarrow> list_all (\<lambda>c. crockford (byte c)) ?u"
    using runes_all_small [of crockford ?u, OF crockford_small]
    by (simp add: find_None_list_all case_prod_unfold)
  then show ?thesis
    by (cases "find (\<lambda>(r, _). \<not> crockford r) (runes ?u)")
      (auto simp: ParseID_def Let_def idLength_def)
qed

lemma crockford_ascii: "list_all (\<lambda>c. crockford (byte c)) i \<Longrightarrow> ascii i"
  by (auto simp: ascii_def list_all_iff dest: crockford_small)

lemma ToUpper_crockford:
  assumes "list_all (\<lambda>c. crockford (byte c)) i"
  shows "ToUpper L i = i"
proof -
  have "map (\<lambda>c. char_of (to_upper_rune L (byte c))) i = i"
  proof (rule map_idI)
    fix c assume "c \<in> set i"
    then have "byte c < 97" using assms by (auto simp: list_all_iff dest: crockford_not_lower)
    then show "char_of (to_upper_rune L (byte c)) = c"
      by (simp add: to_upper_rune_def byte_def)
  qed
  then show ?thesis by (simp add: ToUpper_ascii [OF crockford_ascii [OF assms]])
qed

text \<open>
  C40. \<open>ParseID\<close> on ASCII input answers the normal form of an identifier: 26 characters of the
  Crockford alphabet, which parses to itself; two spellings that differ in case give the same
  identifier; everything else is an invalid input with the cause \<open>ErrInvalidID\<close>.
\<close>

theorem ParseID_normal_form:
  assumes "ascii s"
  shows "case ParseID L s of
      Inr i \<Rightarrow> length i = 26 \<and> list_all (\<lambda>c. crockford (byte c)) i \<and> ParseID L i = Inr i
        \<and> ParseID L (ToLower L s) = Inr i
    | Inl e \<Rightarrow> IsType e ErrInvalidInput \<and> is_err e (SharedE ErrInvalidID)"
proof (cases "ParseID L s")
  case (Inl e)
  then have "of_type ErrInvalidInput e" "is_err e (SharedE ErrInvalidID)"
    by (auto simp: ParseID_def Let_def split: if_splits option.splits)
  with Inl show ?thesis by (simp add: TypeOf_of_type)
next
  case (Inr i)
  then have i: "length s = 26" "i = ToUpper L s" "list_all (\<lambda>c. crockford (byte c)) i"
    unfolding ParseID_Inr_iff by blast+
  then have len: "length i = 26" by (simp add: length_ToUpper_ascii [OF assms])
  have "ToLower L s = map (\<lambda>c. char_of (to_lower_rune L (byte c))) s"
    by (rule ToLower_ascii [OF assms])
  moreover have "to_upper_rune L (byte (char_of (to_lower_rune L (byte c)))) = to_upper_rune L (byte c)
      \<and> byte (char_of (to_lower_rune L (byte c))) < 128" if "byte c < 128" for c
    using that by (auto simp: to_lower_rune_def to_upper_rune_def byte_def)
  ultimately have "ascii (ToLower L s)" "ToUpper L (ToLower L s) = ToUpper L s"
    using assms by (auto simp: ToUpper_ascii ascii_def list_all_iff)
  moreover have "length (ToLower L s) = 26"
    using i(1) \<open>ToLower L s = _\<close> by simp
  ultimately have "ParseID L (ToLower L s) = Inr i"
    using i by (simp add: ParseID_Inr_iff)
  moreover have "ParseID L i = Inr i"
    by (simp add: ParseID_Inr_iff len i(3) ToUpper_crockford [OF i(3)])
  ultimately show ?thesis using Inr i(3) len by simp
qed

lemma char_83:
  "char_of (83::nat) = CHR ''S''" "char_of (48::nat) = CHR ''0''"
  by code_simp+

text \<open>
  The identifiers \<open>ParseID\<close> answers are not always 26 characters: the length is checked
  before the upper-casing, and a library that maps the two-byte letter long s (U+017F) to the one
  byte of its capital shortens the string. Twenty-four zeros and a long s become an identifier of
  25 characters, which \<open>ParseID\<close> itself refuses.
\<close>

theorem ParseID_short_id:
  assumes "upper_rune L 0x17F = 0x53"
  shows "\<exists>s i. ParseID L s = Inr i \<and> length i = 25 \<and> (\<forall>j. ParseID L i \<noteq> Inr j)"
proof (intro exI conjI)
  let ?s = "replicate 24 CHR ''0'' @ [CHR 0xC5, CHR 0xBF]"
  let ?i = "replicate 24 CHR ''0'' @ ''S''"
  have "ToUpper L [CHR 0xC5, CHR 0xBF] = ''S''"
    by (simp add: ToUpper_def Let_def byte_def is_cont_def encode_rune_def to_upper_rune_def assms
        char_83)
  moreover have "ToUpper L (replicate n CHR ''0'' @ t) = replicate n CHR ''0'' @ ToUpper L t" for n t
    by (induction n)
      (simp_all add: ToUpper_def Let_def byte_def encode_rune_def to_upper_rune_def char_83)
  ultimately have "ToUpper L ?s = ?i" by simp
  then show "ParseID L ?s = Inr ?i"
    by (simp add: ParseID_Inr_iff list_all_iff crockford_def crockfordBase_def byte_def)
  show "length ?i = 25" by simp
  then show "\<forall>j. ParseID L ?i \<noteq> Inr j" by (simp add: ParseID_Inr_iff)
qed

definition unicode_upper :: "nat \<Rightarrow> nat" where
  "unicode_upper r = (if r = 0x17F then 0x53 else r)"

definition demo_golib :: golib where
  "demo_golib =
    \<lparr> ParseAddress = (\<lambda>s. CHR ''@'' \<in> set s), upper_rune = unicode_upper, lower_rune = id,
      url_Parse = (\<lambda>s. None), netip_ParseAddr = (\<lambda>s. None),
      json_string = (\<lambda>s. case s of c # cs \<Rightarrow> Some (butlast cs) | [] \<Rightarrow> None),
      json_quote = (\<lambda>s. CHR 0x22 # s @ [CHR 0x22]),
      json_Valid = (\<lambda>s. s \<noteq> []),
      duration_String = (\<lambda>d. ''''), Sprintf = (\<lambda>f args. f) \<rparr>"

theorem ParseID_short_id_witness:
  "\<exists>s i. ParseID demo_golib s = Inr i \<and> length i = 25 \<and> (\<forall>j. ParseID demo_golib i \<noteq> Inr j)"
  by (rule ParseID_short_id) (simp add: demo_golib_def unicode_upper_def)

theorem ParseID_normal_form_witness:
  defines "s \<equiv> ''01arz3ndektsv4rrffq69g5fav''"
  shows "case ParseID demo_golib s of
      Inr i \<Rightarrow> length i = 26 \<and> list_all (\<lambda>c. crockford (byte c)) i \<and> ParseID demo_golib i = Inr i
        \<and> ParseID demo_golib (ToLower demo_golib s) = Inr i
    | Inl e \<Rightarrow> IsType e ErrInvalidInput \<and> is_err e (SharedE ErrInvalidID)"
  by (rule ParseID_normal_form) (simp add: s_def ascii_def byte_def)

subsection \<open>Priorities\<close>

text \<open>
  \<open>Priority\<close> is an \<open>int8\<close>; its order is the signed order of the byte. The map
  \<open>priorityNames\<close> is the association list of its three entries.
\<close>

datatype priority = Priority (priority_word: "8 word")

instantiation priority :: linorder
begin

definition less_eq_priority :: "priority \<Rightarrow> priority \<Rightarrow> bool" where
  "p \<le> q \<longleftrightarrow> sint (priority_word p) \<le> sint (priority_word q)"

definition less_priority :: "priority \<Rightarrow> priority \<Rightarrow> bool" where
  "p < q \<longleftrightarrow> sint (priority_word p) < sint (priority_word q)"

instance
proof
  fix p q :: priority
  assume "p \<le> q" "q \<le> p"
  then have "sint (priority_word p) = sint (priority_word q)"
    by (simp add: less_eq_priority_def)
  then show "p = q" by (cases p; cases q) (simp add: signed_word_eqI)
qed (auto simp: less_eq_priority_def less_priority_def)

end

definition PriorityNormal :: priority where "PriorityNormal = Priority 0"
definition PriorityHigh :: priority where "PriorityHigh = Priority 1"
definition PriorityCritical :: priority where "PriorityCritical = Priority 2"

definition priorityNames :: "(priority \<times> string) list" where
  "priorityNames =
     [(PriorityNormal, ''NORMAL''), (PriorityHigh, ''HIGH''), (PriorityCritical, ''CRITICAL'')]"

lemmas priority_defs = PriorityNormal_def PriorityHigh_def PriorityCritical_def

definition Priority_Valid :: "priority \<Rightarrow> bool" where
  "Priority_Valid p \<longleftrightarrow> map_of priorityNames p \<noteq> None"

definition Priority_String :: "golib \<Rightarrow> priority \<Rightarrow> string" where
  "Priority_String L p = (case map_of priorityNames p of
     Some name \<Rightarrow> name
   | None \<Rightarrow> Sprintf L ''Priority(%d)'' [FmtD (sint (priority_word p))])"

definition Clamp :: "priority \<Rightarrow> priority \<Rightarrow> priority" where
  "Clamp p mx = (if mx < p then mx else p)"

definition ParsePriority :: "string \<Rightarrow> priority result" where
  "ParsePriority s = (case find (\<lambda>(_, name). name = s) priorityNames of
     Some (p, _) \<Rightarrow> Inr p
   | None \<Rightarrow>
       Inl (WithStr (WithErr (InvalidInputErr ''unknown priority'')
              (Sentinel (SharedE ErrUnknownPriority)))
            (Text ''got %q'' [FmtS s])))"

definition Priority_MarshalJSON :: "golib \<Rightarrow> priority \<Rightarrow> string result" where
  "Priority_MarshalJSON L p =
    (if \<not> Priority_Valid p then
       Inl (WithStr (WithErr (InternalErr ''unknown priority'')
              (Sentinel (SharedE ErrUnknownPriority)))
            (Text ''got %d'' [FmtD (sint (priority_word p))]))
     else Inr (json_quote L (Priority_String L p)))"

definition Priority_UnmarshalJSON :: "golib \<Rightarrow> string \<Rightarrow> priority result" where
  "Priority_UnmarshalJSON L b = (case json_string L b of
     None \<Rightarrow>
       Inl (WithStr (WithErr (InvalidInputErr ''unknown priority'')
              (Sentinel (SharedE ErrUnknownPriority)))
            (Text ''got %s'' [FmtS b]))
   | Some name \<Rightarrow> ParsePriority name)"

definition Channel_MarshalJSON :: "golib \<Rightarrow> channel \<Rightarrow> string result" where
  "Channel_MarshalJSON L c =
    (if \<not> Channel_Valid c then
       Inl (WithStr (WithErr (InternalErr ''unknown channel'')
              (Sentinel (SharedE ErrUnknownChannel)))
            (Text ''got %q'' [FmtS (Channel_String c)]))
     else Inr (json_quote L (Channel_String c)))"

definition Channel_UnmarshalJSON :: "golib \<Rightarrow> string \<Rightarrow> channel result" where
  "Channel_UnmarshalJSON L b = (case json_string L b of
     None \<Rightarrow>
       Inl (WithStr (WithErr (InvalidInputErr ''unknown channel'')
              (Sentinel (SharedE ErrUnknownChannel)))
            (Text ''got %s'' [FmtS b]))
   | Some name \<Rightarrow> ParseChannel name)"

lemma Priority_Valid_iff:
  "Priority_Valid p \<longleftrightarrow> p = PriorityNormal \<or> p = PriorityHigh \<or> p = PriorityCritical"
  by (auto simp: Priority_Valid_def priorityNames_def)

lemma priority_order [simp]:
  "PriorityNormal < PriorityHigh" "PriorityHigh < PriorityCritical" "PriorityNormal < PriorityCritical"
  by (simp_all add: less_priority_def priority_defs)

lemma Clamp_min: "Clamp p mx = min p mx"
  by (auto simp: Clamp_def min_def)

lemma ParsePriority_String:
  "Priority_Valid p \<Longrightarrow> ParsePriority (Priority_String L p) = Inr p"
  by (auto simp: Priority_Valid_iff ParsePriority_def Priority_String_def priorityNames_def
      priority_defs)

lemma ParsePriority_Inr:
  "ParsePriority s = Inr p \<Longrightarrow> Priority_Valid p \<and> Priority_String L p = s"
  by (auto simp: Priority_Valid_iff ParsePriority_def Priority_String_def priorityNames_def
      priority_defs split: if_splits)

lemma ParseChannel_Inr_iff:
  "ParseChannel s = Inr c \<longleftrightarrow> Channel_Valid c \<and> Channel_String c = s"
  by (auto simp: ParseChannel_def Let_def)

text \<open>
  Channels and priorities cross a wire unharmed: where the JSON library reads back the text it
  quoted, everything \<open>MarshalJSON\<close> writes \<open>UnmarshalJSON\<close> reads back as the same value,
  a value outside the set is written by neither, and what either reads is in the set.
\<close>

theorem wire_roundtrip:
  assumes "\<And>s. json_string L (json_quote L s) = Some s"
  shows "(case Channel_MarshalJSON L c of
        Inl e \<Rightarrow> \<not> Channel_Valid c
      | Inr b \<Rightarrow> Channel_Valid c \<and> Channel_UnmarshalJSON L b = Inr c)
    \<and> (case Priority_MarshalJSON L p of
        Inl e \<Rightarrow> \<not> Priority_Valid p
      | Inr b \<Rightarrow> Priority_Valid p \<and> Priority_UnmarshalJSON L b = Inr p)
    \<and> (case Channel_UnmarshalJSON L b of Inl e \<Rightarrow> True | Inr c \<Rightarrow> Channel_Valid c)
    \<and> (case Priority_UnmarshalJSON L b' of Inl e \<Rightarrow> True | Inr p \<Rightarrow> Priority_Valid p)"
  by (auto simp: Channel_MarshalJSON_def Channel_UnmarshalJSON_def Priority_MarshalJSON_def
      Priority_UnmarshalJSON_def assms ParsePriority_String ParseChannel_Inr_iff
      dest: ParsePriority_Inr split: sum.splits option.splits)

theorem wire_roundtrip_witness:
  "(case Channel_MarshalJSON demo_golib ChannelBale of
        Inl e \<Rightarrow> \<not> Channel_Valid ChannelBale
      | Inr b \<Rightarrow> Channel_Valid ChannelBale \<and> Channel_UnmarshalJSON demo_golib b = Inr ChannelBale)
    \<and> (case Priority_MarshalJSON demo_golib PriorityHigh of
        Inl e \<Rightarrow> \<not> Priority_Valid PriorityHigh
      | Inr b \<Rightarrow> Priority_Valid PriorityHigh \<and> Priority_UnmarshalJSON demo_golib b = Inr PriorityHigh)
    \<and> (case Channel_UnmarshalJSON demo_golib ''fcm'' of Inl e \<Rightarrow> True | Inr c \<Rightarrow> Channel_Valid c)
    \<and> (case Priority_UnmarshalJSON demo_golib ''HIGH'' of Inl e \<Rightarrow> True | Inr p \<Rightarrow> Priority_Valid p)"
  by (rule wire_roundtrip) (simp add: demo_golib_def)

subsection \<open>Recipients, cursors, messages\<close>

record recipient =
  rcp_Channel :: channel
  rcp_Address :: string

definition Recipient_Validate :: "golib \<Rightarrow> recipient \<Rightarrow> unit result" where
  "Recipient_Validate L r =
    (if \<not> Channel_Valid (rcp_Channel r) then
       Inl (WithStr (WithErr (InvalidInputErr ''unknown channel'')
              (Sentinel (SharedE ErrUnknownChannel)))
            (Text ''got %q'' [FmtS (Channel_String (rcp_Channel r))]))
     else ValidateAddress L (rcp_Channel r) (rcp_Address r))"

definition Recipient_String :: "recipient \<Rightarrow> string" where
  "Recipient_String r = Channel_String (rcp_Channel r) @ '':'' @ rcp_Address r"

record cursor =
  After :: "ID option"
  Limit :: int

definition Normalize :: "cursor \<Rightarrow> cursor" where
  "Normalize c =
    (let c = (if Limit c \<le> 0 then c\<lparr>Limit := DefaultPageSize\<rparr> else c)
     in if MaxPageSize < Limit c then c\<lparr>Limit := MaxPageSize\<rparr> else c)"

record 'a pagination =
  Items :: "'a list"
  NextCursor :: "ID option"

definition HasNext :: "'a pagination \<Rightarrow> bool" where
  "HasNext p \<longleftrightarrow> NextCursor p \<noteq> None"

record dispatch_event =
  ev_DeliveryID :: ID
  ev_SourceID :: string
  ev_Channel :: channel
  ev_Priority :: priority

record message =
  msg_DeliveryID :: ID
  msg_Recipient :: recipient
  msg_Title :: string
  msg_Body :: string
  msg_Metadata :: "(string \<times> string) list"

lemma Normalize_simps [simp]:
  "After (Normalize c) = After c"
  "1 \<le> Limit (Normalize c)"
  "Limit (Normalize c) \<le> 500"
  "Normalize (Normalize c) = Normalize c"
  by (auto simp: Normalize_def Let_def shared_consts)

lemma Limit_Normalize:
  "Limit (Normalize c) = (if Limit c \<le> 0 then 50 else min (Limit c) 500)"
  by (auto simp: Normalize_def Let_def shared_consts)

lemma ValidateAddress_valid: "ValidateAddress L c a = ok \<Longrightarrow> Channel_Valid c"
  by (cases c) (auto simp: ValidateAddress_def Let_def split: if_splits)

lemma Recipient_Validate_ok:
  "Recipient_Validate L r = ok \<longleftrightarrow> ValidateAddress L (rcp_Channel r) (rcp_Address r) = ok"
  using ValidateAddress_valid by (auto simp: Recipient_Validate_def)

lemma ValidateAddress_type: "ValidateAddress L c a = Inl e \<Longrightarrow> of_type ErrInvalidInput e"
  by (cases c) (auto simp: ValidateAddress_def Let_def split: if_splits)

lemma Recipient_Validate_type: "Recipient_Validate L r = Inl e \<Longrightarrow> of_type ErrInvalidInput e"
  by (auto simp: Recipient_Validate_def ValidateAddress_type split: if_splits)

end
