(* ===== verification/Effects.thy ===== *)
theory Effects
  imports Shared
begin

text \<open>
  Effects as state passing. The core is written against ports, so it is polymorphic in the state
  \<open>'w\<close> behind them: an operation of type \<open>('w, 'a) io\<close> takes the state and answers a
  result (an error or a value) and the next state; a \<open>('w, 'a) act\<close> cannot fail. The
  combinators spell Go's idioms: \<open>and_then\<close> is a call followed by
  \<open>if err != nil { return err }\<close>, \<open>attempt\<close> is a call whose error the code looks at.
\<close>

type_synonym ('w, 'a) act = "'w \<Rightarrow> 'a \<times> 'w"
type_synonym ('w, 'a) io = "'w \<Rightarrow> 'a result \<times> 'w"
type_synonym 'w IDFunc = "('w, ID) act"
type_synonym 'w NowFunc = "('w, time) act"

definition ret :: "'a \<Rightarrow> ('w, 'a) io" where
  "ret x = (\<lambda>w. (Inr x, w))"

definition throw :: "goerr \<Rightarrow> ('w, 'a) io" where
  "throw e = (\<lambda>w. (Inl e, w))"

definition lift :: "'a result \<Rightarrow> ('w, 'a) io" where
  "lift r = (\<lambda>w. (r, w))"

definition and_then :: "('w, 'a) io \<Rightarrow> ('a \<Rightarrow> ('w, 'b) io) \<Rightarrow> ('w, 'b) io" where
  "and_then m f = (\<lambda>w. case m w of (r, w') \<Rightarrow> (case r of Inl e \<Rightarrow> (Inl e, w') | Inr x \<Rightarrow> f x w'))"

definition attempt :: "('w, 'a) io \<Rightarrow> ('a result \<Rightarrow> ('w, 'b) io) \<Rightarrow> ('w, 'b) io" where
  "attempt m f = (\<lambda>w. case m w of (r, w') \<Rightarrow> f r w')"

definition call :: "('w, 'a) act \<Rightarrow> ('a \<Rightarrow> ('w, 'b) io) \<Rightarrow> ('w, 'b) io" where
  "call m f = (\<lambda>w. case m w of (x, w') \<Rightarrow> f x w')"

text \<open>A call whose error is dropped, and a call made for its effect.\<close>

definition ignoring :: "('w, 'a) io \<Rightarrow> ('w, 'b) io \<Rightarrow> ('w, 'b) io" where
  "ignoring m k = attempt m (\<lambda>_. k)"

definition also_do :: "('w, unit) act \<Rightarrow> ('w, 'b) io \<Rightarrow> ('w, 'b) io" where
  "also_do m k = call m (\<lambda>_. k)"

definition no_effect :: "('w, unit) act" where
  "no_effect = (\<lambda>w. ((), w))"

text \<open>To compute, a combinator waits for its state.\<close>

lemma io_code [code]:
  "ret x w = (Inr x, w)" "throw e w = (Inl e, w)" "lift r w = (r, w)"
  "and_then m f w = (case m w of (r, w') \<Rightarrow> (case r of Inl e \<Rightarrow> (Inl e, w') | Inr x \<Rightarrow> f x w'))"
  "attempt m h w = (case m w of (r, w') \<Rightarrow> h r w')"
  "call a k w = (case a w of (x, w') \<Rightarrow> k x w')"
  by (simp_all add: ret_def throw_def lift_def and_then_def attempt_def call_def)

lemma io_simps [simp]:
  "ret x w = (Inr x, w)"
  "throw e w = (Inl e, w)"
  "lift r w = (r, w)"
  "no_effect w = ((), w)"
  by (simp_all add: ret_def throw_def lift_def no_effect_def)

lemma and_then_run:
  "m w = (Inl e, w') \<Longrightarrow> and_then m f w = (Inl e, w')"
  "m w = (Inr x, w') \<Longrightarrow> and_then m f w = f x w'"
  by (simp_all add: and_then_def)

lemma attempt_run: "m w = (r, w') \<Longrightarrow> attempt m f w = f r w'"
  by (simp add: attempt_def)

lemma call_run: "m w = (x, w') \<Longrightarrow> call m f w = f x w'"
  by (simp add: call_def)

lemma and_then_lift [simp]:
  "and_then (ret x) f w = f x w"
  "and_then (throw e) f w = (Inl e, w)"
  "and_then (lift (Inr x)) f w = f x w"
  "and_then (lift (Inl e)) f w = (Inl e, w)"
  by (simp_all add: and_then_def)

lemma attempt_lift [simp]:
  "attempt (ret x) f w = f (Inr x) w"
  "attempt (throw e) f w = f (Inl e) w"
  "attempt (lift r) f w = f r w"
  by (simp_all add: attempt_def)

lemma and_then_Inr:
  "and_then m f w = (Inr y, w'') \<longleftrightarrow> (\<exists>x w'. m w = (Inr x, w') \<and> f x w' = (Inr y, w''))"
  by (auto simp: and_then_def split: prod.splits sum.splits)

lemma and_then_Inl:
  "and_then m f w = (Inl e, w'') \<longleftrightarrow>
     m w = (Inl e, w'') \<or> (\<exists>x w'. m w = (Inr x, w') \<and> f x w' = (Inl e, w''))"
  by (auto simp: and_then_def split: prod.splits sum.splits)

lemma attempt_eq:
  "attempt m f w = (r, w'') \<longleftrightarrow> (\<exists>x w'. m w = (x, w') \<and> f x w' = (r, w''))"
  by (auto simp: attempt_def split: prod.splits)

lemma call_eq:
  "call m f w = (r, w'') \<longleftrightarrow> (\<exists>x w'. m w = (x, w') \<and> f x w' = (r, w''))"
  by (auto simp: call_def split: prod.splits)

subsection \<open>Preservation\<close>

text \<open>
  \<open>keeps R m\<close>: the states before and after \<open>m\<close> are related by \<open>R\<close>. With a reflexive
  and transitive \<open>R\<close> the rules below carry it through every combinator.
\<close>

definition keeps :: "('w \<Rightarrow> 'w \<Rightarrow> bool) \<Rightarrow> ('w \<Rightarrow> 'a \<times> 'w) \<Rightarrow> bool" where
  "keeps R m \<longleftrightarrow> (\<forall>w. R w (snd (m w)))"

lemma keepsI [intro?]: "(\<And>w. R w (snd (m w))) \<Longrightarrow> keeps R m"
  by (simp add: keeps_def)

lemma keepsD: "keeps R m \<Longrightarrow> m w = (r, w') \<Longrightarrow> R w w'"
  by (metis keeps_def snd_conv)

locale preorder_on_states =
  fixes R :: "'w \<Rightarrow> 'w \<Rightarrow> bool"
  assumes refl_R: "R w w"
    and trans_R: "R a b \<Longrightarrow> R b c \<Longrightarrow> R a c"
begin

lemma keeps_ret: "keeps R (ret x)"
  by (simp add: keeps_def refl_R)

lemma keeps_throw: "keeps R (throw e)"
  by (simp add: keeps_def refl_R)

lemma keeps_lift: "keeps R (lift r)"
  by (simp add: keeps_def refl_R)

lemma keeps_and_then: "keeps R m \<Longrightarrow> (\<And>x. keeps R (f x)) \<Longrightarrow> keeps R (and_then m f)"
  unfolding keeps_def and_then_def
  by (auto split: prod.splits sum.splits intro: trans_R) (metis snd_conv trans_R)+

lemma keeps_attempt: "keeps R m \<Longrightarrow> (\<And>x. keeps R (f x)) \<Longrightarrow> keeps R (attempt m f)"
  unfolding keeps_def attempt_def
  by (auto split: prod.splits) (metis snd_conv trans_R)

lemma keeps_call: "keeps R m \<Longrightarrow> (\<And>x. keeps R (f x)) \<Longrightarrow> keeps R (call m f)"
  unfolding keeps_def call_def
  by (auto split: prod.splits) (metis snd_conv trans_R)

lemma keeps_ignoring: "keeps R m \<Longrightarrow> keeps R k \<Longrightarrow> keeps R (ignoring m k)"
  unfolding ignoring_def by (rule keeps_attempt)

lemma keeps_also_do: "keeps R m \<Longrightarrow> keeps R k \<Longrightarrow> keeps R (also_do m k)"
  unfolding also_do_def by (rule keeps_call)

lemmas keeps_combinators =
  keeps_ret keeps_throw keeps_lift keeps_and_then keeps_attempt keeps_call keeps_ignoring
  keeps_also_do

end

end
