(* ===== verification/Delivery.thy ===== *)
theory Delivery
  imports Effects
begin

text \<open>
  \<open>internal/core/domain/delivery\<close>: one message to one recipient, the state machine that keeps
  a redelivered message from being sent twice, the construction of a message's whole set, the
  ports, and the two services over them (the accepting side and the sending side).
\<close>

subsection \<open>Status and failure reasons\<close>

datatype delivery_status =
    StatusPending
  | StatusSent
  | StatusFailed
  | StatusOther string

fun Status_String :: "delivery_status \<Rightarrow> string" where
  "Status_String StatusPending = ''PENDING''"
| "Status_String StatusSent = ''SENT''"
| "Status_String StatusFailed = ''FAILED''"
| "Status_String (StatusOther s) = s"

text \<open>The conversion \<open>Status(s)\<close>, which the repository makes of a column.\<close>

definition Status :: "string \<Rightarrow> delivery_status" where
  "Status s =
    (if s = ''PENDING'' then StatusPending
     else if s = ''SENT'' then StatusSent
     else if s = ''FAILED'' then StatusFailed
     else StatusOther s)"

definition transitions :: "(delivery_status \<times> delivery_status list) list" where
  "transitions =
     [(StatusPending, [StatusSent, StatusFailed]), (StatusSent, []), (StatusFailed, [])]"

definition Status_Valid :: "delivery_status \<Rightarrow> bool" where
  "Status_Valid s \<longleftrightarrow> map_of transitions s \<noteq> None"

definition CanTransitionTo :: "delivery_status \<Rightarrow> delivery_status \<Rightarrow> bool" where
  "CanTransitionTo s next_status =
     (case map_of transitions s of None \<Rightarrow> False | Some allowed \<Rightarrow> next_status \<in> set allowed)"

definition Status_IsSettled :: "delivery_status \<Rightarrow> bool" where
  "Status_IsSettled s \<longleftrightarrow> s = StatusSent \<or> s = StatusFailed"

datatype failure_reason =
    FailureExpired
  | FailureMaxAttempts
  | FailurePermanent
  | FailureNoSender
  | FailureNotReachable
  | FailureOther string

fun Failure_String :: "failure_reason \<Rightarrow> string" where
  "Failure_String FailureExpired = ''EXPIRED''"
| "Failure_String FailureMaxAttempts = ''MAX_ATTEMPTS''"
| "Failure_String FailurePermanent = ''PERMANENT''"
| "Failure_String FailureNoSender = ''NO_SENDER''"
| "Failure_String FailureNotReachable = ''NOT_REACHABLE''"
| "Failure_String (FailureOther s) = s"

definition FailureReason :: "string \<Rightarrow> failure_reason" where
  "FailureReason s =
    (if s = ''EXPIRED'' then FailureExpired
     else if s = ''MAX_ATTEMPTS'' then FailureMaxAttempts
     else if s = ''PERMANENT'' then FailurePermanent
     else if s = ''NO_SENDER'' then FailureNoSender
     else if s = ''NOT_REACHABLE'' then FailureNotReachable
     else FailureOther s)"

fun Failure_Valid :: "failure_reason \<Rightarrow> bool" where
  "Failure_Valid (FailureOther s) = False"
| "Failure_Valid r = True"

text \<open>The zero value of the field, the empty string.\<close>

abbreviation no_failure :: failure_reason where
  "no_failure \<equiv> FailureOther ''''"

lemma Status_String_Status [simp]: "Status_String (Status s) = s"
  by (simp add: Status_def)

lemma Failure_String_FailureReason [simp]: "Failure_String (FailureReason s) = s"
  by (simp add: FailureReason_def)

lemma Status_Status_String [simp]: "Status_Valid s \<Longrightarrow> Status (Status_String s) = s"
  by (cases s) (simp_all add: Status_Valid_def transitions_def Status_def)

lemma FailureReason_Failure_String [simp]: "Failure_Valid r \<Longrightarrow> FailureReason (Failure_String r) = r"
  by (cases r) (simp_all add: FailureReason_def)

lemma FailureReason_empty [simp]: "FailureReason '''' = no_failure"
  by (simp add: FailureReason_def)

lemma CanTransitionTo_iff:
  "CanTransitionTo s t \<longleftrightarrow> s = StatusPending \<and> (t = StatusSent \<or> t = StatusFailed)"
  by (auto simp: CanTransitionTo_def transitions_def)

lemma Status_IsSettled_simps [simp]:
  "\<not> Status_IsSettled StatusPending" "Status_IsSettled StatusSent" "Status_IsSettled StatusFailed"
  "\<not> Status_IsSettled (StatusOther s)"
  by (simp_all add: Status_IsSettled_def)

text \<open>
  The generic \<open>decode\<close> of the two JSON readers: the conversion and the \<open>Valid\<close> of the
  type it is used at are arguments.
\<close>

definition decode_name ::
    "golib \<Rightarrow> (string \<Rightarrow> 'n) \<Rightarrow> ('n \<Rightarrow> bool) \<Rightarrow> string \<Rightarrow> string \<Rightarrow> sentinel \<Rightarrow> 'n result" where
  "decode_name L T Valid b msg snt =
    (case json_string L b of
       None \<Rightarrow> Inl (WithStr (WithErr (InvalidInputErr msg) (Sentinel snt)) (Text ''got %s'' [FmtS b]))
     | Some name \<Rightarrow>
         let got = T name in
         if \<not> Valid got
         then Inl (WithStr (WithErr (InvalidInputErr msg) (Sentinel snt)) (Text ''got %q'' [FmtS name]))
         else Inr got)"

definition Status_MarshalJSON :: "golib \<Rightarrow> delivery_status \<Rightarrow> string result" where
  "Status_MarshalJSON L s =
    (if \<not> Status_Valid s then
       Inl (WithStr (WithErr (InternalErr ''unknown delivery status'')
              (Sentinel (DeliveryE ErrUnknownStatus)))
            (Text ''got %q'' [FmtS (Status_String s)]))
     else Inr (json_quote L (Status_String s)))"

definition Status_UnmarshalJSON :: "golib \<Rightarrow> string \<Rightarrow> delivery_status result" where
  "Status_UnmarshalJSON L b =
     decode_name L Status Status_Valid b ''unknown delivery status'' (DeliveryE ErrUnknownStatus)"

definition Failure_MarshalJSON :: "golib \<Rightarrow> failure_reason \<Rightarrow> string result" where
  "Failure_MarshalJSON L r =
    (if \<not> Failure_Valid r then
       Inl (WithStr (WithErr (InternalErr ''unknown failure reason'')
              (Sentinel (DeliveryE ErrUnknownFailureReason)))
            (Text ''got %q'' [FmtS (Failure_String r)]))
     else Inr (json_quote L (Failure_String r)))"

definition Failure_UnmarshalJSON :: "golib \<Rightarrow> string \<Rightarrow> failure_reason result" where
  "Failure_UnmarshalJSON L b =
     decode_name L FailureReason Failure_Valid b ''unknown failure reason''
       (DeliveryE ErrUnknownFailureReason)"

lemma decode_name_Inr:
  "decode_name L T Valid b msg snt = Inr x \<longleftrightarrow>
     (\<exists>name. json_string L b = Some name \<and> x = T name \<and> Valid (T name))"
  by (auto simp: decode_name_def Let_def split: option.splits)

subsection \<open>The delivery\<close>

record delivery =
  dlv_ID :: ID
  dlv_NotificationID :: ID
  dlv_Recipient :: recipient
  dlv_SenderName :: string
  dlv_status :: delivery_status
  dlv_attempts :: int
  dlv_lastError :: string
  dlv_failureReason :: failure_reason
  dlv_providerMessageID :: string
  dlv_notifiedAt :: "time option"
  dlv_updatedAt :: time

definition IsSettled :: "delivery \<Rightarrow> bool" where
  "IsSettled d = Status_IsSettled (dlv_status d)"

definition moveTo :: "delivery \<Rightarrow> delivery_status \<Rightarrow> time \<Rightarrow> delivery result" where
  "moveTo d next_status now =
    (if \<not> CanTransitionTo (dlv_status d) next_status then
       Inl (WithStr (WithErr (InternalErr ''invalid delivery status transition'')
              (Sentinel (DeliveryE ErrInvalidTransition)))
            (Text ''delivery %s: %s -> %s''
              [FmtS (dlv_ID d), FmtS (Status_String (dlv_status d)), FmtS (Status_String next_status)]))
     else Inr (d\<lparr>dlv_status := next_status, dlv_updatedAt := now\<rparr>))"

definition MarkSent :: "delivery \<Rightarrow> string \<Rightarrow> int \<Rightarrow> time \<Rightarrow> delivery result" where
  "MarkSent d providerMessageID attempts now =
    then_result (moveTo d StatusSent now) (\<lambda>d.
      Inr (d\<lparr>dlv_providerMessageID := providerMessageID, dlv_attempts := attempts,
             dlv_lastError := '''', dlv_failureReason := no_failure\<rparr>))"

definition MarkFailed ::
    "delivery \<Rightarrow> failure_reason \<Rightarrow> string \<Rightarrow> int \<Rightarrow> time \<Rightarrow> delivery result" where
  "MarkFailed d reason detail attempts now =
    (if \<not> Failure_Valid reason then
       Inl (WithStr (WithErr (InternalErr ''failure reason is missing'')
              (Sentinel (DeliveryE ErrMissingFailureReason)))
            (Text ''got %q'' [FmtS (Failure_String reason)]))
     else
       then_result (moveTo d StatusFailed now) (\<lambda>d.
         Inr (d\<lparr>dlv_failureReason := reason, dlv_lastError := detail, dlv_attempts := attempts\<rparr>)))"

text \<open>
  \<open>NewSet\<close>. The generator is an action, absent when the caller passed nil; \<open>seen\<close> is the
  set of recipients met so far and \<open>out\<close> the deliveries opened so far.
\<close>

fun NewSet_loop ::
    "golib \<Rightarrow> ID \<Rightarrow> (channel \<times> string) list \<Rightarrow> 'w IDFunc \<Rightarrow> time
     \<Rightarrow> recipient list \<Rightarrow> recipient set \<Rightarrow> delivery list \<Rightarrow> ('w, delivery list) io" where
  "NewSet_loop L nid senders nextID now [] seen out = ret out"
| "NewSet_loop L nid senders nextID now (r # rs) seen out =
    and_then (lift (Recipient_Validate L r)) (\<lambda>_.
    if r \<in> seen then
      throw (WithStr (WithErr (InvalidInputErr ''recipient listed more than once'')
               (Sentinel (DeliveryE ErrDuplicateRecipient)))
             (Text ''recipient %s'' [FmtS (Recipient_String r)]))
    else
      call nextID (\<lambda>i.
      if ID_IsZero i then
        throw (WithErr (InternalErr ''delivery id is missing'') (Sentinel (SharedE ErrInvalidID)))
      else
        NewSet_loop L nid senders nextID now rs (insert r seen)
          (out @ [\<lparr>dlv_ID = i, dlv_NotificationID = nid, dlv_Recipient = r,
             dlv_SenderName = map_get senders (rcp_Channel r), dlv_status = StatusPending,
             dlv_attempts = 0, dlv_lastError = '''', dlv_failureReason = no_failure,
             dlv_providerMessageID = '''', dlv_notifiedAt = None, dlv_updatedAt = now\<rparr>])))"

definition NewSet ::
    "golib \<Rightarrow> ID \<Rightarrow> recipient list \<Rightarrow> (channel \<times> string) list \<Rightarrow> 'w IDFunc option \<Rightarrow> time
     \<Rightarrow> ('w, delivery list) io" where
  "NewSet L nid recipients senders nextID now =
    (if ID_IsZero nid then
       throw (WithErr (InternalErr ''notification id is missing'')
         (Sentinel (DeliveryE ErrMissingNotification)))
     else case nextID of
       None \<Rightarrow> throw (WithErr (InternalErr ''delivery id generator is missing'')
         (Sentinel (DeliveryE ErrMissingIDFunc)))
     | Some gen \<Rightarrow>
         if IsZero now then
           throw (WithErr (InternalErr ''creation timestamp is missing'') (Sentinel (SharedE ErrInvalidID)))
         else if recipients = [] then
           throw (WithErr (InvalidInputErr ''at least one recipient is required'')
             (Sentinel (DeliveryE ErrNoRecipients)))
         else NewSet_loop L nid senders gen now recipients {} [])"

subsection \<open>Facts of the entity\<close>

lemma moveTo_Inr:
  "moveTo d s now = Inr d' \<longleftrightarrow>
     dlv_status d = StatusPending \<and> (s = StatusSent \<or> s = StatusFailed)
     \<and> d' = d\<lparr>dlv_status := s, dlv_updatedAt := now\<rparr>"
  by (auto simp: moveTo_def CanTransitionTo_iff)

lemma MarkSent_Inr:
  "MarkSent d pid n now = Inr d' \<longleftrightarrow>
     dlv_status d = StatusPending
     \<and> d' = d\<lparr>dlv_status := StatusSent, dlv_updatedAt := now, dlv_providerMessageID := pid,
              dlv_attempts := n, dlv_lastError := '''', dlv_failureReason := no_failure\<rparr>"
  by (auto simp: MarkSent_def then_result_Inr moveTo_Inr)

lemma MarkFailed_Inr:
  "MarkFailed d reason detail n now = Inr d' \<longleftrightarrow>
     Failure_Valid reason \<and> dlv_status d = StatusPending
     \<and> d' = d\<lparr>dlv_status := StatusFailed, dlv_updatedAt := now, dlv_failureReason := reason,
              dlv_lastError := detail, dlv_attempts := n\<rparr>"
  by (auto simp: MarkFailed_def then_result_Inr moveTo_Inr)

lemma moveTo_Inl:
  "moveTo d s now = Inl e \<Longrightarrow> is_err e (DeliveryE ErrInvalidTransition) \<and> of_type ErrInternal e"
  by (auto simp: moveTo_def split: if_splits)

text \<open>The row contradicts itself in neither direction.\<close>

definition coherent :: "delivery \<Rightarrow> bool" where
  "coherent d \<longleftrightarrow> (case dlv_status d of
      StatusPending \<Rightarrow> dlv_failureReason d = no_failure \<and> dlv_providerMessageID d = ''''
    | StatusSent \<Rightarrow> dlv_failureReason d = no_failure \<and> dlv_lastError d = ''''
    | StatusFailed \<Rightarrow> Failure_Valid (dlv_failureReason d) \<and> dlv_providerMessageID d = ''''
    | StatusOther _ \<Rightarrow> False)"

text \<open>One call that settles a delivery, and a sequence of them as redelivered messages make it.\<close>

datatype settling = Sent string int time | Failed failure_reason string int time

fun settle_with :: "delivery \<Rightarrow> settling \<Rightarrow> delivery result" where
  "settle_with d (Sent pid n now) = MarkSent d pid n now"
| "settle_with d (Failed reason detail n now) = MarkFailed d reason detail n now"

text \<open>A refused call leaves the delivery as it was.\<close>

definition settle_step :: "delivery \<Rightarrow> settling \<Rightarrow> delivery" where
  "settle_step d c = (case settle_with d c of Inl _ \<Rightarrow> d | Inr d' \<Rightarrow> d')"

lemma settle_with_Inr:
  "settle_with d c = Inr d' \<Longrightarrow> dlv_status d = StatusPending \<and> IsSettled d'
     \<and> dlv_ID d' = dlv_ID d \<and> dlv_NotificationID d' = dlv_NotificationID d
     \<and> dlv_Recipient d' = dlv_Recipient d \<and> dlv_SenderName d' = dlv_SenderName d
     \<and> dlv_notifiedAt d' = dlv_notifiedAt d"
  by (cases c) (auto simp: MarkSent_Inr MarkFailed_Inr IsSettled_def)

lemma settle_with_coherent: "coherent d \<Longrightarrow> settle_with d c = Inr d' \<Longrightarrow> coherent d'"
  by (cases c) (auto simp: MarkSent_Inr MarkFailed_Inr coherent_def)

lemma settle_step_settled: "IsSettled d \<Longrightarrow> settle_step d c = d"
  by (cases "settle_with d c")
    (auto simp: settle_step_def IsSettled_def dest: settle_with_Inr)

lemma settle_steps_settled: "IsSettled d \<Longrightarrow> foldl settle_step d cs = d"
  by (induction cs) (simp_all add: settle_step_settled)

lemma settle_step_coherent: "coherent d \<Longrightarrow> coherent (settle_step d c)"
  by (auto simp: settle_step_def dest: settle_with_coherent split: sum.splits)

text \<open>
  However often a message is redelivered, a delivery is settled once: of any sequence of
  \<open>MarkSent\<close> and \<open>MarkFailed\<close> calls the first accepted one decides the row and every later
  one is refused as an invalid transition, the identity of the delivery never changes, and the row
  never contradicts itself (a failure reason with SENT, a provider id with FAILED).
\<close>

theorem delivery_settles_once:
  assumes "coherent d" and "settle_with (foldl settle_step d earlier) c = Inr d'"
  shows "foldl settle_step d (earlier @ c # later) = d'
    \<and> foldl settle_step d earlier = d
    \<and> (\<forall>c2. case settle_with d' c2 of Inr _ \<Rightarrow> False
         | Inl e \<Rightarrow> is_err e (DeliveryE ErrInvalidTransition)
             \<or> is_err e (DeliveryE ErrMissingFailureReason))
    \<and> coherent d' \<and> IsSettled d' \<and> dlv_ID d' = dlv_ID d \<and> dlv_Recipient d' = dlv_Recipient d"
proof -
  have pending: "dlv_status (foldl settle_step d earlier) = StatusPending"
    using settle_with_Inr [OF assms(2)] by simp
  have unmoved: "dlv_status (foldl settle_step x cs) = StatusPending \<Longrightarrow> foldl settle_step x cs = x"
    for x cs
  proof (induction cs arbitrary: x)
    case Nil
    then show ?case by simp
  next
    case (Cons c cs)
    then have IH: "foldl settle_step (settle_step x c) cs = settle_step x c" by simp
    show ?case
    proof (cases "settle_with x c")
      case (Inl e)
      then have "settle_step x c = x" by (simp add: settle_step_def)
      with IH show ?thesis by simp
    next
      case (Inr y)
      then have "IsSettled (settle_step x c)"
        by (simp add: settle_step_def settle_with_Inr)
      with Cons.prems IH show ?thesis by (simp add: IsSettled_def)
    qed
  qed
  have d: "foldl settle_step d earlier = d" by (rule unmoved [OF pending])
  have s: "settle_with d c = Inr d'" using assms(2) by (simp add: d)
  then have fin: "IsSettled d'" and "coherent d'"
    using settle_with_Inr settle_with_coherent assms(1) by blast+
  moreover have "case settle_with d' c2 of Inr _ \<Rightarrow> False
      | Inl e \<Rightarrow> is_err e (DeliveryE ErrInvalidTransition) \<or> is_err e (DeliveryE ErrMissingFailureReason)"
    for c2
  proof -
    have "\<not> CanTransitionTo (dlv_status d') s" for s
      using fin by (auto simp: IsSettled_def CanTransitionTo_iff)
    then show ?thesis
      by (cases c2) (auto simp: MarkSent_def MarkFailed_def moveTo_def)
  qed
  moreover have "settle_step d c = d'" by (simp add: settle_step_def s)
  ultimately show ?thesis
    using d settle_steps_settled [OF fin] settle_with_Inr [OF s] by simp
qed

definition demo_delivery :: delivery where
  "demo_delivery =
    \<lparr> dlv_ID = ''D1'', dlv_NotificationID = ''N1'',
      dlv_Recipient = \<lparr>rcp_Channel = ChannelTelegram, rcp_Address = ''@channel_name''\<rparr>,
      dlv_SenderName = '''', dlv_status = StatusPending, dlv_attempts = 0, dlv_lastError = '''',
      dlv_failureReason = no_failure, dlv_providerMessageID = '''', dlv_notifiedAt = None,
      dlv_updatedAt = 1 \<rparr>"

theorem delivery_settles_once_witness:
  defines "c \<equiv> Sent ''p1'' 2 10"
  defines "d' \<equiv> settle_step demo_delivery c"
  shows "foldl settle_step demo_delivery ([Failed no_failure '''' 1 5] @ c # [Sent ''p2'' 3 11]) = d'
    \<and> foldl settle_step demo_delivery [Failed no_failure '''' 1 5] = demo_delivery
    \<and> (\<forall>c2. case settle_with d' c2 of Inr _ \<Rightarrow> False
         | Inl e \<Rightarrow> is_err e (DeliveryE ErrInvalidTransition)
             \<or> is_err e (DeliveryE ErrMissingFailureReason))
    \<and> coherent d' \<and> IsSettled d' \<and> dlv_ID d' = dlv_ID demo_delivery
    \<and> dlv_Recipient d' = dlv_Recipient demo_delivery"
  by (rule delivery_settles_once)
    (simp_all add: coherent_def demo_delivery_def c_def d'_def settle_step_def MarkSent_def
      MarkFailed_def moveTo_def CanTransitionTo_iff)

subsection \<open>Opening the set of a message\<close>

text \<open>The deliveries \<open>NewSet\<close> opens for a list of recipients and the identifiers drawn.\<close>

definition opened ::
    "ID \<Rightarrow> (channel \<times> string) list \<Rightarrow> time \<Rightarrow> ID \<Rightarrow> recipient \<Rightarrow> delivery" where
  "opened nid senders now i r =
     \<lparr>dlv_ID = i, dlv_NotificationID = nid, dlv_Recipient = r,
      dlv_SenderName = map_get senders (rcp_Channel r), dlv_status = StatusPending,
      dlv_attempts = 0, dlv_lastError = '''', dlv_failureReason = no_failure,
      dlv_providerMessageID = '''', dlv_notifiedAt = None, dlv_updatedAt = now\<rparr>"

lemma opened_simps [simp]:
  "dlv_ID (opened nid senders now i r) = i"
  "dlv_NotificationID (opened nid senders now i r) = nid"
  "dlv_Recipient (opened nid senders now i r) = r"
  "dlv_SenderName (opened nid senders now i r) = map_get senders (rcp_Channel r)"
  "dlv_status (opened nid senders now i r) = StatusPending"
  "dlv_updatedAt (opened nid senders now i r) = now"
  "coherent (opened nid senders now i r)"
  by (simp_all add: opened_def coherent_def)

lemma NewSet_loop_Cons:
  "NewSet_loop L nid senders gen now (r # rs) seen out =
    and_then (lift (Recipient_Validate L r)) (\<lambda>_.
    if r \<in> seen then
      throw (WithStr (WithErr (InvalidInputErr ''recipient listed more than once'')
               (Sentinel (DeliveryE ErrDuplicateRecipient)))
             (Text ''recipient %s'' [FmtS (Recipient_String r)]))
    else
      call gen (\<lambda>i.
      if ID_IsZero i then
        throw (WithErr (InternalErr ''delivery id is missing'') (Sentinel (SharedE ErrInvalidID)))
      else
        NewSet_loop L nid senders gen now rs (insert r seen) (out @ [opened nid senders now i r])))"
  by (simp only: NewSet_loop.simps opened_def)

lemma NewSet_loop_Inr:
  assumes "NewSet_loop L nid senders gen now rs seen out w = (Inr ds, w')"
  shows "\<exists>ids. ds = out @ map2 (opened nid senders now) ids rs \<and> length ids = length rs
     \<and> '''' \<notin> set ids \<and> distinct rs \<and> set rs \<inter> seen = {}
     \<and> list_all (\<lambda>r. Recipient_Validate L r = ok) rs"
  using assms
proof (induction rs arbitrary: seen out w)
  case Nil
  then show ?case by (intro exI [of _ "[]"]) simp
next
  case (Cons r rs)
  from Cons.prems obtain i w1 where
    v: "Recipient_Validate L r = ok" and "r \<notin> seen" and "i \<noteq> ''''"
    and rest: "NewSet_loop L nid senders gen now rs (insert r seen)
        (out @ [opened nid senders now i r]) w1 = (Inr ds, w')"
    by (auto simp: and_then_Inr call_eq ID_IsZero_def opened_def [symmetric] split: if_splits)
  from Cons.IH [OF rest] obtain ids where
    ids: "ds = out @ [opened nid senders now i r] @ map2 (opened nid senders now) ids rs"
      "length ids = length rs" "'''' \<notin> set ids" "distinct rs" "set rs \<inter> insert r seen = {}"
      "list_all (\<lambda>r. Recipient_Validate L r = ok) rs" by auto
  show ?case
    by (rule exI [of _ "i # ids"]) (use ids v \<open>r \<notin> seen\<close> \<open>i \<noteq> ''''\<close> in auto)
qed

lemma NewSet_loop_Inl:
  assumes "NewSet_loop L nid senders gen now rs seen out w = (Inl e, w')"
  shows "of_type ErrInvalidInput e
           \<and> (\<not> distinct rs \<or> set rs \<inter> seen \<noteq> {} \<or> \<not> list_all (\<lambda>r. Recipient_Validate L r = ok) rs)
       \<or> of_type ErrInternal e \<and> (\<exists>w1 w2. gen w1 = ('''', w2))"
  using assms
proof (induction rs arbitrary: seen out w)
  case Nil
  then show ?case by simp
next
  case (Cons r rs)
  show ?case
  proof (cases "Recipient_Validate L r")
    case (Inl e')
    with Cons.prems show ?thesis by (auto simp: Recipient_Validate_type)
  next
    case (Inr u)
    then have v: "Recipient_Validate L r = ok" by simp
    show ?thesis
    proof (cases "r \<in> seen")
      case True
      with Cons.prems v show ?thesis by auto
    next
      case False
      obtain i w1 where g: "gen w = (i, w1)" by fastforce
      show ?thesis
      proof (cases "i = ''''")
        case True
        with Cons.prems v False g show ?thesis by (auto simp: call_eq ID_IsZero_def)
      next
        case neq: False
        with Cons.prems v False g
        have "NewSet_loop L nid senders gen now rs (insert r seen)
            (out @ [opened nid senders now i r]) w1 = (Inl e, w')"
          by (simp add: call_run ID_IsZero_def opened_def)
        from Cons.IH [OF this] v show ?thesis by auto
      qed
    qed
  qed
qed

text \<open>
  \<open>NewSet\<close> opens exactly one PENDING delivery per recipient, in the order asked, each with
  an identifier of its own drawing and the sender named for its channel; it succeeds only for a
  non-empty list of well-formed recipients with no repetition, and when it refuses one of its
  callers' mistakes the error is an invalid input, otherwise an internal error.
\<close>

theorem NewSet_opens_one_each:
  "case NewSet L nid rs senders gen now w of
     (Inr ds, w') \<Rightarrow>
       rs \<noteq> [] \<and> distinct rs \<and> list_all (\<lambda>r. Recipient_Validate L r = ok) rs
       \<and> (\<exists>ids. length ids = length rs \<and> '''' \<notin> set ids
              \<and> ds = map2 (opened nid senders now) ids rs)
       \<and> nid \<noteq> '''' \<and> \<not> IsZero now
   | (Inl e, w') \<Rightarrow>
       (if nid = '''' \<or> gen = None \<or> IsZero now then IsType e ErrInternal
        else IsType e ErrInvalidInput
               \<and> \<not> (rs \<noteq> [] \<and> distinct rs \<and> list_all (\<lambda>r. Recipient_Validate L r = ok) rs)
             \<or> IsType e ErrInternal \<and> (\<exists>g w1 w2. gen = Some g \<and> g w1 = ('''', w2)))"
proof (cases "nid = '''' \<or> gen = None \<or> IsZero now \<or> rs = []")
  case True
  then show ?thesis
    by (cases gen) (auto simp: NewSet_def ID_IsZero_def TypeOf_of_type)
next
  case False
  then obtain g where g: "gen = Some g" by auto
  with False have run: "NewSet L nid rs senders gen now w = NewSet_loop L nid senders g now rs {} [] w"
    by (simp add: NewSet_def ID_IsZero_def)
  obtain r w' where res: "NewSet_loop L nid senders g now rs {} [] w = (r, w')" by fastforce
  show ?thesis
  proof (cases r)
    case (Inl e)
    with NewSet_loop_Inl [of L nid senders g now rs "{}" "[]" w e w'] res
    have "of_type ErrInvalidInput e
             \<and> (\<not> distinct rs \<or> \<not> list_all (\<lambda>r. Recipient_Validate L r = ok) rs)
         \<or> of_type ErrInternal e \<and> (\<exists>w1 w2. g w1 = ('''', w2))" by simp
    then have "IsType e ErrInvalidInput
             \<and> (\<not> distinct rs \<or> \<not> list_all (\<lambda>r. Recipient_Validate L r = ok) rs)
         \<or> IsType e ErrInternal \<and> (\<exists>w1 w2. g w1 = ('''', w2))"
      using TypeOf_of_type by blast
    moreover have "NewSet L nid rs senders gen now w = (Inl e, w')" by (simp add: run res Inl)
    ultimately show ?thesis using False g by simp
  next
    case (Inr ds)
    with NewSet_loop_Inr [of L nid senders g now rs "{}" "[]" w ds w'] res
    obtain ids where "ds = map2 (opened nid senders now) ids rs" "length ids = length rs"
      "'''' \<notin> set ids" "distinct rs" "list_all (\<lambda>r. Recipient_Validate L r = ok) rs"
      by auto
    moreover have "NewSet L nid rs senders gen now w = (Inr ds, w')" by (simp add: run res Inr)
    ultimately show ?thesis using False by auto
  qed
qed

subsection \<open>Ports\<close>

record 'w delivery_repository =
  dr_CreateByList :: "delivery list \<Rightarrow> ('w, unit) io"
  dr_ReadByID :: "ID \<Rightarrow> ('w, delivery) io"
  dr_ListByNotificationID :: "ID \<Rightarrow> ('w, delivery list) io"
  dr_ClaimStale :: "duration \<Rightarrow> duration \<Rightarrow> int \<Rightarrow> ('w, delivery list) io"
  dr_ClaimAnnouncement :: "ID \<Rightarrow> time \<Rightarrow> ('w, bool) io"
  dr_Release :: "delivery \<Rightarrow> ('w, unit) io"
  dr_PageByNotificationID :: "ID \<Rightarrow> cursor \<Rightarrow> ('w, delivery pagination) io"
  dr_Update :: "delivery \<Rightarrow> ('w, unit) io"

record 'w publisher =
  pub_Publish :: "dispatch_event \<Rightarrow> ('w, unit) io"

record 'w sender =
  snd_Channel :: channel
  snd_Send :: "message \<Rightarrow> ('w, string) io"

record 'w sender_registry =
  reg_For :: "string \<Rightarrow> channel \<Rightarrow> string \<Rightarrow> ('w, 'w sender) io"

subsection \<open>The accepting side\<close>

record 'w delivery_service =
  ds_repo :: "'w delivery_repository"
  ds_pub :: "'w publisher"
  ds_newID :: "'w IDFunc option"
  ds_now :: "'w NowFunc"

definition Service_Create ::
    "golib \<Rightarrow> 'w delivery_service \<Rightarrow> ID \<Rightarrow> recipient list \<Rightarrow> (channel \<times> string) list
     \<Rightarrow> ('w, delivery list) io" where
  "Service_Create L s nid recipients senders =
    call (ds_now s) (\<lambda>now.
    and_then (NewSet L nid recipients senders (ds_newID s) now) (\<lambda>ds.
    and_then (dr_CreateByList (ds_repo s) ds) (\<lambda>_.
    ret ds)))"

definition Service_Publish ::
    "'w delivery_service \<Rightarrow> delivery \<Rightarrow> string \<Rightarrow> priority \<Rightarrow> ('w, unit) io" where
  "Service_Publish s d sourceID p =
    pub_Publish (ds_pub s)
      \<lparr>ev_DeliveryID = dlv_ID d, ev_SourceID = sourceID,
       ev_Channel = rcp_Channel (dlv_Recipient d), ev_Priority = p\<rparr>"

definition ListForNotification ::
    "'w delivery_service \<Rightarrow> ID \<Rightarrow> cursor \<Rightarrow> ('w, delivery pagination) io" where
  "ListForNotification s nid c = dr_PageByNotificationID (ds_repo s) nid (Normalize c)"

subsection \<open>The sending side\<close>

record 'w tracker =
  trk_repo :: "'w delivery_repository"
  trk_now :: "'w NowFunc"

definition Tracker_Get :: "'w tracker \<Rightarrow> ID \<Rightarrow> ('w, delivery) io" where
  "Tracker_Get t i = dr_ReadByID (trk_repo t) i"

definition ListAllForNotification :: "'w tracker \<Rightarrow> ID \<Rightarrow> ('w, delivery list) io" where
  "ListAllForNotification t nid = dr_ListByNotificationID (trk_repo t) nid"

definition Tracker_ClaimStale ::
    "'w tracker \<Rightarrow> duration \<Rightarrow> duration \<Rightarrow> int \<Rightarrow> ('w, delivery list) io" where
  "Tracker_ClaimStale t olderThan lease limit = dr_ClaimStale (trk_repo t) olderThan lease limit"

definition Tracker_ClaimAnnouncement :: "'w tracker \<Rightarrow> ID \<Rightarrow> ('w, bool) io" where
  "Tracker_ClaimAnnouncement t nid =
    call (trk_now t) (\<lambda>now. dr_ClaimAnnouncement (trk_repo t) nid now)"

definition Tracker_Release :: "'w tracker \<Rightarrow> delivery \<Rightarrow> ('w, unit) io" where
  "Tracker_Release t d = dr_Release (trk_repo t) d"

text \<open>
  The two recorders settle the caller's copy before they write it, so they answer the copy as it
  then stands beside the error: settled whether or not the write went through.
\<close>

definition RecordSent ::
    "'w tracker \<Rightarrow> delivery \<Rightarrow> string \<Rightarrow> int \<Rightarrow> 'w \<Rightarrow> (unit result \<times> delivery) \<times> 'w" where
  "RecordSent t d pid attempts w =
    (case trk_now t w of (now, w1) \<Rightarrow>
      (case MarkSent d pid attempts now of
         Inl e \<Rightarrow> ((Inl e, d), w1)
       | Inr d' \<Rightarrow> (case dr_Update (trk_repo t) d' w1 of (r, w2) \<Rightarrow> ((r, d'), w2))))"

definition RecordFailure ::
    "'w tracker \<Rightarrow> delivery \<Rightarrow> failure_reason \<Rightarrow> string \<Rightarrow> int
     \<Rightarrow> 'w \<Rightarrow> (unit result \<times> delivery) \<times> 'w" where
  "RecordFailure t d reason detail attempts w =
    (case trk_now t w of (now, w1) \<Rightarrow>
      (case MarkFailed d reason detail attempts now of
         Inl e \<Rightarrow> ((Inl e, d), w1)
       | Inr d' \<Rightarrow> (case dr_Update (trk_repo t) d' w1 of (r, w2) \<Rightarrow> ((r, d'), w2))))"

subsection \<open>The contract of a delivery store\<close>

text \<open>
  What the sending side relies on. \<open>stored\<close> is the row of a delivery; \<open>evolves w m\<close> says
  that the state may have gone from \<open>w\<close> to \<open>m\<close>, by whatever this process and all others did
  in between; \<open>good\<close> is the provider's own invariant. An update that is acknowledged found a
  pending row and wrote the outcome; one refused as already settled wrote nothing. \<open>outcome_of\<close>
  is the part of a row the recorders own.
\<close>

definition outcome_of ::
    "delivery \<Rightarrow> delivery_status \<times> int \<times> string \<times> failure_reason \<times> string" where
  "outcome_of d = (dlv_status d, dlv_attempts d, dlv_lastError d, dlv_failureReason d,
     dlv_providerMessageID d)"

text \<open>
  The row after the outcome of \<open>d\<close> was written into it: the attempts are stored in 32 bits, the
  status and the reason as text that is read back by name.
\<close>

definition with_outcome :: "delivery \<Rightarrow> delivery \<Rightarrow> delivery" where
  "with_outcome d row = row\<lparr>dlv_status := Status (Status_String (dlv_status d)),
     dlv_attempts := to_int32 (dlv_attempts d), dlv_lastError := dlv_lastError d,
     dlv_failureReason := FailureReason (Failure_String (dlv_failureReason d)),
     dlv_providerMessageID := dlv_providerMessageID d, dlv_updatedAt := dlv_updatedAt d\<rparr>"

text \<open>A settled row keeps its outcome, and an announced one its announcement, as long as it is kept.\<close>

definition outcomes_final :: "(ID \<Rightarrow> delivery option) \<Rightarrow> (ID \<Rightarrow> delivery option) \<Rightarrow> bool" where
  "outcomes_final s t \<longleftrightarrow> (\<forall>i d d'. s i = Some d \<longrightarrow> t i = Some d' \<longrightarrow>
     dlv_Recipient d' = dlv_Recipient d \<and> dlv_NotificationID d' = dlv_NotificationID d
     \<and> (IsSettled d \<longrightarrow> outcome_of d' = outcome_of d)
     \<and> (dlv_notifiedAt d \<noteq> None \<longrightarrow> dlv_notifiedAt d' = dlv_notifiedAt d))"

lemma outcomes_finalD:
  assumes "outcomes_final s t" "s i = Some d" "t i = Some d'"
  shows "dlv_Recipient d' = dlv_Recipient d" "dlv_NotificationID d' = dlv_NotificationID d"
    "IsSettled d \<Longrightarrow> outcome_of d' = outcome_of d"
    "dlv_notifiedAt d \<noteq> None \<Longrightarrow> dlv_notifiedAt d' = dlv_notifiedAt d"
  using assms unfolding outcomes_final_def by blast+

lemma outcome_of_settled: "outcome_of d' = outcome_of d \<Longrightarrow> IsSettled d' = IsSettled d"
  by (simp add: outcome_of_def IsSettled_def)

lemma outcome_of_with_outcome:
  "Status_Valid (dlv_status d) \<Longrightarrow> Failure_Valid (dlv_failureReason d) \<or> dlv_failureReason d = no_failure \<Longrightarrow>
   outcome_of (with_outcome d row) = outcome_of (d\<lparr>dlv_attempts := to_int32 (dlv_attempts d)\<rparr>)"
  by (auto simp: outcome_of_def with_outcome_def)

locale delivery_store =
  fixes repo :: "'w delivery_repository"
    and now :: "'w NowFunc"
    and stored :: "'w \<Rightarrow> ID \<Rightarrow> delivery option"
    and evolves :: "'w \<Rightarrow> 'w \<Rightarrow> bool"
    and good :: "'w \<Rightarrow> bool"
  assumes evolves_refl: "evolves w w"
    and evolves_trans: "evolves a b \<Longrightarrow> evolves b c \<Longrightarrow> good a \<Longrightarrow> evolves a c"
    and evolves_good: "evolves w m \<Longrightarrow> good w \<Longrightarrow> good m"
    and evolves_final: "evolves w m \<Longrightarrow> good w \<Longrightarrow> outcomes_final (stored w) (stored m)"
    and clock_evolves: "now w = (t, w') \<Longrightarrow> good w \<Longrightarrow> evolves w w'"
    and update_evolves: "dr_Update repo d w = (r, w') \<Longrightarrow> good w \<Longrightarrow> evolves w w'"
    and read_found: "dr_ReadByID repo i w = (found, w') \<Longrightarrow> good w \<Longrightarrow>
          evolves w w' \<and> (\<forall>d. found = Inr d \<longrightarrow> stored w' i = Some d)"
    and update_acknowledged: "dr_Update repo d w = (Inr (), w') \<Longrightarrow> good w \<Longrightarrow>
          \<exists>m row. evolves w m \<and> stored m (dlv_ID d) = Some row \<and> dlv_status row = StatusPending
            \<and> stored w' = (stored m)(dlv_ID d \<mapsto> with_outcome d row)"
    and update_refused: "dr_Update repo d w = (Inl e, w') \<Longrightarrow> good w \<Longrightarrow>
          is_err e (DeliveryE ErrAlreadySettled) \<Longrightarrow> \<exists>m. evolves w m \<and> stored w' = stored m
            \<and> (case stored m (dlv_ID d) of None \<Rightarrow> True | Some row \<Rightarrow> IsSettled row)"
    and gone_stays: "evolves a b \<Longrightarrow> evolves b c \<Longrightarrow> good a \<Longrightarrow> stored a i \<noteq> None \<Longrightarrow> stored b i = None \<Longrightarrow>
          stored c i = None"
    and announcement_claimed: "dr_ClaimAnnouncement repo nid t w = (won, w') \<Longrightarrow> good w \<Longrightarrow>
          evolves w w' \<and> (won = Inr True \<longrightarrow>
            (\<exists>m i d d'. evolves w m \<and> stored m i = Some d \<and> dlv_NotificationID d = nid
                \<and> dlv_notifiedAt d = None \<and> stored w' i = Some d' \<and> dlv_NotificationID d' = nid)
            \<and> (\<forall>i d. stored w' i = Some d \<longrightarrow> dlv_NotificationID d = nid \<longrightarrow> dlv_notifiedAt d \<noteq> None))"
begin

text \<open>Whatever the recorders are asked to do, they change no settled row.\<close>

lemma recorders_evolve:
  assumes "good w"
  shows "evolves w (snd (RecordSent \<lparr>trk_repo = repo, trk_now = now\<rparr> d pid n w))"
    and "evolves w (snd (RecordFailure \<lparr>trk_repo = repo, trk_now = now\<rparr> d reason detail n w))"
proof -
  obtain t w1 where c: "now w = (t, w1)" by fastforce
  have e1: "evolves w w1" by (rule clock_evolves [OF c assms])
  have "evolves w w2" if "dr_Update repo x w1 = (r, w2)" for x r w2
    using update_evolves [OF that evolves_good [OF e1 assms]] evolves_trans [OF e1 _ assms] by blast
  with e1 show
    "evolves w (snd (RecordSent \<lparr>trk_repo = repo, trk_now = now\<rparr> d pid n w))"
    "evolves w (snd (RecordFailure \<lparr>trk_repo = repo, trk_now = now\<rparr> d reason detail n w))"
    by (auto simp: RecordSent_def RecordFailure_def c split: prod.split sum.split)
qed

lemma recorders_final:
  assumes "good w"
  shows "outcomes_final (stored w) (stored (snd (RecordSent \<lparr>trk_repo = repo, trk_now = now\<rparr> d pid n w)))"
    and "outcomes_final (stored w)
      (stored (snd (RecordFailure \<lparr>trk_repo = repo, trk_now = now\<rparr> d reason detail n w)))"
  using evolves_final [OF recorders_evolve(1) assms] evolves_final [OF recorders_evolve(2) assms]
    assms by blast+

text \<open>A recorder that answers no error wrote its outcome over a row that was still pending.\<close>

lemma RecordSent_acknowledged:
  assumes "RecordSent \<lparr>trk_repo = repo, trk_now = now\<rparr> d pid n w = ((Inr (), d'), w')" "good w"
  shows "dlv_status d = StatusPending \<and> IsSettled d' \<and> dlv_providerMessageID d' = pid
    \<and> (\<exists>m row row'. evolves w m \<and> stored m (dlv_ID d) = Some row \<and> dlv_status row = StatusPending
         \<and> stored w' = (stored m)(dlv_ID d \<mapsto> row')
         \<and> outcome_of row' = outcome_of (d'\<lparr>dlv_attempts := to_int32 n\<rparr>))"
proof -
  obtain t w1 where clk: "now w = (t, w1)" by fastforce
  with assms(1) have u: "MarkSent d pid n t = Inr d'" and up: "dr_Update repo d' w1 = (Inr (), w')"
    by (auto simp: RecordSent_def split: sum.splits prod.splits)
  have e1: "evolves w w1" by (rule clock_evolves [OF clk assms(2)])
  from u have d': "dlv_status d = StatusPending" "dlv_ID d' = dlv_ID d" "IsSettled d'"
    "dlv_providerMessageID d' = pid" "dlv_attempts d' = n"
    "Status_Valid (dlv_status d')" "dlv_failureReason d' = no_failure"
    by (auto simp: MarkSent_Inr IsSettled_def Status_Valid_def transitions_def)
  from update_acknowledged [OF up evolves_good [OF e1 assms(2)]] obtain m row where
    "evolves w1 m" "stored m (dlv_ID d') = Some row" "dlv_status row = StatusPending"
    "stored w' = (stored m)(dlv_ID d' \<mapsto> with_outcome d' row)" by blast
  with d' evolves_trans [OF e1 _ assms(2)] outcome_of_with_outcome [of d' row] show ?thesis
    by metis
qed

text \<open>
  A settled row is updated no more, whatever happens in between; so of two recorders that race for
  one delivery only one is acknowledged.
\<close>

lemma settled_not_updated:
  assumes "stored w i = Some row" "IsSettled row" "evolves w w2" "good w" "dlv_ID x = i"
  shows "dr_Update repo x w2 \<noteq> (Inr (), w3)"
proof
  assume up: "dr_Update repo x w2 = (Inr (), w3)"
  from update_acknowledged [OF up evolves_good [OF assms(3,4)]] obtain m row2 where
    m: "evolves w2 m" "stored m (dlv_ID x) = Some row2" "dlv_status row2 = StatusPending" by blast
  have "outcomes_final (stored w) (stored m)"
    by (rule evolves_final [OF evolves_trans [OF assms(3) m(1) assms(4)] assms(4)])
  from outcomes_finalD(3) [OF this assms(1)] m(2) assms(2,5)
  have "outcome_of row2 = outcome_of row" by simp
  with assms(2) m(3) show False by (simp add: outcome_of_def IsSettled_def)
qed

lemma RecordSent_stored:
  assumes "RecordSent \<lparr>trk_repo = repo, trk_now = now\<rparr> d pid n w = ((Inr (), d1), w1)" "good w"
  shows "good w1 \<and> (\<exists>row. stored w1 (dlv_ID d) = Some row \<and> IsSettled row
    \<and> outcome_of row = outcome_of (d1\<lparr>dlv_attempts := to_int32 n\<rparr>))"
proof -
  have "good w1"
    using evolves_good [OF recorders_evolve(1) assms(2)] assms(1,2) by (metis snd_conv)
  moreover from RecordSent_acknowledged [OF assms(1,2)] obtain row where
    "stored w1 (dlv_ID d) = Some row" "outcome_of row = outcome_of (d1\<lparr>dlv_attempts := to_int32 n\<rparr>)"
    and "IsSettled d1" by fastforce
  ultimately show ?thesis by (auto simp: outcome_of_def IsSettled_def)
qed

lemma RecordFailure_stored:
  assumes "RecordFailure \<lparr>trk_repo = repo, trk_now = now\<rparr> d reason detail n w = ((Inr (), d1), w1)" "good w"
  shows "good w1 \<and> (\<exists>row. stored w1 (dlv_ID d) = Some row \<and> IsSettled row
    \<and> outcome_of row = outcome_of (d1\<lparr>dlv_attempts := to_int32 n\<rparr>))"
proof -
  obtain t w0 where clk: "now w = (t, w0)" by fastforce
  with assms(1) have u: "MarkFailed d reason detail n t = Inr d1" and up: "dr_Update repo d1 w0 = (Inr (), w1)"
    by (auto simp: RecordFailure_def split: sum.splits prod.splits)
  have g0: "good w0" by (rule evolves_good [OF clock_evolves [OF clk assms(2)] assms(2)])
  have d1: "dlv_ID d1 = dlv_ID d" "dlv_attempts d1 = n" "IsSettled d1" "Failure_Valid (dlv_failureReason d1)"
    "Status_Valid (dlv_status d1)"
    using u by (auto simp: MarkFailed_Inr IsSettled_def Status_Valid_def transitions_def)
  from update_acknowledged [OF up g0] obtain m row where
    row: "stored w1 = (stored m)(dlv_ID d1 \<mapsto> with_outcome d1 row)" by blast
  have out: "outcome_of (with_outcome d1 row) = outcome_of (d1\<lparr>dlv_attempts := to_int32 n\<rparr>)"
    using outcome_of_with_outcome [of d1 row] d1 by simp
  then have "IsSettled (with_outcome d1 row)" using d1(3) by (simp add: outcome_of_def IsSettled_def)
  then show ?thesis
    using evolves_good [OF update_evolves [OF up g0] g0] row out d1(1) by auto
qed

lemma recorded_once:
  assumes "RecordSent \<lparr>trk_repo = repo, trk_now = now\<rparr> d pid n w = ((Inr (), d1), w1)" "good w"
    and "evolves w1 w2" and "dlv_ID x = dlv_ID d"
  shows "dr_Update repo x w2 \<noteq> (Inr (), w3)"
  using RecordSent_stored [OF assms(1,2)] settled_not_updated [OF _ _ assms(3) _ assms(4)] by blast

lemma stored_outcome_final:
  assumes "stored w i = Some row" "IsSettled row" "evolves w w2" "good w" "stored w2 i = Some row2"
  shows "outcome_of row2 = outcome_of row"
  using outcomes_finalD(3) [OF evolves_final [OF assms(3,4)] assms(1,5,2)] .

text \<open>
  A delivery is concluded when its row is settled or gone. A recorder that answers nothing worse
  than "already settled" has concluded the pending delivery it was called with, and what is
  concluded stays so.
\<close>

definition concluded :: "'w \<Rightarrow> ID \<Rightarrow> bool" where
  "concluded w i \<longleftrightarrow> (case stored w i of None \<Rightarrow> True | Some row \<Rightarrow> IsSettled row)"

lemma concluded_stays:
  assumes "good w" "stored w i \<noteq> None" "evolves w w1" "concluded w1 i" "evolves w1 w2"
  shows "concluded w2 i"
proof (cases "stored w1 i")
  case None
  then have "stored w2 i = None" using gone_stays [OF assms(3,5,1,2)] by simp
  then show ?thesis by (simp add: concluded_def)
next
  case (Some row)
  have g1: "good w1" by (rule evolves_good [OF assms(3,1)])
  from Some assms(4) have "IsSettled row" by (simp add: concluded_def)
  then have "IsSettled row2" if "stored w2 i = Some row2" for row2
    using outcome_of_settled [OF stored_outcome_final [OF Some _ assms(5) g1 that]] by blast
  then show ?thesis by (cases "stored w2 i") (simp_all add: concluded_def)
qed

lemma update_concludes:
  assumes "dr_Update repo d w = (r, w')" "good w" "IsSettled d" "Failure_Valid (dlv_failureReason d) \<or> dlv_failureReason d = no_failure"
    and "r = Inr () \<or> (\<exists>e. r = Inl e \<and> is_err e (DeliveryE ErrAlreadySettled))"
  shows "concluded w' (dlv_ID d)"
  using assms(5)
proof
  assume "r = Inr ()"
  with update_acknowledged assms(1,2) obtain m row where
    "stored w' = (stored m)(dlv_ID d \<mapsto> with_outcome d row)" by metis
  moreover have "Status_Valid (dlv_status d)"
    using assms(3) by (auto simp: IsSettled_def Status_IsSettled_def Status_Valid_def transitions_def)
  ultimately show ?thesis
    using outcome_of_with_outcome [of d row] assms(3,4)
    by (simp add: concluded_def outcome_of_def IsSettled_def)
next
  assume "\<exists>e. r = Inl e \<and> is_err e (DeliveryE ErrAlreadySettled)"
  with update_refused assms(1,2) show ?thesis
    unfolding concluded_def by (metis (no_types, lifting))
qed

lemma recorders_conclude:
  assumes "good w" "dlv_status d = StatusPending"
  shows "RecordSent \<lparr>trk_repo = repo, trk_now = now\<rparr> d pid n w = ((r, d'), w') \<Longrightarrow>
      r = Inr () \<or> (\<exists>e. r = Inl e \<and> is_err e (DeliveryE ErrAlreadySettled)) \<Longrightarrow> concluded w' (dlv_ID d)"
    and "RecordFailure \<lparr>trk_repo = repo, trk_now = now\<rparr> d reason detail n w = ((r, d'), w') \<Longrightarrow>
      Failure_Valid reason \<Longrightarrow>
      r = Inr () \<or> (\<exists>e. r = Inl e \<and> is_err e (DeliveryE ErrAlreadySettled)) \<Longrightarrow> concluded w' (dlv_ID d)"
proof -
  obtain t w1 where clk: "now w = (t, w1)" by fastforce
  have g1: "good w1" by (rule evolves_good [OF clock_evolves [OF clk assms(1)] assms(1)])
  show "concluded w' (dlv_ID d)"
    if "RecordSent \<lparr>trk_repo = repo, trk_now = now\<rparr> d pid n w = ((r, d'), w')"
      "r = Inr () \<or> (\<exists>e. r = Inl e \<and> is_err e (DeliveryE ErrAlreadySettled))"
  proof (cases "MarkSent d pid n t")
    case (Inl e)
    with assms(2) show ?thesis by (simp add: MarkSent_def moveTo_def CanTransitionTo_iff)
  next
    case (Inr x)
    with that(1) clk have "dr_Update repo x w1 = (r, w')"
      by (auto simp: RecordSent_def split: prod.splits)
    from update_concludes [OF this g1 _ _ that(2)] Inr show ?thesis
      by (simp add: MarkSent_Inr IsSettled_def)
  qed
  show "concluded w' (dlv_ID d)"
    if "RecordFailure \<lparr>trk_repo = repo, trk_now = now\<rparr> d reason detail n w = ((r, d'), w')"
      "Failure_Valid reason" "r = Inr () \<or> (\<exists>e. r = Inl e \<and> is_err e (DeliveryE ErrAlreadySettled))"
  proof (cases "MarkFailed d reason detail n t")
    case (Inl e)
    with assms(2) that(2) show ?thesis by (simp add: MarkFailed_def moveTo_def CanTransitionTo_iff)
  next
    case (Inr x)
    with that(1) clk have "dr_Update repo x w1 = (r, w')"
      by (auto simp: RecordFailure_def split: prod.splits)
    from update_concludes [OF this g1 _ _ that(3)] Inr show ?thesis
      by (simp add: MarkFailed_Inr IsSettled_def)
  qed
qed

text \<open>
  A message is announced once: a second claim is won only over a delivery the first had not seen.
\<close>

lemma announcement_won_again:
  assumes "dr_ClaimAnnouncement repo nid t w = (Inr True, w1)" "good w" "evolves w1 m"
    and "stored m i = Some d" "dlv_NotificationID d = nid" "dlv_notifiedAt d = None"
  shows "stored w1 i = None"
proof (rule ccontr)
  assume "stored w1 i \<noteq> None"
  then obtain d0 where d0: "stored w1 i = Some d0" by auto
  from announcement_claimed [OF assms(1,2)] have "evolves w w1" and
    ann: "\<And>i d. stored w1 i = Some d \<Longrightarrow> dlv_NotificationID d = nid \<Longrightarrow> dlv_notifiedAt d \<noteq> None" by auto
  then have fin: "outcomes_final (stored w1) (stored m)"
    using evolves_final [OF assms(3)] evolves_good assms(2) by blast
  from outcomes_finalD(2) [OF fin d0 assms(4)] assms(5) have "dlv_notifiedAt d0 \<noteq> None"
    using ann [OF d0] by simp
  with outcomes_finalD(4) [OF fin d0 assms(4)] assms(6) show False by simp
qed

end

end
