(* ===== verification/Notification.thy ===== *)
theory Notification
  imports Effects
begin

text \<open>
  \<open>internal/core/domain/notification\<close>: the message a source submitted, the windows a listing
  reaches back over, the repository port and the service over it.
\<close>

subsection \<open>Types\<close>

record origin =
  org_ID :: string
  org_Name :: string
  org_MaxPriority :: priority

record request =
  req_IdempotencyKey :: string
  req_Title :: string
  req_Body :: string
  req_Priority :: priority
  req_ExpireAt :: "time option"
  req_Metadata :: "(string \<times> string) list option"

datatype window = Window (window_word: "8 word")

definition WindowAll :: window where "WindowAll = Window 0"
definition WindowLastHour :: window where "WindowLastHour = Window 1"
definition WindowLastDay :: window where "WindowLastDay = Window 2"
definition WindowLastWeek :: window where "WindowLastWeek = Window 3"
definition WindowLastMonth :: window where "WindowLastMonth = Window 4"

lemmas window_defs =
  WindowAll_def WindowLastHour_def WindowLastDay_def WindowLastWeek_def WindowLastMonth_def

definition windowLengths :: "(window \<times> duration) list" where
  "windowLengths =
     [(WindowLastHour, hour), (WindowLastDay, 24 * hour), (WindowLastWeek, 7 * 24 * hour),
      (WindowLastMonth, 30 * 24 * hour)]"

definition windowNames :: "(window \<times> string) list" where
  "windowNames =
     [(WindowAll, ''ALL''), (WindowLastHour, ''LAST_HOUR''), (WindowLastDay, ''LAST_DAY''),
      (WindowLastWeek, ''LAST_WEEK''), (WindowLastMonth, ''LAST_MONTH'')]"

definition Window_Valid :: "window \<Rightarrow> bool" where
  "Window_Valid w \<longleftrightarrow> (if w = WindowAll then True else map_of windowLengths w \<noteq> None)"

definition Window_String :: "golib \<Rightarrow> window \<Rightarrow> string" where
  "Window_String L w = (case map_of windowNames w of
     Some name \<Rightarrow> name
   | None \<Rightarrow> Sprintf L ''Window(%d)'' [FmtD (sint (window_word w))])"

text \<open>A missing key of the map reads as the zero duration.\<close>

definition Window_Length :: "window \<Rightarrow> duration \<Rightarrow> duration" where
  "Window_Length w keeps_for =
    (if w = WindowAll then keeps_for
     else case map_of windowLengths w of Some d \<Rightarrow> d | None \<Rightarrow> 0)"

definition Since :: "window \<Rightarrow> time \<Rightarrow> duration \<Rightarrow> time" where
  "Since w now keeps_for = now + - Window_Length w keeps_for"

record operator_row =
  opr_ID :: ID
  opr_Channels :: "string list"
  opr_Failed :: int
  opr_Total :: int
  opr_CreatedAt :: time

lemma Window_Valid_iff:
  "Window_Valid w \<longleftrightarrow> w \<in> {WindowAll, WindowLastHour, WindowLastDay, WindowLastWeek, WindowLastMonth}"
  by (auto simp: Window_Valid_def windowLengths_def)

lemma Window_names_valid: "Window_Valid w \<longleftrightarrow> map_of windowNames w \<noteq> None"
  by (auto simp: Window_Valid_iff windowNames_def)

subsection \<open>The message\<close>

record notification =
  ntf_ID :: ID
  ntf_SourceID :: string
  ntf_IdempotencyKey :: string
  ntf_SourceName :: string
  ntf_Title :: string
  ntf_Body :: string
  ntf_RequestedPriority :: priority
  ntf_EffectivePriority :: priority
  ntf_ExpireAt :: "time option"
  ntf_CreatedAt :: time
  ntf_metadata :: "(string \<times> string) list option"

text \<open>Values are immutable here, so the copy a nil-preserving \<open>copyMetadata\<close> makes is the value.\<close>

definition copyMetadata :: "(string \<times> string) list option \<Rightarrow> (string \<times> string) list option" where
  "copyMetadata m = (case m of None \<Rightarrow> None | Some kvs \<Rightarrow> Some (map (\<lambda>(k, v). (k, v)) kvs))"

definition notification_New ::
    "ID \<Rightarrow> origin \<Rightarrow> request \<Rightarrow> time \<Rightarrow> notification result" where
  "notification_New i org req now =
    (if ID_IsZero i then
       Inl (WithErr (InternalErr ''notification id is missing'') (Sentinel (SharedE ErrInvalidID)))
     else if org_ID org = '''' then
       Inl (WithErr (InternalErr ''source is missing'')
         (Sentinel (NotificationE notification_error.ErrMissingSource)))
     else if IsZero now then
       Inl (WithErr (InternalErr ''creation timestamp is missing'')
         (Sentinel (NotificationE ErrMissingTimestamp)))
     else if req_Body req = '''' then
       Inl (WithErr (InvalidInputErr ''body is required'') (Sentinel (NotificationE ErrEmptyBody)))
     else if \<not> Priority_Valid (req_Priority req) then
       Inl (WithStr (WithErr (InvalidInputErr ''unknown priority'')
              (Sentinel (SharedE ErrUnknownPriority)))
            (Text ''got %d'' [FmtD (sint (priority_word (req_Priority req)))]))
     else if (case req_ExpireAt req of None \<Rightarrow> False | Some t \<Rightarrow> \<not> now < t) then
       Inl (WithStr (WithErr (InvalidInputErr ''expiry is not in the future'')
              (Sentinel (NotificationE ErrAlreadyExpired)))
            (Text ''expire_at %s, now %s'' [FmtT (the (req_ExpireAt req)), FmtT now]))
     else
       Inr \<lparr>ntf_ID = i, ntf_SourceID = org_ID org, ntf_IdempotencyKey = req_IdempotencyKey req,
            ntf_SourceName = org_Name org, ntf_Title = req_Title req, ntf_Body = req_Body req,
            ntf_RequestedPriority = req_Priority req,
            ntf_EffectivePriority = Clamp (req_Priority req) (org_MaxPriority org),
            ntf_ExpireAt = req_ExpireAt req, ntf_CreatedAt = now,
            ntf_metadata = copyMetadata (req_Metadata req)\<rparr>)"

definition Metadata :: "notification \<Rightarrow> (string \<times> string) list option" where
  "Metadata n = copyMetadata (ntf_metadata n)"

definition WasDowngraded :: "notification \<Rightarrow> bool" where
  "WasDowngraded n \<longleftrightarrow> ntf_EffectivePriority n \<noteq> ntf_RequestedPriority n"

definition IsExpired :: "notification \<Rightarrow> time \<Rightarrow> bool" where
  "IsExpired n now = (case ntf_ExpireAt n of None \<Rightarrow> False | Some t \<Rightarrow> \<not> now < t)"

lemma copyMetadata_id [simp]: "copyMetadata m = m"
  by (auto simp: copyMetadata_def split: option.split)

lemma notification_New_type:
  "notification_New i org req now = Inl e \<Longrightarrow> of_type ErrInternal e \<or> of_type ErrInvalidInput e"
  by (auto simp: notification_New_def split: if_splits)

text \<open>
  A message that passes \<open>New\<close> carries the request unchanged, is not expired at its
  creation, and is sent at the lower of the priority asked for and the source's ceiling: asking for
  too much is never refused, and the downgrade is visible exactly when it happened. Our own
  mistakes are internal errors and are reported before the caller's, which are invalid input.
\<close>

theorem notification_New_clamps:
  "case notification_New i org req now of
     Inr n \<Rightarrow>
       ntf_ID n = i \<and> ntf_SourceID n = org_ID org \<and> ntf_Body n = req_Body req \<and> ntf_Body n \<noteq> ''''
       \<and> ntf_Title n = req_Title req \<and> ntf_IdempotencyKey n = req_IdempotencyKey req
       \<and> Metadata n = req_Metadata req
       \<and> ntf_RequestedPriority n = req_Priority req \<and> Priority_Valid (ntf_RequestedPriority n)
       \<and> ntf_EffectivePriority n = min (req_Priority req) (org_MaxPriority org)
       \<and> WasDowngraded n = (org_MaxPriority org < req_Priority req)
       \<and> \<not> IsExpired n now
   | Inl e \<Rightarrow>
       (if i = '''' \<or> org_ID org = '''' \<or> IsZero now then IsType e ErrInternal
        else IsType e ErrInvalidInput
          \<and> (is_err e (NotificationE ErrEmptyBody) = (req_Body req = ''''))
          \<and> (is_err e (NotificationE ErrAlreadyExpired)
               = (req_Body req \<noteq> '''' \<and> Priority_Valid (req_Priority req))))"
proof (cases "notification_New i org req now")
  case (Inl e)
  then show ?thesis
    by (simp add: notification_New_def ID_IsZero_def split: if_splits)
      (auto simp: IsType_def err_constructors chainReason_def)
next
  case (Inr n)
  then show ?thesis
    by (auto simp: notification_New_def ID_IsZero_def Clamp_min Metadata_def WasDowngraded_def
        IsExpired_def min_def split: if_splits option.splits)
qed

subsection \<open>Ports and service\<close>

record 'w notification_repository =
  nr_Create :: "notification \<Rightarrow> ('w, unit) io"
  nr_ReadByID :: "ID \<Rightarrow> ('w, notification) io"
  nr_ReadByIdempotencyKey :: "string \<Rightarrow> string \<Rightarrow> ('w, notification option) io"
  nr_PageBySource :: "string \<Rightarrow> time \<Rightarrow> cursor \<Rightarrow> ('w, notification pagination) io"
  nr_DeleteOlderThan :: "time \<Rightarrow> int \<Rightarrow> ('w, int) io"
  nr_ListForOperator :: "string \<Rightarrow> int \<Rightarrow> ('w, operator_row list) io"

record 'w notification_service =
  ns_repo :: "'w notification_repository"
  ns_newID :: "'w IDFunc"
  ns_now :: "'w NowFunc"
  ns_keeps :: duration

definition notification_Create ::
    "'w notification_service \<Rightarrow> origin \<Rightarrow> request \<Rightarrow> ('w, notification) io" where
  "notification_Create s org req =
    call (ns_newID s) (\<lambda>i.
    call (ns_now s) (\<lambda>now.
    and_then (lift (notification_New i org req now)) (\<lambda>n.
    and_then (nr_Create (ns_repo s) n) (\<lambda>_.
    ret n))))"

definition notification_Get :: "'w notification_service \<Rightarrow> ID \<Rightarrow> ('w, notification) io" where
  "notification_Get s i = nr_ReadByID (ns_repo s) i"

text \<open>
  Whole hours and days of a duration: \<open>int(d.Hours())\<close> truncates a floating-point quotient,
  which for the durations compared here is the integer quotient.
\<close>

definition humanAge :: "golib \<Rightarrow> duration \<Rightarrow> string" where
  "humanAge L d =
    (if 24 * hour \<le> d then Sprintf L ''%d days'' [FmtD (d div (24 * hour))]
     else if hour \<le> d then Sprintf L ''%d hours'' [FmtD (d div hour)]
     else duration_String L d)"

definition notification_Page ::
    "golib \<Rightarrow> 'w notification_service \<Rightarrow> string \<Rightarrow> window \<Rightarrow> cursor
     \<Rightarrow> ('w, notification pagination) io" where
  "notification_Page L s sourceID w c =
    (if \<not> Window_Valid w then
       throw (WithStr (WithErr (InvalidInputErr ''unknown time window'')
                (Sentinel (NotificationE ErrUnknownWindow)))
              (Text ''window %s'' [FmtS (Window_String L w)]))
     else if ns_keeps s < Window_Length w (ns_keeps s) then
       throw (WithStr (WithErr (InvalidInputErr
                  (Sprintf L ''this service keeps messages for %s'' [FmtS (humanAge L (ns_keeps s))]))
                (Sentinel (NotificationE ErrWindowTooLong)))
              (Text ''window %s reaches back %s''
                [FmtS (Window_String L w), FmtS (duration_String L (Window_Length w (ns_keeps s)))]))
     else
       call (ns_now s) (\<lambda>now. nr_PageBySource (ns_repo s) sourceID (Since w now (ns_keeps s)) c))"

definition GetByIdempotencyKey ::
    "'w notification_service \<Rightarrow> string \<Rightarrow> string \<Rightarrow> ('w, notification option) io" where
  "GetByIdempotencyKey s sourceID key = nr_ReadByIdempotencyKey (ns_repo s) sourceID key"

definition notification_DeleteOlderThan ::
    "'w notification_service \<Rightarrow> duration \<Rightarrow> int \<Rightarrow> ('w, int) io" where
  "notification_DeleteOlderThan s olderThan batch =
    call (ns_now s) (\<lambda>now. nr_DeleteOlderThan (ns_repo s) (now + - olderThan) batch)"

text \<open>
  A listing never reaches past what the deployment keeps: a window outside the set and one
  longer than the retention age are refused as invalid input without a query, and every query that
  is made starts no earlier than the retention age before now.
\<close>

theorem notification_Page_within_retention:
  assumes "0 \<le> ns_keeps s"
  shows "(\<exists>e. notification_Page L s sid w c st = (Inl e, st) \<and> IsType e ErrInvalidInput
             \<and> (is_err e (NotificationE ErrUnknownWindow) \<or> is_err e (NotificationE ErrWindowTooLong)))
     \<or> (\<exists>now st1 since. ns_now s st = (now, st1)
          \<and> notification_Page L s sid w c st = nr_PageBySource (ns_repo s) sid since c st1
          \<and> now - ns_keeps s \<le> since \<and> (w = WindowAll \<longrightarrow> since = now - ns_keeps s)
          \<and> (w \<noteq> WindowAll \<longrightarrow> since < now))"
proof (cases "Window_Valid w \<and> Window_Length w (ns_keeps s) \<le> ns_keeps s")
  case True
  obtain now st1 where n: "ns_now s st = (now, st1)" by fastforce
  from True have "0 < Window_Length w (ns_keeps s)" if "w \<noteq> WindowAll"
    using that by (auto simp: Window_Valid_iff Window_Length_def windowLengths_def window_defs)
  moreover have "Window_Length WindowAll (ns_keeps s) = ns_keeps s"
    by (simp add: Window_Length_def)
  moreover have "notification_Page L s sid w c st =
      nr_PageBySource (ns_repo s) sid (Since w now (ns_keeps s)) c st1"
    using True n by (simp add: notification_Page_def call_run)
  ultimately show ?thesis
    using True n by (intro disjI2 exI [of _ now] exI [of _ st1] exI [of _ "Since w now (ns_keeps s)"])
      (auto simp: Since_def)
next
  case False
  then show ?thesis
    by (intro disjI1) (auto simp: notification_Page_def TypeOf_of_type)
qed

definition demo_notification_service :: "nat notification_service" where
  "demo_notification_service =
    \<lparr> ns_repo = \<lparr> nr_Create = (\<lambda>n. ret ()), nr_ReadByID = (\<lambda>i. throw (Foreign ''none'')),
        nr_ReadByIdempotencyKey = (\<lambda>s k. ret None),
        nr_PageBySource = (\<lambda>s t c. ret \<lparr>Items = [], NextCursor = None\<rparr>),
        nr_DeleteOlderThan = (\<lambda>t n. ret 0), nr_ListForOperator = (\<lambda>s n. ret []) \<rparr>,
      ns_newID = (\<lambda>n. (''ID'', Suc n)), ns_now = (\<lambda>n. (1000, Suc n)), ns_keeps = 7 * 24 * hour \<rparr>"

theorem notification_Page_within_retention_witness:
  defines "s \<equiv> demo_notification_service" and "c0 \<equiv> \<lparr>After = None, Limit = 10\<rparr>"
  shows "(\<exists>e. notification_Page demo_golib s ''S'' WindowLastMonth c0 0 = (Inl e, 0)
             \<and> IsType e ErrInvalidInput
             \<and> (is_err e (NotificationE ErrUnknownWindow) \<or> is_err e (NotificationE ErrWindowTooLong)))
     \<or> (\<exists>now st1 since. ns_now s 0 = (now, st1)
          \<and> notification_Page demo_golib s ''S'' WindowLastMonth c0 0
              = nr_PageBySource (ns_repo s) ''S'' since c0 st1
          \<and> now - ns_keeps s \<le> since \<and> (WindowLastMonth = WindowAll \<longrightarrow> since = now - ns_keeps s)
          \<and> (WindowLastMonth \<noteq> WindowAll \<longrightarrow> since < now))"
  by (rule notification_Page_within_retention)
    (simp add: s_def demo_notification_service_def hour_def minute_def second_def)

end
