(* ===== verification/Source.thy ===== *)
theory Source
  imports Effects
begin

text \<open>
  \<open>internal/core/domain/source\<close>: the caller identity and its review (approve, refuse, suspend,
  restore), what its owner may change, the resolution of a requested channel to recipients, its
  API keys, and the services that admit and authenticate it.
\<close>

definition maxKeyLabelLen :: nat where "maxKeyLabelLen = 64"
definition source_maxNameLen :: nat where "source_maxNameLen = 64"
definition maxDescriptionLen :: nat where "maxDescriptionLen = 280"
definition maxReviewNoteLen :: nat where "maxReviewNoteLen = 500"

record route =
  rt_Channel :: channel
  rt_Address :: string

record source =
  src_ID :: string
  src_Name :: string
  src_Description :: string
  src_MaxPriority :: priority
  src_IsActive :: bool
  src_OwnerUserID :: ID
  src_ApprovedAt :: "time option"
  src_ReviewedAt :: "time option"
  src_ReviewNote :: string
  src_AllowCustomAddress :: bool
  src_DefaultAddresses :: "(channel \<times> string) list"
  src_CreatedAt :: time
  src_UpdatedAt :: time

subsection \<open>What the owner configures\<close>

text \<open>A nil map is read as an empty one; a \<open>range\<close> stops at the first address refused.\<close>

definition non_nil :: "(channel \<times> string) list option \<Rightarrow> (channel \<times> string) list" where
  "non_nil addresses = (case addresses of None \<Rightarrow> [] | Some m \<Rightarrow> m)"

fun validate_addresses :: "golib \<Rightarrow> (channel \<times> string) list \<Rightarrow> unit result" where
  "validate_addresses L [] = ok"
| "validate_addresses L ((c, a) # rest) =
    then_result (ValidateAddress L c a) (\<lambda>_. validate_addresses L rest)"

definition source_New ::
    "golib \<Rightarrow> string \<Rightarrow> ID \<Rightarrow> string \<Rightarrow> (channel \<times> string) list option \<Rightarrow> time \<Rightarrow> source result" where
  "source_New L i owner name addresses now =
    (let trimmed = TrimSpace name in
     if trimmed = '''' then
       Inl (WithErr (InvalidInputErr ''a source needs a name'') (Sentinel (SourceE source_error.ErrEmptyName)))
     else if source_maxNameLen < length trimmed then
       Inl (WithStr (WithErr (InvalidInputErr ''that name is too long'')
              (Sentinel (SourceE source_error.ErrEmptyName)))
            (Text ''%d chars, max %d'' [FmtD (int (length trimmed)), FmtD (int source_maxNameLen)]))
     else
       let addresses = non_nil addresses in
       then_result (validate_addresses L addresses) (\<lambda>_.
         Inr \<lparr>src_ID = i, src_Name = trimmed, src_Description = '''',
              src_MaxPriority = PriorityNormal, src_IsActive = False, src_OwnerUserID = owner,
              src_ApprovedAt = None, src_ReviewedAt = None, src_ReviewNote = '''',
              src_AllowCustomAddress = False, src_DefaultAddresses = addresses,
              src_CreatedAt = now, src_UpdatedAt = now\<rparr>))"

definition Reconfigure ::
    "golib \<Rightarrow> source \<Rightarrow> string \<Rightarrow> string \<Rightarrow> (channel \<times> string) list option \<Rightarrow> time \<Rightarrow> source result" where
  "Reconfigure L s name description addresses now =
    (let trimmedName = TrimSpace name in
     if trimmedName = '''' then
       Inl (WithErr (InvalidInputErr ''a source needs a name'') (Sentinel (SourceE source_error.ErrEmptyName)))
     else if source_maxNameLen < length trimmedName then
       Inl (WithStr (WithErr (InvalidInputErr ''that name is too long'')
              (Sentinel (SourceE source_error.ErrEmptyName)))
            (Text ''%d chars, max %d'' [FmtD (int (length trimmedName)), FmtD (int source_maxNameLen)]))
     else
       let trimmedDescription = TrimSpace description in
       if maxDescriptionLen < length trimmedDescription then
         Inl (WithStr (WithErr (InvalidInputErr ''that description is too long'')
                (Sentinel (SourceE source_error.ErrEmptyName)))
              (Text ''%d chars, max %d''
                [FmtD (int (length trimmedDescription)), FmtD (int maxDescriptionLen)]))
       else
         let addresses = non_nil addresses in
         then_result (validate_addresses L addresses) (\<lambda>_.
           Inr (s\<lparr>src_Name := trimmedName, src_Description := trimmedDescription,
                  src_DefaultAddresses := addresses, src_UpdatedAt := now\<rparr>)))"

subsection \<open>The operator's decisions\<close>

definition source_EnsureActive :: "source \<Rightarrow> unit result" where
  "source_EnsureActive s =
    (if src_IsActive s then ok
     else Inl (WithStr (WithErr (ForbiddenErr ''source is not active'')
                 (Sentinel (SourceE ErrSourceInactive)))
               (Text ''source %q'' [FmtS (src_ID s)])))"

definition IsApproved :: "source \<Rightarrow> bool" where
  "IsApproved s \<longleftrightarrow> src_ApprovedAt s \<noteq> None"

definition IsReviewed :: "source \<Rightarrow> bool" where
  "IsReviewed s \<longleftrightarrow> src_ReviewedAt s \<noteq> None"

definition IsReachable :: "source \<Rightarrow> bool" where
  "IsReachable s \<longleftrightarrow> 0 < length (src_DefaultAddresses s) \<or> src_AllowCustomAddress s"

definition no_reachable_address :: "source \<Rightarrow> goerr" where
  "no_reachable_address s =
     WithStr (WithErr (InvalidInputErr (''this source has nowhere to send: no default address is set for any '' @
         ''channel, and custom addresses are not allowed. Only the customer can '' @
         ''fix this, by adding an address.''))
        (Sentinel (SourceE ErrNoReachableAddress)))
      (Text ''source %q'' [FmtS (src_ID s)])"

definition Approve :: "source \<Rightarrow> time \<Rightarrow> source result" where
  "Approve s now =
    (if \<not> IsReachable s then Inl (no_reachable_address s)
     else
       let s = (if src_ApprovedAt s = None then s\<lparr>src_ApprovedAt := Some now\<rparr> else s) in
       Inr (s\<lparr>src_ReviewedAt := Some now, src_ReviewNote := '''', src_IsActive := True,
              src_UpdatedAt := now\<rparr>))"

definition Refuse :: "source \<Rightarrow> string \<Rightarrow> time \<Rightarrow> source result" where
  "Refuse s note now =
    (if IsApproved s then
       Inl (WithStr (WithErr (InvalidInputErr ''an approved source cannot be refused, only suspended'')
              (Sentinel (SourceE ErrAlreadyApproved)))
            (Text ''source %q'' [FmtS (src_ID s)]))
     else
       let trimmed = TrimSpace note in
       if trimmed = '''' then
         Inl (WithErr (InvalidInputErr ''a refusal needs a reason'') (Sentinel (SourceE ErrNoReason)))
       else if maxReviewNoteLen < length trimmed then
         Inl (WithStr (WithErr (InvalidInputErr ''that reason is too long'')
                (Sentinel (SourceE ErrNoReason)))
              (Text ''%d chars, max %d'' [FmtD (int (length trimmed)), FmtD (int maxReviewNoteLen)]))
       else
         Inr (s\<lparr>src_ReviewedAt := Some now, src_ReviewNote := trimmed, src_IsActive := False,
                src_UpdatedAt := now\<rparr>))"

definition Suspend :: "source \<Rightarrow> time \<Rightarrow> source result" where
  "Suspend s now =
    (if \<not> IsApproved s then
       Inl (WithStr (WithErr (InvalidInputErr
                ''a source that was never approved cannot be suspended, only refused'')
              (Sentinel (SourceE ErrNotApproved)))
            (Text ''source %q'' [FmtS (src_ID s)]))
     else Inr (s\<lparr>src_ReviewedAt := Some now, src_IsActive := False, src_UpdatedAt := now\<rparr>))"

definition source_Restore :: "source \<Rightarrow> time \<Rightarrow> source result" where
  "source_Restore s now =
    (if \<not> IsReviewed s then
       Inl (WithStr (WithErr (InvalidInputErr
                ''this source has never been decided about, so approve it rather than restore it'')
              (Sentinel (SourceE ErrNotReviewed)))
            (Text ''source %q'' [FmtS (src_ID s)]))
     else if \<not> IsReachable s then Inl (no_reachable_address s)
     else
       let s = (if src_ApprovedAt s = None then s\<lparr>src_ApprovedAt := Some now\<rparr> else s) in
       Inr (s\<lparr>src_ReviewedAt := Some now, src_ReviewNote := '''', src_IsActive := True,
              src_UpdatedAt := now\<rparr>))"

subsection \<open>Where a message goes\<close>

definition source_one :: "golib \<Rightarrow> channel \<Rightarrow> string \<Rightarrow> recipient list result" where
  "source_one L c address =
    (let r = \<lparr>rcp_Channel = c, rcp_Address = address\<rparr> in
     then_result (Recipient_Validate L r) (\<lambda>_. Inr [r]))"

definition source_Resolve :: "golib \<Rightarrow> source \<Rightarrow> channel \<Rightarrow> string \<Rightarrow> recipient list result" where
  "source_Resolve L s c address =
    (if address \<noteq> '''' then
       (if \<not> src_AllowCustomAddress s then
          Inl (WithStr (WithErr (ForbiddenErr ''custom delivery address not allowed'')
                 (Sentinel (SourceE ErrCustomAddressNotAllowed)))
               (Text ''source %q, channel %q'' [FmtS (src_ID s), FmtS (Channel_String c)]))
        else source_one L c address)
     else
       let fallback = map_of (src_DefaultAddresses s) c in
       if fallback = None \<or> fallback = Some '''' then
         Inl (WithStr (WithErr (InvalidInputErr ''channel is not configured for this source'')
                (Sentinel (SourceE ErrNoAddressForChannel)))
              (Text ''source %q, channel %q'' [FmtS (src_ID s), FmtS (Channel_String c)]))
       else source_one L c (the fallback))"

text \<open>The service's \<open>Resolve\<close>: every route in order, the first refusal ends it.\<close>

fun resolve_routes :: "golib \<Rightarrow> source \<Rightarrow> route list \<Rightarrow> recipient list \<Rightarrow> recipient list result" where
  "resolve_routes L s [] out = Inr out"
| "resolve_routes L s (r # rs) out =
    then_result (source_Resolve L s (rt_Channel r) (rt_Address r)) (\<lambda>found.
      resolve_routes L s rs (out @ found))"

definition Service_Resolve :: "golib \<Rightarrow> source \<Rightarrow> route list \<Rightarrow> recipient list result" where
  "Service_Resolve L s routes =
    (if routes = [] then
       Inl (WithErr (InvalidInputErr ''at least one channel is required'') (Sentinel (SourceE ErrNoRoutes)))
     else resolve_routes L s routes [])"

subsection \<open>Facts of the source\<close>

lemma validate_addresses_ok:
  "validate_addresses L m = ok \<longleftrightarrow> list_all (\<lambda>(c, a). ValidateAddress L c a = ok) m"
  by (induction L m rule: validate_addresses.induct)
    (auto simp: then_result_def split: sum.splits)

lemma validate_addresses_type: "validate_addresses L m = Inl e \<Longrightarrow> of_type ErrInvalidInput e"
  by (induction L m rule: validate_addresses.induct)
    (auto simp: then_result_def ValidateAddress_type split: sum.splits)

lemma no_reachable_address_simps [simp, sentinel_simps]:
  "is_err (no_reachable_address s) t \<longleftrightarrow> t = SourceE ErrNoReachableAddress"
  "of_type ty (no_reachable_address s) \<longleftrightarrow> ty = ErrInvalidInput"
  by (auto simp: no_reachable_address_def)

text \<open>
  A source is in one of four situations, and what the rows hold tells them apart: waiting (never
  reviewed), active, refused with a reason, suspended.
\<close>

definition waiting :: "source \<Rightarrow> bool" where
  "waiting s \<longleftrightarrow> \<not> IsReviewed s \<and> \<not> IsApproved s \<and> \<not> src_IsActive s"

definition active :: "source \<Rightarrow> bool" where
  "active s \<longleftrightarrow> IsReviewed s \<and> IsApproved s \<and> src_IsActive s"

definition refused :: "source \<Rightarrow> bool" where
  "refused s \<longleftrightarrow> IsReviewed s \<and> \<not> IsApproved s \<and> \<not> src_IsActive s \<and> src_ReviewNote s \<noteq> ''''"

definition suspended :: "source \<Rightarrow> bool" where
  "suspended s \<longleftrightarrow> IsReviewed s \<and> IsApproved s \<and> \<not> src_IsActive s"

lemmas situation_defs = waiting_def active_def refused_def suspended_def IsReviewed_def IsApproved_def

datatype decision =
    DoApprove time
  | DoRefuse string time
  | DoSuspend time
  | DoRestore time
  | DoReconfigure string string "(channel \<times> string) list option" time

fun decide :: "golib \<Rightarrow> source \<Rightarrow> decision \<Rightarrow> source result" where
  "decide L s (DoApprove now) = Approve s now"
| "decide L s (DoRefuse note now) = Refuse s note now"
| "decide L s (DoSuspend now) = Suspend s now"
| "decide L s (DoRestore now) = source_Restore s now"
| "decide L s (DoReconfigure name descr addresses now) = Reconfigure L s name descr addresses now"

definition decide_step :: "golib \<Rightarrow> source \<Rightarrow> decision \<Rightarrow> source" where
  "decide_step L s d = (case decide L s d of Inl _ \<Rightarrow> s | Inr s' \<Rightarrow> s')"

lemma Approve_situation: "Approve s now = Inr s' \<Longrightarrow> active s' \<and> IsReachable s'"
  by (auto simp: Approve_def situation_defs IsReachable_def Let_def split: if_splits)

lemma Restore_situation:
  "source_Restore s now = Inr s' \<Longrightarrow> active s' \<and> IsReachable s' \<and> \<not> waiting s"
  by (auto simp: source_Restore_def situation_defs IsReachable_def Let_def split: if_splits)

lemma Refuse_situation: "Refuse s note now = Inr s' \<Longrightarrow> refused s' \<and> \<not> active s \<and> \<not> suspended s"
  by (auto simp: Refuse_def situation_defs Let_def split: if_splits)

lemma Suspend_situation: "Suspend s now = Inr s' \<Longrightarrow> suspended s' \<and> \<not> waiting s \<and> \<not> refused s"
  by (auto simp: Suspend_def situation_defs split: if_splits)

text \<open>The owner reaches name, description and addresses, and nothing an operator decided.\<close>

lemma Reconfigure_frame:
  "Reconfigure L s name descr addresses now = Inr s' \<Longrightarrow>
     s' = s\<lparr>src_Name := TrimSpace name, src_Description := TrimSpace descr,
            src_DefaultAddresses := non_nil addresses, src_UpdatedAt := now\<rparr>
     \<and> list_all (\<lambda>(c, a). ValidateAddress L c a = ok) (non_nil addresses)
     \<and> TrimSpace name \<noteq> '''' \<and> length (TrimSpace name) \<le> 64 \<and> length (TrimSpace descr) \<le> 280"
  by (auto simp: Reconfigure_def Let_def then_result_Inr validate_addresses_ok source_maxNameLen_def
      maxDescriptionLen_def split: if_splits)

lemma Reconfigure_situation:
  assumes "Reconfigure L s name descr addresses now = Inr s'"
  shows "waiting s' = waiting s \<and> active s' = active s \<and> refused s' = refused s
    \<and> suspended s' = suspended s"
  using Reconfigure_frame [OF assms] by (simp add: situation_defs)

definition in_situation :: "source \<Rightarrow> bool" where
  "in_situation s \<longleftrightarrow> waiting s \<or> active s \<or> refused s \<or> suspended s"

lemma decide_step_situation: "in_situation s \<Longrightarrow> in_situation (decide_step L s d)"
  using Approve_situation Restore_situation Refuse_situation Suspend_situation Reconfigure_situation
  by (cases d) (auto simp: decide_step_def in_situation_def split: sum.splits)

text \<open>
  From its registration on, through any sequence of reviews and reconfigurations, accepted or
  refused, a source is in exactly one of four distinguishable situations: waiting, active, refused
  with a reason its owner can read, or suspended. In particular an active source has been approved
  and reviewed, and a refusal is never without a reason.
\<close>

theorem source_situations:
  fixes ds :: "decision list" and L :: golib and s :: source
  assumes "source_New L i owner name addresses now = Inr s"
  defines "t \<equiv> foldl (decide_step L) s ds"
  shows "waiting s
    \<and> (waiting t \<or> active t \<or> refused t \<or> suspended t)
    \<and> \<not> (waiting t \<and> active t) \<and> \<not> (waiting t \<and> refused t) \<and> \<not> (waiting t \<and> suspended t)
    \<and> \<not> (active t \<and> refused t) \<and> \<not> (active t \<and> suspended t) \<and> \<not> (refused t \<and> suspended t)
    \<and> src_IsActive t = active t \<and> src_ID t = i \<and> src_OwnerUserID t = owner
    \<and> src_MaxPriority t = PriorityNormal \<and> \<not> src_AllowCustomAddress t"
proof -
  have new: "waiting s" "src_ID s = i" "src_OwnerUserID s = owner"
    "src_MaxPriority s = PriorityNormal" "\<not> src_AllowCustomAddress s"
    using assms(1)
    by (auto simp: source_New_def Let_def then_result_Inr situation_defs split: if_splits)
  have frame: "src_ID (decide_step L x d) = src_ID x \<and> src_OwnerUserID (decide_step L x d) = src_OwnerUserID x
      \<and> src_MaxPriority (decide_step L x d) = src_MaxPriority x
      \<and> src_AllowCustomAddress (decide_step L x d) = src_AllowCustomAddress x" for x d
    by (cases d) (auto simp: decide_step_def Approve_def Refuse_def Suspend_def source_Restore_def Let_def
        dest: Reconfigure_frame split: sum.splits if_splits)
  have fixed: "src_ID (foldl (decide_step L) x ds) = src_ID x
      \<and> src_OwnerUserID (foldl (decide_step L) x ds) = src_OwnerUserID x
      \<and> src_MaxPriority (foldl (decide_step L) x ds) = src_MaxPriority x
      \<and> src_AllowCustomAddress (foldl (decide_step L) x ds) = src_AllowCustomAddress x" for x
    by (induction ds arbitrary: x) (simp_all add: frame)
  have "in_situation x \<Longrightarrow> in_situation (foldl (decide_step L) x ds)" for x
    by (induction ds arbitrary: x) (simp_all add: decide_step_situation)
  then have sit: "waiting t \<or> active t \<or> refused t \<or> suspended t"
    using new(1) by (auto simp: t_def in_situation_def)
  then have "src_IsActive t = active t" by (auto simp: situation_defs)
  moreover have "\<not> (waiting t \<and> active t)" "\<not> (waiting t \<and> refused t)" "\<not> (waiting t \<and> suspended t)"
    "\<not> (active t \<and> refused t)" "\<not> (active t \<and> suspended t)" "\<not> (refused t \<and> suspended t)"
    by (auto simp: situation_defs)
  ultimately show ?thesis
    using sit new fixed [of s, folded t_def] by simp
qed

definition demo_addresses :: "(channel \<times> string) list" where
  "demo_addresses = [(ChannelGotify, ''7'')]"

definition demo_source :: source where
  "demo_source =
    \<lparr>src_ID = ''S1'', src_Name = ''alerts'', src_Description = '''', src_MaxPriority = PriorityNormal,
     src_IsActive = False, src_OwnerUserID = ''U1'', src_ApprovedAt = None, src_ReviewedAt = None,
     src_ReviewNote = '''', src_AllowCustomAddress = False,
     src_DefaultAddresses = demo_addresses, src_CreatedAt = 5, src_UpdatedAt = 5\<rparr>"

lemma demo_source_new:
  "source_New demo_golib ''S1'' ''U1'' ''alerts'' (Some demo_addresses) 5 = Inr demo_source"
proof -
  have "TrimSpace ''alerts'' = ''alerts''"
    by (rule TrimSpace_no_space) (simp_all add: byte_def is_space_rune_def)
  moreover have "TrimSpace ''7'' = ''7''"
    by (rule TrimSpace_no_space) (simp_all add: byte_def is_space_rune_def)
  then have "ValidateAddress demo_golib ChannelGotify ''7'' = ok"
    by (simp add: ValidateAddress_def isGotifyAppID_iff digits_value_def is_digit_def byte_def)
  ultimately show ?thesis
    by (simp add: source_New_def demo_source_def demo_addresses_def non_nil_def source_maxNameLen_def)
qed

theorem source_situations_witness:
  defines "t \<equiv> foldl (decide_step demo_golib) demo_source [DoSuspend 6, DoApprove 7, DoRefuse ''no'' 8]"
  shows "waiting demo_source
    \<and> (waiting t \<or> active t \<or> refused t \<or> suspended t)
    \<and> \<not> (waiting t \<and> active t) \<and> \<not> (waiting t \<and> refused t) \<and> \<not> (waiting t \<and> suspended t)
    \<and> \<not> (active t \<and> refused t) \<and> \<not> (active t \<and> suspended t) \<and> \<not> (refused t \<and> suspended t)
    \<and> src_IsActive t = active t \<and> src_ID t = ''S1'' \<and> src_OwnerUserID t = ''U1''
    \<and> src_MaxPriority t = PriorityNormal \<and> \<not> src_AllowCustomAddress t"
  unfolding t_def by (rule source_situations [OF demo_source_new])

text \<open>
  \<open>Reconfigure\<close> changes everything the owner asked for or nothing, and cannot reach an
  operator's decision: on success the name and the description are the trimmed ones within their
  bounds, every address passed its channel's rule, and priority ceiling, switch, owner, approval,
  review and the custom-address permission are untouched; every refusal is an invalid input.
\<close>

theorem Reconfigure_owner_only:
  "case Reconfigure L s name descr addresses now of
     Inr s' \<Rightarrow>
       s' = s\<lparr>src_Name := TrimSpace name, src_Description := TrimSpace descr,
              src_DefaultAddresses := (case addresses of None \<Rightarrow> [] | Some m \<Rightarrow> m), src_UpdatedAt := now\<rparr>
       \<and> TrimSpace name \<noteq> '''' \<and> length (TrimSpace name) \<le> 64 \<and> length (TrimSpace descr) \<le> 280
       \<and> list_all (\<lambda>(c, a). ValidateAddress L c a = ok) (src_DefaultAddresses s')
   | Inl e \<Rightarrow> IsType e ErrInvalidInput
       \<and> \<not> (TrimSpace name \<noteq> '''' \<and> length (TrimSpace name) \<le> 64 \<and> length (TrimSpace descr) \<le> 280
          \<and> list_all (\<lambda>(c, a). ValidateAddress L c a = ok) (non_nil addresses))"
proof (cases "Reconfigure L s name descr addresses now")
  case (Inl e)
  then have "of_type ErrInvalidInput e"
    by (auto simp: Reconfigure_def Let_def then_result_def dest: validate_addresses_type
        split: if_splits sum.splits)
  moreover have "\<not> (TrimSpace name \<noteq> '''' \<and> length (TrimSpace name) \<le> 64 \<and> length (TrimSpace descr) \<le> 280
      \<and> list_all (\<lambda>(c, a). ValidateAddress L c a = ok) (non_nil addresses))"
    using Inl unfolding validate_addresses_ok [symmetric]
    by (auto simp: Reconfigure_def Let_def source_maxNameLen_def maxDescriptionLen_def split: if_splits)
  ultimately show ?thesis using Inl TypeOf_of_type by fastforce
next
  case (Inr s')
  from Reconfigure_frame [OF this] Inr show ?thesis by (simp add: non_nil_def)
qed

subsection \<open>Ports\<close>

record key =
  key_ID :: ID
  key_SourceID :: string
  key_Label :: string
  key_CreatedAt :: time
  key_LastUsedAt :: "time option"
  key_ExpiresAt :: "time option"
  key_RevokedAt :: "time option"

record 'w source_repository =
  sr_Create :: "source \<Rightarrow> ('w, unit) io"
  sr_ReadByID :: "string \<Rightarrow> ('w, source) io"
  sr_ListByOwner :: "ID \<Rightarrow> ('w, source list) io"
  sr_UpdateSettings :: "source \<Rightarrow> ('w, unit) io"
  sr_UpdateReview :: "source \<Rightarrow> ('w, unit) io"
  sr_ListForReview :: "int \<Rightarrow> ('w, source list) io"
  sr_ListAll :: "int \<Rightarrow> ('w, source list) io"

text \<open>\<open>ReadSourceByKeyHash\<close> answers a nil source for every way of not finding a live key.\<close>

record 'w key_repository =
  kr_ReadSourceByKeyHash :: "string \<Rightarrow> time \<Rightarrow> ('w, (source \<times> ID) option) io"
  kr_Touch :: "ID \<Rightarrow> time \<Rightarrow> duration \<Rightarrow> ('w, unit) io"

record 'w rate_limiter =
  rl_Allow :: "string \<Rightarrow> ('w, bool) io"

record 'w key_issuer =
  ki_Create :: "key \<Rightarrow> string \<Rightarrow> ('w, unit) io"
  ki_ListBySourceID :: "string \<Rightarrow> ('w, key list) io"
  ki_Revoke :: "ID \<Rightarrow> time \<Rightarrow> ('w, unit) io"

subsection \<open>Keys\<close>

definition validateLabel :: "string \<Rightarrow> unit result" where
  "validateLabel label =
    (if label = '''' then
       Inl (WithErr (InvalidInputErr ''key label is required'') (Sentinel (SourceE ErrKeyLabelRequired)))
     else if maxKeyLabelLen < length label then
       Inl (WithStr (WithErr (InvalidInputErr ''key label is too long'')
              (Sentinel (SourceE ErrKeyLabelTooLong)))
            (Text ''%d chars, max %d'' [FmtD (int (length label)), FmtD (int maxKeyLabelLen)]))
     else ok)"

definition NewKey :: "ID \<Rightarrow> string \<Rightarrow> string \<Rightarrow> time option \<Rightarrow> time \<Rightarrow> key result" where
  "NewKey i sourceID label expiresAt now =
    (if ID_IsZero i then
       Inl (WithErr (InternalErr ''key id is missing'') (Sentinel (SharedE ErrInvalidID)))
     else if sourceID = '''' then
       Inl (WithErr (InternalErr ''source is missing'') (Sentinel (SourceE source_error.ErrMissingSource)))
     else
       then_result (validateLabel label) (\<lambda>_.
         if (case expiresAt of None \<Rightarrow> False | Some t \<Rightarrow> \<not> now < t) then
           Inl (WithErr (InvalidInputErr ''expiry is not in the future'')
             (Sentinel (SourceE ErrKeyAlreadyExpired)))
         else
           Inr \<lparr>key_ID = i, key_SourceID = sourceID, key_Label = label, key_CreatedAt = now,
                key_LastUsedAt = None, key_ExpiresAt = expiresAt, key_RevokedAt = None\<rparr>))"

definition IsLive :: "key \<Rightarrow> time \<Rightarrow> bool" where
  "IsLive k now \<longleftrightarrow> key_RevokedAt k = None
     \<and> (case key_ExpiresAt k of None \<Rightarrow> True | Some t \<Rightarrow> now < t)"

lemma NewKey_live: "NewKey i sid label expiresAt now = Inr k \<Longrightarrow>
    IsLive k now \<and> key_Label k \<noteq> '''' \<and> length (key_Label k) \<le> 64"
  by (auto simp: NewKey_def IsLive_def validateLabel_def then_result_Inr maxKeyLabelLen_def
      split: if_splits option.splits)

subsection \<open>Admission\<close>

record 'w source_service =
  ss_repo :: "'w source_repository"
  ss_limiter :: "'w rate_limiter"

definition Load :: "'w source_service \<Rightarrow> string \<Rightarrow> ('w, source) io" where
  "Load s i =
    and_then (sr_ReadByID (ss_repo s) i) (\<lambda>src.
    and_then (lift (source_EnsureActive src)) (\<lambda>_.
    ret src))"

definition Admit :: "'w source_service \<Rightarrow> string \<Rightarrow> ('w, source) io" where
  "Admit s i =
    and_then (rl_Allow (ss_limiter s) i) (\<lambda>allowed.
    if \<not> allowed then
      throw (WithStr (WithErr (TooManyErr ''too many requests'') (Sentinel (SourceE ErrRateLimited)))
             (Text ''source %q'' [FmtS i]))
    else Load s i)"

definition Manage :: "'w source_service \<Rightarrow> string \<Rightarrow> ('w, source) io" where
  "Manage s i = sr_ReadByID (ss_repo s) i"

subsection \<open>Authentication\<close>

record 'w authenticator =
  auth_keys :: "'w key_repository"
  auth_now :: "'w NowFunc"
  auth_touchAfter :: duration

definition unknownKey :: goerr where
  "unknownKey = WithErr (UnauthorizedErr ''invalid credentials'') (Sentinel (SourceE ErrUnknownKey))"

definition Authenticate :: "'w authenticator \<Rightarrow> string \<Rightarrow> ('w, source \<times> ID) io" where
  "Authenticate a keyHash =
    (if keyHash = '''' then throw unknownKey
     else
       call (auth_now a) (\<lambda>now.
       and_then (kr_ReadSourceByKeyHash (auth_keys a) keyHash now) (\<lambda>found.
       case found of
         None \<Rightarrow> throw unknownKey
       | Some (src, keyID) \<Rightarrow>
           and_then (lift (source_EnsureActive src)) (\<lambda>_.
           ret (src, keyID)))))"

definition RecordUse :: "'w authenticator \<Rightarrow> ID \<Rightarrow> ('w, unit) io" where
  "RecordUse a keyID = call (auth_now a) (\<lambda>now. kr_Touch (auth_keys a) keyID now (auth_touchAfter a))"

lemma Load_active: "Load s i w = (Inr src, w') \<Longrightarrow> src_IsActive src"
  by (auto simp: Load_def and_then_Inr source_EnsureActive_def split: if_splits)

lemma Admit_active: "Admit s i w = (Inr src, w') \<Longrightarrow> src_IsActive src
    \<and> (\<exists>w1. rl_Allow (ss_limiter s) i w = (Inr True, w1))"
  by (auto simp: Admit_def and_then_Inr dest: Load_active split: if_splits)

end
