(* ===== verification/Credential.thy ===== *)
theory Credential
  imports Effects
begin

text \<open>
  \<open>internal/core/domain/credential\<close>: the sending identities of a source on a channel, the
  choice among them, their port and their service.
\<close>

definition credential_maxNameLen :: nat where "credential_maxNameLen = 32"

record credential =
  crd_ID :: ID
  crd_SourceID :: string
  crd_Channel :: channel
  crd_Name :: string
  crd_CreatedAt :: time
  crd_UpdatedAt :: time
  crd_isDefault :: bool
  crd_isActive :: bool

definition name_rune :: "nat \<Rightarrow> bool" where
  "name_rune r \<longleftrightarrow> 97 \<le> r \<and> r \<le> 122 \<or> 48 \<le> r \<and> r \<le> 57 \<or> r = 45"

definition validateName :: "string \<Rightarrow> unit result" where
  "validateName name =
    (if name = '''' then
       Inl (WithErr (InvalidInputErr ''credential name is required'')
         (Sentinel (CredentialE credential_error.ErrEmptyName)))
     else if credential_maxNameLen < length name then
       Inl (WithStr (WithErr (InvalidInputErr ''credential name is too long'')
              (Sentinel (CredentialE ErrInvalidName)))
            (Text ''%d chars, max %d'' [FmtD (int (length name)), FmtD (int credential_maxNameLen)]))
     else if list_all (\<lambda>(r, _). name_rune r) (runes name) then ok
     else
       Inl (WithStr (WithErr (InvalidInputErr ''credential name has the wrong format'')
              (Sentinel (CredentialE ErrInvalidName)))
            (Text ''name %q'' [FmtS name])))"

definition credential_New ::
    "ID \<Rightarrow> string \<Rightarrow> channel \<Rightarrow> string \<Rightarrow> bool \<Rightarrow> time \<Rightarrow> credential result" where
  "credential_New i sourceID c name isDefault now =
    (if ID_IsZero i then
       Inl (WithErr (InternalErr ''credential id is missing'') (Sentinel (SharedE ErrInvalidID)))
     else if sourceID = '''' then
       Inl (WithErr (InternalErr ''source is missing'')
         (Sentinel (CredentialE credential_error.ErrMissingSource)))
     else if IsZero now then
       Inl (WithErr (InternalErr ''creation timestamp is missing'') (Sentinel (SharedE ErrInvalidID)))
     else if \<not> Channel_Valid c then
       Inl (WithStr (WithErr (InvalidInputErr ''unknown channel'')
              (Sentinel (SharedE ErrUnknownChannel)))
            (Text ''got %q'' [FmtS (Channel_String c)]))
     else
       then_result (validateName name) (\<lambda>_.
         Inr \<lparr>crd_ID = i, crd_SourceID = sourceID, crd_Channel = c, crd_Name = name,
              crd_CreatedAt = now, crd_UpdatedAt = now, crd_isDefault = isDefault,
              crd_isActive = True\<rparr>))"

definition crd_MakeDefault :: "credential \<Rightarrow> time \<Rightarrow> credential result" where
  "crd_MakeDefault c now =
    (if \<not> crd_isActive c then
       Inl (WithStr (WithErr (InvalidInputErr ''an inactive credential cannot be the default'')
              (Sentinel (CredentialE ErrDefaultUnusable)))
            (Text ''credential %q'' [FmtS (crd_Name c)]))
     else Inr (c\<lparr>crd_isDefault := True, crd_UpdatedAt := now\<rparr>))"

definition crd_Deactivate :: "credential \<Rightarrow> time \<Rightarrow> credential" where
  "crd_Deactivate c now = c\<lparr>crd_isActive := False, crd_isDefault := False, crd_UpdatedAt := now\<rparr>"

definition crd_Activate :: "credential \<Rightarrow> time \<Rightarrow> credential" where
  "crd_Activate c now = c\<lparr>crd_isActive := True, crd_UpdatedAt := now\<rparr>"

subsection \<open>The choice\<close>

fun pick_named :: "credential list \<Rightarrow> string \<Rightarrow> credential result" where
  "pick_named [] name =
     Inl (WithStr (WithErr (InvalidInputErr ''no credential with that name'')
            (Sentinel (CredentialE credential_error.ErrNotFound)))
          (Text ''name %q'' [FmtS name]))"
| "pick_named (c # cs) name =
    (if crd_Name c \<noteq> name then pick_named cs name
     else if \<not> crd_isActive c then
       Inl (WithStr (WithErr (InvalidInputErr ''credential is not active'')
              (Sentinel (CredentialE credential_error.ErrInactive)))
            (Text ''credential %q'' [FmtS name]))
     else Inr c)"

definition Pick :: "credential list \<Rightarrow> string \<Rightarrow> credential result" where
  "Pick creds name =
    (if name \<noteq> '''' then pick_named creds name
     else case find (\<lambda>c. crd_isDefault c \<and> crd_isActive c) creds of
       Some c \<Rightarrow> Inr c
     | None \<Rightarrow>
         if creds = [] then
           Inl (WithErr (InvalidInputErr ''no sender configured for this channel'')
             (Sentinel (CredentialE ErrNoCredentials)))
         else
           Inl (WithErr (InvalidInputErr ''no sender configured for this channel'')
             (Sentinel (CredentialE ErrNoDefault))))"

text \<open>A default that cannot be used does not exist.\<close>

definition usable_default :: "credential \<Rightarrow> bool" where
  "usable_default c \<longleftrightarrow> (crd_isDefault c \<longrightarrow> crd_isActive c)"

lemma usable_default_kept:
  "credential_New i s ch n d now = Inr c \<Longrightarrow> usable_default c"
  "crd_MakeDefault c now = Inr c' \<Longrightarrow> usable_default c'"
  "usable_default (crd_Deactivate c now)"
  "usable_default c \<Longrightarrow> usable_default (crd_Activate c now)"
  by (auto simp: credential_New_def crd_MakeDefault_def crd_Deactivate_def crd_Activate_def
      usable_default_def then_result_Inr split: if_splits)

lemma pick_named_Inr: "pick_named cs n = Inr c \<Longrightarrow> c \<in> set cs \<and> crd_Name c = n \<and> crd_isActive c"
  by (induction cs) (auto split: if_splits)

lemma pick_named_Inl:
  "pick_named cs n = Inl e \<Longrightarrow> of_type ErrInvalidInput e
     \<and> is_err e (CredentialE credential_error.ErrNotFound) = (\<forall>c \<in> set cs. crd_Name c \<noteq> n)
     \<and> is_err e (CredentialE credential_error.ErrInactive) = (\<exists>c \<in> set cs. crd_Name c = n)"
  by (induction cs) (auto split: if_splits)

lemma pick_named_unique:
  "distinct (map crd_Name cs) \<Longrightarrow> c \<in> set cs \<Longrightarrow> crd_isActive c \<Longrightarrow> pick_named cs (crd_Name c) = Inr c"
  by (induction cs) (auto simp: image_iff)

text \<open>
  \<open>Pick\<close> never answers an identity that is switched off: a name selects the identity that
  has it (and where names are unique every active identity is selected by its own name), no name
  selects a default, and the four ways of finding none are told apart, so that "registered nothing"
  is answered exactly when the list is empty and no name was given.
\<close>

theorem Pick_spec:
  assumes "distinct (map crd_Name creds)"
  shows "case Pick creds name of
      Inr c \<Rightarrow> c \<in> set creds \<and> crd_isActive c
        \<and> (if name = '''' then crd_isDefault c else crd_Name c = name)
    | Inl e \<Rightarrow> IsType e ErrInvalidInput
        \<and> is_err e (CredentialE ErrNoCredentials) = (name = '''' \<and> creds = [])
        \<and> is_err e (CredentialE ErrNoDefault) = (name = '''' \<and> creds \<noteq> [])
        \<and> is_err e (CredentialE credential_error.ErrNotFound)
            = (name \<noteq> '''' \<and> (\<forall>c \<in> set creds. crd_Name c \<noteq> name))
        \<and> is_err e (CredentialE credential_error.ErrInactive)
            = (name \<noteq> '''' \<and> (\<exists>c \<in> set creds. crd_Name c = name))
        \<and> (\<forall>c \<in> set creds. crd_isActive c \<longrightarrow>
             (if name = '''' then \<not> crd_isDefault c else crd_Name c \<noteq> name))"
proof (cases "name = ''''")
  case True
  show ?thesis
  proof (cases "find (\<lambda>c. crd_isDefault c \<and> crd_isActive c) creds")
    case None
    then have "\<forall>c \<in> set creds. crd_isActive c \<longrightarrow> \<not> crd_isDefault c"
      by (auto simp: find_None_iff)
    with True None show ?thesis
      by (simp add: Pick_def TypeOf_of_type)
  next
    case (Some c)
    then have "c \<in> set creds \<and> crd_isDefault c \<and> crd_isActive c"
      by (metis (mono_tags, lifting) find_Some_iff nth_mem)
    with Some True show ?thesis by (simp add: Pick_def)
  qed
next
  case False
  then have p: "Pick creds name = pick_named creds name" by (simp add: Pick_def)
  show ?thesis
  proof (cases "pick_named creds name")
    case (Inl e)
    from Inl have "is_err e (CredentialE ErrNoCredentials) = False"
      "is_err e (CredentialE ErrNoDefault) = False"
      by (induction creds) (auto split: if_splits)
    moreover have "crd_Name c \<noteq> name" if "c \<in> set creds" "crd_isActive c" for c
      using pick_named_unique [OF assms that] Inl by auto
    ultimately show ?thesis
      using pick_named_Inl [OF Inl] False Inl p by (simp add: TypeOf_of_type)
  next
    case (Inr c)
    from pick_named_Inr [OF this] False Inr p show ?thesis by simp
  qed
qed

definition demo_credential :: "string \<Rightarrow> bool \<Rightarrow> bool \<Rightarrow> credential" where
  "demo_credential name is_default is_active =
    \<lparr>crd_ID = name, crd_SourceID = ''S1'', crd_Channel = ChannelBale, crd_Name = name,
     crd_CreatedAt = 1, crd_UpdatedAt = 1, crd_isDefault = is_default, crd_isActive = is_active\<rparr>"

theorem Pick_spec_witness:
  defines "creds \<equiv> [demo_credential ''ops'' False False, demo_credential ''main'' True True]"
  shows "case Pick creds ''ops'' of
      Inr c \<Rightarrow> c \<in> set creds \<and> crd_isActive c
        \<and> (if ''ops'' = '''' then crd_isDefault c else crd_Name c = ''ops'')
    | Inl e \<Rightarrow> IsType e ErrInvalidInput
        \<and> is_err e (CredentialE ErrNoCredentials) = (''ops'' = '''' \<and> creds = [])
        \<and> is_err e (CredentialE ErrNoDefault) = (''ops'' = '''' \<and> creds \<noteq> [])
        \<and> is_err e (CredentialE credential_error.ErrNotFound)
            = (''ops'' \<noteq> '''' \<and> (\<forall>c \<in> set creds. crd_Name c \<noteq> ''ops''))
        \<and> is_err e (CredentialE credential_error.ErrInactive)
            = (''ops'' \<noteq> '''' \<and> (\<exists>c \<in> set creds. crd_Name c = ''ops''))
        \<and> (\<forall>c \<in> set creds. crd_isActive c \<longrightarrow>
             (if ''ops'' = '''' then \<not> crd_isDefault c else crd_Name c \<noteq> ''ops''))"
  by (rule Pick_spec) (simp add: creds_def demo_credential_def)

subsection \<open>Port and service\<close>

record 'w credential_repository =
  cr_ListBySourceAndChannel :: "string \<Rightarrow> channel \<Rightarrow> ('w, credential list) io"
  cr_ListBySourceID :: "string \<Rightarrow> ('w, credential list) io"
  cr_ReadByID :: "string \<Rightarrow> ID \<Rightarrow> ('w, credential) io"
  cr_Deactivate :: "credential \<Rightarrow> ('w, unit) io"
  cr_Activate :: "credential \<Rightarrow> ('w, unit) io"
  cr_SetDefault :: "credential \<Rightarrow> ('w, unit) io"
  cr_ClearDefault :: "string \<Rightarrow> channel \<Rightarrow> time \<Rightarrow> ('w, unit) io"

record 'w credential_service =
  cs_repo :: "'w credential_repository"
  cs_now :: "'w NowFunc"

definition credential_Resolve ::
    "'w credential_service \<Rightarrow> string \<Rightarrow> channel \<Rightarrow> string \<Rightarrow> ('w, credential) io" where
  "credential_Resolve s sourceID c name =
    and_then (cr_ListBySourceAndChannel (cs_repo s) sourceID c) (\<lambda>credsList.
    lift (Pick credsList name))"

definition credential_List :: "'w credential_service \<Rightarrow> string \<Rightarrow> ('w, credential list) io" where
  "credential_List s sourceID = cr_ListBySourceID (cs_repo s) sourceID"

definition credential_Get :: "'w credential_service \<Rightarrow> string \<Rightarrow> ID \<Rightarrow> ('w, credential) io" where
  "credential_Get s sourceID i = cr_ReadByID (cs_repo s) sourceID i"

text \<open>
  The three operations that change the entity before they write it answer the entity as the caller
  then holds it.
\<close>

definition credential_Deactivate ::
    "'w credential_service \<Rightarrow> credential \<Rightarrow> ('w, credential) io" where
  "credential_Deactivate s c =
    call (cs_now s) (\<lambda>now.
    let c = crd_Deactivate c now in
    and_then (cr_Deactivate (cs_repo s) c) (\<lambda>_. ret c))"

definition credential_Activate ::
    "'w credential_service \<Rightarrow> credential \<Rightarrow> ('w, credential) io" where
  "credential_Activate s c =
    call (cs_now s) (\<lambda>now.
    let c = crd_Activate c now in
    and_then (cr_Activate (cs_repo s) c) (\<lambda>_. ret c))"

definition credential_MakeDefault ::
    "'w credential_service \<Rightarrow> credential \<Rightarrow> ('w, credential) io" where
  "credential_MakeDefault s c =
    call (cs_now s) (\<lambda>now.
    and_then (lift (crd_MakeDefault c now)) (\<lambda>c.
    and_then (cr_SetDefault (cs_repo s) c) (\<lambda>_. ret c)))"

definition credential_ClearDefault ::
    "'w credential_service \<Rightarrow> string \<Rightarrow> channel \<Rightarrow> ('w, unit) io" where
  "credential_ClearDefault s sourceID c =
    call (cs_now s) (\<lambda>now. cr_ClearDefault (cs_repo s) sourceID c now)"

end
