(* ===== verification/Webhook.thy ===== *)
theory Webhook
  imports Effects
begin

text \<open>
  \<open>internal/core/domain/webhook\<close>: where a source wants its outcomes pushed to, the rule for a
  callback address, the failure run that switches an endpoint off, the port and the service.
\<close>

record registration =
  reg_CallbackURL :: string

record url_policy =
  AllowInsecure :: bool
  AllowPrivate :: bool

definition Strict :: url_policy where
  "Strict = \<lparr>AllowInsecure = False, AllowPrivate = False\<rparr>"

record webhook =
  whk_ID :: ID
  whk_SourceID :: string
  whk_CallbackURL :: string
  whk_CreatedAt :: time
  whk_UpdatedAt :: time
  whk_isActive :: bool
  whk_consecutiveFailures :: int

record outcome_result =
  res_DeliveryID :: ID
  res_Channel :: string
  res_Address :: string
  res_Status :: string
  res_SettledAt :: time
  res_Reason :: string
  res_ProviderMessageID :: string

record batch =
  bat_ID :: ID
  bat_NotificationID :: ID
  bat_SentAt :: time
  bat_Results :: "outcome_result list"

subsection \<open>The address rule\<close>

definition isPrivateHost :: "golib \<Rightarrow> string \<Rightarrow> bool" where
  "isPrivateHost L host =
    (let h = ToLower L (TrimSuffix host ''.'') in
     case netip_ParseAddr L h of
       Some addr \<Rightarrow> IsLoopback addr \<or> IsPrivate addr \<or> IsUnspecified addr
         \<or> IsLinkLocalUnicast addr \<or> IsLinkLocalMulticast addr
     | None \<Rightarrow>
         if h = ''localhost'' \<or> HasSuffix h ''.localhost'' \<or> HasSuffix h ''.local'' then True
         else \<not> (CHR ''.'' \<in> set h))"

definition validateURL :: "golib \<Rightarrow> string \<Rightarrow> url_policy \<Rightarrow> unit result" where
  "validateURL L raw p =
    (if TrimSpace raw = '''' then
       Inl (WithErr (InvalidInputErr ''callback url is required'') (Sentinel (WebhookE ErrEmptyURL)))
     else case url_Parse L raw of
       None \<Rightarrow>
         Inl (WithStr (WithErr (InvalidInputErr ''callback url is not valid'')
                (Sentinel (WebhookE ErrMalformedURL)))
              (Text ''url %q: %v'' [FmtS raw]))
     | Some u \<Rightarrow>
         if Host u = '''' then
           Inl (WithStr (WithErr (InvalidInputErr ''callback url is not valid'')
                  (Sentinel (WebhookE ErrMalformedURL)))
                (Text ''url %q has no host'' [FmtS raw]))
         else if has_User u then
           Inl (WithErr (InvalidInputErr ''callback url must not carry credentials'')
             (Sentinel (WebhookE ErrCredentialsInURL)))
         else if Scheme u = ''http'' \<and> \<not> AllowInsecure p then
           Inl (WithErr (InvalidInputErr ''callback url must use https'')
             (Sentinel (WebhookE ErrInsecureURL)))
         else if Scheme u \<noteq> ''https'' \<and> Scheme u \<noteq> ''http'' then
           Inl (WithStr (WithErr (InvalidInputErr ''callback url must use https'')
                  (Sentinel (WebhookE ErrInsecureURL)))
                (Text ''scheme %q'' [FmtS (Scheme u)]))
         else if \<not> AllowPrivate p \<and> isPrivateHost L (Hostname u) then
           Inl (WithStr (WithErr (InvalidInputErr ''callback url is not reachable'')
                  (Sentinel (WebhookE ErrPrivateURL)))
                (Text ''host %q'' [FmtS (Hostname u)]))
         else ok)"

subsection \<open>The entity\<close>

definition webhook_New ::
    "golib \<Rightarrow> ID \<Rightarrow> string \<Rightarrow> registration \<Rightarrow> url_policy \<Rightarrow> time \<Rightarrow> webhook result" where
  "webhook_New L i sourceID r p now =
    (if ID_IsZero i then
       Inl (WithErr (InternalErr ''webhook id is missing'') (Sentinel (SharedE ErrInvalidID)))
     else if sourceID = '''' then
       Inl (WithErr (InternalErr ''source is missing'')
         (Sentinel (WebhookE webhook_error.ErrMissingSource)))
     else if IsZero now then
       Inl (WithErr (InternalErr ''creation timestamp is missing'') (Sentinel (SharedE ErrInvalidID)))
     else
       then_result (validateURL L (reg_CallbackURL r) p) (\<lambda>_.
         Inr \<lparr>whk_ID = i, whk_SourceID = sourceID, whk_CallbackURL = reg_CallbackURL r,
              whk_CreatedAt = now, whk_UpdatedAt = now, whk_isActive = True,
              whk_consecutiveFailures = 0\<rparr>))"

definition whk_Redirect ::
    "golib \<Rightarrow> webhook \<Rightarrow> registration \<Rightarrow> url_policy \<Rightarrow> time \<Rightarrow> webhook result" where
  "whk_Redirect L w r p now =
    then_result (validateURL L (reg_CallbackURL r) p) (\<lambda>_.
      Inr (w\<lparr>whk_CallbackURL := reg_CallbackURL r, whk_isActive := True,
             whk_consecutiveFailures := 0, whk_UpdatedAt := now\<rparr>))"

definition whk_RecordSuccess :: "webhook \<Rightarrow> time \<Rightarrow> webhook" where
  "whk_RecordSuccess w now = w\<lparr>whk_consecutiveFailures := 0, whk_UpdatedAt := now\<rparr>"

definition whk_RecordFailure :: "webhook \<Rightarrow> int \<Rightarrow> int \<Rightarrow> time \<Rightarrow> webhook" where
  "whk_RecordFailure w count maxFailures now =
    (let w = w\<lparr>whk_consecutiveFailures := count, whk_UpdatedAt := now\<rparr> in
     if 0 < maxFailures \<and> maxFailures \<le> count then w\<lparr>whk_isActive := False\<rparr> else w)"

definition whk_Deactivate :: "webhook \<Rightarrow> time \<Rightarrow> webhook" where
  "whk_Deactivate w now = w\<lparr>whk_isActive := False, whk_UpdatedAt := now\<rparr>"

definition whk_Activate :: "webhook \<Rightarrow> time \<Rightarrow> webhook" where
  "whk_Activate w now = w\<lparr>whk_isActive := True, whk_consecutiveFailures := 0, whk_UpdatedAt := now\<rparr>"

lemma validateURL_type: "validateURL L raw p = Inl e \<Longrightarrow> of_type ErrInvalidInput e"
  by (auto simp: validateURL_def split: if_splits option.splits)

lemma validateURL_ok:
  "validateURL L raw p = ok \<longleftrightarrow> TrimSpace raw \<noteq> '''' \<and> (\<exists>u. url_Parse L raw = Some u
     \<and> Host u \<noteq> '''' \<and> \<not> has_User u
     \<and> (Scheme u = ''https'' \<or> Scheme u = ''http'' \<and> AllowInsecure p)
     \<and> (AllowPrivate p \<or> \<not> isPrivateHost L (Hostname u)))"
  by (auto simp: validateURL_def split: option.splits)

text \<open>
  Under the production policy a callback address is accepted, at registration and at every
  redirection alike, only if it parses, carries no credentials, is https, and its host is neither
  an address of a private class nor a name of the local network; a redirection keeps the webhook's
  identity and starts it clean.
\<close>

theorem callback_address_rule:
  "case whk_Redirect L w r Strict now of
     Inl e \<Rightarrow> IsType e ErrInvalidInput
       \<and> (\<forall>w2. webhook_New L i sid r Strict now \<noteq> Inr w2)
   | Inr w' \<Rightarrow>
       w' = w\<lparr>whk_CallbackURL := reg_CallbackURL r, whk_isActive := True,
              whk_consecutiveFailures := 0, whk_UpdatedAt := now\<rparr>
       \<and> (\<exists>u h. url_Parse L (reg_CallbackURL r) = Some u \<and> Host u \<noteq> '''' \<and> \<not> has_User u
            \<and> Scheme u = ''https'' \<and> h = ToLower L (TrimSuffix (Hostname u) ''.'')
            \<and> (case netip_ParseAddr L h of
                 Some a \<Rightarrow> \<not> IsLoopback a \<and> \<not> IsPrivate a \<and> \<not> IsUnspecified a
                   \<and> \<not> IsLinkLocalUnicast a \<and> \<not> IsLinkLocalMulticast a
               | None \<Rightarrow> h \<noteq> ''localhost'' \<and> \<not> HasSuffix h ''.local'' \<and> CHR ''.'' \<in> set h))"
proof (cases "validateURL L (reg_CallbackURL r) Strict")
  case (Inl e)
  then show ?thesis
    using TypeOf_of_type [OF validateURL_type [OF Inl]]
    by (auto simp: whk_Redirect_def webhook_New_def split: if_splits)
next
  case (Inr x)
  then have "validateURL L (reg_CallbackURL r) Strict = ok" by simp
  then obtain u where "url_Parse L (reg_CallbackURL r) = Some u" "Host u \<noteq> ''''" "\<not> has_User u"
    "Scheme u = ''https''" "\<not> isPrivateHost L (Hostname u)"
    unfolding validateURL_ok Strict_def by auto
  with Inr show ?thesis
    by (auto simp: whk_Redirect_def isPrivateHost_def Let_def split: option.splits if_splits)
qed

text \<open>
  The address rule lets one spelling of the unspecified address through: netip compares it
  with the two plain forms only, so the IPv4-mapped form of 0.0.0.0 is in none of the classes the
  rule asks for, and a callback to it is accepted under the production policy.
\<close>

theorem mapped_unspecified_accepted:
  assumes "netip_ParseAddr L ''::ffff:0.0.0.0'' = Some (IPv6 0xFFFF00000000)"
    and "url_Parse L ''https://[::ffff:0.0.0.0]/cb'' = Some \<lparr>Scheme = ''https'',
           Host = ''[::ffff:0.0.0.0]'', Hostname = ''::ffff:0.0.0.0'', has_User = False\<rparr>"
  shows "isPrivateHost L ''::ffff:0.0.0.0'' = False
    \<and> validateURL L ''https://[::ffff:0.0.0.0]/cb'' Strict = ok"
proof -
  have "ToLower L ''::ffff:0.0.0.0'' = ''::ffff:0.0.0.0''"
    by (rule ToLower_id) (simp add: byte_def)
  moreover have "TrimSuffix ''::ffff:0.0.0.0'' ''.'' = ''::ffff:0.0.0.0''"
    by (simp add: TrimSuffix_def HasSuffix_def HasPrefix_def)
  ultimately have host: "isPrivateHost L ''::ffff:0.0.0.0'' = False"
    using assms(1)
    by (simp add: isPrivateHost_def IsLoopback_def IsPrivate_def IsUnspecified_def
        IsLinkLocalUnicast_def IsLinkLocalMulticast_def unmap_def drop_bit_eq_div)
  moreover have "TrimSpace ''https://[::ffff:0.0.0.0]/cb'' \<noteq> ''''"
    by (subst TrimSpace_no_space) (simp_all add: byte_def is_space_rune_def)
  ultimately show ?thesis
    using assms(2) by (simp add: validateURL_ok Strict_def)
qed

definition mapped_golib :: golib where
  "mapped_golib = demo_golib\<lparr>
     netip_ParseAddr := (\<lambda>s. if s = ''::ffff:0.0.0.0'' then Some (IPv6 0xFFFF00000000) else None),
     url_Parse := (\<lambda>s. if s = ''https://[::ffff:0.0.0.0]/cb'' then
        Some \<lparr>Scheme = ''https'', Host = ''[::ffff:0.0.0.0]'', Hostname = ''::ffff:0.0.0.0'',
              has_User = False\<rparr> else None)\<rparr>"

theorem mapped_unspecified_accepted_witness:
  "isPrivateHost mapped_golib ''::ffff:0.0.0.0'' = False
    \<and> validateURL mapped_golib ''https://[::ffff:0.0.0.0]/cb'' Strict = ok"
  by (rule mapped_unspecified_accepted) (simp_all add: mapped_golib_def)

subsection \<open>Ports and service\<close>

record 'w webhook_repository =
  wr_Create :: "webhook \<Rightarrow> ('w, unit) io"
  wr_ReadBySourceID :: "string \<Rightarrow> ('w, webhook option) io"
  wr_Redirect :: "webhook \<Rightarrow> ('w, unit) io"
  wr_RecordSuccess :: "webhook \<Rightarrow> ('w, unit) io"
  wr_RecordFailure :: "webhook \<Rightarrow> ('w, int) io"
  wr_Deactivate :: "webhook \<Rightarrow> ('w, unit) io"
  wr_Activate :: "webhook \<Rightarrow> ('w, unit) io"

record 'w notifier =
  ntf_Notify :: "webhook \<Rightarrow> batch \<Rightarrow> ('w, unit) io"

record 'w webhook_service =
  ws_repo :: "'w webhook_repository"
  ws_newID :: "'w IDFunc"
  ws_now :: "'w NowFunc"
  ws_policy :: url_policy

definition webhook_Register ::
    "golib \<Rightarrow> 'w webhook_service \<Rightarrow> string \<Rightarrow> registration \<Rightarrow> ('w, webhook) io" where
  "webhook_Register L s sourceID r =
    and_then (wr_ReadBySourceID (ws_repo s) sourceID) (\<lambda>existing.
    case existing of
      None \<Rightarrow>
        call (ws_newID s) (\<lambda>i.
        call (ws_now s) (\<lambda>now.
        and_then (lift (webhook_New L i sourceID r (ws_policy s) now)) (\<lambda>w.
        and_then (wr_Create (ws_repo s) w) (\<lambda>_.
        ret w))))
    | Some w \<Rightarrow>
        call (ws_now s) (\<lambda>now.
        and_then (lift (whk_Redirect L w r (ws_policy s) now)) (\<lambda>w.
        and_then (wr_Redirect (ws_repo s) w) (\<lambda>_.
        ret w))))"

definition webhook_Get :: "'w webhook_service \<Rightarrow> string \<Rightarrow> ('w, webhook option) io" where
  "webhook_Get s sourceID = wr_ReadBySourceID (ws_repo s) sourceID"

definition webhook_RecordSuccess :: "'w webhook_service \<Rightarrow> webhook \<Rightarrow> ('w, unit) io" where
  "webhook_RecordSuccess s w =
    call (ws_now s) (\<lambda>now. wr_RecordSuccess (ws_repo s) (whk_RecordSuccess w now))"

definition webhook_RecordFailure :: "'w webhook_service \<Rightarrow> webhook \<Rightarrow> int \<Rightarrow> ('w, unit) io" where
  "webhook_RecordFailure s w maxFailures =
    and_then (wr_RecordFailure (ws_repo s) w) (\<lambda>count.
    call (ws_now s) (\<lambda>now.
    let w' = whk_RecordFailure w count maxFailures now in
    if whk_isActive w \<and> \<not> whk_isActive w' then wr_Deactivate (ws_repo s) w' else ret ()))"

definition webhook_Deactivate :: "'w webhook_service \<Rightarrow> webhook \<Rightarrow> ('w, webhook) io" where
  "webhook_Deactivate s w =
    call (ws_now s) (\<lambda>now.
    let w = whk_Deactivate w now in
    and_then (wr_Deactivate (ws_repo s) w) (\<lambda>_. ret w))"

definition webhook_Activate :: "'w webhook_service \<Rightarrow> webhook \<Rightarrow> ('w, webhook) io" where
  "webhook_Activate s w =
    call (ws_now s) (\<lambda>now.
    let w = whk_Activate w now in
    and_then (wr_Activate (ws_repo s) w) (\<lambda>_. ret w))"

lemma whk_RecordFailure_active:
  "whk_isActive (whk_RecordFailure w count mx now) \<longleftrightarrow> whk_isActive w \<and> \<not> (0 < mx \<and> mx \<le> count)"
  by (simp add: whk_RecordFailure_def Let_def)

text \<open>The service's judgement in closed form: the second write happens on the deciding run only.\<close>

lemma webhook_RecordFailure_cases:
  "wr_RecordFailure (ws_repo s) w st = (Inr count, st1) \<Longrightarrow> ws_now s st1 = (now, st2) \<Longrightarrow>
   webhook_RecordFailure s w mx st =
     (if whk_isActive w \<and> 0 < mx \<and> mx \<le> count
      then wr_Deactivate (ws_repo s) (whk_RecordFailure w count mx now) st2 else (Inr (), st2))"
  by (simp add: webhook_RecordFailure_def and_then_run call_run whk_RecordFailure_active Let_def)

end
