(* ===== verification/Accounts.thy ===== *)
theory Accounts
  imports Effects
begin

text \<open>
  \<open>internal/core/domain/user\<close>, \<open>logincode\<close> and \<open>session\<close>: the people who sign in,
  the one-time codes they are sent and the browsers they stay signed in with.
\<close>

subsection \<open>People\<close>

datatype role = RoleCustomer | RoleAdmin | RoleSuperAdmin | RoleOther string

fun Role_String :: "role \<Rightarrow> string" where
  "Role_String RoleCustomer = ''customer''"
| "Role_String RoleAdmin = ''admin''"
| "Role_String RoleSuperAdmin = ''super_admin''"
| "Role_String (RoleOther s) = s"

definition Role :: "string \<Rightarrow> role" where
  "Role s =
    (if s = ''customer'' then RoleCustomer
     else if s = ''admin'' then RoleAdmin
     else if s = ''super_admin'' then RoleSuperAdmin
     else RoleOther s)"

fun Role_Valid :: "role \<Rightarrow> bool" where
  "Role_Valid (RoleOther s) = False"
| "Role_Valid r = True"

definition IsOperator :: "role \<Rightarrow> bool" where
  "IsOperator r \<longleftrightarrow> r = RoleAdmin \<or> r = RoleSuperAdmin"

lemma Role_roundtrip [simp]:
  "Role_String (Role s) = s"
  "Role_Valid r \<Longrightarrow> Role (Role_String r) = r"
  by (simp add: Role_def) (cases r; simp add: Role_def)

definition maxEmailLen :: nat where "maxEmailLen = 254"

record user =
  usr_ID :: ID
  usr_Email :: string
  usr_Role :: role
  usr_IsActive :: bool
  usr_CreatedAt :: time
  usr_UpdatedAt :: time

definition NormalizeEmail :: "golib \<Rightarrow> string \<Rightarrow> string result" where
  "NormalizeEmail L email =
    (let t = ToLower L (TrimSpace email) in
     if t = '''' then
       Inl (WithErr (InvalidInputErr ''email is required'') (Sentinel (UserE ErrEmptyEmail)))
     else if maxEmailLen < length t then
       Inl (WithStr (WithErr (InvalidInputErr ''email is too long'') (Sentinel (UserE ErrInvalidEmail)))
            (Text ''%d chars, max %d'' [FmtD (int (length t)), FmtD (int maxEmailLen)]))
     else if \<not> ParseAddress L t then
       Inl (WithErr (InvalidInputErr ''email is not an address'') (Sentinel (UserE ErrInvalidEmail)))
     else Inr t)"

definition user_New :: "golib \<Rightarrow> ID \<Rightarrow> string \<Rightarrow> role \<Rightarrow> time \<Rightarrow> user result" where
  "user_New L i email role now =
    then_result (NormalizeEmail L email) (\<lambda>address.
    if \<not> Role_Valid role then
      Inl (WithStr (WithErr (InvalidInputErr ''unknown role'') (Sentinel (UserE ErrUnknownRole)))
           (Text ''got %q'' [FmtS (Role_String role)]))
    else
      Inr \<lparr>usr_ID = i, usr_Email = address, usr_Role = role, usr_IsActive = True,
           usr_CreatedAt = now, usr_UpdatedAt = now\<rparr>)"

definition ChangeRole :: "user \<Rightarrow> role \<Rightarrow> time \<Rightarrow> user result" where
  "ChangeRole u r now =
    (if \<not> Role_Valid r then
       Inl (WithStr (WithErr (InvalidInputErr ''unknown role'') (Sentinel (UserE ErrUnknownRole)))
            (Text ''got %q'' [FmtS (Role_String r)]))
     else Inr (u\<lparr>usr_Role := r, usr_UpdatedAt := now\<rparr>))"

definition user_EnsureActive :: "user \<Rightarrow> unit result" where
  "user_EnsureActive u =
    (if usr_IsActive u then ok
     else Inl (WithStr (WithErr (ForbiddenErr ''this account cannot sign in'')
                 (Sentinel (UserE user_error.ErrInactive)))
               (Text ''user %q'' [FmtS (usr_ID u)])))"

record 'w user_repository =
  ur_Create :: "user \<Rightarrow> ('w, unit) io"
  ur_ReadByEmail :: "string \<Rightarrow> ('w, user) io"
  ur_ReadByID :: "ID \<Rightarrow> ('w, user) io"
  ur_List :: "int \<Rightarrow> ('w, user list) io"
  ur_UpdateRole :: "user \<Rightarrow> ('w, unit) io"
  ur_SetActive :: "user \<Rightarrow> ('w, unit) io"

lemma NormalizeEmail_type: "NormalizeEmail L email = Inl e \<Longrightarrow> of_type ErrInvalidInput e"
  by (auto simp: NormalizeEmail_def Let_def split: if_splits)

lemma user_EnsureActive_ok: "user_EnsureActive u = Inr x \<longleftrightarrow> usr_IsActive u"
  by (simp add: user_EnsureActive_def)

subsection \<open>One-time codes\<close>

definition Lifetime :: duration where "Lifetime = 10 * minute"
definition MaxGuesses :: int where "MaxGuesses = 3"
definition digits :: nat where "digits = 6"

record login_code =
  lc_ID :: ID
  lc_UserID :: ID
  lc_Code :: string
  lc_ExpiresAt :: time
  lc_Attempts :: int
  lc_UsedAt :: "time option"
  lc_CreatedAt :: time

definition logincode_New :: "ID \<Rightarrow> ID \<Rightarrow> string \<Rightarrow> time \<Rightarrow> login_code" where
  "logincode_New i userID code now =
     \<lparr>lc_ID = i, lc_UserID = userID, lc_Code = code, lc_ExpiresAt = now + Lifetime,
      lc_Attempts = 0, lc_UsedAt = None, lc_CreatedAt = now\<rparr>"

text \<open>\<open>Check\<close> spends the code it judges, so it answers the code beside the verdict.\<close>

definition Check :: "login_code \<Rightarrow> string \<Rightarrow> time \<Rightarrow> unit result \<times> login_code" where
  "Check c given now =
    (if lc_UsedAt c \<noteq> None then
       (Inl (WithErr (InvalidInputErr ''that code has already been used'')
          (Sentinel (LogincodeE ErrSpent))), c)
     else if MaxGuesses \<le> lc_Attempts c then
       (Inl (WithErr (InvalidInputErr ''too many attempts'')
          (Sentinel (LogincodeE ErrTooManyGuesses))), c)
     else if \<not> now < lc_ExpiresAt c then
       (Inl (WithErr (InvalidInputErr ''that code has expired'')
          (Sentinel (LogincodeE ErrExpired))), c)
     else
       let c = c\<lparr>lc_Attempts := lc_Attempts c + 1, lc_UsedAt := Some now\<rparr> in
       if given \<noteq> lc_Code c then
         (Inl (WithErr (InvalidInputErr ''that code is not right'') (Sentinel (LogincodeE ErrWrong))), c)
       else (ok, c))"

text \<open>
  \<open>Generate\<close>: the random number below a million is drawn by the library (an argument), and
  padded with zeros to six digits.
\<close>

fun decimal :: "nat \<Rightarrow> nat \<Rightarrow> string" where
  "decimal 0 n = ''''"
| "decimal (Suc k) n = decimal k (n div 10) @ [char_of (48 + n mod 10)]"

definition Generate :: "('w, nat) io \<Rightarrow> ('w, string) io" where
  "Generate rand_million =
    attempt rand_million (\<lambda>r. case r of
      Inl e \<Rightarrow> throw (WithErr (InternalErr ''could not generate a sign-in code'') e)
    | Inr n \<Rightarrow> ret (decimal digits n))"

record 'w logincode_repository =
  lr_Create :: "login_code \<Rightarrow> ('w, unit) io"
  lr_ReadNewest :: "ID \<Rightarrow> ('w, login_code) io"
  lr_Spend :: "login_code \<Rightarrow> ('w, unit) io"
  lr_CountSince :: "ID \<Rightarrow> time \<Rightarrow> ('w, int) io"
  lr_Forget :: "ID \<Rightarrow> ('w, unit) io"

lemma Check_ok:
  "Check c given now = (Inr x, c') \<longleftrightarrow> lc_UsedAt c = None \<and> lc_Attempts c < 3
     \<and> now < lc_ExpiresAt c \<and> given = lc_Code c
     \<and> c' = c\<lparr>lc_Attempts := lc_Attempts c + 1, lc_UsedAt := Some now\<rparr>"
  by (auto simp: Check_def Let_def MaxGuesses_def)

lemma Check_spent: "lc_UsedAt c \<noteq> None \<Longrightarrow> Check c given now =
    (Inl (WithErr (InvalidInputErr ''that code has already been used'')
       (Sentinel (LogincodeE ErrSpent))), c)"
  by (simp add: Check_def)

text \<open>A run of guesses against one code: each verdict, and the code afterwards.\<close>

fun guesses :: "login_code \<Rightarrow> (string \<times> time) list \<Rightarrow> unit result list" where
  "guesses c [] = []"
| "guesses c ((given, now) # gs) = (case Check c given now of (r, c') \<Rightarrow> r # guesses c' gs)"

lemma guesses_spent:
  "lc_UsedAt c \<noteq> None \<Longrightarrow> list_all (\<lambda>r. \<exists>e. r = Inl e \<and> is_err e (LogincodeE ErrSpent)) (guesses c gs)"
  by (induction gs) (auto simp: Check_spent)

lemma guesses_expired:
  "lc_UsedAt c = None \<Longrightarrow> lc_Attempts c = 0 \<Longrightarrow> list_all (\<lambda>(_, t). lc_ExpiresAt c \<le> t) gs \<Longrightarrow>
   list_all (\<lambda>r. \<exists>e. r = Inl e \<and> is_err e (LogincodeE ErrExpired)) (guesses c gs)"
  by (induction gs) (auto simp: Check_def MaxGuesses_def)

text \<open>
  C39. One copy of a code admits at most one guess, and only the first that is judged can be the one: of
  any sequence of guesses that \<open>Check\<close> judges one after the other on a freshly made code, each on the
  code the one before left, one at most succeeds, it gave the code exactly and within ten minutes, every
  guess before it was made too late to count, and every guess after it, right or wrong, is refused as
  spent. (Two sign-ins that read the stored code at once judge a copy each: see \<open>code_signs_in_twice\<close>.)
\<close>

theorem login_code_single_use:
  fixes gs1 gs2 :: "(string \<times> time) list"
  assumes "guesses (logincode_New i uid code t0) (gs1 @ (given, now) # gs2) = rs1 @ ok # rs2"
    and "length rs1 = length gs1"
  shows "given = code \<and> now < t0 + 10 * minute
    \<and> list_all (\<lambda>r. \<exists>e. r = Inl e \<and> is_err e (LogincodeE ErrExpired)) rs1
    \<and> list_all (\<lambda>r. \<exists>e. r = Inl e \<and> is_err e (LogincodeE ErrSpent)) rs2"
proof -
  have "lc_UsedAt c = None \<Longrightarrow> lc_Attempts c = 0 \<Longrightarrow> lc_ExpiresAt c = T \<Longrightarrow> lc_Code c = code \<Longrightarrow>
      guesses c (gs1 @ (given, now) # gs2) = rs1 @ ok # rs2 \<Longrightarrow> length rs1 = length gs1 \<Longrightarrow>
      given = code \<and> now < T
      \<and> list_all (\<lambda>r. \<exists>e. r = Inl e \<and> is_err e (LogincodeE ErrExpired)) rs1
      \<and> list_all (\<lambda>r. \<exists>e. r = Inl e \<and> is_err e (LogincodeE ErrSpent)) rs2" for c T
  proof (induction gs1 arbitrary: rs1)
    case Nil
    then obtain c' where c': "Check c given now = (ok, c')" "rs1 = []" "rs2 = guesses c' gs2"
      by (auto split: prod.splits)
    from c'(1) have "lc_UsedAt c' \<noteq> None" "given = code" "now < T"
      using Nil.prems by (auto simp: Check_ok)
    with c' guesses_spent show ?case by simp
  next
    case (Cons g gs1)
    obtain u t where g: "g = (u, t)" by fastforce
    from Cons.prems(6) obtain r rs where rs1: "rs1 = r # rs" by (cases rs1) auto
    obtain c' where chk: "Check c u t = (r, c')" and
      rest: "guesses c' (gs1 @ (given, now) # gs2) = rs @ ok # rs2"
      using Cons.prems(5) by (auto simp: g rs1 split: prod.splits)
    show ?case
    proof (cases "t < lc_ExpiresAt c")
      case True
      then have "lc_UsedAt c' \<noteq> None"
        using chk Cons.prems(1,2) by (auto simp: Check_def MaxGuesses_def Let_def split: if_splits)
      then have "list_all (\<lambda>r. \<exists>e. r = Inl e \<and> is_err e (LogincodeE ErrSpent)) (rs @ ok # rs2)"
        using guesses_spent [of c' "gs1 @ (given, now) # gs2"] by (simp add: rest)
      then show ?thesis by simp
    next
      case False
      then have "c' = c" "\<exists>e. r = Inl e \<and> is_err e (LogincodeE ErrExpired)"
        using chk Cons.prems(1,2) by (auto simp: Check_def MaxGuesses_def)
      with Cons.IH [of rs] rest Cons.prems rs1 show ?thesis by simp
    qed
  qed
  from this [of "logincode_New i uid code t0" "t0 + 10 * minute"] assms show ?thesis
    by (simp add: logincode_New_def Lifetime_def)
qed

theorem login_code_single_use_witness:
  "''123456'' = ''123456'' \<and> (500::int) < 100 + 10 * minute
    \<and> list_all (\<lambda>r. \<exists>e. r = Inl e \<and> is_err e (LogincodeE ErrExpired)) ([] :: unit result list)
    \<and> list_all (\<lambda>r. \<exists>e. r = Inl e \<and> is_err e (LogincodeE ErrSpent))
        (guesses (snd (Check (logincode_New ''C'' ''U'' ''123456'' 100) ''123456'' 500))
          [(''123456'', 600)])"
  by (rule login_code_single_use [where ?gs1.0 = "[]" and ?gs2.0 = "[(''123456'', 600)]"
        and i = "''C''" and uid = "''U''"])
    (simp_all add: Check_def logincode_New_def Lifetime_def MaxGuesses_def minute_def second_def)

text \<open>
  The guess limit is never what refuses a guess: one judged guess spends a code, so no guess
  against a code made by \<open>New\<close> is answered with too many attempts, and a code survives no wrong
  answer although the limit is three.
\<close>

theorem guess_limit_unreachable:
  "list_all (\<lambda>r. case r of Inr _ \<Rightarrow> True | Inl e \<Rightarrow> \<not> is_err e (LogincodeE ErrTooManyGuesses))
     (guesses (logincode_New i uid code t0) gs)
   \<and> (now < t0 + 10 * minute \<longrightarrow> wrong \<noteq> code \<longrightarrow>
      (\<exists>e. guesses (logincode_New i uid code t0) [(wrong, now), (code, later)] = [Inl e,
         Inl (WithErr (InvalidInputErr ''that code has already been used'')
           (Sentinel (LogincodeE ErrSpent)))] \<and> is_err e (LogincodeE ErrWrong)))"
proof -
  have "lc_UsedAt c \<noteq> None \<or> lc_Attempts c = 0 \<Longrightarrow>
      list_all (\<lambda>r. case r of Inr _ \<Rightarrow> True | Inl e \<Rightarrow> \<not> is_err e (LogincodeE ErrTooManyGuesses))
        (guesses c gs)" for c
  proof (induction gs arbitrary: c)
    case Nil
    then show ?case by simp
  next
    case (Cons g gs)
    obtain u t where g: "g = (u, t)" by fastforce
    obtain r c' where chk: "Check c u t = (r, c')" by fastforce
    with Cons.prems have "(lc_UsedAt c' \<noteq> None \<or> lc_Attempts c' = 0)
        \<and> (case r of Inr _ \<Rightarrow> True | Inl e \<Rightarrow> \<not> is_err e (LogincodeE ErrTooManyGuesses))"
      by (auto simp: Check_def MaxGuesses_def Let_def split: if_splits)
    with Cons.IH [of c'] chk show ?case by (simp add: g)
  qed
  then show ?thesis
    by (auto simp: logincode_New_def Check_def MaxGuesses_def Lifetime_def Let_def)
qed

theorem guess_limit_unreachable_witness:
  "list_all (\<lambda>r. case r of Inr _ \<Rightarrow> True | Inl e \<Rightarrow> \<not> is_err e (LogincodeE ErrTooManyGuesses))
     (guesses (logincode_New ''C'' ''U'' ''123456'' 100) [(''1'', 200)])
   \<and> (\<exists>e. guesses (logincode_New ''C'' ''U'' ''123456'' 100) [(''1'', 200), (''123456'', 300)] = [Inl e,
         Inl (WithErr (InvalidInputErr ''that code has already been used'')
           (Sentinel (LogincodeE ErrSpent)))] \<and> is_err e (LogincodeE ErrWrong))"
  using guess_limit_unreachable [of "''C''" "''U''" "''123456''" 100 "[(''1'', 200)]" 200 "''1''" 300]
  by (simp add: minute_def second_def)

subsection \<open>Sessions\<close>

definition session_Lifetime :: duration where "session_Lifetime = 12 * hour"
definition IdleTimeout :: duration where "IdleTimeout = 2 * hour"

record session =
  ses_ID :: ID
  ses_UserID :: ID
  ses_ExpiresAt :: time
  ses_LastSeenAt :: time
  ses_CreatedAt :: time

definition session_New :: "ID \<Rightarrow> ID \<Rightarrow> time \<Rightarrow> session" where
  "session_New i userID now =
     \<lparr>ses_ID = i, ses_UserID = userID, ses_ExpiresAt = now + session_Lifetime,
      ses_LastSeenAt = now, ses_CreatedAt = now\<rparr>"

definition session_Valid :: "session \<Rightarrow> time \<Rightarrow> bool" where
  "session_Valid s now \<longleftrightarrow>
     (if \<not> now < ses_ExpiresAt s then False
      else time_Sub now (ses_LastSeenAt s) < IdleTimeout)"

definition session_Touch :: "session \<Rightarrow> time \<Rightarrow> session" where
  "session_Touch s now = s\<lparr>ses_LastSeenAt := now\<rparr>"

record 'w session_repository =
  ser_Create :: "session \<Rightarrow> ('w, unit) io"
  ser_Read :: "ID \<Rightarrow> ('w, session) io"
  ser_Touch :: "session \<Rightarrow> ('w, unit) io"
  ser_Delete :: "ID \<Rightarrow> ('w, unit) io"

lemma session_Valid_iff:
  "session_Valid s now \<longleftrightarrow> now < ses_ExpiresAt s \<and> now - ses_LastSeenAt s < 2 * hour"
  using time_Sub_less [of "2 * hour" now "ses_LastSeenAt s"]
  by (auto simp: session_Valid_def IdleTimeout_def hour_def minute_def second_def)

text \<open>A session used at the given moments, each a request that found it valid or was refused.\<close>

fun use_session :: "session \<Rightarrow> time list \<Rightarrow> session" where
  "use_session s [] = s"
| "use_session s (t # ts) = use_session (if session_Valid s t then session_Touch s t else s) ts"

text \<open>
  However busy it is kept, a session ends twelve hours after the sign-in; and a session that
  is valid was used less than two hours ago. Using it moves the idle deadline and never the
  absolute one, and once a session has been refused for idleness no later request revives it.
\<close>

theorem session_deadlines:
  fixes ts :: "time list"
  assumes "sorted (now # ts @ [later])"
  shows "let s = use_session (session_New i uid t0) ts in
    (session_Valid s later \<longrightarrow> later < t0 + 12 * hour \<and> later - ses_LastSeenAt s < 2 * hour)
    \<and> ses_ExpiresAt s = t0 + 12 * hour \<and> ses_UserID s = uid
    \<and> (\<not> session_Valid (session_New i uid t0) now \<longrightarrow> \<not> session_Valid s later)"
proof -
  have frame: "ses_ExpiresAt (use_session s ts) = ses_ExpiresAt s
      \<and> ses_UserID (use_session s ts) = ses_UserID s" for s
    by (induction ts arbitrary: s) (simp_all add: session_Touch_def)
  have dead: "\<not> session_Valid s t \<Longrightarrow> t \<le> t' \<Longrightarrow> \<not> session_Valid s t'" for s t t'
    by (auto simp: session_Valid_iff)
  have stay: "\<not> session_Valid s now \<Longrightarrow> sorted (now # ts @ [later]) \<Longrightarrow> use_session s ts = s" for s
    by (induction ts arbitrary: s) (auto dest: dead)
  show ?thesis
    using frame [of "session_New i uid t0"] stay [of "session_New i uid t0"] dead assms
    by (auto simp: Let_def session_Valid_iff session_New_def session_Lifetime_def)
qed

theorem session_deadlines_witness:
  "let s = use_session (session_New ''S'' ''U'' 0) [10, 20] in
    (session_Valid s 30 \<longrightarrow> 30 < 0 + 12 * hour \<and> 30 - ses_LastSeenAt s < 2 * hour)
    \<and> ses_ExpiresAt s = 0 + 12 * hour \<and> ses_UserID s = ''U''
    \<and> (\<not> session_Valid (session_New ''S'' ''U'' 0) 5 \<longrightarrow> \<not> session_Valid s 30)"
  by (rule session_deadlines) simp

end
