(* ===== verification/Database.thy ===== *)
theory Database
  imports Effects
begin

text \<open>
  The schema of \<open>migrations/\<close> and every statement of
  \<open>internal/adapter/db/postgres/queries/\<close>, over tables that are lists of rows. A statement is
  a function of the database: it answers its result and the next database, or the error the server
  raises, in which case it changed nothing. A nullable column is an option, a JSONB map its entries,
  and the rows of a listing whose order the query leaves open come in table order.

  \<open>t_deleted_deliveries\<close> is not a table: it remembers the identifiers of deleted deliveries, so
  that the model can say that an identifier is drawn once (\<open>system/idgen.go\<close> draws ULIDs) and a
  deleted delivery never comes back as another one.
\<close>

subsection \<open>Rows\<close>

record user_row =
  us_id :: string
  us_email :: string
  us_role :: string
  us_is_active :: bool
  us_created_at :: time
  us_updated_at :: time

record source_row =
  so_id :: string
  so_name :: string
  so_description :: string
  so_max_priority :: string
  so_owner_user_id :: string
  so_is_active :: bool
  so_approved_at :: "time option"
  so_reviewed_at :: "time option"
  so_review_note :: string
  so_allow_custom_address :: bool
  so_default_addresses :: "(string \<times> string) list"
  so_created_at :: time
  so_updated_at :: time

record api_key_row =
  ak_id :: string
  ak_source_id :: string
  ak_key_hash :: string
  ak_label :: string
  ak_created_at :: time
  ak_last_used_at :: "time option"
  ak_expires_at :: "time option"
  ak_revoked_at :: "time option"

record credential_row =
  ca_id :: string
  ca_source_id :: string
  ca_channel :: string
  ca_name :: string
  ca_config :: string
  ca_secret :: "string option"
  ca_is_default :: bool
  ca_is_active :: bool
  ca_created_at :: time
  ca_updated_at :: time

record webhook_row =
  wh_id :: string
  wh_source_id :: string
  wh_callback_url :: string
  wh_secret :: "string option"
  wh_is_active :: bool
  wh_consecutive_failures :: int
  wh_created_at :: time
  wh_updated_at :: time

record notification_row =
  nt_id :: string
  nt_source_id :: string
  nt_idempotency_key :: "string option"
  nt_source_name :: string
  nt_title :: string
  nt_body :: string
  nt_requested_priority :: string
  nt_effective_priority :: string
  nt_expire_at :: "time option"
  nt_metadata :: "(string \<times> string) list"
  nt_created_at :: time

record delivery_row =
  dl_id :: string
  dl_notification_id :: string
  dl_channel :: string
  dl_address :: string
  dl_sender_name :: string
  dl_status :: string
  dl_attempts :: int
  dl_last_error :: "string option"
  dl_failure_reason :: "string option"
  dl_provider_message_id :: "string option"
  dl_notified_at :: "time option"
  dl_claimed_at :: "time option"
  dl_created_at :: time
  dl_updated_at :: time

record login_code_row =
  lo_id :: string
  lo_user_id :: string
  lo_code :: string
  lo_expires_at :: time
  lo_attempts :: int
  lo_used_at :: "time option"
  lo_created_at :: time

record session_row =
  se_id :: string
  se_user_id :: string
  se_expires_at :: time
  se_last_seen_at :: time
  se_created_at :: time

record audit_row =
  au_id :: string
  au_at :: time
  au_actor_id :: string
  au_actor_email :: string
  au_verb :: string
  au_target_type :: string
  au_target_id :: string
  au_note :: string

record database =
  t_users :: "user_row list"
  t_sources :: "source_row list"
  t_api_keys :: "api_key_row list"
  t_credentials :: "credential_row list"
  t_webhooks :: "webhook_row list"
  t_notifications :: "notification_row list"
  t_deliveries :: "delivery_row list"
  t_deleted_deliveries :: "string list"
  t_login_codes :: "login_code_row list"
  t_sessions :: "session_row list"
  t_audit_log :: "audit_row list"

definition empty_database :: database where
  "empty_database =
    \<lparr>t_users = [], t_sources = [], t_api_keys = [], t_credentials = [], t_webhooks = [],
     t_notifications = [], t_deliveries = [], t_deleted_deliveries = [], t_login_codes = [],
     t_sessions = [], t_audit_log = []\<rparr>"

type_synonym 'a stmt = "database \<Rightarrow> 'a result \<times> database"

subsection \<open>Constraints\<close>

definition unique_violation :: "string \<Rightarrow> goerr" where
  "unique_violation name = Foreign (''unique violation on '' @ name)"

definition check_violation :: goerr where
  "check_violation = Foreign ''check or foreign key violation''"

definition pgx_ErrNoRows :: goerr where
  "pgx_ErrNoRows = Foreign ''no rows in result set''"

text \<open>The domain \<open>ulid\<close>: 26 characters of the Crockford alphabet.\<close>

definition is_ulid :: "string \<Rightarrow> bool" where
  "is_ulid s \<longleftrightarrow> length s = 26 \<and> list_all (\<lambda>c. crockford (byte c)) s"

definition channel_check :: "string \<Rightarrow> bool" where
  "channel_check s \<longleftrightarrow> s \<in> set (map Channel_String AllChannels)"

definition priority_check :: "string \<Rightarrow> bool" where
  "priority_check s \<longleftrightarrow> s \<in> {''NORMAL'', ''HIGH'', ''CRITICAL''}"

definition status_check :: "string \<Rightarrow> bool" where
  "status_check s \<longleftrightarrow> s \<in> {''PENDING'', ''SENT'', ''FAILED''}"

definition failure_check :: "string option \<Rightarrow> bool" where
  "failure_check r \<longleftrightarrow> r \<in> {None, Some ''EXPIRED'', Some ''MAX_ATTEMPTS'', Some ''PERMANENT'',
     Some ''NO_SENDER'', Some ''NOT_REACHABLE''}"

definition role_check :: "string \<Rightarrow> bool" where
  "role_check s \<longleftrightarrow> s \<in> {''customer'', ''admin'', ''super_admin''}"

text \<open>
  A unique index is the key it is on, absent for the rows a partial index leaves out. \<open>taken\<close>
  says that a row's key is in the table already.
\<close>

definition taken :: "('r \<Rightarrow> 'k option) \<Rightarrow> 'r \<Rightarrow> 'r list \<Rightarrow> bool" where
  "taken key r rows = (case key r of None \<Rightarrow> False | Some k \<Rightarrow> list_ex (\<lambda>x. key x = Some k) rows)"

definition unique_on :: "('r \<Rightarrow> 'k option) \<Rightarrow> 'r list \<Rightarrow> bool" where
  "unique_on key rows = distinct (List.map_filter key rows)"

definition users_email_key :: "user_row \<Rightarrow> string option" where
  "users_email_key r = Some (us_email r)"

definition api_keys_key_hash_key :: "api_key_row \<Rightarrow> string option" where
  "api_keys_key_hash_key r = Some (ak_key_hash r)"

definition credentials_source_channel_name_key :: "credential_row \<Rightarrow> (string \<times> string \<times> string) option" where
  "credentials_source_channel_name_key r = Some (ca_source_id r, ca_channel r, ca_name r)"

definition credentials_one_default_per_channel :: "credential_row \<Rightarrow> (string \<times> string) option" where
  "credentials_one_default_per_channel r =
     (if ca_is_default r then Some (ca_source_id r, ca_channel r) else None)"

definition webhooks_source_id_key :: "webhook_row \<Rightarrow> string option" where
  "webhooks_source_id_key r = Some (wh_source_id r)"

definition notifications_source_idempotency_key :: "notification_row \<Rightarrow> (string \<times> string) option" where
  "notifications_source_idempotency_key r =
     (case nt_idempotency_key r of None \<Rightarrow> None | Some k \<Rightarrow> Some (nt_source_id r, k))"

definition deliveries_notification_channel_address_key ::
    "delivery_row \<Rightarrow> (string \<times> string \<times> string) option" where
  "deliveries_notification_channel_address_key r =
     Some (dl_notification_id r, dl_channel r, dl_address r)"

lemma unique_on_Nil [simp]: "unique_on key []"
  by (simp add: unique_on_def map_filter_simps)

lemma in_map_filter: "k \<in> set (List.map_filter key rows) \<longleftrightarrow> (\<exists>x \<in> set rows. key x = Some k)"
  by (induction rows) (auto simp: map_filter_simps split: option.splits)

lemma taken_iff: "taken key r rows \<longleftrightarrow> (\<exists>k. key r = Some k \<and> (\<exists>x \<in> set rows. key x = Some k))"
  by (auto simp: taken_def list_ex_iff split: option.split)

lemma unique_on_Cons: "unique_on key (r # rows) \<longleftrightarrow> \<not> taken key r rows \<and> unique_on key rows"
  by (auto simp: unique_on_def taken_def map_filter_simps list_ex_iff in_map_filter
      split: option.split)

lemma unique_on_snoc: "unique_on key (rows @ [r]) \<longleftrightarrow> unique_on key rows \<and> \<not> taken key r rows"
  by (induction rows) (auto simp: unique_on_Cons taken_def split: option.splits)

lemma unique_on_map_same:
  "(\<And>r. key (f r) = key r) \<Longrightarrow> unique_on key (map f rows) = unique_on key rows"
  by (simp add: unique_on_def map_filter_def filter_map comp_def)

lemma unique_on_update_where:
  "(\<And>r. key (f r) = key r) \<Longrightarrow> unique_on key (update_where p f rows) = unique_on key rows"
  unfolding update_where_def by (rule unique_on_map_same) simp

lemma taken_filter: "taken key r (filter p rows) \<Longrightarrow> taken key r rows"
  by (auto simp: taken_def list_ex_iff split: option.splits)

lemma unique_on_filter: "unique_on key rows \<Longrightarrow> unique_on key (filter p rows)"
  by (induction rows) (auto simp: unique_on_Cons dest: taken_filter)

text \<open>Clearing a partial key for some rows keeps the index.\<close>

lemma unique_on_update_where_clear:
  assumes "\<And>r. key (f r) = None \<or> key (f r) = key r" "unique_on key rows"
  shows "unique_on key (update_where p f rows)"
  using assms(2)
proof (induction rows)
  case Nil
  then show ?case by simp
next
  case (Cons r rows)
  have keep: "key (if p x then f x else x) = Some k \<Longrightarrow> key x = Some k" for x k
    using assms(1) [of x] by (auto split: if_splits)
  have "taken key r rows" if "taken key (if p r then f r else r) (update_where p f rows)"
  proof -
    from that obtain k z where a: "key (if p r then f r else r) = Some k" and z: "z \<in> set rows"
      and b: "key (if p z then f z else z) = Some k"
      unfolding taken_iff Bex_def in_update_where by blast
    from keep [OF a] keep [OF b] z show ?thesis unfolding taken_iff by blast
  qed
  moreover have "\<not> taken key r rows" "unique_on key (update_where p f rows)"
    using Cons.prems Cons.IH unfolding unique_on_Cons by blast+
  ultimately show ?case
    unfolding update_where_simps unique_on_Cons by blast
qed

lemma unique_on_inj:
  "unique_on key rows \<Longrightarrow> r \<in> set rows \<Longrightarrow> s \<in> set rows \<Longrightarrow> key r = Some k \<Longrightarrow> key s = Some k \<Longrightarrow> r = s"
  by (induction rows) (auto simp: unique_on_Cons taken_def list_ex_iff)

text \<open>A LIMIT.\<close>

definition limited :: "int \<Rightarrow> 'r list \<Rightarrow> 'r list result" where
  "limited n rows = (if n < 0 then Inl (Foreign ''LIMIT must not be negative'') else Inr (take (nat n) rows))"

subsection \<open>Inserting and reading\<close>

text \<open>
  An insert into a table: CHECKs and foreign keys, then the primary key, then each unique index, in
  the order given; the first that fails is the error. A \<open>:one\<close> query reports no row as an
  error, an \<open>:execrows\<close> statement its row count.
\<close>

definition first_violation :: "(bool \<times> goerr) list \<Rightarrow> goerr option" where
  "first_violation checks = map_option snd (find fst checks)"

definition insert_row ::
    "(bool \<times> goerr) list \<Rightarrow> database \<Rightarrow> database \<Rightarrow> unit result \<times> database" where
  "insert_row checks db db' =
     (case first_violation checks of Some e \<Rightarrow> (Inl e, db) | None \<Rightarrow> (ok, db'))"

definition one_row :: "'r option \<Rightarrow> 'r result" where
  "one_row r = (case r of None \<Rightarrow> Inl pgx_ErrNoRows | Some x \<Rightarrow> Inr x)"

lemma first_violation_simps [simp]:
  "first_violation [] = None"
  "first_violation ((b, e) # cs) = (if b then Some e else first_violation cs)"
  by (simp_all add: first_violation_def)

lemma one_row_simps [simp]: "one_row None = Inl pgx_ErrNoRows" "one_row (Some x) = Inr x"
  by (simp_all add: one_row_def)

definition has_id :: "('r \<Rightarrow> string) \<Rightarrow> string \<Rightarrow> 'r list \<Rightarrow> bool" where
  "has_id f i rows = list_ex (\<lambda>r. f r = i) rows"

subsection \<open>Users, codes, sessions, audit\<close>

definition sql_CreateUser :: "user_row \<Rightarrow> unit stmt" where
  "sql_CreateUser r db = insert_row
     [(\<not> is_ulid (us_id r) \<or> \<not> role_check (us_role r), check_violation),
      (has_id us_id (us_id r) (t_users db), unique_violation ''users_pkey''),
      (taken users_email_key r (t_users db), unique_violation ''users_email_key'')]
     db (db\<lparr>t_users := t_users db @ [r]\<rparr>)"

definition sql_ReadUserByEmail :: "string \<Rightarrow> user_row stmt" where
  "sql_ReadUserByEmail email db = (one_row (the_row (\<lambda>r. us_email r = email) (t_users db)), db)"

definition sql_ReadUserByID :: "string \<Rightarrow> user_row stmt" where
  "sql_ReadUserByID i db = (one_row (the_row (\<lambda>r. us_id r = i) (t_users db)), db)"

definition sql_ListUsers :: "int \<Rightarrow> user_row list stmt" where
  "sql_ListUsers row_limit db = (limited row_limit (rev (sort_key us_created_at (t_users db))), db)"

definition sql_UpdateUserRole :: "string \<Rightarrow> string \<Rightarrow> time \<Rightarrow> nat stmt" where
  "sql_UpdateUserRole i role updated_at db =
    (let p = (\<lambda>r. us_id r = i); n = affected p (t_users db) in
     if 0 < n \<and> \<not> role_check role then (Inl check_violation, db)
     else (Inr n, db\<lparr>t_users := update_where p (\<lambda>r. r\<lparr>us_role := role, us_updated_at := updated_at\<rparr>)
             (t_users db)\<rparr>))"

definition sql_SetUserActive :: "string \<Rightarrow> bool \<Rightarrow> time \<Rightarrow> nat stmt" where
  "sql_SetUserActive i is_active updated_at db =
    (let p = (\<lambda>r. us_id r = i) in
     (Inr (affected p (t_users db)),
      db\<lparr>t_users := update_where p (\<lambda>r. r\<lparr>us_is_active := is_active, us_updated_at := updated_at\<rparr>)
           (t_users db)\<rparr>))"

definition sql_CreateLoginCode :: "login_code_row \<Rightarrow> unit stmt" where
  "sql_CreateLoginCode r db = insert_row
     [(\<not> is_ulid (lo_id r) \<or> \<not> has_id us_id (lo_user_id r) (t_users db), check_violation),
      (has_id lo_id (lo_id r) (t_login_codes db), unique_violation ''login_codes_pkey'')]
     db (db\<lparr>t_login_codes := t_login_codes db @ [r]\<rparr>)"

definition sql_ReadNewestLoginCode :: "string \<Rightarrow> login_code_row stmt" where
  "sql_ReadNewestLoginCode user_id db =
     (one_row (case rev (sort_key lo_created_at (filter (\<lambda>r. lo_user_id r = user_id) (t_login_codes db)))
        of [] \<Rightarrow> None | r # _ \<Rightarrow> Some r), db)"

definition sql_SpendLoginCode :: "string \<Rightarrow> int \<Rightarrow> time option \<Rightarrow> nat stmt" where
  "sql_SpendLoginCode i attempts used_at db =
    (let p = (\<lambda>r. lo_id r = i) in
     (Inr (affected p (t_login_codes db)),
      db\<lparr>t_login_codes := update_where p (\<lambda>r. r\<lparr>lo_attempts := attempts, lo_used_at := used_at\<rparr>)
           (t_login_codes db)\<rparr>))"

definition sql_CountLoginCodesSince :: "string \<Rightarrow> time \<Rightarrow> nat stmt" where
  "sql_CountLoginCodesSince user_id since db =
     (Inr (affected (\<lambda>r. lo_user_id r = user_id \<and> since \<le> lo_created_at r) (t_login_codes db)), db)"

definition sql_ForgetLoginCode :: "string \<Rightarrow> unit stmt" where
  "sql_ForgetLoginCode i db =
     (ok, db\<lparr>t_login_codes := delete_where (\<lambda>r. lo_id r = i) (t_login_codes db)\<rparr>)"

definition sql_CreateSession :: "session_row \<Rightarrow> unit stmt" where
  "sql_CreateSession r db = insert_row
     [(\<not> is_ulid (se_id r) \<or> \<not> has_id us_id (se_user_id r) (t_users db), check_violation),
      (has_id se_id (se_id r) (t_sessions db), unique_violation ''sessions_pkey'')]
     db (db\<lparr>t_sessions := t_sessions db @ [r]\<rparr>)"

definition sql_ReadSession :: "string \<Rightarrow> session_row stmt" where
  "sql_ReadSession i db = (one_row (the_row (\<lambda>r. se_id r = i) (t_sessions db)), db)"

definition sql_TouchSession :: "string \<Rightarrow> time \<Rightarrow> nat stmt" where
  "sql_TouchSession i last_seen_at db =
    (let p = (\<lambda>r. se_id r = i) in
     (Inr (affected p (t_sessions db)),
      db\<lparr>t_sessions := update_where p (\<lambda>r. r\<lparr>se_last_seen_at := last_seen_at\<rparr>) (t_sessions db)\<rparr>))"

definition sql_DeleteSession :: "string \<Rightarrow> nat stmt" where
  "sql_DeleteSession i db =
    (let p = (\<lambda>r. se_id r = i) in
     (Inr (affected p (t_sessions db)), db\<lparr>t_sessions := delete_where p (t_sessions db)\<rparr>))"

definition sql_RecordAudit :: "audit_row \<Rightarrow> unit stmt" where
  "sql_RecordAudit r db = insert_row
     [(\<not> is_ulid (au_id r) \<or> \<not> has_id us_id (au_actor_id r) (t_users db), check_violation),
      (has_id au_id (au_id r) (t_audit_log db), unique_violation ''audit_log_pkey'')]
     db (db\<lparr>t_audit_log := t_audit_log db @ [r]\<rparr>)"

definition sql_ListAudit :: "int \<Rightarrow> audit_row list stmt" where
  "sql_ListAudit row_limit db = (limited row_limit (rev (sort_key au_at (t_audit_log db))), db)"

definition sql_ListAuditByTarget ::
    "string \<Rightarrow> string \<Rightarrow> string list \<Rightarrow> int \<Rightarrow> audit_row list stmt" where
  "sql_ListAuditByTarget target_type target_id verbs row_limit db =
     (limited row_limit (rev (sort_key au_at (filter (\<lambda>r. au_target_type r = target_type
        \<and> au_target_id r = target_id \<and> au_verb r \<in> set verbs) (t_audit_log db)))), db)"

subsection \<open>Sources and keys\<close>

definition sql_CreateSource ::
    "string \<Rightarrow> string \<Rightarrow> string \<Rightarrow> string \<Rightarrow> bool \<Rightarrow> (string \<times> string) list \<Rightarrow> time \<Rightarrow> unit stmt" where
  "sql_CreateSource i owner name max_priority allow_custom addresses created_at db = insert_row
     [(\<not> is_ulid i \<or> \<not> priority_check max_priority \<or> \<not> has_id us_id owner (t_users db), check_violation),
      (has_id so_id i (t_sources db), unique_violation ''sources_pkey'')]
     db (db\<lparr>t_sources := t_sources db @
       [\<lparr>so_id = i, so_name = name, so_description = '''', so_max_priority = max_priority,
         so_owner_user_id = owner, so_is_active = False, so_approved_at = None, so_reviewed_at = None,
         so_review_note = '''', so_allow_custom_address = allow_custom,
         so_default_addresses = addresses, so_created_at = created_at, so_updated_at = created_at\<rparr>]\<rparr>)"

definition sql_ReadSource :: "string \<Rightarrow> source_row stmt" where
  "sql_ReadSource i db = (one_row (the_row (\<lambda>r. so_id r = i) (t_sources db)), db)"

definition sql_ListSourcesByOwner :: "string \<Rightarrow> source_row list stmt" where
  "sql_ListSourcesByOwner owner db =
     (Inr (rev (sort_key so_created_at (filter (\<lambda>r. so_owner_user_id r = owner) (t_sources db)))), db)"

definition sql_UpdateSourceSettings ::
    "string \<Rightarrow> string \<Rightarrow> string \<Rightarrow> (string \<times> string) list \<Rightarrow> time \<Rightarrow> nat stmt" where
  "sql_UpdateSourceSettings i name description addresses updated_at db =
    (let p = (\<lambda>r. so_id r = i) in
     (Inr (affected p (t_sources db)),
      db\<lparr>t_sources := update_where p (\<lambda>r. r\<lparr>so_name := name, so_description := description,
           so_default_addresses := addresses, so_updated_at := updated_at\<rparr>) (t_sources db)\<rparr>))"

definition sql_UpdateReview ::
    "string \<Rightarrow> bool \<Rightarrow> time option \<Rightarrow> time option \<Rightarrow> string \<Rightarrow> time \<Rightarrow> nat stmt" where
  "sql_UpdateReview i is_active approved_at reviewed_at review_note updated_at db =
    (let p = (\<lambda>r. so_id r = i) in
     (Inr (affected p (t_sources db)),
      db\<lparr>t_sources := update_where p (\<lambda>r. r\<lparr>so_is_active := is_active, so_approved_at := approved_at,
           so_reviewed_at := reviewed_at, so_review_note := review_note,
           so_updated_at := updated_at\<rparr>) (t_sources db)\<rparr>))"

definition sql_ListForReview :: "int \<Rightarrow> source_row list stmt" where
  "sql_ListForReview row_limit db =
     (limited row_limit (sort_key so_created_at (filter (\<lambda>r. so_reviewed_at r = None) (t_sources db))), db)"

definition sql_ListAllSources :: "int \<Rightarrow> source_row list stmt" where
  "sql_ListAllSources row_limit db = (limited row_limit (rev (sort_key so_created_at (t_sources db))), db)"

definition sql_CreateAPIKey ::
    "string \<Rightarrow> string \<Rightarrow> string \<Rightarrow> string \<Rightarrow> time \<Rightarrow> time option \<Rightarrow> unit stmt" where
  "sql_CreateAPIKey i source_id key_hash label created_at expires_at db =
    (let r = \<lparr>ak_id = i, ak_source_id = source_id, ak_key_hash = key_hash, ak_label = label,
              ak_created_at = created_at, ak_last_used_at = None, ak_expires_at = expires_at,
              ak_revoked_at = None\<rparr>
     in insert_row
     [(\<not> is_ulid i \<or> \<not> has_id so_id source_id (t_sources db), check_violation),
      (has_id ak_id i (t_api_keys db), unique_violation ''api_keys_pkey''),
      (taken api_keys_key_hash_key r (t_api_keys db), unique_violation ''api_keys_key_hash_key'')]
     db (db\<lparr>t_api_keys := t_api_keys db @ [r]\<rparr>))"

text \<open>The join: the live key with that hash, and its source.\<close>

definition sql_ReadSourceByKeyHash :: "string \<Rightarrow> time \<Rightarrow> (source_row \<times> string) stmt" where
  "sql_ReadSourceByKeyHash key_hash now db =
     (one_row (case the_row (\<lambda>k. ak_key_hash k = key_hash \<and> ak_revoked_at k = None
          \<and> (case ak_expires_at k of None \<Rightarrow> True | Some t \<Rightarrow> now < t)
          \<and> has_id so_id (ak_source_id k) (t_sources db)) (t_api_keys db) of
        None \<Rightarrow> None
      | Some k \<Rightarrow> map_option (\<lambda>s. (s, ak_id k))
          (the_row (\<lambda>r. so_id r = ak_source_id k) (t_sources db))), db)"

definition sql_ListAPIKeysBySource :: "string \<Rightarrow> api_key_row list stmt" where
  "sql_ListAPIKeysBySource source_id db =
     (Inr (sort_key ak_id (filter (\<lambda>r. ak_source_id r = source_id) (t_api_keys db))), db)"

definition sql_TouchAPIKey :: "string \<Rightarrow> time \<Rightarrow> time \<Rightarrow> nat stmt" where
  "sql_TouchAPIKey i now stale_before db =
    (let p = (\<lambda>r. ak_id r = i \<and> (case ak_last_used_at r of None \<Rightarrow> True | Some t \<Rightarrow> t < stale_before)) in
     (Inr (affected p (t_api_keys db)),
      db\<lparr>t_api_keys := update_where p (\<lambda>r. r\<lparr>ak_last_used_at := Some now\<rparr>) (t_api_keys db)\<rparr>))"

definition sql_RevokeAPIKey :: "string \<Rightarrow> time \<Rightarrow> nat stmt" where
  "sql_RevokeAPIKey i revoked_at db =
    (let p = (\<lambda>r. ak_id r = i \<and> ak_revoked_at r = None) in
     (Inr (affected p (t_api_keys db)),
      db\<lparr>t_api_keys := update_where p (\<lambda>r. r\<lparr>ak_revoked_at := Some revoked_at\<rparr>) (t_api_keys db)\<rparr>))"

subsection \<open>Credentials\<close>

definition sql_CreateCredential ::
    "string \<Rightarrow> string \<Rightarrow> string \<Rightarrow> string \<Rightarrow> string \<Rightarrow> string option \<Rightarrow> bool \<Rightarrow> time \<Rightarrow> unit stmt" where
  "sql_CreateCredential i source_id channel name config secret is_default created_at db =
    (let r = \<lparr>ca_id = i, ca_source_id = source_id, ca_channel = channel, ca_name = name,
              ca_config = config, ca_secret = secret, ca_is_default = is_default,
              ca_is_active = True, ca_created_at = created_at, ca_updated_at = created_at\<rparr>
     in insert_row
     [(\<not> is_ulid i \<or> \<not> channel_check channel \<or> \<not> has_id so_id source_id (t_sources db), check_violation),
      (has_id ca_id i (t_credentials db), unique_violation ''credentials_pkey''),
      (taken credentials_source_channel_name_key r (t_credentials db),
         unique_violation ''credentials_source_channel_name_key''),
      (taken credentials_one_default_per_channel r (t_credentials db),
         unique_violation ''credentials_one_default_per_channel'')]
     db (db\<lparr>t_credentials := t_credentials db @ [r]\<rparr>))"

definition sql_ListCredentialsBySourceAndChannel :: "string \<Rightarrow> string \<Rightarrow> credential_row list stmt" where
  "sql_ListCredentialsBySourceAndChannel source_id channel db =
     (Inr (sort_key ca_id (filter (\<lambda>r. ca_source_id r = source_id \<and> ca_channel r = channel)
        (t_credentials db))), db)"

definition sql_ReadCredentialSecret :: "string \<Rightarrow> (string \<times> string option) stmt" where
  "sql_ReadCredentialSecret i db =
     (one_row (map_option (\<lambda>r. (ca_config r, ca_secret r))
        (the_row (\<lambda>r. ca_id r = i \<and> ca_is_active r) (t_credentials db))), db)"

definition sql_ClearDefaultCredential :: "string \<Rightarrow> string \<Rightarrow> time \<Rightarrow> nat stmt" where
  "sql_ClearDefaultCredential source_id channel updated_at db =
    (let p = (\<lambda>r. ca_source_id r = source_id \<and> ca_channel r = channel \<and> ca_is_default r) in
     (Inr (affected p (t_credentials db)),
      db\<lparr>t_credentials := update_where p (\<lambda>r. r\<lparr>ca_is_default := False, ca_updated_at := updated_at\<rparr>)
           (t_credentials db)\<rparr>))"

text \<open>A comparison with NULL selects nothing, on either side.\<close>

definition sql_ResealCredentialSecret ::
    "string \<Rightarrow> string option \<Rightarrow> string option \<Rightarrow> time \<Rightarrow> nat stmt" where
  "sql_ResealCredentialSecret i previous secret updated_at db =
    (let p = (\<lambda>r. ca_id r = i \<and> previous \<noteq> None \<and> ca_secret r = previous) in
     (Inr (affected p (t_credentials db)),
      db\<lparr>t_credentials := update_where p (\<lambda>r. r\<lparr>ca_secret := secret, ca_updated_at := updated_at\<rparr>)
           (t_credentials db)\<rparr>))"

definition sql_ListCredentialsBySource :: "string \<Rightarrow> credential_row list stmt" where
  "sql_ListCredentialsBySource source_id db =
     (Inr (sort_key (\<lambda>r. (ca_channel r, ca_name r)) (filter (\<lambda>r. ca_source_id r = source_id)
        (t_credentials db))), db)"

definition sql_ReadCredential :: "string \<Rightarrow> string \<Rightarrow> credential_row stmt" where
  "sql_ReadCredential i source_id db =
     (one_row (the_row (\<lambda>r. ca_id r = i \<and> ca_source_id r = source_id) (t_credentials db)), db)"

definition sql_SetCredentialActive :: "string \<Rightarrow> string \<Rightarrow> bool \<Rightarrow> time \<Rightarrow> nat stmt" where
  "sql_SetCredentialActive i source_id is_active updated_at db =
    (let p = (\<lambda>r. ca_id r = i \<and> ca_source_id r = source_id \<and> ca_is_active r \<noteq> is_active) in
     (Inr (affected p (t_credentials db)),
      db\<lparr>t_credentials := update_where p (\<lambda>r. r\<lparr>ca_is_active := is_active,
           ca_is_default := (if is_active then ca_is_default r else False),
           ca_updated_at := updated_at\<rparr>) (t_credentials db)\<rparr>))"

definition sql_SetCredentialDefault :: "string \<Rightarrow> string \<Rightarrow> time \<Rightarrow> nat stmt" where
  "sql_SetCredentialDefault i source_id updated_at db =
    (let p = (\<lambda>r. ca_id r = i \<and> ca_source_id r = source_id \<and> ca_is_active r);
         rows = update_where p (\<lambda>r. r\<lparr>ca_is_default := True, ca_updated_at := updated_at\<rparr>)
           (t_credentials db)
     in if \<not> unique_on credentials_one_default_per_channel rows
        then (Inl (unique_violation ''credentials_one_default_per_channel''), db)
        else (Inr (affected p (t_credentials db)), db\<lparr>t_credentials := rows\<rparr>))"

definition sql_RotateCredentialSecret ::
    "string \<Rightarrow> string \<Rightarrow> string option \<Rightarrow> time \<Rightarrow> nat stmt" where
  "sql_RotateCredentialSecret i source_id secret updated_at db =
    (let p = (\<lambda>r. ca_id r = i \<and> ca_source_id r = source_id \<and> ca_is_active r) in
     (Inr (affected p (t_credentials db)),
      db\<lparr>t_credentials := update_where p (\<lambda>r. r\<lparr>ca_secret := secret, ca_updated_at := updated_at\<rparr>)
           (t_credentials db)\<rparr>))"

definition sql_UpdateCredentialConfig :: "string \<Rightarrow> string \<Rightarrow> string \<Rightarrow> time \<Rightarrow> nat stmt" where
  "sql_UpdateCredentialConfig i source_id config updated_at db =
    (let p = (\<lambda>r. ca_id r = i \<and> ca_source_id r = source_id) in
     (Inr (affected p (t_credentials db)),
      db\<lparr>t_credentials := update_where p (\<lambda>r. r\<lparr>ca_config := config, ca_updated_at := updated_at\<rparr>)
           (t_credentials db)\<rparr>))"

subsection \<open>Webhooks\<close>

definition sql_CreateWebhook :: "string \<Rightarrow> string \<Rightarrow> string \<Rightarrow> time \<Rightarrow> unit stmt" where
  "sql_CreateWebhook i source_id callback_url created_at db =
    (let r = \<lparr>wh_id = i, wh_source_id = source_id, wh_callback_url = callback_url, wh_secret = None,
              wh_is_active = True, wh_consecutive_failures = 0, wh_created_at = created_at,
              wh_updated_at = created_at\<rparr>
     in insert_row
     [(\<not> is_ulid i \<or> \<not> has_id so_id source_id (t_sources db), check_violation),
      (has_id wh_id i (t_webhooks db), unique_violation ''webhooks_pkey''),
      (taken webhooks_source_id_key r (t_webhooks db), unique_violation ''webhooks_source_id_key'')]
     db (db\<lparr>t_webhooks := t_webhooks db @ [r]\<rparr>))"

definition sql_ReadWebhookBySourceID :: "string \<Rightarrow> webhook_row stmt" where
  "sql_ReadWebhookBySourceID source_id db =
     (one_row (the_row (\<lambda>r. wh_source_id r = source_id) (t_webhooks db)), db)"

text \<open>A counter at the end of its column's range is an error of the server, not a wrapped value.\<close>

definition sql_RecordWebhookFailure :: "string \<Rightarrow> time \<Rightarrow> int stmt" where
  "sql_RecordWebhookFailure i updated_at db =
    (case the_row (\<lambda>r. wh_id r = i) (t_webhooks db) of
       None \<Rightarrow> (Inl pgx_ErrNoRows, db)
     | Some r \<Rightarrow>
         if 2 ^ 31 \<le> wh_consecutive_failures r + 1 then (Inl (Foreign ''integer out of range''), db)
         else (Inr (wh_consecutive_failures r + 1),
           db\<lparr>t_webhooks := update_where (\<lambda>r. wh_id r = i)
                (\<lambda>r. r\<lparr>wh_consecutive_failures := wh_consecutive_failures r + 1,
                       wh_updated_at := updated_at\<rparr>) (t_webhooks db)\<rparr>))"

definition sql_RecordWebhookSuccess :: "string \<Rightarrow> time \<Rightarrow> nat stmt" where
  "sql_RecordWebhookSuccess i updated_at db =
    (let p = (\<lambda>r. wh_id r = i) in
     (Inr (affected p (t_webhooks db)),
      db\<lparr>t_webhooks := update_where p
           (\<lambda>r. r\<lparr>wh_consecutive_failures := 0, wh_updated_at := updated_at\<rparr>) (t_webhooks db)\<rparr>))"

definition sql_RedirectWebhook :: "string \<Rightarrow> string \<Rightarrow> time \<Rightarrow> nat stmt" where
  "sql_RedirectWebhook i callback_url updated_at db =
    (let p = (\<lambda>r. wh_id r = i) in
     (Inr (affected p (t_webhooks db)),
      db\<lparr>t_webhooks := update_where p (\<lambda>r. r\<lparr>wh_callback_url := callback_url, wh_is_active := True,
           wh_consecutive_failures := 0, wh_updated_at := updated_at\<rparr>) (t_webhooks db)\<rparr>))"

definition sql_SetWebhookActive :: "string \<Rightarrow> bool \<Rightarrow> time \<Rightarrow> nat stmt" where
  "sql_SetWebhookActive i is_active updated_at db =
    (let p = (\<lambda>r. wh_id r = i \<and> wh_is_active r \<noteq> is_active) in
     (Inr (affected p (t_webhooks db)),
      db\<lparr>t_webhooks := update_where p (\<lambda>r. r\<lparr>wh_is_active := is_active,
           wh_consecutive_failures := (if is_active then 0 else wh_consecutive_failures r),
           wh_updated_at := updated_at\<rparr>) (t_webhooks db)\<rparr>))"

definition sql_WriteWebhookSecret :: "string \<Rightarrow> string \<Rightarrow> string option \<Rightarrow> time \<Rightarrow> nat stmt" where
  "sql_WriteWebhookSecret i source_id secret updated_at db =
    (let p = (\<lambda>r. wh_id r = i \<and> wh_source_id r = source_id) in
     (Inr (affected p (t_webhooks db)),
      db\<lparr>t_webhooks := update_where p (\<lambda>r. r\<lparr>wh_secret := secret, wh_updated_at := updated_at\<rparr>)
           (t_webhooks db)\<rparr>))"

definition sql_ReadWebhookSecret :: "string \<Rightarrow> (string \<times> string option) stmt" where
  "sql_ReadWebhookSecret source_id db =
     (one_row (map_option (\<lambda>r. (wh_id r, wh_secret r))
        (the_row (\<lambda>r. wh_source_id r = source_id) (t_webhooks db))), db)"

subsection \<open>Notifications and deliveries\<close>

text \<open>The conflict on the idempotency key is taken, not raised: no row is written and none counted.\<close>

definition sql_CreateNotification :: "notification_row \<Rightarrow> nat stmt" where
  "sql_CreateNotification r db =
    (if \<not> is_ulid (nt_id r) \<or> \<not> priority_check (nt_requested_priority r)
        \<or> \<not> priority_check (nt_effective_priority r) \<or> \<not> has_id so_id (nt_source_id r) (t_sources db)
     then (Inl check_violation, db)
     else if taken notifications_source_idempotency_key r (t_notifications db) then (Inr 0, db)
     else if has_id nt_id (nt_id r) (t_notifications db)
     then (Inl (unique_violation ''notifications_pkey''), db)
     else (Inr 1, db\<lparr>t_notifications := t_notifications db @ [r]\<rparr>))"

definition sql_ReadNotification :: "string \<Rightarrow> notification_row stmt" where
  "sql_ReadNotification i db = (one_row (the_row (\<lambda>r. nt_id r = i) (t_notifications db)), db)"

definition sql_ReadNotificationByIdempotencyKey :: "string \<Rightarrow> string option \<Rightarrow> notification_row stmt" where
  "sql_ReadNotificationByIdempotencyKey source_id key db =
     (one_row (the_row (\<lambda>r. nt_source_id r = source_id \<and> key \<noteq> None \<and> nt_idempotency_key r = key)
        (t_notifications db)), db)"

definition sql_PageNotificationsBySource ::
    "string \<Rightarrow> string option \<Rightarrow> time option \<Rightarrow> time option \<Rightarrow> int \<Rightarrow> notification_row list stmt" where
  "sql_PageNotificationsBySource source_id aft frm until row_limit db =
     (limited row_limit (rev (sort_key nt_id (filter (\<lambda>r. nt_source_id r = source_id
        \<and> (case aft of None \<Rightarrow> True | Some a \<Rightarrow> nt_id r < a)
        \<and> (case frm of None \<Rightarrow> True | Some t \<Rightarrow> t \<le> nt_created_at r)
        \<and> (case until of None \<Rightarrow> True | Some t \<Rightarrow> nt_created_at r < t)) (t_notifications db)))), db)"

text \<open>The foreign key cascades: the deliveries of a message go with it.\<close>

definition sql_DeleteNotificationsBefore :: "time \<Rightarrow> int \<Rightarrow> nat stmt" where
  "sql_DeleteNotificationsBefore before row_limit db =
    (case limited row_limit (sort_key nt_id (filter (\<lambda>r. nt_created_at r < before) (t_notifications db))) of
       Inl e \<Rightarrow> (Inl e, db)
     | Inr chosen \<Rightarrow>
         let doomed = map nt_id chosen in
         (Inr (affected (\<lambda>r. nt_id r \<in> set doomed) (t_notifications db)),
          db\<lparr>t_notifications := delete_where (\<lambda>r. nt_id r \<in> set doomed) (t_notifications db),
             t_deliveries := delete_where (\<lambda>r. dl_notification_id r \<in> set doomed) (t_deliveries db),
             t_deleted_deliveries := t_deleted_deliveries db @
               map dl_id (filter (\<lambda>r. dl_notification_id r \<in> set doomed) (t_deliveries db))\<rparr>))"

record operator_message_row =
  om_id :: string
  om_created_at :: time
  om_channels :: "string list"
  om_failed :: int
  om_total :: int

definition sql_ListMessagesForOperator :: "string \<Rightarrow> int \<Rightarrow> operator_message_row list stmt" where
  "sql_ListMessagesForOperator source_id row_limit db =
     (limited row_limit (map (\<lambda>n.
        let ds = filter (\<lambda>d. dl_notification_id d = nt_id n) (t_deliveries db) in
        \<lparr>om_id = nt_id n, om_created_at = nt_created_at n,
         om_channels = remdups (sort (map dl_channel ds)),
         om_failed = int (affected (\<lambda>d. dl_status d = ''FAILED'') ds),
         om_total = int (length ds)\<rparr>)
       (rev (sort_key nt_created_at (filter (\<lambda>n. nt_source_id n = source_id) (t_notifications db))))), db)"

text \<open>COPY writes every row or none, and reports how many.\<close>

record new_delivery =
  nd_ID :: string
  nd_NotificationID :: string
  nd_Channel :: string
  nd_Address :: string
  nd_SenderName :: string
  nd_CreatedAt :: time
  nd_UpdatedAt :: time

definition new_delivery_row :: "new_delivery \<Rightarrow> delivery_row" where
  "new_delivery_row n =
    \<lparr>dl_id = nd_ID n, dl_notification_id = nd_NotificationID n, dl_channel = nd_Channel n,
     dl_address = nd_Address n, dl_sender_name = nd_SenderName n, dl_status = ''PENDING'',
     dl_attempts = 0, dl_last_error = None, dl_failure_reason = None, dl_provider_message_id = None,
     dl_notified_at = None, dl_claimed_at = None, dl_created_at = nd_CreatedAt n,
     dl_updated_at = nd_UpdatedAt n\<rparr>"

fun copy_rows :: "database \<Rightarrow> new_delivery list \<Rightarrow> delivery_row list \<Rightarrow> delivery_row list result" where
  "copy_rows db [] rows = Inr rows"
| "copy_rows db (n # ns) rows =
    (let r = new_delivery_row n in
     if \<not> is_ulid (dl_id r) \<or> \<not> channel_check (dl_channel r)
        \<or> \<not> has_id nt_id (dl_notification_id r) (t_notifications db) then Inl check_violation
     else if has_id dl_id (dl_id r) rows \<or> dl_id r \<in> set (t_deleted_deliveries db)
     then Inl (unique_violation ''deliveries_pkey'')
     else if taken deliveries_notification_channel_address_key r rows
     then Inl (unique_violation ''deliveries_notification_channel_address_key'')
     else copy_rows db ns (rows @ [r]))"

definition sql_CreateDeliveries :: "new_delivery list \<Rightarrow> nat stmt" where
  "sql_CreateDeliveries ns db =
    (case copy_rows db ns (t_deliveries db) of
       Inl e \<Rightarrow> (Inl e, db)
     | Inr rows \<Rightarrow> (Inr (length ns), db\<lparr>t_deliveries := rows\<rparr>))"

definition sql_ReadDelivery :: "string \<Rightarrow> delivery_row stmt" where
  "sql_ReadDelivery i db = (one_row (the_row (\<lambda>r. dl_id r = i) (t_deliveries db)), db)"

definition sql_ListDeliveriesByNotificationID :: "string \<Rightarrow> delivery_row list stmt" where
  "sql_ListDeliveriesByNotificationID nid db =
     (Inr (sort_key dl_id (filter (\<lambda>r. dl_notification_id r = nid) (t_deliveries db))), db)"

text \<open>The rows a sweep takes: pending, old enough, and not claimed within the lease.\<close>

definition stale :: "time \<Rightarrow> time \<Rightarrow> delivery_row \<Rightarrow> bool" where
  "stale older_than claim_expired_before r \<longleftrightarrow>
     dl_status r = ''PENDING'' \<and> dl_updated_at r < older_than
     \<and> (case dl_claimed_at r of None \<Rightarrow> True | Some t \<Rightarrow> t < claim_expired_before)"

definition sql_ClaimStaleDeliveries :: "time \<Rightarrow> time \<Rightarrow> time \<Rightarrow> int \<Rightarrow> delivery_row list stmt" where
  "sql_ClaimStaleDeliveries now older_than claim_expired_before row_limit db =
    (case limited row_limit (sort_key (\<lambda>r. (dl_updated_at r, dl_id r))
        (filter (stale older_than claim_expired_before) (t_deliveries db))) of
       Inl e \<Rightarrow> (Inl e, db)
     | Inr chosen \<Rightarrow>
         let ids = map dl_id chosen;
             rows = update_where (\<lambda>r. dl_id r \<in> set ids) (\<lambda>r. r\<lparr>dl_claimed_at := Some now\<rparr>)
               (t_deliveries db)
         in (Inr (filter (\<lambda>r. dl_id r \<in> set ids) rows), db\<lparr>t_deliveries := rows\<rparr>))"

definition sql_ReleaseDeliveryClaim :: "string \<Rightarrow> nat stmt" where
  "sql_ReleaseDeliveryClaim i db =
    (let p = (\<lambda>r. dl_id r = i \<and> dl_status r = ''PENDING'') in
     (Inr (affected p (t_deliveries db)),
      db\<lparr>t_deliveries := update_where p (\<lambda>r. r\<lparr>dl_claimed_at := None\<rparr>) (t_deliveries db)\<rparr>))"

definition sql_PageDeliveriesByNotificationID :: "string \<Rightarrow> string option \<Rightarrow> int \<Rightarrow> delivery_row list stmt" where
  "sql_PageDeliveriesByNotificationID nid aft row_limit db =
     (limited row_limit (sort_key dl_id (filter (\<lambda>r. dl_notification_id r = nid
        \<and> (case aft of None \<Rightarrow> True | Some a \<Rightarrow> a < dl_id r)) (t_deliveries db))), db)"

record delivery_outcome =
  oc_ID :: string
  oc_Status :: string
  oc_Attempts :: int
  oc_LastError :: "string option"
  oc_FailureReason :: "string option"
  oc_ProviderMessageID :: "string option"
  oc_UpdatedAt :: time

definition write_outcome :: "delivery_outcome \<Rightarrow> delivery_row \<Rightarrow> delivery_row" where
  "write_outcome oc r = r\<lparr>dl_status := oc_Status oc, dl_attempts := oc_Attempts oc,
     dl_last_error := oc_LastError oc, dl_failure_reason := oc_FailureReason oc,
     dl_provider_message_id := oc_ProviderMessageID oc, dl_updated_at := oc_UpdatedAt oc\<rparr>"

definition sql_UpdateDelivery :: "delivery_outcome \<Rightarrow> nat stmt" where
  "sql_UpdateDelivery oc db =
    (let p = (\<lambda>r. dl_id r = oc_ID oc \<and> dl_status r = ''PENDING'');
         n = affected p (t_deliveries db) in
     if 0 < n \<and> \<not> (status_check (oc_Status oc) \<and> failure_check (oc_FailureReason oc))
     then (Inl check_violation, db)
     else (Inr n, db\<lparr>t_deliveries := update_where p (write_outcome oc) (t_deliveries db)\<rparr>))"

definition sql_ClaimNotificationAnnouncement :: "string \<Rightarrow> time \<Rightarrow> nat stmt" where
  "sql_ClaimNotificationAnnouncement nid notified_at db =
    (let p = (\<lambda>r. dl_notification_id r = nid \<and> dl_notified_at r = None) in
     (Inr (affected p (t_deliveries db)),
      db\<lparr>t_deliveries := update_where p (\<lambda>r. r\<lparr>dl_notified_at := Some notified_at\<rparr>)
           (t_deliveries db)\<rparr>))"

subsection \<open>What any process may do to the database\<close>

text \<open>
  Every statement of the program that writes, with its arguments. Whatever the other processes of
  the deployment do, it is a sequence of these.
\<close>

datatype db_write =
    CreateUser user_row
  | UpdateUserRole string string time
  | SetUserActive string bool time
  | CreateLoginCode login_code_row
  | SpendLoginCode string int "time option"
  | ForgetLoginCode string
  | CreateSession session_row
  | TouchSession string time
  | DeleteSession string
  | RecordAudit audit_row
  | CreateSource string string string string bool "(string \<times> string) list" time
  | UpdateSourceSettings string string string "(string \<times> string) list" time
  | UpdateReview string bool "time option" "time option" string time
  | CreateAPIKey string string string string time "time option"
  | TouchAPIKey string time time
  | RevokeAPIKey string time
  | CreateCredential string string string string string "string option" bool time
  | ClearDefaultCredential string string time
  | ResealCredentialSecret string "string option" "string option" time
  | SetCredentialActive string string bool time
  | SetCredentialDefault string string time
  | RotateCredentialSecret string string "string option" time
  | UpdateCredentialConfig string string string time
  | CreateWebhook string string string time
  | RecordWebhookFailure string time
  | RecordWebhookSuccess string time
  | RedirectWebhook string string time
  | SetWebhookActive string bool time
  | WriteWebhookSecret string string "string option" time
  | CreateNotification notification_row
  | DeleteNotificationsBefore time int
  | CreateDeliveries "new_delivery list"
  | ClaimStaleDeliveries time time time int
  | ReleaseDeliveryClaim string
  | UpdateDelivery delivery_outcome
  | ClaimNotificationAnnouncement string time

primrec run_write :: "db_write \<Rightarrow> database \<Rightarrow> database" where
  "run_write (CreateUser r) db = snd (sql_CreateUser r db)"
| "run_write (UpdateUserRole i r t) db = snd (sql_UpdateUserRole i r t db)"
| "run_write (SetUserActive i b t) db = snd (sql_SetUserActive i b t db)"
| "run_write (CreateLoginCode r) db = snd (sql_CreateLoginCode r db)"
| "run_write (SpendLoginCode i n t) db = snd (sql_SpendLoginCode i n t db)"
| "run_write (ForgetLoginCode i) db = snd (sql_ForgetLoginCode i db)"
| "run_write (CreateSession r) db = snd (sql_CreateSession r db)"
| "run_write (TouchSession i t) db = snd (sql_TouchSession i t db)"
| "run_write (DeleteSession i) db = snd (sql_DeleteSession i db)"
| "run_write (RecordAudit r) db = snd (sql_RecordAudit r db)"
| "run_write (CreateSource i ow n p c a t) db = snd (sql_CreateSource i ow n p c a t db)"
| "run_write (UpdateSourceSettings i n d a t) db = snd (sql_UpdateSourceSettings i n d a t db)"
| "run_write (UpdateReview i b a r n t) db = snd (sql_UpdateReview i b a r n t db)"
| "run_write (CreateAPIKey i s h l t x) db = snd (sql_CreateAPIKey i s h l t x db)"
| "run_write (TouchAPIKey i t b) db = snd (sql_TouchAPIKey i t b db)"
| "run_write (RevokeAPIKey i t) db = snd (sql_RevokeAPIKey i t db)"
| "run_write (CreateCredential i s c n cf sc d t) db = snd (sql_CreateCredential i s c n cf sc d t db)"
| "run_write (ClearDefaultCredential s c t) db = snd (sql_ClearDefaultCredential s c t db)"
| "run_write (ResealCredentialSecret i p s t) db = snd (sql_ResealCredentialSecret i p s t db)"
| "run_write (SetCredentialActive i s b t) db = snd (sql_SetCredentialActive i s b t db)"
| "run_write (SetCredentialDefault i s t) db = snd (sql_SetCredentialDefault i s t db)"
| "run_write (RotateCredentialSecret i s c t) db = snd (sql_RotateCredentialSecret i s c t db)"
| "run_write (UpdateCredentialConfig i s c t) db = snd (sql_UpdateCredentialConfig i s c t db)"
| "run_write (CreateWebhook i s u t) db = snd (sql_CreateWebhook i s u t db)"
| "run_write (RecordWebhookFailure i t) db = snd (sql_RecordWebhookFailure i t db)"
| "run_write (RecordWebhookSuccess i t) db = snd (sql_RecordWebhookSuccess i t db)"
| "run_write (RedirectWebhook i u t) db = snd (sql_RedirectWebhook i u t db)"
| "run_write (SetWebhookActive i b t) db = snd (sql_SetWebhookActive i b t db)"
| "run_write (WriteWebhookSecret i s c t) db = snd (sql_WriteWebhookSecret i s c t db)"
| "run_write (CreateNotification r) db = snd (sql_CreateNotification r db)"
| "run_write (DeleteNotificationsBefore t n) db = snd (sql_DeleteNotificationsBefore t n db)"
| "run_write (CreateDeliveries ns) db = snd (sql_CreateDeliveries ns db)"
| "run_write (ClaimStaleDeliveries t b c n) db = snd (sql_ClaimStaleDeliveries t b c n db)"
| "run_write (ReleaseDeliveryClaim i) db = snd (sql_ReleaseDeliveryClaim i db)"
| "run_write (UpdateDelivery oc) db = snd (sql_UpdateDelivery oc db)"
| "run_write (ClaimNotificationAnnouncement i t) db = snd (sql_ClaimNotificationAnnouncement i t db)"

definition run_writes :: "db_write list \<Rightarrow> database \<Rightarrow> database" where
  "run_writes ws db = foldl (\<lambda>db w. run_write w db) db ws"

lemma run_writes_simps [simp]:
  "run_writes [] db = db"
  "run_writes (w # ws) db = run_writes ws (run_write w db)"
  by (simp_all add: run_writes_def)

end
