(* ===== verification/Schema.thy ===== *)
theory Schema
  imports Database
begin

text \<open>
  What holds of every reachable database: the primary keys and unique indexes, the CHECKs the code
  relies on when it reads rows back, and the facts about single columns that only the statements
  together guarantee. Every write of every process keeps them; \<open>reachable\<close> is the closure of
  the empty database under writes, by rule induction.
\<close>

lemmas stmt_defs =
  sql_CreateUser_def sql_UpdateUserRole_def sql_SetUserActive_def sql_CreateLoginCode_def
  sql_SpendLoginCode_def sql_ForgetLoginCode_def sql_CreateSession_def sql_TouchSession_def
  sql_DeleteSession_def sql_RecordAudit_def sql_CreateSource_def sql_UpdateSourceSettings_def
  sql_UpdateReview_def sql_CreateAPIKey_def sql_TouchAPIKey_def sql_RevokeAPIKey_def
  sql_CreateCredential_def sql_ClearDefaultCredential_def sql_ResealCredentialSecret_def
  sql_SetCredentialActive_def sql_SetCredentialDefault_def sql_RotateCredentialSecret_def
  sql_UpdateCredentialConfig_def sql_CreateWebhook_def sql_RecordWebhookFailure_def
  sql_RecordWebhookSuccess_def sql_RedirectWebhook_def sql_SetWebhookActive_def
  sql_WriteWebhookSecret_def sql_CreateNotification_def sql_DeleteNotificationsBefore_def
  sql_CreateDeliveries_def sql_ClaimStaleDeliveries_def sql_ReleaseDeliveryClaim_def
  sql_UpdateDelivery_def sql_ClaimNotificationAnnouncement_def

lemma snd_if: "snd (if b then x else y) = (if b then snd x else snd y)"
  by simp

lemma insert_row_table:
  "f (snd (insert_row checks db db')) = (if first_violation checks = None then f db' else f db)"
  by (simp add: insert_row_def split: option.split)

lemmas run_write_simps =
  stmt_defs insert_row_table snd_if Let_def

subsection \<open>Which writes reach which table\<close>

inductive reachable :: "database \<Rightarrow> bool" where
  start: "reachable empty_database"
| step: "reachable db \<Longrightarrow> reachable (run_write w db)"

lemma reachable_run_writes: "reachable db \<Longrightarrow> reachable (run_writes ws db)"
  by (induction ws arbitrary: db) (auto intro: reachable.step)

text \<open>An invariant of all databases, from its two cases.\<close>

lemma reachable_invariant:
  assumes "reachable db" "I empty_database" "\<And>db w. I db \<Longrightarrow> I (run_write w db)"
  shows "I db"
  using assms(1) by induction (simp_all add: assms(2,3))

fun writes_deliveries :: "db_write \<Rightarrow> bool" where
  "writes_deliveries (CreateDeliveries ns) = True"
| "writes_deliveries (ClaimStaleDeliveries t b c n) = True"
| "writes_deliveries (ReleaseDeliveryClaim i) = True"
| "writes_deliveries (UpdateDelivery oc) = True"
| "writes_deliveries (ClaimNotificationAnnouncement i t) = True"
| "writes_deliveries (DeleteNotificationsBefore t n) = True"
| "writes_deliveries w = False"

fun writes_notifications :: "db_write \<Rightarrow> bool" where
  "writes_notifications (CreateNotification r) = True"
| "writes_notifications (DeleteNotificationsBefore t n) = True"
| "writes_notifications w = False"

fun writes_credentials :: "db_write \<Rightarrow> bool" where
  "writes_credentials (CreateCredential i s c n cf sc d t) = True"
| "writes_credentials (ClearDefaultCredential s c t) = True"
| "writes_credentials (ResealCredentialSecret i p s t) = True"
| "writes_credentials (SetCredentialActive i s b t) = True"
| "writes_credentials (SetCredentialDefault i s t) = True"
| "writes_credentials (RotateCredentialSecret i s c t) = True"
| "writes_credentials (UpdateCredentialConfig i s c t) = True"
| "writes_credentials w = False"

fun writes_webhooks :: "db_write \<Rightarrow> bool" where
  "writes_webhooks (CreateWebhook i s u t) = True"
| "writes_webhooks (RecordWebhookFailure i t) = True"
| "writes_webhooks (RecordWebhookSuccess i t) = True"
| "writes_webhooks (RedirectWebhook i u t) = True"
| "writes_webhooks (SetWebhookActive i b t) = True"
| "writes_webhooks (WriteWebhookSecret i s c t) = True"
| "writes_webhooks w = False"

fun writes_sources :: "db_write \<Rightarrow> bool" where
  "writes_sources (CreateSource i ow n p c a t) = True"
| "writes_sources (UpdateSourceSettings i n d a t) = True"
| "writes_sources (UpdateReview i b a r n t) = True"
| "writes_sources w = False"

fun writes_keys :: "db_write \<Rightarrow> bool" where
  "writes_keys (CreateAPIKey i s h l t x) = True"
| "writes_keys (TouchAPIKey i t b) = True"
| "writes_keys (RevokeAPIKey i t) = True"
| "writes_keys w = False"

fun writes_users :: "db_write \<Rightarrow> bool" where
  "writes_users (CreateUser r) = True"
| "writes_users (UpdateUserRole i r t) = True"
| "writes_users (SetUserActive i b t) = True"
| "writes_users w = False"

lemma deliveries_frame: "\<not> writes_deliveries w \<Longrightarrow>
    t_deliveries (run_write w db) = t_deliveries db
    \<and> t_deleted_deliveries (run_write w db) = t_deleted_deliveries db"
  by (cases w) (simp_all add: run_write_simps split: option.split sum.split)

lemma notifications_frame: "\<not> writes_notifications w \<Longrightarrow>
    t_notifications (run_write w db) = t_notifications db"
  by (cases w) (simp_all add: run_write_simps split: option.split sum.split)

lemma credentials_frame: "\<not> writes_credentials w \<Longrightarrow> t_credentials (run_write w db) = t_credentials db"
  by (cases w) (simp_all add: run_write_simps split: option.split sum.split)

lemma webhooks_frame: "\<not> writes_webhooks w \<Longrightarrow> t_webhooks (run_write w db) = t_webhooks db"
  by (cases w) (simp_all add: run_write_simps split: option.split sum.split)

lemma sources_frame: "\<not> writes_sources w \<Longrightarrow> t_sources (run_write w db) = t_sources db"
  by (cases w) (simp_all add: run_write_simps split: option.split sum.split)

lemma keys_frame: "\<not> writes_keys w \<Longrightarrow> t_api_keys (run_write w db) = t_api_keys db"
  by (cases w) (simp_all add: run_write_simps split: option.split sum.split)

lemma users_frame: "\<not> writes_users w \<Longrightarrow> t_users (run_write w db) = t_users db"
  by (cases w) (simp_all add: run_write_simps split: option.split sum.split)

subsection \<open>Credentials\<close>

definition credentials_ok :: "credential_row list \<Rightarrow> bool" where
  "credentials_ok rows \<longleftrightarrow> distinct (map ca_id rows)
     \<and> unique_on credentials_source_channel_name_key rows
     \<and> unique_on credentials_one_default_per_channel rows
     \<and> list_all (\<lambda>r. (ca_is_default r \<longrightarrow> ca_is_active r) \<and> channel_check (ca_channel r)) rows"

lemma has_id_iff: "has_id f i rows \<longleftrightarrow> i \<in> f ` set rows"
  by (auto simp: has_id_def list_ex_iff)

lemma list_all_update_where:
  "list_all P rows \<Longrightarrow> (\<And>r. P r \<Longrightarrow> p r \<Longrightarrow> P (f r)) \<Longrightarrow> list_all P (update_where p f rows)"
  by (induction rows) auto

lemma credentials_ok_update:
  assumes "credentials_ok rows"
    and "\<And>r. ca_id (f r) = ca_id r \<and> ca_source_id (f r) = ca_source_id r
           \<and> ca_channel (f r) = ca_channel r \<and> ca_name (f r) = ca_name r"
    and "\<And>r. (ca_is_default (f r) \<longrightarrow> ca_is_default r)"
    and "\<And>r. p r \<Longrightarrow> ca_is_default (f r) \<Longrightarrow> ca_is_active r \<Longrightarrow> ca_is_active (f r)"
  shows "credentials_ok (update_where p f rows)"
proof -
  have "credentials_one_default_per_channel (f r) = None
      \<or> credentials_one_default_per_channel (f r) = credentials_one_default_per_channel r" for r
    using assms(2,3) [of r] by (simp add: credentials_one_default_per_channel_def)
  moreover have "credentials_source_channel_name_key (f r) = credentials_source_channel_name_key r" for r
    using assms(2) [of r] by (simp add: credentials_source_channel_name_key_def)
  ultimately show ?thesis
    using assms unfolding credentials_ok_def
    by (auto simp: map_update_where unique_on_update_where intro!: unique_on_update_where_clear
        list_all_update_where)
qed

lemma credentials_ok_step:
  assumes "credentials_ok (t_credentials db)"
  shows "credentials_ok (t_credentials (run_write w db))"
proof (cases "writes_credentials w")
  case False
  with assms show ?thesis by (simp add: credentials_frame)
next
  case True
  then consider
      (create) i s c n cf sc d t where "w = CreateCredential i s c n cf sc d t"
    | (default) i s t where "w = SetCredentialDefault i s t"
    | (update) p f where "t_credentials (run_write w db) = update_where p f (t_credentials db)"
        "\<And>r. ca_id (f r) = ca_id r \<and> ca_source_id (f r) = ca_source_id r
           \<and> ca_channel (f r) = ca_channel r \<and> ca_name (f r) = ca_name r"
        "\<And>r. (ca_is_default (f r) \<longrightarrow> ca_is_default r)"
        "\<And>r. p r \<Longrightarrow> ca_is_default (f r) \<Longrightarrow> ca_is_active r \<Longrightarrow> ca_is_active (f r)"
    by (cases w) (simp_all add: run_write_simps, fastforce+)
  then show ?thesis
  proof cases
    case create
    with assms show ?thesis
      by (auto simp: run_write_simps credentials_ok_def unique_on_snoc has_id_iff split: if_splits)
  next
    case default
    with assms show ?thesis
      by (auto simp: run_write_simps credentials_ok_def map_update_where unique_on_update_where
          credentials_source_channel_name_key_def intro!: list_all_update_where)
  next
    case update
    with credentials_ok_update [OF assms] show ?thesis by metis
  qed
qed

text \<open>
  C11. Whatever the processes of the deployment write and in whatever order, a source has at most one
  default identity on a channel, a default identity is switched on, and no two identities of a
  source share a name on a channel.
\<close>

theorem one_usable_default_per_channel:
  assumes "reachable db" and "r \<in> set (t_credentials db)" "s \<in> set (t_credentials db)"
    and "ca_source_id r = ca_source_id s" "ca_channel r = ca_channel s"
  shows "(ca_is_default r \<longrightarrow> ca_is_active r)
    \<and> (ca_is_default r \<longrightarrow> ca_is_default s \<longrightarrow> r = s) \<and> (ca_name r = ca_name s \<longrightarrow> r = s)"
proof -
  have "credentials_ok (t_credentials db)"
    by (rule reachable_invariant [OF assms(1), of "\<lambda>db. credentials_ok (t_credentials db)"])
      (simp_all add: credentials_ok_step, simp add: credentials_ok_def empty_database_def)
  then show ?thesis
    using assms(2-5) unique_on_inj [of credentials_one_default_per_channel "t_credentials db" r s]
      unique_on_inj [of credentials_source_channel_name_key "t_credentials db" r s]
    by (simp add: credentials_ok_def list_all_iff credentials_one_default_per_channel_def
        credentials_source_channel_name_key_def)
qed

theorem one_usable_default_per_channel_witness:
  defines "a \<equiv> \<lparr>ca_id = replicate 26 CHR ''3'', ca_source_id = replicate 26 CHR ''2'',
      ca_channel = ''telegram'', ca_name = ''shop bot'', ca_config = '''', ca_secret = None,
      ca_is_default = True, ca_is_active = True, ca_created_at = 20, ca_updated_at = 30\<rparr>"
    and "b \<equiv> \<lparr>ca_id = replicate 26 CHR ''4'', ca_source_id = replicate 26 CHR ''2'',
      ca_channel = ''telegram'', ca_name = ''spare bot'', ca_config = '''', ca_secret = None,
      ca_is_default = False, ca_is_active = True, ca_created_at = 20, ca_updated_at = 20\<rparr>"
  shows "ca_is_default a \<and> ca_is_active a \<and> a \<noteq> b \<and> \<not> ca_is_default b \<and> ca_name a \<noteq> ca_name b"
proof -
  let ?i = "replicate 26"
  let ?ws = "[CreateUser \<lparr>us_id = ?i CHR ''1'', us_email = ''a@b.c'', us_role = ''customer'',
       us_is_active = True, us_created_at = 5, us_updated_at = 5\<rparr>,
     CreateSource (?i CHR ''2'') (?i CHR ''1'') ''shop'' ''HIGH'' False [] 10,
     CreateCredential (?i CHR ''3'') (?i CHR ''2'') ''telegram'' ''shop bot'' '''' None False 20,
     CreateCredential (?i CHR ''4'') (?i CHR ''2'') ''telegram'' ''spare bot'' '''' None False 20,
     SetCredentialDefault (?i CHR ''3'') (?i CHR ''2'') 30]"
  have r: "reachable (run_writes ?ws empty_database)"
    by (rule reachable_run_writes [OF reachable.start])
  have "t_credentials (run_writes ?ws empty_database) = [a, b]"
    unfolding a_def b_def by code_simp
  then have "a \<in> set (t_credentials (run_writes ?ws empty_database))"
    "b \<in> set (t_credentials (run_writes ?ws empty_database))" by simp_all
  from one_usable_default_per_channel [OF r this] show ?thesis by (simp add: a_def b_def)
qed

subsection \<open>Messages and their deliveries\<close>

definition notifications_ok :: "notification_row list \<Rightarrow> bool" where
  "notifications_ok rows \<longleftrightarrow> distinct (map nt_id rows)
     \<and> unique_on notifications_source_idempotency_key rows
     \<and> list_all (\<lambda>r. priority_check (nt_requested_priority r) \<and> priority_check (nt_effective_priority r)) rows"

definition delivery_row_ok :: "delivery_row \<Rightarrow> bool" where
  "delivery_row_ok r \<longleftrightarrow> is_ulid (dl_id r) \<and> status_check (dl_status r) \<and> failure_check (dl_failure_reason r)
     \<and> channel_check (dl_channel r)"

definition deliveries_ok :: "database \<Rightarrow> bool" where
  "deliveries_ok db \<longleftrightarrow> distinct (map dl_id (t_deliveries db))
     \<and> unique_on deliveries_notification_channel_address_key (t_deliveries db)
     \<and> list_all delivery_row_ok (t_deliveries db)
     \<and> list_all (\<lambda>r. dl_id r \<notin> set (t_deleted_deliveries db)) (t_deliveries db)
     \<and> list_all (\<lambda>r. has_id nt_id (dl_notification_id r) (t_notifications db)) (t_deliveries db)"

lemma notifications_ok_step:
  assumes "notifications_ok (t_notifications db)"
  shows "notifications_ok (t_notifications (run_write w db))"
proof (cases "writes_notifications w")
  case False
  with assms show ?thesis by (simp add: notifications_frame)
next
  case True
  then consider
      r where "w = CreateNotification r"
    | t n where "w = DeleteNotificationsBefore t n"
    by (cases w) simp_all
  then show ?thesis
  proof cases
    case 1
    with assms show ?thesis
      by (auto simp: run_write_simps notifications_ok_def unique_on_snoc has_id_iff)
  next
    case 2
    have "notifications_ok (delete_where p (t_notifications db))" for p
      using assms by (auto simp: notifications_ok_def delete_where_def unique_on_filter
          distinct_map_filter_keys list_all_iff)
    with 2 assms show ?thesis
      by (simp add: run_write_simps split: sum.split)
  qed
qed

text \<open>COPY: the rows written are the new ones, each of them checked against all before it.\<close>

lemma copy_rows_Inr:
  assumes "copy_rows db ns rows = Inr rows'"
    and "distinct (map dl_id rows)" "unique_on deliveries_notification_channel_address_key rows"
  shows "rows' = rows @ map new_delivery_row ns \<and> distinct (map dl_id rows')
    \<and> unique_on deliveries_notification_channel_address_key rows'
    \<and> list_all (\<lambda>r. delivery_row_ok r \<and> dl_id r \<notin> set (t_deleted_deliveries db)
         \<and> has_id nt_id (dl_notification_id r) (t_notifications db)) (map new_delivery_row ns)"
  using assms
proof (induction ns arbitrary: rows)
  case Nil
  then show ?case by simp
next
  case (Cons n ns)
  let ?r = "new_delivery_row n"
  from Cons.prems have ok: "channel_check (dl_channel ?r)" "is_ulid (dl_id ?r)" "\<not> has_id dl_id (dl_id ?r) rows"
    "dl_id ?r \<notin> set (t_deleted_deliveries db)"
    "\<not> taken deliveries_notification_channel_address_key ?r rows"
    "has_id nt_id (dl_notification_id ?r) (t_notifications db)"
    and rest: "copy_rows db ns (rows @ [?r]) = Inr rows'"
    by (auto simp: Let_def split: if_splits)
  have "distinct (map dl_id (rows @ [?r]))"
    using Cons.prems(2) ok(3) by (auto simp: has_id_iff)
  moreover have "unique_on deliveries_notification_channel_address_key (rows @ [?r])"
    using Cons.prems(3) ok(5) by (simp add: unique_on_snoc)
  moreover have "delivery_row_ok ?r"
    using ok(1,2)
    by (simp add: delivery_row_ok_def new_delivery_row_def status_check_def failure_check_def)
  ultimately have IH: "rows' = (rows @ [?r]) @ map new_delivery_row ns" "distinct (map dl_id rows')"
    "unique_on deliveries_notification_channel_address_key rows'"
    "list_all (\<lambda>r. delivery_row_ok r \<and> dl_id r \<notin> set (t_deleted_deliveries db)
       \<and> has_id nt_id (dl_notification_id r) (t_notifications db)) (map new_delivery_row ns)"
    using Cons.IH [OF rest] by blast+
  have "rows' = rows @ map new_delivery_row (n # ns)" using IH(1) by simp
  moreover have "list_all (\<lambda>r. delivery_row_ok r \<and> dl_id r \<notin> set (t_deleted_deliveries db)
       \<and> has_id nt_id (dl_notification_id r) (t_notifications db)) (map new_delivery_row (n # ns))"
    using IH(4) ok \<open>delivery_row_ok ?r\<close> by simp
  ultimately show ?case using IH(2,3) by blast
qed

lemma deliveries_ok_update:
  assumes "deliveries_ok db"
    and "\<And>r. dl_id (f r) = dl_id r \<and> dl_notification_id (f r) = dl_notification_id r
           \<and> dl_channel (f r) = dl_channel r \<and> dl_address (f r) = dl_address r"
    and "\<And>r. p r \<Longrightarrow> delivery_row_ok r \<Longrightarrow> delivery_row_ok (f r)"
  shows "deliveries_ok (db\<lparr>t_deliveries := update_where p f (t_deliveries db)\<rparr>)"
proof -
  have "deliveries_notification_channel_address_key (f r) = deliveries_notification_channel_address_key r" for r
    using assms(2) [of r] by (simp add: deliveries_notification_channel_address_key_def)
  with assms show ?thesis unfolding deliveries_ok_def
    by (auto simp: map_update_where unique_on_update_where intro!: list_all_update_where)
qed

lemma deliveries_ok_delete:
  assumes "deliveries_ok db"
  shows "deliveries_ok (db\<lparr>t_notifications := delete_where (\<lambda>r. nt_id r \<in> S) (t_notifications db),
      t_deliveries := delete_where (\<lambda>r. dl_notification_id r \<in> S) (t_deliveries db),
      t_deleted_deliveries := t_deleted_deliveries db @
        map dl_id (filter (\<lambda>r. dl_notification_id r \<in> S) (t_deliveries db))\<rparr>)"
proof -
  have "dl_id r \<noteq> dl_id s" if "r \<in> set (t_deliveries db)" "s \<in> set (t_deliveries db)"
    "dl_notification_id r \<notin> S" "dl_notification_id s \<in> S" for r s
    using assms that unfolding deliveries_ok_def by (metis (mono_tags, lifting) distinct_map inj_on_def)
  then show ?thesis
    using assms unfolding deliveries_ok_def delete_where_def
    by (auto simp: list_all_iff has_id_iff unique_on_filter distinct_map_filter_keys)
qed

lemma deliveries_ok_step:
  assumes "deliveries_ok db"
  shows "deliveries_ok (run_write w db)"
proof (cases "writes_deliveries w \<or> writes_notifications w")
  case False
  with assms show ?thesis by (simp add: deliveries_ok_def deliveries_frame notifications_frame)
next
  case True
  then consider
      (message) r where "w = CreateNotification r"
    | (delete) t n where "w = DeleteNotificationsBefore t n"
    | (create) ns where "w = CreateDeliveries ns"
    | (claim) t b c n where "w = ClaimStaleDeliveries t b c n"
    | (release) i where "w = ReleaseDeliveryClaim i"
    | (update) oc where "w = UpdateDelivery oc"
    | (announce) i t where "w = ClaimNotificationAnnouncement i t"
    by (cases w) auto
  then show ?thesis
  proof cases
    case message
    with assms show ?thesis by (auto simp: run_write_simps deliveries_ok_def list_all_iff has_id_iff)
  next
    case delete
    with assms deliveries_ok_delete [OF assms] show ?thesis
      by (simp add: run_write_simps split: sum.split)
  next
    case create
    show ?thesis
    proof (cases "copy_rows db ns (t_deliveries db)")
      case (Inl e)
      with create assms show ?thesis by (simp add: run_write_simps)
    next
      case (Inr rows)
      from copy_rows_Inr [OF Inr] assms
      have rows: "rows = t_deliveries db @ map new_delivery_row ns" "distinct (map dl_id rows)"
        "unique_on deliveries_notification_channel_address_key rows"
        "list_all (\<lambda>r. delivery_row_ok r \<and> dl_id r \<notin> set (t_deleted_deliveries db)
           \<and> has_id nt_id (dl_notification_id r) (t_notifications db)) (map new_delivery_row ns)"
        unfolding deliveries_ok_def by blast+
      have "run_write w db = db\<lparr>t_deliveries := rows\<rparr>"
        using create Inr by (simp add: run_write_simps)
      moreover have "list_all delivery_row_ok rows
          \<and> list_all (\<lambda>r. dl_id r \<notin> set (t_deleted_deliveries db)) rows
          \<and> list_all (\<lambda>r. has_id nt_id (dl_notification_id r) (t_notifications db)) rows"
        using assms rows(4) unfolding rows(1) deliveries_ok_def by (auto simp: list_all_iff)
      ultimately show ?thesis using rows(2,3) by (simp add: deliveries_ok_def)
    qed
  next
    case claim
    then show ?thesis
      using assms by (auto simp: run_write_simps delivery_row_ok_def intro!: deliveries_ok_update
          split: sum.split)
  next
    case release
    then show ?thesis
      using assms by (auto simp: run_write_simps delivery_row_ok_def intro!: deliveries_ok_update)
  next
    case announce
    then show ?thesis
      using assms by (auto simp: run_write_simps delivery_row_ok_def intro!: deliveries_ok_update)
  next
    case update
    let ?p = "\<lambda>r. dl_id r = oc_ID oc \<and> dl_status r = ''PENDING''"
    show ?thesis
    proof (cases "affected ?p (t_deliveries db) = 0")
      case True
      with assms update show ?thesis by (simp add: run_write_simps update_where_none)
    next
      case False
      with assms update show ?thesis
        by (auto simp: run_write_simps delivery_row_ok_def write_outcome_def
            intro!: deliveries_ok_update)
    qed
  qed
qed

subsection \<open>A delivery's row over time\<close>

text \<open>
  What no write ever changes of a delivery: its identity; its outcome once it is settled; its
  announcement once it is made. \<open>evolution\<close> says it of two databases: a row of the first is in the
  second, unchanged in that sense, or was deleted with its message.
\<close>

definition row_evolves :: "delivery_row \<Rightarrow> delivery_row \<Rightarrow> bool" where
  "row_evolves r s \<longleftrightarrow> dl_id s = dl_id r \<and> dl_notification_id s = dl_notification_id r
     \<and> dl_channel s = dl_channel r \<and> dl_address s = dl_address r \<and> dl_sender_name s = dl_sender_name r
     \<and> (dl_status r \<noteq> ''PENDING'' \<longrightarrow> dl_status s = dl_status r \<and> dl_attempts s = dl_attempts r
          \<and> dl_last_error s = dl_last_error r \<and> dl_failure_reason s = dl_failure_reason r
          \<and> dl_provider_message_id s = dl_provider_message_id r \<and> dl_updated_at s = dl_updated_at r)
     \<and> (dl_notified_at r \<noteq> None \<longrightarrow> dl_notified_at s = dl_notified_at r)"

definition evolution :: "database \<Rightarrow> database \<Rightarrow> bool" where
  "evolution a b \<longleftrightarrow> set (t_deleted_deliveries a) \<subseteq> set (t_deleted_deliveries b)
     \<and> (\<forall>r \<in> set (t_deliveries a). dl_id r \<in> set (t_deleted_deliveries b)
          \<or> (\<exists>s \<in> set (t_deliveries b). row_evolves r s))"

lemma row_evolves_refl [simp]: "row_evolves r r"
  by (simp add: row_evolves_def)

lemma row_evolves_trans: "row_evolves r s \<Longrightarrow> row_evolves s t \<Longrightarrow> row_evolves r t"
  unfolding row_evolves_def by (cases "dl_status r = ''PENDING''"; cases "dl_notified_at r"; simp)

lemma evolution_refl [simp]: "evolution db db"
  unfolding evolution_def by (meson row_evolves_refl subset_refl)

lemma row_evolves_id: "row_evolves r s \<Longrightarrow> dl_id s = dl_id r"
  by (simp add: row_evolves_def)

lemma evolution_row:
  "evolution a b \<Longrightarrow> r \<in> set (t_deliveries a) \<Longrightarrow> dl_id r \<notin> set (t_deleted_deliveries b) \<Longrightarrow>
     \<exists>s \<in> set (t_deliveries b). row_evolves r s"
  by (auto simp: evolution_def)

lemma evolution_trans:
  assumes "evolution a b" "evolution b c"
  shows "evolution a c"
proof -
  have sub: "set (t_deleted_deliveries a) \<subseteq> set (t_deleted_deliveries b)"
    "set (t_deleted_deliveries b) \<subseteq> set (t_deleted_deliveries c)"
    using assms by (simp_all add: evolution_def)
  have "\<exists>t \<in> set (t_deliveries c). row_evolves r t"
    if r: "r \<in> set (t_deliveries a)" and gone: "dl_id r \<notin> set (t_deleted_deliveries c)" for r
  proof -
    obtain s where s: "s \<in> set (t_deliveries b)" "row_evolves r s"
      using evolution_row [OF assms(1) r] gone sub(2) by blast
    then obtain t where "t \<in> set (t_deliveries c)" "row_evolves s t"
      using evolution_row [OF assms(2) s(1)] gone row_evolves_id [OF s(2)] by auto
    with s(2) row_evolves_trans show ?thesis by blast
  qed
  with sub show ?thesis unfolding evolution_def by blast
qed

lemma evolution_same:
  "t_deliveries b = t_deliveries a \<Longrightarrow> t_deleted_deliveries b = t_deleted_deliveries a \<Longrightarrow> evolution a b"
  by (auto simp: evolution_def intro: row_evolves_refl)

lemma delivery_row_table:
  "t_deliveries (db\<lparr>t_deliveries := rows\<rparr>) = rows"
  "t_deleted_deliveries (db\<lparr>t_deliveries := rows\<rparr>) = t_deleted_deliveries db"
  by simp_all

lemma evolution_update:
  assumes "\<And>r. p r \<Longrightarrow> row_evolves r (f r)"
  shows "evolution db (db\<lparr>t_deliveries := update_where p f (t_deliveries db)\<rparr>)"
proof -
  have "row_evolves r (if p r then f r else r)" for r
    using assms by simp
  moreover have "(if p r then f r else r) \<in> set (update_where p f rows)" if "r \<in> set rows" for r rows
    using that by (simp add: update_where_def)
  ultimately show ?thesis
    unfolding evolution_def delivery_row_table by blast
qed

lemma evolution_step: "evolution db (run_write w db)"
proof (cases "writes_deliveries w")
  case False
  then show ?thesis by (simp add: evolution_same deliveries_frame)
next
  case True
  then consider
      (delete) t n where "w = DeleteNotificationsBefore t n"
    | (create) ns where "w = CreateDeliveries ns"
    | (claim) t b c n where "w = ClaimStaleDeliveries t b c n"
    | (release) i where "w = ReleaseDeliveryClaim i"
    | (update) oc where "w = UpdateDelivery oc"
    | (announce) i t where "w = ClaimNotificationAnnouncement i t"
    by (cases w) auto
  then show ?thesis
  proof cases
    case delete
    then show ?thesis
      by (auto simp: run_write_simps evolution_def delete_where_def intro: row_evolves_refl split: sum.split)
  next
    case create
    have "copy_rows db ns rows = Inr rows' \<Longrightarrow> set rows \<subseteq> set rows'" for rows rows'
    proof (induction ns arbitrary: rows)
      case Nil
      then show ?case by simp
    next
      case (Cons n ns)
      then show ?case by (fastforce simp: Let_def split: if_splits)
    qed
    with create show ?thesis
      by (fastforce simp: run_write_simps evolution_def intro: row_evolves_refl split: sum.split)
  next
    case claim
    then show ?thesis
      by (auto simp: run_write_simps row_evolves_def intro!: evolution_update split: sum.split)
  next
    case release
    then show ?thesis by (auto simp: run_write_simps row_evolves_def intro!: evolution_update)
  next
    case announce
    then show ?thesis by (auto simp: run_write_simps row_evolves_def intro!: evolution_update)
  next
    case update
    then show ?thesis
      by (auto simp: run_write_simps row_evolves_def write_outcome_def intro!: evolution_update)
  qed
qed

lemma evolution_run_writes: "evolution db (run_writes ws db)"
  by (induction ws arbitrary: db) (auto intro: evolution_trans evolution_step)

definition db_ok :: "database \<Rightarrow> bool" where
  "db_ok db \<longleftrightarrow> deliveries_ok db \<and> notifications_ok (t_notifications db)
     \<and> credentials_ok (t_credentials db)"

lemma db_ok_empty: "db_ok empty_database"
  by (simp add: db_ok_def deliveries_ok_def notifications_ok_def credentials_ok_def empty_database_def)

lemma db_ok_step: "db_ok db \<Longrightarrow> db_ok (run_write w db)"
  by (simp add: db_ok_def deliveries_ok_step notifications_ok_step credentials_ok_step)

lemma db_ok_run_writes: "db_ok db \<Longrightarrow> db_ok (run_writes ws db)"
  by (induction ws arbitrary: db) (simp_all add: db_ok_step)

lemma reachable_db_ok: "reachable db \<Longrightarrow> db_ok db"
  by (rule reachable_invariant) (simp_all add: db_ok_empty db_ok_step)

end
