(* ===== verification/World.thy ===== *)
theory World
  imports Schema Delivery Webhook
begin

text \<open>
  The state a process of the deployment runs in, and \<open>internal/adapter/db/postgres/postgres.go\<close>:
  how a statement reaches the database, the transaction, and what the driver's errors become.

  \<open>env\<close> holds what the program does not decide: the standard library, what the clock and the
  identifier generator answer at each call, which round trips to the database fail, and what the
  other processes wrote before each round trip. The other processes run the same program, so what
  they do is a list of its own writes. A round trip that fails is lost on the way there (nothing
  happened) or on the way back (it happened and the caller does not know).

  A transaction is isolated: others write before it begins and after it ends. An error inside it
  aborts it, as Postgres does, so that nothing after the error can be committed.

  The outside is what the core reaches through its other ports: the senders behind the registry, the
  broker, the callbacks, the limiter, the mailer. \<open>env\<close> holds what each answers, and \<open>world\<close>
  keeps what was asked of them, in order. None of that is undone by a rollback.
\<close>

datatype round_trip = Delivered | Lost string | Unacked string

record env =
  lib :: golib
  clock :: "nat \<Rightarrow> time"
  drawn :: "nat \<Rightarrow> ID"
  round_trips :: "nat \<Rightarrow> round_trip"
  others :: "nat \<Rightarrow> db_write list"
  identity_refused :: "nat \<Rightarrow> string \<Rightarrow> channel \<Rightarrow> string \<Rightarrow> goerr option"
  provider :: "nat \<Rightarrow> message \<Rightarrow> string result"
  broker :: "nat \<Rightarrow> dispatch_event \<Rightarrow> unit result"
  endpoint :: "nat \<Rightarrow> webhook \<Rightarrow> batch \<Rightarrow> unit result"
  limiter :: "nat \<Rightarrow> string \<Rightarrow> bool result"
  mail :: "nat \<Rightarrow> string \<Rightarrow> string \<Rightarrow> unit result"

datatype tx_state = NoTx | Open | Aborted

record world =
  w_db :: database
  w_tx :: tx_state
  w_trips :: nat
  w_clock :: nat
  w_drawn :: nat
  w_lookups :: nat
  w_sent :: "message list"
  w_published :: "dispatch_event list"
  w_callbacks :: "(webhook \<times> batch) list"
  w_admissions :: "string list"
  w_mailed :: "(string \<times> string) list"

subsection \<open>The clock and the generator\<close>

definition Now :: "env \<Rightarrow> world NowFunc" where
  "Now E w = (clock E (w_clock w), w\<lparr>w_clock := Suc (w_clock w)\<rparr>)"

definition NewID :: "env \<Rightarrow> world IDFunc" where
  "NewID E w = (drawn E (w_drawn w), w\<lparr>w_drawn := Suc (w_drawn w)\<rparr>)"

subsection \<open>The outside\<close>

definition outside_Send :: "env \<Rightarrow> message \<Rightarrow> (world, string) io" where
  "outside_Send E m w = (provider E (length (w_sent w)) m, w\<lparr>w_sent := w_sent w @ [m]\<rparr>)"

definition outside_For :: "env \<Rightarrow> string \<Rightarrow> channel \<Rightarrow> string \<Rightarrow> (world, world sender) io" where
  "outside_For E sourceID c name w =
    (case identity_refused E (w_lookups w) sourceID c name of
       Some e \<Rightarrow> Inl e
     | None \<Rightarrow> Inr \<lparr>snd_Channel = c, snd_Send = outside_Send E\<rparr>,
     w\<lparr>w_lookups := Suc (w_lookups w)\<rparr>)"

definition outside_Publish :: "env \<Rightarrow> dispatch_event \<Rightarrow> (world, unit) io" where
  "outside_Publish E ev w =
     (broker E (length (w_published w)) ev, w\<lparr>w_published := w_published w @ [ev]\<rparr>)"

definition outside_Notify :: "env \<Rightarrow> webhook \<Rightarrow> batch \<Rightarrow> (world, unit) io" where
  "outside_Notify E h b w =
     (endpoint E (length (w_callbacks w)) h b, w\<lparr>w_callbacks := w_callbacks w @ [(h, b)]\<rparr>)"

definition outside_Allow :: "env \<Rightarrow> string \<Rightarrow> (world, bool) io" where
  "outside_Allow E i w =
     (limiter E (length (w_admissions w)) i, w\<lparr>w_admissions := w_admissions w @ [i]\<rparr>)"

definition outside_SendCode :: "env \<Rightarrow> string \<Rightarrow> string \<Rightarrow> (world, unit) io" where
  "outside_SendCode E to_address code w =
     (mail E (length (w_mailed w)) to_address code, w\<lparr>w_mailed := w_mailed w @ [(to_address, code)]\<rparr>)"

definition outside_senders :: "env \<Rightarrow> world sender_registry" where
  "outside_senders E = \<lparr>reg_For = outside_For E\<rparr>"

definition outside_publisher :: "env \<Rightarrow> world publisher" where
  "outside_publisher E = \<lparr>pub_Publish = outside_Publish E\<rparr>"

definition outside_notifier :: "env \<Rightarrow> world notifier" where
  "outside_notifier E = \<lparr>ntf_Notify = outside_Notify E\<rparr>"

subsection \<open>A statement\<close>

definition connection_error :: "string \<Rightarrow> goerr" where
  "connection_error s = Foreign (''connection: '' @ s)"

definition tx_aborted :: goerr where
  "tx_aborted = Foreign ''current transaction is aborted''"

lemma driver_errors [simp]:
  "connection_error s \<noteq> pgx_ErrNoRows" "tx_aborted \<noteq> pgx_ErrNoRows"
  "connection_error s \<noteq> unique_violation n" "tx_aborted \<noteq> unique_violation n"
  "check_violation \<noteq> pgx_ErrNoRows" "unique_violation n \<noteq> pgx_ErrNoRows"
  "check_violation \<noteq> unique_violation n"
  "pgx_ErrNoRows \<noteq> connection_error s" "pgx_ErrNoRows \<noteq> tx_aborted"
  "unique_violation n = unique_violation n' \<longleftrightarrow> n = n'"
  "\<not> is_err (connection_error s) snt" "\<not> is_err tx_aborted snt" "\<not> is_err pgx_ErrNoRows snt"
  "\<not> is_err check_violation snt" "\<not> is_err (unique_violation n) snt"
  by (simp_all add: connection_error_def tx_aborted_def pgx_ErrNoRows_def unique_violation_def
      check_violation_def)

text \<open>No row is an answer of the driver, not an error of the server.\<close>

definition server_error :: "'a result \<Rightarrow> bool" where
  "server_error r = (case r of Inl e \<Rightarrow> e \<noteq> pgx_ErrNoRows | Inr _ \<Rightarrow> False)"

definition begin_trip :: "env \<Rightarrow> world \<Rightarrow> world" where
  "begin_trip E w = w\<lparr>w_trips := Suc (w_trips w),
     w_db := (if w_tx w = NoTx then run_writes (others E (w_trips w)) (w_db w) else w_db w)\<rparr>"

definition abort_on :: "'a result \<Rightarrow> world \<Rightarrow> world" where
  "abort_on r w = (if server_error r \<and> w_tx w = Open then w\<lparr>w_tx := Aborted\<rparr> else w)"

definition exec :: "env \<Rightarrow> 'a stmt \<Rightarrow> (world, 'a) io" where
  "exec E stmt w =
    (if w_tx w = Aborted then (Inl tx_aborted, w\<lparr>w_trips := Suc (w_trips w)\<rparr>)
     else
       let w0 = begin_trip E w in
       case round_trips E (w_trips w) of
         Delivered \<Rightarrow> (case stmt (w_db w0) of (r, db) \<Rightarrow> (r, abort_on r (w0\<lparr>w_db := db\<rparr>)))
       | Lost s \<Rightarrow> (Inl (connection_error s), abort_on (Inl (connection_error s) :: unit result) w0)
       | Unacked s \<Rightarrow> (Inl (connection_error s),
           abort_on (Inl (connection_error s) :: unit result) (w0\<lparr>w_db := snd (stmt (w_db w0))\<rparr>)))"

subsection \<open>What the driver said\<close>

definition noRows :: "goerr \<Rightarrow> bool" where
  "noRows err \<longleftrightarrow> err = pgx_ErrNoRows"

definition violates :: "goerr \<Rightarrow> string \<Rightarrow> bool" where
  "violates err name \<longleftrightarrow> err = unique_violation name"

definition failed :: "string \<Rightarrow> goerr \<Rightarrow> goerr" where
  "failed op err =
     WithErr (WithStr (UnavailableErr ''the request could not be completed'') (Text op [])) err"

definition badRow :: "string \<Rightarrow> string \<Rightarrow> string \<Rightarrow> goerr \<Rightarrow> goerr" where
  "badRow table i column err =
     WithErr (WithStr (InternalErr ''stored data could not be read'')
       (Text ''%s %q: column %s'' [FmtS table, FmtS i, FmtS column])) err"

definition optional :: "string \<Rightarrow> string option" where
  "optional s = (if s = '''' then None else Some s)"

definition deref :: "string option \<Rightarrow> string" where
  "deref s = (case s of None \<Rightarrow> '''' | Some x \<Rightarrow> x)"

text \<open>The shape of nearly every method: \<open>if err != nil { return failed(op, err) }\<close>.\<close>

definition or_failed :: "string \<Rightarrow> ('w, 'a) io \<Rightarrow> ('a \<Rightarrow> ('w, 'b) io) \<Rightarrow> ('w, 'b) io" where
  "or_failed op m f = attempt m (\<lambda>r. case r of Inl err \<Rightarrow> throw (failed op err) | Inr x \<Rightarrow> f x)"

lemma attempt_sum_eq:
  "attempt m (\<lambda>r. case r of Inl e \<Rightarrow> g e | Inr x \<Rightarrow> h x) w = (r, w'') \<longleftrightarrow>
     (\<exists>e w'. m w = (Inl e, w') \<and> g e w' = (r, w'')) \<or> (\<exists>x w'. m w = (Inr x, w') \<and> h x w' = (r, w''))"
proof (cases "m w")
  case (Pair x w')
  then show ?thesis by (cases x) (auto simp: attempt_def)
qed

lemma or_failed_eq:
  "or_failed op m f w = (r, w'') \<longleftrightarrow>
     (\<exists>e w'. m w = (Inl e, w') \<and> r = Inl (failed op e) \<and> w'' = w')
     \<or> (\<exists>x w'. m w = (Inr x, w') \<and> f x w' = (r, w''))"
  unfolding or_failed_def attempt_sum_eq by auto

lemma deref_simps [simp]: "deref None = ''''" "deref (Some x) = x" "deref (optional s) = s"
  by (simp_all add: deref_def optional_def)

lemma failed_simps [simp, sentinel_simps]:
  "of_type t (failed op err) \<longleftrightarrow> t = ErrUnavailable"
  "is_err (failed op err) s \<longleftrightarrow> is_err err s"
  "is_app (failed op err)"
  by (auto simp: failed_def)

lemma badRow_simps [simp, sentinel_simps]:
  "of_type t (badRow table i column err) \<longleftrightarrow> t = ErrInternal"
  "is_err (badRow table i column err) s \<longleftrightarrow> is_err err s"
  "is_app (badRow table i column err)"
  by (auto simp: badRow_def)

subsection \<open>The unit of work\<close>

definition Atomically :: "env \<Rightarrow> (world, 'a) io \<Rightarrow> (world, 'a) io" where
  "Atomically E fn w =
    (if w_tx w \<noteq> NoTx then fn w
     else
       let w0 = begin_trip E w in
       case round_trips E (w_trips w) of
         Lost s \<Rightarrow> (Inl (failed ''begin transaction'' (connection_error s)), w0)
       | Unacked s \<Rightarrow> (Inl (failed ''begin transaction'' (connection_error s)), w0)
       | Delivered \<Rightarrow>
           (case fn (w0\<lparr>w_tx := Open\<rparr>) of
              (Inl e, w1) \<Rightarrow> (Inl e, w1\<lparr>w_db := w_db w0, w_tx := NoTx\<rparr>)
            | (Inr x, w1) \<Rightarrow>
                if w_tx w1 = Aborted then
                  (Inl (failed ''commit transaction'' tx_aborted),
                   w1\<lparr>w_db := w_db w0, w_tx := NoTx, w_trips := Suc (w_trips w1)\<rparr>)
                else (case round_trips E (w_trips w1) of
                  Delivered \<Rightarrow> (Inr x, w1\<lparr>w_tx := NoTx, w_trips := Suc (w_trips w1)\<rparr>)
                | Lost s \<Rightarrow> (Inl (failed ''commit transaction'' (connection_error s)),
                    w1\<lparr>w_db := w_db w0, w_tx := NoTx, w_trips := Suc (w_trips w1)\<rparr>)
                | Unacked s \<Rightarrow> (Inl (failed ''commit transaction'' (connection_error s)),
                    w1\<lparr>w_tx := NoTx, w_trips := Suc (w_trips w1)\<rparr>))))"

subsection \<open>Everything a process does is writes of the program\<close>

definition writes_to :: "database \<Rightarrow> database \<Rightarrow> bool" where
  "writes_to a b \<longleftrightarrow> (\<exists>ws. b = run_writes ws a)"

definition grows :: "world \<Rightarrow> world \<Rightarrow> bool" where
  "grows w w' \<longleftrightarrow> writes_to (w_db w) (w_db w')"

definition program_stmt :: "'a stmt \<Rightarrow> bool" where
  "program_stmt stmt \<longleftrightarrow> (\<forall>db. writes_to db (snd (stmt db)))"

lemma run_writes_append: "run_writes (xs @ ys) db = run_writes ys (run_writes xs db)"
  by (simp add: run_writes_def)

lemma writes_to_run_writes [simp]: "writes_to db (run_writes ws db)"
  by (auto simp: writes_to_def)

lemma writes_to_refl [simp]: "writes_to db db"
  using writes_to_run_writes [of db "[]"] by simp

lemma writes_to_trans: "writes_to a b \<Longrightarrow> writes_to b c \<Longrightarrow> writes_to a c"
  unfolding writes_to_def by (metis run_writes_append)

lemma writes_to_run_write [simp]: "writes_to db (run_write c db)"
  using writes_to_run_writes [of db "[c]"] by simp

lemma grows_refl: "grows w w"
  by (simp add: grows_def)

lemma grows_trans: "grows a b \<Longrightarrow> grows b c \<Longrightarrow> grows a c"
  unfolding grows_def by (rule writes_to_trans)

interpretation growing: preorder_on_states grows
  by unfold_locales (rule grows_refl, erule grows_trans)

text \<open>A step of the database alone: nothing was asked of the outside.\<close>

definition outside_log where
  "outside_log w =
     (w_lookups w, w_sent w, w_published w, w_callbacks w, w_admissions w, w_mailed w)"

definition db_step :: "world \<Rightarrow> world \<Rightarrow> bool" where
  "db_step w w' \<longleftrightarrow> grows w w' \<and> outside_log w' = outside_log w"

interpretation db_steps: preorder_on_states db_step
  by unfold_locales (simp_all add: db_step_def grows_refl, metis grows_trans)

lemma keeps_grows_of: "keeps db_step m \<Longrightarrow> keeps grows m"
  by (simp add: keeps_def db_step_def)

lemma grows_same_db: "w_db w' = w_db w \<Longrightarrow> grows w w'"
  by (simp add: grows_def)

lemma begin_trip_writes: "writes_to (w_db w) (w_db (begin_trip E w))"
  by (simp add: begin_trip_def)

lemma begin_trip_log [simp]: "outside_log (begin_trip E w) = outside_log w"
  by (simp add: begin_trip_def outside_log_def)

lemma outside_log_db [simp]:
  "outside_log (w\<lparr>w_db := db\<rparr>) = outside_log w" "outside_log (w\<lparr>w_tx := t\<rparr>) = outside_log w"
  "outside_log (w\<lparr>w_trips := n\<rparr>) = outside_log w" "outside_log (w\<lparr>w_clock := n\<rparr>) = outside_log w"
  "outside_log (w\<lparr>w_drawn := n\<rparr>) = outside_log w"
  by (simp_all add: outside_log_def)

lemma abort_on_simps [simp]:
  "w_db (abort_on r w) = w_db w" "outside_log (abort_on r w) = outside_log w"
  by (simp_all add: abort_on_def)

lemma keeps_exec [keeps_intro]:
  assumes "program_stmt stmt"
  shows "keeps db_step (exec E stmt)"
proof
  fix w
  have "writes_to (w_db w) (snd (stmt (w_db (begin_trip E w))))"
    using assms begin_trip_writes writes_to_trans unfolding program_stmt_def by blast
  then show "db_step w (snd (exec E stmt w))"
    using begin_trip_writes [of w E]
    by (auto simp: exec_def Let_def db_step_def grows_def split: round_trip.split prod.splits)
qed

lemma keeps_Now [keeps_intro]: "keeps db_step (Now E)"
  by (simp add: keeps_def Now_def db_step_def grows_def)

lemma keeps_NewID [keeps_intro]: "keeps db_step (NewID E)"
  by (simp add: keeps_def NewID_def db_step_def grows_def)

lemma keeps_outside:
  "keeps grows (outside_Send E m)" "keeps grows (outside_For E s c n)"
  "keeps grows (outside_Publish E ev)" "keeps grows (outside_Notify E h b)"
  "keeps grows (outside_Allow E s)" "keeps grows (outside_SendCode E s code)"
  by (simp_all add: keeps_def grows_same_db outside_Send_def outside_For_def outside_Publish_def
      outside_Notify_def outside_Allow_def outside_SendCode_def)

text \<open>The unit of work, for either relation.\<close>

lemma Atomically_result:
  assumes "fn ((begin_trip E w)\<lparr>w_tx := Open\<rparr>) = (r, w1)" "w_tx w = NoTx"
  shows "w_db (snd (Atomically E fn w)) \<in> {w_db (begin_trip E w), w_db w1}"
    and "outside_log (snd (Atomically E fn w)) \<in> {outside_log w, outside_log w1}"
  using assms
  by (auto simp: Atomically_def Let_def split: round_trip.split sum.split)

lemma Atomically_grows:
  assumes "keeps grows fn"
  shows "keeps grows (Atomically E fn)"
proof
  fix w
  obtain r w1 where fn: "fn ((begin_trip E w)\<lparr>w_tx := Open\<rparr>) = (r, w1)" by fastforce
  have "grows ((begin_trip E w)\<lparr>w_tx := Open\<rparr>) w1" by (rule keepsD [OF assms fn])
  then have "writes_to (w_db w) (w_db w1)"
    using writes_to_trans [OF begin_trip_writes] by (simp add: grows_def)
  moreover have "grows w (snd (fn w))" using assms by (simp add: keeps_def)
  ultimately show "grows w (snd (Atomically E fn w))"
    using Atomically_result(1) [where fn = fn and w = w and E = E, OF fn] begin_trip_writes [of w E]
    by (cases "w_tx w = NoTx") (auto simp: grows_def Atomically_def)
qed

lemma keeps_Atomically [keeps_intro]:
  assumes "keeps db_step fn"
  shows "keeps db_step (Atomically E fn)"
proof
  fix w
  obtain r w1 where fn: "fn ((begin_trip E w)\<lparr>w_tx := Open\<rparr>) = (r, w1)" by fastforce
  have "outside_log w1 = outside_log w" using keepsD [OF assms fn] by (simp add: db_step_def)
  moreover have "grows w (snd (Atomically E fn w))"
    using Atomically_grows [OF keeps_grows_of [OF assms]] by (simp add: keeps_def)
  moreover have "db_step w (snd (fn w))" using assms by (simp add: keeps_def)
  ultimately show "db_step w (snd (Atomically E fn w))"
    using Atomically_result(2) [where fn = fn and w = w and E = E, OF fn]
    by (cases "w_tx w = NoTx") (auto simp: db_step_def Atomically_def)
qed

lemma keeps_or_failed [keeps_intro]:
  "keeps db_step m \<Longrightarrow> (\<And>x. keeps db_step (f x)) \<Longrightarrow> keeps db_step (or_failed op m f)"
  unfolding or_failed_def
  by (rule db_steps.keeps_attempt) (auto intro: db_steps.keeps_throw split: sum.split)

lemmas keeps_db = db_steps.keeps_combinators keeps_exec keeps_Now keeps_NewID keeps_Atomically
  keeps_or_failed

lemmas keeps_grows = growing.keeps_combinators keeps_outside Atomically_grows
  keeps_Now [THEN keeps_grows_of] keeps_NewID [THEN keeps_grows_of]

lemma grows_db_ok: "grows w w' \<Longrightarrow> db_ok (w_db w) \<Longrightarrow> db_ok (w_db w')"
  by (auto simp: grows_def writes_to_def db_ok_run_writes)

lemma grows_evolution: "grows w w' \<Longrightarrow> evolution (w_db w) (w_db w')"
  by (auto simp: grows_def writes_to_def evolution_run_writes)

lemma grows_reachable: "grows w w' \<Longrightarrow> reachable (w_db w) \<Longrightarrow> reachable (w_db w')"
  by (auto simp: grows_def writes_to_def reachable_run_writes)

text \<open>A statement that writes is a write; one that reads changes nothing.\<close>

lemma program_write: "(\<And>db. snd (stmt db) = run_write c db) \<Longrightarrow> program_stmt stmt"
  by (simp add: program_stmt_def)

lemma program_read: "(\<And>db. snd (stmt db) = db) \<Longrightarrow> program_stmt stmt"
  by (simp add: program_stmt_def)

lemma program_writes [intro, simp]:
  "program_stmt (sql_CreateUser r)" "program_stmt (sql_UpdateUserRole i ro t)"
  "program_stmt (sql_SetUserActive i b t)" "program_stmt (sql_CreateLoginCode lc)"
  "program_stmt (sql_SpendLoginCode i n ot)" "program_stmt (sql_ForgetLoginCode i)"
  "program_stmt (sql_CreateSession se)" "program_stmt (sql_TouchSession i t)"
  "program_stmt (sql_DeleteSession i)" "program_stmt (sql_RecordAudit au)"
  "program_stmt (sql_CreateSource i ow nm p b ad t)"
  "program_stmt (sql_UpdateSourceSettings i nm de ad t)"
  "program_stmt (sql_UpdateReview i b ot ot2 nm t)"
  "program_stmt (sql_CreateAPIKey i s h la t ot)" "program_stmt (sql_TouchAPIKey i t t2)"
  "program_stmt (sql_RevokeAPIKey i t)" "program_stmt (sql_CreateCredential i s c nm cf sc b t)"
  "program_stmt (sql_ClearDefaultCredential s c t)"
  "program_stmt (sql_ResealCredentialSecret i os os2 t)"
  "program_stmt (sql_SetCredentialActive i s b t)" "program_stmt (sql_SetCredentialDefault i s t)"
  "program_stmt (sql_RotateCredentialSecret i s os t)"
  "program_stmt (sql_UpdateCredentialConfig i s cf t)"
  "program_stmt (sql_CreateWebhook i s u t)" "program_stmt (sql_RecordWebhookFailure i t)"
  "program_stmt (sql_RecordWebhookSuccess i t)" "program_stmt (sql_RedirectWebhook i u t)"
  "program_stmt (sql_SetWebhookActive i b t)" "program_stmt (sql_WriteWebhookSecret i s os t)"
  "program_stmt (sql_CreateNotification nr)" "program_stmt (sql_DeleteNotificationsBefore t n)"
  "program_stmt (sql_CreateDeliveries ns)" "program_stmt (sql_ClaimStaleDeliveries t t2 t3 n)"
  "program_stmt (sql_ReleaseDeliveryClaim i)" "program_stmt (sql_UpdateDelivery oc)"
  "program_stmt (sql_ClaimNotificationAnnouncement i t)"
  by (rule program_write, rule run_write.simps [symmetric])+

lemma program_reads [intro, simp]:
  "program_stmt (sql_ReadUserByEmail s)" "program_stmt (sql_ReadUserByID s)"
  "program_stmt (sql_ListUsers n)" "program_stmt (sql_ReadNewestLoginCode s)"
  "program_stmt (sql_CountLoginCodesSince s t)" "program_stmt (sql_ReadSession s)"
  "program_stmt (sql_ListAudit n)" "program_stmt (sql_ListAuditByTarget s u vs n)"
  "program_stmt (sql_ReadSource s)" "program_stmt (sql_ListSourcesByOwner s)"
  "program_stmt (sql_ListForReview n)" "program_stmt (sql_ListAllSources n)"
  "program_stmt (sql_ReadSourceByKeyHash s t)" "program_stmt (sql_ListAPIKeysBySource s)"
  "program_stmt (sql_ListCredentialsBySourceAndChannel s u)"
  "program_stmt (sql_ReadCredentialSecret s)" "program_stmt (sql_ListCredentialsBySource s)"
  "program_stmt (sql_ReadCredential s u)" "program_stmt (sql_ReadWebhookBySourceID s)"
  "program_stmt (sql_ReadWebhookSecret s)" "program_stmt (sql_ReadNotification s)"
  "program_stmt (sql_ReadNotificationByIdempotencyKey s os)"
  "program_stmt (sql_PageNotificationsBySource s os ot ot2 n)"
  "program_stmt (sql_ListMessagesForOperator s n)" "program_stmt (sql_ReadDelivery s)"
  "program_stmt (sql_ListDeliveriesByNotificationID s)"
  "program_stmt (sql_PageDeliveriesByNotificationID s os n)"
  by (rule program_read, simp add: sql_ReadUserByEmail_def sql_ReadUserByID_def sql_ListUsers_def
      sql_ReadNewestLoginCode_def sql_CountLoginCodesSince_def sql_ReadSession_def sql_ListAudit_def
      sql_ListAuditByTarget_def sql_ReadSource_def sql_ListSourcesByOwner_def sql_ListForReview_def
      sql_ListAllSources_def sql_ReadSourceByKeyHash_def sql_ListAPIKeysBySource_def
      sql_ListCredentialsBySourceAndChannel_def sql_ReadCredentialSecret_def
      sql_ListCredentialsBySource_def sql_ReadCredential_def sql_ReadWebhookBySourceID_def
      sql_ReadWebhookSecret_def sql_ReadNotification_def sql_ReadNotificationByIdempotencyKey_def
      sql_PageNotificationsBySource_def sql_ListMessagesForOperator_def sql_ReadDelivery_def
      sql_ListDeliveriesByNotificationID_def sql_PageDeliveriesByNotificationID_def)+

end
