(* ===== verification/Demo.thy ===== *)
theory Demo
  imports World
begin

text \<open>
  A small deployment the witnesses run on: one customer, one source, one message to two recipients,
  every statement answered, nobody else writing.
\<close>

definition demo_id :: "char \<Rightarrow> string" where
  "demo_id c = replicate 26 c"

definition demo_new_delivery :: "char \<Rightarrow> string \<Rightarrow> new_delivery" where
  "demo_new_delivery c address =
    \<lparr>nd_ID = demo_id c, nd_NotificationID = demo_id CHR ''3'', nd_Channel = ''telegram'',
     nd_Address = address, nd_SenderName = '''', nd_CreatedAt = 20, nd_UpdatedAt = 20\<rparr>"

definition demo_writes :: "db_write list" where
  "demo_writes =
    [CreateUser \<lparr>us_id = demo_id CHR ''1'', us_email = ''a@b.c'', us_role = ''customer'',
       us_is_active = True, us_created_at = 5, us_updated_at = 5\<rparr>,
     CreateSource (demo_id CHR ''2'') (demo_id CHR ''1'') ''shop'' ''HIGH'' False
       [(''telegram'', ''@channel_name'')] 10,
     CreateNotification \<lparr>nt_id = demo_id CHR ''3'', nt_source_id = demo_id CHR ''2'',
       nt_idempotency_key = Some ''k'', nt_source_name = ''shop'', nt_title = '''', nt_body = ''hi'',
       nt_requested_priority = ''NORMAL'', nt_effective_priority = ''NORMAL'', nt_expire_at = None,
       nt_metadata = [], nt_created_at = 20\<rparr>,
     CreateDeliveries [demo_new_delivery CHR ''4'' ''@channel_name'', demo_new_delivery CHR ''5'' ''-100'']]"

definition demo_delivery_row :: "char \<Rightarrow> string \<Rightarrow> delivery_row" where
  "demo_delivery_row c address =
    \<lparr>dl_id = demo_id c, dl_notification_id = demo_id CHR ''3'', dl_channel = ''telegram'',
     dl_address = address, dl_sender_name = '''', dl_status = ''PENDING'', dl_attempts = 0,
     dl_last_error = None, dl_failure_reason = None, dl_provider_message_id = None,
     dl_notified_at = None, dl_claimed_at = None, dl_created_at = 20, dl_updated_at = 20\<rparr>"

definition demo_db :: database where
  "demo_db =
    \<lparr>t_users = [\<lparr>us_id = demo_id CHR ''1'', us_email = ''a@b.c'', us_role = ''customer'',
       us_is_active = True, us_created_at = 5, us_updated_at = 5\<rparr>],
     t_sources = [\<lparr>so_id = demo_id CHR ''2'', so_name = ''shop'', so_description = '''',
       so_max_priority = ''HIGH'', so_owner_user_id = demo_id CHR ''1'', so_is_active = False,
       so_approved_at = None, so_reviewed_at = None, so_review_note = '''',
       so_allow_custom_address = False, so_default_addresses = [(''telegram'', ''@channel_name'')],
       so_created_at = 10, so_updated_at = 10\<rparr>],
     t_api_keys = [], t_credentials = [], t_webhooks = [],
     t_notifications = [\<lparr>nt_id = demo_id CHR ''3'', nt_source_id = demo_id CHR ''2'',
       nt_idempotency_key = Some ''k'', nt_source_name = ''shop'', nt_title = '''', nt_body = ''hi'',
       nt_requested_priority = ''NORMAL'', nt_effective_priority = ''NORMAL'', nt_expire_at = None,
       nt_metadata = [], nt_created_at = 20\<rparr>],
     t_deliveries = [demo_delivery_row CHR ''4'' ''@channel_name'', demo_delivery_row CHR ''5'' ''-100''],
     t_deleted_deliveries = [], t_login_codes = [], t_sessions = [], t_audit_log = []\<rparr>"

lemma demo_db_written: "run_writes demo_writes empty_database = demo_db"
  by code_simp

definition demo_env :: env where
  "demo_env = \<lparr>lib = demo_golib, clock = (\<lambda>n. 100 + int n), drawn = (\<lambda>n. demo_id (char_of (54 + n))),
     round_trips = (\<lambda>n. Delivered), others = (\<lambda>n. []), identity_refused = (\<lambda>n s c name. None),
     provider = (\<lambda>n m. Inr ''provider-1''), broker = (\<lambda>n ev. Inr ()), endpoint = (\<lambda>n h b. Inr ()),
     limiter = (\<lambda>n s. Inr True), mail = (\<lambda>n a c. Inr ())\<rparr>"

definition demo_world :: world where
  "demo_world = \<lparr>w_db = demo_db, w_tx = NoTx, w_trips = 0, w_clock = 0, w_drawn = 0, w_lookups = 0,
     w_sent = [], w_published = [], w_callbacks = [], w_admissions = [], w_mailed = []\<rparr>"

lemma demo_reachable: "reachable (w_db demo_world)"
  using reachable_run_writes [OF reachable.start, of demo_writes]
  by (simp add: demo_world_def demo_db_written)

lemma demo_rows: "map dl_id (t_deliveries (w_db demo_world)) = [demo_id CHR ''4'', demo_id CHR ''5'']"
  by code_simp

end
