(* ===== verification/PgMessages.thy ===== *)
theory PgMessages
  imports Demo Delivery Notification
begin

text \<open>
  \<open>internal/adapter/db/postgres/delivery.go\<close> and \<open>notification.go\<close>: the two repositories
  of messages over the statements, and the proof that the deliveries' one is a
  \<open>delivery_store\<close>. Identifiers are drawn and read back as text, so \<open>shared.ID\<close> and its
  \<open>String\<close> are the same value here.
\<close>

subsection \<open>Deliveries: rows\<close>

definition delivery_of_row :: "delivery_row \<Rightarrow> delivery" where
  "delivery_of_row row =
    \<lparr>dlv_ID = dl_id row, dlv_NotificationID = dl_notification_id row,
     dlv_Recipient = \<lparr>rcp_Channel = Channel (dl_channel row), rcp_Address = dl_address row\<rparr>,
     dlv_SenderName = dl_sender_name row, dlv_status = Status (dl_status row),
     dlv_attempts = dl_attempts row, dlv_lastError = deref (dl_last_error row),
     dlv_failureReason = FailureReason (deref (dl_failure_reason row)),
     dlv_providerMessageID = deref (dl_provider_message_id row),
     dlv_notifiedAt = dl_notified_at row, dlv_updatedAt = dl_updated_at row\<rparr>"

definition toDelivery :: "delivery_row \<Rightarrow> delivery result" where
  "toDelivery row =
    (let status = Status (dl_status row); reason = FailureReason (deref (dl_failure_reason row)) in
     if \<not> Status_Valid status then
       Inl (badRow ''delivery'' (dl_id row) ''status'' (Sentinel (DeliveryE ErrUnknownStatus)))
     else if Failure_String reason \<noteq> '''' \<and> \<not> Failure_Valid reason then
       Inl (badRow ''delivery'' (dl_id row) ''failure_reason''
         (Sentinel (DeliveryE ErrUnknownFailureReason)))
     else Inr (delivery_of_row row))"

fun toDeliveries :: "delivery_row list \<Rightarrow> delivery list \<Rightarrow> delivery list result" where
  "toDeliveries [] out = Inr out"
| "toDeliveries (row # rows) out =
     then_result (toDelivery row) (\<lambda>d. toDeliveries rows (out @ [d]))"

definition new_delivery_of :: "delivery \<Rightarrow> new_delivery" where
  "new_delivery_of d =
    \<lparr>nd_ID = dlv_ID d, nd_NotificationID = dlv_NotificationID d,
     nd_Channel = Channel_String (rcp_Channel (dlv_Recipient d)),
     nd_Address = rcp_Address (dlv_Recipient d), nd_SenderName = dlv_SenderName d,
     nd_CreatedAt = dlv_updatedAt d, nd_UpdatedAt = dlv_updatedAt d\<rparr>"

definition outcome_row :: "delivery \<Rightarrow> delivery_outcome" where
  "outcome_row d =
    \<lparr>oc_ID = dlv_ID d, oc_Status = Status_String (dlv_status d),
     oc_Attempts = to_int32 (dlv_attempts d), oc_LastError = optional (dlv_lastError d),
     oc_FailureReason = optional (Failure_String (dlv_failureReason d)),
     oc_ProviderMessageID = optional (dlv_providerMessageID d), oc_UpdatedAt = dlv_updatedAt d\<rparr>"

subsection \<open>Deliveries: the repository\<close>

definition pg_CreateByList :: "env \<Rightarrow> delivery list \<Rightarrow> (world, unit) io" where
  "pg_CreateByList E ds =
    (if ds = [] then ret ()
     else or_failed ''create deliveries'' (exec E (sql_CreateDeliveries (map new_delivery_of ds)))
       (\<lambda>written. if written \<noteq> length ds then
           throw (WithStr (InternalErr ''not every delivery was written'')
             (Text ''wrote %d of %d'' [FmtD (int written), FmtD (int (length ds))]))
         else ret ()))"

definition pg_ReadDelivery :: "env \<Rightarrow> ID \<Rightarrow> (world, delivery) io" where
  "pg_ReadDelivery E i =
    attempt (exec E (sql_ReadDelivery i)) (\<lambda>r. case r of
      Inl err \<Rightarrow> if noRows err
        then throw (WithErr (NotFoundErr ''delivery not found'')
          (Sentinel (DeliveryE delivery_error.ErrNotFound)))
        else throw (failed ''read delivery'' err)
    | Inr row \<Rightarrow> lift (toDelivery row))"

definition pg_ListByNotificationID :: "env \<Rightarrow> ID \<Rightarrow> (world, delivery list) io" where
  "pg_ListByNotificationID E nid =
    or_failed ''list deliveries'' (exec E (sql_ListDeliveriesByNotificationID nid))
      (\<lambda>rows. lift (toDeliveries rows []))"

definition pg_ClaimStale :: "env \<Rightarrow> duration \<Rightarrow> duration \<Rightarrow> int \<Rightarrow> (world, delivery list) io" where
  "pg_ClaimStale E olderThan lease limit =
    call (Now E) (\<lambda>now.
    or_failed ''claim stale deliveries''
      (exec E (sql_ClaimStaleDeliveries now (now + - olderThan) (now + - lease) (to_int32 limit)))
      (\<lambda>rows. lift (toDeliveries rows [])))"

definition pg_ClaimAnnouncement :: "env \<Rightarrow> ID \<Rightarrow> time \<Rightarrow> (world, bool) io" where
  "pg_ClaimAnnouncement E nid now =
    or_failed ''claim notification announcement'' (exec E (sql_ClaimNotificationAnnouncement nid now))
      (\<lambda>rows. ret (0 < rows))"

definition pg_Release :: "env \<Rightarrow> delivery \<Rightarrow> (world, unit) io" where
  "pg_Release E d =
    or_failed ''release delivery claim'' (exec E (sql_ReleaseDeliveryClaim (dlv_ID d))) (\<lambda>_. ret ())"

text \<open>
  One row more than asked for answers whether there is a next page. \<open>page_of\<close> is that cut, which
  the two listings share: the rows of the page and the cursor after it.
\<close>

definition cursor_column :: "cursor \<Rightarrow> string option" where
  "cursor_column c = (case After c of None \<Rightarrow> None | Some a \<Rightarrow> optional a)"

definition page_of :: "('r \<Rightarrow> ID) \<Rightarrow> int \<Rightarrow> 'r list \<Rightarrow> 'r list \<times> ID option" where
  "page_of i limit rows =
    (if limit < int (length rows)
     then let rows = take (nat limit) rows in (rows, Some (i (last rows)))
     else (rows, None))"

definition pg_PageByNotificationID :: "env \<Rightarrow> ID \<Rightarrow> cursor \<Rightarrow> (world, delivery pagination) io" where
  "pg_PageByNotificationID E nid c0 =
    (let c = Normalize c0 in
     or_failed ''page deliveries''
       (exec E (sql_PageDeliveriesByNotificationID nid (cursor_column c) (to_int32 (Limit c) + 1)))
       (\<lambda>rows. case page_of dl_id (Limit c) rows of (rows, next_cursor) \<Rightarrow>
          and_then (lift (toDeliveries rows [])) (\<lambda>items.
          ret \<lparr>Items = items, NextCursor = next_cursor\<rparr>)))"

definition pg_UpdateDelivery :: "env \<Rightarrow> delivery \<Rightarrow> (world, unit) io" where
  "pg_UpdateDelivery E d =
    or_failed ''update delivery'' (exec E (sql_UpdateDelivery (outcome_row d)))
      (\<lambda>rows. if rows = 0 then
          throw (WithStr (WithErr (DuplicateErr ''this delivery has already been settled'')
                   (Sentinel (DeliveryE ErrAlreadySettled))) (Text (dlv_ID d) []))
        else ret ())"

definition pg_deliveries :: "env \<Rightarrow> world delivery_repository" where
  "pg_deliveries E =
    \<lparr>dr_CreateByList = pg_CreateByList E, dr_ReadByID = pg_ReadDelivery E,
     dr_ListByNotificationID = pg_ListByNotificationID E, dr_ClaimStale = pg_ClaimStale E,
     dr_ClaimAnnouncement = pg_ClaimAnnouncement E, dr_Release = pg_Release E,
     dr_PageByNotificationID = pg_PageByNotificationID E, dr_Update = pg_UpdateDelivery E\<rparr>"

lemma keeps_pg_deliveries:
  "keeps db_step (pg_CreateByList E ds)" "keeps db_step (pg_ReadDelivery E i)"
  "keeps db_step (pg_ListByNotificationID E i)" "keeps db_step (pg_ClaimStale E a b n)"
  "keeps db_step (pg_ClaimAnnouncement E i t)" "keeps db_step (pg_Release E d)"
  "keeps db_step (pg_PageByNotificationID E i c)" "keeps db_step (pg_UpdateDelivery E d)"
  unfolding pg_CreateByList_def pg_ReadDelivery_def pg_ListByNotificationID_def pg_ClaimStale_def
    pg_ClaimAnnouncement_def pg_Release_def pg_PageByNotificationID_def pg_UpdateDelivery_def Let_def
  by (auto intro!: keeps_db split: sum.split prod.split)


subsection \<open>What is read back\<close>

text \<open>The CHECKs make the refusals of \<open>toDelivery\<close> unreachable.\<close>

lemma toDelivery_ok: "delivery_row_ok row \<Longrightarrow> toDelivery row = Inr (delivery_of_row row)"
  by (auto simp: delivery_row_ok_def toDelivery_def status_check_def failure_check_def Status_def
      FailureReason_def Status_Valid_def transitions_def)

lemma toDelivery_Inr: "toDelivery row = Inr d \<Longrightarrow> d = delivery_of_row row"
  by (auto simp: toDelivery_def Let_def split: if_splits)

lemma toDeliveries_ok:
  "list_all delivery_row_ok rows \<Longrightarrow> toDeliveries rows out = Inr (out @ map delivery_of_row rows)"
  by (induction rows arbitrary: out) (simp_all add: toDelivery_ok)

lemma toDeliveries_Inr:
  "toDeliveries rows out = Inr ds \<Longrightarrow> ds = out @ map delivery_of_row rows"
proof (induction rows arbitrary: out)
  case Nil
  then show ?case by simp
next
  case (Cons r rows)
  from Cons.prems have "toDeliveries rows (out @ [delivery_of_row r]) = Inr ds"
    by (auto simp: then_result_Inr dest!: toDelivery_Inr)
  from Cons.IH [OF this] show ?case by simp
qed

lemma delivery_of_row_simps [simp]:
  "dlv_ID (delivery_of_row r) = dl_id r"
  "dlv_NotificationID (delivery_of_row r) = dl_notification_id r"
  "dlv_notifiedAt (delivery_of_row r) = dl_notified_at r"
  "dlv_status (delivery_of_row r) = Status (dl_status r)"
  by (simp_all add: delivery_of_row_def)

lemma Status_pending [simp]: "Status s = StatusPending \<longleftrightarrow> s = ''PENDING''"
  by (simp add: Status_def)

lemma IsSettled_row: "IsSettled (delivery_of_row r) \<Longrightarrow> dl_status r \<noteq> ''PENDING''"
  by (auto simp: IsSettled_def Status_def)

lemma row_settled: "delivery_row_ok r \<Longrightarrow> dl_status r \<noteq> ''PENDING'' \<Longrightarrow> IsSettled (delivery_of_row r)"
  by (auto simp: delivery_row_ok_def status_check_def IsSettled_def Status_def)

text \<open>The row of a delivery, as the domain reads it.\<close>

definition stored_delivery :: "world \<Rightarrow> ID \<Rightarrow> delivery option" where
  "stored_delivery w i = map_option delivery_of_row (the_row (\<lambda>r. dl_id r = i) (t_deliveries (w_db w)))"

definition world_ok :: "world \<Rightarrow> bool" where
  "world_ok w \<longleftrightarrow> db_ok (w_db w)"

lemma world_ok_distinct: "world_ok w \<Longrightarrow> distinct (map dl_id (t_deliveries (w_db w)))"
  by (simp add: world_ok_def db_ok_def deliveries_ok_def)

lemma world_ok_row:
  "world_ok w \<Longrightarrow> r \<in> set (t_deliveries (w_db w)) \<Longrightarrow>
     delivery_row_ok r \<and> dl_id r \<notin> set (t_deleted_deliveries (w_db w))"
  by (simp add: world_ok_def db_ok_def deliveries_ok_def list_all_iff)

lemma world_ok_grows: "grows w w' \<Longrightarrow> world_ok w \<Longrightarrow> world_ok w'"
  unfolding world_ok_def by (rule grows_db_ok)

lemma stored_delivery_iff:
  "world_ok w \<Longrightarrow> stored_delivery w i = Some d \<longleftrightarrow>
     (\<exists>r \<in> set (t_deliveries (w_db w)). dl_id r = i \<and> d = delivery_of_row r)"
  using the_row_unique [OF world_ok_distinct]
  by (force simp: stored_delivery_def dest: the_row_Some)

lemma row_evolves_outcome:
  assumes "row_evolves r s"
  shows "dlv_Recipient (delivery_of_row s) = dlv_Recipient (delivery_of_row r)"
    and "IsSettled (delivery_of_row r) \<Longrightarrow> outcome_of (delivery_of_row s) = outcome_of (delivery_of_row r)"
  using assms IsSettled_row [of r]
  by (auto simp: row_evolves_def delivery_of_row_def outcome_of_def)

lemma grows_outcomes_final:
  assumes "grows w m" "world_ok w"
  shows "outcomes_final (stored_delivery w) (stored_delivery m)"
  unfolding outcomes_final_def
proof (intro allI impI)
  fix i d d'
  assume d: "stored_delivery w i = Some d" and d': "stored_delivery m i = Some d'"
  have m: "world_ok m" by (rule world_ok_grows [OF assms])
  obtain r where r: "r \<in> set (t_deliveries (w_db w))" "dl_id r = i" "d = delivery_of_row r"
    using d assms(2) by (auto simp: stored_delivery_iff)
  obtain r' where r': "r' \<in> set (t_deliveries (w_db m))" "dl_id r' = i" "d' = delivery_of_row r'"
    using d' m by (auto simp: stored_delivery_iff)
  obtain s where s: "s \<in> set (t_deliveries (w_db m))" "row_evolves r s"
    using evolution_row [OF grows_evolution [OF assms(1)] r(1)] world_ok_row [OF m r'(1)] r(2) r'(2)
    by auto
  have "s = r'"
    using world_ok_distinct [OF m] s r(2) r' row_evolves_id [OF s(2)]
    by (auto simp: distinct_map inj_on_def)
  with s(2) r r' show "dlv_Recipient d' = dlv_Recipient d \<and> dlv_NotificationID d' = dlv_NotificationID d
      \<and> (IsSettled d \<longrightarrow> outcome_of d' = outcome_of d)
      \<and> (dlv_notifiedAt d \<noteq> None \<longrightarrow> dlv_notifiedAt d' = dlv_notifiedAt d)"
    using row_evolves_outcome [OF s(2)] by (simp add: row_evolves_def)
qed


lemma grows_gone_stays:
  assumes "grows a b" "grows b c" "world_ok a" "stored_delivery a i \<noteq> None" "stored_delivery b i = None"
  shows "stored_delivery c i = None"
proof (rule ccontr)
  assume "stored_delivery c i \<noteq> None"
  obtain r where r: "r \<in> set (t_deliveries (w_db a))" "dl_id r = i"
    using assms(4) by (auto simp: stored_delivery_def dest: the_row_Some)
  have "i \<in> set (t_deleted_deliveries (w_db b))"
    using evolution_row [OF grows_evolution [OF assms(1)] r(1)] r(2) assms(5) row_evolves_id
    by (fastforce simp: stored_delivery_def the_row_None_iff)
  then have "i \<in> set (t_deleted_deliveries (w_db c))"
    using grows_evolution [OF assms(2)] by (auto simp: evolution_def)
  moreover obtain s where "s \<in> set (t_deliveries (w_db c))" "dl_id s = i"
    using \<open>stored_delivery c i \<noteq> None\<close> by (auto simp: stored_delivery_def dest: the_row_Some)
  moreover have "world_ok c"
    by (rule world_ok_grows [OF grows_trans [OF assms(1,2)] assms(3)])
  ultimately show False using world_ok_row by blast
qed

subsection \<open>The store's laws\<close>

text \<open>A statement that was acknowledged ran on a state the others and the past led to.\<close>

lemma exec_Inr:
  assumes "exec E stmt w = (Inr x, w')"
  shows "\<exists>m. grows w m \<and> stmt (w_db m) = (Inr x, w_db w')"
proof (rule exI [of _ "begin_trip E w"], rule conjI)
  show "grows w (begin_trip E w)" by (simp add: grows_def begin_trip_writes)
  show "stmt (w_db (begin_trip E w)) = (Inr x, w_db w')"
    using assms by (auto simp: exec_def Let_def split: if_splits round_trip.splits prod.splits)
qed

lemma exec_Inl:
  assumes "exec E stmt w = (Inl e, w')"
  shows "(\<exists>s. e = connection_error s) \<or> e = tx_aborted
    \<or> (\<exists>m. grows w m \<and> stmt (w_db m) = (Inl e, w_db w'))"
proof -
  have "grows w (begin_trip E w)" by (simp add: grows_def begin_trip_writes)
  then show ?thesis
    using assms by (auto simp: exec_def Let_def split: if_splits round_trip.splits prod.splits)
qed

definition row_settled_by :: "delivery \<Rightarrow> delivery_row \<Rightarrow> delivery_row" where
  "row_settled_by d = write_outcome (outcome_row d)"

lemma row_settled_by_simps [simp]:
  "dl_id (row_settled_by d r) = dl_id r"
  "delivery_of_row (row_settled_by d r) = with_outcome d (delivery_of_row r)"
  by (simp_all add: row_settled_by_def write_outcome_def outcome_row_def delivery_of_row_def
      with_outcome_def)

lemma sql_UpdateDelivery_Inr:
  assumes "sql_UpdateDelivery (outcome_row d) db = (Inr n, db')" "distinct (map dl_id (t_deliveries db))"
  shows "case the_row (\<lambda>r. dl_id r = dlv_ID d) (t_deliveries db) of
      Some r \<Rightarrow> if dl_status r = ''PENDING'' then n = 1 \<and> (\<forall>i.
          the_row (\<lambda>r. dl_id r = i) (t_deliveries db')
            = (if i = dlv_ID d then Some (row_settled_by d r)
               else the_row (\<lambda>r. dl_id r = i) (t_deliveries db)))
        else n = 0 \<and> db' = db
    | None \<Rightarrow> n = 0 \<and> db' = db"
proof -
  let ?p = "\<lambda>r. dl_id r = dlv_ID d \<and> dl_status r = ''PENDING''"
  have oc: "oc_ID (outcome_row d) = dlv_ID d" by (simp add: outcome_row_def)
  have n: "n = affected ?p (t_deliveries db)"
    and db': "db' = db\<lparr>t_deliveries := update_where ?p (row_settled_by d) (t_deliveries db)\<rparr>"
    using assms(1) by (auto simp: sql_UpdateDelivery_def Let_def row_settled_by_def oc split: if_splits)
  have same: "db' = db" if "n = 0"
    using that unfolding db' n by (simp add: update_where_none)
  have rows: "the_row (\<lambda>r. dl_id r = i) (t_deliveries db') =
      map_option (\<lambda>r. if ?p r then row_settled_by d r else r) (the_row (\<lambda>r. dl_id r = i) (t_deliveries db))" for i
    by (simp add: db' the_row_update_where_key)
  have key: "n = (case the_row (\<lambda>r. dl_id r = dlv_ID d) (t_deliveries db) of None \<Rightarrow> 0
      | Some r \<Rightarrow> if dl_status r = ''PENDING'' then 1 else 0)"
    unfolding n by (rule affected_by_key [OF assms(2)])
  have "the_row (\<lambda>r. dl_id r = i) (t_deliveries db') = the_row (\<lambda>r. dl_id r = i) (t_deliveries db)"
    if "i \<noteq> dlv_ID d" for i
    using that unfolding rows
    by (cases "the_row (\<lambda>r. dl_id r = i) (t_deliveries db)") (auto dest: the_row_Some)
  then show ?thesis
    using key same rows [of "dlv_ID d"]
    by (auto split: option.splits if_splits dest: the_row_Some)
qed


lemma pg_UpdateDelivery_Inr:
  assumes "pg_UpdateDelivery E d w = (Inr (), w')" "world_ok w"
  shows "\<exists>m row. grows w m \<and> stored_delivery m (dlv_ID d) = Some row \<and> dlv_status row = StatusPending
    \<and> stored_delivery w' = (stored_delivery m)(dlv_ID d \<mapsto> with_outcome d row)"
proof -
  obtain n where x: "exec E (sql_UpdateDelivery (outcome_row d)) w = (Inr n, w')" "n \<noteq> 0"
    using assms(1) by (auto simp: pg_UpdateDelivery_def or_failed_eq split: if_splits)
  from exec_Inr [OF x(1)] obtain m where
    m: "grows w m" and st: "sql_UpdateDelivery (outcome_row d) (w_db m) = (Inr n, w_db w')" by blast
  note dist = world_ok_distinct [OF world_ok_grows [OF m assms(2)]]
  from sql_UpdateDelivery_Inr [OF st dist] x(2) obtain r where
    r: "the_row (\<lambda>r. dl_id r = dlv_ID d) (t_deliveries (w_db m)) = Some r" "dl_status r = ''PENDING''"
    and rows: "\<And>i. the_row (\<lambda>r. dl_id r = i) (t_deliveries (w_db w')) =
      (if i = dlv_ID d then Some (row_settled_by d r)
       else the_row (\<lambda>r. dl_id r = i) (t_deliveries (w_db m)))"
    by (auto split: option.splits if_splits)
  have "stored_delivery w' = (stored_delivery m)(dlv_ID d \<mapsto> with_outcome d (delivery_of_row r))"
    by (rule ext) (simp add: stored_delivery_def rows)
  with m r show ?thesis
    by (intro exI [of _ m] exI [of _ "delivery_of_row r"]) (simp add: stored_delivery_def)
qed

lemma pg_UpdateDelivery_refused:
  assumes "pg_UpdateDelivery E d w = (Inl e, w')" "world_ok w" "is_err e (DeliveryE ErrAlreadySettled)"
  shows "\<exists>m. grows w m \<and> stored_delivery w' = stored_delivery m
    \<and> (case stored_delivery m (dlv_ID d) of None \<Rightarrow> True | Some row \<Rightarrow> IsSettled row)"
proof -
  have no: "\<not> is_err err (DeliveryE ErrAlreadySettled)"
    if ex: "exec E (sql_UpdateDelivery (outcome_row d)) w = (Inl err, w1)" for err w1
  proof -
    have "err = check_violation" if "sql_UpdateDelivery (outcome_row d) db = (Inl err, db')" for db db'
      using that by (auto simp: sql_UpdateDelivery_def Let_def split: if_splits)
    then show ?thesis using exec_Inl [OF ex] driver_errors by metis
  qed
  have x: "exec E (sql_UpdateDelivery (outcome_row d)) w = (Inr 0, w')"
    using assms(1,3) no by (auto simp: pg_UpdateDelivery_def or_failed_eq split: if_splits)
  from exec_Inr [OF x] obtain m where
    m: "grows w m" and st: "sql_UpdateDelivery (outcome_row d) (w_db m) = (Inr 0, w_db w')" by blast
  note dist = world_ok_distinct [OF world_ok_grows [OF m assms(2)]]
  from sql_UpdateDelivery_Inr [OF st dist] have "w_db w' = w_db m"
    "case the_row (\<lambda>r. dl_id r = dlv_ID d) (t_deliveries (w_db m)) of
       None \<Rightarrow> True | Some r \<Rightarrow> dl_status r \<noteq> ''PENDING''"
    by (auto split: option.splits if_splits)
  moreover have "IsSettled (delivery_of_row r)"
    if "the_row (\<lambda>r. dl_id r = dlv_ID d) (t_deliveries (w_db m)) = Some r" "dl_status r \<noteq> ''PENDING''" for r
    using world_ok_row [OF world_ok_grows [OF m assms(2)]] the_row_Some [OF that(1)] that(2)
    by (auto intro: row_settled)
  ultimately show ?thesis using m
    by (intro exI [of _ m]) (auto simp: stored_delivery_def fun_eq_iff split: option.splits)
qed

lemma pg_ReadDelivery_found:
  assumes "pg_ReadDelivery E i w = (Inr d, w')"
  shows "stored_delivery w' i = Some d"
proof -
  obtain row where x: "exec E (sql_ReadDelivery i) w = (Inr row, w')" and d: "toDelivery row = Inr d"
    using assms by (auto simp: pg_ReadDelivery_def attempt_sum_eq split: if_splits)
  from exec_Inr [OF x] have "the_row (\<lambda>r. dl_id r = i) (t_deliveries (w_db w')) = Some row"
    by (auto simp: sql_ReadDelivery_def one_row_def split: option.splits)
  with toDelivery_Inr [OF d] show ?thesis by (simp add: stored_delivery_def)
qed

lemma pg_ClaimAnnouncement_won:
  assumes "pg_ClaimAnnouncement E nid t w = (Inr True, w')" "world_ok w"
  shows "(\<exists>m i d d'. grows w m \<and> stored_delivery m i = Some d \<and> dlv_NotificationID d = nid
            \<and> dlv_notifiedAt d = None \<and> stored_delivery w' i = Some d' \<and> dlv_NotificationID d' = nid)
    \<and> (\<forall>i d. stored_delivery w' i = Some d \<longrightarrow> dlv_NotificationID d = nid \<longrightarrow> dlv_notifiedAt d \<noteq> None)"
proof -
  let ?p = "\<lambda>r. dl_notification_id r = nid \<and> dl_notified_at r = None"
  obtain n where x: "exec E (sql_ClaimNotificationAnnouncement nid t) w = (Inr n, w')" "0 < n"
    using assms(1) by (auto simp: pg_ClaimAnnouncement_def or_failed_eq)
  from exec_Inr [OF x(1)] obtain m where m: "grows w m"
    and n: "n = affected ?p (t_deliveries (w_db m))"
    and db': "t_deliveries (w_db w') = update_where ?p (\<lambda>r. r\<lparr>dl_notified_at := Some t\<rparr>) (t_deliveries (w_db m))"
    by (auto simp: sql_ClaimNotificationAnnouncement_def Let_def prod_eq_iff dest!: arg_cong [where f = t_deliveries])
  have m_ok: "world_ok m" by (rule world_ok_grows [OF m assms(2)])
  from x(2) n obtain r where r: "r \<in> set (t_deliveries (w_db m))" "?p r"
    by (auto simp: affected_pos_iff)
  then have st: "stored_delivery m (dl_id r) = Some (delivery_of_row r)"
    using m_ok by (auto simp: stored_delivery_iff)
  let ?r = "r\<lparr>dl_notified_at := Some t\<rparr>"
  have "?r \<in> set (t_deliveries (w_db w'))" using r unfolding db' in_update_where by (intro bexI [of _ r]) simp_all
  moreover have "world_ok w'"
    using keepsD [OF keeps_pg_deliveries(5) assms(1)] world_ok_grows [OF _ assms(2)] by (simp add: db_step_def)
  ultimately have st': "stored_delivery w' (dl_id r) = Some (delivery_of_row ?r)"
    by (simp add: stored_delivery_iff) (rule bexI [of _ ?r], simp_all)
  have "dlv_NotificationID (delivery_of_row ?r) = nid" using r by simp
  moreover have "dlv_notifiedAt d \<noteq> None"
    if "stored_delivery w' i = Some d" "dlv_NotificationID d = nid" for i d
  proof -
    from that(1) obtain s where s: "s \<in> set (t_deliveries (w_db w'))" "d = delivery_of_row s"
      by (auto simp: stored_delivery_def dest: the_row_Some)
    from s(1) obtain q where "s = (if ?p q then q\<lparr>dl_notified_at := Some t\<rparr> else q)"
      unfolding db' in_update_where by blast
    then show ?thesis using that(2) s(2) by (cases "?p q") auto
  qed
  ultimately show ?thesis using m r st st' by (intro conjI exI [of _ m] exI [of _ "dl_id r"] exI [of _ "delivery_of_row r"] exI [of _ "delivery_of_row ?r"]) auto
qed

interpretation pg_store: delivery_store "pg_deliveries E" "Now E" stored_delivery grows world_ok
  for E
proof unfold_locales
  show "grows a c" if "grows a b" "grows b c" for a b c using that by (rule grows_trans)
  show "world_ok m" if "grows w m" "world_ok w" for w m using that by (rule world_ok_grows)
  show "outcomes_final (stored_delivery w) (stored_delivery m)" if "grows w m" "world_ok w" for w m
    using that by (rule grows_outcomes_final)
  show "grows w w'" if "Now E w = (t, w')" for t w w' using keepsD [OF keeps_Now that] by (simp add: db_step_def)
  show "grows w w'" if "dr_Update (pg_deliveries E) d w = (r, w')" for d w r w'
    using that keepsD [OF keeps_pg_deliveries(8)] by (auto simp: pg_deliveries_def db_step_def)
  show "stored_delivery c i = None" if "grows a b" "grows b c" "world_ok a" "stored_delivery a i \<noteq> None"
    "stored_delivery b i = None" for a b c i using grows_gone_stays [OF that] .
  show "grows w w' \<and> (\<forall>d. found = Inr d \<longrightarrow> stored_delivery w' i = Some d)"
    if "dr_ReadByID (pg_deliveries E) i w = (found, w')" for i w found w'
    using that keepsD [OF keeps_pg_deliveries(2)] pg_ReadDelivery_found
    by (auto simp: pg_deliveries_def db_step_def)
  show "grows w w' \<and> (won = Inr True \<longrightarrow>
      (\<exists>m i d d'. grows w m \<and> stored_delivery m i = Some d \<and> dlv_NotificationID d = nid
          \<and> dlv_notifiedAt d = None \<and> stored_delivery w' i = Some d' \<and> dlv_NotificationID d' = nid)
      \<and> (\<forall>i d. stored_delivery w' i = Some d \<longrightarrow> dlv_NotificationID d = nid \<longrightarrow> dlv_notifiedAt d \<noteq> None))"
    if "dr_ClaimAnnouncement (pg_deliveries E) nid t w = (won, w')" "world_ok w" for nid t w won w'
    using that keepsD [OF keeps_pg_deliveries(5)] pg_ClaimAnnouncement_won [of E nid t w w']
    by (auto simp: pg_deliveries_def db_step_def)
qed (simp_all add: grows_refl pg_deliveries_def pg_UpdateDelivery_refused,
    use pg_UpdateDelivery_Inr in blast)


subsection \<open>Deliveries in the deployment\<close>

definition pg_tracker :: "env \<Rightarrow> world tracker" where
  "pg_tracker E = \<lparr>trk_repo = pg_deliveries E, trk_now = Now E\<rparr>"

text \<open>
  C7. A delivery has one outcome in the whole deployment. When \<open>RecordSent\<close> or \<open>RecordFailure\<close> answers
  no error the row carries exactly the outcome that was recorded, and from then on, whatever any process
  writes and whatever fails, the row keeps it as long as it exists, and every other outcome written for it
  is refused.
\<close>

theorem outcome_recorded_once:
  assumes "reachable (w_db w)"
    and "RecordSent (pg_tracker E) d pid n w = ((Inr (), d1), w1)
        \<and> outcome = (StatusSent, to_int32 n, '''', no_failure, pid)
      \<or> RecordFailure (pg_tracker E) d reason detail n w = ((Inr (), d1), w1)
        \<and> outcome = (StatusFailed, to_int32 n, detail, reason, dlv_providerMessageID d)"
    and "grows w1 w2" "dlv_ID x = dlv_ID d"
  shows "dr_Update (pg_deliveries E') x w2 \<noteq> (Inr (), w3)
    \<and> (\<exists>row. stored_delivery w1 (dlv_ID d) = Some row \<and> outcome_of row = outcome)
    \<and> (\<forall>row. stored_delivery w2 (dlv_ID d) = Some row \<longrightarrow> outcome_of row = outcome)"
proof -
  have ok: "world_ok w" using assms(1) by (simp add: world_ok_def reachable_db_ok)
  obtain row where w1: "world_ok w1" and row: "stored_delivery w1 (dlv_ID d) = Some row" "IsSettled row"
    and out: "outcome_of row = outcome"
    using assms(2)
  proof
    assume A: "RecordSent (pg_tracker E) d pid n w = ((Inr (), d1), w1)
      \<and> outcome = (StatusSent, to_int32 n, '''', no_failure, pid)"
    then have rec: "RecordSent \<lparr>trk_repo = pg_deliveries E, trk_now = Now E\<rparr> d pid n w = ((Inr (), d1), w1)"
      by (simp add: pg_tracker_def)
    then have "\<exists>t. MarkSent d pid n t = Inr d1" by (auto simp: RecordSent_def split: sum.splits prod.splits)
    then have "outcome_of (d1\<lparr>dlv_attempts := to_int32 n\<rparr>) = outcome"
      using A by (auto simp: MarkSent_Inr outcome_of_def)
    then show thesis using that pg_store.RecordSent_stored [OF rec ok] by auto
  next
    assume A: "RecordFailure (pg_tracker E) d reason detail n w = ((Inr (), d1), w1)
      \<and> outcome = (StatusFailed, to_int32 n, detail, reason, dlv_providerMessageID d)"
    then have rec: "RecordFailure \<lparr>trk_repo = pg_deliveries E, trk_now = Now E\<rparr> d reason detail n w = ((Inr (), d1), w1)"
      by (simp add: pg_tracker_def)
    then have "\<exists>t. MarkFailed d reason detail n t = Inr d1" by (auto simp: RecordFailure_def split: sum.splits prod.splits)
    then have "outcome_of (d1\<lparr>dlv_attempts := to_int32 n\<rparr>) = outcome"
      using A by (auto simp: MarkFailed_Inr outcome_of_def)
    then show thesis using that pg_store.RecordFailure_stored [OF rec ok] by auto
  qed
  show ?thesis
    using pg_store.settled_not_updated [OF row assms(3) w1 assms(4)] row out
      pg_store.stored_outcome_final [OF row assms(3) w1] by auto
qed

definition demo_read :: "char \<Rightarrow> delivery" where
  "demo_read c = the (stored_delivery demo_world (demo_id c))"

theorem outcome_recorded_once_witness:
  defines "d \<equiv> demo_read CHR ''4''"
  defines "w1 \<equiv> snd (RecordSent (pg_tracker demo_env) d ''p'' 1 demo_world)"
    and "f1 \<equiv> snd (RecordFailure (pg_tracker demo_env) d FailurePermanent ''refused'' 1 demo_world)"
  shows "dr_Update (pg_deliveries demo_env) d w1 \<noteq> (Inr (), w1)
    \<and> (\<exists>row. stored_delivery w1 (dlv_ID d) = Some row
         \<and> outcome_of row = (StatusSent, to_int32 1, '''', no_failure, ''p''))
    \<and> dr_Update (pg_deliveries demo_env) d f1 \<noteq> (Inr (), f1)
    \<and> (\<exists>row. stored_delivery f1 (dlv_ID d) = Some row
         \<and> outcome_of row = (StatusFailed, to_int32 1, ''refused'', FailurePermanent, dlv_providerMessageID d))"
proof -
  have "fst (fst (RecordSent (pg_tracker demo_env) (demo_read CHR ''4'') ''p'' 1 demo_world)) = Inr ()"
    "fst (fst (RecordFailure (pg_tracker demo_env) (demo_read CHR ''4'') FailurePermanent ''refused'' 1 demo_world)) = Inr ()"
    by (code_simp, code_simp)
  then have s: "RecordSent (pg_tracker demo_env) d ''p'' 1 demo_world =
      ((Inr (), snd (fst (RecordSent (pg_tracker demo_env) d ''p'' 1 demo_world))), w1)"
    and f: "RecordFailure (pg_tracker demo_env) d FailurePermanent ''refused'' 1 demo_world =
      ((Inr (), snd (fst (RecordFailure (pg_tracker demo_env) d FailurePermanent ''refused'' 1 demo_world))), f1)"
    by (simp_all add: d_def w1_def f1_def prod_eq_iff)
  note once = outcome_recorded_once [OF demo_reachable _ grows_refl refl]
  from once [OF disjI1 [OF conjI [OF s refl]]] once [OF disjI2 [OF conjI [OF f refl]]] show ?thesis by blast
qed

text \<open>
  C9. A message is announced to its source once: of two claims of the announcement, made by whichever
  processes and with whatever in between, the second is won only if the database it leaves holds a
  delivery of the message that was not there when the first was won. So while a message gets no further
  delivery, whoever claims after a claim that was won loses.
\<close>

theorem announcement_won_once:
  assumes "reachable (w_db w)"
    and "dr_ClaimAnnouncement (pg_deliveries E) nid t w = (Inr True, w1)"
    and "grows w1 w2" "dr_ClaimAnnouncement (pg_deliveries E') nid t' w2 = (Inr True, w3)"
  shows "\<exists>i d. stored_delivery w3 i = Some d \<and> dlv_NotificationID d = nid \<and> stored_delivery w1 i = None"
proof -
  have ok: "world_ok w" using assms(1) by (simp add: world_ok_def reachable_db_ok)
  have "grows w w1" using pg_store.announcement_claimed [OF assms(2) ok] by simp
  then have "world_ok w2" using assms(3) world_ok_grows ok by blast
  from pg_store.announcement_claimed [OF assms(4) this] obtain m i d d' where
    m: "grows w2 m" "stored_delivery m i = Some d" "dlv_NotificationID d = nid" "dlv_notifiedAt d = None"
    and d': "stored_delivery w3 i = Some d'" "dlv_NotificationID d' = nid"
    by blast
  with pg_store.announcement_won_again [OF assms(2) ok grows_trans [OF assms(3) m(1)] m(2-4)]
  show ?thesis by blast
qed

text \<open>Two claims that are both won, with a delivery copied into the message between them.\<close>

definition demo_late :: world where
  "demo_late = (let w = snd (pg_ClaimAnnouncement demo_env (demo_id CHR ''3'') 30 demo_world)
     in w\<lparr>w_db := run_write (CreateDeliveries [demo_new_delivery CHR ''6'' ''-200'']) (w_db w)\<rparr>)"

theorem announcement_won_once_witness:
  defines "w1 \<equiv> snd (pg_ClaimAnnouncement demo_env (demo_id CHR ''3'') 30 demo_world)"
    and "w3 \<equiv> snd (pg_ClaimAnnouncement demo_env (demo_id CHR ''3'') 40 demo_late)"
  shows "\<exists>i d. stored_delivery w3 i = Some d \<and> dlv_NotificationID d = demo_id CHR ''3'' \<and> stored_delivery w1 i = None"
proof (rule announcement_won_once [OF demo_reachable])
  have "fst (pg_ClaimAnnouncement demo_env (demo_id CHR ''3'') 30 demo_world) = Inr True"
    by code_simp
  then show "dr_ClaimAnnouncement (pg_deliveries demo_env) (demo_id CHR ''3'') 30 demo_world = (Inr True, w1)"
    by (simp add: w1_def pg_deliveries_def prod_eq_iff)
  have "fst (pg_ClaimAnnouncement demo_env (demo_id CHR ''3'') 40 demo_late) = Inr True"
    by code_simp
  then show "dr_ClaimAnnouncement (pg_deliveries demo_env) (demo_id CHR ''3'') 40 demo_late
      = (Inr True, w3)"
    by (simp add: w3_def pg_deliveries_def prod_eq_iff)
  show "grows w1 demo_late" by (simp add: grows_def demo_late_def w1_def Let_def del: run_write.simps)
qed


subsection \<open>Reading a message's deliveries page by page\<close>

text \<open>The caller of a listing: page after page, until there is no next cursor.\<close>

fun read_all :: "nat \<Rightarrow> env \<Rightarrow> ID \<Rightarrow> int \<Rightarrow> ID option \<Rightarrow> (world, delivery list) io" where
  "read_all 0 E nid n aft = throw (Foreign ''out of fuel'')"
| "read_all (Suc k) E nid n aft =
     and_then (pg_PageByNotificationID E nid \<lparr>After = aft, Limit = n\<rparr>) (\<lambda>p.
     case NextCursor p of
       None \<Rightarrow> ret (Items p)
     | Some a \<Rightarrow> and_then (read_all k E nid n (Some a)) (\<lambda>rest. ret (Items p @ rest)))"

definition quiet :: "env \<Rightarrow> bool" where
  "quiet E \<longleftrightarrow> (\<forall>n. round_trips E n = Delivered \<and> others E n = [])"

lemma begin_trip_quiet: "quiet E \<Longrightarrow> begin_trip E w = w\<lparr>w_trips := Suc (w_trips w)\<rparr>"
  by (simp add: begin_trip_def quiet_def)

lemma exec_quiet_read:
  assumes "quiet E" "w_tx w = NoTx" "stmt (w_db w) = (Inr x, w_db w)"
  shows "exec E stmt w = (Inr x, w\<lparr>w_trips := Suc (w_trips w)\<rparr>)"
proof -
  have "round_trips E (w_trips w) = Delivered" using assms(1) by (simp add: quiet_def)
  with assms show ?thesis
    by (simp add: exec_def begin_trip_quiet abort_on_def server_error_def Let_def)
qed

text \<open>Lists sorted by a key without repetition: what is after a prefix is what is left.\<close>

lemma sorted_after:
  assumes "sorted (map f S)" "distinct (map f S)" "S = P @ Q" "P \<noteq> []"
  shows "filter (\<lambda>r. f (last P) < f r) S = Q"
proof -
  obtain P' l where P: "P = P' @ [l]" using assms(4) by (metis rev_exhaust)
  have lt: "f l < f q" if "q \<in> set Q" for q
    using assms(1,2) that unfolding assms(3) P by (auto simp: sorted_append order_less_le)
  have "\<not> f l < f p" if "p \<in> set P" for p
    using assms(1) that unfolding assms(3) P by (auto simp: sorted_append)
  then have "filter (\<lambda>r. f l < f r) P = []" by (simp add: filter_empty_conv)
  moreover have "filter (\<lambda>r. f l < f r) Q = Q" using lt by (simp add: filter_id_conv)
  ultimately show ?thesis by (simp add: assms(3) P)
qed

text \<open>The rows of a message in the order of their identifiers, which is the order of creation.\<close>

definition rows_of :: "database \<Rightarrow> ID \<Rightarrow> delivery_row list" where
  "rows_of db nid = sort_key dl_id (filter (\<lambda>r. dl_notification_id r = nid) (t_deliveries db))"

lemma sort_key_filter: "sort_key f (filter p xs) = filter p (sort_key f xs)"
  by (simp add: filter_sort)

lemma rows_of_sorted:
  assumes "db_ok db"
  shows "sorted (map dl_id (rows_of db nid))" "distinct (map dl_id (rows_of db nid))"
    "list_all delivery_row_ok (rows_of db nid)" "list_all (\<lambda>r. dl_id r \<noteq> '''') (rows_of db nid)"
proof -
  have ok: "list_all delivery_row_ok (t_deliveries db)" and d: "distinct (map dl_id (t_deliveries db))"
    using assms by (simp_all add: db_ok_def deliveries_ok_def)
  show "sorted (map dl_id (rows_of db nid))" by (simp add: rows_of_def)
  show "distinct (map dl_id (rows_of db nid))"
    using distinct_map_filter_keys [OF d, of "\<lambda>r. dl_notification_id r = nid"]
    by (simp add: rows_of_def distinct_map)
  show "list_all delivery_row_ok (rows_of db nid)"
    using ok by (simp add: rows_of_def list_all_iff)
  then show "list_all (\<lambda>r. dl_id r \<noteq> '''') (rows_of db nid)"
    by (auto simp: list_all_iff delivery_row_ok_def is_ulid_def)
qed

lemma page_rows:
  "snd (sql_PageDeliveriesByNotificationID nid aft n db) = db"
  "0 \<le> n \<Longrightarrow> fst (sql_PageDeliveriesByNotificationID nid aft n db) =
     Inr (take (nat n) (filter (\<lambda>r. case aft of None \<Rightarrow> True | Some a \<Rightarrow> a < dl_id r) (rows_of db nid)))"
proof -
  show "snd (sql_PageDeliveriesByNotificationID nid aft n db) = db"
    by (simp add: sql_PageDeliveriesByNotificationID_def)
  show "fst (sql_PageDeliveriesByNotificationID nid aft n db) =
     Inr (take (nat n) (filter (\<lambda>r. case aft of None \<Rightarrow> True | Some a \<Rightarrow> a < dl_id r) (rows_of db nid)))"
    if "0 \<le> n"
    using that by (simp add: sql_PageDeliveriesByNotificationID_def limited_def rows_of_def
        sort_key_filter conj_commute)
qed


lemma pg_PageByNotificationID_quiet:
  assumes "quiet E" "w_tx w = NoTx" "world_ok w" "aft \<noteq> Some ''''"
    and Q: "Q = filter (\<lambda>r. case aft of None \<Rightarrow> True | Some a \<Rightarrow> a < dl_id r) (rows_of (w_db w) nid)"
    and m: "m = nat (Limit (Normalize \<lparr>After = aft, Limit = n\<rparr>))"
  shows "pg_PageByNotificationID E nid \<lparr>After = aft, Limit = n\<rparr> w =
    (Inr \<lparr>Items = map delivery_of_row (take m Q),
          NextCursor = (if m < length Q then Some (dl_id (last (take m Q))) else None)\<rparr>,
     w\<lparr>w_trips := Suc (w_trips w)\<rparr>)"
proof -
  let ?c = "Normalize \<lparr>After = aft, Limit = n\<rparr>"
  have bounds: "1 \<le> Limit ?c" "Limit ?c \<le> 500" by (rule Normalize_simps)+
  from order_trans [OF _ bounds(1)] order_le_less_trans [OF bounds(2)] have lim: "to_int32 (Limit ?c) + 1 = int (Suc m)"
    by (subst to_int32_id) (auto simp: m)
  have after_col: "cursor_column ?c = aft"
    using assms(4) by (auto simp: cursor_column_def optional_def split: option.split)
  have stmt: "sql_PageDeliveriesByNotificationID nid aft (int (Suc m)) (w_db w) = (Inr (take (Suc m) Q), w_db w)"
    using page_rows(1) [of nid aft "int (Suc m)" "w_db w"]
      page_rows(2) [of "int (Suc m)" nid aft "w_db w"] by (simp add: prod_eq_iff Q nat_add_distrib)
  have "list_all delivery_row_ok (rows_of (w_db w) nid)"
    using rows_of_sorted assms(3) by (simp add: world_ok_def)
  then have "list_all delivery_row_ok Q" by (simp add: Q list_all_iff)
  then have conv: "toDeliveries (take k Q) [] = Inr (map delivery_of_row (take k Q))" for k
    by (subst toDeliveries_ok) (auto simp: list_all_iff dest: in_set_takeD)
  have cut: "page_of dl_id (Limit ?c) (take (Suc m) Q) =
      (take m Q, if m < length Q then Some (dl_id (last (take m Q))) else None)"
    using bounds(1) unfolding page_of_def m Let_def
    by (cases "Limit ?c \<ge> 0") (auto simp del: Normalize_simps)
  have "exec E (sql_PageDeliveriesByNotificationID nid aft (int (Suc m))) w
      = (Inr (take (Suc m) Q), w\<lparr>w_trips := Suc (w_trips w)\<rparr>)"
    by (rule exec_quiet_read [OF assms(1,2)]) (rule stmt)
  then show ?thesis
    unfolding pg_PageByNotificationID_def Let_def after_col lim or_failed_def attempt_def
    by (simp add: cut conv del: of_nat_Suc)
qed

lemma read_all_quiet:
  assumes "quiet E" "w_tx w = NoTx" "world_ok w" "rows_of (w_db w) nid = P @ Q"
    and "aft = (if P = [] then None else Some (dl_id (last P)))" "length Q < k"
  shows "\<exists>w'. read_all k E nid n aft w = (Inr (map delivery_of_row Q), w') \<and> w_db w' = w_db w"
  using assms
proof (induction k arbitrary: w P Q aft)
  case 0
  then show ?case by simp
next
  case (Suc k)
  let ?S = "rows_of (w_db w) nid"
  note ok = Suc.prems(3) [unfolded world_ok_def]
  have "aft \<noteq> Some ''''"
    using rows_of_sorted(4) [OF ok, of nid] Suc.prems(4,5) by (auto simp: list_all_iff)
  moreover have Q: "Q = filter (\<lambda>r. case aft of None \<Rightarrow> True | Some a \<Rightarrow> a < dl_id r) ?S"
    using sorted_after [OF rows_of_sorted(1,2) [OF ok] Suc.prems(4)] Suc.prems(4,5) by auto
  moreover define m where "m = nat (Limit (Normalize \<lparr>After = aft, Limit = n\<rparr>))"
  ultimately have page: "pg_PageByNotificationID E nid \<lparr>After = aft, Limit = n\<rparr> w =
    (Inr \<lparr>Items = map delivery_of_row (take m Q),
          NextCursor = (if m < length Q then Some (dl_id (last (take m Q))) else None)\<rparr>,
     w\<lparr>w_trips := Suc (w_trips w)\<rparr>)"
    using pg_PageByNotificationID_quiet [OF Suc.prems(1,2,3)] by blast
  show ?case
  proof (cases "m < length Q")
    case False
    then show ?thesis by (simp add: and_then_def page)
  next
    case True
    have "0 < m" by (simp add: m_def order_less_le_trans [of 0 1])
    let ?w = "w\<lparr>w_trips := Suc (w_trips w)\<rparr>"
    have "\<exists>w'. read_all k E nid n (Some (dl_id (last (take m Q)))) ?w
        = (Inr (map delivery_of_row (drop m Q)), w') \<and> w_db w' = w_db ?w"
    proof (rule Suc.IH [OF Suc.prems(1)])
      show "rows_of (w_db ?w) nid = (P @ take m Q) @ drop m Q" using Suc.prems(4) by simp
      show "Some (dl_id (last (take m Q))) =
          (if P @ take m Q = [] then None else Some (dl_id (last (P @ take m Q))))"
        using True \<open>0 < m\<close> by (auto simp: last_append)
    qed (use Suc.prems True \<open>0 < m\<close> in \<open>auto simp: world_ok_def\<close>)
    then obtain w' where "read_all k E nid n (Some (dl_id (last (take m Q)))) ?w
        = (Inr (map delivery_of_row (drop m Q)), w')" "w_db w' = w_db w" by auto
    with True show ?thesis
      by (simp add: and_then_def page flip: map_append)
  qed
qed

text \<open>
  C10. Reading a message's deliveries page by page, with any page size, from a database that answers every
  statement and that no other process writes meanwhile, ends, with one page more than the table has rows at
  the most, and answers every delivery of the message exactly once, in the order of their identifiers: the cursor
  neither skips nor repeats a row, and the last page says there is no next one.
\<close>

theorem pages_cover_each_delivery_once:
  assumes "quiet E" "w_tx w = NoTx" "reachable (w_db w)"
    and "length (t_deliveries (w_db w)) < k"
  shows "\<exists>w'. read_all k E nid n None w = (Inr (map delivery_of_row (rows_of (w_db w) nid)), w')
    \<and> w_db w' = w_db w \<and> sorted (map dl_id (rows_of (w_db w) nid))
    \<and> distinct (map dl_id (rows_of (w_db w) nid))
    \<and> set (rows_of (w_db w) nid) = {r \<in> set (t_deliveries (w_db w)). dl_notification_id r = nid}"
proof -
  have ok: "db_ok (w_db w)" by (rule reachable_db_ok [OF assms(3)])
  have "length (rows_of (w_db w) nid) \<le> length (t_deliveries (w_db w))"
    by (simp add: rows_of_def)
  then have "\<exists>w'. read_all k E nid n None w = (Inr (map delivery_of_row (rows_of (w_db w) nid)), w')
      \<and> w_db w' = w_db w"
    using assms ok by (intro read_all_quiet [where P = "[]"]) (auto simp: world_ok_def)
  with rows_of_sorted(1,2) [OF ok] show ?thesis by (auto simp: rows_of_def)
qed

theorem pages_cover_each_delivery_once_witness:
  "\<exists>w'. read_all 3 demo_env (demo_id CHR ''3'') 1 None demo_world
      = (Inr (map delivery_of_row (rows_of (w_db demo_world) (demo_id CHR ''3''))), w')
    \<and> w_db w' = w_db demo_world \<and> sorted (map dl_id (rows_of (w_db demo_world) (demo_id CHR ''3'')))
    \<and> distinct (map dl_id (rows_of (w_db demo_world) (demo_id CHR ''3'')))
    \<and> set (rows_of (w_db demo_world) (demo_id CHR ''3''))
        = {r \<in> set (t_deliveries (w_db demo_world)). dl_notification_id r = demo_id CHR ''3''}"
proof (rule pages_cover_each_delivery_once)
  have "length (map dl_id (t_deliveries (w_db demo_world))) = 2" by (simp add: demo_rows)
  then show "length (t_deliveries (w_db demo_world)) < 3" by simp
qed (simp_all add: quiet_def demo_env_def demo_reachable, simp add: demo_world_def)


subsection \<open>Notifications: rows and repository\<close>

text \<open>
  The JSONB column holds the map's entries, so encoding and decoding cannot fail here; a nil map is
  written as the empty object.
\<close>

definition fromMetadata :: "(string \<times> string) list option \<Rightarrow> (string \<times> string) list result" where
  "fromMetadata metadata = (case metadata of None \<Rightarrow> Inr [] | Some m \<Rightarrow> Inr m)"

definition toMetadata :: "(string \<times> string) list \<Rightarrow> (string \<times> string) list option result" where
  "toMetadata raw = Inr (Some raw)"

definition toNotification :: "notification_row \<Rightarrow> notification result" where
  "toNotification row =
    (case ParsePriority (nt_requested_priority row) of
       Inl err \<Rightarrow> Inl (badRow ''notification'' (nt_id row) ''requested_priority'' err)
     | Inr requested \<Rightarrow>
    (case ParsePriority (nt_effective_priority row) of
       Inl err \<Rightarrow> Inl (badRow ''notification'' (nt_id row) ''effective_priority'' err)
     | Inr effective \<Rightarrow>
    (case toMetadata (nt_metadata row) of
       Inl err \<Rightarrow> Inl (badRow ''notification'' (nt_id row) ''metadata'' err)
     | Inr metadata \<Rightarrow>
       Inr \<lparr>ntf_ID = nt_id row, ntf_SourceID = nt_source_id row,
            ntf_IdempotencyKey = deref (nt_idempotency_key row),
            ntf_SourceName = nt_source_name row, ntf_Title = nt_title row, ntf_Body = nt_body row,
            ntf_RequestedPriority = requested, ntf_EffectivePriority = effective,
            ntf_ExpireAt = nt_expire_at row, ntf_CreatedAt = nt_created_at row,
            ntf_metadata = copyMetadata metadata\<rparr>)))"

fun toNotifications :: "notification_row list \<Rightarrow> notification list \<Rightarrow> notification list result" where
  "toNotifications [] out = Inr out"
| "toNotifications (row # rows) out =
     then_result (toNotification row) (\<lambda>n. toNotifications rows (out @ [n]))"

definition notification_row_of :: "golib \<Rightarrow> notification \<Rightarrow> (string \<times> string) list \<Rightarrow> notification_row" where
  "notification_row_of L n metadata =
    \<lparr>nt_id = ntf_ID n, nt_source_id = ntf_SourceID n,
     nt_idempotency_key = optional (ntf_IdempotencyKey n), nt_source_name = ntf_SourceName n,
     nt_title = ntf_Title n, nt_body = ntf_Body n,
     nt_requested_priority = Priority_String L (ntf_RequestedPriority n),
     nt_effective_priority = Priority_String L (ntf_EffectivePriority n),
     nt_expire_at = ntf_ExpireAt n, nt_metadata = metadata, nt_created_at = ntf_CreatedAt n\<rparr>"

definition pg_CreateNotification :: "env \<Rightarrow> notification \<Rightarrow> (world, unit) io" where
  "pg_CreateNotification E n =
    (case fromMetadata (Metadata n) of
       Inl err \<Rightarrow> throw (badRow ''notification'' (ntf_ID n) ''metadata'' err)
     | Inr metadata \<Rightarrow>
       or_failed ''create notification''
         (exec E (sql_CreateNotification (notification_row_of (lib E) n metadata)))
         (\<lambda>rows. if rows = 0 then
            throw (WithStr (WithErr (DuplicateErr ''this request has already been accepted'')
                     (Sentinel (NotificationE ErrDuplicateKey))) (Text (ntf_IdempotencyKey n) []))
          else ret ()))"

definition pg_ReadNotification :: "env \<Rightarrow> ID \<Rightarrow> (world, notification) io" where
  "pg_ReadNotification E i =
    attempt (exec E (sql_ReadNotification i)) (\<lambda>r. case r of
      Inl err \<Rightarrow> if noRows err
        then throw (WithErr (NotFoundErr ''notification not found'')
          (Sentinel (NotificationE notification_error.ErrNotFound)))
        else throw (failed ''read notification'' err)
    | Inr row \<Rightarrow> lift (toNotification row))"

definition pg_DeleteOlderThan :: "env \<Rightarrow> time \<Rightarrow> int \<Rightarrow> (world, int) io" where
  "pg_DeleteOlderThan E before limit =
    or_failed ''delete old notifications'' (exec E (sql_DeleteNotificationsBefore before (to_int32 limit)))
      (\<lambda>rows. ret (int rows))"

definition pg_PageBySource :: "env \<Rightarrow> string \<Rightarrow> time \<Rightarrow> cursor \<Rightarrow> (world, notification pagination) io" where
  "pg_PageBySource E sourceID since c0 =
    (let c = Normalize c0 in
     or_failed ''page notifications''
       (exec E (sql_PageNotificationsBySource sourceID (cursor_column c) (Some since) None
          (to_int32 (Limit c) + 1)))
       (\<lambda>rows. case page_of nt_id (Limit c) rows of (rows, next_cursor) \<Rightarrow>
          and_then (lift (toNotifications rows [])) (\<lambda>items.
          ret \<lparr>Items = items, NextCursor = next_cursor\<rparr>)))"

definition pg_ReadByIdempotencyKey :: "env \<Rightarrow> string \<Rightarrow> string \<Rightarrow> (world, notification option) io" where
  "pg_ReadByIdempotencyKey E sourceID key =
    attempt (exec E (sql_ReadNotificationByIdempotencyKey sourceID (optional key))) (\<lambda>r. case r of
      Inl err \<Rightarrow> if noRows err then ret None
        else throw (failed ''read notification by idempotency key'' err)
    | Inr row \<Rightarrow> and_then (lift (toNotification row)) (\<lambda>n. ret (Some n)))"

definition pg_ListForOperator :: "env \<Rightarrow> string \<Rightarrow> int \<Rightarrow> (world, operator_row list) io" where
  "pg_ListForOperator E sourceID limit =
    or_failed ''list messages for operator'' (exec E (sql_ListMessagesForOperator sourceID (to_int32 limit)))
      (\<lambda>rows. ret (map (\<lambda>row. \<lparr>opr_ID = om_id row, opr_Channels = om_channels row,
         opr_Failed = om_failed row, opr_Total = om_total row, opr_CreatedAt = om_created_at row\<rparr>) rows))"

definition pg_notifications :: "env \<Rightarrow> world notification_repository" where
  "pg_notifications E =
    \<lparr>nr_Create = pg_CreateNotification E, nr_ReadByID = pg_ReadNotification E,
     nr_ReadByIdempotencyKey = pg_ReadByIdempotencyKey E, nr_PageBySource = pg_PageBySource E,
     nr_DeleteOlderThan = pg_DeleteOlderThan E, nr_ListForOperator = pg_ListForOperator E\<rparr>"

lemma keeps_pg_notifications:
  "keeps db_step (pg_CreateNotification E n)" "keeps db_step (pg_ReadNotification E i)"
  "keeps db_step (pg_DeleteOlderThan E t k)" "keeps db_step (pg_PageBySource E s t c)"
  "keeps db_step (pg_ReadByIdempotencyKey E s key)" "keeps db_step (pg_ListForOperator E s k)"
  unfolding pg_CreateNotification_def pg_ReadNotification_def pg_DeleteOlderThan_def
    pg_PageBySource_def pg_ReadByIdempotencyKey_def pg_ListForOperator_def Let_def
  by (auto intro!: keeps_db split: sum.split prod.split)

end
