(* ===== verification/PgSources.thy ===== *)
theory PgSources
  imports World Source Credential
begin

text \<open>
  \<open>internal/adapter/db/postgres/source.go\<close>, \<open>apikey.go\<close>, \<open>credential.go\<close> and
  \<open>webhook.go\<close>: what belongs to one source. JSONB maps are their entries, so their encoding
  cannot fail; a map's order is the order it was written in.
\<close>

subsection \<open>Sources\<close>

definition fromAddresses :: "(channel \<times> string) list \<Rightarrow> (string \<times> string) list result" where
  "fromAddresses addresses = Inr (map (\<lambda>(c, a). (Channel_String c, a)) addresses)"

definition toAddresses :: "(string \<times> string) list \<Rightarrow> (channel \<times> string) list result" where
  "toAddresses raw = Inr (map (\<lambda>(c, a). (Channel c, a)) raw)"

definition toSource :: "source_row \<Rightarrow> source result" where
  "toSource row =
    (case ParsePriority (so_max_priority row) of
       Inl err \<Rightarrow> Inl (badRow ''source'' (so_id row) ''max_priority'' err)
     | Inr priority \<Rightarrow>
    (case toAddresses (so_default_addresses row) of
       Inl err \<Rightarrow> Inl (badRow ''source'' (so_id row) ''default_addresses'' err)
     | Inr addresses \<Rightarrow>
       Inr \<lparr>src_ID = so_id row, src_Name = so_name row, src_Description = so_description row,
            src_MaxPriority = priority, src_IsActive = so_is_active row,
            src_OwnerUserID = so_owner_user_id row, src_ApprovedAt = so_approved_at row,
            src_ReviewedAt = so_reviewed_at row, src_ReviewNote = so_review_note row,
            src_AllowCustomAddress = so_allow_custom_address row, src_DefaultAddresses = addresses,
            src_CreatedAt = so_created_at row, src_UpdatedAt = so_updated_at row\<rparr>))"

fun toSources :: "source_row list \<Rightarrow> source list \<Rightarrow> source list result" where
  "toSources [] out = Inr out"
| "toSources (row # rows) out = then_result (toSource row) (\<lambda>s. toSources rows (out @ [s]))"

text \<open>A statement that must have found its row.\<close>

definition found_source :: "nat \<Rightarrow> (world, unit) io" where
  "found_source rows =
    (if rows = 0 then throw (WithErr (NotFoundErr ''source not found'') (Sentinel (SourceE source_error.ErrNotFound)))
     else ret ())"

definition pg_CreateSource :: "env \<Rightarrow> source \<Rightarrow> (world, unit) io" where
  "pg_CreateSource E s =
    (case fromAddresses (src_DefaultAddresses s) of
       Inl err \<Rightarrow> throw (badRow ''source'' (src_ID s) ''default_addresses'' err)
     | Inr addresses \<Rightarrow>
       attempt (exec E (sql_CreateSource (src_ID s) (src_OwnerUserID s) (src_Name s)
           (Priority_String (lib E) (src_MaxPriority s)) (src_AllowCustomAddress s) addresses
           (src_CreatedAt s)))
         (\<lambda>r. case r of
            Inl err \<Rightarrow>
              if violates err ''sources_pkey''
              then throw (WithStr (DuplicateErr ''source already exists'') (Text (src_ID s) []))
              else throw (failed ''create source'' err)
          | Inr _ \<Rightarrow> ret ()))"

definition pg_ListByOwner :: "env \<Rightarrow> ID \<Rightarrow> (world, source list) io" where
  "pg_ListByOwner E ownerID =
    or_failed ''list sources by owner'' (exec E (sql_ListSourcesByOwner ownerID))
      (\<lambda>rows. lift (toSources rows []))"

definition pg_ReadSource :: "env \<Rightarrow> string \<Rightarrow> (world, source) io" where
  "pg_ReadSource E i =
    attempt (exec E (sql_ReadSource i)) (\<lambda>r. case r of
      Inl err \<Rightarrow> if noRows err
        then throw (WithErr (NotFoundErr ''source not found'') (Sentinel (SourceE source_error.ErrNotFound)))
        else throw (failed ''read source'' err)
    | Inr row \<Rightarrow> lift (toSource row))"

definition pg_UpdateSettings :: "env \<Rightarrow> source \<Rightarrow> (world, unit) io" where
  "pg_UpdateSettings E s =
    (case fromAddresses (src_DefaultAddresses s) of
       Inl err \<Rightarrow> throw (badRow ''source'' (src_ID s) ''default_addresses'' err)
     | Inr addresses \<Rightarrow>
       or_failed ''update source settings''
         (exec E (sql_UpdateSourceSettings (src_ID s) (src_Name s) (src_Description s) addresses
            (src_UpdatedAt s))) found_source)"

definition pg_UpdateReview :: "env \<Rightarrow> source \<Rightarrow> (world, unit) io" where
  "pg_UpdateReview E s =
    or_failed ''update review''
      (exec E (sql_UpdateReview (src_ID s) (src_IsActive s) (src_ApprovedAt s) (src_ReviewedAt s)
         (src_ReviewNote s) (src_UpdatedAt s))) found_source"

definition pg_ListForReview :: "env \<Rightarrow> int \<Rightarrow> (world, source list) io" where
  "pg_ListForReview E limit =
    or_failed ''list for review'' (exec E (sql_ListForReview limit)) (\<lambda>rows. lift (toSources rows []))"

definition pg_ListAllSources :: "env \<Rightarrow> int \<Rightarrow> (world, source list) io" where
  "pg_ListAllSources E limit =
    or_failed ''list all sources'' (exec E (sql_ListAllSources limit)) (\<lambda>rows. lift (toSources rows []))"

definition pg_sources :: "env \<Rightarrow> world source_repository" where
  "pg_sources E =
    \<lparr>sr_Create = pg_CreateSource E, sr_ReadByID = pg_ReadSource E, sr_ListByOwner = pg_ListByOwner E,
     sr_UpdateSettings = pg_UpdateSettings E, sr_UpdateReview = pg_UpdateReview E,
     sr_ListForReview = pg_ListForReview E, sr_ListAll = pg_ListAllSources E\<rparr>"

lemma keeps_found_source: "keeps db_step (found_source n)"
  by (simp add: found_source_def db_steps.keeps_combinators)

lemma keeps_pg_sources:
  "keeps db_step (pg_CreateSource E s)" "keeps db_step (pg_ListByOwner E i)" "keeps db_step (pg_ReadSource E i)"
  "keeps db_step (pg_UpdateSettings E s)" "keeps db_step (pg_UpdateReview E s)"
  "keeps db_step (pg_ListForReview E n)" "keeps db_step (pg_ListAllSources E n)"
  unfolding pg_CreateSource_def pg_ListByOwner_def pg_ReadSource_def pg_UpdateSettings_def
    pg_UpdateReview_def pg_ListForReview_def pg_ListAllSources_def
  by (auto intro!: keeps_db keeps_found_source split: sum.split)

subsection \<open>Keys\<close>

definition toKey :: "api_key_row \<Rightarrow> key" where
  "toKey row =
    \<lparr>key_ID = ak_id row, key_SourceID = ak_source_id row, key_Label = ak_label row,
     key_CreatedAt = ak_created_at row, key_LastUsedAt = ak_last_used_at row,
     key_ExpiresAt = ak_expires_at row, key_RevokedAt = ak_revoked_at row\<rparr>"

definition pg_CreateKey :: "env \<Rightarrow> key \<Rightarrow> string \<Rightarrow> (world, unit) io" where
  "pg_CreateKey E k keyHash =
    attempt (exec E (sql_CreateAPIKey (key_ID k) (key_SourceID k) keyHash (key_Label k)
        (key_CreatedAt k) (key_ExpiresAt k)))
      (\<lambda>r. case r of
         Inl err \<Rightarrow>
           if violates err ''api_keys_key_hash_key''
           then throw (WithStr (DuplicateErr ''that key already exists'') (Text (key_SourceID k) []))
           else if violates err ''api_keys_pkey''
           then throw (WithStr (DuplicateErr ''key already exists'') (Text (key_ID k) []))
           else throw (failed ''create api key'' err)
       | Inr _ \<Rightarrow> ret ())"

definition pg_ReadSourceByKeyHash :: "env \<Rightarrow> string \<Rightarrow> time \<Rightarrow> (world, (source \<times> ID) option) io" where
  "pg_ReadSourceByKeyHash E keyHash now =
    attempt (exec E (sql_ReadSourceByKeyHash keyHash now)) (\<lambda>r. case r of
      Inl err \<Rightarrow> if noRows err then ret None else throw (failed ''read source by key hash'' err)
    | Inr (row, api_key_id) \<Rightarrow>
        and_then (lift (toSource row)) (\<lambda>src. ret (Some (src, api_key_id))))"

definition pg_ListKeys :: "env \<Rightarrow> string \<Rightarrow> (world, key list) io" where
  "pg_ListKeys E sourceID =
    or_failed ''list api keys'' (exec E (sql_ListAPIKeysBySource sourceID)) (\<lambda>rows. ret (map toKey rows))"

definition pg_TouchKey :: "env \<Rightarrow> ID \<Rightarrow> time \<Rightarrow> duration \<Rightarrow> (world, unit) io" where
  "pg_TouchKey E keyID now notUsedFor =
    or_failed ''touch api key'' (exec E (sql_TouchAPIKey keyID now (now + - notUsedFor))) (\<lambda>_. ret ())"

definition pg_RevokeKey :: "env \<Rightarrow> ID \<Rightarrow> time \<Rightarrow> (world, unit) io" where
  "pg_RevokeKey E keyID now =
    or_failed ''revoke api key'' (exec E (sql_RevokeAPIKey keyID now))
      (\<lambda>rows. if rows = 0 then throw (WithStr (NotFoundErr ''no key to revoke'') (Text keyID []))
         else ret ())"

definition pg_keys :: "env \<Rightarrow> world key_repository" where
  "pg_keys E = \<lparr>kr_ReadSourceByKeyHash = pg_ReadSourceByKeyHash E, kr_Touch = pg_TouchKey E\<rparr>"

definition pg_key_issuer :: "env \<Rightarrow> world key_issuer" where
  "pg_key_issuer E =
     \<lparr>ki_Create = pg_CreateKey E, ki_ListBySourceID = pg_ListKeys E, ki_Revoke = pg_RevokeKey E\<rparr>"

lemma keeps_pg_keys:
  "keeps db_step (pg_CreateKey E k h)" "keeps db_step (pg_ReadSourceByKeyHash E h t)"
  "keeps db_step (pg_ListKeys E s)" "keeps db_step (pg_TouchKey E i t d)" "keeps db_step (pg_RevokeKey E i t)"
  unfolding pg_CreateKey_def pg_ReadSourceByKeyHash_def pg_ListKeys_def pg_TouchKey_def pg_RevokeKey_def
  by (auto intro!: keeps_db split: sum.split prod.split)

subsection \<open>Credentials\<close>

definition toCredential :: "credential_row \<Rightarrow> credential result" where
  "toCredential row =
    (let channel = Channel (ca_channel row) in
     if \<not> Channel_Valid channel then
       Inl (badRow ''credential'' (ca_id row) ''channel'' (Sentinel (SharedE ErrUnknownChannel)))
     else Inr \<lparr>crd_ID = ca_id row, crd_SourceID = ca_source_id row, crd_Channel = channel,
       crd_Name = ca_name row, crd_CreatedAt = ca_created_at row, crd_UpdatedAt = ca_updated_at row,
       crd_isDefault = ca_is_default row, crd_isActive = ca_is_active row\<rparr>)"

fun toCredentials :: "credential_row list \<Rightarrow> credential list \<Rightarrow> credential list result" where
  "toCredentials [] out = Inr out"
| "toCredentials (row # rows) out = then_result (toCredential row) (\<lambda>c. toCredentials rows (out @ [c]))"

definition not_found_credential :: "string \<Rightarrow> ID \<Rightarrow> goerr" where
  "not_found_credential msg i =
     WithStr (WithErr (NotFoundErr msg) (Sentinel (CredentialE credential_error.ErrNotFound))) (Text i [])"

definition pg_CreateCredential :: "env \<Rightarrow> credential \<Rightarrow> string \<Rightarrow> string \<Rightarrow> (world, unit) io" where
  "pg_CreateCredential E c config secret =
    (let config = (if config = '''' then ''{}'' else config) in
     attempt (exec E (sql_CreateCredential (crd_ID c) (crd_SourceID c) (Channel_String (crd_Channel c))
         (crd_Name c) config (optional secret) (crd_isDefault c) (crd_CreatedAt c)))
       (\<lambda>r. case r of
          Inl err \<Rightarrow>
            if violates err ''credentials_source_channel_name_key'' then
              throw (WithStr (DuplicateErr ''a credential by that name already exists on this channel'')
                (Text ''source %q, channel %q, name %q''
                  [FmtS (crd_SourceID c), FmtS (Channel_String (crd_Channel c)), FmtS (crd_Name c)]))
            else if violates err ''credentials_one_default_per_channel'' then
              throw (WithStr (DuplicateErr ''this channel already has a default credential'')
                (Text ''source %q, channel %q'' [FmtS (crd_SourceID c), FmtS (Channel_String (crd_Channel c))]))
            else if violates err ''credentials_pkey'' then
              throw (WithStr (DuplicateErr ''credential already exists'') (Text (crd_ID c) []))
            else throw (failed ''create credential'' err)
        | Inr _ \<Rightarrow> ret ()))"

definition pg_ListBySourceAndChannel :: "env \<Rightarrow> string \<Rightarrow> channel \<Rightarrow> (world, credential list) io" where
  "pg_ListBySourceAndChannel E sourceID c =
    or_failed ''list credentials'' (exec E (sql_ListCredentialsBySourceAndChannel sourceID (Channel_String c)))
      (\<lambda>rows. lift (toCredentials rows []))"

definition pg_ReadMaterial :: "env \<Rightarrow> ID \<Rightarrow> (world, string \<times> string) io" where
  "pg_ReadMaterial E i =
    attempt (exec E (sql_ReadCredentialSecret i)) (\<lambda>r. case r of
      Inl err \<Rightarrow> if noRows err
        then throw (not_found_credential ''no active credential with that id'' i)
        else throw (failed ''read credential secret'' err)
    | Inr (config, secret) \<Rightarrow> ret (config, deref secret))"

definition pg_Reseal :: "env \<Rightarrow> ID \<Rightarrow> string \<Rightarrow> string \<Rightarrow> time \<Rightarrow> (world, bool) io" where
  "pg_Reseal E i previous secret now =
    or_failed ''reseal credential secret''
      (exec E (sql_ResealCredentialSecret i (optional previous) (optional secret) now))
      (\<lambda>rows. ret (0 < rows))"

definition pg_ListCredentials :: "env \<Rightarrow> string \<Rightarrow> (world, credential list) io" where
  "pg_ListCredentials E sourceID =
    or_failed ''list credentials'' (exec E (sql_ListCredentialsBySource sourceID))
      (\<lambda>rows. lift (toCredentials rows []))"

definition pg_ReadCredential :: "env \<Rightarrow> string \<Rightarrow> ID \<Rightarrow> (world, credential) io" where
  "pg_ReadCredential E sourceID i =
    attempt (exec E (sql_ReadCredential i sourceID)) (\<lambda>r. case r of
      Inl err \<Rightarrow> if noRows err then throw (not_found_credential ''no credential with that id'' i)
        else throw (failed ''read credential'' err)
    | Inr row \<Rightarrow> lift (toCredential row))"

definition pg_setCredentialActive :: "env \<Rightarrow> credential \<Rightarrow> bool \<Rightarrow> (world, unit) io" where
  "pg_setCredentialActive E c active_flag =
    or_failed ''set credential active''
      (exec E (sql_SetCredentialActive (crd_ID c) (crd_SourceID c) active_flag (crd_UpdatedAt c)))
      (\<lambda>_. ret ())"

definition pg_SetDefault :: "env \<Rightarrow> credential \<Rightarrow> (world, unit) io" where
  "pg_SetDefault E c =
    or_failed ''set default credential''
      (exec E (sql_SetCredentialDefault (crd_ID c) (crd_SourceID c) (crd_UpdatedAt c)))
      (\<lambda>rows. if rows = 0 then
          throw (WithStr (WithErr (InvalidInputErr ''an inactive credential cannot be the default'')
                   (Sentinel (CredentialE ErrDefaultUnusable))) (Text (crd_ID c) []))
        else ret ())"

definition pg_Rotate :: "env \<Rightarrow> string \<Rightarrow> ID \<Rightarrow> string \<Rightarrow> time \<Rightarrow> (world, unit) io" where
  "pg_Rotate E sourceID i secret now =
    or_failed ''rotate credential secret''
      (exec E (sql_RotateCredentialSecret i sourceID (optional secret) now))
      (\<lambda>rows. if rows = 0 then throw (not_found_credential ''no active credential with that id'' i)
         else ret ())"

definition pg_UpdateConfig :: "env \<Rightarrow> string \<Rightarrow> ID \<Rightarrow> string \<Rightarrow> time \<Rightarrow> (world, unit) io" where
  "pg_UpdateConfig E sourceID i config now =
    (let config = (if config = '''' then ''{}'' else config) in
     or_failed ''update credential config'' (exec E (sql_UpdateCredentialConfig i sourceID config now))
      (\<lambda>rows. if rows = 0 then throw (not_found_credential ''no credential with that id'' i)
         else ret ()))"

definition pg_ClearDefault :: "env \<Rightarrow> string \<Rightarrow> channel \<Rightarrow> time \<Rightarrow> (world, unit) io" where
  "pg_ClearDefault E sourceID c now =
    or_failed ''clear default credential''
      (exec E (sql_ClearDefaultCredential sourceID (Channel_String c) now)) (\<lambda>_. ret ())"

definition pg_credentials :: "env \<Rightarrow> world credential_repository" where
  "pg_credentials E =
    \<lparr>cr_ListBySourceAndChannel = pg_ListBySourceAndChannel E, cr_ListBySourceID = pg_ListCredentials E,
     cr_ReadByID = pg_ReadCredential E, cr_Deactivate = (\<lambda>c. pg_setCredentialActive E c False),
     cr_Activate = (\<lambda>c. pg_setCredentialActive E c True), cr_SetDefault = pg_SetDefault E,
     cr_ClearDefault = pg_ClearDefault E\<rparr>"

lemma keeps_pg_credentials:
  "keeps db_step (pg_CreateCredential E c cf s)" "keeps db_step (pg_ListBySourceAndChannel E i ch)"
  "keeps db_step (pg_ReadMaterial E i)" "keeps db_step (pg_Reseal E i p s t)"
  "keeps db_step (pg_ListCredentials E i)" "keeps db_step (pg_ReadCredential E i j)"
  "keeps db_step (pg_setCredentialActive E c b)" "keeps db_step (pg_SetDefault E c)"
  "keeps db_step (pg_Rotate E i j s t)" "keeps db_step (pg_UpdateConfig E i j cf t)"
  "keeps db_step (pg_ClearDefault E i ch t)"
  unfolding pg_CreateCredential_def pg_ListBySourceAndChannel_def pg_ReadMaterial_def pg_Reseal_def
    pg_ListCredentials_def pg_ReadCredential_def pg_setCredentialActive_def pg_SetDefault_def
    pg_Rotate_def pg_UpdateConfig_def pg_ClearDefault_def Let_def
  by (auto intro!: keeps_db split: sum.split prod.split)

subsection \<open>Webhooks\<close>

definition toWebhook :: "webhook_row \<Rightarrow> webhook" where
  "toWebhook row =
    \<lparr>whk_ID = wh_id row, whk_SourceID = wh_source_id row, whk_CallbackURL = wh_callback_url row,
     whk_CreatedAt = wh_created_at row, whk_UpdatedAt = wh_updated_at row,
     whk_isActive = wh_is_active row, whk_consecutiveFailures = wh_consecutive_failures row\<rparr>"

definition wrote_webhook :: "string \<Rightarrow> (world, nat) io \<Rightarrow> (world, unit) io" where
  "wrote_webhook op m =
    or_failed op m (\<lambda>rows. if rows = 0 then
        throw (WithStr (WithErr (NotFoundErr ''webhook not found'')
                 (Sentinel (WebhookE webhook_error.ErrNotFound))) (Text op []))
      else ret ())"

definition pg_CreateWebhook :: "env \<Rightarrow> webhook \<Rightarrow> (world, unit) io" where
  "pg_CreateWebhook E h =
    attempt (exec E (sql_CreateWebhook (whk_ID h) (whk_SourceID h) (whk_CallbackURL h) (whk_CreatedAt h)))
      (\<lambda>r. case r of
         Inl err \<Rightarrow>
           if violates err ''webhooks_source_id_key''
           then throw (WithStr (DuplicateErr ''this source already has a callback'') (Text (whk_SourceID h) []))
           else if violates err ''webhooks_pkey''
           then throw (WithStr (DuplicateErr ''webhook already exists'') (Text (whk_ID h) []))
           else throw (failed ''create webhook'' err)
       | Inr _ \<Rightarrow> ret ())"

definition pg_ReadWebhook :: "env \<Rightarrow> string \<Rightarrow> (world, webhook option) io" where
  "pg_ReadWebhook E sourceID =
    attempt (exec E (sql_ReadWebhookBySourceID sourceID)) (\<lambda>r. case r of
      Inl err \<Rightarrow> if noRows err then ret None else throw (failed ''read webhook'' err)
    | Inr row \<Rightarrow> ret (Some (toWebhook row)))"

definition pg_Redirect :: "env \<Rightarrow> webhook \<Rightarrow> (world, unit) io" where
  "pg_Redirect E h = wrote_webhook ''redirect webhook''
     (exec E (sql_RedirectWebhook (whk_ID h) (whk_CallbackURL h) (whk_UpdatedAt h)))"

definition pg_RecordSuccess :: "env \<Rightarrow> webhook \<Rightarrow> (world, unit) io" where
  "pg_RecordSuccess E h = wrote_webhook ''record webhook success''
     (exec E (sql_RecordWebhookSuccess (whk_ID h) (whk_UpdatedAt h)))"

definition pg_RecordFailure :: "env \<Rightarrow> webhook \<Rightarrow> (world, int) io" where
  "pg_RecordFailure E h =
    attempt (exec E (sql_RecordWebhookFailure (whk_ID h) (whk_UpdatedAt h))) (\<lambda>r. case r of
      Inl err \<Rightarrow> if noRows err
        then throw (WithErr (NotFoundErr ''webhook not found'') (Sentinel (WebhookE webhook_error.ErrNotFound)))
        else throw (failed ''record webhook failure'' err)
    | Inr count \<Rightarrow> ret count)"

definition pg_setWebhookActive :: "env \<Rightarrow> webhook \<Rightarrow> bool \<Rightarrow> (world, unit) io" where
  "pg_setWebhookActive E h active_flag =
    or_failed ''set webhook active''
      (exec E (sql_SetWebhookActive (whk_ID h) active_flag (whk_UpdatedAt h))) (\<lambda>_. ret ())"

definition pg_WriteSecret :: "env \<Rightarrow> string \<Rightarrow> ID \<Rightarrow> string \<Rightarrow> time \<Rightarrow> (world, unit) io" where
  "pg_WriteSecret E sourceID i secret now = wrote_webhook ''write webhook secret''
     (exec E (sql_WriteWebhookSecret i sourceID (optional secret) now))"

definition pg_ReadSecret :: "env \<Rightarrow> string \<Rightarrow> (world, ID \<times> string) io" where
  "pg_ReadSecret E sourceID =
    attempt (exec E (sql_ReadWebhookSecret sourceID)) (\<lambda>r. case r of
      Inl err \<Rightarrow> if noRows err then ret ('''', '''') else throw (failed ''read webhook secret'' err)
    | Inr (i, secret) \<Rightarrow> (case secret of None \<Rightarrow> ret (i, '''') | Some s \<Rightarrow> ret (i, s)))"

definition pg_webhooks :: "env \<Rightarrow> world webhook_repository" where
  "pg_webhooks E =
    \<lparr>wr_Create = pg_CreateWebhook E, wr_ReadBySourceID = pg_ReadWebhook E, wr_Redirect = pg_Redirect E,
     wr_RecordSuccess = pg_RecordSuccess E, wr_RecordFailure = pg_RecordFailure E,
     wr_Deactivate = (\<lambda>h. pg_setWebhookActive E h False),
     wr_Activate = (\<lambda>h. pg_setWebhookActive E h True)\<rparr>"

lemma keeps_wrote_webhook: "keeps db_step m \<Longrightarrow> keeps db_step (wrote_webhook op m)"
  by (simp add: wrote_webhook_def keeps_db)

lemma keeps_pg_webhooks:
  "keeps db_step (pg_CreateWebhook E h)" "keeps db_step (pg_ReadWebhook E s)" "keeps db_step (pg_Redirect E h)"
  "keeps db_step (pg_RecordSuccess E h)" "keeps db_step (pg_RecordFailure E h)"
  "keeps db_step (pg_setWebhookActive E h b)" "keeps db_step (pg_WriteSecret E s i x t)"
  "keeps db_step (pg_ReadSecret E s)"
  unfolding pg_CreateWebhook_def pg_ReadWebhook_def pg_Redirect_def pg_RecordSuccess_def
    pg_RecordFailure_def pg_setWebhookActive_def pg_WriteSecret_def pg_ReadSecret_def
  by (auto intro!: keeps_db keeps_wrote_webhook split: sum.split prod.split option.split)

end
