(* ===== verification/PgPeople.thy ===== *)
theory PgPeople
  imports World Accounts
begin

text \<open>
  \<open>internal/adapter/db/postgres/user.go\<close>, \<open>logincode.go\<close>, \<open>session.go\<close>,
  \<open>audit.go\<close> and \<open>capacity.go\<close>.
\<close>

subsection \<open>Users\<close>

definition toUser :: "user_row \<Rightarrow> user" where
  "toUser row =
    \<lparr>usr_ID = us_id row, usr_Email = us_email row, usr_Role = Role (us_role row),
     usr_IsActive = us_is_active row, usr_CreatedAt = us_created_at row,
     usr_UpdatedAt = us_updated_at row\<rparr>"

definition readUserErr :: "string \<Rightarrow> goerr \<Rightarrow> goerr" where
  "readUserErr what err =
    (if noRows err then WithErr (NotFoundErr ''user not found'') (Sentinel (UserE user_error.ErrNotFound))
     else failed what err)"

definition changed :: "string \<Rightarrow> (world, nat) io \<Rightarrow> (world, unit) io" where
  "changed op m = or_failed op m (\<lambda>rows.
     if rows = 0 then throw (WithStr (NotFoundErr ''nothing to change'') (Text op [])) else ret ())"

definition pg_CreateUser :: "env \<Rightarrow> user \<Rightarrow> (world, unit) io" where
  "pg_CreateUser E u =
    or_failed ''create user'' (exec E (sql_CreateUser
      \<lparr>us_id = usr_ID u, us_email = usr_Email u, us_role = Role_String (usr_Role u),
       us_is_active = usr_IsActive u, us_created_at = usr_CreatedAt u, us_updated_at = usr_UpdatedAt u\<rparr>))
      (\<lambda>_. ret ())"

definition pg_ReadByEmail :: "env \<Rightarrow> string \<Rightarrow> (world, user) io" where
  "pg_ReadByEmail E email =
    attempt (exec E (sql_ReadUserByEmail email)) (\<lambda>r. case r of
      Inl err \<Rightarrow> throw (readUserErr ''read user by email'' err) | Inr row \<Rightarrow> ret (toUser row))"

definition pg_ReadUser :: "env \<Rightarrow> ID \<Rightarrow> (world, user) io" where
  "pg_ReadUser E i =
    attempt (exec E (sql_ReadUserByID i)) (\<lambda>r. case r of
      Inl err \<Rightarrow> throw (readUserErr ''read user by id'' err) | Inr row \<Rightarrow> ret (toUser row))"

definition pg_ListUsers :: "env \<Rightarrow> int \<Rightarrow> (world, user list) io" where
  "pg_ListUsers E limit =
    or_failed ''list users'' (exec E (sql_ListUsers limit)) (\<lambda>rows. ret (map toUser rows))"

definition pg_UpdateRole :: "env \<Rightarrow> user \<Rightarrow> (world, unit) io" where
  "pg_UpdateRole E u = changed ''update user role''
     (exec E (sql_UpdateUserRole (usr_ID u) (Role_String (usr_Role u)) (usr_UpdatedAt u)))"

definition pg_SetUserActive :: "env \<Rightarrow> user \<Rightarrow> (world, unit) io" where
  "pg_SetUserActive E u = changed ''set user active''
     (exec E (sql_SetUserActive (usr_ID u) (usr_IsActive u) (usr_UpdatedAt u)))"

definition pg_users :: "env \<Rightarrow> world user_repository" where
  "pg_users E =
    \<lparr>ur_Create = pg_CreateUser E, ur_ReadByEmail = pg_ReadByEmail E, ur_ReadByID = pg_ReadUser E,
     ur_List = pg_ListUsers E, ur_UpdateRole = pg_UpdateRole E, ur_SetActive = pg_SetUserActive E\<rparr>"

lemma keeps_changed: "keeps db_step m \<Longrightarrow> keeps db_step (changed op m)"
  by (simp add: changed_def keeps_db)

lemma keeps_pg_users:
  "keeps db_step (pg_CreateUser E u)" "keeps db_step (pg_ReadByEmail E s)" "keeps db_step (pg_ReadUser E i)"
  "keeps db_step (pg_ListUsers E n)" "keeps db_step (pg_UpdateRole E u)" "keeps db_step (pg_SetUserActive E u)"
  unfolding pg_CreateUser_def pg_ReadByEmail_def pg_ReadUser_def pg_ListUsers_def pg_UpdateRole_def
    pg_SetUserActive_def
  by (auto intro!: keeps_db keeps_changed split: sum.split)

subsection \<open>Sign-in codes\<close>

definition attemptCount :: "int \<Rightarrow> int" where
  "attemptCount n = (if n < 0 then 0 else if 2147483647 < n then 2147483647 else to_int32 n)"

lemma attemptCount_bounds: "0 \<le> attemptCount n \<and> attemptCount n \<le> 2147483647"
  by (simp add: attemptCount_def to_int32_id)

definition toLoginCode :: "login_code_row \<Rightarrow> login_code" where
  "toLoginCode row =
    \<lparr>lc_ID = lo_id row, lc_UserID = lo_user_id row, lc_Code = lo_code row,
     lc_ExpiresAt = lo_expires_at row, lc_Attempts = lo_attempts row, lc_UsedAt = lo_used_at row,
     lc_CreatedAt = lo_created_at row\<rparr>"

definition login_code_row_of :: "login_code \<Rightarrow> login_code_row" where
  "login_code_row_of c =
    \<lparr>lo_id = lc_ID c, lo_user_id = lc_UserID c, lo_code = lc_Code c, lo_expires_at = lc_ExpiresAt c,
     lo_attempts = attemptCount (lc_Attempts c), lo_used_at = lc_UsedAt c, lo_created_at = lc_CreatedAt c\<rparr>"

definition wroteCode :: "string \<Rightarrow> (world, nat) io \<Rightarrow> (world, unit) io" where
  "wroteCode op m = or_failed op m (\<lambda>rows. if rows = 0 then
      throw (WithStr (WithErr (NotFoundErr ''no sign-in code'')
               (Sentinel (LogincodeE logincode_error.ErrNotFound))) (Text op []))
    else ret ())"

definition pg_CreateLoginCode :: "env \<Rightarrow> login_code \<Rightarrow> (world, unit) io" where
  "pg_CreateLoginCode E c =
    or_failed ''create login code'' (exec E (sql_CreateLoginCode (login_code_row_of c))) (\<lambda>_. ret ())"

definition pg_ReadNewest :: "env \<Rightarrow> ID \<Rightarrow> (world, login_code) io" where
  "pg_ReadNewest E userID =
    attempt (exec E (sql_ReadNewestLoginCode userID)) (\<lambda>r. case r of
      Inl err \<Rightarrow> if noRows err
        then throw (WithErr (NotFoundErr ''no sign-in code'') (Sentinel (LogincodeE logincode_error.ErrNotFound)))
        else throw (failed ''read newest login code'' err)
    | Inr row \<Rightarrow> ret (toLoginCode row))"

definition pg_Spend :: "env \<Rightarrow> login_code \<Rightarrow> (world, unit) io" where
  "pg_Spend E c = wroteCode ''spend login code''
     (exec E (sql_SpendLoginCode (lc_ID c) (attemptCount (lc_Attempts c)) (lc_UsedAt c)))"

definition pg_Forget :: "env \<Rightarrow> ID \<Rightarrow> (world, unit) io" where
  "pg_Forget E i = or_failed ''forget login code'' (exec E (sql_ForgetLoginCode i)) (\<lambda>_. ret ())"

definition pg_CountSince :: "env \<Rightarrow> ID \<Rightarrow> time \<Rightarrow> (world, int) io" where
  "pg_CountSince E userID since =
    or_failed ''count login codes'' (exec E (sql_CountLoginCodesSince userID since)) (\<lambda>n. ret (int n))"

definition pg_login_codes :: "env \<Rightarrow> world logincode_repository" where
  "pg_login_codes E =
    \<lparr>lr_Create = pg_CreateLoginCode E, lr_ReadNewest = pg_ReadNewest E, lr_Spend = pg_Spend E,
     lr_CountSince = pg_CountSince E, lr_Forget = pg_Forget E\<rparr>"

lemma keeps_wroteCode: "keeps db_step m \<Longrightarrow> keeps db_step (wroteCode op m)"
  by (simp add: wroteCode_def keeps_db)

lemma keeps_pg_login_codes:
  "keeps db_step (pg_CreateLoginCode E c)" "keeps db_step (pg_ReadNewest E i)" "keeps db_step (pg_Spend E c)"
  "keeps db_step (pg_Forget E i)" "keeps db_step (pg_CountSince E i t)"
  unfolding pg_CreateLoginCode_def pg_ReadNewest_def pg_Spend_def pg_Forget_def pg_CountSince_def
  by (auto intro!: keeps_db keeps_wroteCode split: sum.split)

subsection \<open>Sessions\<close>

definition toSession :: "session_row \<Rightarrow> session" where
  "toSession row =
    \<lparr>ses_ID = se_id row, ses_UserID = se_user_id row, ses_ExpiresAt = se_expires_at row,
     ses_LastSeenAt = se_last_seen_at row, ses_CreatedAt = se_created_at row\<rparr>"

definition wroteSession :: "string \<Rightarrow> (world, nat) io \<Rightarrow> (world, unit) io" where
  "wroteSession op m = or_failed op m (\<lambda>rows. if rows = 0 then
      throw (WithStr (WithErr (NotFoundErr ''session not found'')
               (Sentinel (SessionE session_error.ErrNotFound))) (Text op []))
    else ret ())"

definition pg_CreateSession :: "env \<Rightarrow> session \<Rightarrow> (world, unit) io" where
  "pg_CreateSession E s =
    or_failed ''create session'' (exec E (sql_CreateSession
      \<lparr>se_id = ses_ID s, se_user_id = ses_UserID s, se_expires_at = ses_ExpiresAt s,
       se_last_seen_at = ses_LastSeenAt s, se_created_at = ses_CreatedAt s\<rparr>)) (\<lambda>_. ret ())"

definition pg_ReadSession :: "env \<Rightarrow> ID \<Rightarrow> (world, session) io" where
  "pg_ReadSession E i =
    attempt (exec E (sql_ReadSession i)) (\<lambda>r. case r of
      Inl err \<Rightarrow> if noRows err
        then throw (WithErr (NotFoundErr ''session not found'') (Sentinel (SessionE session_error.ErrNotFound)))
        else throw (failed ''read session'' err)
    | Inr row \<Rightarrow> ret (toSession row))"

definition pg_TouchSession :: "env \<Rightarrow> session \<Rightarrow> (world, unit) io" where
  "pg_TouchSession E s =
     wroteSession ''touch session'' (exec E (sql_TouchSession (ses_ID s) (ses_LastSeenAt s)))"

definition pg_DeleteSession :: "env \<Rightarrow> ID \<Rightarrow> (world, unit) io" where
  "pg_DeleteSession E i = wroteSession ''delete session'' (exec E (sql_DeleteSession i))"

definition pg_sessions :: "env \<Rightarrow> world session_repository" where
  "pg_sessions E =
    \<lparr>ser_Create = pg_CreateSession E, ser_Read = pg_ReadSession E, ser_Touch = pg_TouchSession E,
     ser_Delete = pg_DeleteSession E\<rparr>"

lemma keeps_wroteSession: "keeps db_step m \<Longrightarrow> keeps db_step (wroteSession op m)"
  by (simp add: wroteSession_def keeps_db)

lemma keeps_pg_sessions:
  "keeps db_step (pg_CreateSession E s)" "keeps db_step (pg_ReadSession E i)"
  "keeps db_step (pg_TouchSession E s)" "keeps db_step (pg_DeleteSession E i)"
  unfolding pg_CreateSession_def pg_ReadSession_def pg_TouchSession_def pg_DeleteSession_def
  by (auto intro!: keeps_db keeps_wroteSession split: sum.split)

end
