(* ===== verification/Dispatch.thy ===== *)
theory Dispatch
  imports PgMessages PgSources
begin

text \<open>
  \<open>internal/core/usecase/dispatch.go\<close>: one delivery sent and its outcome written down. Logging
  has no effect on the state and is left out; everything else is polymorphic in the state behind the
  ports. The second half puts the dispatcher on the Postgres repositories and the outside of
  \<open>World\<close>, and proves what the broker's acknowledgement and a provider's call mean there.
\<close>

record 'w dispatcher =
  d_lib :: golib
  d_notifs :: "'w notification_service"
  d_deliveries :: "'w tracker"
  d_webhooks :: "'w webhook_service"
  d_senders :: "'w sender_registry"
  d_notifier :: "'w notifier"
  d_newID :: "'w IDFunc"
  d_now :: "'w NowFunc"
  d_maxWebhookFailures :: int
  d_maxAttempts :: int
  d_after :: duration
  d_giveUp :: duration
  d_batch :: int
  d_lease :: duration

text \<open>The recorders' result without the copy they leave in the caller's hands.\<close>

definition outcome_only :: "('w \<Rightarrow> (unit result \<times> delivery) \<times> 'w) \<Rightarrow> ('w, unit) io" where
  "outcome_only m w = (case m w of ((r, d), w') \<Rightarrow> (r, w'))"

definition settled_result :: "unit result \<Rightarrow> unit result" where
  "settled_result r = (case r of
      Inl err \<Rightarrow> if is_err err (DeliveryE ErrInvalidTransition) \<or> is_err err (DeliveryE ErrAlreadySettled)
        then Inr () else Inl err
    | Inr u \<Rightarrow> Inr u)"

definition settled_call :: "('w, unit) io \<Rightarrow> ('w, unit) io" where
  "settled_call m = attempt m (\<lambda>r. lift (settled_result r))"

definition results :: "delivery list \<Rightarrow> outcome_result list" where
  "results ds = map (\<lambda>d.
    \<lparr>res_DeliveryID = dlv_ID d, res_Channel = Channel_String (rcp_Channel (dlv_Recipient d)),
     res_Address = rcp_Address (dlv_Recipient d), res_Status = Status_String (dlv_status d),
     res_SettledAt = dlv_updatedAt d, res_Reason = Failure_String (dlv_failureReason d),
     res_ProviderMessageID = dlv_providerMessageID d\<rparr>) ds"

definition announce_to ::
    "'w dispatcher \<Rightarrow> notification \<Rightarrow> delivery list \<Rightarrow> webhook \<Rightarrow> ('w, unit) io" where
  "announce_to D n ds h =
    attempt (Tracker_ClaimAnnouncement (d_deliveries D) (ntf_ID n)) (\<lambda>mine.
    case mine of
      Inl err \<Rightarrow> ret ()
    | Inr False \<Rightarrow> ret ()
    | Inr True \<Rightarrow>
        call (d_newID D) (\<lambda>i.
        call (d_now D) (\<lambda>t.
        attempt (ntf_Notify (d_notifier D) h
            \<lparr>bat_ID = i, bat_NotificationID = ntf_ID n, bat_SentAt = t, bat_Results = results ds\<rparr>)
          (\<lambda>r. case r of
             Inl err \<Rightarrow> ignoring (webhook_RecordFailure (d_webhooks D) h (d_maxWebhookFailures D)) (ret ())
           | Inr _ \<Rightarrow> ignoring (webhook_RecordSuccess (d_webhooks D) h) (ret ())))))"

definition announce :: "'w dispatcher \<Rightarrow> notification option \<Rightarrow> ('w, unit) io" where
  "announce D n_opt =
    (case n_opt of
       None \<Rightarrow> ret ()
     | Some n \<Rightarrow>
         attempt (ListAllForNotification (d_deliveries D) (ntf_ID n)) (\<lambda>r.
         case r of
           Inl err \<Rightarrow> ret ()
         | Inr ds \<Rightarrow>
             if \<not> list_all IsSettled ds then ret ()
             else attempt (webhook_Get (d_webhooks D) (ntf_SourceID n)) (\<lambda>r.
             case r of
               Inl err \<Rightarrow> ret ()
             | Inr None \<Rightarrow> ret ()
             | Inr (Some h) \<Rightarrow> if \<not> whk_isActive h then ret () else announce_to D n ds h)))"

definition fail ::
    "'w dispatcher \<Rightarrow> delivery \<Rightarrow> notification option \<Rightarrow> failure_reason \<Rightarrow> string \<Rightarrow> ('w, unit) io" where
  "fail D del n reason detail =
    and_then (settled_call (outcome_only
        (RecordFailure (d_deliveries D) del reason detail (dlv_attempts del + 1)))) (\<lambda>_.
    announce D n)"

definition sendFailed ::
    "'w dispatcher \<Rightarrow> delivery \<Rightarrow> notification \<Rightarrow> goerr \<Rightarrow> bool \<Rightarrow> ('w, unit) io" where
  "sendFailed D del n err lastChance =
    (case SendKindOf err of
       SendUnreachable \<Rightarrow> fail D del (Some n) FailureNotReachable (Error (d_lib D) err)
     | SendPermanent \<Rightarrow> fail D del (Some n) FailurePermanent (Error (d_lib D) err)
     | SendTransient \<Rightarrow>
         if lastChance then fail D del (Some n) FailureMaxAttempts (Error (d_lib D) err)
         else ignoring (Tracker_Release (d_deliveries D) del) (throw err))"

definition deliver_message ::
    "'w dispatcher \<Rightarrow> delivery \<Rightarrow> bool \<Rightarrow> notification \<Rightarrow> ('w, unit) io" where
  "deliver_message D del lastChance n =
    attempt (reg_For (d_senders D) (ntf_SourceID n) (rcp_Channel (dlv_Recipient del)) (dlv_SenderName del))
      (\<lambda>r. case r of
         Inl err \<Rightarrow>
           if IsType err ErrInvalidInput
           then fail D del (Some n) FailureNoSender (Error (d_lib D) err) else throw err
       | Inr s \<Rightarrow>
           attempt (snd_Send s \<lparr>msg_DeliveryID = dlv_ID del, msg_Recipient = dlv_Recipient del,
               msg_Title = ntf_Title n, msg_Body = ntf_Body n,
               msg_Metadata = (case Metadata n of None \<Rightarrow> [] | Some m \<Rightarrow> m)\<rparr>)
             (\<lambda>r. case r of
                Inl err \<Rightarrow> sendFailed D del n err lastChance
              | Inr providerID \<Rightarrow>
                  and_then (settled_call (outcome_only
                      (RecordSent (d_deliveries D) del providerID (dlv_attempts del + 1)))) (\<lambda>_.
                  announce D (Some n))))"

definition deliver :: "'w dispatcher \<Rightarrow> delivery \<Rightarrow> bool \<Rightarrow> ('w, unit) io" where
  "deliver D del lastChance =
    attempt (notification_Get (d_notifs D) (dlv_NotificationID del)) (\<lambda>r. case r of
      Inl err \<Rightarrow>
        if \<not> is_err err (NotificationE notification_error.ErrNotFound) then throw err
        else fail D del None FailurePermanent ''message is gone''
    | Inr n \<Rightarrow>
        call (d_now D) (\<lambda>now.
        if IsExpired n now then fail D del (Some n) FailureExpired ''''
        else deliver_message D del lastChance n))"

definition Handle :: "'w dispatcher \<Rightarrow> ID \<Rightarrow> int \<Rightarrow> ('w, unit) io" where
  "Handle D i attempts =
    attempt (Tracker_Get (d_deliveries D) i) (\<lambda>r. case r of
      Inl err \<Rightarrow>
        if \<not> is_err err (DeliveryE delivery_error.ErrNotFound) then throw err else ret ()
    | Inr del \<Rightarrow> if IsSettled del then ret () else deliver D del (d_maxAttempts D \<le> attempts))"

fun Recover_loop :: "'w dispatcher \<Rightarrow> time \<Rightarrow> delivery list \<Rightarrow> ('w, unit) io" where
  "Recover_loop D now [] = ret ()"
| "Recover_loop D now (del # rest) =
     ignoring (deliver D del (d_giveUp D \<le> time_Sub now (dlv_updatedAt del))) (Recover_loop D now rest)"

definition Recover :: "'w dispatcher \<Rightarrow> ('w, unit) io" where
  "Recover D =
    and_then (Tracker_ClaimStale (d_deliveries D) (d_after D) (d_lease D) (d_batch D)) (\<lambda>stale.
    call (d_now D) (\<lambda>now. Recover_loop D now stale))"


subsection \<open>The dispatcher of the deployment\<close>

text \<open>
  How \<open>internal/bootstrap/dispatcher.go\<close> puts the parts together; the numbers come from the
  configuration.
\<close>

record dispatch_settings =
  cfg_MaxAttempts :: int
  cfg_MaxFailures :: int
  cfg_ReconcileAfter :: duration
  cfg_ReconcileGiveUp :: duration
  cfg_ReconcileLease :: duration
  cfg_ReconcileBatch :: int
  cfg_RetentionAge :: duration
  cfg_policy :: url_policy

definition deployed_dispatcher :: "env \<Rightarrow> dispatch_settings \<Rightarrow> world dispatcher" where
  "deployed_dispatcher E c =
    \<lparr>d_lib = lib E,
     d_notifs = \<lparr>ns_repo = pg_notifications E, ns_newID = NewID E, ns_now = Now E, ns_keeps = cfg_RetentionAge c\<rparr>,
     d_deliveries = pg_tracker E,
     d_webhooks = \<lparr>ws_repo = pg_webhooks E, ws_newID = NewID E, ws_now = Now E, ws_policy = cfg_policy c\<rparr>,
     d_senders = outside_senders E, d_notifier = outside_notifier E, d_newID = NewID E, d_now = Now E,
     d_maxWebhookFailures = cfg_MaxFailures c, d_maxAttempts = cfg_MaxAttempts c,
     d_after = cfg_ReconcileAfter c, d_giveUp = cfg_ReconcileGiveUp c, d_batch = cfg_ReconcileBatch c,
     d_lease = cfg_ReconcileLease c\<rparr>"

lemma deployed_simps [simp]:
  "d_deliveries (deployed_dispatcher E c) = pg_tracker E"
  "d_senders (deployed_dispatcher E c) = outside_senders E"
  "d_notifier (deployed_dispatcher E c) = outside_notifier E"
  "d_newID (deployed_dispatcher E c) = NewID E" "d_now (deployed_dispatcher E c) = Now E"
  "ws_repo (d_webhooks (deployed_dispatcher E c)) = pg_webhooks E"
  "ws_now (d_webhooks (deployed_dispatcher E c)) = Now E"
  "ns_repo (d_notifs (deployed_dispatcher E c)) = pg_notifications E"
  by (simp_all add: deployed_dispatcher_def)

lemma keeps_recorders:
  "keeps db_step (outcome_only (RecordSent (pg_tracker E) d pid n))"
  "keeps db_step (outcome_only (RecordFailure (pg_tracker E) d reason detail n))"
proof -
  have up: "keeps db_step (call (Now E) (\<lambda>t. case f t of Inl e \<Rightarrow> throw e | Inr x \<Rightarrow> pg_UpdateDelivery E x))"
    for f :: "time \<Rightarrow> delivery result"
    by (auto intro!: keeps_db keeps_pg_deliveries split: sum.split)
  have "outcome_only (RecordSent (pg_tracker E) d pid n) =
      call (Now E) (\<lambda>t. case MarkSent d pid n t of Inl e \<Rightarrow> throw e | Inr x \<Rightarrow> pg_UpdateDelivery E x)"
    by (rule ext) (auto simp: outcome_only_def RecordSent_def call_def pg_tracker_def pg_deliveries_def
        split: prod.split sum.split)
  with up show "keeps db_step (outcome_only (RecordSent (pg_tracker E) d pid n))" by simp
  have "outcome_only (RecordFailure (pg_tracker E) d reason detail n) =
      call (Now E) (\<lambda>t. case MarkFailed d reason detail n t of Inl e \<Rightarrow> throw e | Inr x \<Rightarrow> pg_UpdateDelivery E x)"
    by (rule ext) (auto simp: outcome_only_def RecordFailure_def call_def pg_tracker_def pg_deliveries_def
        split: prod.split sum.split)
  with up show "keeps db_step (outcome_only (RecordFailure (pg_tracker E) d reason detail n))" by simp
qed

lemma keeps_services:
  "keeps db_step (Tracker_Get (pg_tracker E) i)"
  "keeps db_step (ListAllForNotification (pg_tracker E) i)"
  "keeps db_step (Tracker_ClaimStale (pg_tracker E) a b n)"
  "keeps db_step (Tracker_ClaimAnnouncement (pg_tracker E) i)"
  "keeps db_step (Tracker_Release (pg_tracker E) d)"
  "keeps db_step (notification_Get (d_notifs (deployed_dispatcher E c)) i)"
  "keeps db_step (webhook_Get (d_webhooks (deployed_dispatcher E c)) s)"
  "keeps db_step (webhook_RecordSuccess (d_webhooks (deployed_dispatcher E c)) h)"
  "keeps db_step (webhook_RecordFailure (d_webhooks (deployed_dispatcher E c)) h k)"
  by (auto intro!: keeps_db keeps_pg_deliveries keeps_pg_notifications keeps_pg_webhooks
      simp: Tracker_Get_def ListAllForNotification_def Tracker_ClaimStale_def
        Tracker_ClaimAnnouncement_def Tracker_Release_def notification_Get_def webhook_Get_def
        webhook_RecordSuccess_def webhook_RecordFailure_def pg_tracker_def pg_deliveries_def
        pg_notifications_def pg_webhooks_def Let_def)

lemma keeps_settled_call: "keeps db_step m \<Longrightarrow> keeps db_step (settled_call m)"
  unfolding settled_call_def by (intro keeps_db)

lemmas keeps_dispatch = keeps_services keeps_recorders [THEN keeps_settled_call]

lemma grows_announce: "keeps grows (announce (deployed_dispatcher E c) n)"
  unfolding announce_def announce_to_def
  by (auto intro!: keeps_grows keeps_dispatch [THEN keeps_grows_of] simp: outside_notifier_def
      split: option.split sum.split bool.split)

lemma grows_fail: "keeps grows (fail (deployed_dispatcher E c) d n reason detail)"
  unfolding fail_def by (auto intro!: keeps_grows keeps_dispatch [THEN keeps_grows_of] grows_announce)

lemma outside_For_sender:
  "outside_For E s c n w = (Inr x, w') \<Longrightarrow> snd_Send x = outside_Send E"
  by (auto simp: outside_For_def split: option.splits)

text \<open>The sender the registry answers is one of the outside.\<close>

lemma attempt_For:
  "attempt (outside_For E s c n) f w =
     f (case identity_refused E (w_lookups w) s c n of Some e \<Rightarrow> Inl e
          | None \<Rightarrow> Inr \<lparr>snd_Channel = c, snd_Send = outside_Send E\<rparr>) (w\<lparr>w_lookups := Suc (w_lookups w)\<rparr>)"
  by (simp add: attempt_def outside_For_def)

lemma grows_For:
  assumes "\<And>e. keeps grows (f (Inl e))" "\<And>c. keeps grows (f (Inr \<lparr>snd_Channel = c, snd_Send = outside_Send E\<rparr>))"
  shows "keeps grows (attempt (outside_For E s c n) f)"
proof
  fix w
  have "grows w (w\<lparr>w_lookups := Suc (w_lookups w)\<rparr>)" by (simp add: grows_same_db)
  with assms show "grows w (snd (attempt (outside_For E s c n) f w))"
    by (auto simp: attempt_For keeps_def intro: grows_trans split: option.split)
qed

lemma grows_sendFailed: "keeps grows (sendFailed (deployed_dispatcher E c) d n err last_chance)"
  unfolding sendFailed_def
  by (auto intro!: keeps_grows keeps_dispatch [THEN keeps_grows_of] grows_fail split: send_kind.split)

lemma grows_deliver: "keeps grows (deliver (deployed_dispatcher E c) d last_chance)"
  unfolding deliver_def deliver_message_def
  by (auto intro!: keeps_grows keeps_dispatch [THEN keeps_grows_of] grows_fail grows_For grows_announce
      grows_sendFailed simp: outside_senders_def split: sum.split)

lemma grows_Handle: "keeps grows (Handle (deployed_dispatcher E c) i n)"
  unfolding Handle_def
  by (auto intro!: keeps_grows keeps_dispatch [THEN keeps_grows_of] grows_deliver split: sum.split)

subsection \<open>What an acknowledgement means\<close>

text \<open>
  \<open>ends w0 i m\<close>: run from any state the deployment reached from \<open>w0\<close>, \<open>m\<close> returns nil
  only when delivery \<open>i\<close> is settled, or gone with its message.
\<close>

definition settled_or_gone :: "world \<Rightarrow> ID \<Rightarrow> bool" where
  "settled_or_gone w i \<longleftrightarrow> (case stored_delivery w i of None \<Rightarrow> True | Some row \<Rightarrow> IsSettled row)"

lemma settled_or_gone_concluded: "settled_or_gone w i \<longleftrightarrow> pg_store.concluded w i"
  by (simp add: settled_or_gone_def pg_store.concluded_def)

definition begun :: "world \<Rightarrow> ID \<Rightarrow> bool" where
  "begun w i \<longleftrightarrow> world_ok w \<and> stored_delivery w i \<noteq> None"

definition ends :: "world \<Rightarrow> ID \<Rightarrow> (world, unit) io \<Rightarrow> bool" where
  "ends w0 i m \<longleftrightarrow> (\<forall>w w'. grows w0 w \<longrightarrow> m w = (Inr (), w') \<longrightarrow> settled_or_gone w' i)"

lemma settled_or_gone_stays:
  "begun w0 i \<Longrightarrow> grows w0 w1 \<Longrightarrow> settled_or_gone w1 i \<Longrightarrow> grows w1 w2 \<Longrightarrow> settled_or_gone w2 i"
  unfolding begun_def settled_or_gone_concluded by (elim conjE) (rule pg_store.concluded_stays)

lemma ends_throw: "ends w0 i (throw e)"
  by (simp add: ends_def)

lemma ends_and_then:
  assumes "begun w0 i" "ends w0 i m" "keeps grows m" "\<And>x. keeps grows (f x)"
  shows "ends w0 i (and_then m f)"
  unfolding ends_def
proof (intro allI impI)
  fix w w'
  assume w: "grows w0 w" and "and_then m f w = (Inr (), w')"
  then obtain w1 where m: "m w = (Inr (), w1)" and f: "f () w1 = (Inr (), w')"
    by (auto simp: and_then_Inr)
  have "settled_or_gone w1 i" using assms(2) w m unfolding ends_def by blast
  moreover have "grows w0 w1" by (rule grows_trans [OF w keepsD [OF assms(3) m]])
  ultimately show "settled_or_gone w' i"
    by (rule settled_or_gone_stays [OF assms(1) _ _ keepsD [OF assms(4) f], rotated])
qed

lemma ends_attempt:
  assumes "keeps grows m" "\<And>x. ends w0 i (f x)"
  shows "ends w0 i (attempt m f)"
  using assms unfolding ends_def attempt_eq by (meson grows_trans keepsD)

lemma ends_call:
  assumes "keeps grows m" "\<And>x. ends w0 i (f x)"
  shows "ends w0 i (call m f)"
  using assms unfolding ends_def call_eq by (meson grows_trans keepsD)

lemma ends_ignoring: "keeps grows m \<Longrightarrow> ends w0 i k \<Longrightarrow> ends w0 i (ignoring m k)"
  unfolding ignoring_def by (rule ends_attempt)

lemma ends_For:
  assumes "\<And>e. ends w0 i (f (Inl e))"
    "\<And>c. ends w0 i (f (Inr \<lparr>snd_Channel = c, snd_Send = outside_Send E\<rparr>))"
  shows "ends w0 i (attempt (outside_For E s c n) f)"
  unfolding ends_def attempt_For
proof (intro allI impI)
  fix w w'
  assume "grows w0 w"
  then have "grows w0 (w\<lparr>w_lookups := Suc (w_lookups w)\<rparr>)" by (rule grows_trans) (simp add: grows_same_db)
  moreover assume "f (case identity_refused E (w_lookups w) s c n of Some e \<Rightarrow> Inl e
      | None \<Rightarrow> Inr \<lparr>snd_Channel = c, snd_Send = outside_Send E\<rparr>) (w\<lparr>w_lookups := Suc (w_lookups w)\<rparr>) = (Inr (), w')"
  ultimately show "settled_or_gone w' i"
    using assms unfolding ends_def by (cases "identity_refused E (w_lookups w) s c n") auto
qed

lemma ends_recorders:
  assumes "begun w0 (dlv_ID d)" "dlv_status d = StatusPending"
  shows "ends w0 (dlv_ID d) (settled_call (outcome_only (RecordSent (pg_tracker E) d pid n)))"
    and "Failure_Valid reason \<Longrightarrow>
      ends w0 (dlv_ID d) (settled_call (outcome_only (RecordFailure (pg_tracker E) d reason detail n)))"
proof -
  have conc: "settled_or_gone w' (dlv_ID d)"
    if "settled_result r = Inr ()" "world_ok w"
      "RecordSent (pg_tracker E) d pid n w = ((r, d'), w') \<or>
       Failure_Valid reason \<and> RecordFailure (pg_tracker E) d reason detail n w = ((r, d'), w')"
    for r w d' w'
  proof -
    have "\<not> is_err e (DeliveryE ErrInvalidTransition)"
      if "r = Inl e" "is_err e (DeliveryE ErrInvalidTransition)" for e
    proof -
      have "\<not> is_err e (DeliveryE ErrInvalidTransition)" if "pg_UpdateDelivery E x v = (Inl e, v')" for x v v'
      proof -
        have "\<not> is_err err s" if "exec E (sql_UpdateDelivery oc) v = (Inl err, v1)" for err s oc v1
        proof -
          have "err = check_violation" if "sql_UpdateDelivery oc db = (Inl err, db')" for db db'
            using that by (auto simp: sql_UpdateDelivery_def Let_def split: if_splits)
          then show ?thesis using exec_Inl [OF that] driver_errors by metis
        qed
        with that show ?thesis by (auto simp: pg_UpdateDelivery_def or_failed_eq split: if_splits)
      qed
      with \<open>RecordSent (pg_tracker E) d pid n w = ((r, d'), w') \<or> _\<close> that(1) assms(2) show ?thesis
        by (auto simp: RecordSent_def RecordFailure_def MarkSent_def MarkFailed_def moveTo_def
            CanTransitionTo_iff pg_tracker_def pg_deliveries_def split: prod.splits)
    qed
    with that(1) have "r = Inr () \<or> (\<exists>e. r = Inl e \<and> is_err e (DeliveryE ErrAlreadySettled))"
      by (auto simp: settled_result_def split: sum.splits if_splits)
    with that(3) pg_store.recorders_conclude [OF that(2) assms(2)] show ?thesis
      unfolding settled_or_gone_concluded pg_tracker_def by blast
  qed
  have run: "\<exists>r d'. settled_result r = Inr () \<and> m w = ((r, d'), w')"
    if "settled_call (outcome_only m) w = (Inr (), w')" for m :: "world \<Rightarrow> (unit result \<times> delivery) \<times> world" and w w'
    using that by (auto simp: settled_call_def attempt_eq outcome_only_def split: prod.splits)
  have ok: "world_ok w" if "grows w0 w" for w
    using world_ok_grows [OF that] assms(1) by (simp add: begun_def)
  show "ends w0 (dlv_ID d) (settled_call (outcome_only (RecordSent (pg_tracker E) d pid n)))"
    unfolding ends_def using run conc ok by blast
  show "ends w0 (dlv_ID d) (settled_call (outcome_only (RecordFailure (pg_tracker E) d reason detail n)))"
    if "Failure_Valid reason"
    unfolding ends_def using run conc ok that by blast
qed


lemma ends_fail:
  assumes "begun w0 (dlv_ID d)" "dlv_status d = StatusPending" "Failure_Valid reason"
  shows "ends w0 (dlv_ID d) (fail (deployed_dispatcher E c) d n reason detail)"
  unfolding fail_def using assms
  by (auto intro!: ends_and_then ends_recorders grows_announce keeps_dispatch [THEN keeps_grows_of])

lemma ends_sendFailed:
  assumes "begun w0 (dlv_ID d)" "dlv_status d = StatusPending"
  shows "ends w0 (dlv_ID d) (sendFailed (deployed_dispatcher E c) d n err last_chance)"
  unfolding sendFailed_def using assms
  by (auto intro!: ends_fail ends_ignoring ends_throw keeps_dispatch [THEN keeps_grows_of]
      split: send_kind.split)

lemma ends_deliver:
  assumes "begun w0 (dlv_ID d)" "dlv_status d = StatusPending"
  shows "ends w0 (dlv_ID d) (deliver (deployed_dispatcher E c) d last_chance)"
  unfolding deliver_def deliver_message_def using assms
  by (auto intro!: ends_attempt ends_call ends_fail ends_throw ends_For ends_and_then ends_sendFailed
      ends_recorders keeps_grows keeps_dispatch [THEN keeps_grows_of] grows_announce
      simp: outside_senders_def split: sum.split)

lemma pg_ReadDelivery_missing:
  assumes "pg_ReadDelivery E i w = (Inl e, w')" "is_err e (DeliveryE delivery_error.ErrNotFound)"
  shows "stored_delivery w' i = None"
proof -
  from assms(1) consider
      (query) e1 where "exec E (sql_ReadDelivery i) w = (Inl e1, w')"
        "e = (if noRows e1 then WithErr (NotFoundErr ''delivery not found'')
            (Sentinel (DeliveryE delivery_error.ErrNotFound)) else failed ''read delivery'' e1)"
    | (row) row where "toDelivery row = Inl e"
    by (auto simp: pg_ReadDelivery_def attempt_sum_eq split: if_splits)
  then show ?thesis
  proof cases
    case query
    have none: "e2 = pgx_ErrNoRows" if "sql_ReadDelivery i db = (Inl e2, db')" for e2 db db'
      using that by (auto simp: sql_ReadDelivery_def one_row_def split: option.splits)
    then have "\<not> is_err e1 s" for s using exec_Inl [OF query(1)] driver_errors by metis
    with query(2) assms(2) have "e1 = pgx_ErrNoRows" by (auto simp: noRows_def split: if_splits)
    with exec_Inl [OF query(1)] have "\<exists>m::world. sql_ReadDelivery i (w_db m) = (Inl pgx_ErrNoRows, w_db w')"
      by auto
    then show ?thesis
      by (auto simp: sql_ReadDelivery_def one_row_def stored_delivery_def split: option.splits)
  next
    case row
    with assms(2) show ?thesis by (auto simp: toDelivery_def Let_def split: if_splits)
  qed
qed

lemma Tracker_Get_read:
  assumes "Tracker_Get (pg_tracker E) i w = (r, w')" "world_ok w"
  shows "case r of
      Inr d \<Rightarrow> dlv_ID d = i \<and> (IsSettled d \<or> dlv_status d = StatusPending) \<and> stored_delivery w' i = Some d
    | Inl e \<Rightarrow> is_err e (DeliveryE delivery_error.ErrNotFound) \<longrightarrow> stored_delivery w' i = None"
proof -
  have run: "pg_ReadDelivery E i w = (r, w')"
    using assms(1) by (simp add: Tracker_Get_def pg_tracker_def pg_deliveries_def)
  have "grows w w'" using keepsD [OF keeps_pg_deliveries(2) run] by (simp add: db_step_def)
  then have w': "world_ok w'" by (rule world_ok_grows [OF _ assms(2)])
  show ?thesis
  proof (cases r)
    case (Inr d)
    then have st: "stored_delivery w' i = Some d" using pg_ReadDelivery_found run by simp
    then obtain row where "row \<in> set (t_deliveries (w_db w'))" "dl_id row = i" "d = delivery_of_row row"
      using w' by (auto simp: stored_delivery_iff)
    with w' world_ok_row have "dlv_ID d = i \<and> (IsSettled d \<or> dlv_status d = StatusPending)"
      using row_settled by (auto simp: delivery_row_ok_def)
    with st Inr show ?thesis by simp
  next
    case (Inl e)
    with run pg_ReadDelivery_missing show ?thesis by simp
  qed
qed

text \<open>The announcement never fails the delivery it is made for.\<close>

lemma announce_nil: "fst (announce D n w) = Inr ()"
  by (auto simp: announce_def announce_to_def attempt_def call_def ignoring_def
      split: option.split prod.split sum.split bool.split)

text \<open>A delivery that is sent: each step of the path, then its end.\<close>

lemma Handle_sent:
  assumes "Tracker_Get (pg_tracker E) i w = (Inr d, w1)" "\<not> IsSettled d"
    and "pg_ReadNotification E (dlv_NotificationID d) w1 = (Inr n, w2)"
    and "\<not> IsExpired n (clock E (w_clock w2))"
    and "identity_refused E (w_lookups w2) (ntf_SourceID n) (rcp_Channel (dlv_Recipient d)) (dlv_SenderName d) = None"
    and "outside_Send E \<lparr>msg_DeliveryID = dlv_ID d, msg_Recipient = dlv_Recipient d,
        msg_Title = ntf_Title n, msg_Body = ntf_Body n,
        msg_Metadata = (case Metadata n of None \<Rightarrow> [] | Some m \<Rightarrow> m)\<rparr>
      (w2\<lparr>w_clock := Suc (w_clock w2), w_lookups := Suc (w_lookups w2)\<rparr>) = (Inr pid, w3)"
    and "settled_result (fst (fst (RecordSent (pg_tracker E) d pid (dlv_attempts d + 1) w3))) = Inr ()"
  shows "fst (Handle (deployed_dispatcher E c) i k w) = Inr ()"
proof -
  obtain d' w4 r where rec: "RecordSent (pg_tracker E) d pid (dlv_attempts d + 1) w3 = ((r, d'), w4)"
    by (metis prod.collapse)
  have "notification_Get (d_notifs (deployed_dispatcher E c)) = pg_ReadNotification E"
    by (rule ext) (simp add: notification_Get_def pg_notifications_def)
  then show ?thesis
    using assms rec
    by (simp add: Handle_def attempt_def deliver_def call_def Now_def deliver_message_def
        outside_senders_def outside_For_def settled_call_def outcome_only_def and_then_def announce_nil)
qed

definition demo_settings :: dispatch_settings where
  "demo_settings =
    \<lparr>cfg_MaxAttempts = 5, cfg_MaxFailures = 3, cfg_ReconcileAfter = 60, cfg_ReconcileGiveUp = 600,
     cfg_ReconcileLease = 120, cfg_ReconcileBatch = 10, cfg_RetentionAge = 1000000, cfg_policy = Strict\<rparr>"

definition demo_message :: notification where
  "demo_message = \<lparr>ntf_ID = demo_id CHR ''3'', ntf_SourceID = demo_id CHR ''2'', ntf_IdempotencyKey = ''k'',
     ntf_SourceName = ''shop'', ntf_Title = '''', ntf_Body = ''hi'', ntf_RequestedPriority = PriorityNormal,
     ntf_EffectivePriority = PriorityNormal, ntf_ExpireAt = None, ntf_CreatedAt = 20, ntf_metadata = Some []\<rparr>"

definition demo_outgoing :: message where
  "demo_outgoing = \<lparr>msg_DeliveryID = demo_id CHR ''4'',
     msg_Recipient = \<lparr>rcp_Channel = ChannelTelegram, rcp_Address = ''@channel_name''\<rparr>,
     msg_Title = '''', msg_Body = ''hi'', msg_Metadata = []\<rparr>"

lemma quiet_reads:
  assumes "quiet E" "w_tx w = NoTx"
  shows "snd (pg_ReadDelivery E i w) = w\<lparr>w_trips := Suc (w_trips w)\<rparr>"
    and "snd (pg_ReadNotification E i w) = w\<lparr>w_trips := Suc (w_trips w)\<rparr>"
proof -
  have rd: "exec E stmt w = (fst (stmt (w_db w)), w\<lparr>w_trips := Suc (w_trips w)\<rparr>)"
    if "snd (stmt (w_db w)) = w_db w" for stmt :: "'a stmt"
    using assms that
    by (simp add: quiet_def exec_def begin_trip_quiet [OF assms(1)] abort_on_def Let_def split_beta)
  have "exec E (sql_ReadDelivery i) w = (fst (sql_ReadDelivery i (w_db w)), w\<lparr>w_trips := Suc (w_trips w)\<rparr>)"
    "exec E (sql_ReadNotification i) w = (fst (sql_ReadNotification i (w_db w)), w\<lparr>w_trips := Suc (w_trips w)\<rparr>)"
    by (rule rd, simp add: sql_ReadDelivery_def sql_ReadNotification_def)+
  then show "snd (pg_ReadDelivery E i w) = w\<lparr>w_trips := Suc (w_trips w)\<rparr>"
    "snd (pg_ReadNotification E i w) = w\<lparr>w_trips := Suc (w_trips w)\<rparr>"
    by (simp_all add: pg_ReadDelivery_def pg_ReadNotification_def attempt_def split: sum.split)
qed

lemma demo_path:
  "fst (pg_ReadDelivery demo_env (demo_id CHR ''4'') demo_world) = Inr (demo_read CHR ''4'')"
  "fst (pg_ReadNotification demo_env (demo_id CHR ''3'') (demo_world\<lparr>w_trips := Suc 0\<rparr>)) = Inr demo_message"
  "settled_result (fst (fst (RecordSent (pg_tracker demo_env) (demo_read CHR ''4'') ''provider-1'' 1
     (demo_world\<lparr>w_trips := Suc (Suc 0), w_clock := Suc 0, w_lookups := Suc 0, w_sent := [demo_outgoing]\<rparr>)))) = Inr ()"
  "\<not> IsSettled (demo_read CHR ''4'')" "dlv_ID (demo_read CHR ''4'') = demo_id CHR ''4''"
  "dlv_NotificationID (demo_read CHR ''4'') = demo_id CHR ''3''" "dlv_attempts (demo_read CHR ''4'') = 0"
  "dlv_Recipient (demo_read CHR ''4'') = msg_Recipient demo_outgoing"
  by (code_simp, code_simp, code_simp, code_simp, code_simp, code_simp, code_simp, code_simp)

lemma demo_quiet: "quiet demo_env" "w_tx demo_world = NoTx" "w_trips demo_world = 0"
  by (simp_all add: quiet_def demo_env_def demo_world_def)

lemma demo_Handle:
  "fst (Handle (deployed_dispatcher demo_env demo_settings) (demo_id CHR ''4'') 1 demo_world) = Inr ()"
proof (rule Handle_sent [OF _ demo_path(4)])
  show "Tracker_Get (pg_tracker demo_env) (demo_id CHR ''4'') demo_world
      = (Inr (demo_read CHR ''4''), demo_world\<lparr>w_trips := Suc 0\<rparr>)"
    using quiet_reads(1) [OF demo_quiet(1,2)] demo_path(1)
    by (simp add: prod_eq_iff demo_quiet Tracker_Get_def pg_tracker_def pg_deliveries_def)
  show "pg_ReadNotification demo_env (dlv_NotificationID (demo_read CHR ''4'')) (demo_world\<lparr>w_trips := Suc 0\<rparr>)
      = (Inr demo_message, demo_world\<lparr>w_trips := Suc (Suc 0)\<rparr>)"
    using quiet_reads(2) [OF demo_quiet(1), of "demo_world\<lparr>w_trips := Suc 0\<rparr>"] demo_path(2)
    by (simp add: prod_eq_iff demo_quiet demo_path(6))
  show "settled_result (fst (fst (RecordSent (pg_tracker demo_env) (demo_read CHR ''4'') ''provider-1''
      (dlv_attempts (demo_read CHR ''4'') + 1)
      (demo_world\<lparr>w_trips := Suc (Suc 0), w_clock := Suc 0, w_lookups := Suc 0, w_sent := [demo_outgoing]\<rparr>)))) = Inr ()"
    using demo_path(3) by (simp add: demo_path(7))
qed (simp_all add: IsExpired_def demo_message_def demo_env_def outside_Send_def demo_outgoing_def
    demo_path(5,8) demo_world_def Metadata_def copyMetadata_def)

lemma Handle_settles:
  assumes "reachable (w_db w)" "stored_delivery w i \<noteq> None"
    and "Handle (deployed_dispatcher E c) i n w = (Inr (), w')"
  shows "settled_or_gone w' i"
proof -
  have b: "begun w i" using assms(1,2) by (simp add: begun_def world_ok_def reachable_db_ok)
  obtain r w1 where get: "Tracker_Get (pg_tracker E) i w = (r, w1)" by fastforce
  have g1: "grows w w1" by (rule keepsD [OF keeps_services(1) [THEN keeps_grows_of] get])
  note spec = Tracker_Get_read [OF get] b [unfolded begun_def]
  show ?thesis
  proof (cases r)
    case (Inl e)
    with assms(3) get have "is_err e (DeliveryE delivery_error.ErrNotFound)" "w' = w1"
      by (auto simp: Handle_def attempt_def split: if_splits)
    with spec Inl show ?thesis by (simp add: settled_or_gone_def)
  next
    case (Inr d)
    with spec have d: "dlv_ID d = i" "IsSettled d \<or> dlv_status d = StatusPending" "stored_delivery w1 i = Some d"
      by simp_all
    show ?thesis
    proof (cases "IsSettled d")
      case True
      with assms(3) get Inr have "w' = w1" by (simp add: Handle_def attempt_def)
      with True d show ?thesis by (simp add: settled_or_gone_def)
    next
      case False
      with d have "ends w i (deliver (deployed_dispatcher E c) d (d_maxAttempts (deployed_dispatcher E c) \<le> n))"
        using ends_deliver [of w d] b by simp
      moreover have "deliver (deployed_dispatcher E c) d (d_maxAttempts (deployed_dispatcher E c) \<le> n) w1 = (Inr (), w')"
        using assms(3) get Inr False by (simp add: Handle_def attempt_def)
      ultimately show ?thesis using g1 unfolding ends_def by blast
    qed
  qed
qed

text \<open>
  C1. A message the broker was acknowledged for is settled. When \<open>Handle\<close> returns nil for a
  delivery that existed when the event arrived, the row ends as SENT or FAILED, or was deleted with
  its message in the meantime: whatever fails on the way (a lookup, a statement, a provider, the
  announcement) and whatever other processes do, an event is never dropped with its delivery pending.
\<close>

theorem acknowledged_means_settled:
  assumes "reachable (w_db w)" "stored_delivery w i \<noteq> None"
    and "Handle (deployed_dispatcher E c) i n w = (Inr (), w')"
  shows "case stored_delivery w' i of None \<Rightarrow> True | Some row \<Rightarrow> IsSettled row"
  using Handle_settles [OF assms] by (simp add: settled_or_gone_def)

theorem acknowledged_means_settled_witness:
  "case stored_delivery (snd (Handle (deployed_dispatcher demo_env demo_settings) (demo_id CHR ''4'') 1 demo_world))
      (demo_id CHR ''4'') of None \<Rightarrow> True | Some row \<Rightarrow> IsSettled row"
proof (rule acknowledged_means_settled [OF demo_reachable])
  have "map_option dlv_attempts (stored_delivery demo_world (demo_id CHR ''4'')) = Some 0" by code_simp
  then show "stored_delivery demo_world (demo_id CHR ''4'') \<noteq> None" by auto
  show "Handle (deployed_dispatcher demo_env demo_settings) (demo_id CHR ''4'') 1 demo_world =
      (Inr (), snd (Handle (deployed_dispatcher demo_env demo_settings) (demo_id CHR ''4'') 1 demo_world))"
    using demo_Handle by (simp add: prod_eq_iff)
qed


subsection \<open>What is sent\<close>

definition silent :: "world \<Rightarrow> world \<Rightarrow> bool" where
  "silent w w' \<longleftrightarrow> w_sent w' = w_sent w"

interpretation silence: preorder_on_states silent
  by unfold_locales (simp_all add: silent_def)

lemma keeps_silent_of: "keeps db_step m \<Longrightarrow> keeps silent m"
  by (simp add: keeps_def db_step_def silent_def outside_log_def)

lemma keeps_silent_outside:
  "keeps silent (outside_Notify E h b)" "keeps silent (outside_For E s c n)"
  by (simp_all add: keeps_def silent_def outside_Notify_def outside_For_def)

lemmas keeps_silent = silence.keeps_combinators keeps_silent_outside keeps_dispatch [THEN keeps_silent_of]
  keeps_Now [THEN keeps_silent_of] keeps_NewID [THEN keeps_silent_of]

lemma silent_announce: "keeps silent (announce (deployed_dispatcher E c) n)"
  unfolding announce_def announce_to_def
  by (auto intro!: keeps_silent simp: outside_notifier_def split: option.split sum.split bool.split)

lemma silent_fail: "keeps silent (fail (deployed_dispatcher E c) d n reason detail)"
  unfolding fail_def by (auto intro!: keeps_silent silent_announce)

lemma silent_sendFailed: "keeps silent (sendFailed (deployed_dispatcher E c) d n err last_chance)"
  unfolding sendFailed_def by (auto intro!: keeps_silent silent_fail split: send_kind.split)

definition outgoing :: "delivery \<Rightarrow> notification \<Rightarrow> message" where
  "outgoing d n = \<lparr>msg_DeliveryID = dlv_ID d, msg_Recipient = dlv_Recipient d,
     msg_Title = ntf_Title n, msg_Body = ntf_Body n,
     msg_Metadata = (case Metadata n of None \<Rightarrow> [] | Some m \<Rightarrow> m)\<rparr>"

lemma deliver_message_sends:
  assumes "deliver_message (deployed_dispatcher E c) d last_chance n w = (r, w')"
  shows "w_sent w' = w_sent w \<or> w_sent w' = w_sent w @ [outgoing d n]"
proof -
  let ?w = "w\<lparr>w_lookups := Suc (w_lookups w)\<rparr>"
  let ?f = "\<lambda>r. case r of
      Inl err \<Rightarrow> sendFailed (deployed_dispatcher E c) d n err last_chance
    | Inr pid \<Rightarrow> and_then (settled_call (outcome_only (RecordSent (pg_tracker E) d pid (dlv_attempts d + 1))))
        (\<lambda>_. announce (deployed_dispatcher E c) (Some n))"
  have "keeps silent (?f x)" for x
    by (auto intro!: keeps_silent silent_announce silent_sendFailed split: sum.split)
  then have after: "w_sent (snd (attempt (outside_Send E m) ?f v)) = w_sent v @ [m]" for m v
    by (simp add: attempt_def outside_Send_def keeps_def silent_def)
  show ?thesis
  proof (cases "identity_refused E (w_lookups w) (ntf_SourceID n) (rcp_Channel (dlv_Recipient d)) (dlv_SenderName d)")
    case None
    then have "(r, w') = attempt (outside_Send E (outgoing d n)) ?f ?w"
      using assms by (simp add: deliver_message_def outside_senders_def attempt_For outgoing_def)
    then have "w' = snd (attempt (outside_Send E (outgoing d n)) ?f ?w)" by (metis snd_conv)
    with after [of "outgoing d n" ?w] show ?thesis by simp
  next
    case (Some e)
    let ?g = "if IsType e ErrInvalidInput
        then fail (deployed_dispatcher E c) d (Some n) FailureNoSender (Error (d_lib (deployed_dispatcher E c)) e)
        else throw e"
    have "keeps silent ?g"
      by (auto intro!: silent_fail keeps_silent)
    moreover have "?g ?w = (r, w')"
      using Some assms by (simp add: deliver_message_def outside_senders_def attempt_For)
    ultimately have "silent ?w w'" by (rule keepsD)
    then show ?thesis by (simp add: silent_def)
  qed
qed

lemma deliver_sends:
  assumes "deliver (deployed_dispatcher E c) d last_chance w = (r, w')"
  shows "w_sent w' = w_sent w \<or> (\<exists>n w1. pg_ReadNotification E (dlv_NotificationID d) w = (Inr n, w1)
    \<and> \<not> IsExpired n (clock E (w_clock w1)) \<and> w_sent w' = w_sent w @ [outgoing d n])"
proof -
  obtain x w1 where get: "pg_ReadNotification E (dlv_NotificationID d) w = (x, w1)" by fastforce
  have s1: "w_sent w1 = w_sent w"
    using keepsD [OF keeps_pg_notifications(2) get] by (simp add: db_step_def outside_log_def)
  have run: "notification_Get (d_notifs (deployed_dispatcher E c)) (dlv_NotificationID d) w = (x, w1)"
    using get by (simp add: notification_Get_def pg_notifications_def)
  have silent_after: "w_sent w' = w_sent v" if "fail (deployed_dispatcher E c) d n reason detail v = (r, w')"
    for n reason detail v
    using keepsD [OF silent_fail that] by (simp add: silent_def)
  show ?thesis
  proof (cases x)
    case (Inl e)
    with assms run s1 show ?thesis
      by (auto simp: deliver_def attempt_def split: if_splits dest!: silent_after)
  next
    case (Inr n)
    with assms run have rest: "(if IsExpired n (clock E (w_clock w1))
        then fail (deployed_dispatcher E c) d (Some n) FailureExpired ''''
        else deliver_message (deployed_dispatcher E c) d last_chance n) (w1\<lparr>w_clock := Suc (w_clock w1)\<rparr>) = (r, w')"
      by (simp add: deliver_def attempt_def call_def Now_def)
    show ?thesis
    proof (cases "IsExpired n (clock E (w_clock w1))")
      case True
      with rest s1 show ?thesis by (auto dest!: silent_after)
    next
      case False
      with rest deliver_message_sends [of E c d last_chance n "w1\<lparr>w_clock := Suc (w_clock w1)\<rparr>" r w'] s1 get Inr
      show ?thesis by auto
    qed
  qed
qed

text \<open>
  C8. One call of \<open>Handle\<close> hands at most one message to a provider. It does so only for a delivery
  whose row was pending when it was read, of a message that exists and had not expired, and what it
  hands over is that message, to that delivery's recipient. A settled delivery is never sent again.
\<close>

theorem Handle_sends_pending_only:
  assumes "reachable (w_db w)" "Handle (deployed_dispatcher E c) i k w = (r, w')"
  shows "(w_sent w' = w_sent w \<or>
      (\<exists>d n w1 w2. grows w w1 \<and> stored_delivery w1 i = Some d \<and> dlv_status d = StatusPending
         \<and> pg_ReadNotification E (dlv_NotificationID d) w1 = (Inr n, w2)
         \<and> \<not> IsExpired n (clock E (w_clock w2)) \<and> w_sent w' = w_sent w @ [outgoing d n]))
    \<and> (\<forall>d. stored_delivery w i = Some d \<longrightarrow> IsSettled d \<longrightarrow> w_sent w' = w_sent w)"
proof -
  have ok: "world_ok w" using assms(1) by (simp add: world_ok_def reachable_db_ok)
  obtain x w1 where get: "Tracker_Get (pg_tracker E) i w = (x, w1)" by fastforce
  have step: "db_step w w1" by (rule keepsD [OF keeps_services(1) get])
  then have g: "grows w w1" and s: "w_sent w1 = w_sent w" by (simp_all add: db_step_def outside_log_def)
  note spec = Tracker_Get_read [OF get ok]
  show ?thesis
  proof (cases "\<exists>d. x = Inr d \<and> \<not> IsSettled d")
    case False
    with assms(2) get s have "w_sent w' = w_sent w"
      by (auto simp: Handle_def attempt_def split: sum.splits if_splits)
    then show ?thesis by simp
  next
    case True
    then obtain d where d: "x = Inr d" "\<not> IsSettled d" by auto
    with spec have st: "stored_delivery w1 i = Some d" "dlv_status d = StatusPending" by simp_all
    have "deliver (deployed_dispatcher E c) d (d_maxAttempts (deployed_dispatcher E c) \<le> k) w1 = (r, w')"
      using assms(2) get d by (simp add: Handle_def attempt_def)
    from deliver_sends [OF this] have "w_sent w' = w_sent w \<or>
      (\<exists>d n w1 w2. grows w w1 \<and> stored_delivery w1 i = Some d \<and> dlv_status d = StatusPending
         \<and> pg_ReadNotification E (dlv_NotificationID d) w1 = (Inr n, w2)
         \<and> \<not> IsExpired n (clock E (w_clock w2)) \<and> w_sent w' = w_sent w @ [outgoing d n])"
      using g st s by metis
    moreover have "\<not> IsSettled d0" if "stored_delivery w i = Some d0" for d0
      using pg_store.stored_outcome_final [OF that _ g ok st(1)] outcome_of_settled d(2) by blast
    ultimately show ?thesis by blast
  qed
qed

theorem Handle_sends_pending_only_witness:
  defines "w' \<equiv> snd (Handle (deployed_dispatcher demo_env demo_settings) (demo_id CHR ''4'') 1 demo_world)"
  shows "(w_sent w' = w_sent demo_world \<or>
      (\<exists>d n w1 w2. grows demo_world w1 \<and> stored_delivery w1 (demo_id CHR ''4'') = Some d \<and> dlv_status d = StatusPending
         \<and> pg_ReadNotification demo_env (dlv_NotificationID d) w1 = (Inr n, w2)
         \<and> \<not> IsExpired n (clock demo_env (w_clock w2)) \<and> w_sent w' = w_sent demo_world @ [outgoing d n]))"
  by (rule Handle_sends_pending_only [OF demo_reachable,
        where r = "fst (Handle (deployed_dispatcher demo_env demo_settings) (demo_id CHR ''4'') 1 demo_world)",
        THEN conjunct1])
    (simp add: w'_def)

end
