(* ===== verification/Frames.thy ===== *)
theory Frames
  imports World
begin

text \<open>
  What a run of the program leaves alone. A relation between databases that holds across the writes
  of the other processes and across each statement of an operation holds across the operation: the
  locale carries it through statements, transactions and the combinators of \<open>Effects\<close>.
\<close>

locale db_relation =
  fixes E :: env and P :: "database \<Rightarrow> database \<Rightarrow> bool"
  assumes P_refl: "P db db"
    and P_trans: "P a b \<Longrightarrow> P b c \<Longrightarrow> P a c"
    and P_others: "P db (run_writes (others E k) db)"
begin

lemma P_states: "preorder_on_states (\<lambda>w w'. P (w_db w) (w_db w'))"
  by unfold_locales (rule P_refl, erule (1) P_trans)

lemmas keeps_flow = preorder_on_states.keeps_combinators [OF P_states]

lemma keeps_same_db: "(\<And>w. w_db (snd (m w)) = w_db w) \<Longrightarrow> keeps (\<lambda>w w'. P (w_db w) (w_db w')) m"
  by (simp add: keeps_def P_refl)

lemma P_begin: "P (w_db w) (w_db (begin_trip E w))"
  by (simp add: begin_trip_def P_others P_refl)

lemma keeps_stmt:
  assumes "\<And>db. P db (snd (stmt db))"
  shows "keeps (\<lambda>w w'. P (w_db w) (w_db w')) (exec E stmt)"
proof
  fix w
  have "P (w_db w) (snd (stmt (w_db (begin_trip E w))))"
    using P_begin assms P_trans by blast
  then show "P (w_db w) (w_db (snd (exec E stmt w)))"
    using P_begin [of w] by (auto simp: exec_def Let_def P_refl split: round_trip.split prod.splits)
qed

lemma keeps_read:
  assumes "\<And>db. snd (stmt db) = db"
  shows "keeps (\<lambda>w w'. P (w_db w) (w_db w')) (exec E stmt)"
  by (rule keeps_stmt) (simp add: assms P_refl)

lemma keeps_tx:
  assumes "keeps (\<lambda>w w'. P (w_db w) (w_db w')) fn"
  shows "keeps (\<lambda>w w'. P (w_db w) (w_db w')) (Atomically E fn)"
proof
  fix w
  obtain r w1 where fn: "fn ((begin_trip E w)\<lparr>w_tx := Open\<rparr>) = (r, w1)" by fastforce
  have "P (w_db w) (w_db w1)"
    using keepsD [OF assms fn] P_begin [of w] P_trans by auto
  moreover have "P (w_db w) (w_db (snd (fn w)))" using assms by (simp add: keeps_def)
  ultimately show "P (w_db w) (w_db (snd (Atomically E fn w)))"
    using Atomically_result(1) [where fn = fn and w = w and E = E, OF fn] P_begin [of w]
    by (cases "w_tx w = NoTx") (auto simp: Atomically_def)
qed

lemma keeps_or_fails:
  "keeps (\<lambda>w w'. P (w_db w) (w_db w')) m \<Longrightarrow> (\<And>x. keeps (\<lambda>w w'. P (w_db w) (w_db w')) (f x))
    \<Longrightarrow> keeps (\<lambda>w w'. P (w_db w) (w_db w')) (or_failed op m f)"
  unfolding or_failed_def by (intro keeps_flow) (auto intro: keeps_flow split: sum.split)

lemma keeps_Now_ID:
  "keeps (\<lambda>w w'. P (w_db w) (w_db w')) (Now E)" "keeps (\<lambda>w w'. P (w_db w) (w_db w')) (NewID E)"
  by (rule keeps_same_db, simp add: Now_def NewID_def)+

lemma keeps_asking:
  "keeps (\<lambda>w w'. P (w_db w) (w_db w')) (outside_Send E m)" "keeps (\<lambda>w w'. P (w_db w) (w_db w')) (outside_For E s c n)"
  "keeps (\<lambda>w w'. P (w_db w) (w_db w')) (outside_Publish E ev)" "keeps (\<lambda>w w'. P (w_db w) (w_db w')) (outside_Notify E h b)"
  "keeps (\<lambda>w w'. P (w_db w) (w_db w')) (outside_Allow E s)" "keeps (\<lambda>w w'. P (w_db w) (w_db w')) (outside_SendCode E s code)"
  by (rule keeps_same_db, simp add: outside_Send_def outside_For_def outside_Publish_def
      outside_Notify_def outside_Allow_def outside_SendCode_def)+

lemma keeps_Pair: "keeps (\<lambda>w w'. P (w_db w) (w_db w')) (Pair r)"
  by (simp add: keeps_def P_refl)

lemmas keeps_P = keeps_flow keeps_Pair keeps_tx keeps_or_fails keeps_Now_ID keeps_asking

end

lemma one_row_Inr [simp]: "one_row x = Inr r \<longleftrightarrow> x = Some r" "one_row x = Inl e \<longleftrightarrow> x = None \<and> e = pgx_ErrNoRows"
  by (auto simp: one_row_def split: option.split)

subsection \<open>A process that runs alone\<close>

definition alone :: "env \<Rightarrow> bool" where
  "alone E \<longleftrightarrow> (\<forall>k. others E k = [])"

definition unchanged :: "env \<Rightarrow> database \<Rightarrow> database \<Rightarrow> bool" where
  "unchanged E db db' \<longleftrightarrow> (alone E \<longrightarrow> db' = db)"

interpretation nobody: db_relation E "unchanged E" for E
  by unfold_locales (auto simp: unchanged_def alone_def run_writes_def)

lemma alone_begin: "alone E \<Longrightarrow> w_db (begin_trip E w) = w_db w"
  by (simp add: alone_def begin_trip_def run_writes_def)

lemma alone_same: "keeps (\<lambda>w w'. unchanged E (w_db w) (w_db w')) m \<Longrightarrow> alone E \<Longrightarrow> m w = (r, w') \<Longrightarrow> w_db w' = w_db w"
  by (drule (1) keepsD) (simp add: unchanged_def)

subsection \<open>Nothing is forgotten\<close>

text \<open>The other processes run no retention; then messages are only ever added.\<close>

fun purges :: "db_write \<Rightarrow> bool" where
  "purges (DeleteNotificationsBefore t n) = True"
| "purges c = False"

definition purge_free :: "env \<Rightarrow> bool" where
  "purge_free E \<longleftrightarrow> (\<forall>k. list_all (\<lambda>c. \<not> purges c) (others E k))"

definition adds_messages :: "database \<Rightarrow> database \<Rightarrow> bool" where
  "adds_messages db db' \<longleftrightarrow> (\<exists>rows. t_notifications db' = t_notifications db @ rows)"

lemma adds_messages_refl [simp]: "adds_messages db db"
  by (simp add: adds_messages_def)

lemma adds_messages_same: "t_notifications db' = t_notifications db \<Longrightarrow> adds_messages db db'"
  by (simp add: adds_messages_def)

lemma adds_messages_trans: "adds_messages a b \<Longrightarrow> adds_messages b c \<Longrightarrow> adds_messages a c"
  by (auto simp: adds_messages_def)

lemma adds_messages_in: "adds_messages a b \<Longrightarrow> r \<in> set (t_notifications a) \<Longrightarrow> r \<in> set (t_notifications b)"
  by (auto simp: adds_messages_def)

lemma adds_messages_write: "\<not> purges c \<Longrightarrow> adds_messages db (run_write c db)"
proof (cases "writes_notifications c")
  case False
  then show ?thesis by (simp add: adds_messages_same notifications_frame)
next
  case True
  assume "\<not> purges c"
  with True show ?thesis
    by (cases c) (simp_all add: adds_messages_def sql_CreateNotification_def)
qed

lemma adds_messages_writes: "list_all (\<lambda>c. \<not> purges c) cs \<Longrightarrow> adds_messages db (run_writes cs db)"
proof (induction cs arbitrary: db)
  case Nil
  then show ?case by (simp add: run_writes_def)
next
  case (Cons c cs)
  then have "adds_messages db (run_write c db)" "adds_messages (run_write c db) (run_writes cs (run_write c db))"
    using adds_messages_write by simp_all
  then show ?case using adds_messages_trans by (simp add: run_writes_def)
qed

definition remembers :: "env \<Rightarrow> database \<Rightarrow> database \<Rightarrow> bool" where
  "remembers E db db' \<longleftrightarrow> (purge_free E \<longrightarrow> adds_messages db db')"

interpretation memory: db_relation E "remembers E" for E
  by unfold_locales
    (auto simp: remembers_def purge_free_def intro: adds_messages_trans adds_messages_writes)

subsection \<open>Outside a transaction\<close>

definition tx_closed :: "world \<Rightarrow> world \<Rightarrow> bool" where
  "tx_closed w w' \<longleftrightarrow> (w_tx w = NoTx \<longrightarrow> w_tx w' = NoTx)"

interpretation closed_tx: preorder_on_states tx_closed
  by unfold_locales (auto simp: tx_closed_def)

lemma tx_closed_same: "(\<And>w. w_tx (snd (m w)) = w_tx w) \<Longrightarrow> keeps tx_closed m"
  by (simp add: keeps_def tx_closed_def)

lemma tx_closed_exec: "keeps tx_closed (exec E stmt)"
  by (auto simp: keeps_def tx_closed_def exec_def begin_trip_def abort_on_def Let_def
      split: round_trip.split prod.split)

lemma tx_closed_Atomically: "keeps tx_closed (Atomically E fn)"
  by (auto simp: keeps_def tx_closed_def Atomically_def begin_trip_def Let_def
      split: round_trip.split prod.split sum.split)

lemma tx_closed_asking:
  "keeps tx_closed (Now E)" "keeps tx_closed (NewID E)" "keeps tx_closed (outside_Send E m)"
  "keeps tx_closed (outside_For E s c n)" "keeps tx_closed (outside_Publish E ev)"
  "keeps tx_closed (outside_Notify E h b)" "keeps tx_closed (outside_Allow E i)"
  "keeps tx_closed (outside_SendCode E a code)"
  by (rule tx_closed_same, simp add: Now_def NewID_def outside_Send_def outside_For_def
      outside_Publish_def outside_Notify_def outside_Allow_def outside_SendCode_def)+

lemma tx_closed_or_failed:
  "keeps tx_closed m \<Longrightarrow> (\<And>x. keeps tx_closed (f x)) \<Longrightarrow> keeps tx_closed (or_failed op m f)"
  unfolding or_failed_def
  by (intro closed_tx.keeps_combinators) (auto intro: closed_tx.keeps_combinators split: sum.split)

lemmas keeps_tx_closed = closed_tx.keeps_combinators tx_closed_exec tx_closed_Atomically
  tx_closed_asking tx_closed_or_failed

end
