(* ===== verification/Gateway.thy ===== *)
theory Gateway
  imports Frames Demo PgMessages PgSources
begin

text \<open>
  \<open>internal/core/usecase/submit.go\<close>, \<open>query.go\<close>, \<open>register.go\<close> and
  \<open>retention.go\<close>: what a source asks of the gateway, and the sweep that forgets old messages.
  The use cases are polymorphic in the state behind their ports; the second half puts the submitter
  on the Postgres repositories. Logging is left out.
\<close>

subsection \<open>Submitting\<close>

record submit_command =
  cmd_SourceID :: string
  cmd_IdempotencyKey :: string
  cmd_Title :: string
  cmd_Body :: string
  cmd_Priority :: priority
  cmd_ExpireAt :: "time option"
  cmd_Metadata :: "(string \<times> string) list option"
  cmd_Routes :: "route list"
  cmd_Senders :: "(channel \<times> string) list"

record submit_result =
  subm_ID :: ID
  subm_EffectivePriority :: priority
  subm_Downgraded :: bool
  subm_Duplicate :: bool

text \<open>
  The unit of work is one function; it is used at one result type, the message and its deliveries,
  which the Go closure leaves in two variables of the caller.
\<close>

record 'w submitter =
  sub_lib :: golib
  sub_sources :: "'w source_service"
  sub_credentials :: "'w credential_service"
  sub_notifs :: "'w notification_service"
  sub_deliveries :: "'w delivery_service"
  sub_atomically :: "('w, notification \<times> delivery list) io \<Rightarrow> ('w, notification \<times> delivery list) io"

definition duplicateOf :: "notification \<Rightarrow> submit_result" where
  "duplicateOf n =
    \<lparr>subm_ID = ntf_ID n, subm_EffectivePriority = ntf_EffectivePriority n,
     subm_Downgraded = WasDowngraded n, subm_Duplicate = True\<rparr>"

definition raced :: "'w submitter \<Rightarrow> submit_command \<Rightarrow> goerr \<Rightarrow> ('w, submit_result) io" where
  "raced S cmd cause =
    attempt (GetByIdempotencyKey (sub_notifs S) (cmd_SourceID cmd) (cmd_IdempotencyKey cmd)) (\<lambda>r.
    case r of
      Inl err \<Rightarrow> throw cause
    | Inr None \<Rightarrow> throw cause
    | Inr (Some existing) \<Rightarrow> ret (duplicateOf existing))"

fun check_senders_loop ::
    "'w submitter \<Rightarrow> string \<Rightarrow> (channel \<times> string) list \<Rightarrow> ('w, unit) io" where
  "check_senders_loop S sourceID [] = ret ()"
| "check_senders_loop S sourceID ((c, name) # rest) =
    (if name = '''' then check_senders_loop S sourceID rest
     else and_then (credential_Resolve (sub_credentials S) sourceID c name) (\<lambda>_.
          check_senders_loop S sourceID rest))"

definition checkSenders :: "'w submitter \<Rightarrow> submit_command \<Rightarrow> ('w, unit) io" where
  "checkSenders S cmd = check_senders_loop S (cmd_SourceID cmd) (cmd_Senders cmd)"

fun publish_all :: "'w submitter \<Rightarrow> notification \<Rightarrow> delivery list \<Rightarrow> ('w, unit) io" where
  "publish_all S n [] = ret ()"
| "publish_all S n (d # ds) =
    ignoring (Service_Publish (sub_deliveries S) d (ntf_SourceID n) (ntf_EffectivePriority n))
      (publish_all S n ds)"

definition origin_of :: "source \<Rightarrow> origin" where
  "origin_of src = \<lparr>org_ID = src_ID src, org_Name = src_Name src, org_MaxPriority = src_MaxPriority src\<rparr>"

definition request_of :: "submit_command \<Rightarrow> request" where
  "request_of cmd =
    \<lparr>req_IdempotencyKey = cmd_IdempotencyKey cmd, req_Title = cmd_Title cmd, req_Body = cmd_Body cmd,
     req_Priority = cmd_Priority cmd, req_ExpireAt = cmd_ExpireAt cmd, req_Metadata = cmd_Metadata cmd\<rparr>"

text \<open>The closure that runs in the transaction, and what follows the commit.\<close>

definition write_message ::
    "'w submitter \<Rightarrow> submit_command \<Rightarrow> source \<Rightarrow> recipient list \<Rightarrow> ('w, notification \<times> delivery list) io" where
  "write_message S cmd src recipients =
    and_then (notification_Create (sub_notifs S) (origin_of src) (request_of cmd)) (\<lambda>n.
    and_then (Service_Create (sub_lib S) (sub_deliveries S) (ntf_ID n) recipients (cmd_Senders cmd)) (\<lambda>ds.
    ret (n, ds)))"

definition accept :: "'w submitter \<Rightarrow> submit_command \<Rightarrow> source \<Rightarrow> ('w, submit_result) io" where
  "accept S cmd src =
    and_then (lift (Service_Resolve (sub_lib S) src (cmd_Routes cmd))) (\<lambda>recipients.
    and_then (checkSenders S cmd) (\<lambda>_.
    attempt (sub_atomically S (write_message S cmd src recipients)) (\<lambda>r. case r of
      Inl err \<Rightarrow>
        if is_err err (NotificationE ErrDuplicateKey) then raced S cmd err else throw err
    | Inr (n, ds) \<Rightarrow>
        and_then (publish_all S n ds) (\<lambda>_.
        ret \<lparr>subm_ID = ntf_ID n, subm_EffectivePriority = ntf_EffectivePriority n,
             subm_Downgraded = WasDowngraded n, subm_Duplicate = False\<rparr>))))"

definition Submit :: "'w submitter \<Rightarrow> submit_command \<Rightarrow> ('w, submit_result) io" where
  "Submit S cmd =
    and_then (Admit (sub_sources S) (cmd_SourceID cmd)) (\<lambda>src.
    if cmd_IdempotencyKey cmd \<noteq> '''' then
      and_then (GetByIdempotencyKey (sub_notifs S) (cmd_SourceID cmd) (cmd_IdempotencyKey cmd)) (\<lambda>existing.
      case existing of
        Some n \<Rightarrow> ret (duplicateOf n)
      | None \<Rightarrow> accept S cmd src)
    else accept S cmd src)"

subsection \<open>Querying\<close>

record query_result =
  qr_Notification :: notification
  qr_Deliveries :: "delivery pagination"

record 'w querier =
  q_lib :: golib
  q_notifs :: "'w notification_service"
  q_deliveries :: "'w delivery_service"

text \<open>The repository answers a message or an error, never a nil message without one.\<close>

definition foreign_message :: "ID \<Rightarrow> string \<Rightarrow> goerr" where
  "foreign_message i sourceID =
     WithStr (WithErr (NotFoundErr ''notification not found'')
         (Sentinel (NotificationE notification_error.ErrNotFound)))
       (Text ''id %q, source %q'' [FmtS i, FmtS sourceID])"

definition Querier_Get :: "'w querier \<Rightarrow> string \<Rightarrow> ID \<Rightarrow> cursor \<Rightarrow> ('w, query_result) io" where
  "Querier_Get Q sourceID i c =
    and_then (notification_Get (q_notifs Q) i) (\<lambda>n.
    if ntf_SourceID n \<noteq> sourceID then throw (foreign_message i sourceID)
    else
      and_then (ListForNotification (q_deliveries Q) i c) (\<lambda>page.
      ret \<lparr>qr_Notification = n, qr_Deliveries = page\<rparr>))"

record list_query =
  lq_Window :: window
  lq_Cursor :: cursor

definition Querier_List ::
    "'w querier \<Rightarrow> string \<Rightarrow> list_query \<Rightarrow> ('w, notification pagination) io" where
  "Querier_List Q sourceID q = notification_Page (q_lib Q) (q_notifs Q) sourceID (lq_Window q) (lq_Cursor q)"


subsection \<open>Callbacks\<close>

record 'w signing_secrets =
  sgs_Issue :: "string \<Rightarrow> ID \<Rightarrow> ('w, string) io"

record 'w registrar =
  reg_lib :: golib
  reg_sources :: "'w source_service"
  reg_webhooks :: "'w webhook_service"
  reg_secrets :: "'w signing_secrets"

definition Register ::
    "'w registrar \<Rightarrow> string \<Rightarrow> registration \<Rightarrow> ('w, webhook \<times> string) io" where
  "Register R sourceID reg =
    and_then (Manage (reg_sources R) sourceID) (\<lambda>_.
    and_then (webhook_Get (reg_webhooks R) sourceID) (\<lambda>existing.
    and_then (webhook_Register (reg_lib R) (reg_webhooks R) sourceID reg) (\<lambda>h.
    if existing \<noteq> None then ret (h, '''')
    else
      and_then (sgs_Issue (reg_secrets R) sourceID (whk_ID h)) (\<lambda>secret.
      ret (h, secret)))))"

definition Registrar_Get :: "'w registrar \<Rightarrow> string \<Rightarrow> ('w, webhook) io" where
  "Registrar_Get R sourceID =
    and_then (Manage (reg_sources R) sourceID) (\<lambda>_.
    and_then (webhook_Get (reg_webhooks R) sourceID) (\<lambda>h.
    case h of
      None \<Rightarrow> throw (WithErr (NotFoundErr ''no callback registered'')
                (Sentinel (WebhookE webhook_error.ErrNotFound)))
    | Some h \<Rightarrow> ret h))"

definition RotateSecret :: "'w registrar \<Rightarrow> string \<Rightarrow> ('w, string) io" where
  "RotateSecret R sourceID =
    and_then (Registrar_Get R sourceID) (\<lambda>h. sgs_Issue (reg_secrets R) sourceID (whk_ID h))"

definition Registrar_Deactivate :: "'w registrar \<Rightarrow> string \<Rightarrow> ('w, unit) io" where
  "Registrar_Deactivate R sourceID =
    and_then (Registrar_Get R sourceID) (\<lambda>h.
    and_then (webhook_Deactivate (reg_webhooks R) h) (\<lambda>_. ret ()))"

definition Registrar_Activate :: "'w registrar \<Rightarrow> string \<Rightarrow> ('w, unit) io" where
  "Registrar_Activate R sourceID =
    and_then (Registrar_Get R sourceID) (\<lambda>h.
    and_then (webhook_Activate (reg_webhooks R) h) (\<lambda>_. ret ()))"

subsection \<open>Forgetting\<close>

definition maxRetentionBatches :: nat where "maxRetentionBatches = 100"

record 'w retention =
  ret_notifs :: "'w notification_service"
  ret_age :: duration
  ret_batch :: int

text \<open>
  \<open>stopped k\<close> says whether the scheduler's context was done when batch \<open>k\<close> was about to
  start; the other number counts the batches that may still run.
\<close>

fun purge_batches :: "'w retention \<Rightarrow> (nat \<Rightarrow> bool) \<Rightarrow> nat \<Rightarrow> nat \<Rightarrow> int \<Rightarrow> ('w, unit) io" where
  "purge_batches R stopped k 0 deleted = ret ()"
| "purge_batches R stopped k (Suc left) deleted =
    (if stopped k then ret ()
     else attempt (notification_DeleteOlderThan (ret_notifs R) (ret_age R) (ret_batch R)) (\<lambda>r. case r of
       Inl err \<Rightarrow> throw (WithStr (WithErr (InternalErr ''retention could not finish'') err)
                    (Text ''deleted %d before failing'' [FmtD deleted]))
     | Inr n \<Rightarrow>
         if n < ret_batch R then ret () else purge_batches R stopped (Suc k) left (deleted + n)))"

definition Purge :: "'w retention \<Rightarrow> (nat \<Rightarrow> bool) \<Rightarrow> ('w, unit) io" where
  "Purge R stopped = purge_batches R stopped 0 maxRetentionBatches 0"


subsection \<open>The gateway of the deployment\<close>

definition deployed_notifs :: "env \<Rightarrow> duration \<Rightarrow> world notification_service" where
  "deployed_notifs E age = \<lparr>ns_repo = pg_notifications E, ns_newID = NewID E, ns_now = Now E, ns_keeps = age\<rparr>"

definition deployed_deliveries :: "env \<Rightarrow> world delivery_service" where
  "deployed_deliveries E =
     \<lparr>ds_repo = pg_deliveries E, ds_pub = outside_publisher E, ds_newID = Some (NewID E), ds_now = Now E\<rparr>"

definition deployed_sources :: "env \<Rightarrow> world source_service" where
  "deployed_sources E = \<lparr>ss_repo = pg_sources E, ss_limiter = \<lparr>rl_Allow = outside_Allow E\<rparr>\<rparr>"

definition deployed_submitter :: "env \<Rightarrow> duration \<Rightarrow> world submitter" where
  "deployed_submitter E age =
    \<lparr>sub_lib = lib E, sub_sources = deployed_sources E,
     sub_credentials = \<lparr>cs_repo = pg_credentials E, cs_now = Now E\<rparr>,
     sub_notifs = deployed_notifs E age, sub_deliveries = deployed_deliveries E,
     sub_atomically = Atomically E\<rparr>"

lemmas deployed_gateway =
  deployed_notifs_def deployed_deliveries_def deployed_sources_def deployed_submitter_def


subsection \<open>What a submission touches\<close>

context db_relation
begin

lemma keeps_reading:
  "keeps (\<lambda>w w'. P (w_db w) (w_db w')) (pg_ReadSource E i)"
  "keeps (\<lambda>w w'. P (w_db w) (w_db w')) (pg_ReadByIdempotencyKey E s key)"
  "keeps (\<lambda>w w'. P (w_db w) (w_db w')) (pg_ListBySourceAndChannel E s c)"
  unfolding pg_ReadSource_def pg_ReadByIdempotencyKey_def pg_ListBySourceAndChannel_def
  by (auto intro!: keeps_P keeps_read split: sum.split
      simp: sql_ReadSource_def sql_ReadNotificationByIdempotencyKey_def sql_ListCredentialsBySourceAndChannel_def)

lemma keeps_publishing:
  "keeps (\<lambda>w w'. P (w_db w) (w_db w')) (publish_all (deployed_submitter E age) n ds)"
  by (induction ds) (auto intro!: keeps_P simp: Service_Publish_def deployed_gateway outside_publisher_def)

lemma keeps_checking:
  "keeps (\<lambda>w w'. P (w_db w) (w_db w')) (Admit (deployed_sources E) i)"
  "keeps (\<lambda>w w'. P (w_db w) (w_db w')) (check_senders_loop (deployed_submitter E age) i cs)"
  "keeps (\<lambda>w w'. P (w_db w) (w_db w')) (GetByIdempotencyKey (deployed_notifs E age) i key)"
proof -
  show "keeps (\<lambda>w w'. P (w_db w) (w_db w')) (Admit (deployed_sources E) i)"
    by (auto intro!: keeps_P keeps_reading simp: Admit_def Load_def deployed_gateway pg_sources_def)
  show "keeps (\<lambda>w w'. P (w_db w) (w_db w')) (GetByIdempotencyKey (deployed_notifs E age) i key)"
    by (simp add: GetByIdempotencyKey_def deployed_gateway pg_notifications_def keeps_reading)
  show "keeps (\<lambda>w w'. P (w_db w) (w_db w')) (check_senders_loop (deployed_submitter E age) i cs)"
    by (induction cs) (auto intro!: keeps_P keeps_reading
        simp: credential_Resolve_def deployed_gateway pg_credentials_def)
qed

lemma keeps_racing:
  "keeps (\<lambda>w w'. P (w_db w) (w_db w')) (raced (deployed_submitter E age) cmd e)"
  unfolding raced_def
  by (auto intro!: keeps_P keeps_checking split: sum.split option.split
      simp: deployed_submitter_def [of E age])

end


subsection \<open>The transaction\<close>

text \<open>The other uses of the port stay out of the database and of its transaction.\<close>

definition inside :: "world \<Rightarrow> world \<Rightarrow> bool" where
  "inside w w' \<longleftrightarrow> w_db w' = w_db w \<and> w_tx w' = w_tx w"

interpretation insides: preorder_on_states inside
  by unfold_locales (simp_all add: inside_def)

lemma exec_open:
  assumes "exec E stmt v = (Inr x, v')" "w_tx v = Open"
  shows "stmt (w_db v) = (Inr x, w_db v')" "w_tx v' = Open"
  using assms
  by (auto simp: exec_def begin_trip_def abort_on_def server_error_def Let_def
      split: round_trip.splits prod.splits if_splits)

lemma inside_NewSet:
  "keeps inside (NewSet L nid rs senders (Some (NewID E)) now)"
proof -
  have gen: "keeps inside (NewID E)" by (simp add: keeps_def inside_def NewID_def)
  have "keeps inside (NewSet_loop L nid senders (NewID E) now rs seen out)" for rs seen out
    by (induction rs arbitrary: seen out)
      (auto intro!: insides.keeps_combinators gen simp: Let_def split: sum.split)
  then show ?thesis by (auto intro!: insides.keeps_combinators simp: NewSet_def)
qed

lemma copy_rows_appends:
  "copy_rows db ns rows = Inr rows' \<Longrightarrow> rows' = rows @ map new_delivery_row ns"
  by (induction ns arbitrary: rows) (fastforce simp: Let_def split: if_splits)+

definition message_row :: "env \<Rightarrow> notification \<Rightarrow> notification_row" where
  "message_row E n = notification_row_of (lib E) n (case Metadata n of None \<Rightarrow> [] | Some m \<Rightarrow> m)"

lemma Create_writes:
  assumes "pg_CreateNotification E n v = (Inr (), v')" "w_tx v = Open"
  shows "w_tx v' = Open"
    "w_db v' = (w_db v)\<lparr>t_notifications := t_notifications (w_db v) @ [message_row E n]\<rparr>"
proof -
  from assms obtain rows where run: "exec E (sql_CreateNotification (message_row E n)) v = (Inr rows, v')" "rows \<noteq> 0"
    by (auto simp: pg_CreateNotification_def fromMetadata_def message_row_def or_failed_eq
        split: option.splits if_splits)
  then show "w_tx v' = Open"
    "w_db v' = (w_db v)\<lparr>t_notifications := t_notifications (w_db v) @ [message_row E n]\<rparr>"
    using exec_open [OF run(1) assms(2)] by (auto simp: sql_CreateNotification_def split: if_splits)
qed

lemma CreateByList_writes:
  assumes "pg_CreateByList E ds v = (Inr (), v')" "w_tx v = Open" "ds \<noteq> []"
  shows "w_tx v' = Open"
    "w_db v' = (w_db v)\<lparr>t_deliveries := t_deliveries (w_db v) @ map (\<lambda>d. new_delivery_row (new_delivery_of d)) ds\<rparr>"
proof -
  from assms obtain k where run: "exec E (sql_CreateDeliveries (map new_delivery_of ds)) v = (Inr k, v')"
    by (auto simp: pg_CreateByList_def or_failed_eq split: if_splits)
  then show "w_tx v' = Open"
    "w_db v' = (w_db v)\<lparr>t_deliveries := t_deliveries (w_db v) @ map (\<lambda>d. new_delivery_row (new_delivery_of d)) ds\<rparr>"
    using exec_open [OF run assms(2)] copy_rows_appends
    by (fastforce simp: sql_CreateDeliveries_def comp_def split: sum.splits)+
qed

definition message_set :: "source \<Rightarrow> submit_command \<Rightarrow> recipient list \<Rightarrow> notification \<Rightarrow> delivery list \<Rightarrow> bool" where
  "message_set src cmd rs n ds \<longleftrightarrow>
     ntf_SourceID n = src_ID src \<and> ntf_IdempotencyKey n = cmd_IdempotencyKey cmd \<and> ds \<noteq> []
     \<and> map dlv_Recipient ds = rs \<and> list_all (\<lambda>d. dlv_NotificationID d = ntf_ID n \<and> dlv_status d = StatusPending) ds"

definition with_message :: "env \<Rightarrow> notification \<Rightarrow> delivery list \<Rightarrow> database \<Rightarrow> database" where
  "with_message E n ds db = db\<lparr>t_notifications := t_notifications db @ [message_row E n],
     t_deliveries := t_deliveries db @ map (\<lambda>d. new_delivery_row (new_delivery_of d)) ds\<rparr>"

lemma map2_opened:
  assumes "length ids = length rs"
  shows "map dlv_Recipient (map2 (opened nid senders now) ids rs) = rs"
    "list_all (\<lambda>d. dlv_NotificationID d = nid \<and> dlv_status d = StatusPending) (map2 (opened nid senders now) ids rs)"
  using assms by (induction ids rs rule: list_induct2) (simp_all add: opened_def)

lemma NewSet_set:
  assumes "NewSet L nid rs senders (Some (NewID E)) now v = (Inr ds, v')"
  shows "ds \<noteq> [] \<and> map dlv_Recipient ds = rs
    \<and> list_all (\<lambda>d. dlv_NotificationID d = nid \<and> dlv_status d = StatusPending) ds \<and> inside v v'"
proof -
  have "rs \<noteq> []" "NewSet_loop L nid senders (NewID E) now rs {} [] v = (Inr ds, v')"
    using assms by (auto simp: NewSet_def split: if_splits)
  moreover from NewSet_loop_Inr [OF this(2)] obtain ids where
    "ds = map2 (opened nid senders now) ids rs" "length ids = length rs" by auto
  ultimately show ?thesis
    using map2_opened [of ids rs nid senders now] keepsD [OF inside_NewSet assms] by auto
qed

lemma write_message_writes:
  assumes "write_message (deployed_submitter E age) cmd src rs v = (Inr (n, ds), v')" "w_tx v = Open"
  shows "w_tx v' = Open" "w_db v' = with_message E n ds (w_db v)" "message_set src cmd rs n ds"
proof -
  from assms(1) obtain v1 where
    c: "notification_Create (deployed_notifs E age) (origin_of src) (request_of cmd) v = (Inr n, v1)"
    and d: "Service_Create (lib E) (deployed_deliveries E) (ntf_ID n) rs (cmd_Senders cmd) v1 = (Inr ds, v')"
    by (auto simp: write_message_def and_then_Inr deployed_submitter_def [of E age])
  define v0 where "v0 = v\<lparr>w_drawn := Suc (w_drawn v), w_clock := Suc (w_clock v)\<rparr>"
  from c have new: "notification_New (drawn E (w_drawn v)) (origin_of src) (request_of cmd) (clock E (w_clock v)) = Inr n"
    and v0: "inside v v0" "pg_CreateNotification E n v0 = (Inr (), v1)"
    by (auto simp: notification_Create_def deployed_gateway call_eq and_then_Inr pg_notifications_def
        NewID_def Now_def lift_def inside_def v0_def)
  note w1 = Create_writes [OF v0(2)]
  define v2 where "v2 = v1\<lparr>w_clock := Suc (w_clock v1)\<rparr>"
  from d obtain v3 where ns: "inside v1 v2"
    "NewSet (lib E) (ntf_ID n) rs (cmd_Senders cmd) (Some (NewID E)) (clock E (w_clock v1)) v2 = (Inr ds, v3)"
    "pg_CreateByList E ds v3 = (Inr (), v')"
    by (auto simp: Service_Create_def deployed_gateway call_eq and_then_Inr pg_deliveries_def
        Now_def inside_def v2_def)
  note s = NewSet_set [OF ns(2)] and w2 = CreateByList_writes [OF ns(3)]
  show "w_tx v' = Open" "w_db v' = with_message E n ds (w_db v)"
    using assms(2) v0 w1 ns s w2 by (simp_all add: inside_def with_message_def)
  from new have "ntf_SourceID n = src_ID src" "ntf_IdempotencyKey n = cmd_IdempotencyKey cmd"
    by (auto simp: notification_New_def origin_of_def request_of_def Let_def split: if_splits)
  with s show "message_set src cmd rs n ds" by (simp add: message_set_def)
qed


text \<open>The unit of work: rolled back, committed and answered, or committed with the answer lost.\<close>

text \<open>A commit that went through and whose answer was lost, so that the caller was told it failed.\<close>

definition commit_unanswered :: "env \<Rightarrow> goerr \<Rightarrow> bool" where
  "commit_unanswered E e \<longleftrightarrow>
     (\<exists>k s. round_trips E k = Unacked s \<and> e = failed ''commit transaction'' (connection_error s))"

lemma commit_unansweredI:
  "round_trips E k = Unacked s \<Longrightarrow> commit_unanswered E (failed ''commit transaction'' (connection_error s))"
  by (auto simp: commit_unanswered_def)

lemma Atomically_cases:
  assumes "Atomically E fn w = (r, w')" "w_tx w = NoTx"
  obtains (rolled_back) e where "r = Inl e" "w_db w' = w_db (begin_trip E w)" "w_tx w' = NoTx"
  | (committed) x w1 where "fn ((begin_trip E w)\<lparr>w_tx := Open\<rparr>) = (Inr x, w1)" "w_tx w1 \<noteq> Aborted"
      "w_db w' = w_db w1" "w_tx w' = NoTx" "r = Inr x"
  | (unacked) x w1 s where "fn ((begin_trip E w)\<lparr>w_tx := Open\<rparr>) = (Inr x, w1)" "w_tx w1 \<noteq> Aborted"
      "w_db w' = w_db w1" "w_tx w' = NoTx" "r = Inl (failed ''commit transaction'' (connection_error s))"
      "commit_unanswered E (failed ''commit transaction'' (connection_error s))"
  using assms
  by (auto simp: Atomically_def Let_def begin_trip_def [of E w] dest: commit_unansweredI split: round_trip.splits sum.splits prod.splits if_splits)

lemma keeps_submission:
  "keeps db_step (write_message (deployed_submitter E age) cmd src rs)"
  "keeps db_step (raced (deployed_submitter E age) cmd e)"
  "keeps db_step (check_senders_loop (deployed_submitter E age) i cs)"
  "keeps db_step (GetByIdempotencyKey (deployed_notifs E age) i key)"
proof -
  have get: "keeps db_step (GetByIdempotencyKey (deployed_notifs E age) i key)" for i key
    by (simp add: GetByIdempotencyKey_def deployed_gateway pg_notifications_def keeps_pg_notifications)
  have loop: "keeps db_step (NewSet_loop L nid senders (NewID E) now rs seen out)" for L nid senders now rs seen out
    by (induction rs arbitrary: seen out) (auto intro!: keeps_db simp: Let_def split: sum.split)
  show "keeps db_step (GetByIdempotencyKey (deployed_notifs E age) i key)" by (rule get)
  show "keeps db_step (raced (deployed_submitter E age) cmd e)"
    unfolding raced_def by (auto intro!: keeps_db get simp: deployed_submitter_def [of E age] split: sum.split option.split)
  show "keeps db_step (check_senders_loop (deployed_submitter E age) i cs)"
  proof (induction cs)
    case Nil
    then show ?case by (simp add: keeps_def db_steps.refl_R)
  next
    case (Cons x cs)
    then show ?case
      by (cases x) (auto intro!: keeps_db keeps_pg_credentials simp: credential_Resolve_def deployed_gateway pg_credentials_def)
  qed
  show "keeps db_step (write_message (deployed_submitter E age) cmd src rs)"
    unfolding write_message_def notification_Create_def Service_Create_def NewSet_def
    by (auto intro!: keeps_db keeps_pg_notifications keeps_pg_deliveries loop
        simp: deployed_gateway pg_notifications_def pg_deliveries_def)
qed

definition event_of :: "notification \<Rightarrow> delivery \<Rightarrow> dispatch_event" where
  "event_of n d = \<lparr>ev_DeliveryID = dlv_ID d, ev_SourceID = ntf_SourceID n,
     ev_Channel = rcp_Channel (dlv_Recipient d), ev_Priority = ntf_EffectivePriority n\<rparr>"

lemma publish_all_run:
  "\<exists>w'. publish_all (deployed_submitter E age) n ds w = (Inr (), w') \<and> inside w w'
    \<and> w_published w' = w_published w @ map (event_of n) ds"
  by (induction ds arbitrary: w)
    (fastforce simp: inside_def ignoring_def attempt_def Service_Publish_def deployed_gateway
      outside_publisher_def outside_Publish_def event_of_def)+

lemma pg_ReadByIdempotencyKey_found:
  assumes "pg_ReadByIdempotencyKey E s key w = (Inr (Some n), w')"
  shows "\<exists>row. row \<in> set (t_notifications (w_db w')) \<and> nt_id row = ntf_ID n \<and> nt_source_id row = s
    \<and> nt_idempotency_key row = optional key \<and> key \<noteq> ''''"
proof -
  from assms obtain row where run: "exec E (sql_ReadNotificationByIdempotencyKey s (optional key)) w = (Inr row, w')"
    and "toNotification row = Inr n"
    by (auto simp: pg_ReadByIdempotencyKey_def attempt_sum_eq and_then_Inr lift_def split: if_splits)
  from exec_Inr [OF run] this show ?thesis
    by (auto simp: sql_ReadNotificationByIdempotencyKey_def one_row_def toNotification_def toMetadata_def optional_def
        dest!: the_row_Some split: option.splits sum.splits if_splits)
qed


lemma published_db_step: "db_step w w' \<Longrightarrow> w_published w' = w_published w"
  by (simp add: db_step_def outside_log_def)

definition known_message :: "database \<Rightarrow> submit_command \<Rightarrow> ID \<Rightarrow> bool" where
  "known_message db cmd i \<longleftrightarrow> (\<exists>row. row \<in> set (t_notifications db) \<and> nt_id row = i
     \<and> nt_source_id row = cmd_SourceID cmd \<and> nt_idempotency_key row = Some (cmd_IdempotencyKey cmd))"

lemma GetByIdempotencyKey_known:
  "GetByIdempotencyKey (deployed_notifs E age) (cmd_SourceID cmd) (cmd_IdempotencyKey cmd) w = (Inr (Some n), w')
    \<Longrightarrow> known_message (w_db w') cmd (ntf_ID n)"
  using pg_ReadByIdempotencyKey_found [of E "cmd_SourceID cmd" "cmd_IdempotencyKey cmd" w n w']
  by (auto simp: GetByIdempotencyKey_def deployed_gateway pg_notifications_def known_message_def optional_def)

lemma raced_known:
  assumes "raced (deployed_submitter E age) cmd e w = (Inr res, w')"
  shows "subm_Duplicate res \<and> known_message (w_db w') cmd (subm_ID res)"
proof -
  obtain x w1 where get: "GetByIdempotencyKey (deployed_notifs E age) (cmd_SourceID cmd) (cmd_IdempotencyKey cmd) w = (x, w1)"
    by fastforce
  have "sub_notifs (deployed_submitter E age) = deployed_notifs E age" by (simp add: deployed_submitter_def)
  with assms get obtain n where "x = Inr (Some n)" "w' = w1" "res = duplicateOf n"
    by (auto simp: raced_def attempt_run split: sum.splits option.splits)
  with get GetByIdempotencyKey_known show ?thesis by (auto simp: duplicateOf_def)
qed

lemma closed_submission:
  "keeps tx_closed (check_senders_loop (deployed_submitter E age) i cs)"
  "keeps tx_closed (Admit (deployed_sources E) i)"
  "keeps tx_closed (GetByIdempotencyKey (deployed_notifs E age) i key)"
proof -
  show "keeps tx_closed (GetByIdempotencyKey (deployed_notifs E age) i key)"
    by (auto intro!: keeps_tx_closed split: sum.split simp: GetByIdempotencyKey_def deployed_gateway
        pg_notifications_def pg_ReadByIdempotencyKey_def)
  show "keeps tx_closed (Admit (deployed_sources E) i)"
    by (auto intro!: keeps_tx_closed split: sum.split simp: Admit_def Load_def deployed_gateway pg_sources_def pg_ReadSource_def)
  show "keeps tx_closed (check_senders_loop (deployed_submitter E age) i cs)"
  proof (induction cs)
    case Nil
    then show ?case by (simp add: keeps_def closed_tx.refl_R)
  next
    case (Cons x cs)
    then show ?case
      by (cases x) (auto intro!: keeps_tx_closed simp: credential_Resolve_def deployed_gateway pg_credentials_def
          pg_ListBySourceAndChannel_def)
  qed
qed

definition accepted :: "env \<Rightarrow> submit_command \<Rightarrow> source \<Rightarrow> submit_result result \<Rightarrow> world \<Rightarrow> world \<Rightarrow> bool" where
  "accepted E cmd src r w w' \<longleftrightarrow> (\<exists>rs n ds. Service_Resolve (lib E) src (cmd_Routes cmd) = Inr rs
     \<and> message_set src cmd rs n ds \<and> w_db w' = with_message E n ds (w_db w)
     \<and> (case r of
          Inl e \<Rightarrow> commit_unanswered E e \<and> w_published w' = w_published w
        | Inr res \<Rightarrow> res = \<lparr>subm_ID = ntf_ID n, subm_EffectivePriority = ntf_EffectivePriority n,
              subm_Downgraded = WasDowngraded n, subm_Duplicate = False\<rparr>
            \<and> w_published w' = w_published w @ map (event_of n) ds))"

definition nothing_written :: "submit_command \<Rightarrow> submit_result result \<Rightarrow> world \<Rightarrow> world \<Rightarrow> bool" where
  "nothing_written cmd r w w' \<longleftrightarrow> w_db w' = w_db w \<and> w_published w' = w_published w
     \<and> (case r of Inl e \<Rightarrow> True | Inr res \<Rightarrow> subm_Duplicate res \<and> known_message (w_db w) cmd (subm_ID res))"

lemma accept_run:
  assumes "accept (deployed_submitter E age) cmd src w = (r, w')" "alone E" "w_tx w = NoTx"
  shows "nothing_written cmd r w w' \<or> accepted E cmd src r w w'"
proof (cases "Service_Resolve (lib E) src (cmd_Routes cmd)")
  case (Inl e)
  with assms(1) show ?thesis by (auto simp: accept_def deployed_submitter_def [of E age] nothing_written_def)
next
  case (Inr rs)
  let ?S = "deployed_submitter E age"
  obtain x w1 where chk: "check_senders_loop ?S (cmd_SourceID cmd) (cmd_Senders cmd) w = (x, w1)" by fastforce
  have w1: "w_db w1 = w_db w" "w_tx w1 = NoTx" "w_published w1 = w_published w"
    using alone_same [OF nobody.keeps_checking(2) assms(2) chk] keepsD [OF closed_submission(1) chk] assms(3)
      published_db_step [OF keepsD [OF keeps_submission(3) chk]] by (simp_all add: tx_closed_def)
  have L: "sub_lib ?S = lib E" and A: "sub_atomically ?S = Atomically E" by (simp_all add: deployed_submitter_def)
  show ?thesis
  proof (cases x)
    case (Inl e)
    with assms(1) Inr chk w1 show ?thesis
      by (auto simp: accept_def L checkSenders_def and_then_run nothing_written_def)
  next
    case unit: (Inr u)
    obtain y w2 where tx: "Atomically E (write_message ?S cmd src rs) w1 = (y, w2)" by fastforce
    have p2: "w_published w2 = w_published w"
      using published_db_step [OF keepsD [OF keeps_Atomically [OF keeps_submission(1)] tx]] w1 by simp
    have run: "(case y of
        Inl err \<Rightarrow> if is_err err (NotificationE ErrDuplicateKey) then raced ?S cmd err else throw err
      | Inr (n, ds) \<Rightarrow> and_then (publish_all ?S n ds) (\<lambda>_.
          ret \<lparr>subm_ID = ntf_ID n, subm_EffectivePriority = ntf_EffectivePriority n,
             subm_Downgraded = WasDowngraded n, subm_Duplicate = False\<rparr>)) w2 = (r, w')"
      using assms(1) Inr chk unit tx by (simp add: accept_def L A checkSenders_def and_then_run attempt_run)
    from tx w1(2) show ?thesis
    proof (cases rule: Atomically_cases)
      case (rolled_back e)
      with alone_begin [OF assms(2)] w1 have db: "w_db w2 = w_db w" by simp
      show ?thesis
      proof (cases "is_err e (NotificationE ErrDuplicateKey)")
        case True
        with run rolled_back(1) have "raced ?S cmd e w2 = (r, w')" by simp
        moreover from this have "w_db w' = w_db w" "w_published w' = w_published w"
          using alone_same [OF nobody.keeps_racing assms(2)] db p2
            published_db_step [OF keepsD [OF keeps_submission(2)]] by metis+
        ultimately show ?thesis using raced_known [of E age cmd e w2 _ w']
          by (auto simp: nothing_written_def split: sum.split)
      next
        case False
        with run rolled_back(1) db p2 show ?thesis by (auto simp: nothing_written_def)
      qed
    next
      case (committed z w3)
      obtain n ds where z: "z = (n, ds)" by (cases z)
      note wm = write_message_writes [OF committed(1) [unfolded z], simplified]
      obtain w4 where pub: "publish_all ?S n ds w2 = (Inr (), w4)" "inside w2 w4"
        "w_published w4 = w_published w2 @ map (event_of n) ds" using publish_all_run by blast
      have "r = Inr \<lparr>subm_ID = ntf_ID n, subm_EffectivePriority = ntf_EffectivePriority n,
             subm_Downgraded = WasDowngraded n, subm_Duplicate = False\<rparr>" "w' = w4"
        using run committed(5) z pub by (simp_all add: and_then_def)
      with pub wm committed(3) alone_begin [OF assms(2)] w1 p2 Inr show ?thesis
        by (auto simp: accepted_def inside_def)
    next
      case (unacked z w3 s)
      obtain n ds where z: "z = (n, ds)" by (cases z)
      note wm = write_message_writes [OF unacked(1) [unfolded z], simplified]
      have "r = Inl (failed ''commit transaction'' (connection_error s))" "w' = w2"
        using run unacked(5) by simp_all
      with wm unacked(3,6) alone_begin [OF assms(2)] w1 p2 Inr show ?thesis
        by (auto simp: accepted_def)
    qed
  qed
qed


lemma Admit_run:
  assumes "Admit (deployed_sources E) i w = (r, w')"
  shows "w_published w' = w_published w"
    and "r = Inr src \<Longrightarrow> src_ID src = i \<and> src_IsActive src
      \<and> (\<exists>row. row \<in> set (t_sources (w_db w')) \<and> toSource row = Inr src)"
proof -
  obtain b w1 where al: "outside_Allow E i w = (b, w1)" by fastforce
  have w1: "w_published w1 = w_published w" using al by (auto simp: outside_Allow_def)
  have run: "(case b of Inl e \<Rightarrow> throw e | Inr allowed \<Rightarrow>
      if \<not> allowed then throw (WithStr (WithErr (TooManyErr ''too many requests'') (Sentinel (SourceE ErrRateLimited)))
             (Text ''source %q'' [FmtS i]))
      else Load (deployed_sources E) i) w1 = (r, w')"
    using assms al by (cases b) (auto simp: Admit_def deployed_sources_def and_then_def)
  have step: "keeps db_step (Load (deployed_sources E) i)"
    by (auto intro!: keeps_db keeps_pg_sources simp: Load_def deployed_sources_def pg_sources_def)
  show "w_published w' = w_published w"
    using run w1 published_db_step [OF keepsD [OF step]] by (auto split: sum.splits if_splits)
  assume "r = Inr src"
  with run have "Load (deployed_sources E) i w1 = (Inr src, w')" by (auto split: sum.splits if_splits)
  then obtain w2 where rd: "pg_ReadSource E i w1 = (Inr src, w2)" "source_EnsureActive src = ok" "w' = w2"
    by (auto simp: Load_def deployed_sources_def pg_sources_def and_then_Inr lift_def)
  then obtain row where row: "exec E (sql_ReadSource i) w1 = (Inr row, w2)" "toSource row = Inr src"
    by (auto simp: pg_ReadSource_def attempt_sum_eq lift_def split: if_splits)
  from exec_Inr [OF row(1)] have "row \<in> set (t_sources (w_db w2)) \<and> so_id row = i"
    by (auto simp: sql_ReadSource_def one_row_Inr dest!: the_row_Some)
  moreover from row(2) have "src_ID src = so_id row"
    by (auto simp: toSource_def toAddresses_def split: sum.splits)
  moreover have "src_IsActive src" using rd(2) by (simp add: source_EnsureActive_def split: if_splits)
  ultimately show "src_ID src = i \<and> src_IsActive src
      \<and> (\<exists>row. row \<in> set (t_sources (w_db w')) \<and> toSource row = Inr src)"
    using row(2) rd(3) by blast
qed

lemma Submit_run:
  assumes "Submit (deployed_submitter E age) cmd w = (r, w')"
  obtains (stopped) e where "r = Inl e" "Admit (deployed_sources E) (cmd_SourceID cmd) w = (Inl e, w')"
  | (unread) src e w1 where "r = Inl e" "Admit (deployed_sources E) (cmd_SourceID cmd) w = (Inr src, w1)"
      "GetByIdempotencyKey (deployed_notifs E age) (cmd_SourceID cmd) (cmd_IdempotencyKey cmd) w1 = (Inl e, w')"
  | (repeated) src n w1 where "r = Inr (duplicateOf n)"
      "Admit (deployed_sources E) (cmd_SourceID cmd) w = (Inr src, w1)"
      "GetByIdempotencyKey (deployed_notifs E age) (cmd_SourceID cmd) (cmd_IdempotencyKey cmd) w1 = (Inr (Some n), w')"
  | (fresh) src w1 w2 where "Admit (deployed_sources E) (cmd_SourceID cmd) w = (Inr src, w1)"
      "w2 = w1 \<and> cmd_IdempotencyKey cmd = '''' \<or> GetByIdempotencyKey (deployed_notifs E age) (cmd_SourceID cmd)
         (cmd_IdempotencyKey cmd) w1 = (Inr None, w2)"
      "accept (deployed_submitter E age) cmd src w2 = (r, w')"
proof -
  have S: "sub_sources (deployed_submitter E age) = deployed_sources E"
    "sub_notifs (deployed_submitter E age) = deployed_notifs E age" by (simp_all add: deployed_submitter_def)
  obtain a w1 where adm: "Admit (deployed_sources E) (cmd_SourceID cmd) w = (a, w1)" by fastforce
  obtain b w2 where get: "GetByIdempotencyKey (deployed_notifs E age) (cmd_SourceID cmd)
      (cmd_IdempotencyKey cmd) w1 = (b, w2)" by fastforce
  show thesis
  proof (cases a)
    case (Inl e)
    with assms adm show thesis by (intro stopped) (auto simp: Submit_def S and_then_run)
  next
    case a: (Inr src)
    show thesis
    proof (cases "cmd_IdempotencyKey cmd = ''''")
      case True
      with assms adm a show thesis by (intro fresh) (auto simp: Submit_def S and_then_run)
    next
      case False
      with assms adm a get have run: "(case b of Inl e \<Rightarrow> throw e
          | Inr existing \<Rightarrow> (case existing of Some n \<Rightarrow> ret (duplicateOf n)
              | None \<Rightarrow> accept (deployed_submitter E age) cmd src)) w2 = (r, w')"
        by (cases b) (auto simp: Submit_def S and_then_run)
      show thesis
      proof (cases b)
        case (Inl e)
        with run adm a get show thesis by (intro unread) auto
      next
        case (Inr x)
        with run adm a get show thesis by (cases x) (auto intro: repeated fresh)
      qed
    qed
  qed
qed

text \<open>
  C2. A submission is all or nothing. Where no other process writes, and whatever round trips to the
  database fail, it leaves the database as it was and tells the broker nothing (answering an error or
  the message this key already stands for), or it adds exactly one message of its source with one
  pending delivery per resolved recipient. In the second case it answers that message and the broker hears
  of its deliveries, in order, after the commit; the one exception is a commit that went through and whose
  answer was lost, which is answered as a failed commit and of which the broker hears nothing.
\<close>

theorem submit_all_or_nothing:
  assumes "Submit (deployed_submitter E age) cmd w = (r, w')" "alone E" "w_tx w = NoTx"
  shows "nothing_written cmd r w w' \<or>
    (\<exists>src row. row \<in> set (t_sources (w_db w)) \<and> toSource row = Inr src \<and> src_ID src = cmd_SourceID cmd
       \<and> src_IsActive src \<and> accepted E cmd src r w w')"
proof -
  have adm: "w_db w1 = w_db w \<and> w_tx w1 = NoTx \<and> w_published w1 = w_published w"
    if "Admit (deployed_sources E) (cmd_SourceID cmd) w = (a, w1)" for a w1
    using alone_same [OF nobody.keeps_checking(1) assms(2) that] keepsD [OF closed_submission(2) that]
      Admit_run(1) [OF that] assms(3) by (simp add: tx_closed_def)
  have get: "w_db w2 = w_db w1 \<and> (w_tx w1 = NoTx \<longrightarrow> w_tx w2 = NoTx) \<and> w_published w2 = w_published w1"
    if "GetByIdempotencyKey (deployed_notifs E age) i key w1 = (a, w2)" for i key a w1 w2
    using alone_same [OF nobody.keeps_checking(3) assms(2) that] keepsD [OF closed_submission(3) that]
      published_db_step [OF keepsD [OF keeps_submission(4) that]] by (simp add: tx_closed_def)
  from assms(1) show ?thesis
  proof (cases rule: Submit_run)
    case (stopped e)
    with adm show ?thesis by (simp add: nothing_written_def)
  next
    case (unread src e w1)
    with adm get show ?thesis by (simp add: nothing_written_def)
  next
    case (repeated src n w1)
    with adm get GetByIdempotencyKey_known [OF repeated(3)]
    show ?thesis by (simp add: nothing_written_def duplicateOf_def)
  next
    case (fresh src w1 w2)
    have w2: "w_db w2 = w_db w" "w_tx w2 = NoTx" "w_published w2 = w_published w"
      using adm [OF fresh(1)] get fresh(2) by auto
    have "nothing_written cmd r w2 w' = nothing_written cmd r w w'"
      "accepted E cmd src r w2 w' = accepted E cmd src r w w'"
      unfolding nothing_written_def accepted_def w2 by (rule refl)+
    with accept_run [OF fresh(3) assms(2) w2(2)]
    have "nothing_written cmd r w w' \<or> accepted E cmd src r w w'" by simp
    with Admit_run(2) [OF fresh(1) refl] adm [OF fresh(1)] show ?thesis by auto
  qed
qed


definition demo_open_world :: world where
  "demo_open_world = demo_world\<lparr>w_db :=
     run_write (UpdateReview (demo_id CHR ''2'') True (Some 12) (Some 12) '''' 12) (w_db demo_world)\<rparr>"

definition demo_command :: submit_command where
  "demo_command = \<lparr>cmd_SourceID = demo_id CHR ''2'', cmd_IdempotencyKey = ''order-7'', cmd_Title = ''Paid'',
     cmd_Body = ''Order 7 is paid'', cmd_Priority = PriorityCritical, cmd_ExpireAt = None,
     cmd_Metadata = None, cmd_Routes = [\<lparr>rt_Channel = ChannelTelegram, rt_Address = ''''\<rparr>],
     cmd_Senders = []\<rparr>"

theorem submit_all_or_nothing_witness:
  defines "w' \<equiv> snd (Submit (deployed_submitter demo_env hour) demo_command demo_open_world)"
    and "r \<equiv> fst (Submit (deployed_submitter demo_env hour) demo_command demo_open_world)"
  shows "nothing_written demo_command r demo_open_world w' \<or>
    (\<exists>src row. row \<in> set (t_sources (w_db demo_open_world)) \<and> toSource row = Inr src
       \<and> src_ID src = cmd_SourceID demo_command \<and> src_IsActive src
       \<and> accepted demo_env demo_command src r demo_open_world w')"
  by (rule submit_all_or_nothing [where age = hour])
    (simp_all add: r_def w'_def alone_def demo_env_def demo_open_world_def demo_world_def)


subsection \<open>One message per key\<close>

lemma accept_known:
  assumes "accept (deployed_submitter E age) cmd src w = (Inr res, w')" "w_tx w = NoTx"
    and "src_ID src = cmd_SourceID cmd" "cmd_IdempotencyKey cmd \<noteq> ''''"
  shows "known_message (w_db w') cmd (subm_ID res)"
proof -
  let ?S = "deployed_submitter E age"
  have L: "sub_lib ?S = lib E" and A: "sub_atomically ?S = Atomically E" by (simp_all add: deployed_submitter_def)
  from assms(1) obtain rs w1 y w2 where chk: "check_senders_loop ?S (cmd_SourceID cmd) (cmd_Senders cmd) w = (Inr (), w1)"
    and tx: "Atomically E (write_message ?S cmd src rs) w1 = (y, w2)"
    and run: "(case y of
        Inl err \<Rightarrow> if is_err err (NotificationE ErrDuplicateKey) then raced ?S cmd err else throw err
      | Inr (n, ds) \<Rightarrow> and_then (publish_all ?S n ds) (\<lambda>_.
          ret \<lparr>subm_ID = ntf_ID n, subm_EffectivePriority = ntf_EffectivePriority n,
             subm_Downgraded = WasDowngraded n, subm_Duplicate = False\<rparr>)) w2 = (Inr res, w')"
    by (auto simp: accept_def L A checkSenders_def and_then_Inr attempt_eq)
  have w1: "w_tx w1 = NoTx" using keepsD [OF closed_submission(1) chk] assms(2) by (simp add: tx_closed_def)
  show ?thesis
  proof (cases y)
    case (Inl e)
    with run have "raced ?S cmd e w2 = (Inr res, w')" by (auto split: if_splits)
    then show ?thesis using raced_known by blast
  next
    case (Inr z)
    obtain n ds where z: "z = (n, ds)" by (cases z)
    obtain w4 where pub: "publish_all ?S n ds w2 = (Inr (), w4)" "inside w2 w4" using publish_all_run by blast
    then have r: "res = \<lparr>subm_ID = ntf_ID n, subm_EffectivePriority = ntf_EffectivePriority n,
        subm_Downgraded = WasDowngraded n, subm_Duplicate = False\<rparr>" "w' = w4"
      using run Inr z by (auto simp: and_then_def)
    from tx [unfolded Inr z] w1 obtain w3 where
      wm: "write_message ?S cmd src rs ((begin_trip E w1)\<lparr>w_tx := Open\<rparr>) = (Inr (n, ds), w3)" "w_db w2 = w_db w3"
      by (cases rule: Atomically_cases) auto
    note s = write_message_writes [OF wm(1), simplified]
    have "t_notifications (w_db w') = t_notifications (w_db (begin_trip E w1)) @ [message_row E n]"
      using s(2) wm(2) pub(2) r(2) by (simp add: inside_def with_message_def)
    moreover have "nt_id (message_row E n) = subm_ID res" "nt_source_id (message_row E n) = cmd_SourceID cmd"
      "nt_idempotency_key (message_row E n) = Some (cmd_IdempotencyKey cmd)"
      using s(3) r(1) assms(3,4)
      by (simp_all add: message_row_def notification_row_of_def message_set_def optional_def)
    ultimately show ?thesis unfolding known_message_def by (metis in_set_conv_decomp)
  qed
qed

lemma Submit_known:
  assumes "Submit (deployed_submitter E age) cmd w = (Inr res, w')" "w_tx w = NoTx" "cmd_IdempotencyKey cmd \<noteq> ''''"
  shows "known_message (w_db w') cmd (subm_ID res)"
  using assms(1)
proof (cases rule: Submit_run)
  case (repeated src n w1)
  with GetByIdempotencyKey_known show ?thesis by (auto simp: duplicateOf_def)
next
  case (fresh src w1 w2)
  have "w_tx w1 = NoTx" using keepsD [OF closed_submission(2) fresh(1)] assms(2) by (simp add: tx_closed_def)
  then have "w_tx w2 = NoTx" using fresh(2) keepsD [OF closed_submission(3)] by (auto simp: tx_closed_def)
  with fresh(3) Admit_run(2) [OF fresh(1) refl] assms(3) show ?thesis by (auto intro: accept_known)
qed auto

text \<open>
  C3. An idempotency key stands for one message while that message is kept. If two submissions of a source
  under one key both succeed, in whichever processes and order, and there is a database the program can
  reach that still holds all messages the one and the other left behind (so the sweep has deleted none of
  them), then they answered the same message: a client that retries a request it heard nothing of never
  sends it twice.
\<close>

theorem submit_idempotent:
  assumes "Submit (deployed_submitter E age) cmd w = (Inr res, w1)" "w_tx w = NoTx"
    and "Submit (deployed_submitter E' age') cmd' v = (Inr res', v1)" "w_tx v = NoTx"
    and "cmd_SourceID cmd' = cmd_SourceID cmd" "cmd_IdempotencyKey cmd' = cmd_IdempotencyKey cmd"
      "cmd_IdempotencyKey cmd \<noteq> ''''"
    and "reachable db" "adds_messages (w_db w1) db" "adds_messages (w_db v1) db"
  shows "subm_ID res' = subm_ID res"
proof -
  have keep: "known_message db c i" if "known_message a c i" "adds_messages a db" for a c i
    using that adds_messages_in by (fastforce simp: known_message_def)
  have "known_message db cmd (subm_ID res)" "known_message db cmd' (subm_ID res')"
    using keep Submit_known [OF assms(1,2,7)] Submit_known [OF assms(3,4)] assms(6,7,9,10) by simp_all
  moreover have "notifications_ok (t_notifications db)"
    using reachable_db_ok [OF assms(8)] by (simp add: db_ok_def)
  ultimately obtain x y where "unique_on notifications_source_idempotency_key (t_notifications db)"
    and x: "x \<in> set (t_notifications db)" "nt_id x = subm_ID res" "nt_source_id x = cmd_SourceID cmd"
      "nt_idempotency_key x = Some (cmd_IdempotencyKey cmd)"
    and y: "y \<in> set (t_notifications db)" "nt_id y = subm_ID res'" "nt_source_id y = cmd_SourceID cmd"
      "nt_idempotency_key y = Some (cmd_IdempotencyKey cmd)"
    using assms(5,6) unfolding known_message_def notifications_ok_def by metis
  moreover have "notifications_source_idempotency_key x = Some (cmd_SourceID cmd, cmd_IdempotencyKey cmd)"
    "notifications_source_idempotency_key y = Some (cmd_SourceID cmd, cmd_IdempotencyKey cmd)"
    using x y by (simp_all add: notifications_source_idempotency_key_def)
  ultimately have "x = y" using unique_on_inj by metis
  with x(2) y(2) show ?thesis by simp
qed


definition demo_repeat :: submit_command where
  "demo_repeat = demo_command\<lparr>cmd_IdempotencyKey := ''k''\<rparr>"


lemma exec_quiet_row:
  assumes "quiet E" "w_tx w = NoTx" "stmt (w_db w) = (r, w_db w)"
  shows "exec E stmt w = (r, w\<lparr>w_trips := Suc (w_trips w)\<rparr>)"
  using assms by (simp add: quiet_def exec_def begin_trip_quiet [OF assms(1)] abort_on_def Let_def)

definition demo_active_source :: source where
  "demo_active_source =
    \<lparr>src_ID = demo_id CHR ''2'', src_Name = ''shop'', src_Description = '''', src_MaxPriority = PriorityHigh,
     src_IsActive = True, src_OwnerUserID = demo_id CHR ''1'', src_ApprovedAt = Some 12,
     src_ReviewedAt = Some 12, src_ReviewNote = '''', src_AllowCustomAddress = False,
     src_DefaultAddresses = [(ChannelTelegram, ''@channel_name'')], src_CreatedAt = 10, src_UpdatedAt = 12\<rparr>"

definition demo_kept :: notification where
  "demo_kept = \<lparr>ntf_ID = demo_id CHR ''3'', ntf_SourceID = demo_id CHR ''2'', ntf_IdempotencyKey = ''k'',
     ntf_SourceName = ''shop'', ntf_Title = '''', ntf_Body = ''hi'', ntf_RequestedPriority = PriorityNormal,
     ntf_EffectivePriority = PriorityNormal, ntf_ExpireAt = None, ntf_CreatedAt = 20, ntf_metadata = Some []\<rparr>"

lemma demo_open_reads:
  "case fst (sql_ReadSource (demo_id CHR ''2'') (w_db demo_open_world)) of
     Inl e \<Rightarrow> False | Inr row \<Rightarrow> toSource row = Inr demo_active_source"
  "case fst (sql_ReadNotificationByIdempotencyKey (demo_id CHR ''2'') (Some ''k'') (w_db demo_open_world)) of
     Inl e \<Rightarrow> False | Inr row \<Rightarrow> toNotification row = Inr demo_kept"
  by (code_simp, code_simp)

lemma demo_repeated:
  "Submit (deployed_submitter demo_env hour) demo_repeat demo_open_world =
     (Inr (duplicateOf demo_kept), demo_open_world\<lparr>w_trips := 2, w_admissions := [demo_id CHR ''2'']\<rparr>)"
proof -
  have q: "quiet demo_env" by (simp add: quiet_def demo_env_def)
  have w: "w_tx demo_open_world = NoTx" "w_trips demo_open_world = 0" "w_admissions demo_open_world = []"
    by (simp_all add: demo_open_world_def demo_world_def)
  have src: "pg_ReadSource demo_env (demo_id CHR ''2'') (demo_open_world\<lparr>w_admissions := [demo_id CHR ''2'']\<rparr>)
      = (Inr demo_active_source, demo_open_world\<lparr>w_admissions := [demo_id CHR ''2''], w_trips := 1\<rparr>)"
    using demo_open_reads(1) exec_quiet_row [OF q, of "demo_open_world\<lparr>w_admissions := [demo_id CHR ''2'']\<rparr>"
        "sql_ReadSource (demo_id CHR ''2'')"] w
    by (auto simp: pg_ReadSource_def attempt_def sql_ReadSource_def split: sum.splits)
  have msg: "pg_ReadByIdempotencyKey demo_env (demo_id CHR ''2'') ''k''
      (demo_open_world\<lparr>w_admissions := [demo_id CHR ''2''], w_trips := 1\<rparr>)
      = (Inr (Some demo_kept), demo_open_world\<lparr>w_trips := 2, w_admissions := [demo_id CHR ''2'']\<rparr>)"
    using demo_open_reads(2) exec_quiet_row [OF q,
        of "demo_open_world\<lparr>w_admissions := [demo_id CHR ''2''], w_trips := 1\<rparr>"
        "sql_ReadNotificationByIdempotencyKey (demo_id CHR ''2'') (Some ''k'')"] w
    by (auto simp: pg_ReadByIdempotencyKey_def attempt_def optional_def
        sql_ReadNotificationByIdempotencyKey_def split: sum.splits)
  show ?thesis
    using src msg w
    by (simp add: Submit_def Admit_def Load_def deployed_gateway demo_repeat_def demo_command_def and_then_def
        outside_Allow_def demo_env_def pg_sources_def source_EnsureActive_def demo_active_source_def
        GetByIdempotencyKey_def pg_notifications_def)
qed


theorem submit_idempotent_witness:
  "subm_ID (duplicateOf demo_kept) = subm_ID (duplicateOf demo_kept)
   \<and> Submit (deployed_submitter demo_env hour) demo_repeat demo_open_world =
     (Inr (duplicateOf demo_kept), demo_open_world\<lparr>w_trips := 2, w_admissions := [demo_id CHR ''2'']\<rparr>)"
proof
  have r: "reachable (w_db demo_open_world)"
    using reachable_run_writes [OF demo_reachable, of "[UpdateReview (demo_id CHR ''2'') True (Some 12) (Some 12) '''' 12]"]
    by (simp add: demo_open_world_def run_writes_def del: run_write.simps)
  have t: "w_tx demo_open_world = NoTx" by (simp add: demo_open_world_def demo_world_def)
  show "subm_ID (duplicateOf demo_kept) = subm_ID (duplicateOf demo_kept)"
    by (rule submit_idempotent [OF demo_repeated t demo_repeated t _ _ _ r])
      (simp_all add: demo_repeat_def)
qed (rule demo_repeated)


subsection \<open>What a sweep forgets\<close>

definition deployed_retention :: "env \<Rightarrow> duration \<Rightarrow> int \<Rightarrow> world retention" where
  "deployed_retention E age batch =
     \<lparr>ret_notifs = deployed_notifs E age, ret_age = age, ret_batch = batch\<rparr>"

definition older :: "time \<Rightarrow> database \<Rightarrow> notification_row list" where
  "older t db = filter (\<lambda>r. nt_created_at r < t) (t_notifications db)"

text \<open>One batch: it takes old messages only, and as many as it is allowed.\<close>

lemma delete_batch:
  assumes "distinct (map nt_id (t_notifications db))" "0 \<le> lim"
    and "sql_DeleteNotificationsBefore t lim db = (x, db')"
  obtains doomed where "x = Inr (min (nat lim) (length (older t db)))"
    "t_notifications db' = filter (\<lambda>r. nt_id r \<notin> doomed) (t_notifications db)"
    "t_deliveries db' = filter (\<lambda>d. dl_notification_id d \<notin> doomed) (t_deliveries db)"
    "\<And>r. r \<in> set (t_notifications db) \<Longrightarrow> nt_id r \<in> doomed \<Longrightarrow> nt_created_at r < t"
    "\<And>u. t \<le> u \<Longrightarrow> length (older u db) = min (nat lim) (length (older t db)) + length (older u db')"
    "length (older t db) < nat lim \<Longrightarrow> older t db' = []"
proof -
  let ?R = "t_notifications db"
  define chosen where "chosen = take (nat lim) (sort_key nt_id (older t db))"
  define doomed where "doomed = nt_id ` set chosen"
  have sub: "set chosen \<subseteq> set (older t db)"
    unfolding chosen_def by (metis set_sort set_take_subset)
  have dist: "distinct chosen"
    using assms(1) unfolding chosen_def older_def by (simp add: distinct_map)
  have inj: "inj_on nt_id (set ?R)" using assms(1) by (simp add: distinct_map)
  have mem: "nt_id r \<in> doomed \<longleftrightarrow> r \<in> set chosen" if "r \<in> set ?R" for r
    using that sub inj unfolding doomed_def older_def by (auto dest: inj_onD)
  have len: "length chosen = min (nat lim) (length (older t db))"
    by (simp add: chosen_def)
  have cnt: "length (filter (\<lambda>r. nt_id r \<in> doomed) ?R) = length chosen"
  proof -
    have "set (filter (\<lambda>r. nt_id r \<in> doomed) ?R) = set chosen"
      using mem sub by (auto simp: older_def)
    moreover have "distinct (filter (\<lambda>r. nt_id r \<in> doomed) ?R)"
      using assms(1) by (simp add: distinct_map)
    ultimately show ?thesis using dist by (metis distinct_card)
  qed
  have dset: "set (map nt_id chosen) = doomed" by (simp add: doomed_def)
  have run: "x = Inr (length chosen)" "t_notifications db' = filter (\<lambda>r. nt_id r \<notin> doomed) ?R"
    "t_deliveries db' = filter (\<lambda>d. dl_notification_id d \<notin> doomed) (t_deliveries db)"
    using assms(2,3) cnt
    by (auto simp: sql_DeleteNotificationsBefore_def limited_def Let_def affected_def delete_where_def
        chosen_def older_def doomed_def)
  have old: "nt_created_at r < t" if "r \<in> set ?R" "nt_id r \<in> doomed" for r
    using that mem sub by (auto simp: older_def)
  have split: "length (older u db) = length chosen + length (older u db')" if "t \<le> u" for u
  proof -
    have "filter (\<lambda>r. nt_created_at r < u \<and> nt_id r \<in> doomed) ?R = filter (\<lambda>r. nt_id r \<in> doomed) ?R"
      using old that by (intro filter_cong) fastforce+
    then have "length (filter (\<lambda>r. nt_id r \<in> doomed) (older u db)) = length chosen"
      using cnt by (simp add: older_def conj_commute)
    moreover have "older u db' = filter (\<lambda>r. nt_id r \<notin> doomed) (older u db)"
      by (simp add: older_def run(2) conj_commute)
    ultimately show ?thesis
      using sum_length_filter_compl [of "\<lambda>r. nt_id r \<in> doomed" "older u db"] by simp
  qed
  show thesis
  proof (rule that [OF _ run(2,3) old])
    show "x = Inr (min (nat lim) (length (older t db)))" using run(1) len by simp
    show "length (older u db) = min (nat lim) (length (older t db)) + length (older u db')" if "t \<le> u" for u
      using split [OF that] len by simp
    show "older t db' = []" if "length (older t db) < nat lim"
      using split [of t] len that by simp
  qed
qed


lemma exec_quiet:
  assumes "quiet E" "w_tx w = NoTx"
  shows "exec E stmt w = (fst (stmt (w_db w)), w\<lparr>w_trips := Suc (w_trips w), w_db := snd (stmt (w_db w))\<rparr>)"
  using assms
  by (simp add: quiet_def exec_def begin_trip_quiet [OF assms(1)] abort_on_def Let_def split: prod.split)

lemma one_batch:
  assumes "quiet E" "w_tx w = NoTx" "0 \<le> batch" "batch < 2 ^ 31" "distinct (map nt_id (t_notifications (w_db w)))"
  obtains n w' where "notification_DeleteOlderThan (deployed_notifs E age) age batch w = (Inr (int n), w')"
    "w' = w\<lparr>w_clock := Suc (w_clock w), w_trips := Suc (w_trips w),
       w_db := snd (sql_DeleteNotificationsBefore (clock E (w_clock w) - age) batch (w_db w))\<rparr>"
    "fst (sql_DeleteNotificationsBefore (clock E (w_clock w) - age) batch (w_db w)) = Inr n"
proof -
  let ?t = "clock E (w_clock w) - age"
  let ?w1 = "w\<lparr>w_clock := Suc (w_clock w)\<rparr>"
  obtain n where n: "fst (sql_DeleteNotificationsBefore ?t batch (w_db w)) = Inr n"
    using delete_batch [OF assms(5,3) surjective_pairing] by metis
  have "exec E (sql_DeleteNotificationsBefore ?t batch) ?w1 = (Inr n, w\<lparr>w_clock := Suc (w_clock w),
      w_trips := Suc (w_trips w), w_db := snd (sql_DeleteNotificationsBefore ?t batch (w_db w))\<rparr>)"
    using exec_quiet [OF assms(1), of ?w1 "sql_DeleteNotificationsBefore ?t batch"] n assms(2) by simp
  then have "notification_DeleteOlderThan (deployed_notifs E age) age batch w = (Inr (int n), w\<lparr>w_clock := Suc (w_clock w),
      w_trips := Suc (w_trips w), w_db := snd (sql_DeleteNotificationsBefore ?t batch (w_db w))\<rparr>)"
    using to_int32_id [of batch] assms(3,4)
    by (simp add: notification_DeleteOlderThan_def call_def Now_def deployed_notifs_def pg_notifications_def
        pg_DeleteOlderThan_def or_failed_def attempt_def)
  with n show thesis by (intro that) simp_all
qed

definition forgets :: "time \<Rightarrow> database \<Rightarrow> database \<Rightarrow> bool" where
  "forgets t db db' \<longleftrightarrow> (\<exists>doomed. t_notifications db' = filter (\<lambda>r. nt_id r \<notin> doomed) (t_notifications db)
     \<and> t_deliveries db' = filter (\<lambda>d. dl_notification_id d \<notin> doomed) (t_deliveries db)
     \<and> (\<forall>r. r \<in> set (t_notifications db) \<longrightarrow> nt_id r \<in> doomed \<longrightarrow> nt_created_at r < t))"

lemma forgets_refl: "forgets t db db"
  unfolding forgets_def by (rule exI [of _ "{}"]) simp

lemma forgets_trans: "forgets t a b \<Longrightarrow> forgets t b c \<Longrightarrow> forgets t a c"
  unfolding forgets_def
  by (elim exE, rule_tac x = "doomed \<union> doomeda" in exI) (fastforce simp: conj_commute)

lemma purge_batches_run:
  assumes "quiet E" "0 < batch" "batch < 2 ^ 31"
    and "w_tx w = NoTx" "distinct (map nt_id (t_notifications (w_db w)))"
    and "\<And>i j. i \<le> j \<Longrightarrow> clock E i \<le> clock E j"
    and "\<And>j. j < w_clock w + left \<Longrightarrow> clock E j - age \<le> T"
    and "purge_batches (deployed_retention E age batch) stopped k left del w = (r, w')"
  shows "r = Inr () \<and> w_trips w' \<le> w_trips w + left \<and> forgets T (w_db w) (w_db w')
    \<and> ((\<forall>k. \<not> stopped k) \<longrightarrow> length (older T (w_db w)) < left * nat batch \<longrightarrow>
        older (clock E (w_clock w) - age) (w_db w') = [])"
  using assms(4-)
proof (induction left arbitrary: k del w)
  case 0
  then show ?case by (simp add: forgets_refl)
next
  case (Suc left)
  show ?case
  proof (cases "stopped k")
    case True
    with Suc.prems show ?thesis by (auto simp: forgets_refl)
  next
    case False
    obtain n w1 where one: "notification_DeleteOlderThan (deployed_notifs E age) age batch w = (Inr (int n), w1)"
      and w1: "w1 = w\<lparr>w_clock := Suc (w_clock w), w_trips := Suc (w_trips w),
         w_db := snd (sql_DeleteNotificationsBefore (clock E (w_clock w) - age) batch (w_db w))\<rparr>"
      and n: "fst (sql_DeleteNotificationsBefore (clock E (w_clock w) - age) batch (w_db w)) = Inr n"
      using one_batch [OF assms(1) Suc.prems(1) _ assms(3) Suc.prems(2)] assms(2) by (metis less_imp_le)
    let ?t = "clock E (w_clock w) - age"
    have t: "?t \<le> T" using Suc.prems(4) by simp
    have "n = min (nat batch) (length (older ?t (w_db w))) \<and> forgets ?t (w_db w) (w_db w1)
      \<and> length (older T (w_db w)) = n + length (older T (w_db w1)) \<and> (n < nat batch \<longrightarrow> older ?t (w_db w1) = [])"
    proof (rule delete_batch [OF Suc.prems(2) less_imp_le [OF assms(2)] prod.collapse [symmetric], of ?t], goal_cases)
      case (1 doomed)
      have "older ?t (w_db w1) = []" if "n < nat batch" using 1(1,6) n that w1 by (simp add: min_def split: if_splits)
      moreover have "forgets ?t (w_db w) (w_db w1)" unfolding forgets_def using 1(2-4) w1 by auto
      ultimately show ?case using 1(1) 1(5) [OF t] n w1 by simp
    qed
    then have n': "n = min (nat batch) (length (older ?t (w_db w)))"
      and step: "forgets ?t (w_db w) (w_db w1)"
      and cnt: "length (older T (w_db w)) = n + length (older T (w_db w1))"
      and fin: "n < nat batch \<Longrightarrow> older ?t (w_db w1) = []" by simp_all
    have stepT: "forgets T (w_db w) (w_db w1)" using step t unfolding forgets_def by fastforce
    have tr: "w_trips w1 = Suc (w_trips w)" "w_clock w1 = Suc (w_clock w)" "w_tx w1 = NoTx"
      using w1 Suc.prems(1) by simp_all
    show ?thesis
    proof (cases "int n < batch")
      case True
      with Suc.prems(5) False one have "r = Inr ()" "w' = w1"
        by (simp_all add: attempt_def deployed_retention_def)
      with True stepT tr fin show ?thesis by (simp add: zless_nat_conj)
    next
      case False
      have rest: "purge_batches (deployed_retention E age batch) stopped (Suc k) left (del + int n) w1 = (r, w')"
        using Suc.prems(5) \<open>\<not> stopped k\<close> False one by (simp add: attempt_def deployed_retention_def)
      have dist: "distinct (map nt_id (t_notifications (w_db w1)))"
        using step Suc.prems(2) unfolding forgets_def by (auto simp: distinct_map_filter_keys)
      have "r = Inr () \<and> w_trips w' \<le> w_trips w1 + left \<and> forgets T (w_db w1) (w_db w')
        \<and> ((\<forall>k. \<not> stopped k) \<longrightarrow> length (older T (w_db w1)) < left * nat batch \<longrightarrow>
            older (clock E (w_clock w1) - age) (w_db w') = [])"
        by (rule Suc.IH [OF tr(3) dist Suc.prems(3) _ rest]) (use Suc.prems(4) tr in simp_all)
      moreover have "older ?t (w_db w') = []" if "older (clock E (w_clock w1) - age) (w_db w') = []"
        using that Suc.prems(3) [of "w_clock w" "w_clock w1"] tr unfolding older_def
        by (fastforce simp: filter_empty_conv)
      moreover have "n = nat batch" using False n' by simp
      moreover have "forgets T (w_db w) (w_db w')" using stepT calculation(1) by (blast intro: forgets_trans)
      ultimately show ?thesis using tr cnt by simp
    qed
  qed
qed


text \<open>
  C6. The sweep forgets what is old and nothing else. Against a database that answers every statement and
  that no other process writes, with a clock that does not go back and a batch between 1 and the largest
  32-bit integer, it makes at most 100 statements and returns nil; a message younger than the retention age,
  measured at the last batch, keeps its row and its deliveries; and if it is not stopped, and fewer messages
  are old than its batches can take, then none is left that was old when it started.
\<close>

theorem purge_forgets_the_old:
  assumes "reachable (w_db w)" "quiet E" "w_tx w = NoTx" "0 < batch" "batch < 2 ^ 31"
    and "\<And>i j. i \<le> j \<Longrightarrow> clock E i \<le> clock E j"
    and "Purge (deployed_retention E age batch) stopped w = (r, w')"
  defines "T \<equiv> clock E (w_clock w + 99) - age"
  shows "r = Inr () \<and> w_trips w' \<le> w_trips w + 100 \<and> forgets T (w_db w) (w_db w')
    \<and> ((\<forall>k. \<not> stopped k) \<longrightarrow> length (older T (w_db w)) < 100 * nat batch \<longrightarrow>
        older (clock E (w_clock w) - age) (w_db w') = [])"
proof -
  have "distinct (map nt_id (t_notifications (w_db w)))"
    using reachable_db_ok [OF assms(1)] by (simp add: db_ok_def notifications_ok_def)
  from purge_batches_run [OF assms(2,4,5,3) this assms(6) _ assms(7) [unfolded Purge_def], of T]
  show ?thesis using assms(6) by (simp add: maxRetentionBatches_def T_def)
qed

theorem purge_forgets_the_old_witness:
  defines "w' \<equiv> snd (Purge (deployed_retention demo_env 10 5) (\<lambda>k. False) demo_world)"
  shows "w_trips w' \<le> 100 \<and> forgets 189 (w_db demo_world) (w_db w') \<and> older 90 (w_db w') = []"
proof -
  have w: "w_trips demo_world = 0" "w_clock demo_world = 0" "w_tx demo_world = NoTx"
    by (simp_all add: demo_world_def)
  have "length (t_notifications (w_db demo_world)) = 1" by (simp add: demo_world_def demo_db_def)
  then have "length (older 189 (w_db demo_world)) < 500"
    using length_filter_le [of "\<lambda>r. nt_created_at r < 189" "t_notifications (w_db demo_world)"]
    by (simp add: older_def)
  moreover have "quiet demo_env" "\<And>i j. i \<le> j \<Longrightarrow> clock demo_env i \<le> clock demo_env j"
    "clock demo_env 99 = 199" "clock demo_env 0 = 100"
    by (simp_all add: quiet_def demo_env_def)
  ultimately show ?thesis
    using purge_forgets_the_old [of demo_world demo_env 5 10 "\<lambda>k. False" _ w'] demo_reachable w
    by (simp add: w'_def prod_eq_iff)
qed

end
