(* ===== verification/Console.thy ===== *)
theory Console
  imports Frames Demo PgPeople PgSources Notification
begin

text \<open>
  \<open>internal/core/usecase/signin.go\<close>, \<open>gate.go\<close>, \<open>source.go\<close>, \<open>key.go\<close> and
  \<open>trial.go\<close>: what a person does in the console. Every change goes through the gate, which writes
  the audit row before it runs the change. The second half puts them on the Postgres repositories.
\<close>

subsection \<open>Signing in\<close>

record 'w mailer =
  ml_SendCode :: "string \<Rightarrow> string \<Rightarrow> ('w, unit) io"

text \<open>The random digits are drawn by \<open>crypto/rand\<close>, which is a field.\<close>

record 'w sign_in =
  si_lib :: golib
  si_users :: "'w user_repository"
  si_codes :: "'w logincode_repository"
  si_sessions :: "'w session_repository"
  si_mail :: "'w mailer"
  si_newID :: "'w IDFunc"
  si_now :: "'w NowFunc"
  si_rand :: "('w, nat) io"

definition MaxCodeRequests :: int where "MaxCodeRequests = 5"
definition CodeRequestWindow :: duration where "CodeRequestWindow = hour"
definition MaxSourcesPerUser :: nat where "MaxSourcesPerUser = 20"

definition refuseSignIn :: goerr where
  "refuseSignIn = UnauthorizedErr ''that code is not right''"

definition find_person :: "'w sign_in \<Rightarrow> string \<Rightarrow> ('w, user) io" where
  "find_person S address =
    attempt (ur_ReadByEmail (si_users S) address) (\<lambda>r. case r of
      Inr u \<Rightarrow> ret u
    | Inl err \<Rightarrow>
        if \<not> is_err err (UserE user_error.ErrNotFound) then throw err
        else
          call (si_newID S) (\<lambda>i.
          call (si_now S) (\<lambda>now.
          and_then (lift (user_New (si_lib S) i address RoleCustomer now)) (\<lambda>fresh.
          and_then (ur_Create (si_users S) fresh) (\<lambda>_. ret fresh)))))"

definition send_code :: "'w sign_in \<Rightarrow> user \<Rightarrow> time \<Rightarrow> ('w, unit) io" where
  "send_code S u now =
    and_then (Generate (si_rand S)) (\<lambda>code.
    call (si_newID S) (\<lambda>i.
    let made = logincode_New i (usr_ID u) code now in
    and_then (lr_Create (si_codes S) made) (\<lambda>_.
    attempt (ml_SendCode (si_mail S) (usr_Email u) code) (\<lambda>r. case r of
      Inl err \<Rightarrow> ignoring (lr_Forget (si_codes S) (lc_ID made)) (throw err)
    | Inr _ \<Rightarrow> ret ()))))"

definition Request :: "'w sign_in \<Rightarrow> string \<Rightarrow> ('w, unit) io" where
  "Request S email =
    and_then (lift (NormalizeEmail (si_lib S) email)) (\<lambda>address.
    and_then (find_person S address) (\<lambda>u.
    if \<not> usr_IsActive u then ret ()
    else
      call (si_now S) (\<lambda>now.
      and_then (lr_CountSince (si_codes S) (usr_ID u) (now + - CodeRequestWindow)) (\<lambda>n.
      if MaxCodeRequests \<le> n then
        throw (WithErr (TooManyErr ''too many sign-in requests'')
          (Sentinel (LogincodeE ErrTooManyRequests)))
      else send_code S u now))))"

definition Verify :: "'w sign_in \<Rightarrow> string \<Rightarrow> string \<Rightarrow> ('w, session) io" where
  "Verify S email code =
    and_then (lift (NormalizeEmail (si_lib S) email)) (\<lambda>address.
    attempt (ur_ReadByEmail (si_users S) address) (\<lambda>r. case r of
      Inl err \<Rightarrow> throw refuseSignIn
    | Inr u \<Rightarrow>
      (case user_EnsureActive u of
         Inl err \<Rightarrow> throw refuseSignIn
       | Inr _ \<Rightarrow>
         attempt (lr_ReadNewest (si_codes S) (usr_ID u)) (\<lambda>r. case r of
           Inl err \<Rightarrow> throw refuseSignIn
         | Inr c \<Rightarrow>
             call (si_now S) (\<lambda>now.
             (case Check c code now of
                (checkErr, stored) \<Rightarrow>
                  and_then (lr_Spend (si_codes S) stored) (\<lambda>_.
                  (case checkErr of
                     Inl e \<Rightarrow> throw e
                   | Inr _ \<Rightarrow>
                       call (si_newID S) (\<lambda>i.
                       call (si_now S) (\<lambda>now.
                       let sess = session_New i (usr_ID u) now in
                       and_then (ser_Create (si_sessions S) sess) (\<lambda>_. ret sess)))))))))))"

definition Whoami :: "'w sign_in \<Rightarrow> ID \<Rightarrow> ('w, user) io" where
  "Whoami S sessionID =
    and_then (ser_Read (si_sessions S) sessionID) (\<lambda>sess.
    call (si_now S) (\<lambda>now.
    if \<not> session_Valid sess now then
      throw (WithErr (UnauthorizedErr ''please sign in again'') (Sentinel (SessionE ErrClosed)))
    else
      and_then (ur_ReadByID (si_users S) (ses_UserID sess)) (\<lambda>u.
      and_then (lift (user_EnsureActive u)) (\<lambda>_.
      and_then (ser_Touch (si_sessions S) (session_Touch sess now)) (\<lambda>_.
      ret u)))))"

definition End :: "'w sign_in \<Rightarrow> ID \<Rightarrow> ('w, unit) io" where
  "End S sessionID = ser_Delete (si_sessions S) sessionID"

subsection \<open>The gate\<close>

record act_of_person =
  act_Verb :: string
  act_TargetType :: string
  act_TargetID :: string
  act_Note :: string

record audit_entry =
  aud_ID :: ID
  aud_At :: time
  aud_ActorID :: ID
  aud_ActorEmail :: string
  aud_Verb :: string
  aud_TargetType :: string
  aud_TargetID :: string
  aud_Note :: string

record 'w audit_log =
  al_Record :: "audit_entry \<Rightarrow> ('w, unit) io"
  al_List :: "int \<Rightarrow> ('w, audit_entry list) io"
  al_ListByTarget :: "string \<Rightarrow> string \<Rightarrow> string list \<Rightarrow> int \<Rightarrow> ('w, audit_entry list) io"

record 'w alerter =
  alt_Notify :: "string \<Rightarrow> string \<Rightarrow> ('w, unit) act"

record 'w gate =
  g_lib :: golib
  g_log :: "'w audit_log"
  g_alerts :: "'w alerter option"
  g_newID :: "'w IDFunc"
  g_now :: "'w NowFunc"

definition tell :: "'w gate \<Rightarrow> audit_entry \<Rightarrow> ('w, unit) act" where
  "tell G e =
    (case g_alerts G of
       None \<Rightarrow> no_effect
     | Some a \<Rightarrow>
         let detail = Sprintf (g_lib G) ''%s by %s'' [FmtS (aud_TargetID e), FmtS (aud_ActorEmail e)] in
         alt_Notify a (aud_Verb e)
           (if aud_Note e \<noteq> '''' then detail @ '' -- '' @ aud_Note e else detail))"

text \<open>What the change answers besides its error is left in a variable of the caller, so \<open>fn\<close>
  answers it here.\<close>

definition Gate_Do :: "'w gate \<Rightarrow> user option \<Rightarrow> act_of_person \<Rightarrow> ('w, 'a) io \<Rightarrow> ('w, 'a) io" where
  "Gate_Do G actor act fn =
    (case actor of
       None \<Rightarrow> throw (InternalErr ''a change reached the gate with nobody behind it'')
     | Some u \<Rightarrow>
         call (g_newID G) (\<lambda>i.
         call (g_now G) (\<lambda>t.
         let entry = \<lparr>aud_ID = i, aud_At = t, aud_ActorID = usr_ID u, aud_ActorEmail = usr_Email u,
             aud_Verb = act_Verb act, aud_TargetType = act_TargetType act,
             aud_TargetID = act_TargetID act, aud_Note = act_Note act\<rparr> in
         and_then (al_Record (g_log G) entry) (\<lambda>_.
         and_then fn (\<lambda>x.
         also_do (tell G entry) (ret x))))))"


subsection \<open>Verbs\<close>

definition ActSourceCreate :: string where "ActSourceCreate = ''source.create''"
definition ActSourceUpdate :: string where "ActSourceUpdate = ''source.update''"
definition ActSourceApprove :: string where "ActSourceApprove = ''source.approve''"
definition ActSourceRefuse :: string where "ActSourceRefuse = ''source.refuse''"
definition ActSourceSuspend :: string where "ActSourceSuspend = ''source.suspend''"
definition ActSourceRestore :: string where "ActSourceRestore = ''source.restore''"
definition ActKeyIssue :: string where "ActKeyIssue = ''key.issue''"
definition ActKeyRevoke :: string where "ActKeyRevoke = ''key.revoke''"
definition ActCredentialTest :: string where "ActCredentialTest = ''credential.test''"
definition ActUserRole :: string where "ActUserRole = ''user.role''"
definition ActUserDeactivate :: string where "ActUserDeactivate = ''user.deactivate''"
definition ActUserActivate :: string where "ActUserActivate = ''user.activate''"

definition sourceDecisionVerbs :: "string list" where
  "sourceDecisionVerbs = [ActSourceApprove, ActSourceRefuse, ActSourceSuspend, ActSourceRestore]"

lemmas verbs = ActSourceCreate_def ActSourceUpdate_def ActSourceApprove_def ActSourceRefuse_def
  ActSourceSuspend_def ActSourceRestore_def ActKeyIssue_def ActKeyRevoke_def ActCredentialTest_def
  ActUserRole_def ActUserDeactivate_def ActUserActivate_def

subsection \<open>A person's sources\<close>

record source_registration =
  sreg_Name :: string
  sreg_DefaultAddresses :: "(channel \<times> string) list option"

record source_settings =
  sset_Name :: string
  sset_Description :: string
  sset_DefaultAddresses :: "(channel \<times> string) list option"

record 'w sources =
  srcs_lib :: golib
  srcs_repo :: "'w source_repository"
  srcs_gate :: "'w gate"
  srcs_newID :: "'w IDFunc"
  srcs_now :: "'w NowFunc"

definition Sources_Register :: "'w sources \<Rightarrow> user \<Rightarrow> source_registration \<Rightarrow> ('w, source) io" where
  "Sources_Register S actor reg =
    and_then (sr_ListByOwner (srcs_repo S) (usr_ID actor)) (\<lambda>mine.
    if MaxSourcesPerUser \<le> length mine then
      throw (WithStr (TooManyErr ''you have as many sources as one account may have'')
        (Text ''user %q has %d'' [FmtS (usr_ID actor), FmtD (int (length mine))]))
    else
      call (srcs_newID S) (\<lambda>i.
      call (srcs_now S) (\<lambda>now.
      and_then (lift (source_New (srcs_lib S) i (usr_ID actor) (sreg_Name reg) (sreg_DefaultAddresses reg) now)) (\<lambda>built.
      and_then (Gate_Do (srcs_gate S) (Some actor)
          \<lparr>act_Verb = ActSourceCreate, act_TargetType = ''source'', act_TargetID = src_ID built, act_Note = ''''\<rparr>
          (sr_Create (srcs_repo S) built)) (\<lambda>_.
      ret built)))))"

definition Sources_Mine :: "'w sources \<Rightarrow> user \<Rightarrow> ('w, source list) io" where
  "Sources_Mine S actor = sr_ListByOwner (srcs_repo S) (usr_ID actor)"

definition Sources_One :: "'w sources \<Rightarrow> user \<Rightarrow> string \<Rightarrow> ('w, source) io" where
  "Sources_One S actor i =
    and_then (sr_ReadByID (srcs_repo S) i) (\<lambda>src.
    if src_OwnerUserID src \<noteq> usr_ID actor then
      throw (WithStr (WithErr (NotFoundErr ''no such source'') (Sentinel (SourceE source_error.ErrNotFound)))
        (Text ''user %q asked for source %q, owned by %q''
          [FmtS (usr_ID actor), FmtS i, FmtS (src_OwnerUserID src)]))
    else ret src)"

definition Sources_Update :: "'w sources \<Rightarrow> user \<Rightarrow> string \<Rightarrow> source_settings \<Rightarrow> ('w, source) io" where
  "Sources_Update S actor i settings =
    and_then (Sources_One S actor i) (\<lambda>src.
    call (srcs_now S) (\<lambda>now.
    and_then (lift (Reconfigure (srcs_lib S) src (sset_Name settings) (sset_Description settings) (sset_DefaultAddresses settings) now)) (\<lambda>src.
    and_then (Gate_Do (srcs_gate S) (Some actor)
        \<lparr>act_Verb = ActSourceUpdate, act_TargetType = ''source'', act_TargetID = src_ID src, act_Note = ''''\<rparr>
        (sr_UpdateSettings (srcs_repo S) src)) (\<lambda>_.
    ret src))))"

subsection \<open>A source's keys\<close>

record 'w key_minter =
  km_Mint :: "('w, string \<times> string) io"

record 'w keys =
  ks_issuer :: "'w key_issuer"
  ks_sources :: "'w sources"
  ks_minter :: "'w key_minter"
  ks_gate :: "'w gate"
  ks_newID :: "'w IDFunc"
  ks_now :: "'w NowFunc"

definition Keys_Issue :: "'w keys \<Rightarrow> user \<Rightarrow> string \<Rightarrow> string \<Rightarrow> ('w, string \<times> key) io" where
  "Keys_Issue K actor sourceID label =
    and_then (Sources_One (ks_sources K) actor sourceID) (\<lambda>_.
    and_then (km_Mint (ks_minter K)) (\<lambda>(key, hash).
    call (ks_newID K) (\<lambda>i.
    call (ks_now K) (\<lambda>now.
    let built = \<lparr>key_ID = i, key_SourceID = sourceID, key_Label = label, key_CreatedAt = now,
        key_LastUsedAt = None, key_ExpiresAt = None, key_RevokedAt = None\<rparr> in
    and_then (Gate_Do (ks_gate K) (Some actor)
        \<lparr>act_Verb = ActKeyIssue, act_TargetType = ''key'', act_TargetID = key_ID built, act_Note = ''''\<rparr>
        (ki_Create (ks_issuer K) built hash)) (\<lambda>_.
    ret (key, built))))))"

definition Keys_List :: "'w keys \<Rightarrow> user \<Rightarrow> string \<Rightarrow> ('w, key list) io" where
  "Keys_List K actor sourceID =
    and_then (Sources_One (ks_sources K) actor sourceID) (\<lambda>_.
    ki_ListBySourceID (ks_issuer K) sourceID)"

fun holds :: "key list \<Rightarrow> ID \<Rightarrow> bool" where
  "holds [] i = False"
| "holds (k # ks) i = (if key_ID k = i then True else holds ks i)"

definition Keys_Revoke :: "'w keys \<Rightarrow> user \<Rightarrow> string \<Rightarrow> ID \<Rightarrow> ('w, unit) io" where
  "Keys_Revoke K actor sourceID keyID =
    and_then (Sources_One (ks_sources K) actor sourceID) (\<lambda>_.
    and_then (ki_ListBySourceID (ks_issuer K) sourceID) (\<lambda>keys.
    if \<not> holds keys keyID then
      throw (WithErr (NotFoundErr ''no such key'') (Sentinel (SourceE ErrKeyNotFound)))
    else Gate_Do (ks_gate K) (Some actor)
        \<lparr>act_Verb = ActKeyRevoke, act_TargetType = ''key'', act_TargetID = keyID, act_Note = ''''\<rparr>
        (call (ks_now K) (\<lambda>now. ki_Revoke (ks_issuer K) keyID now))))"

subsection \<open>Trials\<close>

record 'w trials =
  tr_sources :: "'w source_service"
  tr_creds :: "'w credential_service"
  tr_senders :: "'w sender_registry"
  tr_gate :: "'w gate"
  tr_limiter :: "'w rate_limiter"
  tr_newID :: "'w IDFunc"

definition trialTitle :: string where "trialTitle = ''srosha test''"
definition trialBody :: string where
  "trialBody = ''This is a test message sent from srosha to check a sending identity.''"

text \<open>The service answers an identity or an error; a nil identity without one does not exist here.\<close>

definition Trials_Run :: "'w trials \<Rightarrow> user \<Rightarrow> string \<Rightarrow> ID \<Rightarrow> ('w, string) io" where
  "Trials_Run T actor sourceID credentialID =
    and_then (Load (tr_sources T) sourceID) (\<lambda>src.
    and_then (credential_Get (tr_creds T) sourceID credentialID) (\<lambda>cred.
    let address = map_get (src_DefaultAddresses src) (crd_Channel cred) in
    if address = '''' then
      throw (WithStr (WithErr (InvalidInputErr ''this channel has no default address, so a test has nowhere to go'')
          (Sentinel (UsecaseE ErrTrialNoAddress))) (Text (Channel_String (crd_Channel cred)) []))
    else
      and_then (rl_Allow (tr_limiter T) sourceID) (\<lambda>allowed.
      if \<not> allowed then
        throw (WithStr (WithErr (TooManyErr ''too many tests just now'')
          (Sentinel (UsecaseE ErrTrialTooMany))) (Text (Channel_String (crd_Channel cred)) []))
      else
        and_then (reg_For (tr_senders T) sourceID (crd_Channel cred) (crd_Name cred)) (\<lambda>out.
        call (tr_newID T) (\<lambda>i.
        Gate_Do (tr_gate T) (Some actor)
          \<lparr>act_Verb = ActCredentialTest, act_TargetType = ''credential'', act_TargetID = credentialID,
           act_Note = crd_Name cred\<rparr>
          (snd_Send out \<lparr>msg_DeliveryID = i,
             msg_Recipient = \<lparr>rcp_Channel = crd_Channel cred, rcp_Address = address\<rparr>,
             msg_Title = trialTitle, msg_Body = trialBody, msg_Metadata = []\<rparr>))))))"


subsection \<open>The audit log in Postgres\<close>

definition toAudit :: "audit_row \<Rightarrow> audit_entry" where
  "toAudit row =
    \<lparr>aud_ID = au_id row, aud_At = au_at row, aud_ActorID = au_actor_id row,
     aud_ActorEmail = au_actor_email row, aud_Verb = au_verb row,
     aud_TargetType = au_target_type row, aud_TargetID = au_target_id row, aud_Note = au_note row\<rparr>"

definition audit_row_of :: "audit_entry \<Rightarrow> audit_row" where
  "audit_row_of e =
    \<lparr>au_id = aud_ID e, au_at = aud_At e, au_actor_id = aud_ActorID e, au_actor_email = aud_ActorEmail e,
     au_verb = aud_Verb e, au_target_type = aud_TargetType e, au_target_id = aud_TargetID e,
     au_note = aud_Note e\<rparr>"

definition pg_RecordAudit :: "env \<Rightarrow> audit_entry \<Rightarrow> (world, unit) io" where
  "pg_RecordAudit E e = or_failed ''record audit'' (exec E (sql_RecordAudit (audit_row_of e))) (\<lambda>_. ret ())"

definition pg_ListAudit :: "env \<Rightarrow> int \<Rightarrow> (world, audit_entry list) io" where
  "pg_ListAudit E limit =
    or_failed ''list audit'' (exec E (sql_ListAudit limit)) (\<lambda>rows. ret (map toAudit rows))"

definition pg_ListAuditByTarget ::
    "env \<Rightarrow> string \<Rightarrow> string \<Rightarrow> string list \<Rightarrow> int \<Rightarrow> (world, audit_entry list) io" where
  "pg_ListAuditByTarget E targetType targetID vs limit =
    or_failed ''list audit by target'' (exec E (sql_ListAuditByTarget targetType targetID vs limit))
      (\<lambda>rows. ret (map toAudit rows))"

definition pg_audit :: "env \<Rightarrow> world audit_log" where
  "pg_audit E = \<lparr>al_Record = pg_RecordAudit E, al_List = pg_ListAudit E, al_ListByTarget = pg_ListAuditByTarget E\<rparr>"

subsection \<open>The console of the deployment\<close>

text \<open>
  The alerts go to another service, or nowhere; the mint of keys is an adapter. Both are parameters
  that have nothing to do with the database.
\<close>

definition deployed_gate :: "env \<Rightarrow> world alerter option \<Rightarrow> world gate" where
  "deployed_gate E alerts =
     \<lparr>g_lib = lib E, g_log = pg_audit E, g_alerts = alerts, g_newID = NewID E, g_now = Now E\<rparr>"

definition deployed_console :: "env \<Rightarrow> world alerter option \<Rightarrow> world sources" where
  "deployed_console E alerts =
    \<lparr>srcs_lib = lib E, srcs_repo = pg_sources E, srcs_gate = deployed_gate E alerts,
     srcs_newID = NewID E, srcs_now = Now E\<rparr>"

definition deployed_keys :: "env \<Rightarrow> world alerter option \<Rightarrow> world key_minter \<Rightarrow> world keys" where
  "deployed_keys E alerts minter =
    \<lparr>ks_issuer = pg_key_issuer E, ks_sources = deployed_console E alerts, ks_minter = minter,
     ks_gate = deployed_gate E alerts, ks_newID = NewID E, ks_now = Now E\<rparr>"

definition deployed_trials :: "env \<Rightarrow> world alerter option \<Rightarrow> world trials" where
  "deployed_trials E alerts =
    \<lparr>tr_sources = \<lparr>ss_repo = pg_sources E, ss_limiter = \<lparr>rl_Allow = outside_Allow E\<rparr>\<rparr>,
     tr_creds = \<lparr>cs_repo = pg_credentials E, cs_now = Now E\<rparr>,
     tr_senders = outside_senders E, tr_gate = deployed_gate E alerts,
     tr_limiter = \<lparr>rl_Allow = outside_Allow E\<rparr>, tr_newID = NewID E\<rparr>"

lemma console_fields [simp]:
  "srcs_lib (deployed_console E a) = lib E" "srcs_repo (deployed_console E a) = pg_sources E"
  "srcs_gate (deployed_console E a) = deployed_gate E a" "srcs_newID (deployed_console E a) = NewID E"
  "srcs_now (deployed_console E a) = Now E"
  "ks_issuer (deployed_keys E a m) = pg_key_issuer E" "ks_sources (deployed_keys E a m) = deployed_console E a"
  "ks_minter (deployed_keys E a m) = m" "ks_gate (deployed_keys E a m) = deployed_gate E a"
  "ks_newID (deployed_keys E a m) = NewID E" "ks_now (deployed_keys E a m) = Now E"
  "tr_senders (deployed_trials E a) = outside_senders E" "tr_gate (deployed_trials E a) = deployed_gate E a"
  "rl_Allow (tr_limiter (deployed_trials E a)) = outside_Allow E" "tr_newID (deployed_trials E a) = NewID E"
  by (simp_all add: deployed_console_def deployed_keys_def deployed_trials_def)

lemma repository_fields [simp]:
  "sr_Create (pg_sources E) = pg_CreateSource E" "sr_ReadByID (pg_sources E) = pg_ReadSource E"
  "sr_ListByOwner (pg_sources E) = pg_ListByOwner E" "sr_UpdateSettings (pg_sources E) = pg_UpdateSettings E"
  "sr_UpdateReview (pg_sources E) = pg_UpdateReview E" "sr_ListForReview (pg_sources E) = pg_ListForReview E"
  "sr_ListAll (pg_sources E) = pg_ListAllSources E"
  "ki_Create (pg_key_issuer E) = pg_CreateKey E" "ki_ListBySourceID (pg_key_issuer E) = pg_ListKeys E"
  "ki_Revoke (pg_key_issuer E) = pg_RevokeKey E"
  "ur_Create (pg_users E) = pg_CreateUser E" "ur_ReadByEmail (pg_users E) = pg_ReadByEmail E"
  "ur_ReadByID (pg_users E) = pg_ReadUser E" "ur_List (pg_users E) = pg_ListUsers E"
  "ur_UpdateRole (pg_users E) = pg_UpdateRole E" "ur_SetActive (pg_users E) = pg_SetUserActive E"
  by (simp_all add: pg_sources_def pg_key_issuer_def pg_users_def)

definition keeps_off_db :: "('w \<Rightarrow> database) \<Rightarrow> ('w \<Rightarrow> 'a \<times> 'w) \<Rightarrow> bool" where
  "keeps_off_db db m \<longleftrightarrow> (\<forall>w. db (snd (m w)) = db w)"

definition quiet_alerts :: "world alerter option \<Rightarrow> bool" where
  "quiet_alerts alerts \<longleftrightarrow>
     (case alerts of None \<Rightarrow> True | Some a \<Rightarrow> \<forall>s d. keeps_off_db w_db (alt_Notify a s d))"

lemma tell_db: "quiet_alerts alerts \<Longrightarrow> keeps_off_db w_db (tell (deployed_gate E alerts) e)"
  by (auto simp: quiet_alerts_def keeps_off_db_def tell_def deployed_gate_def Let_def split: option.splits)

subsection \<open>Nothing changes without a record\<close>

text \<open>A process on its own leaves the log alone everywhere but in the gate.\<close>

definition same_log :: "env \<Rightarrow> database \<Rightarrow> database \<Rightarrow> bool" where
  "same_log E db db' \<longleftrightarrow> (alone E \<longrightarrow> t_audit_log db' = t_audit_log db)"

interpretation log_kept: db_relation E "same_log E" for E
  by unfold_locales (auto simp: same_log_def alone_def run_writes_def)

definition audited :: "user \<Rightarrow> string \<Rightarrow> database \<Rightarrow> database \<Rightarrow> bool" where
  "audited u verb db db' \<longleftrightarrow> db' = db \<or> (\<exists>e. t_audit_log db' = t_audit_log db @ [e]
     \<and> au_actor_id e = usr_ID u \<and> au_actor_email e = usr_Email u \<and> au_verb e = verb)"

lemma RecordAudit_writes:
  assumes "pg_RecordAudit E e w = (r, w')" "alone E"
  shows "w_db w' = w_db w \<and> (\<exists>err. r = Inl err) \<or>
    w_db w' = (w_db w)\<lparr>t_audit_log := t_audit_log (w_db w) @ [audit_row_of e]\<rparr>"
proof -
  obtain x where run: "exec E (sql_RecordAudit (audit_row_of e)) w = (x, w')"
    and r: "r = (case x of Inl err \<Rightarrow> Inl (failed ''record audit'' err) | Inr _ \<Rightarrow> Inr ())"
    using assms(1) by (auto simp: pg_RecordAudit_def or_failed_eq)
  show ?thesis
    using run r assms(2) alone_begin [OF assms(2), of w]
    by (auto simp: exec_def Let_def sql_RecordAudit_def insert_row_def split: if_splits round_trip.splits option.splits)
qed

lemma Gate_Do_audited:
  assumes "Gate_Do (deployed_gate E alerts) (Some u) act fn w = (r, w')" "alone E" "quiet_alerts alerts"
    and "keeps (\<lambda>w w'. same_log E (w_db w) (w_db w')) fn"
  shows "audited u (act_Verb act) (w_db w) (w_db w')"
proof -
  let ?G = "deployed_gate E alerts"
  define e where "e = \<lparr>aud_ID = drawn E (w_drawn w), aud_At = clock E (w_clock w), aud_ActorID = usr_ID u,
    aud_ActorEmail = usr_Email u, aud_Verb = act_Verb act, aud_TargetType = act_TargetType act,
    aud_TargetID = act_TargetID act, aud_Note = act_Note act\<rparr>"
  define v where "v = w\<lparr>w_drawn := Suc (w_drawn w), w_clock := Suc (w_clock w)\<rparr>"
  have run: "and_then (pg_RecordAudit E e) (\<lambda>_. and_then fn (\<lambda>x. also_do (tell ?G e) (ret x))) v = (r, w')"
    using assms(1)
    by (simp add: Gate_Do_def deployed_gate_def pg_audit_def call_def NewID_def Now_def Let_def e_def v_def)
  obtain x w1 where rec: "pg_RecordAudit E e v = (x, w1)" by fastforce
  have v: "w_db v = w_db w" by (simp add: v_def)
  show ?thesis
  proof (cases x)
    case (Inl err)
    with run rec have "w' = w1" by (simp add: and_then_run)
    with RecordAudit_writes [OF rec assms(2)] v show ?thesis
      by (auto simp: audited_def audit_row_of_def e_def)
  next
    case (Inr y)
    with run rec have rest: "and_then fn (\<lambda>x. also_do (tell ?G e) (ret x)) w1 = (r, w')" by (simp add: and_then_run)
    obtain z w2 where fn: "fn w1 = (z, w2)" by fastforce
    have "w_db w' = w_db w2"
      using rest fn tell_db [OF assms(3), of E e]
      by (cases z) (auto simp: and_then_run also_do_def call_def keeps_off_db_def split: prod.splits, metis snd_conv)
    moreover have "t_audit_log (w_db w2) = t_audit_log (w_db w1)"
      using keepsD [OF assms(4) fn] assms(2) by (simp add: same_log_def)
    moreover have "t_audit_log (w_db w1) = t_audit_log (w_db w) @ [audit_row_of e]"
      using RecordAudit_writes [OF rec assms(2)] Inr v by auto
    ultimately show ?thesis by (auto simp: audited_def audit_row_of_def e_def)
  qed
qed


subsection \<open>The console signs people in\<close>

definition deployed_sign_in :: "env \<Rightarrow> (world, nat) io \<Rightarrow> world sign_in" where
  "deployed_sign_in E rand =
    \<lparr>si_lib = lib E, si_users = pg_users E, si_codes = pg_login_codes E, si_sessions = pg_sessions E,
     si_mail = \<lparr>ml_SendCode = outside_SendCode E\<rparr>, si_newID = NewID E, si_now = Now E, si_rand = rand\<rparr>"

lemma exec_delivered:
  assumes "round_trips E (w_trips w) = Delivered" "w_tx w = NoTx"
    and "stmt (run_writes (others E (w_trips w)) (w_db w)) = (r, db)"
  shows "exec E stmt w = (r, w\<lparr>w_trips := Suc (w_trips w), w_db := db\<rparr>)"
  using assms by (simp add: exec_def begin_trip_def abort_on_def Let_def)

definition race_code :: "time option \<Rightarrow> login_code_row" where
  "race_code used = \<lparr>lo_id = demo_id CHR ''7'', lo_user_id = demo_id CHR ''1'', lo_code = ''123456'',
     lo_expires_at = 700, lo_attempts = (case used of None \<Rightarrow> 0 | Some t \<Rightarrow> 1), lo_used_at = used, lo_created_at = 90\<rparr>"

definition race_session :: "char \<Rightarrow> time \<Rightarrow> session_row" where
  "race_session c t = \<lparr>se_id = demo_id c, se_user_id = demo_id CHR ''1'', se_expires_at = t + 12 * hour,
     se_last_seen_at = t, se_created_at = t\<rparr>"

definition race_writes :: "db_write list" where
  "race_writes = [SpendLoginCode (demo_id CHR ''7'') 1 (Some 99), CreateSession (race_session CHR ''8'' 99)]"

definition race_env :: env where
  "race_env = demo_env\<lparr>others := (\<lambda>n. if n = 2 then race_writes else [])\<rparr>"

definition race_world :: world where
  "race_world = demo_world\<lparr>w_db := demo_db\<lparr>t_login_codes := [race_code None]\<rparr>\<rparr>"

lemma race_ids: "is_ulid (demo_id CHR ''6'')" "is_ulid (demo_id CHR ''8'')" "demo_id CHR ''6'' \<noteq> demo_id CHR ''8''"
  by (code_simp, code_simp, code_simp)

lemma race_drawn: "demo_id (char_of (54::nat)) = demo_id CHR ''6''"
  by code_simp

lemma race_chars: "char_of (97::nat) = CHR ''a''" "char_of (64::nat) = CHR ''@''" "char_of (98::nat) = CHR ''b''"
    "char_of (46::nat) = CHR ''.''" "char_of (99::nat) = CHR ''c''"
  by (code_simp, code_simp, code_simp, code_simp, code_simp)

lemma race_users: "t_users demo_db = [\<lparr>us_id = demo_id CHR ''1'', us_email = ''a@b.c'', us_role = ''customer'',
     us_is_active = True, us_created_at = 5, us_updated_at = 5\<rparr>]"
  by (simp add: demo_db_def)

lemma race_db: "has_id us_id (demo_id CHR ''1'') (t_users demo_db)" "t_sessions demo_db = []"
  by (simp_all add: demo_db_def has_id_def)

lemma race_between:
  "run_writes race_writes (demo_db\<lparr>t_login_codes := [race_code None]\<rparr>) =
     demo_db\<lparr>t_login_codes := [race_code (Some 99)], t_sessions := [race_session CHR ''8'' 99]\<rparr>"
  unfolding race_writes_def run_writes_def foldl.simps run_write.simps sql_SpendLoginCode_def Let_def snd_conv
    race_code_def sql_CreateSession_def insert_row_def race_session_def
  by (simp only: database.simps login_code_row.simps session_row.simps update_where_simps simp_thms if_True,
      simp add: race_db race_ids, simp add: has_id_def)

abbreviation race_at :: "nat \<Rightarrow> nat \<Rightarrow> nat \<Rightarrow> database \<Rightarrow> world" where
  "race_at t k i db \<equiv> race_world\<lparr>w_trips := t, w_clock := k, w_drawn := i, w_db := db\<rparr>"

lemma race_exec:
  assumes "stmt (run_writes (if t = 2 then race_writes else []) db) = (r, db')" "t' = Suc t"
  shows "exec race_env stmt (race_at t k i db) = (r, race_at t' k i db')"
  using exec_delivered [of race_env "race_at t k i db" stmt r db'] assms
  by (simp add: race_env_def demo_env_def race_world_def demo_world_def)

abbreviation race_unspent :: database where
  "race_unspent \<equiv> demo_db\<lparr>t_login_codes := [race_code None]\<rparr>"

abbreviation race_spent :: database where
  "race_spent \<equiv> demo_db\<lparr>t_login_codes := [race_code (Some 100)], t_sessions := [race_session CHR ''8'' 99]\<rparr>"

abbreviation race_opened :: database where
  "race_opened \<equiv> race_spent\<lparr>t_sessions := [race_session CHR ''8'' 99, race_session CHR ''6'' 101]\<rparr>"

lemma race_address: "NormalizeEmail demo_golib ''a@b.c'' = Inr ''a@b.c''"
proof -
  have asc: "ascii ''a@b.c''" "\<forall>c \<in> set ''a@b.c''. \<not> is_space_rune (byte c)"
    by (simp_all add: ascii_def byte_def is_space_rune_def)
  show ?thesis
    by (simp add: NormalizeEmail_def TrimSpace_no_space [OF asc] ToLower_ascii [OF asc(1)] Let_def,
        simp add: to_lower_rune_def byte_def demo_golib_def maxEmailLen_def race_chars)
qed

lemma race_reads:
  "pg_ReadByEmail race_env ''a@b.c'' (race_at 0 0 0 race_unspent) =
     (Inr (toUser (hd (t_users demo_db))), race_at (Suc 0) 0 0 race_unspent)"
  "pg_ReadNewest race_env (demo_id CHR ''1'') (race_at (Suc 0) 0 0 race_unspent) =
     (Inr (toLoginCode (race_code None)), race_at 2 0 0 race_unspent)"
proof -
  have "exec race_env (sql_ReadUserByEmail ''a@b.c'') (race_at 0 0 0 race_unspent) =
      (Inr (hd (t_users demo_db)), race_at (Suc 0) 0 0 race_unspent)"
    by (rule race_exec) (simp_all add: sql_ReadUserByEmail_def race_users)
  then show "pg_ReadByEmail race_env ''a@b.c'' (race_at 0 0 0 race_unspent) =
     (Inr (toUser (hd (t_users demo_db))), race_at (Suc 0) 0 0 race_unspent)"
    by (simp only: pg_ReadByEmail_def attempt_def prod.case sum.case ret_def)
  have "exec race_env (sql_ReadNewestLoginCode (demo_id CHR ''1'')) (race_at (Suc 0) 0 0 race_unspent) =
      (Inr (race_code None), race_at 2 0 0 race_unspent)"
    by (rule race_exec) (simp_all add: sql_ReadNewestLoginCode_def race_code_def)
  then show "pg_ReadNewest race_env (demo_id CHR ''1'') (race_at (Suc 0) 0 0 race_unspent) =
     (Inr (toLoginCode (race_code None)), race_at 2 0 0 race_unspent)"
    by (simp only: pg_ReadNewest_def attempt_def prod.case sum.case ret_def)
qed

lemma race_spends:
  "pg_Spend race_env (toLoginCode (race_code None)\<lparr>lc_Attempts := 1, lc_UsedAt := Some 100\<rparr>)
     (race_at 2 (Suc 0) 0 race_unspent) = (ok, race_at 3 (Suc 0) 0 race_spent)"
proof -
  have "exec race_env (sql_SpendLoginCode (demo_id CHR ''7'') 1 (Some 100)) (race_at 2 (Suc 0) 0 race_unspent) =
      (Inr 1, race_at 3 (Suc 0) 0 race_spent)"
    by (rule race_exec) (simp_all add: race_between sql_SpendLoginCode_def Let_def, simp add: race_code_def)
  moreover have "lc_ID (toLoginCode (race_code None)\<lparr>lc_Attempts := 1, lc_UsedAt := Some 100\<rparr>) = demo_id CHR ''7''"
    "attemptCount 1 = 1"
    by (simp_all add: toLoginCode_def race_code_def attemptCount_def to_int32_id)
  ultimately show ?thesis
    by (simp add: pg_Spend_def wroteCode_def or_failed_def attempt_def ret_def)
qed

lemma race_opens:
  "pg_CreateSession race_env (session_New (demo_id CHR ''6'') (demo_id CHR ''1'') 101)
     (race_at 3 (Suc (Suc 0)) (Suc 0) race_spent) = (ok, race_at 4 (Suc (Suc 0)) (Suc 0) race_opened)"
proof -
  let ?s = "session_New (demo_id CHR ''6'') (demo_id CHR ''1'') 101"
  have t: "exec race_env (sql_CreateSession (race_session CHR ''6'' 101)) (race_at 3 (Suc (Suc 0)) (Suc 0) race_spent) =
      (ok, race_at 4 (Suc (Suc 0)) (Suc 0) race_opened)"
    by (rule race_exec) (simp_all add: sql_CreateSession_def insert_row_def race_session_def race_db race_ids,
        simp_all add: has_id_def race_ids(3) [symmetric])
  have "\<lparr>se_id = ses_ID ?s, se_user_id = ses_UserID ?s, se_expires_at = ses_ExpiresAt ?s,
     se_last_seen_at = ses_LastSeenAt ?s, se_created_at = ses_CreatedAt ?s\<rparr> = race_session CHR ''6'' 101"
    by (simp add: session_New_def session_Lifetime_def race_session_def)
  then show ?thesis
    by (simp only: pg_CreateSession_def or_failed_def attempt_def t prod.case sum.case ret_def)
qed

lemma race_run:
  "Verify (deployed_sign_in race_env rand) ''a@b.c'' ''123456'' (race_at 0 0 0 race_unspent)
     = (Inr (session_New (demo_id CHR ''6'') (demo_id CHR ''1'') 101), race_at 4 (Suc (Suc 0)) (Suc 0) race_opened)"
proof -
  let ?u = "toUser (hd (t_users demo_db))"
  have active: "user_EnsureActive ?u = ok" "usr_ID ?u = demo_id CHR ''1''"
    by (simp_all add: race_users toUser_def user_EnsureActive_def)
  have checked: "Check (toLoginCode (race_code None)) ''123456'' 100 =
      (ok, toLoginCode (race_code None)\<lparr>lc_Attempts := 1, lc_UsedAt := Some 100\<rparr>)"
    by (simp add: Check_def toLoginCode_def race_code_def MaxGuesses_def)
  have ticks: "Now race_env (race_at 2 0 0 race_unspent) = (100, race_at 2 (Suc 0) 0 race_unspent)"
    "NewID race_env (race_at 3 (Suc 0) 0 race_spent) = (demo_id CHR ''6'', race_at 3 (Suc 0) (Suc 0) race_spent)"
    "Now race_env (race_at 3 (Suc 0) (Suc 0) race_spent) = (101, race_at 3 (Suc (Suc 0)) (Suc 0) race_spent)"
    using race_drawn by (simp_all add: Now_def NewID_def race_env_def demo_env_def)
  have "lib race_env = demo_golib" by (simp add: race_env_def demo_env_def)
  then show ?thesis
    by (simp only: Verify_def deployed_sign_in_def sign_in.simps race_address pg_users_def pg_login_codes_def
        pg_sessions_def user_repository.simps logincode_repository.simps session_repository.simps attempt_def
        and_then_def call_def lift_def ret_def prod.case sum.case active race_reads ticks checked race_spends
        race_opens Let_def)
qed

text \<open>
  One code can sign in two people. The spending of a code is written without looking whether it
  has been spent, so of two attempts that both read it unspent both succeed: here the other process
  has already spent the code and opened its session when this one writes, and this one opens a second.
\<close>

theorem code_signs_in_twice:
  "\<exists>s w'. Verify (deployed_sign_in race_env rand) ''a@b.c'' ''123456'' race_world = (Inr s, w')
     \<and> map se_id (t_sessions (w_db w')) = [demo_id CHR ''8'', ses_ID s]
     \<and> list_all (\<lambda>r. se_user_id r = demo_id CHR ''1'') (t_sessions (w_db w'))
     \<and> length (t_login_codes (w_db w')) = 1"
proof -
  have w0: "race_world = race_at 0 0 0 race_unspent" by (simp add: race_world_def demo_world_def)
  show ?thesis
    by (rule exI, rule exI, rule conjI, subst w0, rule race_run) (simp add: session_New_def race_session_def)
qed

end
