(* ===== verification/Operators.thy ===== *)
theory Operators
  imports Console PgMessages
begin

text \<open>
  \<open>internal/core/usecase/operator.go\<close>, \<open>operator_people.go\<close>, \<open>operator_read.go\<close>: what
  somebody who works here does to other people's sources and accounts. Each operation begins with the
  check of its role.
\<close>

record 'w operators =
  op_lib :: golib
  op_repo :: "'w source_repository"
  op_users :: "'w user_repository"
  op_notifications :: "'w notification_repository"
  op_deliveries :: "'w delivery_repository"
  op_credentials :: "'w credential_repository"
  op_audit :: "'w audit_log"
  op_gate :: "'w gate"
  op_now :: "'w NowFunc"
  op_listLimit :: int

definition MaxOperatorNoteLen :: nat where "MaxOperatorNoteLen = 500"

definition truncate_rows :: "'a list \<Rightarrow> int \<Rightarrow> 'a list \<times> bool" where
  "truncate_rows rows limit =
    (if limit < to_int32 (int (length rows)) then (take (nat limit) rows, True) else (rows, False))"

definition mayOperate :: "user option \<Rightarrow> unit result" where
  "mayOperate actor =
    (case actor of
       Some u \<Rightarrow>
         if IsOperator (usr_Role u) then ok
         else Inl (WithStr (WithErr (ForbiddenErr ''this is not yours to do'')
                (Sentinel (UsecaseE ErrNotOperator))) (Text ''not an operator'' []))
     | None \<Rightarrow> Inl (WithStr (WithErr (ForbiddenErr ''this is not yours to do'')
                (Sentinel (UsecaseE ErrNotOperator))) (Text ''not an operator'' [])))"

definition mayGovernPeople :: "user option \<Rightarrow> unit result" where
  "mayGovernPeople actor =
    then_result (mayOperate actor) (\<lambda>_.
    if map_option usr_Role actor \<noteq> Some RoleSuperAdmin then
      Inl (WithStr (WithErr (ForbiddenErr ''only a super_admin may do this'')
             (Sentinel (UsecaseE ErrNotSuperAdmin))) (Text ''not a super_admin'' []))
    else ok)"

text \<open>The next row after the limit says whether there are more; the sum is an \<open>int32\<close>.\<close>

definition one_more :: "'w operators \<Rightarrow> int" where
  "one_more Op = to_int32 (op_listLimit Op + 1)"

definition Queue :: "'w operators \<Rightarrow> user option \<Rightarrow> ('w, source list \<times> bool) io" where
  "Queue Op actor =
    and_then (lift (mayOperate actor)) (\<lambda>_.
    and_then (sr_ListForReview (op_repo Op) (one_more Op)) (\<lambda>rows.
    ret (truncate_rows rows (op_listLimit Op))))"

definition AllSources :: "'w operators \<Rightarrow> user option \<Rightarrow> ('w, source list \<times> bool) io" where
  "AllSources Op actor =
    and_then (lift (mayOperate actor)) (\<lambda>_.
    and_then (sr_ListAll (op_repo Op) (one_more Op)) (\<lambda>rows.
    ret (truncate_rows rows (op_listLimit Op))))"

definition Operators_Source :: "'w operators \<Rightarrow> user option \<Rightarrow> string \<Rightarrow> ('w, source) io" where
  "Operators_Source Op actor i =
    and_then (lift (mayOperate actor)) (\<lambda>_. sr_ReadByID (op_repo Op) i)"

definition forDecision :: "'w operators \<Rightarrow> user option \<Rightarrow> string \<Rightarrow> ('w, source) io" where
  "forDecision Op actor i = and_then (lift (mayOperate actor)) (\<lambda>_. sr_ReadByID (op_repo Op) i)"

definition Operators_Approve :: "'w operators \<Rightarrow> user option \<Rightarrow> string \<Rightarrow> ('w, unit) io" where
  "Operators_Approve Op actor i =
    and_then (forDecision Op actor i) (\<lambda>src.
    call (op_now Op) (\<lambda>now.
    and_then (lift (Approve src now)) (\<lambda>src.
    Gate_Do (op_gate Op) actor
      \<lparr>act_Verb = ActSourceApprove, act_TargetType = ''source'', act_TargetID = src_ID src, act_Note = ''''\<rparr>
      (sr_UpdateReview (op_repo Op) src))))"

definition Operators_Refuse :: "'w operators \<Rightarrow> user option \<Rightarrow> string \<Rightarrow> string \<Rightarrow> ('w, unit) io" where
  "Operators_Refuse Op actor i note =
    and_then (forDecision Op actor i) (\<lambda>src.
    call (op_now Op) (\<lambda>now.
    and_then (lift (Refuse src note now)) (\<lambda>src.
    Gate_Do (op_gate Op) actor
      \<lparr>act_Verb = ActSourceRefuse, act_TargetType = ''source'', act_TargetID = src_ID src,
       act_Note = src_ReviewNote src\<rparr>
      (sr_UpdateReview (op_repo Op) src))))"

definition bounded_note :: "string \<Rightarrow> string \<Rightarrow> string result" where
  "bounded_note what note =
    (let trimmed = TrimSpace note in
     if MaxOperatorNoteLen < length trimmed then
       Inl (WithStr (InvalidInputErr (''that '' @ what @ '' is too long''))
         (Text ''%d chars, max %d'' [FmtD (int (length trimmed)), FmtD (int MaxOperatorNoteLen)]))
     else Inr trimmed)"

definition Operators_Suspend :: "'w operators \<Rightarrow> user option \<Rightarrow> string \<Rightarrow> string \<Rightarrow> ('w, unit) io" where
  "Operators_Suspend Op actor i note =
    and_then (forDecision Op actor i) (\<lambda>src.
    and_then (lift (bounded_note ''reason'' note)) (\<lambda>trimmed.
    call (op_now Op) (\<lambda>now.
    and_then (lift (Suspend src now)) (\<lambda>src.
    Gate_Do (op_gate Op) actor
      \<lparr>act_Verb = ActSourceSuspend, act_TargetType = ''source'', act_TargetID = src_ID src, act_Note = trimmed\<rparr>
      (sr_UpdateReview (op_repo Op) src)))))"

definition Operators_Restore :: "'w operators \<Rightarrow> user option \<Rightarrow> string \<Rightarrow> ('w, unit) io" where
  "Operators_Restore Op actor i =
    and_then (forDecision Op actor i) (\<lambda>src.
    call (op_now Op) (\<lambda>now.
    and_then (lift (source_Restore src now)) (\<lambda>src.
    Gate_Do (op_gate Op) actor
      \<lparr>act_Verb = ActSourceRestore, act_TargetType = ''source'', act_TargetID = src_ID src, act_Note = ''''\<rparr>
      (sr_UpdateReview (op_repo Op) src))))"

subsection \<open>People\<close>

definition People :: "'w operators \<Rightarrow> user option \<Rightarrow> ('w, user list \<times> bool) io" where
  "People Op actor =
    and_then (lift (mayGovernPeople actor)) (\<lambda>_.
    and_then (ur_List (op_users Op) (one_more Op)) (\<lambda>rows.
    ret (truncate_rows rows (op_listLimit Op))))"

definition Person :: "'w operators \<Rightarrow> user option \<Rightarrow> ID \<Rightarrow> ('w, user) io" where
  "Person Op actor i = and_then (lift (mayGovernPeople actor)) (\<lambda>_. ur_ReadByID (op_users Op) i)"

definition self_target :: "ID \<Rightarrow> goerr" where
  "self_target i = WithStr (WithErr (InvalidInputErr ''you cannot do this to your own account'')
     (Sentinel (UsecaseE ErrSelfTarget))) (Text ''actor and target are both %q'' [FmtS i])"

definition SetRole ::
    "'w operators \<Rightarrow> user option \<Rightarrow> ID \<Rightarrow> role \<Rightarrow> string \<Rightarrow> ('w, unit) io" where
  "SetRole Op actor i role note =
    and_then (lift (mayGovernPeople actor)) (\<lambda>_.
    if map_option usr_ID actor = Some i then throw (self_target i)
    else
      and_then (ur_ReadByID (op_users Op) i) (\<lambda>target.
      and_then (lift (bounded_note ''note'' note)) (\<lambda>trimmed.
      call (op_now Op) (\<lambda>now.
      and_then (lift (ChangeRole target role now)) (\<lambda>target.
      Gate_Do (op_gate Op) actor
        \<lparr>act_Verb = ActUserRole, act_TargetType = ''user'', act_TargetID = usr_ID target, act_Note = trimmed\<rparr>
        (ur_UpdateRole (op_users Op) target))))))"

definition SetPersonActive ::
    "'w operators \<Rightarrow> user option \<Rightarrow> ID \<Rightarrow> bool \<Rightarrow> string \<Rightarrow> ('w, unit) io" where
  "SetPersonActive Op actor i on note =
    and_then (lift (mayGovernPeople actor)) (\<lambda>_.
    if map_option usr_ID actor = Some i then throw (self_target i)
    else
      and_then (ur_ReadByID (op_users Op) i) (\<lambda>target.
      and_then (lift (bounded_note ''note'' note)) (\<lambda>trimmed.
      call (op_now Op) (\<lambda>now.
      let target = target\<lparr>usr_IsActive := on, usr_UpdatedAt := now\<rparr> in
      Gate_Do (op_gate Op) actor
        \<lparr>act_Verb = (if on then ActUserActivate else ActUserDeactivate), act_TargetType = ''user'',
         act_TargetID = usr_ID target, act_Note = trimmed\<rparr>
        (ur_SetActive (op_users Op) target)))))"

subsection \<open>Reading\<close>

record operator_message =
  om_ID :: string
  om_Channels :: "string list"
  om_Failed :: int
  om_Total :: int
  om_CreatedAt :: time

record operator_delivery =
  od_ID :: string
  od_Channel :: string
  od_MaskedAddress :: string
  od_SenderName :: string
  od_Status :: string
  od_FailureReason :: string
  od_LastError :: string
  od_Attempts :: int
  od_UpdatedAt :: time

text \<open>The ellipsis is one character of three bytes.\<close>

definition ellipsis :: string where
  "ellipsis = map char_of [0xE2, 0x80, 0xA6 :: nat]"

definition mask_address :: "string \<Rightarrow> string" where
  "mask_address address =
    (if length address < 8 then ellipsis
     else take 2 address @ ellipsis @ drop (length address - 2) address)"

definition Messages :: "'w operators \<Rightarrow> user option \<Rightarrow> string \<Rightarrow> ('w, operator_message list \<times> bool) io" where
  "Messages Op actor sourceID =
    and_then (lift (mayOperate actor)) (\<lambda>_.
    and_then (nr_ListForOperator (op_notifications Op) sourceID (op_listLimit Op + 1)) (\<lambda>rows.
    case truncate_rows rows (op_listLimit Op) of (rows, truncated) \<Rightarrow>
    ret (map (\<lambda>r. \<lparr>om_ID = opr_ID r, om_Channels = opr_Channels r, om_Failed = opr_Failed r,
        om_Total = opr_Total r, om_CreatedAt = opr_CreatedAt r\<rparr>) rows, truncated)))"

definition Deliveries ::
    "'w operators \<Rightarrow> user option \<Rightarrow> string \<Rightarrow> string \<Rightarrow> ('w, operator_delivery list) io" where
  "Deliveries Op actor sourceID messageID =
    and_then (lift (mayOperate actor)) (\<lambda>_.
    and_then (nr_ReadByID (op_notifications Op) messageID) (\<lambda>msg.
    if ntf_SourceID msg \<noteq> sourceID then
      throw (WithStr (WithErr (NotFoundErr (''that message is not one of this source'' @ [char_of (39 :: nat)] @ ''s''))
          (Sentinel (NotificationE notification_error.ErrNotFound)))
        (Text ''message %q belongs to source %q, not %q''
          [FmtS messageID, FmtS (ntf_SourceID msg), FmtS sourceID]))
    else
      and_then (dr_ListByNotificationID (op_deliveries Op) messageID) (\<lambda>ds.
      ret (map (\<lambda>d. \<lparr>od_ID = dlv_ID d, od_Channel = Channel_String (rcp_Channel (dlv_Recipient d)),
          od_MaskedAddress = mask_address (rcp_Address (dlv_Recipient d)),
          od_SenderName = dlv_SenderName d, od_Status = Status_String (dlv_status d),
          od_FailureReason = Failure_String (dlv_failureReason d), od_LastError = dlv_lastError d,
          od_Attempts = dlv_attempts d, od_UpdatedAt = dlv_updatedAt d\<rparr>) ds))))"

definition Senders :: "'w operators \<Rightarrow> user option \<Rightarrow> string \<Rightarrow> ('w, credential list) io" where
  "Senders Op actor sourceID =
    and_then (lift (mayOperate actor)) (\<lambda>_. cr_ListBySourceID (op_credentials Op) sourceID)"

definition Audit :: "'w operators \<Rightarrow> user option \<Rightarrow> ('w, audit_entry list \<times> bool) io" where
  "Audit Op actor =
    and_then (lift (mayGovernPeople actor)) (\<lambda>_.
    and_then (al_List (op_audit Op) (one_more Op)) (\<lambda>rows.
    ret (truncate_rows rows (op_listLimit Op))))"

definition SourceHistory ::
    "'w operators \<Rightarrow> user option \<Rightarrow> string \<Rightarrow> ('w, audit_entry list \<times> bool) io" where
  "SourceHistory Op actor sourceID =
    and_then (lift (mayOperate actor)) (\<lambda>_.
    and_then (al_ListByTarget (op_audit Op) ''source'' sourceID sourceDecisionVerbs (one_more Op)) (\<lambda>rows.
    ret (truncate_rows rows (op_listLimit Op))))"


subsection \<open>Every change of the console\<close>

definition deployed_operators :: "env \<Rightarrow> world alerter option \<Rightarrow> int \<Rightarrow> world operators" where
  "deployed_operators E alerts limit =
    \<lparr>op_lib = lib E, op_repo = pg_sources E, op_users = pg_users E, op_notifications = pg_notifications E,
     op_deliveries = pg_deliveries E, op_credentials = pg_credentials E, op_audit = pg_audit E,
     op_gate = deployed_gate E alerts, op_now = Now E, op_listLimit = limit\<rparr>"

datatype change =
    RegisterSource source_registration
  | UpdateSource string source_settings
  | IssueKey string string
  | RevokeKey string ID
  | RunTrial string ID
  | ApproveSource string
  | RefuseSource string string
  | SuspendSource string string
  | RestoreSource string
  | ChangeRoleOf ID role string
  | SetActiveOf ID bool string

fun verb_of :: "change \<Rightarrow> string" where
  "verb_of (RegisterSource reg) = ActSourceCreate"
| "verb_of (UpdateSource i settings) = ActSourceUpdate"
| "verb_of (IssueKey s l) = ActKeyIssue"
| "verb_of (RevokeKey s i) = ActKeyRevoke"
| "verb_of (RunTrial s i) = ActCredentialTest"
| "verb_of (ApproveSource i) = ActSourceApprove"
| "verb_of (RefuseSource i n) = ActSourceRefuse"
| "verb_of (SuspendSource i n) = ActSourceSuspend"
| "verb_of (RestoreSource i) = ActSourceRestore"
| "verb_of (ChangeRoleOf i r n) = ActUserRole"
| "verb_of (SetActiveOf i on n) = (if on then ActUserActivate else ActUserDeactivate)"

definition forget_answer :: "('w, 'a) io \<Rightarrow> ('w, unit) io" where
  "forget_answer m = and_then m (\<lambda>_. ret ())"

fun run_change ::
    "env \<Rightarrow> world alerter option \<Rightarrow> world key_minter \<Rightarrow> user \<Rightarrow> change \<Rightarrow> (world, unit) io" where
  "run_change E a m u (RegisterSource reg) = forget_answer (Sources_Register (deployed_console E a) u reg)"
| "run_change E a m u (UpdateSource i settings) = forget_answer (Sources_Update (deployed_console E a) u i settings)"
| "run_change E a m u (IssueKey s l) = forget_answer (Keys_Issue (deployed_keys E a m) u s l)"
| "run_change E a m u (RevokeKey s i) = Keys_Revoke (deployed_keys E a m) u s i"
| "run_change E a m u (RunTrial s i) = forget_answer (Trials_Run (deployed_trials E a) u s i)"
| "run_change E a m u (ApproveSource i) = Operators_Approve (deployed_operators E a 0) (Some u) i"
| "run_change E a m u (RefuseSource i n) = Operators_Refuse (deployed_operators E a 0) (Some u) i n"
| "run_change E a m u (SuspendSource i n) = Operators_Suspend (deployed_operators E a 0) (Some u) i n"
| "run_change E a m u (RestoreSource i) = Operators_Restore (deployed_operators E a 0) (Some u) i"
| "run_change E a m u (ChangeRoleOf i r n) = SetRole (deployed_operators E a 0) (Some u) i r n"
| "run_change E a m u (SetActiveOf i on n) = SetPersonActive (deployed_operators E a 0) (Some u) i on n"

text \<open>
  \<open>leads_to E Q m\<close>: where nobody else writes, \<open>m\<close> takes a database to one that is related to
  it by \<open>Q\<close>. Reads before the gate change nothing, so they do not show.
\<close>

definition leads_to :: "env \<Rightarrow> (database \<Rightarrow> database \<Rightarrow> bool) \<Rightarrow> (world \<Rightarrow> 'a \<times> world) \<Rightarrow> bool" where
  "leads_to E Q m \<longleftrightarrow> (alone E \<longrightarrow> (\<forall>w. Q (w_db w) (w_db (snd (m w)))))"

lemma leads_toD: "leads_to E Q m \<Longrightarrow> alone E \<Longrightarrow> m w = (r, w') \<Longrightarrow> Q (w_db w) (w_db w')"
  by (metis leads_to_def snd_conv)

lemma leads_to_throw: "reflp Q \<Longrightarrow> leads_to E Q (throw e)"
  by (simp add: leads_to_def reflp_def)

lemma leads_to_reading:
  assumes "keeps (\<lambda>w w'. unchanged E (w_db w) (w_db w')) m" "\<And>x. leads_to E Q (f x)" "reflp Q"
  shows "leads_to E Q (and_then m f)"
  unfolding leads_to_def
proof (intro impI allI)
  fix w
  assume "alone E"
  obtain r w1 where run: "m w = (r, w1)" by fastforce
  then have "w_db w1 = w_db w" using alone_same [OF assms(1) \<open>alone E\<close>] by simp
  then show "Q (w_db w) (w_db (snd (and_then m f w)))"
    using run assms(2,3) \<open>alone E\<close>
    by (cases r) (simp_all add: and_then_run leads_to_def reflp_def, metis)
qed

lemma leads_to_call:
  "keeps (\<lambda>w w'. unchanged E (w_db w) (w_db w')) m \<Longrightarrow> (\<And>x. leads_to E Q (f x)) \<Longrightarrow> leads_to E Q (call m f)"
  unfolding leads_to_def call_def keeps_def unchanged_def
  by (auto split: prod.splits) (metis snd_conv)

lemma leads_to_then_ret: "leads_to E Q m \<Longrightarrow> leads_to E Q (and_then m (\<lambda>x. ret (g x)))"
  unfolding leads_to_def and_then_def
  by (auto split: prod.splits sum.splits) (metis snd_conv)+

lemma leads_to_gate:
  assumes "quiet_alerts alerts" "keeps (\<lambda>w w'. same_log E (w_db w) (w_db w')) fn" "act_Verb act = verb"
  shows "leads_to E (audited u verb) (Gate_Do (deployed_gate E alerts) (Some u) act fn)"
  unfolding leads_to_def using Gate_Do_audited [OF prod.collapse [symmetric] _ assms(1,2)] assms(3) by metis

lemma reflp_audited: "reflp (audited u verb)"
  by (simp add: reflp_def audited_def)

context db_relation
begin

lemma keeps_console_reads:
  "keeps (\<lambda>w w'. P (w_db w) (w_db w')) (pg_ReadSource E i)"
  "keeps (\<lambda>w w'. P (w_db w) (w_db w')) (pg_ListByOwner E i)"
  "keeps (\<lambda>w w'. P (w_db w) (w_db w')) (pg_ListKeys E i)"
  "keeps (\<lambda>w w'. P (w_db w) (w_db w')) (pg_ReadCredential E i c)"
  "keeps (\<lambda>w w'. P (w_db w) (w_db w')) (pg_ReadUser E i)"
  unfolding pg_ReadSource_def pg_ListByOwner_def pg_ListKeys_def pg_ReadCredential_def pg_ReadUser_def
  by (auto intro!: keeps_P keeps_read split: sum.split
      simp: sql_ReadSource_def sql_ListSourcesByOwner_def sql_ListAPIKeysBySource_def
        sql_ReadCredential_def sql_ReadUserByID_def)

end

lemma same_log_stmts:
  "same_log E db (snd (sql_CreateSource i ow n p c a t db))"
  "same_log E db (snd (sql_UpdateSourceSettings i n d a t db))"
  "same_log E db (snd (sql_UpdateReview i b ap rv n t db))"
  "same_log E db (snd (sql_CreateAPIKey i s h l t x db))"
  "same_log E db (snd (sql_RevokeAPIKey i t db))"
  "same_log E db (snd (sql_UpdateUserRole i ro t db))"
  "same_log E db (snd (sql_SetUserActive i b t db))"
  by (simp_all add: same_log_def sql_CreateSource_def sql_UpdateSourceSettings_def sql_UpdateReview_def
      sql_CreateAPIKey_def sql_RevokeAPIKey_def sql_UpdateUserRole_def sql_SetUserActive_def insert_row_def Let_def
      split: option.split)

lemma same_log_writes:
  "keeps (\<lambda>w w'. same_log E (w_db w) (w_db w')) (pg_CreateSource E s)"
  "keeps (\<lambda>w w'. same_log E (w_db w) (w_db w')) (pg_UpdateSettings E s)"
  "keeps (\<lambda>w w'. same_log E (w_db w) (w_db w')) (pg_UpdateReview E s)"
  "keeps (\<lambda>w w'. same_log E (w_db w) (w_db w')) (pg_CreateKey E k h)"
  "keeps (\<lambda>w w'. same_log E (w_db w) (w_db w')) (pg_RevokeKey E i t)"
  "keeps (\<lambda>w w'. same_log E (w_db w) (w_db w')) (pg_UpdateRole E u)"
  "keeps (\<lambda>w w'. same_log E (w_db w) (w_db w')) (pg_SetUserActive E u)"
  unfolding pg_CreateSource_def pg_UpdateSettings_def pg_UpdateReview_def pg_CreateKey_def pg_RevokeKey_def
    pg_UpdateRole_def pg_SetUserActive_def found_source_def changed_def
  by (auto intro!: log_kept.keeps_P log_kept.keeps_stmt same_log_stmts split: sum.split)


lemma console_steps_read:
  "keeps (\<lambda>w w'. unchanged E (w_db w) (w_db w')) (Sources_One (deployed_console E a) u i)"
  "keeps (\<lambda>w w'. unchanged E (w_db w) (w_db w')) (forDecision (deployed_operators E a limit) au i)"
  "keeps (\<lambda>w w'. unchanged E (w_db w) (w_db w')) (Load (tr_sources (deployed_trials E a)) i)"
  "keeps (\<lambda>w w'. unchanged E (w_db w) (w_db w')) (credential_Get (tr_creds (deployed_trials E a)) i c)"
  by (auto intro!: nobody.keeps_P nobody.keeps_console_reads
      simp: Sources_One_def deployed_console_def pg_sources_def forDecision_def deployed_operators_def
        Load_def deployed_trials_def credential_Get_def pg_credentials_def)

definition quiet_minter :: "world key_minter \<Rightarrow> bool" where
  "quiet_minter m \<longleftrightarrow> keeps_off_db w_db (km_Mint m)"

lemma keeps_minting: "quiet_minter m \<Longrightarrow> keeps (\<lambda>w w'. unchanged E (w_db w) (w_db w')) (km_Mint m)"
  by (simp add: quiet_minter_def keeps_off_db_def nobody.keeps_same_db)

lemma operators_fields [simp]:
  "op_repo (deployed_operators E a l) = pg_sources E" "op_users (deployed_operators E a l) = pg_users E"
  "op_gate (deployed_operators E a l) = deployed_gate E a" "op_now (deployed_operators E a l) = Now E"
  "op_audit (deployed_operators E a l) = pg_audit E" "op_listLimit (deployed_operators E a l) = l"
  by (simp_all add: deployed_operators_def)

lemmas changing = leads_to_reading leads_to_call leads_to_throw [OF reflp_audited] leads_to_then_ret
  leads_to_gate same_log_writes nobody.keeps_P nobody.keeps_console_reads
  console_steps_read keeps_minting reflp_audited

lemma leads_to_For:
  assumes "\<And>c. leads_to E Q (f \<lparr>snd_Channel = c, snd_Send = outside_Send E\<rparr>)" "reflp Q"
  shows "leads_to E Q (and_then (outside_For E s c n) f)"
proof -
  have "Q (w_db w) (w_db (snd (f \<lparr>snd_Channel = c, snd_Send = outside_Send E\<rparr> (w\<lparr>w_lookups := Suc (w_lookups w)\<rparr>))))"
    if "alone E" for w
    using leads_toD [OF assms(1) [of c] that prod.collapse [symmetric], where w = "w\<lparr>w_lookups := Suc (w_lookups w)\<rparr>"] by simp
  then show ?thesis
    using assms(2)
    by (auto simp: leads_to_def and_then_def outside_For_def reflp_def split: option.split)
qed

lemma console_changes_audited:
  assumes "quiet_alerts a" "quiet_minter m"
  shows "leads_to E (audited u ActSourceCreate) (Sources_Register (deployed_console E a) u reg)"
    "leads_to E (audited u ActSourceUpdate) (Sources_Update (deployed_console E a) u i settings)"
    "leads_to E (audited u ActKeyIssue) (Keys_Issue (deployed_keys E a m) u s l)"
    "leads_to E (audited u ActKeyRevoke) (Keys_Revoke (deployed_keys E a m) u s k)"
    "leads_to E (audited u ActCredentialTest) (Trials_Run (deployed_trials E a) u s k)"
proof -
  show "leads_to E (audited u ActSourceCreate) (Sources_Register (deployed_console E a) u reg)"
    unfolding Sources_Register_def using assms by (auto intro!: changing)
  show "leads_to E (audited u ActSourceUpdate) (Sources_Update (deployed_console E a) u i settings)"
    unfolding Sources_Update_def using assms by (auto intro!: changing)
  show "leads_to E (audited u ActKeyIssue) (Keys_Issue (deployed_keys E a m) u s l)"
    unfolding Keys_Issue_def using assms by (auto intro!: changing simp: Let_def)
  show "leads_to E (audited u ActKeyRevoke) (Keys_Revoke (deployed_keys E a m) u s k)"
    unfolding Keys_Revoke_def using assms by (auto intro!: changing log_kept.keeps_P)
  show "leads_to E (audited u ActCredentialTest) (Trials_Run (deployed_trials E a) u s k)"
    unfolding Trials_Run_def using assms
    by (auto intro!: leads_to_For changing log_kept.keeps_asking simp: outside_senders_def Let_def)
qed

lemma operator_changes_audited:
  assumes "quiet_alerts a"
  shows "leads_to E (audited u ActSourceApprove) (Operators_Approve (deployed_operators E a l) (Some u) i)"
    "leads_to E (audited u ActSourceRefuse) (Operators_Refuse (deployed_operators E a l) (Some u) i n)"
    "leads_to E (audited u ActSourceSuspend) (Operators_Suspend (deployed_operators E a l) (Some u) i n)"
    "leads_to E (audited u ActSourceRestore) (Operators_Restore (deployed_operators E a l) (Some u) i)"
    "leads_to E (audited u ActUserRole) (SetRole (deployed_operators E a l) (Some u) i r n)"
    "leads_to E (audited u (if on then ActUserActivate else ActUserDeactivate))
       (SetPersonActive (deployed_operators E a l) (Some u) i on n)"
  using assms
  unfolding Operators_Approve_def Operators_Refuse_def Operators_Suspend_def Operators_Restore_def
    SetRole_def SetPersonActive_def Let_def
  by (auto intro!: changing)

text \<open>
  C4. None of the console's eleven audited operations changes anything without a record of who did it:
  registering or updating a source, issuing or revoking a key, a trial message; approving, refusing,
  suspending or restoring a source, giving a person a role and switching a person on or off. Where no other
  process writes, and whatever fails on the way, the database ends as it was or its audit log has grown by
  exactly one row that names the actor, the actor's address and the verb; a change that cannot be recorded
  is not made. The alerter and the minter of keys are taken not to write to the database themselves. (Sender identities, callbacks and signing in go through no gate and leave no audit row.)
\<close>

theorem every_change_is_recorded:
  assumes "run_change E alerts minter u c w = (r, w')" "alone E"
    and "quiet_alerts alerts" "quiet_minter minter"
  shows "audited u (verb_of c) (w_db w) (w_db w')"
proof -
  have "leads_to E (audited u (verb_of c)) (run_change E alerts minter u c)"
    using console_changes_audited [OF assms(3,4)] operator_changes_audited [OF assms(3)]
    by (cases c) (simp_all add: forget_answer_def leads_to_then_ret)
  from leads_toD [OF this assms(2,1)] show ?thesis .
qed


theorem every_change_is_recorded_witness:
  defines "u \<equiv> \<lparr>usr_ID = demo_id CHR ''1'', usr_Email = ''a@b.c'', usr_Role = RoleCustomer, usr_IsActive = True,
      usr_CreatedAt = 5, usr_UpdatedAt = 5\<rparr>"
    and "c \<equiv> RegisterSource \<lparr>sreg_Name = ''billing'', sreg_DefaultAddresses = None\<rparr>"
    and "minter \<equiv> \<lparr>km_Mint = ret (''key'', ''hash'')\<rparr>"
  shows "audited u ActSourceCreate (w_db demo_world) (w_db (snd (run_change demo_env None minter u c demo_world)))"
proof -
  have "audited u (verb_of c) (w_db demo_world) (w_db (snd (run_change demo_env None minter u c demo_world)))"
    by (rule every_change_is_recorded [where alerts = None and minter = minter,
          OF prod.collapse [symmetric]])
      (simp_all add: alone_def demo_env_def quiet_alerts_def quiet_minter_def keeps_off_db_def minter_def)
  then show ?thesis by (simp add: c_def)
qed

subsection \<open>Who may do what\<close>

datatype operator_call =
    CQueue | CAllSources | CSource string | CApprove string | CRefuse string string
  | CSuspend string string | CRestore string | CMessages string | CDeliveries string string
  | CSenders string | CHistory string
  | CPeople | CPerson ID | CSetRole ID role string | CSetActive ID bool string | CAudit

fun operate :: "'w operators \<Rightarrow> user option \<Rightarrow> operator_call \<Rightarrow> ('w, unit) io" where
  "operate Op u CQueue = forget_answer (Queue Op u)"
| "operate Op u CAllSources = forget_answer (AllSources Op u)"
| "operate Op u (CSource i) = forget_answer (Operators_Source Op u i)"
| "operate Op u (CApprove i) = Operators_Approve Op u i"
| "operate Op u (CRefuse i n) = Operators_Refuse Op u i n"
| "operate Op u (CSuspend i n) = Operators_Suspend Op u i n"
| "operate Op u (CRestore i) = Operators_Restore Op u i"
| "operate Op u (CMessages s) = forget_answer (Messages Op u s)"
| "operate Op u (CDeliveries s m) = forget_answer (Deliveries Op u s m)"
| "operate Op u (CSenders s) = forget_answer (Senders Op u s)"
| "operate Op u (CHistory s) = forget_answer (SourceHistory Op u s)"
| "operate Op u CPeople = forget_answer (People Op u)"
| "operate Op u (CPerson i) = forget_answer (Person Op u i)"
| "operate Op u (CSetRole i r n) = SetRole Op u i r n"
| "operate Op u (CSetActive i on n) = SetPersonActive Op u i on n"
| "operate Op u CAudit = forget_answer (Audit Op u)"

fun governs_people :: "operator_call \<Rightarrow> bool" where
  "governs_people CPeople = True"
| "governs_people (CPerson i) = True"
| "governs_people (CSetRole i r n) = True"
| "governs_people (CSetActive i on n) = True"
| "governs_people CAudit = True"
| "governs_people c = False"

fun person_changed :: "operator_call \<Rightarrow> ID option" where
  "person_changed (CSetRole i r n) = Some i"
| "person_changed (CSetActive i on n) = Some i"
| "person_changed c = None"

lemmas operator_calls = Queue_def AllSources_def Operators_Source_def Operators_Approve_def Operators_Refuse_def
  Operators_Suspend_def Operators_Restore_def forDecision_def Messages_def Deliveries_def Senders_def
  SourceHistory_def People_def Person_def SetRole_def SetPersonActive_def Audit_def forget_answer_def

lemma refused_first:
  "m w = (Inl e, w) \<Longrightarrow> and_then m f w = (Inl e, w)"
  by (rule and_then_run)

text \<open>
  C5. Roles are checked before anything is read. Whatever stands behind the ports, a call of somebody
  who is no operator is refused as forbidden and leaves the state as it was, so is a call about people
  of an operator who is no super admin, and nobody changes the role or the activity of their own
  account.
\<close>

theorem operators_only:
  "case (if \<not> (actor \<noteq> None \<and> IsOperator (usr_Role (the actor))) then Some ErrNotOperator
      else if governs_people c \<and> usr_Role (the actor) \<noteq> RoleSuperAdmin then Some ErrNotSuperAdmin
      else if person_changed c = Some (usr_ID (the actor)) then Some ErrSelfTarget else None) of
     None \<Rightarrow> True
   | Some why \<Rightarrow> \<exists>e. operate Op actor c w = (Inl e, w) \<and> is_err e (UsecaseE why)
       \<and> IsType e (if why = ErrSelfTarget then ErrInvalidInput else ErrForbidden)"
proof (cases actor)
  case None
  then show ?thesis
    by (cases c) (auto simp: operator_calls mayGovernPeople_def mayOperate_def refused_first TypeOf_of_type
        self_target_def)
next
  case (Some u)
  then show ?thesis
    by (cases c) (auto simp: operator_calls mayGovernPeople_def mayOperate_def refused_first TypeOf_of_type
        self_target_def IsOperator_def)
qed


lemma ListAuditByTarget_rows:
  assumes "pg_ListAuditByTarget E ty i vs n w = (Inr es, w')"
  shows "list_all (\<lambda>e. aud_TargetType e = ty \<and> aud_TargetID e = i \<and> aud_Verb e \<in> set vs) es \<and> int (length es) \<le> n"
proof -
  obtain rows where run: "exec E (sql_ListAuditByTarget ty i vs n) w = (Inr rows, w')" and es: "es = map toAudit rows"
    using assms by (auto simp: pg_ListAuditByTarget_def or_failed_eq)
  obtain m :: world where "sql_ListAuditByTarget ty i vs n (w_db m) = (Inr rows, w_db w')" using exec_Inr [OF run] by auto
  then have rows: "0 \<le> n" "rows = take (nat n) (rev (sort_key au_at (filter (\<lambda>r. au_target_type r = ty
        \<and> au_target_id r = i \<and> au_verb r \<in> set vs) (t_audit_log (w_db m)))))"
    by (auto simp: sql_ListAuditByTarget_def limited_def split: if_splits)
  then have "set rows \<subseteq> {r. au_target_type r = ty \<and> au_target_id r = i \<and> au_verb r \<in> set vs}"
    using set_take_subset [of "nat n"] by fastforce
  with rows show ?thesis by (auto simp: es list_all_iff toAudit_def)
qed

lemma truncate_rows_length:
  "0 \<le> l \<Longrightarrow> l < 2 ^ 31 - 1 \<Longrightarrow> int (length rows) \<le> l + 1 \<Longrightarrow>
     length (fst (truncate_rows rows l)) \<le> nat l \<and> set (fst (truncate_rows rows l)) \<subseteq> set rows
     \<and> snd (truncate_rows rows l) = (l < int (length rows))"
  using to_int32_id [of "int (length rows)"] set_take_subset [of "nat l" rows]
  by (auto simp: truncate_rows_def)

text \<open>
  What an operator without the roster may read of a source's history are the four decisions on
  that source, and never more of them than the page holds. Rows whose actor may be a customer are not
  in it.
\<close>

theorem operators_see_decisions_only:
  assumes "SourceHistory (deployed_operators E alerts l) actor s w = (Inr (es, trunc), w')" "0 \<le> l" "l < 2 ^ 31 - 1"
  shows "list_all (\<lambda>e. aud_TargetType e = ''source'' \<and> aud_TargetID e = s
      \<and> aud_Verb e \<in> {''source.approve'', ''source.refuse'', ''source.suspend'', ''source.restore''}) es
    \<and> length es \<le> nat l"
proof -
  have lim: "one_more (deployed_operators E alerts l) = l + 1"
    using to_int32_id [of "l + 1"] assms(2,3) by (simp add: one_more_def)
  obtain rows where rows: "pg_ListAuditByTarget E ''source'' s sourceDecisionVerbs (l + 1) w = (Inr rows, w')"
    and es: "(es, trunc) = truncate_rows rows l"
    using assms(1) by (auto simp: SourceHistory_def and_then_Inr pg_audit_def lim lift_def)
  note r = ListAuditByTarget_rows [OF rows]
  have "length es \<le> nat l \<and> set es \<subseteq> set rows"
    using truncate_rows_length [OF assms(2,3), of rows] r es by (metis fst_conv)
  with r show ?thesis by (auto simp: list_all_iff sourceDecisionVerbs_def verbs)
qed

theorem operators_see_decisions_only_witness:
  "list_all (\<lambda>e. aud_TargetType e = ''source'' \<and> aud_TargetID e = demo_id CHR ''2''
      \<and> aud_Verb e \<in> {''source.approve'', ''source.refuse'', ''source.suspend'', ''source.restore''}) ([] :: audit_entry list)
    \<and> length ([] :: audit_entry list) \<le> nat 10"
proof (rule operators_see_decisions_only)
  have "exec demo_env (sql_ListAuditByTarget ''source'' (demo_id CHR ''2'') sourceDecisionVerbs 11) demo_world
      = (Inr [], demo_world\<lparr>w_trips := 1\<rparr>)"
    by (simp add: exec_def begin_trip_def abort_on_def server_error_def Let_def demo_env_def demo_world_def demo_db_def
        run_writes_def sql_ListAuditByTarget_def limited_def)
  then show "SourceHistory (deployed_operators demo_env None 10)
      (Some \<lparr>usr_ID = ''U'', usr_Email = ''op@b.c'', usr_Role = RoleAdmin, usr_IsActive = True,
        usr_CreatedAt = 0, usr_UpdatedAt = 0\<rparr>) (demo_id CHR ''2'') demo_world = (Inr ([], False), demo_world\<lparr>w_trips := 1\<rparr>)"
    using to_int32_id [of 11]
    by (simp add: SourceHistory_def mayOperate_def IsOperator_def and_then_def one_more_def pg_audit_def
        pg_ListAuditByTarget_def or_failed_def attempt_def truncate_rows_def to_int32_def)
qed simp_all

end
