(* ===== verification/Encoding.thy ===== *)
theory Encoding
  imports GoLib
begin

text \<open>
  The encodings the adapters use from Go's library: \<open>base64.RawURLEncoding\<close> (it skips line breaks,
  refuses every other foreign character and a lone last digit, and does not look at the bits a
  shortened last group leaves over), \<open>strings.Split\<close> and \<open>strings.Join\<close>.
\<close>

subsection \<open>Base64\<close>

definition b64_digit :: "nat \<Rightarrow> char" where
  "b64_digit n =
    (if n < 26 then char_of (65 + n) else if n < 52 then char_of (71 + n) else if n < 62 then char_of (n - 4)
     else if n = 62 then CHR ''-'' else CHR ''_'')"

definition b64_value :: "char \<Rightarrow> nat option" where
  "b64_value c =
    (let b = byte c in
     if 65 \<le> b \<and> b \<le> 90 then Some (b - 65) else if 97 \<le> b \<and> b \<le> 122 then Some (b - 71)
     else if 48 \<le> b \<and> b \<le> 57 then Some (b + 4) else if b = 45 then Some 62 else if b = 95 then Some 63
     else None)"

fun sextets :: "nat list \<Rightarrow> nat list" where
  "sextets [] = []"
| "sextets [a] = [a div 4, a mod 4 * 16]"
| "sextets [a, b] = [a div 4, a mod 4 * 16 + b div 16, b mod 16 * 4]"
| "sextets (a # b # c # rest) =
     (a div 4) # (a mod 4 * 16 + b div 16) # (b mod 16 * 4 + c div 64) # (c mod 64) # sextets rest"

fun octets :: "nat list \<Rightarrow> nat list option" where
  "octets [] = Some []"
| "octets [w] = None"
| "octets [w, x] = Some [w * 4 + x div 16]"
| "octets [w, x, y] = Some [w * 4 + x div 16, x mod 16 * 16 + y div 4]"
| "octets (w # x # y # z # rest) =
     map_option (\<lambda>bs. (w * 4 + x div 16) # (x mod 16 * 16 + y div 4) # (y mod 4 * 64 + z) # bs) (octets rest)"

definition EncodeToString :: "string \<Rightarrow> string" where
  "EncodeToString s = map b64_digit (sextets (map byte s))"

definition DecodeString :: "string \<Rightarrow> string option" where
  "DecodeString s =
    (let t = filter (\<lambda>c. byte c \<noteq> 10 \<and> byte c \<noteq> 13) s in
     if list_all (\<lambda>c. b64_value c \<noteq> None) t
     then map_option (map char_of) (octets (map (the \<circ> b64_value) t)) else None)"

lemma sextets_small: "\<forall>b \<in> set bs. b < 256 \<Longrightarrow> list_all (\<lambda>d. d < 64) (sextets bs)"
proof (induction bs rule: sextets.induct)
  case (2 a)
  have "a mod 4 < 4" by simp
  moreover have "a div 4 < 64" using 2 by auto
  ultimately show ?case by simp
next
  case (3 a b)
  have "b div 16 < 16" using 3 by auto
  then have "a mod 4 * 16 + b div 16 < 64" using mod_less_divisor [of 4 a] by linarith
  moreover have "b mod 16 * 4 < 64" using mod_less_divisor [of 16 b] by linarith
  ultimately show ?case using 3 by auto
next
  case (4 a b c rest)
  have "b div 16 < 16" "c div 64 < 4" using 4 by auto
  then have "a mod 4 * 16 + b div 16 < 64" "b mod 16 * 4 + c div 64 < 64"
    using mod_less_divisor [of 4 a] mod_less_divisor [of 16 b] by linarith+
  with 4 show ?case by auto
qed simp

lemma octets_sextets: "\<forall>b \<in> set bs. b < 256 \<Longrightarrow> octets (sextets bs) = Some bs"
proof (induction bs rule: sextets.induct)
  case (3 a b)
  have "b div 16 < 16" using 3 by auto
  then have "(a mod 4 * 16 + b div 16) div 16 = a mod 4" "(a mod 4 * 16 + b div 16) mod 16 = b div 16" by simp_all
  then show ?case by simp
next
  case (4 a b c rest)
  have "b div 16 < 16" "c div 64 < 4" using 4 by auto
  then have "(a mod 4 * 16 + b div 16) div 16 = a mod 4" "(a mod 4 * 16 + b div 16) mod 16 = b div 16"
    "(b mod 16 * 4 + c div 64) div 4 = b mod 16" "(b mod 16 * 4 + c div 64) mod 4 = c div 64"
    by simp_all
  with 4 show ?case by simp
qed simp_all

lemma byte_b64_digit: "n < 64 \<Longrightarrow> byte (b64_digit n) =
   (if n < 26 then 65 + n else if n < 52 then 71 + n else if n < 62 then n - 4 else if n = 62 then 45 else 95)"
  by (simp add: b64_digit_def byte_def)

lemma b64_value_digit: "n < 64 \<Longrightarrow> b64_value (b64_digit n) = Some n"
  by (simp add: b64_value_def Let_def byte_b64_digit) arith

lemma base64_roundtrip: "DecodeString (EncodeToString s) = Some s"
proof -
  have b: "\<forall>b \<in> set (map byte s). b < 256" by (auto simp: byte_def)
  note small = sextets_small [OF b, unfolded list_all_iff]
  have "filter (\<lambda>c. byte c \<noteq> 10 \<and> byte c \<noteq> 13) (EncodeToString s) = EncodeToString s"
    using small by (auto simp: filter_id_conv EncodeToString_def byte_b64_digit)
  moreover have "map (the \<circ> b64_value) (EncodeToString s) = sextets (map byte s)"
    using small by (auto simp: EncodeToString_def b64_value_digit intro!: map_idI)
  moreover have "list_all (\<lambda>c. b64_value c \<noteq> None) (EncodeToString s)"
    using small by (auto simp: EncodeToString_def list_all_iff b64_value_digit)
  ultimately show ?thesis
    by (simp add: DecodeString_def octets_sextets [OF b] byte_def comp_def)
qed

lemma base64_alphabet:
  assumes "c \<in> set (EncodeToString s)"
  shows "c \<noteq> CHR ''.''"
proof -
  have "\<forall>b \<in> set (map byte s). b < 256" by (auto simp: byte_def)
  from sextets_small [OF this] assms obtain n where "n < 64" "c = b64_digit n"
    by (auto simp: EncodeToString_def list_all_iff)
  then have "byte c \<noteq> 46" by (simp add: byte_b64_digit) arith
  then show ?thesis by (auto simp: byte_def)
qed

subsection \<open>Fields\<close>

fun Split :: "char \<Rightarrow> string \<Rightarrow> string list" where
  "Split sep [] = [[]]"
| "Split sep (c # cs) =
     (if c = sep then [] # Split sep cs else (case Split sep cs of [] \<Rightarrow> [[c]] | p # ps \<Rightarrow> (c # p) # ps))"

fun Join :: "string \<Rightarrow> string list \<Rightarrow> string" where
  "Join sep [] = []"
| "Join sep [x] = x"
| "Join sep (x # y # rest) = x @ sep @ Join sep (y # rest)"

lemma Split_nonempty [simp]: "Split sep s \<noteq> []"
  by (induction s) (auto split: list.split)

lemma Split_append: "sep \<notin> set x \<Longrightarrow> Split sep (x @ sep # s) = x # Split sep s"
  by (induction x) auto

lemma Split_plain: "sep \<notin> set x \<Longrightarrow> Split sep x = [x]"
  by (induction x) auto

lemma Split_Join:
  "xs \<noteq> [] \<Longrightarrow> list_all (\<lambda>x. sep \<notin> set x) xs \<Longrightarrow> Split sep (Join [sep] xs) = xs"
  by (induction "[sep]" xs rule: Join.induct) (simp_all add: Split_plain Split_append)


subsection \<open>Package encoding/hex and package strconv\<close>

definition hex_digit :: "nat \<Rightarrow> char" where
  "hex_digit n = ''0123456789abcdef'' ! n"

definition hex_value :: "char \<Rightarrow> nat option" where
  "hex_value c =
    (let b = byte c in
     if 48 \<le> b \<and> b \<le> 57 then Some (b - 48)
     else if 97 \<le> b \<and> b \<le> 102 then Some (b - 87)
     else if 65 \<le> b \<and> b \<le> 70 then Some (b - 55)
     else None)"

definition hex_EncodeToString :: "string \<Rightarrow> string" where
  "hex_EncodeToString s = concat (map (\<lambda>c. [hex_digit (byte c div 16), hex_digit (byte c mod 16)]) s)"

text \<open>Both cases of the letters are read, and an odd length is an error.\<close>

fun hex_DecodeString :: "string \<Rightarrow> string option" where
  "hex_DecodeString [] = Some []"
| "hex_DecodeString [c] = None"
| "hex_DecodeString (a # b # s) =
    (case (hex_value a, hex_value b, hex_DecodeString s) of
       (Some x, Some y, Some t) \<Rightarrow> Some (char_of (16 * x + y) # t)
     | _ \<Rightarrow> None)"

lemma hex_value_digit: "n < 16 \<Longrightarrow> hex_value (hex_digit n) = Some n"
proof -
  assume "n < 16"
  then have "n \<in> {0, 1, 2, 3, 4, 5, 6, 7, 8, 9, 10, 11, 12, 13, 14, 15}" by (simp; arith)
  then show ?thesis by (auto simp: hex_value_def hex_digit_def byte_def)
qed

lemma byte_less: "byte c < 256"
  by (simp add: byte_def)

lemma char_of_byte [simp]: "char_of (byte c) = c"
  by (simp add: byte_def)

lemma hex_roundtrip: "hex_DecodeString (hex_EncodeToString s) = Some s"
proof (induction s)
  case Nil
  then show ?case by (simp add: hex_EncodeToString_def)
next
  case (Cons c s)
  have "byte c div 16 < 16" "byte c mod 16 < 16" using byte_less [of c] by auto
  moreover have "char_of (16 * (byte c div 16) + byte c mod 16) = c" by simp
  ultimately show ?case using Cons by (simp add: hex_EncodeToString_def hex_value_digit)
qed

text \<open>\<open>strconv.FormatInt(n, 10)\<close>.\<close>

fun decimal_text :: "nat \<Rightarrow> string" where
  "decimal_text n = (if n < 10 then [] else decimal_text (n div 10)) @ [char_of (48 + n mod 10)]"

declare decimal_text.simps [simp del]

definition FormatInt :: "int \<Rightarrow> string" where
  "FormatInt n = (if n < 0 then CHR ''-'' # decimal_text (nat (- n)) else decimal_text (nat n))"

lemma is_digit_char: "d < 10 \<Longrightarrow> is_digit (char_of (48 + d)) \<and> byte (char_of (48 + d)) = 48 + d"
  by (simp add: is_digit_def byte_def)

lemma digits_value_snoc: "digits_value (s @ [c]) = digits_value s * 10 + (byte c - 48)"
  by (simp add: digits_value_def)

lemma digits_read:
  "decimal_text n \<noteq> [] \<and> list_all is_digit (decimal_text n) \<and> digits_value (decimal_text n) = n"
proof (induction n rule: less_induct)
  case (less n)
  have c: "is_digit (char_of (48 + n mod 10)) \<and> byte (char_of (48 + n mod 10)) = 48 + n mod 10"
    by (rule is_digit_char) simp
  show ?case
  proof (cases "n < 10")
    case True
    with c show ?thesis by (simp add: decimal_text.simps [of n] digits_value_def)
  next
    case False
    then have "list_all is_digit (decimal_text (n div 10)) \<and> digits_value (decimal_text (n div 10)) = n div 10"
      using less [of "n div 10"] by simp
    with c False show ?thesis by (simp add: decimal_text.simps [of n] digits_value_snoc)
  qed
qed

lemma digits_head: "c \<in> set (decimal_text n) \<Longrightarrow> c \<noteq> CHR ''-'' \<and> c \<noteq> CHR ''+'' \<and> c \<noteq> CHR ''.''"
  using digits_read [of n] by (auto simp: list_all_iff is_digit_def byte_def)

lemma ParseInt_FormatInt:
  assumes "- (2 ^ 63) \<le> n" "n < 2 ^ 63"
  shows "ParseInt (FormatInt n) = Some n"
proof (cases "n < 0")
  case True
  then have "nat (- n) \<le> 2 ^ 63" using assms by (simp add: nat_le_iff)
  then show ?thesis
    using True digits_read [of "nat (- n)"] by (simp add: FormatInt_def ParseInt_def ParseUint_def)
next
  case False
  then have v: "nat n < 2 ^ 63" using assms by (simp add: nat_less_iff)
  obtain c cs where d: "decimal_text (nat n) = c # cs" using digits_read [of "nat n"] by (cases "decimal_text (nat n)") auto
  then have "c \<noteq> CHR ''-''" "c \<noteq> CHR ''+''" using digits_head [of c "nat n"] by auto
  then show ?thesis
    using False v d digits_read [of "nat n"] by (simp add: FormatInt_def ParseInt_def ParseUint_def)
qed

lemma FormatInt_plain: "CHR ''.'' \<notin> set (FormatInt n)" "FormatInt n \<noteq> ''''"
  using digits_head [of "CHR ''.''"] digits_read by (auto simp: FormatInt_def)

text \<open>The conversion \<open>int64(n)\<close>, which also is what 64-bit arithmetic does to a result.\<close>

definition to_int64 :: "int \<Rightarrow> int" where
  "to_int64 n = sint (word_of_int n :: 64 word)"

lemma to_int64_id: "- (2 ^ 63) \<le> n \<Longrightarrow> n < 2 ^ 63 \<Longrightarrow> to_int64 n = n"
  by (simp add: to_int64_def sint_sbintrunc' signed_take_bit_int_eq_self)

lemma to_int64_neg_min: "to_int64 (- (- (2 ^ 63))) = - (2 ^ 63)"
  by (simp add: to_int64_def)

subsection \<open>Names in lower case\<close>

lemma small_letters:
  "map (char_of :: nat \<Rightarrow> char) [97..<123] = ''abcdefghijklmnopqrstuvwxyz''" "(char_of :: nat \<Rightarrow> char) 95 = CHR ''_''"
  by (code_simp, code_simp)

lemma small_letter: "n < 26 \<Longrightarrow> (char_of :: nat \<Rightarrow> char) (97 + n) = ''abcdefghijklmnopqrstuvwxyz'' ! n"
proof -
  assume "n < 26"
  then have "map (char_of :: nat \<Rightarrow> char) [97..<123] ! n = char_of ([97..<123] ! n)"
    by (intro nth_map) (simp del: upt_rec_numeral)
  also have "[97..<123] ! n = 97 + n" by (rule nth_upt) (use \<open>n < 26\<close> in simp)
  finally show ?thesis unfolding small_letters by simp
qed

definition lower_name :: "string \<Rightarrow> string" where
  "lower_name s = map (\<lambda>c. if 65 \<le> byte c \<and> byte c \<le> 90 then ''abcdefghijklmnopqrstuvwxyz'' ! (byte c - 65) else c) s"

lemma ToLower_name: "ascii s \<Longrightarrow> ToLower L s = lower_name s"
proof -
  assume "ascii s"
  moreover have "(char_of :: nat \<Rightarrow> char) (to_lower_rune L (byte c)) =
      (if 65 \<le> byte c \<and> byte c \<le> 90 then ''abcdefghijklmnopqrstuvwxyz'' ! (byte c - 65) else c)" if "byte c < 128" for c
    using that small_letter [of "byte c - 65"] by (auto simp: to_lower_rune_def add.commute)
  ultimately show ?thesis by (simp add: ToLower_ascii lower_name_def ascii_def list_all_iff)
qed

end
