(* ===== verification/Secrets.thy ===== *)
theory Secrets
  imports Frames Encoding PgSources Gateway
begin

text \<open>
  \<open>pkg/crypto/keyring.go\<close> and \<open>internal/adapter/secret\<close>: sealed values that name their key, the
  keeper of sending identities' secrets and the keeper of callbacks' signing secrets. A cipher
  opened on a key (AES-256-GCM in the deployment) is a record of its two operations; what is
  relied on of it is \<open>gcm_ok\<close>. Logging has no effect on the state.
\<close>

subsection \<open>The keyring\<close>

definition KeySize :: nat where "KeySize = 32"
definition version :: string where "version = ''v1''"
definition separator :: char where "separator = CHR ''.''"
definition sealed_fields :: nat where "sealed_fields = 4"

record aead =
  ae_NonceSize :: nat
  ae_Seal :: "string \<Rightarrow> string \<Rightarrow> string \<Rightarrow> string"
  ae_Open :: "string \<Rightarrow> string \<Rightarrow> string \<Rightarrow> string result"

record keyring =
  ring_keys :: "(string \<times> aead) list"
  ring_active :: string

text \<open>The keys in the order the loop meets them; \<open>newGCM\<close> is \<open>aes.NewCipher\<close> and \<open>cipher.NewGCM\<close>.\<close>

fun build_ring ::
    "(string \<Rightarrow> aead result) \<Rightarrow> (string \<times> string) list \<Rightarrow> (string \<times> aead) list \<Rightarrow> (string \<times> aead) list result" where
  "build_ring newGCM [] ring = Inr ring"
| "build_ring newGCM ((i, key) # rest) ring =
    (if i = '''' \<or> separator \<in> set i then
       Inl (WithStr (WithErr (InternalErr ''encryption key id is not usable'') (Sentinel (CryptoE crypto_error.ErrKeyID)))
         (Text ''id %q'' [FmtS i]))
     else if length key \<noteq> KeySize then
       Inl (WithStr (WithErr (InternalErr ''encryption key is the wrong length'') (Sentinel (CryptoE crypto_error.ErrKeySize)))
         (Text ''key %q is %d bytes, want %d'' [FmtS i, FmtD (int (length key)), FmtD (int KeySize)]))
     else case newGCM key of
       Inl err \<Rightarrow> Inl (WithStr (WithErr (InternalErr ''encryption key could not be used'') err) (Text ''key %q'' [FmtS i]))
     | Inr aead \<Rightarrow> build_ring newGCM rest (ring @ [(i, aead)]))"

definition NewKeyring :: "(string \<Rightarrow> aead result) \<Rightarrow> (string \<times> string) list \<Rightarrow> string \<Rightarrow> keyring result" where
  "NewKeyring newGCM keys activeID =
    (if keys = [] then Inl (WithErr (InternalErr ''no encryption keys configured'') (Sentinel (CryptoE crypto_error.ErrNoKeys)))
     else then_result (build_ring newGCM keys []) (\<lambda>ring.
       if map_of ring activeID = None then
         Inl (WithStr (WithErr (InternalErr ''the active encryption key is not in the keyring'')
                (Sentinel (CryptoE crypto_error.ErrNoActiveKey))) (Text ''active %q'' [FmtS activeID]))
       else Inr \<lparr>ring_keys = ring, ring_active = activeID\<rparr>))"

text \<open>\<open>rand n\<close> is \<open>rand.Read\<close> into \<open>n\<close> bytes.\<close>

definition Seal :: "keyring \<Rightarrow> (nat \<Rightarrow> ('w, string) io) \<Rightarrow> string \<Rightarrow> string \<Rightarrow> ('w, string) io" where
  "Seal K rand plaintext aad =
    (let aead = the (map_of (ring_keys K) (ring_active K)) in
     attempt (rand (ae_NonceSize aead)) (\<lambda>r. case r of
       Inl err \<Rightarrow> throw (WithErr (InternalErr ''the value could not be encrypted'') err)
     | Inr nonce \<Rightarrow>
         ret (Join [separator] [version, ring_active K, EncodeToString nonce,
                EncodeToString (ae_Seal aead nonce plaintext aad)])))"

definition undecryptable :: "goerr \<Rightarrow> goerr" where
  "undecryptable cause = WithErr (InternalErr ''the value could not be decrypted'') cause"

definition split_sealed :: "string \<Rightarrow> (string \<times> string \<times> string \<times> string) result" where
  "split_sealed value =
    (let parts = Split separator value in
     if length parts \<noteq> sealed_fields then
       Inl (WithStr (undecryptable (Sentinel (CryptoE crypto_error.ErrMalformed)))
         (Text ''got %d fields, want %d'' [FmtD (int (length parts)), FmtD (int sealed_fields)]))
     else case DecodeString (parts ! 2) of
       None \<Rightarrow> Inl (WithStr (undecryptable (Sentinel (CryptoE crypto_error.ErrMalformed))) (Text ''nonce is not valid base64'' []))
     | Some nonce \<Rightarrow>
    (case DecodeString (parts ! 3) of
       None \<Rightarrow> Inl (WithStr (undecryptable (Sentinel (CryptoE crypto_error.ErrMalformed)))
                 (Text ''ciphertext is not valid base64'' []))
     | Some ciphertext \<Rightarrow> Inr (parts ! 0, parts ! 1, nonce, ciphertext)))"

definition Keyring_Open :: "keyring \<Rightarrow> string \<Rightarrow> string \<Rightarrow> string result" where
  "Keyring_Open K value aad =
    then_result (split_sealed value) (\<lambda>(ver, i, nonce, ciphertext).
    if ver \<noteq> version then
      Inl (WithStr (undecryptable (Sentinel (CryptoE crypto_error.ErrOldVersion))) (Text ''version %q'' [FmtS ver]))
    else case map_of (ring_keys K) i of
      None \<Rightarrow> Inl (WithStr (undecryptable (Sentinel (CryptoE crypto_error.ErrUnknownKey))) (Text ''key %q'' [FmtS i]))
    | Some aead \<Rightarrow>
        if length nonce \<noteq> ae_NonceSize aead then
          Inl (WithStr (undecryptable (Sentinel (CryptoE crypto_error.ErrMalformed))) (Text ''nonce is the wrong length'' []))
        else case ae_Open aead nonce ciphertext aad of
          Inl err \<Rightarrow> Inl (undecryptable (Sentinel (CryptoE crypto_error.ErrCannotOpen)))
        | Inr plaintext \<Rightarrow> Inr plaintext)"

definition NeedsReseal :: "keyring \<Rightarrow> string \<Rightarrow> bool" where
  "NeedsReseal K value =
    (case split_sealed value of Inl err \<Rightarrow> False | Inr (ver, i, nonce, ciphertext) \<Rightarrow> i \<noteq> ring_active K)"

subsection \<open>The keeper of sending identities\<close>

definition aadSeparator :: string where "aadSeparator = ''|''"

record 'w secret_store =
  sst_Create :: "credential \<Rightarrow> string \<Rightarrow> string \<Rightarrow> ('w, unit) io"
  sst_ReadMaterial :: "ID \<Rightarrow> ('w, string \<times> string) io"
  sst_Reseal :: "ID \<Rightarrow> string \<Rightarrow> string \<Rightarrow> time \<Rightarrow> ('w, bool) io"
  sst_Rotate :: "string \<Rightarrow> ID \<Rightarrow> string \<Rightarrow> time \<Rightarrow> ('w, unit) io"

record 'w keeper =
  kp_store :: "'w secret_store"
  kp_keys :: keyring
  kp_now :: "'w NowFunc"
  kp_rand :: "nat \<Rightarrow> ('w, string) io"

definition bind_secret :: "string \<Rightarrow> channel \<Rightarrow> ID \<Rightarrow> string" where
  "bind_secret sourceID c i = sourceID @ aadSeparator @ Channel_String c @ aadSeparator @ i"

definition sealed_or_nothing :: "'w keeper \<Rightarrow> credential \<Rightarrow> string \<Rightarrow> ('w, string) io" where
  "sealed_or_nothing K c secret =
    (if secret = '''' then ret ''''
     else Seal (kp_keys K) (kp_rand K) secret (bind_secret (crd_SourceID c) (crd_Channel c) (crd_ID c)))"

definition Keeper_Add :: "'w keeper \<Rightarrow> credential \<Rightarrow> string \<Rightarrow> string \<Rightarrow> ('w, unit) io" where
  "Keeper_Add K c config secret =
    and_then (sealed_or_nothing K c secret) (\<lambda>sealed. sst_Create (kp_store K) c config sealed)"

definition Keeper_Replace :: "'w keeper \<Rightarrow> credential \<Rightarrow> string \<Rightarrow> ('w, unit) io" where
  "Keeper_Replace K c secret =
    and_then (sealed_or_nothing K c secret) (\<lambda>sealed.
    call (kp_now K) (\<lambda>now. sst_Rotate (kp_store K) (crd_SourceID c) (crd_ID c) sealed now))"

definition reseal :: "'w keeper \<Rightarrow> ID \<Rightarrow> string \<Rightarrow> string \<Rightarrow> string \<Rightarrow> ('w, unit) io" where
  "reseal K i sealed plain aad =
    (if \<not> NeedsReseal (kp_keys K) sealed then ret ()
     else attempt (Seal (kp_keys K) (kp_rand K) plain aad) (\<lambda>r. case r of
       Inl err \<Rightarrow> ret ()
     | Inr nxt \<Rightarrow>
         call (kp_now K) (\<lambda>now.
         attempt (sst_Reseal (kp_store K) i sealed nxt now) (\<lambda>r. ret ()))))"

definition Material :: "'w keeper \<Rightarrow> string \<Rightarrow> channel \<Rightarrow> ID \<Rightarrow> ('w, string \<times> string) io" where
  "Material K sourceID c i =
    and_then (sst_ReadMaterial (kp_store K) i) (\<lambda>(config, sealed).
    if sealed = '''' then ret (config, '''')
    else
      let aad = bind_secret sourceID c i in
      and_then (lift (Keyring_Open (kp_keys K) sealed aad)) (\<lambda>plain.
      ignoring (reseal K i sealed plain aad) (ret (config, plain))))"

subsection \<open>The keeper of signing secrets\<close>

definition signingSecretBytes :: nat where "signingSecretBytes = 32"
definition signingSecretPrefix :: string where "signingSecretPrefix = ''whsec_''"

record 'w webhook_store =
  wst_WriteSecret :: "string \<Rightarrow> ID \<Rightarrow> string \<Rightarrow> time \<Rightarrow> ('w, unit) io"
  wst_ReadSecret :: "string \<Rightarrow> ('w, ID \<times> string) io"

record 'w webhook_keeper =
  wkp_store :: "'w webhook_store"
  wkp_keys :: keyring
  wkp_now :: "'w NowFunc"
  wkp_rand :: "nat \<Rightarrow> ('w, string) io"

definition bindWebhook :: "string \<Rightarrow> ID \<Rightarrow> string" where
  "bindWebhook sourceID i = sourceID @ ''|'' @ i"

definition newSigningSecret :: "(nat \<Rightarrow> ('w, string) io) \<Rightarrow> ('w, string) io" where
  "newSigningSecret rand =
    attempt (rand signingSecretBytes) (\<lambda>r. case r of
      Inl err \<Rightarrow> throw (InternalErr ''could not generate a signing secret'')
    | Inr raw \<Rightarrow> ret (signingSecretPrefix @ EncodeToString raw))"

definition WebhookKeeper_Issue :: "'w webhook_keeper \<Rightarrow> string \<Rightarrow> ID \<Rightarrow> ('w, string) io" where
  "WebhookKeeper_Issue K sourceID i =
    and_then (newSigningSecret (wkp_rand K)) (\<lambda>plain.
    attempt (Seal (wkp_keys K) (wkp_rand K) plain (bindWebhook sourceID i)) (\<lambda>r. case r of
      Inl err \<Rightarrow> throw (WithErr (InternalErr ''the signing secret could not be stored'') err)
    | Inr sealed \<Rightarrow>
        call (wkp_now K) (\<lambda>now.
        and_then (wst_WriteSecret (wkp_store K) sourceID i sealed now) (\<lambda>_. ret plain))))"

definition SecretFor :: "'w webhook_keeper \<Rightarrow> string \<Rightarrow> ('w, string option) act" where
  "SecretFor K sourceID w =
    (case wst_ReadSecret (wkp_store K) sourceID w of
       (Inl err, w') \<Rightarrow> (None, w')
     | (Inr (i, sealed), w') \<Rightarrow>
         if sealed = '''' then (None, w')
         else (case Keyring_Open (wkp_keys K) sealed (bindWebhook sourceID i) of
                 Inl err \<Rightarrow> (None, w') | Inr plain \<Rightarrow> (Some plain, w')))"


subsection \<open>The ring\<close>

definition gcm_ok :: "(string \<Rightarrow> aead result) \<Rightarrow> bool" where
  "gcm_ok newGCM \<longleftrightarrow> (\<forall>key a n p d. newGCM key = Inr a \<longrightarrow> length n = ae_NonceSize a \<longrightarrow>
     ae_Open a n (ae_Seal a n p d) d = Inr p \<and> (\<forall>c. ae_Open a n c d = Inr p \<longrightarrow> c = ae_Seal a n p d))"

definition fills :: "(nat \<Rightarrow> ('w, string) io) \<Rightarrow> bool" where
  "fills rand \<longleftrightarrow> (\<forall>n w bs w'. rand n w = (Inr bs, w') \<longrightarrow> length bs = n)"

lemma build_ring_Inr:
  "build_ring g keys ring = Inr ring' \<Longrightarrow> map_of ring' i = (case map_of ring i of Some a \<Rightarrow> Some a
      | None \<Rightarrow> map_option (\<lambda>k. projr (g k)) (map_of keys i))
    \<and> (\<forall>(j, k) \<in> set keys. separator \<notin> set j \<and> (\<exists>a. g k = Inr a))"
  by (induction g keys ring arbitrary: ring' rule: build_ring.induct)
    (auto simp: map_add_def split: if_splits sum.splits option.splits)

lemma NewKeyring_Inr:
  assumes "NewKeyring g keys cur = Inr R"
  shows "ring_active R = cur"
    and "map_of (ring_keys R) i = map_option (\<lambda>k. projr (g k)) (map_of keys i)"
    and "map_of keys i = Some k \<Longrightarrow> separator \<notin> set i \<and> (\<exists>a. g k = Inr a \<and> map_of (ring_keys R) i = Some a)"
    and "\<exists>k. map_of keys cur = Some k"
proof -
  obtain ring where b: "build_ring g keys [] = Inr ring" and R: "R = \<lparr>ring_keys = ring, ring_active = cur\<rparr>"
    and a: "map_of ring cur \<noteq> None"
    using assms by (auto simp: NewKeyring_def then_result_Inr split: if_splits)
  show "ring_active R = cur" by (simp add: R)
  show m: "map_of (ring_keys R) i = map_option (\<lambda>k. projr (g k)) (map_of keys i)" for i
    using build_ring_Inr [OF b, of i] by (simp add: R)
  show "separator \<notin> set i \<and> (\<exists>a. g k = Inr a \<and> map_of (ring_keys R) i = Some a)" if "map_of keys i = Some k"
    using build_ring_Inr [OF b, of i] map_of_SomeD [OF that] that by (fastforce simp: R)
  show "\<exists>k. map_of keys cur = Some k" using a m [of cur] by (auto simp: R)
qed

lemma Seal_run:
  assumes "NewKeyring g keys cur = Inr R" "map_of keys cur = Some k" "g k = Inr a"
    and "Seal R rand p d w = (Inr v, w')" "fills rand"
  obtains n where "length n = ae_NonceSize a" "split_sealed v = Inr (version, cur, n, ae_Seal a n p d)"
proof -
  note R = NewKeyring_Inr [OF assms(1)]
  have "map_of (ring_keys R) cur = Some a" using R(2) assms(2,3) by simp
  then obtain n where n: "rand (ae_NonceSize a) w = (Inr n, w')"
    and v: "v = Join [separator] [version, cur, EncodeToString n, EncodeToString (ae_Seal a n p d)]"
    using assms(4) by (cases "rand (ae_NonceSize a) w")
      (auto simp: Seal_def Let_def R(1) attempt_def ret_def throw_def split: sum.splits)
  have "separator \<notin> set (EncodeToString x)" for x
    using base64_alphabet by (auto simp: separator_def)
  then have "Split separator v = [version, cur, EncodeToString n, EncodeToString (ae_Seal a n p d)]"
    unfolding v using R(3) [OF assms(2)]
    by (intro Split_Join) (simp_all add: version_def separator_def)
  then have "split_sealed v = Inr (version, cur, n, ae_Seal a n p d)"
    by (simp add: split_sealed_def sealed_fields_def base64_roundtrip)
  moreover have "length n = ae_NonceSize a" using assms(5) n by (auto simp: fills_def)
  ultimately show ?thesis using that by blast
qed

lemma Seal_opens:
  assumes "NewKeyring g keys cur = Inr R" "NewKeyring g keys' nxt = Inr R'"
    and "map_of keys' cur = map_of keys cur" "gcm_ok g" "fills rand"
    and "Seal R rand p d w = (Inr v, w')"
  shows "Keyring_Open R' v d = Inr p" "NeedsReseal R' v = (nxt \<noteq> cur)"
    and "Keyring_Open R' v d' = Inr p' \<Longrightarrow> \<exists>k a n. map_of keys cur = Some k \<and> g k = Inr a
          \<and> ae_Seal a n p' d' = ae_Seal a n p d"
proof -
  obtain k where k: "map_of keys cur = Some k" using NewKeyring_Inr(4) [OF assms(1)] by blast
  obtain a where a: "g k = Inr a" using NewKeyring_Inr(3) [OF assms(1) k] by blast
  obtain n where n: "length n = ae_NonceSize a" and v: "split_sealed v = Inr (version, cur, n, ae_Seal a n p d)"
    by (rule Seal_run [OF assms(1) k a assms(6,5)])
  have "map_of (ring_keys R') cur = Some a"
    using NewKeyring_Inr(2) [OF assms(2)] assms(3) k a by simp
  then have o: "Keyring_Open R' v e = (case ae_Open a n (ae_Seal a n p d) e of
      Inl err \<Rightarrow> Inl (undecryptable (Sentinel (CryptoE crypto_error.ErrCannotOpen))) | Inr x \<Rightarrow> Inr x)" for e
    by (simp add: Keyring_Open_def v n)
  show "Keyring_Open R' v d = Inr p" using assms(4) a n o by (simp add: gcm_ok_def)
  show "NeedsReseal R' v = (nxt \<noteq> cur)" using NewKeyring_Inr(1) [OF assms(2)] by (auto simp: NeedsReseal_def v)
  show "\<exists>k a n. map_of keys cur = Some k \<and> g k = Inr a \<and> ae_Seal a n p' d' = ae_Seal a n p d"
    if "Keyring_Open R' v d' = Inr p'"
  proof -
    have "ae_Open a n (ae_Seal a n p d) d' = Inr p'" using that o by (simp split: sum.splits)
    then have "ae_Seal a n p' d' = ae_Seal a n p d" using assms(4) a n unfolding gcm_ok_def by metis
    with k a show ?thesis by blast
  qed
qed

text \<open>
  Authenticated encryption, idealised: one ciphertext is of one plaintext under one associated data.
\<close>

definition gcm_binds :: "(string \<Rightarrow> aead result) \<Rightarrow> bool" where
  "gcm_binds newGCM \<longleftrightarrow> (\<forall>key a n p d p' d'. newGCM key = Inr a \<longrightarrow>
     ae_Seal a n p' d' = ae_Seal a n p d \<longrightarrow> p' = p \<and> d' = d)"

text \<open>
  C15. What was sealed opens again, after any change of keys. A value sealed under one keyring opens
  to what it was under every keyring that still holds its key, asks to be sealed again exactly when
  its key is no longer the active one, and opens under no binding but its own and to nothing else, with a
  cipher whose ciphertexts are of one plaintext and one associated data each.
\<close>

theorem sealed_opens:
  assumes "NewKeyring g keys cur = Inr R" "NewKeyring g keys' nxt = Inr R'"
    and "map_of keys' cur = map_of keys cur" "gcm_ok g" "gcm_binds g" "fills rand"
    and "Seal R rand p d w = (Inr v, w')"
  shows "Keyring_Open R' v d = Inr p \<and> NeedsReseal R' v = (nxt \<noteq> cur)
    \<and> (\<forall>d' p'. Keyring_Open R' v d' = Inr p' \<longrightarrow> d' = d \<and> p' = p)"
  using Seal_opens [OF assms(1-4,6,7)] assms(5) unfolding gcm_binds_def by metis

definition demo_gcm :: "string \<Rightarrow> aead result" where
  "demo_gcm key = Inr \<lparr>ae_NonceSize = 12, ae_Seal = (\<lambda>n p d. d @ p),
     ae_Open = (\<lambda>n c d. if take (length d) c = d then Inr (drop (length d) c) else Inl (Foreign ''auth''))\<rparr>"

definition demo_rand :: "nat \<Rightarrow> ('w, string) io" where
  "demo_rand n = ret (replicate n CHR ''x'')"

definition demo_keys :: "(string \<times> string) list" where
  "demo_keys = [(''1'', replicate 32 CHR ''a''), (''2'', replicate 32 CHR ''b'')]"

definition demo_ring :: "string \<Rightarrow> keyring" where
  "demo_ring cur = \<lparr>ring_keys = map (\<lambda>(i, k). (i, projr (demo_gcm k))) demo_keys, ring_active = cur\<rparr>"

lemma demo_gcm_ok: "gcm_ok demo_gcm"
  by (auto simp: gcm_ok_def demo_gcm_def split: if_splits) (metis append_take_drop_id)

lemma demo_fills: "fills demo_rand"
  by (auto simp: fills_def demo_rand_def ret_def)

lemma demo_ring_New:
  "NewKeyring demo_gcm demo_keys ''1'' = Inr (demo_ring ''1'')"
  "NewKeyring demo_gcm demo_keys ''2'' = Inr (demo_ring ''2'')"
  by (simp_all add: NewKeyring_def demo_keys_def demo_gcm_def demo_ring_def KeySize_def separator_def)

text \<open>A cipher that frames the associated data, so that its ciphertexts can be taken apart.\<close>

definition framed :: "string \<Rightarrow> string" where
  "framed d = replicate (length d) CHR ''+'' @ CHR ''.'' # d"

definition framing_gcm :: "string \<Rightarrow> aead result" where
  "framing_gcm key = Inr \<lparr>ae_NonceSize = 12, ae_Seal = (\<lambda>n p d. framed d @ p),
     ae_Open = (\<lambda>n c d. case strip_prefix (framed d) c of Some p \<Rightarrow> Inr p | None \<Rightarrow> Inl (Foreign ''auth''))\<rparr>"

lemma framed_apart: "framed d' @ p' = framed d @ p \<longleftrightarrow> d' = d \<and> p' = p"
proof -
  have len: "k = m" if "replicate k x @ y # xs = replicate m x @ y # ys" "x \<noteq> y" for k m :: nat and x y :: char and xs ys
    using that
  proof (induction k arbitrary: m)
    case 0
    then show ?case by (cases m) auto
  next
    case (Suc k)
    then show ?case by (cases m) auto
  qed
  show ?thesis
  proof
    assume eq: "framed d' @ p' = framed d @ p"
    then have "length d' = length d"
      using len [of "length d'" "CHR ''+''" "CHR ''.''" "d' @ p'" "length d" "d @ p"] by (simp add: framed_def)
    with eq show "d' = d \<and> p' = p" by (simp add: framed_def)
  qed simp
qed

theorem sealed_opens_witness:
  defines "K \<equiv> (\<lambda>cur. \<lparr>ring_keys = map (\<lambda>(i, k). (i, projr (framing_gcm k))) demo_keys, ring_active = cur\<rparr>)"
  defines "v \<equiv> projr (fst (Seal (K ''1'') demo_rand ''token'' ''s|c|i'' (0::nat)))"
  shows "Keyring_Open (K ''2'') v ''s|c|i'' = Inr ''token'' \<and> NeedsReseal (K ''2'') v
    \<and> Keyring_Open (K ''2'') v ''s|c|j'' \<noteq> Inr ''token''"
proof -
  have made: "NewKeyring framing_gcm demo_keys ''1'' = Inr (K ''1'')" "NewKeyring framing_gcm demo_keys ''2'' = Inr (K ''2'')"
    by (simp_all add: NewKeyring_def demo_keys_def framing_gcm_def K_def KeySize_def separator_def)
  have "gcm_ok framing_gcm" "gcm_binds framing_gcm"
    using framed_apart
    by (auto simp: gcm_ok_def gcm_binds_def framing_gcm_def strip_prefix_Some split: option.splits)
  moreover have "Seal (K ''1'') demo_rand ''token'' ''s|c|i'' (0::nat) = (Inr v, 0)"
    by (simp add: v_def Seal_def Let_def K_def demo_keys_def framing_gcm_def demo_rand_def attempt_def ret_def)
  ultimately have "Keyring_Open (K ''2'') v ''s|c|i'' = Inr ''token'' \<and> NeedsReseal (K ''2'') v = (''2'' \<noteq> ''1'')
      \<and> (\<forall>d' p'. Keyring_Open (K ''2'') v d' = Inr p' \<longrightarrow> d' = ''s|c|i'' \<and> p' = ''token'')"
    by (rule sealed_opens [OF made refl _ _ demo_fills])
  then show ?thesis by auto
qed

subsection \<open>Reading a secret never changes it\<close>

definition deployed_keeper :: "env \<Rightarrow> keyring \<Rightarrow> (nat \<Rightarrow> (world, string) io) \<Rightarrow> world keeper" where
  "deployed_keeper E R rand =
    \<lparr>kp_store = \<lparr>sst_Create = pg_CreateCredential E, sst_ReadMaterial = pg_ReadMaterial E,
       sst_Reseal = pg_Reseal E, sst_Rotate = pg_Rotate E\<rparr>,
     kp_keys = R, kp_now = Now E, kp_rand = rand\<rparr>"

definition resealed :: "keyring \<Rightarrow> string \<Rightarrow> credential_row \<Rightarrow> credential_row \<Rightarrow> bool" where
  "resealed R aad x y \<longleftrightarrow> y = x \<or> (\<exists>old new p t. y = x\<lparr>ca_secret := Some new, ca_updated_at := t\<rparr>
     \<and> ca_secret x = Some old \<and> Keyring_Open R old aad = Inr p \<and> Keyring_Open R new aad = Inr p)"

definition same_secrets :: "keyring \<Rightarrow> string \<Rightarrow> database \<Rightarrow> database \<Rightarrow> bool" where
  "same_secrets R aad a b \<longleftrightarrow>
     b = a\<lparr>t_credentials := t_credentials b\<rparr> \<and> list_all2 (resealed R aad) (t_credentials a) (t_credentials b)"

definition others_wrote :: "env \<Rightarrow> world \<Rightarrow> world \<Rightarrow> database" where
  "others_wrote E w w' = run_writes (concat (map (others E) [w_trips w..<w_trips w'])) (w_db w)"

definition draws :: "(nat \<Rightarrow> (world, string) io) \<Rightarrow> bool" where
  "draws rand \<longleftrightarrow> fills rand \<and> (\<forall>n w r w'. rand n w = (r, w') \<longrightarrow>
     w_db w' = w_db w \<and> w_trips w' = w_trips w \<and> w_tx w' = w_tx w)"

lemma resealed_refl: "list_all2 (resealed R aad) rows rows"
  by (simp add: list_all2_same resealed_def)

lemma same_secrets_refl: "same_secrets R aad db db"
  by (simp add: same_secrets_def resealed_refl)

lemma exec_quiet_tx:
  assumes "exec E stmt w = (r, w')" "w_tx w = NoTx"
  shows "w_trips w' = Suc (w_trips w) \<and> w_tx w' = NoTx \<and>
    (w_db w' = others_wrote E w w' \<or> w_db w' = snd (stmt (others_wrote E w w')))"
    "r = Inr x \<Longrightarrow> stmt (others_wrote E w w') = (Inr x, w_db w')"
proof -
  show "w_trips w' = Suc (w_trips w) \<and> w_tx w' = NoTx \<and>
    (w_db w' = others_wrote E w w' \<or> w_db w' = snd (stmt (others_wrote E w w')))"
    using assms by (auto simp: exec_def begin_trip_def abort_on_def others_wrote_def Let_def
        split: round_trip.splits prod.splits if_splits)
  then show "stmt (others_wrote E w w') = (Inr x, w_db w')" if "r = Inr x"
    using assms that by (auto simp: exec_def begin_trip_def abort_on_def others_wrote_def Let_def
        split: round_trip.splits prod.splits if_splits)
qed

lemma others_wrote_append:
  assumes "w_db w1 = others_wrote E w w1" "w_trips w \<le> w_trips w1" "w_trips w1 \<le> w_trips w2"
  shows "others_wrote E w1 w2 = others_wrote E w w2"
proof -
  have "[w_trips w..<w_trips w2] = [w_trips w..<w_trips w1] @ [w_trips w1..<w_trips w2]"
    using assms(2,3) upt_add_eq_append [of "w_trips w" "w_trips w1" "w_trips w2 - w_trips w1"] by simp
  with assms(1) show ?thesis by (simp add: others_wrote_def run_writes_append)
qed


lemma sql_Reseal_same:
  assumes "Keyring_Open R prev aad = Inr p" "Keyring_Open R new aad = Inr p" "prev \<noteq> ''''"
  shows "same_secrets R aad db (snd (sql_ResealCredentialSecret i (optional prev) (optional new) t db))"
proof -
  have "new \<noteq> ''''" using assms(2) by (auto simp: Keyring_Open_def split_sealed_def sealed_fields_def)
  with assms show ?thesis
    by (auto simp: sql_ResealCredentialSecret_def same_secrets_def optional_def update_where_def
        list_all2_map2 list_all2_same resealed_def)
qed

lemma pg_ReadMaterial_run:
  assumes "pg_ReadMaterial E i w = (r, w1)" "w_tx w = NoTx"
  shows "w_trips w1 = Suc (w_trips w) \<and> w_tx w1 = NoTx \<and> w_db w1 = others_wrote E w w1"
proof -
  obtain x where x: "exec E (sql_ReadCredentialSecret i) w = (x, w1)"
    using assms(1) by (cases "exec E (sql_ReadCredentialSecret i) w")
      (auto simp: pg_ReadMaterial_def attempt_def ret_def throw_def split: sum.splits prod.splits if_splits)
  have "snd (sql_ReadCredentialSecret i db) = db" for db
    by (simp add: sql_ReadCredentialSecret_def)
  with exec_quiet_tx(1) [OF x assms(2)] show ?thesis by simp
qed

lemma drawsD: "draws rand \<Longrightarrow> rand n w = (r, w') \<Longrightarrow> w_db w' = w_db w \<and> w_trips w' = w_trips w \<and> w_tx w' = w_tx w"
  by (simp add: draws_def)

lemma Seal_off:
  assumes "Seal R rand p d w = (r, w')" "draws rand"
  shows "w_db w' = w_db w \<and> w_trips w' = w_trips w \<and> w_tx w' = w_tx w"
proof -
  obtain x w1 where x: "rand (ae_NonceSize (the (map_of (ring_keys R) (ring_active R)))) w = (x, w1)" by fastforce
  with assms(1) have "w' = w1" by (auto simp: Seal_def Let_def attempt_def throw_def ret_def split: sum.splits)
  with drawsD [OF assms(2) x] show ?thesis by simp
qed

lemma reseal_run:
  assumes "reseal (deployed_keeper E R rand) i sealed p aad w = (r, w')" "w_tx w = NoTx" "draws rand"
    and "NewKeyring g keys cur = Inr R" "gcm_ok g" "Keyring_Open R sealed aad = Inr p" "sealed \<noteq> ''''"
  shows "same_secrets R aad (others_wrote E w w') (w_db w') \<and> w_trips w \<le> w_trips w'"
proof -
  have still: "others_wrote E w w = w_db w" by (simp add: others_wrote_def run_writes_def)
  let ?k = "deployed_keeper E R rand"
  consider "w' = w" | e w1 where "Seal R rand p aad w = (Inl e, w1)" "w' = w1"
    | new w1 t v where "Seal R rand p aad w = (Inr new, w1)"
        "pg_Reseal E i sealed new t (w1\<lparr>w_clock := Suc (w_clock w1)\<rparr>) = (v, w')"
    using assms(1) by (cases "Seal R rand p aad w")
      (auto simp: reseal_def deployed_keeper_def attempt_def call_def ret_def Now_def
        split: if_splits sum.splits prod.splits)
  then show ?thesis
  proof cases
    case 1
    then show ?thesis by (simp add: still same_secrets_refl)
  next
    case (2 e w1)
    from Seal_off [OF 2(1) assms(3)] show ?thesis using 2 by (simp add: others_wrote_def run_writes_def same_secrets_refl)
  next
    case (3 new w1 t v)
    let ?w2 = "w1\<lparr>w_clock := Suc (w_clock w1)\<rparr>"
    have w1: "w_db w1 = w_db w \<and> w_trips w1 = w_trips w \<and> w_tx w1 = w_tx w"
      by (rule Seal_off [OF 3(1) assms(3)])
    have new: "Keyring_Open R new aad = Inr p"
      using Seal_opens(1) [OF assms(4,4) refl assms(5) _ 3(1)] assms(3) by (simp add: draws_def)
    obtain x where x: "exec E (sql_ResealCredentialSecret i (optional sealed) (optional new) t) ?w2 = (x, w')"
      using 3(2) by (cases "exec E (sql_ResealCredentialSecret i (optional sealed) (optional new) t) ?w2")
        (auto simp: pg_Reseal_def or_failed_def attempt_def ret_def throw_def split: sum.splits)
    have ow: "others_wrote E ?w2 w' = others_wrote E w w'" using w1 by (simp add: others_wrote_def)
    show ?thesis
      using exec_quiet_tx(1) [OF x] w1 assms(2) sql_Reseal_same [OF assms(6) new assms(7)]
      by (auto simp: ow same_secrets_refl)
  qed
qed

lemma the_row_update_where:
  "(\<And>r. q (f r) = q r) \<Longrightarrow>
    the_row q (update_where p f rows) = map_option (\<lambda>r. if p r then f r else r) (the_row q rows)"
  by (induction rows) auto

text \<open>Undisturbed, a read leaves the secret under the active key.\<close>

definition under_active_key :: "keyring \<Rightarrow> string \<Rightarrow> ID \<Rightarrow> string \<Rightarrow> database \<Rightarrow> bool" where
  "under_active_key R aad i p db \<longleftrightarrow> (\<exists>row sealed.
     the_row (\<lambda>r. ca_id r = i \<and> ca_is_active r) (t_credentials db) = Some row \<and> ca_secret row = Some sealed
     \<and> Keyring_Open R sealed aad = Inr p \<and> \<not> NeedsReseal R sealed)"

lemma reading_reseals:
  assumes "NewKeyring g keys cur = Inr R" "gcm_ok g" "draws rand" "w_tx w = NoTx"
    and "Material (deployed_keeper E R rand) s c i w = (Inr (cf, p), w')"
    and "quiet E" "\<forall>n v. \<not> isl (fst (rand n v))" "p \<noteq> ''''"
  shows "under_active_key R (bind_secret s c i) i p (w_db w')"
proof -
  let ?aad = "bind_secret s c i" and ?w1 = "w\<lparr>w_trips := Suc (w_trips w)\<rparr>"
  have "snd (sql_ReadCredentialSecret i db) = db" for db by (simp add: sql_ReadCredentialSecret_def)
  then have read: "exec E (sql_ReadCredentialSecret i) w = (fst (sql_ReadCredentialSecret i (w_db w)), ?w1)"
    using exec_quiet [OF assms(6,4), of "sql_ReadCredentialSecret i"] by simp
  obtain row where row: "the_row (\<lambda>r. ca_id r = i \<and> ca_is_active r) (t_credentials (w_db w)) = Some row"
    and cfg: "pg_ReadMaterial E i w = (Inr (ca_config row, deref (ca_secret row)), ?w1)"
    using assms(5) by (auto simp: Material_def deployed_keeper_def and_then_def pg_ReadMaterial_def attempt_def read
        sql_ReadCredentialSecret_def one_row_def ret_def throw_def split: option.splits if_splits)
  obtain sealed where sealed: "ca_secret row = Some sealed" "sealed \<noteq> ''''" "Keyring_Open R sealed ?aad = Inr p"
    and w': "\<exists>x. reseal (deployed_keeper E R rand) i sealed p ?aad ?w1 = (x, w')"
  proof -
    have "deref (ca_secret row) \<noteq> ''''"
      using assms(5,8) cfg by (auto simp: Material_def deployed_keeper_def and_then_def ret_def)
    then obtain sealed where "ca_secret row = Some sealed" "sealed \<noteq> ''''"
      by (cases "ca_secret row") (auto simp: deref_def)
    then show thesis
      using that [of sealed] assms(5) cfg
      by (cases "Keyring_Open R sealed ?aad"; cases "reseal (deployed_keeper E R rand) i sealed
            (projr (Keyring_Open R sealed ?aad)) ?aad ?w1")
        (auto simp: Material_def deployed_keeper_def and_then_def ret_def lift_def Let_def ignoring_def attempt_def
          deref_def)
  qed
  show ?thesis
  proof (cases "NeedsReseal R sealed")
    case False
    then have "w' = ?w1" using w' by (auto simp: reseal_def deployed_keeper_def ret_def)
    then show ?thesis using row sealed False by (auto simp: under_active_key_def)
  next
    case True
    obtain y w2 where y: "Seal R rand p ?aad ?w1 = (y, w2)" by fastforce
    have "\<not> isl y"
    proof -
      obtain z v where "rand (ae_NonceSize (the (map_of (ring_keys R) (ring_active R)))) ?w1 = (z, v)" by fastforce
      moreover from this have "\<not> isl z" using assms(7) by (metis fst_conv)
      ultimately show ?thesis using y by (cases z) (auto simp: Seal_def Let_def attempt_def ret_def)
    qed
    then obtain new where new: "y = Inr new" by (cases y) auto
    have w2: "w_db w2 = w_db w" "w_tx w2 = NoTx" using Seal_off [OF y assms(3)] assms(4) by simp_all
    have "fills rand" using assms(3) by (simp add: draws_def)
    note opens = Seal_opens(1,2) [OF assms(1,1) refl assms(2) this y [unfolded new]]
    then have ne: "new \<noteq> ''''" by (auto simp: Keyring_Open_def split_sealed_def sealed_fields_def)
    let ?w3 = "w2\<lparr>w_clock := Suc (w_clock w2)\<rparr>" and ?t = "clock E (w_clock w2)"
    let ?stmt = "sql_ResealCredentialSecret i (Some sealed) (Some new) ?t"
    have "w_db w' = snd (?stmt (w_db w))"
      using w' True y new sealed(2) ne w2 exec_quiet [OF assms(6), of ?w3 ?stmt]
      by (auto simp: reseal_def deployed_keeper_def attempt_def call_def Now_def ret_def pg_Reseal_def or_failed_def
          optional_def throw_def split: sum.splits prod.splits)
    then have "the_row (\<lambda>r. ca_id r = i \<and> ca_is_active r) (t_credentials (w_db w'))
        = Some (row\<lparr>ca_secret := Some new, ca_updated_at := ?t\<rparr>)"
      using row the_row_Some [OF row] sealed(1)
      by (simp add: sql_ResealCredentialSecret_def the_row_update_where Let_def)
    then show ?thesis using opens by (auto simp: under_active_key_def)
  qed
qed

text \<open>
  C16. Reading a secret never changes it. However the keys have been rotated, whatever fails and
  whatever the other processes write meanwhile, a database after \<open>Material\<close> is the one their writes
  alone would have left, up to identities sealed again to the same secret: a rotation of the secret
  that arrives between the read and the rewrite is not undone. And where every statement is answered,
  nobody else writes and random bytes are to be had, a secret that was read is stored under the active key
  when \<open>Material\<close> returns, and opens to what was answered.
\<close>

theorem reading_keeps_secrets:
  assumes "NewKeyring g keys cur = Inr R" "gcm_ok g" "draws rand" "w_tx w = NoTx"
    and "Material (deployed_keeper E R rand) s c i w = (r, w')"
  shows "same_secrets R (bind_secret s c i) (others_wrote E w w') (w_db w')
    \<and> (quiet E \<and> (\<forall>n v. \<not> isl (fst (rand n v))) \<longrightarrow> (\<forall>cf p. r = Inr (cf, p) \<longrightarrow> p \<noteq> [] \<longrightarrow>
          under_active_key R (bind_secret s c i) i p (w_db w')))"
proof -
  obtain m w1 where m: "pg_ReadMaterial E i w = (m, w1)" by fastforce
  note read = pg_ReadMaterial_run [OF m assms(4)]
  consider "w' = w1" | cf sealed p x where "m = Inr (cf, sealed)" "sealed \<noteq> ''''"
      "Keyring_Open R sealed (bind_secret s c i) = Inr p"
      "reseal (deployed_keeper E R rand) i sealed p (bind_secret s c i) w1 = (x, w')"
  proof (cases m)
    case (Inl e)
    then show ?thesis using assms(5) m that(1) by (simp add: Material_def deployed_keeper_def and_then_def)
  next
    case (Inr y)
    obtain cf sealed where y: "y = (cf, sealed)" by fastforce
    then show ?thesis
      using assms(5) m Inr that(1) that(2) [of cf sealed]
      by (cases "Keyring_Open R sealed (bind_secret s c i)"; cases "sealed = ''''";
          cases "reseal (deployed_keeper E R rand) i sealed (projr (Keyring_Open R sealed (bind_secret s c i)))
            (bind_secret s c i) w1")
        (simp_all add: Material_def and_then_def lift_def ignoring_def attempt_def ret_def Let_def
          deployed_keeper_def)
  qed
  then have "same_secrets R (bind_secret s c i) (others_wrote E w w') (w_db w')"
  proof cases
    case 1
    then show ?thesis using read by (simp add: same_secrets_refl)
  next
    case (2 cf sealed p x)
    note kept = reseal_run [OF 2(4) conjunct1 [OF conjunct2 [OF read]] assms(3,1,2) 2(3,2)]
    have "others_wrote E w1 w' = others_wrote E w w'"
      using read kept by (intro others_wrote_append) simp_all
    with kept show ?thesis by simp
  qed
  then show ?thesis using reading_reseals [OF assms(1-4)] assms(5) by blast
qed


definition demo_sealed :: credential_row where
  "demo_sealed = \<lparr>ca_id = demo_id CHR ''C'', ca_source_id = demo_id CHR ''2'', ca_channel = ''bale'', ca_name = ''ops'',
     ca_config = ''{}'', ca_secret = Some (projr (fst (Seal (demo_ring ''1'') demo_rand ''token''
       (bind_secret (demo_id CHR ''2'') ChannelBale (demo_id CHR ''C'')) (0::nat)))),
     ca_is_default = False, ca_is_active = True, ca_created_at = 10, ca_updated_at = 10\<rparr>"

definition demo_sealed_world :: world where
  "demo_sealed_world = demo_world\<lparr>w_db := demo_db\<lparr>t_credentials := [demo_sealed]\<rparr>\<rparr>"

lemma demo_draws: "draws demo_rand"
  using demo_fills by (auto simp: draws_def demo_rand_def ret_def)

theorem reading_keeps_secrets_witness:
  defines "w' \<equiv> snd (Material (deployed_keeper demo_env (demo_ring ''2'') demo_rand) (demo_id CHR ''2'') ChannelBale
      (demo_id CHR ''C'') demo_sealed_world)"
  shows "same_secrets (demo_ring ''2'') (bind_secret (demo_id CHR ''2'') ChannelBale (demo_id CHR ''C''))
      (others_wrote demo_env demo_sealed_world w') (w_db w')
    \<and> under_active_key (demo_ring ''2'') (bind_secret (demo_id CHR ''2'') ChannelBale (demo_id CHR ''C''))
      (demo_id CHR ''C'') ''token'' (w_db w')"
proof -
  have "w_tx demo_sealed_world = NoTx" by (simp add: demo_sealed_world_def demo_world_def)
  note kept = reading_keeps_secrets [OF demo_ring_New(2) demo_gcm_ok demo_draws this prod.collapse [symmetric]]
  let ?aad = "bind_secret (demo_id CHR ''2'') ChannelBale (demo_id CHR ''C'')"
  obtain v where v: "Seal (demo_ring ''1'') demo_rand ''token'' ?aad (0::nat) = (Inr v, 0)"
    by (simp add: Seal_def Let_def demo_ring_def demo_keys_def demo_gcm_def demo_rand_def attempt_def ret_def)
  have opens: "Keyring_Open (demo_ring ''2'') v ?aad = Inr ''token''"
    by (rule Seal_opens(1) [OF demo_ring_New refl demo_gcm_ok demo_fills v])
  then have ne: "v \<noteq> ''''" by (auto simp: Keyring_Open_def split_sealed_def sealed_fields_def)
  have q: "quiet demo_env" by (simp add: quiet_def demo_env_def)
  have "sql_ReadCredentialSecret (demo_id CHR ''C'') (w_db demo_sealed_world) = (Inr (''{}'', Some v), w_db demo_sealed_world)"
    by (simp add: sql_ReadCredentialSecret_def demo_sealed_world_def demo_sealed_def one_row_def v)
  from exec_quiet_read [where stmt = "sql_ReadCredentialSecret (demo_id CHR ''C'')",
      OF q \<open>w_tx demo_sealed_world = NoTx\<close> this]
  have "fst (Material (deployed_keeper demo_env (demo_ring ''2'') demo_rand) (demo_id CHR ''2'') ChannelBale
      (demo_id CHR ''C'') demo_sealed_world) = Inr (''{}'', ''token'')"
    using opens ne by (simp add: Material_def deployed_keeper_def pg_ReadMaterial_def attempt_def ret_def and_then_def lift_def
        Let_def ignoring_def split: prod.split)
  moreover have "quiet demo_env" "\<not> isl (fst (demo_rand n v))" for n and v :: world
    by (simp_all add: quiet_def demo_env_def demo_rand_def ret_def)
  ultimately show ?thesis
    using kept [where E = demo_env and s = "demo_id CHR ''2''" and c = ChannelBale and i = "demo_id CHR ''C''"] unfolding w'_def by simp
qed

lemma the_row_append: "the_row p (xs @ ys) = (case the_row p xs of None \<Rightarrow> the_row p ys | Some r \<Rightarrow> Some r)"
  by (induction xs) auto

subsection \<open>What was added is what a send gets\<close>

definition created_row :: "credential \<Rightarrow> string \<Rightarrow> string \<Rightarrow> credential_row" where
  "created_row c config sealed =
    \<lparr>ca_id = crd_ID c, ca_source_id = crd_SourceID c, ca_channel = Channel_String (crd_Channel c), ca_name = crd_Name c,
     ca_config = (if config = '''' then ''{}'' else config), ca_secret = optional sealed,
     ca_is_default = crd_isDefault c, ca_is_active = True, ca_created_at = crd_CreatedAt c, ca_updated_at = crd_CreatedAt c\<rparr>"

lemma created_credential:
  assumes "pg_CreateCredential E c config sealed w = (Inr (), w1)"
  obtains db where "w_db w1 = db\<lparr>t_credentials := t_credentials db @ [created_row c config sealed]\<rparr>"
    "\<not> has_id ca_id (crd_ID c) (t_credentials db)" "w_tx w = Open \<longrightarrow> db = w_db w"
proof -
  let ?stmt = "sql_CreateCredential (crd_ID c) (crd_SourceID c) (Channel_String (crd_Channel c)) (crd_Name c)
      (if config = '''' then ''{}'' else config) (optional sealed) (crd_isDefault c) (crd_CreatedAt c)"
  have "exec E ?stmt w = (Inr (), w1)"
    using assms by (cases "exec E ?stmt w")
      (auto simp: pg_CreateCredential_def attempt_def Let_def throw_def ret_def split: sum.splits if_splits)
  then obtain db where "?stmt db = (Inr (), w_db w1)" "w_tx w = Open \<longrightarrow> db = w_db w"
    using exec_Inr exec_open(1) by (metis (no_types, lifting))
  then show ?thesis
    using that [of db]
    by (auto simp: sql_CreateCredential_def Let_def insert_row_def created_row_def split: if_splits)
qed

text \<open>
  A send gets the secret that was added. If adding an identity answered success, and the row has
  not been touched since, then whatever the active key has become meanwhile, \<open>Material\<close> for that
  source, channel and identity answers its settings and the secret as it was given.
\<close>

theorem added_secret_comes_back:
  assumes "NewKeyring g keys cur = Inr R" "NewKeyring g keys' nxt = Inr R'" "map_of keys' cur = map_of keys cur"
    and "gcm_ok g" "draws rand"
    and "Keeper_Add (deployed_keeper E R rand) c config secret w = (Inr (), w1)"
    and "quiet E'" "w_tx v = NoTx" "w_db v = w_db w1"
  shows "fst (Material (deployed_keeper E' R' rand') (crd_SourceID c) (crd_Channel c) (crd_ID c) v)
    = Inr (if config = '''' then ''{}'' else config, secret)"
proof -
  let ?aad = "bind_secret (crd_SourceID c) (crd_Channel c) (crd_ID c)"
  let ?cf = "if config = '''' then ''{}'' else config"
  obtain sealed w0 where s: "if secret = '''' then sealed = '''' else Seal R rand secret ?aad w = (Inr sealed, w0)"
    and c: "pg_CreateCredential E c config sealed w0 = (Inr (), w1)"
    using assms(6) by (cases "Seal R rand secret ?aad w")
      (auto simp: Keeper_Add_def deployed_keeper_def sealed_or_nothing_def and_then_def ret_def split: sum.splits if_splits)
  from c obtain db where db: "w_db w1 = db\<lparr>t_credentials := t_credentials db @ [created_row c config sealed]\<rparr>"
    and new: "\<not> has_id ca_id (crd_ID c) (t_credentials db)"
    by (rule created_credential)
  have "the_row (\<lambda>r. ca_id r = crd_ID c \<and> ca_is_active r) (t_credentials db) = None"
    using new by (auto simp: the_row_None_iff has_id_iff image_iff)
  then have "sql_ReadCredentialSecret (crd_ID c) (w_db v) = (Inr (?cf, optional sealed), w_db v)"
    by (simp add: sql_ReadCredentialSecret_def assms(9) db the_row_append created_row_def)
  from exec_quiet_read [where stmt = "sql_ReadCredentialSecret (crd_ID c)", OF assms(7,8) this]
  have read: "pg_ReadMaterial E' (crd_ID c) v = (Inr (?cf, sealed), v\<lparr>w_trips := Suc (w_trips v)\<rparr>)"
    by (simp add: pg_ReadMaterial_def attempt_def ret_def)
  show ?thesis
  proof (cases "secret = ''''")
    case True
    then show ?thesis using s read by (simp add: Material_def deployed_keeper_def and_then_def ret_def)
  next
    case False
    have "fills rand" using assms(5) by (simp add: draws_def)
    moreover have "Seal R rand secret ?aad w = (Inr sealed, w0)" using s False by simp
    ultimately have "Keyring_Open R' sealed ?aad = Inr secret" by (rule Seal_opens(1) [OF assms(1,2,3,4)])
    moreover from this have "sealed \<noteq> ''''" by (auto simp: Keyring_Open_def split_sealed_def sealed_fields_def)
    ultimately show ?thesis
      using read by (simp add: Material_def deployed_keeper_def and_then_def ret_def lift_def Let_def ignoring_def attempt_def
          split: prod.split)
  qed
qed


definition demo_identity :: credential where
  "demo_identity = \<lparr>crd_ID = demo_id CHR ''C'', crd_SourceID = demo_id CHR ''2'', crd_Channel = ChannelBale,
     crd_Name = ''spare'', crd_CreatedAt = 10, crd_UpdatedAt = 10, crd_isDefault = False, crd_isActive = True\<rparr>"

theorem added_secret_comes_back_witness:
  defines "w1 \<equiv> snd (Keeper_Add (deployed_keeper demo_env (demo_ring ''1'') demo_rand) demo_identity '''' ''token'' demo_world)"
  shows "fst (Material (deployed_keeper demo_env (demo_ring ''2'') demo_rand) (demo_id CHR ''2'') ChannelBale
      (demo_id CHR ''C'') (w1\<lparr>w_tx := NoTx\<rparr>)) = Inr (''{}'', ''token'')"
proof -
  obtain v where seal: "Seal (demo_ring ''1'') demo_rand ''token''
      (bind_secret (demo_id CHR ''2'') ChannelBale (demo_id CHR ''C'')) demo_world = (Inr v, demo_world)"
    and v: "v \<noteq> ''''"
    by (simp add: Seal_def Let_def demo_ring_def demo_keys_def demo_gcm_def demo_rand_def attempt_def ret_def version_def)
  let ?stmt = "sql_CreateCredential (demo_id CHR ''C'') (demo_id CHR ''2'') ''bale'' ''spare'' ''{}'' (Some v) False 10"
  have q: "quiet demo_env" "w_tx demo_world = NoTx" by (simp_all add: quiet_def demo_env_def demo_world_def)
  have "is_ulid (demo_id CHR ''C'')" "channel_check ''bale''" by code_simp+
  moreover have "has_id so_id (demo_id CHR ''2'') (t_sources demo_db)" "\<not> has_id ca_id (demo_id CHR ''C'') (t_credentials demo_db)"
    by code_simp+
  moreover have "\<not> taken credentials_source_channel_name_key r (t_credentials demo_db)"
    "\<not> taken credentials_one_default_per_channel r (t_credentials demo_db)"
    if "ca_name r = ''spare''" "\<not> ca_is_default r" for r
    using that by (auto simp: demo_db_def taken_def credentials_source_channel_name_key_def credentials_one_default_per_channel_def)
  ultimately have "fst (?stmt (w_db demo_world)) = Inr ()"
    by (simp add: sql_CreateCredential_def insert_row_def Let_def demo_world_def)
  then obtain w2 where "exec demo_env ?stmt demo_world = (Inr (), w2)"
    using exec_quiet [OF q, of ?stmt] by simp
  then have add: "Keeper_Add (deployed_keeper demo_env (demo_ring ''1'') demo_rand) demo_identity '''' ''token'' demo_world = (Inr (), w1)"
    by (simp add: w1_def Keeper_Add_def sealed_or_nothing_def deployed_keeper_def demo_identity_def and_then_def seal
        pg_CreateCredential_def attempt_def ret_def optional_def v)
  from added_secret_comes_back [OF demo_ring_New refl demo_gcm_ok demo_draws add q(1), of "w1\<lparr>w_tx := NoTx\<rparr>"]
  show ?thesis by (simp add: demo_identity_def)
qed

end
