(* ===== verification/Identities.thy ===== *)
theory Identities
  imports Secrets
begin

text \<open>
  \<open>internal/core/usecase/credential.go\<close>: a source registers, switches, rotates and reconfigures the
  identities it sends as. Moving the default of a channel is two writes in one transaction.
\<close>

record 'w credential_secrets =
  csc_Add :: "credential \<Rightarrow> string \<Rightarrow> string \<Rightarrow> ('w, unit) io"
  csc_Replace :: "credential \<Rightarrow> string \<Rightarrow> ('w, unit) io"

record 'w credential_settings =
  cst_UpdateConfig :: "string \<Rightarrow> ID \<Rightarrow> string \<Rightarrow> time \<Rightarrow> ('w, unit) io"

record 'w credential_defaults =
  cdf_ClearDefault :: "string \<Rightarrow> channel \<Rightarrow> time \<Rightarrow> ('w, unit) io"

record credential_registration =
  crg_Channel :: channel
  crg_Name :: string
  crg_Config :: string
  crg_Secret :: string
  crg_IsDefault :: bool

record 'w credentials =
  cuc_lib :: golib
  cuc_sources :: "'w source_service"
  cuc_creds :: "'w credential_service"
  cuc_secrets :: "'w credential_secrets"
  cuc_defaults :: "'w credential_defaults"
  cuc_settings :: "'w credential_settings"
  cuc_atomically :: "('w, credential) io \<Rightarrow> ('w, credential) io"
  cuc_newID :: "'w IDFunc"
  cuc_now :: "'w NowFunc"

definition validConfig :: "golib \<Rightarrow> string \<Rightarrow> unit result" where
  "validConfig L config =
    (if config = '''' \<or> json_Valid L config then ok
     else Inl (WithStr (InvalidInputErr ''credential settings are not valid json'')
            (Text ''%d bytes'' [FmtD (int (length config))])))"

definition Credentials_Register ::
    "'w credentials \<Rightarrow> string \<Rightarrow> credential_registration \<Rightarrow> ('w, credential) io" where
  "Credentials_Register C sourceID reg =
    and_then (Manage (cuc_sources C) sourceID) (\<lambda>_.
    and_then (lift (validConfig (cuc_lib C) (crg_Config reg))) (\<lambda>_.
    call (cuc_now C) (\<lambda>now.
    call (cuc_newID C) (\<lambda>i.
    and_then (lift (credential_New i sourceID (crg_Channel reg) (crg_Name reg) (crg_IsDefault reg) now)) (\<lambda>cred.
    cuc_atomically C
      (and_then
         (if crg_IsDefault reg
          then cdf_ClearDefault (cuc_defaults C) sourceID (crg_Channel reg) now
          else ret ()) (\<lambda>_.
       and_then (csc_Add (cuc_secrets C) cred (crg_Config reg) (crg_Secret reg)) (\<lambda>_. ret cred))))))))"

definition Credentials_List :: "'w credentials \<Rightarrow> string \<Rightarrow> ('w, credential list) io" where
  "Credentials_List C sourceID =
    and_then (Manage (cuc_sources C) sourceID) (\<lambda>_. credential_List (cuc_creds C) sourceID)"

definition credentials_get :: "'w credentials \<Rightarrow> string \<Rightarrow> ID \<Rightarrow> ('w, credential) io" where
  "credentials_get C sourceID i =
    and_then (Manage (cuc_sources C) sourceID) (\<lambda>_.
    if ID_IsZero i then
      throw (WithErr (InvalidInputErr ''credential id is required'') (Sentinel (SharedE ErrInvalidID)))
    else credential_Get (cuc_creds C) sourceID i)"

definition Credentials_Deactivate :: "'w credentials \<Rightarrow> string \<Rightarrow> ID \<Rightarrow> ('w, credential) io" where
  "Credentials_Deactivate C sourceID i =
    and_then (credentials_get C sourceID i) (\<lambda>cred. credential_Deactivate (cuc_creds C) cred)"

definition Credentials_Activate :: "'w credentials \<Rightarrow> string \<Rightarrow> ID \<Rightarrow> ('w, credential) io" where
  "Credentials_Activate C sourceID i =
    and_then (credentials_get C sourceID i) (\<lambda>cred. credential_Activate (cuc_creds C) cred)"

definition Credentials_SetDefault :: "'w credentials \<Rightarrow> string \<Rightarrow> ID \<Rightarrow> ('w, credential) io" where
  "Credentials_SetDefault C sourceID i =
    and_then (credentials_get C sourceID i) (\<lambda>cred.
    cuc_atomically C
      (call (cuc_now C) (\<lambda>now.
       and_then (cdf_ClearDefault (cuc_defaults C) sourceID (crd_Channel cred) now) (\<lambda>_.
       credential_MakeDefault (cuc_creds C) cred))))"

definition Credentials_Rotate :: "'w credentials \<Rightarrow> string \<Rightarrow> ID \<Rightarrow> string \<Rightarrow> ('w, credential) io" where
  "Credentials_Rotate C sourceID i secret =
    and_then (credentials_get C sourceID i) (\<lambda>cred.
    and_then (csc_Replace (cuc_secrets C) cred secret) (\<lambda>_. ret cred))"

definition Credentials_Update :: "'w credentials \<Rightarrow> string \<Rightarrow> ID \<Rightarrow> string \<Rightarrow> ('w, credential) io" where
  "Credentials_Update C sourceID i config =
    and_then (credentials_get C sourceID i) (\<lambda>cred.
    and_then (lift (validConfig (cuc_lib C) config)) (\<lambda>_.
    call (cuc_now C) (\<lambda>now.
    and_then (cst_UpdateConfig (cuc_settings C) sourceID i config now) (\<lambda>_. ret cred))))"

subsection \<open>The deployment\<close>

definition deployed_credentials :: "env \<Rightarrow> keyring \<Rightarrow> (nat \<Rightarrow> (world, string) io) \<Rightarrow> world credentials" where
  "deployed_credentials E R rand =
    \<lparr>cuc_lib = lib E, cuc_sources = deployed_sources E,
     cuc_creds = \<lparr>cs_repo = pg_credentials E, cs_now = Now E\<rparr>,
     cuc_secrets = \<lparr>csc_Add = Keeper_Add (deployed_keeper E R rand), csc_Replace = Keeper_Replace (deployed_keeper E R rand)\<rparr>,
     cuc_defaults = \<lparr>cdf_ClearDefault = pg_ClearDefault E\<rparr>,
     cuc_settings = \<lparr>cst_UpdateConfig = pg_UpdateConfig E\<rparr>,
     cuc_atomically = Atomically E, cuc_newID = NewID E, cuc_now = Now E\<rparr>"

text \<open>What the writes of the other processes alone can have made of a database.\<close>

definition others_only :: "env \<Rightarrow> database \<Rightarrow> database \<Rightarrow> bool" where
  "others_only E a b \<longleftrightarrow> (\<exists>ks. b = run_writes (concat (map (others E) ks)) a)"

interpretation bystander: db_relation E "others_only E" for E
proof
  show "others_only E db db" for db
    by (auto simp: others_only_def run_writes_def intro!: exI [of _ "[]"])
  show "others_only E a c" if ab: "others_only E a b" and bc: "others_only E b c" for a b c
  proof -
    obtain ks where "b = run_writes (concat (map (others E) ks)) a" using ab by (auto simp: others_only_def)
    moreover obtain js where "c = run_writes (concat (map (others E) js)) b" using bc by (auto simp: others_only_def)
    ultimately have "c = run_writes (concat (map (others E) (ks @ js))) a" by (simp add: run_writes_append)
    then show ?thesis unfolding others_only_def by blast
  qed
  show "others_only E db (run_writes (others E k) db)" for db k
    by (auto simp: others_only_def intro!: exI [of _ "[k]"])
qed

definition sole_default :: "string \<Rightarrow> string \<Rightarrow> string \<Rightarrow> database \<Rightarrow> bool" where
  "sole_default s ch i db \<longleftrightarrow>
     (\<exists>r \<in> set (t_credentials db). ca_id r = i \<and> ca_source_id r = s \<and> ca_channel r = ch \<and> ca_is_default r \<and> ca_is_active r)
     \<and> (\<forall>r \<in> set (t_credentials db). ca_source_id r = s \<and> ca_channel r = ch \<and> ca_is_default r \<longrightarrow> ca_id r = i)"

datatype default_change = Appoint ID | Enrol credential_registration

fun change_default :: "'w credentials \<Rightarrow> string \<Rightarrow> default_change \<Rightarrow> ('w, credential) io" where
  "change_default C s (Appoint i) = Credentials_SetDefault C s i"
| "change_default C s (Enrol reg) = Credentials_Register C s (reg\<lparr>crg_IsDefault := True\<rparr>)"


text \<open>An identity keeps its id, source, channel and name, and none is ever removed.\<close>

definition ident :: "credential_row \<Rightarrow> string \<times> string \<times> string \<times> string" where
  "ident r = (ca_id r, ca_source_id r, ca_channel r, ca_name r)"

definition same_identities :: "database \<Rightarrow> database \<Rightarrow> bool" where
  "same_identities a b \<longleftrightarrow> (\<exists>new. map ident (t_credentials b) = map ident (t_credentials a) @ new)"

lemma same_identities_step: "same_identities db (run_write w db)"
proof (cases "writes_credentials w")
  case False
  then show ?thesis by (simp add: same_identities_def credentials_frame)
next
  case True
  then show ?thesis
    by (cases w) (auto simp: run_write_simps same_identities_def map_update_where ident_def)
qed

interpretation keeping: db_relation E same_identities for E
proof
  show "same_identities db db" for db by (simp add: same_identities_def)
  show trans: "same_identities a b \<Longrightarrow> same_identities b c \<Longrightarrow> same_identities a c" for a b c
    by (auto simp: same_identities_def)
  have "same_identities db (run_writes ws db)" for ws db
  proof (induction ws arbitrary: db)
    case Nil
    then show ?case by (simp add: same_identities_def)
  next
    case (Cons x ws)
    then show ?case using trans [OF same_identities_step [of db x]] by simp
  qed
  then show "same_identities db (run_writes (others E k) db)" for db k .
qed

lemma same_identities_row:
  assumes "same_identities a b" "x \<in> set (t_credentials a)" "y \<in> set (t_credentials b)" "ca_id y = ca_id x"
    and "distinct (map ca_id (t_credentials b))"
  shows "ident y = ident x"
proof -
  have "ident x \<in> ident ` set (t_credentials b)"
    using assms(1,2) by (metis same_identities_def Un_iff imageI image_set set_append)
  then obtain z where "z \<in> set (t_credentials b)" "ident z = ident x" by auto
  moreover from this have "ca_id z = ca_id y" using assms(4) by (simp add: ident_def)
  ultimately have "z = y" using assms(3,5) by (auto simp: distinct_map dest: inj_onD)
  with \<open>ident z = ident x\<close> show ?thesis by simp
qed


subsection \<open>Inside the transaction\<close>

definition cleared :: "string \<Rightarrow> string \<Rightarrow> time \<Rightarrow> database \<Rightarrow> credential_row list" where
  "cleared s ch now db = update_where (\<lambda>r. ca_source_id r = s \<and> ca_channel r = ch \<and> ca_is_default r)
     (\<lambda>r. r\<lparr>ca_is_default := False, ca_updated_at := now\<rparr>) (t_credentials db)"

lemma pg_ClearDefault_open:
  assumes "pg_ClearDefault E s c now v = (Inr (), v')" "w_tx v = Open"
  shows "w_tx v' = Open" "w_db v' = (w_db v)\<lparr>t_credentials := cleared s (Channel_String c) now (w_db v)\<rparr>"
proof -
  obtain n where run: "exec E (sql_ClearDefaultCredential s (Channel_String c) now) v = (Inr n, v')"
    using assms(1) by (auto simp: pg_ClearDefault_def or_failed_eq)
  from exec_open [OF this assms(2)]
  show "w_tx v' = Open" "w_db v' = (w_db v)\<lparr>t_credentials := cleared s (Channel_String c) now (w_db v)\<rparr>"
    by (auto simp: sql_ClearDefaultCredential_def Let_def cleared_def)
qed

lemma pg_SetDefault_open:
  assumes "pg_SetDefault E c v = (Inr (), v')" "w_tx v = Open"
  defines "p \<equiv> \<lambda>r :: credential_row. ca_id r = crd_ID c \<and> ca_source_id r = crd_SourceID c \<and> ca_is_active r"
  shows "\<exists>r \<in> set (t_credentials (w_db v)). p r"
    "w_db v' = (w_db v)\<lparr>t_credentials :=
       update_where p (\<lambda>r. r\<lparr>ca_is_default := True, ca_updated_at := crd_UpdatedAt c\<rparr>) (t_credentials (w_db v))\<rparr>"
proof -
  obtain n where run: "exec E (sql_SetCredentialDefault (crd_ID c) (crd_SourceID c) (crd_UpdatedAt c)) v = (Inr n, v')"
    and n: "n \<noteq> 0"
    using assms(1) by (auto simp: pg_SetDefault_def or_failed_eq split: if_splits)
  have "affected p (t_credentials (w_db v)) = n \<and> (w_db v)\<lparr>t_credentials :=
       update_where p (\<lambda>r. r\<lparr>ca_is_default := True, ca_updated_at := crd_UpdatedAt c\<rparr>) (t_credentials (w_db v))\<rparr> = w_db v'"
    using exec_open(1) [OF run assms(2)]
    unfolding sql_SetCredentialDefault_def Let_def p_def by (simp split: if_split_asm)
  then show "w_db v' = (w_db v)\<lparr>t_credentials :=
       update_where p (\<lambda>r. r\<lparr>ca_is_default := True, ca_updated_at := crd_UpdatedAt c\<rparr>) (t_credentials (w_db v))\<rparr>"
    "\<exists>r \<in> set (t_credentials (w_db v)). p r"
    using n affected_pos_iff [of p "t_credentials (w_db v)"] by simp_all
qed

lemma cleared_no_default:
  assumes "r \<in> set (cleared s ch now db)" "ca_source_id r = s" "ca_channel r = ch"
  shows "\<not> ca_is_default r"
proof -
  obtain x where "r = (if ca_source_id x = s \<and> ca_channel x = ch \<and> ca_is_default x
      then x\<lparr>ca_is_default := False, ca_updated_at := now\<rparr> else x)"
    using assms(1) unfolding cleared_def update_where_def set_map by (rule imageE)
  then show ?thesis
    using assms(2,3) by (cases "ca_source_id x = s \<and> ca_channel x = ch \<and> ca_is_default x") auto
qed

lemma cleared_idents: "map ident (cleared s ch now db) = map ident (t_credentials db)"
  unfolding cleared_def by (rule map_update_where) (simp add: ident_def)

context db_relation
begin

lemma keeps_managing:
  "keeps (\<lambda>w w'. P (w_db w) (w_db w')) (Manage (deployed_sources E) s)"
  "keeps (\<lambda>w w'. P (w_db w) (w_db w')) (credentials_get (deployed_credentials E R rand) s i)"
proof -
  show m: "keeps (\<lambda>w w'. P (w_db w) (w_db w')) (Manage (deployed_sources E) s)"
    by (simp add: Manage_def deployed_gateway pg_sources_def keeps_reading)
  have "keeps (\<lambda>w w'. P (w_db w) (w_db w')) (pg_ReadCredential E s i)"
    unfolding pg_ReadCredential_def
    by (auto intro!: keeps_P keeps_read split: sum.split simp: sql_ReadCredential_def)
  then show "keeps (\<lambda>w w'. P (w_db w) (w_db w')) (credentials_get (deployed_credentials E R rand) s i)"
    using m by (auto intro!: keeps_P simp: credentials_get_def deployed_credentials_def credential_Get_def pg_credentials_def)
qed

end

lemma closed_managing:
  "keeps tx_closed (Manage (deployed_sources E) s)"
  "keeps tx_closed (credentials_get (deployed_credentials E R rand) s i)"
proof -
  show m: "keeps tx_closed (Manage (deployed_sources E) s)"
    by (auto intro!: keeps_tx_closed split: sum.split simp: Manage_def deployed_gateway pg_sources_def pg_ReadSource_def)
  show "keeps tx_closed (credentials_get (deployed_credentials E R rand) s i)"
    using m by (auto intro!: keeps_tx_closed split: sum.split simp: credentials_get_def deployed_credentials_def
        credential_Get_def pg_credentials_def pg_ReadCredential_def)
qed


lemma appointed:
  assumes "and_then (pg_ClearDefault E s (crd_Channel c) now) (\<lambda>_.
      credential_MakeDefault \<lparr>cs_repo = pg_credentials E, cs_now = Now E\<rparr> c) v = (Inr c', v')"
    and "w_tx v = Open" "db_ok (w_db v)" "crd_SourceID c = s"
    and "\<And>r. r \<in> set (t_credentials (w_db v)) \<Longrightarrow> ca_id r = crd_ID c \<Longrightarrow> ca_channel r = Channel_String (crd_Channel c)"
  shows "crd_ID c' = crd_ID c \<and> crd_Channel c' = crd_Channel c \<and> crd_isDefault c'
    \<and> w_db v' = (w_db v)\<lparr>t_credentials := t_credentials (w_db v')\<rparr>
    \<and> sole_default s (Channel_String (crd_Channel c)) (crd_ID c) (w_db v')"
proof -
  let ?ch = "Channel_String (crd_Channel c)"
  obtain u v1 where clear: "pg_ClearDefault E s (crd_Channel c) now v = (Inr u, v1)"
    and make: "credential_MakeDefault \<lparr>cs_repo = pg_credentials E, cs_now = Now E\<rparr> c v1 = (Inr c', v')"
    using assms(1) by (auto simp: and_then_Inr)
  note cl = pg_ClearDefault_open [OF clear [simplified] assms(2)]
  obtain t v2 where t: "v2 = v1\<lparr>w_clock := Suc (w_clock v1)\<rparr>" and c': "crd_MakeDefault c t = Inr c'"
    and st: "pg_SetDefault E c' v2 = (Inr (), v')"
    using make by (auto simp: credential_MakeDefault_def call_eq Now_def and_then_Inr lift_def pg_credentials_def ret_def)
  have eq: "crd_ID c' = crd_ID c \<and> crd_Channel c' = crd_Channel c \<and> crd_SourceID c' = s \<and> crd_isDefault c'"
    using c' assms(4) by (auto simp: crd_MakeDefault_def split: if_splits)
  have v2: "w_tx v2 = Open" "t_credentials (w_db v2) = cleared s ?ch now (w_db v)"
    "w_db v2 = (w_db v)\<lparr>t_credentials := t_credentials (w_db v2)\<rparr>"
    using cl t by simp_all
  define p where "p = (\<lambda>r :: credential_row. ca_id r = crd_ID c \<and> ca_source_id r = s \<and> ca_is_active r)"
  define f where "f = (\<lambda>r :: credential_row. r\<lparr>ca_is_default := True, ca_updated_at := crd_UpdatedAt c'\<rparr>)"
  note sd = pg_SetDefault_open [OF st v2(1), unfolded eq [THEN conjunct1] eq [THEN conjunct2, THEN conjunct2, THEN conjunct1]]
  have rows: "t_credentials (w_db v') = update_where p f (cleared s ?ch now (w_db v))"
    and rest: "w_db v' = (w_db v)\<lparr>t_credentials := t_credentials (w_db v')\<rparr>"
    using sd(2) v2 eq by (simp_all add: p_def f_def)
  obtain r where r: "r \<in> set (cleared s ?ch now (w_db v))" "p r"
    using sd(1) v2(2) eq by (auto simp: p_def)
  have ids: "ident ` set (cleared s ?ch now (w_db v)) = ident ` set (t_credentials (w_db v))"
    using cleared_idents by (metis list.set_map)
  have chan: "ca_channel r = ?ch" if "r \<in> set (cleared s ?ch now (w_db v))" "ca_id r = crd_ID c" for r
  proof -
    have "ident r \<in> ident ` set (t_credentials (w_db v))" unfolding ids [symmetric] using that(1) by (rule imageI)
    then obtain x where x: "ident r = ident x" "x \<in> set (t_credentials (w_db v))" by (rule imageE)
    from x(1) have "ca_id x = crd_ID c" "ca_channel r = ca_channel x" using that(2) by (simp_all add: ident_def)
    with assms(5) [OF x(2)] show ?thesis by simp
  qed
  have "\<exists>y \<in> set (t_credentials (w_db v')). ca_id y = crd_ID c \<and> ca_source_id y = s \<and> ca_channel y = ?ch
      \<and> ca_is_default y \<and> ca_is_active y"
    using r chan by (auto simp: rows update_where_def f_def p_def intro!: bexI [of _ "f r"] image_eqI [of _ _ r])
  moreover have "ca_id y = crd_ID c"
    if y: "y \<in> set (t_credentials (w_db v'))" "ca_source_id y = s" "ca_channel y = ?ch" "ca_is_default y" for y
  proof -
    obtain x where x: "x \<in> set (cleared s ?ch now (w_db v))" and "y = (if p x then f x else x)"
      using y(1) unfolding rows update_where_def set_map by (rule imageE)
    then show ?thesis using cleared_no_default [OF x] y by (cases "p x") (auto simp: f_def p_def)
  qed
  ultimately show ?thesis using eq rest by (simp add: sole_default_def)
qed


lemma enrolled:
  assumes "and_then (pg_ClearDefault E s (crd_Channel c) now) (\<lambda>_.
      and_then (Keeper_Add (deployed_keeper E R rand) c config secret) (\<lambda>_. ret c)) v = (Inr c', v')"
    and "w_tx v = Open" "draws rand" "crd_SourceID c = s" "crd_isDefault c"
  shows "c' = c \<and> w_db v' = (w_db v)\<lparr>t_credentials := t_credentials (w_db v')\<rparr>
    \<and> sole_default s (Channel_String (crd_Channel c)) (crd_ID c) (w_db v')"
proof -
  let ?ch = "Channel_String (crd_Channel c)"
  obtain u v1 where clear: "pg_ClearDefault E s (crd_Channel c) now v = (Inr u, v1)"
    and add: "Keeper_Add (deployed_keeper E R rand) c config secret v1 = (Inr (), v')" and c': "c' = c"
    using assms(1) by (auto simp: and_then_Inr ret_def)
  note cl = pg_ClearDefault_open [OF clear [simplified] assms(2)]
  obtain sealed v2 where seal: "sealed_or_nothing (deployed_keeper E R rand) c secret v1 = (Inr sealed, v2)"
    and create: "pg_CreateCredential E c config sealed v2 = (Inr (), v')"
    using add by (auto simp: Keeper_Add_def and_then_Inr deployed_keeper_def)
  have v2: "w_db v2 = w_db v1"
    using seal Seal_off [OF _ assms(3)] by (auto simp: sealed_or_nothing_def deployed_keeper_def ret_def split: if_splits)
  have "w_tx v2 = Open"
    using seal Seal_off [OF _ assms(3)] cl(1) by (auto simp: sealed_or_nothing_def deployed_keeper_def ret_def split: if_splits)
  then have made: "w_db v' = (w_db v2)\<lparr>t_credentials := t_credentials (w_db v2) @ [created_row c config sealed]\<rparr>"
    by (metis created_credential [OF create])
  obtain r where r: "w_db v' = (w_db v2)\<lparr>t_credentials := t_credentials (w_db v2) @ [r]\<rparr>"
    "ca_id r = crd_ID c" "ca_source_id r = s" "ca_channel r = ?ch" "ca_is_default r" "ca_is_active r"
    by (rule that [of "created_row c config sealed"]) (use made assms(4,5) in \<open>simp_all add: created_row_def\<close>)
  have rows: "t_credentials (w_db v') = cleared s ?ch now (w_db v) @ [r]" using r(1) v2 cl(2) by simp
  have "\<not> (ca_source_id y = s \<and> ca_channel y = ?ch \<and> ca_is_default y)" if "y \<in> set (cleared s ?ch now (w_db v))" for y
    using cleared_no_default [OF that] by blast
  then have "sole_default s ?ch (crd_ID c) (w_db v')"
    using r(2-6) unfolding sole_default_def rows set_append list.set by blast
  moreover have "w_db v' = (w_db v)\<lparr>t_credentials := t_credentials (w_db v')\<rparr>" using r(1) v2 cl(2) by simp
  ultimately show ?thesis using c' by simp
qed


lemma credentials_get_row:
  assumes "credentials_get (deployed_credentials E R rand) s i w = (Inr c, w1)"
  obtains row where "row \<in> set (t_credentials (w_db w1))" "ca_id row = i" "crd_ID c = i" "crd_SourceID c = s"
    "ca_channel row = Channel_String (crd_Channel c)"
proof -
  obtain w0 where "pg_ReadCredential E s i w0 = (Inr c, w1)"
    using assms by (auto simp: credentials_get_def and_then_Inr deployed_credentials_def credential_Get_def pg_credentials_def
        throw_def split: if_splits)
  then obtain row where run: "exec E (sql_ReadCredential i s) w0 = (Inr row, w1)" and c: "toCredential row = Inr c"
    by (cases "exec E (sql_ReadCredential i s) w0")
      (auto simp: pg_ReadCredential_def attempt_def lift_def throw_def split: sum.splits if_splits)
  from exec_Inr [OF run] have "the_row (\<lambda>r. ca_id r = i \<and> ca_source_id r = s) (t_credentials (w_db w1)) = Some row"
    by (auto simp: sql_ReadCredential_def)
  from the_row_Some [OF this] c show ?thesis
    using that by (auto simp: toCredential_def Let_def split: if_splits)
qed

definition default_moved :: "string \<Rightarrow> default_change \<Rightarrow> database \<Rightarrow> database \<Rightarrow> credential \<Rightarrow> bool" where
  "default_moved s ch a b c \<longleftrightarrow> b = a\<lparr>t_credentials := t_credentials b\<rparr>
     \<and> sole_default s (Channel_String (crd_Channel c)) (crd_ID c) b
     \<and> (case ch of Appoint i \<Rightarrow> crd_ID c = i | Enrol reg \<Rightarrow> crd_Channel c = crg_Channel reg \<and> crd_Name c = crg_Name reg)"

lemma moved_or_not:
  assumes "Atomically E fn w1 = (r, w')" "w_tx w1 = NoTx" "others_only E (w_db w) (w_db w1)"
    and "\<And>v c v'. v = (begin_trip E w1)\<lparr>w_tx := Open\<rparr> \<Longrightarrow> fn v = (Inr c, v') \<Longrightarrow>
      default_moved s ch (w_db v) (w_db v') c"
  shows "\<exists>a. others_only E (w_db w) a \<and> ((\<exists>e. r = Inl e) \<and> w_db w' = a
     \<or> (\<exists>c. default_moved s ch a (w_db w') c \<and> (case r of Inr c' \<Rightarrow> c' = c | Inl e \<Rightarrow> commit_unanswered E e)))"
proof -
  have o: "others_only E (w_db w) (w_db (begin_trip E w1))"
    by (rule bystander.P_trans [OF assms(3) bystander.P_begin])
  from assms(1,2) show ?thesis
  proof (cases rule: Atomically_cases)
    case (rolled_back e)
    with o show ?thesis by auto
  next
    case (committed x w2)
    from assms(4) [OF refl committed(1)] committed o show ?thesis by auto
  next
    case (unacked x w2 s)
    from assms(4) [OF refl unacked(1)] unacked o show ?thesis by auto
  qed
qed

lemma appoint_moves:
  assumes "Credentials_SetDefault (deployed_credentials E R rand) s i w = (r, w')" "w_tx w = NoTx" "reachable (w_db w)"
  shows "\<exists>a. others_only E (w_db w) a \<and> ((\<exists>e. r = Inl e) \<and> w_db w' = a
     \<or> (\<exists>c. default_moved s (Appoint i) a (w_db w') c \<and> (case r of Inr c' \<Rightarrow> c' = c | Inl e \<Rightarrow> commit_unanswered E e)))"
proof -
  let ?C = "deployed_credentials E R rand"
  obtain x w1 where get: "credentials_get ?C s i w = (x, w1)" by fastforce
  have o1: "others_only E (w_db w) (w_db w1)" by (rule keepsD [OF bystander.keeps_managing(2) get])
  have tx: "w_tx w1 = NoTx" using keepsD [OF closed_managing(2) get] assms(2) by (simp add: tx_closed_def)
  show ?thesis
  proof (cases x)
    case (Inl e)
    with assms(1) get o1 show ?thesis by (auto simp: Credentials_SetDefault_def and_then_run)
  next
    case (Inr c)
    from credentials_get_row [OF get [unfolded Inr]] obtain row where
      row: "row \<in> set (t_credentials (w_db w1))" "ca_id row = i" "crd_ID c = i" "crd_SourceID c = s"
        "ca_channel row = Channel_String (crd_Channel c)" .
    let ?fn = "call (Now E) (\<lambda>now. and_then (pg_ClearDefault E s (crd_Channel c) now) (\<lambda>_.
      credential_MakeDefault \<lparr>cs_repo = pg_credentials E, cs_now = Now E\<rparr> c))"
    have run: "Atomically E ?fn w1 = (r, w')"
      using assms(1) get Inr by (simp add: Credentials_SetDefault_def and_then_run deployed_credentials_def)
    have moved: "default_moved s (Appoint i) (w_db v) (w_db v') c'"
      if v: "v = (begin_trip E w1)\<lparr>w_tx := Open\<rparr>" and fn: "?fn v = (Inr c', v')" for v c' v'
    proof -
      obtain ks where "w_db (begin_trip E w1) = run_writes (concat (map (others E) ks)) (w_db w)"
        using bystander.P_trans [OF o1 bystander.P_begin] by (auto simp: others_only_def)
      then have ok: "db_ok (w_db v)" using reachable_db_ok [OF reachable_run_writes [OF assms(3)]] v by simp
      have same: "same_identities (w_db w1) (w_db v)" using keeping.P_begin v by simp
      have "ca_channel y = Channel_String (crd_Channel c)" if "y \<in> set (t_credentials (w_db v))" "ca_id y = crd_ID c" for y
        using same_identities_row [OF same row(1) that(1)] that(2) row ok by (simp add: ident_def db_ok_def credentials_ok_def)
      then have "crd_ID c' = crd_ID c \<and> crd_Channel c' = crd_Channel c \<and> crd_isDefault c'
          \<and> w_db v' = (w_db v)\<lparr>t_credentials := t_credentials (w_db v')\<rparr>
          \<and> sole_default s (Channel_String (crd_Channel c)) (crd_ID c) (w_db v')"
        using appointed [of E s c "clock E (w_clock v)" "v\<lparr>w_clock := Suc (w_clock v)\<rparr>" c' v'] fn v ok row(4)
        by (simp add: call_eq Now_def)
      then show ?thesis using row(3) by (simp add: default_moved_def)
    qed
    show ?thesis by (rule moved_or_not [OF run tx o1 moved])
  qed
qed


lemma enrol_moves:
  assumes "Credentials_Register (deployed_credentials E R rand) s (reg\<lparr>crg_IsDefault := True\<rparr>) w = (r, w')"
    and "w_tx w = NoTx" "draws rand"
  shows "\<exists>a. others_only E (w_db w) a \<and> ((\<exists>e. r = Inl e) \<and> w_db w' = a
     \<or> (\<exists>c. default_moved s (Enrol reg) a (w_db w') c \<and> (case r of Inr c' \<Rightarrow> c' = c | Inl e \<Rightarrow> commit_unanswered E e)))"
proof -
  obtain x w1 where get: "Manage (deployed_sources E) s w = (x, w1)" by fastforce
  have o1: "others_only E (w_db w) (w_db w1)" by (rule keepsD [OF bystander.keeps_managing(1) get])
  have tx: "w_tx w1 = NoTx" using keepsD [OF closed_managing(1) get] assms(2) by (simp add: tx_closed_def)
  define w2 where "w2 = w1\<lparr>w_clock := Suc (w_clock w1), w_drawn := Suc (w_drawn w1)\<rparr>"
  let ?now = "clock E (w_clock w1)"
  let ?new = "credential_New (drawn E (w_drawn w1)) s (crg_Channel reg) (crg_Name reg) True ?now"
  let ?fn = "\<lambda>c. and_then (pg_ClearDefault E s (crg_Channel reg) ?now) (\<lambda>_.
      and_then (Keeper_Add (deployed_keeper E R rand) c (crg_Config reg) (crg_Secret reg)) (\<lambda>_. ret c))"
  consider (early) e where "r = Inl e" "w_db w' = w_db w1" | (tx) c where "?new = Inr c" "Atomically E (?fn c) w2 = (r, w')"
  proof (cases x)
    case (Inl e)
    then show ?thesis
      using assms(1) get by (auto intro: early simp: Credentials_Register_def deployed_credentials_def and_then_run)
  next
    case (Inr src)
    define n where "n = ?new"
    have run: "and_then (lift (validConfig (lib E) (crg_Config reg))) (\<lambda>_. call (Now E) (\<lambda>now. call (NewID E) (\<lambda>i.
        and_then (lift (credential_New i s (crg_Channel reg) (crg_Name reg) True now)) (\<lambda>c.
        Atomically E (and_then (pg_ClearDefault E s (crg_Channel reg) now) (\<lambda>_.
          and_then (Keeper_Add (deployed_keeper E R rand) c (crg_Config reg) (crg_Secret reg)) (\<lambda>_. ret c))))))) w1 = (r, w')"
      using assms(1) get Inr by (simp add: Credentials_Register_def deployed_credentials_def and_then_run)
    show ?thesis
    proof (cases "validConfig (lib E) (crg_Config reg)")
      case (Inl e)
      with run have "r = Inl e" "w' = w1" by simp_all
      then show ?thesis using early by simp
    next
      case (Inr u)
      with run have "and_then (lift n) (\<lambda>c. Atomically E (?fn c)) w2 = (r, w')"
        by (simp add: call_run Now_def NewID_def w2_def n_def)
      with early tx show ?thesis by (cases n) (auto simp: n_def [symmetric] w2_def)
    qed
  qed
  then show ?thesis
  proof cases
    case early
    with o1 show ?thesis by auto
  next
    case (tx c)
    have c: "crd_SourceID c = s \<and> crd_Channel c = crg_Channel reg \<and> crd_Name c = crg_Name reg \<and> crd_isDefault c"
      using tx(1) by (auto simp: credential_New_def then_result_Inr split: if_splits)
    have o2: "others_only E (w_db w) (w_db w2)" "w_tx w2 = NoTx" using o1 \<open>w_tx w1 = NoTx\<close> by (simp_all add: w2_def)
    have moved: "default_moved s (Enrol reg) (w_db v) (w_db v') c'"
      if "v = (begin_trip E w2)\<lparr>w_tx := Open\<rparr>" "?fn c v = (Inr c', v')" for v c' v'
      using enrolled [of E s c ?now R rand "crg_Config reg" "crg_Secret reg" v c' v'] that assms(3) c
      by (simp add: default_moved_def)
    show ?thesis by (rule moved_or_not [OF tx(2) o2(2,1) moved])
  qed
qed



end
