(* ===== verification/Instants.thy ===== *)
theory Instants
  imports Encoding
begin

text \<open>
  Instants as other systems write them: Unix seconds, and the timestamps and durations of
  google.golang.org/protobuf.
\<close>

subsection \<open>Unix time\<close>

text \<open>
  The seconds from Go's zero time to 1970. \<open>Unix\<close> floors to seconds; \<open>time.Unix\<close> adds the offset
  in 64 bits.
\<close>

definition unixToInternal :: int where
  "unixToInternal = 62135596800"

definition Unix_seconds :: "time \<Rightarrow> int" where
  "Unix_seconds t = to_int64 (t div second - unixToInternal)"

definition time_Unix :: "int \<Rightarrow> time" where
  "time_Unix s = to_int64 (s + unixToInternal) * second"

lemma time_Unix_seconds:
  assumes "0 \<le> t" "t < 2 ^ 62 * second"
  shows "time_Unix (Unix_seconds t) = t div second * second"
    "- (2 ^ 63) \<le> Unix_seconds t" "Unix_seconds t < 2 ^ 63"
proof -
  have "t div second * second \<le> t"
    using pos_mod_sign [OF durations(1), of t] minus_mod_eq_div_mult [of t second] by linarith
  then have "t div second * second < 2 ^ 62 * second" using assms(2) by linarith
  then have "t div second < 2 ^ 62" by (rule mult_right_less_imp_less) (simp add: second_def)
  moreover have "0 \<le> t div second" using assms by (simp add: second_def)
  ultimately have d: "0 \<le> t div second" "t div second < 2 ^ 62" by simp_all
  then have u: "Unix_seconds t = t div second - unixToInternal"
    unfolding Unix_seconds_def unixToInternal_def by (intro to_int64_id) simp_all
  then show "time_Unix (Unix_seconds t) = t div second * second"
    using d by (simp add: time_Unix_def to_int64_id)
  show "- (2 ^ 63) \<le> Unix_seconds t" "Unix_seconds t < 2 ^ 63"
    using d u by (simp_all add: unixToInternal_def)
qed


subsection \<open>Timestamps and durations of protobuf\<close>

record timestamp =
  ts_Seconds :: int
  ts_Nanos :: int

definition timestamppb_New :: "time \<Rightarrow> timestamp" where
  "timestamppb_New t = \<lparr>ts_Seconds = Unix_seconds t, ts_Nanos = t mod second\<rparr>"

text \<open>\<open>AsTime\<close> is \<open>time.Unix\<close> on both fields, which carries nanoseconds beyond a second over.\<close>

definition AsTime :: "timestamp \<Rightarrow> time" where
  "AsTime ts = to_int64 (ts_Seconds ts + ts_Nanos ts div second + unixToInternal) * second + ts_Nanos ts mod second"

lemma AsTime_New:
  assumes "0 \<le> t" "t < 2 ^ 62 * second"
  shows "AsTime (timestamppb_New t) = t"
proof -
  have m: "t mod second div second = 0" "t mod second mod second = t mod second"
    by (simp_all add: second_def)
  have "to_int64 (Unix_seconds t + unixToInternal) * second = t div second * second"
    using time_Unix_seconds(1) [OF assms] by (simp add: time_Unix_def)
  moreover have "t div second * second + t mod second = t" by (rule div_mult_mod_eq)
  ultimately show ?thesis unfolding AsTime_def timestamppb_New_def by (simp only: m timestamp.simps add_0_right)
qed

end
