(* ===== verification/Callbacks.thy ===== *)
theory Callbacks
  imports Dispatch Instants
begin

text \<open>
  The callback a source receives: \<open>internal/adapter/notifier\<close> signs and posts a batch of outcomes,
  \<open>sdk/go/srosha/callback.go\<close> verifies and reads it on the other side. The encoder and the reader of
  JSON, HMAC-SHA256 and the HTTP client are parameters; a header is the list of its fields under
  their canonical names.
\<close>

type_synonym http_header = "(string \<times> string) list"

definition header_Get :: "http_header \<Rightarrow> string \<Rightarrow> string" where
  "header_Get h k = (case map_of h k of Some v \<Rightarrow> v | None \<Rightarrow> '''')"

text \<open>The callback as it crosses the wire, with the field names of \<open>webhook.Batch\<close>.\<close>

record wire_result =
  wr_DeliveryID :: string
  wr_Channel :: string
  wr_Address :: string
  wr_Status :: string
  wr_SettledAt :: time
  wr_Reason :: string
  wr_ProviderMessageID :: string

record wire_callback =
  wc_ID :: string
  wc_NotificationID :: string
  wc_SentAt :: time
  wc_Results :: "wire_result list"

record callback_lib =
  cl_golib :: golib
  json_Marshal :: "batch \<Rightarrow> string result"
  json_Unmarshal :: "string \<Rightarrow> wire_callback option"
  hmac_sha256 :: "string \<Rightarrow> string \<Rightarrow> string"

definition signatureHeader :: string where
  "signatureHeader = ''X-Srosha-Signature''"

definition timestampHeader :: string where
  "timestampHeader = ''X-Srosha-Timestamp''"

definition signatureVersion :: string where
  "signatureVersion = ''v1''"

definition signedSeparator :: string where
  "signedSeparator = ''.''"

subsection \<open>The sender\<close>

definition sign :: "callback_lib \<Rightarrow> string \<Rightarrow> time \<Rightarrow> string \<Rightarrow> string \<times> string" where
  "sign J secret at body =
    (let timestamp = FormatInt (Unix_seconds at) in
     (signatureVersion @ ''='' @ hex_EncodeToString (hmac_sha256 J secret (timestamp @ signedSeparator @ body)),
      timestamp))"

record 'w http_client =
  hc_Do :: "string \<Rightarrow> http_header \<Rightarrow> string \<Rightarrow> ('w, int) io"

record 'w callback_notifier =
  nt_lib :: callback_lib
  nt_client :: "'w http_client"
  nt_secrets :: "string \<Rightarrow> ('w, string option) act"
  nt_now :: "'w NowFunc"

definition refused_status :: "webhook \<Rightarrow> int \<Rightarrow> unit result" where
  "refused_status w status =
    (if status < 200 \<or> 300 \<le> status then
       Inl (WithStr (UnavailableErr ''the callback was refused'')
              (Text ''webhook %s answered %d'' [FmtS (whk_ID w), FmtD status]))
     else ok)"

definition Notify :: "'w callback_notifier \<Rightarrow> webhook option \<Rightarrow> batch \<Rightarrow> ('w, unit) io" where
  "Notify N w_opt b =
    (case w_opt of
       None \<Rightarrow> throw (InternalErr ''no callback to post to'')
     | Some w \<Rightarrow>
         call (nt_secrets N (whk_SourceID w)) (\<lambda>found.
         case found of
           None \<Rightarrow> throw (WithStr (InternalErr ''the callback could not be sent'')
             (Text ''no signing secret for source %q'' [FmtS (whk_SourceID w)]))
         | Some secret \<Rightarrow>
             if secret = '''' then throw (WithStr (InternalErr ''the callback could not be sent'')
               (Text ''no signing secret for source %q'' [FmtS (whk_SourceID w)]))
             else case json_Marshal (nt_lib N) b of
               Inl err \<Rightarrow> throw (WithErr (InternalErr ''the callback could not be encoded'') err)
             | Inr body \<Rightarrow>
                 call (nt_now N) (\<lambda>now.
                 let (signature, timestamp) = sign (nt_lib N) secret now body in
                 if url_Parse (cl_golib (nt_lib N)) (whk_CallbackURL w) = None
                 then throw (WithErr (InvalidInputErr ''the callback address cannot be called'')
                   (Foreign ''parse error''))
                 else attempt (hc_Do (nt_client N) (whk_CallbackURL w)
                     [(''Content-Type'', ''application/json''), (signatureHeader, signature),
                      (timestampHeader, timestamp)] body)
                   (\<lambda>r. case r of
                      Inl err \<Rightarrow> throw (WithErr (WithStr (UnavailableErr ''the callback could not be delivered'')
                        (Text ''webhook %s'' [FmtS (whk_ID w)])) err)
                    | Inr status \<Rightarrow> lift (refused_status w status)))))"

subsection \<open>The receiver\<close>

definition SignatureHeader :: string where
  "SignatureHeader = ''X-Srosha-Signature''"

definition TimestampHeader :: string where
  "TimestampHeader = ''X-Srosha-Timestamp''"

definition sdk_signatureVersion :: string where
  "sdk_signatureVersion = ''v1''"

definition sdk_signedSeparator :: string where
  "sdk_signedSeparator = ''.''"

datatype callback_sentinel = ErrSignatureMissing | ErrSignatureInvalid | ErrCallbackTooOld

text \<open>What \<open>Verify\<close> fails with: a sentinel, a sentinel with the words around it, or neither.\<close>

datatype callback_error =
    Bare callback_sentinel
  | Around callback_sentinel string
  | NoVerifier string
  | Unreadable

fun callback_is :: "callback_error \<Rightarrow> callback_sentinel \<Rightarrow> bool" where
  "callback_is (Bare s) t \<longleftrightarrow> s = t"
| "callback_is (Around s m) t \<longleftrightarrow> s = t"
| "callback_is (NoVerifier m) t \<longleftrightarrow> False"
| "callback_is Unreadable t \<longleftrightarrow> False"

record callback_delivery =
  cd_ID :: string
  cd_Channel :: string
  cd_Address :: string
  cd_Status :: string
  cd_Reason :: string
  cd_ProviderMessageID :: string
  cd_SettledAt :: time

record callback =
  cb_ID :: string
  cb_NotificationID :: string
  cb_SentAt :: time
  cb_Deliveries :: "callback_delivery list"

record 'w verifier =
  vf_secret :: string
  vf_tolerance :: duration
  vf_now :: "'w NowFunc"

definition defaultTolerance :: duration where
  "defaultTolerance = 5 * minute"

definition WithTolerance :: "duration \<Rightarrow> 'w verifier \<Rightarrow> 'w verifier" where
  "WithTolerance d v = v\<lparr>vf_tolerance := d\<rparr>"

definition NewVerifier ::
    "'w NowFunc \<Rightarrow> string \<Rightarrow> ('w verifier \<Rightarrow> 'w verifier) list \<Rightarrow> callback_error + 'w verifier" where
  "NewVerifier clock_now secret opts =
    (if TrimSpace secret = '''' then Inl (NoVerifier ''srosha: no signing secret'')
     else
       let v = fold (\<lambda>apply_opt v. apply_opt v) opts
                 \<lparr>vf_secret = secret, vf_tolerance = defaultTolerance, vf_now = clock_now\<rparr> in
       if vf_tolerance v \<le> 0 then Inl (NoVerifier ''srosha: tolerance must be above zero'')
       else Inr v)"

definition check_signature ::
    "callback_lib \<Rightarrow> 'w verifier \<Rightarrow> string \<Rightarrow> string \<Rightarrow> string \<Rightarrow> callback_error + unit" where
  "check_signature J v signature timestamp body =
    (case cut_at CHR ''='' signature of
       None \<Rightarrow> Inl (Around ErrSignatureInvalid ''unknown signature version'')
     | Some (ver, digest) \<Rightarrow>
         if ver \<noteq> sdk_signatureVersion then Inl (Around ErrSignatureInvalid ''unknown signature version'')
         else case hex_DecodeString digest of
           None \<Rightarrow> Inl (Around ErrSignatureInvalid ''signature is not hex'')
         | Some given \<Rightarrow>
             if given \<noteq> hmac_sha256 J (vf_secret v) (timestamp @ sdk_signedSeparator @ body)
             then Inl (Bare ErrSignatureInvalid) else Inr ())"

definition within_tolerance :: "duration \<Rightarrow> time \<Rightarrow> int \<Rightarrow> bool" where
  "within_tolerance tol now seconds =
    (let drift = time_Sub now (time_Unix seconds);
         drift = (if drift < 0 then to_int64 (- drift) else drift) in
     \<not> tol < drift)"

definition fresh :: "'w verifier \<Rightarrow> string \<Rightarrow> 'w \<Rightarrow> (callback_error + unit) \<times> 'w" where
  "fresh v timestamp w =
    (case ParseInt timestamp of
       None \<Rightarrow> (Inl (Around ErrSignatureInvalid ''timestamp is not a unix time''), w)
     | Some seconds \<Rightarrow>
         (case vf_now v w of (now, w') \<Rightarrow>
            if within_tolerance (vf_tolerance v) now seconds then (Inr (), w')
            else (Inl (Around ErrCallbackTooOld ''signed away from now''), w')))"

definition decodeCallback :: "callback_lib \<Rightarrow> string \<Rightarrow> callback_error + callback" where
  "decodeCallback J body =
    (case json_Unmarshal J body of
       None \<Rightarrow> Inl Unreadable
     | Some c \<Rightarrow> Inr
         \<lparr>cb_ID = wc_ID c, cb_NotificationID = wc_NotificationID c, cb_SentAt = wc_SentAt c,
          cb_Deliveries = map (\<lambda>r.
            \<lparr>cd_ID = wr_DeliveryID r, cd_Channel = ToLower (cl_golib J) (wr_Channel r),
             cd_Address = wr_Address r, cd_Status = ToLower (cl_golib J) (wr_Status r),
             cd_Reason = ToLower (cl_golib J) (wr_Reason r),
             cd_ProviderMessageID = wr_ProviderMessageID r, cd_SettledAt = wr_SettledAt r\<rparr>) (wc_Results c)\<rparr>)"

definition Verify_callback ::
    "callback_lib \<Rightarrow> 'w verifier \<Rightarrow> http_header \<Rightarrow> string \<Rightarrow> 'w \<Rightarrow> (callback_error + callback) \<times> 'w" where
  "Verify_callback J v headers body w =
    (let signature = header_Get headers SignatureHeader;
         timestamp = header_Get headers TimestampHeader in
     if signature = '''' \<or> timestamp = '''' then (Inl (Bare ErrSignatureMissing), w)
     else case check_signature J v signature timestamp body of
       Inl err \<Rightarrow> (Inl err, w)
     | Inr _ \<Rightarrow>
         (case fresh v timestamp w of
            (Inl err, w') \<Rightarrow> (Inl err, w')
          | (Inr _, w') \<Rightarrow> (decodeCallback J body, w')))"


subsection \<open>What a signature covers\<close>

lemma cut_at_first: "x \<notin> set a \<Longrightarrow> cut_at x (a @ x # b) = Some (a, b)"
  by (induction a) auto

text \<open>The timestamp and the body can be told apart in the signed bytes.\<close>

lemma signed_bytes_unambiguous:
  assumes "FormatInt s @ signedSeparator @ body = FormatInt s' @ signedSeparator @ body'"
  shows "FormatInt s = FormatInt s' \<and> body = body'"
  using arg_cong [OF assms, of "cut_at CHR ''.''"] FormatInt_plain(1)
  by (simp add: signedSeparator_def cut_at_first)

lemma check_own_signature:
  assumes "vf_secret v = secret" "sign J secret at body = (signature, timestamp)"
  shows "check_signature J v signature timestamp body = Inr ()"
proof -
  have "cut_at CHR ''='' (''v1='' @ s) = Some (''v1'', s)" for s
    by (simp add: cut_at_first)
  then show ?thesis
    using assms by (auto simp: sign_def check_signature_def Let_def signatureVersion_def sdk_signatureVersion_def
        signedSeparator_def sdk_signedSeparator_def hex_roundtrip)
qed

lemma check_signature_iff:
  "check_signature J v signature timestamp body = Inr () \<longleftrightarrow>
     (\<exists>digest. signature = ''v1='' @ digest
        \<and> hex_DecodeString digest = Some (hmac_sha256 J (vf_secret v) (timestamp @ ''.'' @ body)))"
proof
  assume "check_signature J v signature timestamp body = Inr ()"
  then show "\<exists>digest. signature = ''v1='' @ digest
      \<and> hex_DecodeString digest = Some (hmac_sha256 J (vf_secret v) (timestamp @ ''.'' @ body))"
    by (auto simp: check_signature_def sdk_signatureVersion_def sdk_signedSeparator_def dest: cut_at_Some
        split: option.splits if_splits prod.splits)
next
  have "cut_at CHR ''='' (''v1='' @ s) = Some (''v1'', s)" for s
    by (simp add: cut_at_first)
  moreover assume "\<exists>digest. signature = ''v1='' @ digest
      \<and> hex_DecodeString digest = Some (hmac_sha256 J (vf_secret v) (timestamp @ ''.'' @ body))"
  ultimately show "check_signature J v signature timestamp body = Inr ()"
    by (auto simp: check_signature_def sdk_signatureVersion_def sdk_signedSeparator_def)
qed

subsection \<open>How far a timestamp may be\<close>

text \<open>
  Within the tolerance on either side; or so far ahead that the difference saturates, and its
  negation wraps back to a negative number.
\<close>

lemma within_tolerance_iff:
  assumes "0 < tol" "tol < 2 ^ 63 - 1"
  shows "within_tolerance tol now s \<longleftrightarrow>
    \<bar>now - time_Unix s\<bar> \<le> tol \<or> 2 ^ 63 \<le> time_Unix s - now"
proof (cases "2 ^ 63 \<le> time_Unix s - now")
  case True
  then have "time_Sub now (time_Unix s) = - (2 ^ 63)" by (simp add: time_Sub_def)
  then show ?thesis using True assms by (simp add: within_tolerance_def to_int64_neg_min [simplified])
next
  case False
  show ?thesis
  proof (cases "now - time_Unix s < 0")
    case True
    then have "time_Sub now (time_Unix s) = now - time_Unix s" using False by (simp add: time_Sub_def)
    moreover have "to_int64 (time_Unix s - now) = time_Unix s - now"
      using True False by (intro to_int64_id) simp_all
    ultimately show ?thesis using True False by (auto simp: within_tolerance_def)
  next
    case pos: False
    then have "time_Sub now (time_Unix s) = min (2 ^ 63 - 1) (now - time_Unix s)" by (simp add: time_Sub_def)
    then show ?thesis using pos assms False by (auto simp: within_tolerance_def min_def)
  qed
qed

lemma own_timestamp_fresh:
  assumes "0 \<le> at" "at < 2 ^ 62 * second" "\<bar>now - at\<bar> + second \<le> tol" "tol < 2 ^ 63 - 1"
  shows "within_tolerance tol now (Unix_seconds at)"
proof -
  have "0 \<le> at - at div second * second" "at - at div second * second < second"
    unfolding minus_div_mult_eq_mod by (simp_all add: second_def)
  then have "\<bar>now - at div second * second\<bar> \<le> tol" using assms(3) by linarith
  moreover have "0 < tol" using assms(3) by (simp add: second_def)
  ultimately show ?thesis using assms time_Unix_seconds [of at] by (simp add: within_tolerance_iff)
qed


subsection \<open>From the notifier to the receiver\<close>

definition wire_of :: "batch \<Rightarrow> wire_callback" where
  "wire_of b =
    \<lparr>wc_ID = bat_ID b, wc_NotificationID = bat_NotificationID b, wc_SentAt = bat_SentAt b,
     wc_Results = map (\<lambda>r.
       \<lparr>wr_DeliveryID = res_DeliveryID r, wr_Channel = res_Channel r, wr_Address = res_Address r,
        wr_Status = res_Status r, wr_SettledAt = res_SettledAt r, wr_Reason = res_Reason r,
        wr_ProviderMessageID = res_ProviderMessageID r\<rparr>) (bat_Results b)\<rparr>"

text \<open>What the notifier makes of the answer of an endpoint.\<close>

definition posted_answer :: "webhook \<Rightarrow> int result \<Rightarrow> ('w, unit) io" where
  "posted_answer h r = (case r of
      Inl err \<Rightarrow> throw (WithErr (WithStr (UnavailableErr ''the callback could not be delivered'')
        (Text ''webhook %s'' [FmtS (whk_ID h)])) err)
    | Inr status \<Rightarrow> lift (refused_status h status))"

text \<open>What a receiver should read of a delivery that settled.\<close>

definition told :: "callback_lib \<Rightarrow> delivery \<Rightarrow> callback_delivery" where
  "told J d =
    \<lparr>cd_ID = dlv_ID d, cd_Channel = Channel_String (rcp_Channel (dlv_Recipient d)),
     cd_Address = rcp_Address (dlv_Recipient d),
     cd_Status = (if dlv_status d = StatusSent then ''sent'' else ''failed''),
     cd_Reason = ToLower (cl_golib J) (Failure_String (dlv_failureReason d)),
     cd_ProviderMessageID = dlv_providerMessageID d, cd_SettledAt = dlv_updatedAt d\<rparr>"

lemma ToLower_names:
  "Channel_Valid c \<Longrightarrow> ToLower L (Channel_String c) = Channel_String c"
  "ToLower L ''SENT'' = ''sent''" "ToLower L ''FAILED'' = ''failed''"
proof -
  show "ToLower L (Channel_String c) = Channel_String c" if "Channel_Valid c"
    using that by (cases c) (simp_all add: ToLower_id byte_def)
  have "char_of (115 :: nat) = CHR ''s'' \<and> char_of (101 :: nat) = CHR ''e'' \<and> char_of (110 :: nat) = CHR ''n''
      \<and> char_of (116 :: nat) = CHR ''t'' \<and> char_of (102 :: nat) = CHR ''f'' \<and> char_of (97 :: nat) = CHR ''a''
      \<and> char_of (105 :: nat) = CHR ''i'' \<and> char_of (108 :: nat) = CHR ''l'' \<and> char_of (100 :: nat) = CHR ''d''"
    by code_simp
  then show "ToLower L ''SENT'' = ''sent''" "ToLower L ''FAILED'' = ''failed''"
    by (simp_all add: ToLower_ascii to_lower_rune_def byte_def)
qed

definition told_of :: "delivery \<Rightarrow> bool" where
  "told_of d \<longleftrightarrow> IsSettled d \<and> Channel_Valid (rcp_Channel (dlv_Recipient d))"

lemma settled_status: "IsSettled d \<Longrightarrow> dlv_status d = StatusSent \<or> dlv_status d = StatusFailed"
  by (cases "dlv_status d") (simp_all add: IsSettled_def)

lemma decode_settled:
  assumes "json_Unmarshal J body = Some (wire_of b)" "bat_Results b = results ds" "list_all told_of ds"
  shows "decodeCallback J body = Inr \<lparr>cb_ID = bat_ID b, cb_NotificationID = bat_NotificationID b,
    cb_SentAt = bat_SentAt b, cb_Deliveries = map (told J) ds\<rparr>"
proof -
  have "ToLower L (Status_String (dlv_status d)) = (if dlv_status d = StatusSent then ''sent'' else ''failed'')"
    if "d \<in> set ds" for d L
    using settled_status [of d] assms(3) that by (auto simp: list_all_iff told_of_def ToLower_names)
  moreover have "ToLower L (Channel_String (rcp_Channel (dlv_Recipient d))) = Channel_String (rcp_Channel (dlv_Recipient d))"
    if "d \<in> set ds" for d L
    using assms(3) that by (auto simp: list_all_iff told_of_def ToLower_names)
  ultimately show ?thesis
    using assms(1,2) by (simp add: decodeCallback_def wire_of_def results_def told_def)
qed

text \<open>
  C21. A callback that was posted is accepted and read as it was meant. When the notifier finds the
  source's secret, it makes one request, to the registered address; a receiver that checks with that
  secret, whose clock differs from the sender's by no more than its tolerance less a second, accepts
  exactly that request and reads the identifiers, addresses and outcomes of the settled deliveries,
  in the spelling of the SDK.
\<close>

theorem posted_callback_verifies:
  assumes "nt_secrets N (whk_SourceID h) w = (Some secret, w1)" "secret \<noteq> ''''"
    and "nt_now N w1 = (sent, w2)" "0 \<le> sent" "sent < 2 ^ 62 * second"
    and "json_Marshal (nt_lib N) b = Inr body" "json_Unmarshal (nt_lib N) body = Some (wire_of b)"
    and "bat_Results b = results ds" "list_all told_of ds"
    and "url_Parse (cl_golib (nt_lib N)) (whk_CallbackURL h) \<noteq> None"
    and "vf_secret v = secret" "vf_tolerance v < 2 ^ 63 - 1"
    and "vf_now v u = (received, u')" "\<bar>received - sent\<bar> + second \<le> vf_tolerance v"
  shows "\<exists>headers. Notify N (Some h) b w
        = attempt (hc_Do (nt_client N) (whk_CallbackURL h) headers body) (posted_answer h) w2
    \<and> Verify_callback (nt_lib N) v headers body u = (Inr \<lparr>cb_ID = bat_ID b,
        cb_NotificationID = bat_NotificationID b, cb_SentAt = bat_SentAt b,
        cb_Deliveries = map (told (nt_lib N)) ds\<rparr>, u')"
proof -
  let ?J = "nt_lib N"
  obtain signature timestamp where sg: "sign ?J secret sent body = (signature, timestamp)" by fastforce
  let ?hs = "[(''Content-Type'', ''application/json''), (signatureHeader, signature), (timestampHeader, timestamp)]"
  have ts: "timestamp = FormatInt (Unix_seconds sent)" "signature \<noteq> ''''"
    using sg by (auto simp: sign_def Let_def signatureVersion_def)
  have got: "header_Get ?hs SignatureHeader = signature" "header_Get ?hs TimestampHeader = timestamp"
    by (simp_all add: header_Get_def signatureHeader_def timestampHeader_def SignatureHeader_def TimestampHeader_def)
  have "within_tolerance (vf_tolerance v) received (Unix_seconds sent)"
    using assms by (intro own_timestamp_fresh) simp_all
  then have "fresh v timestamp u = (Inr (), u')"
    using time_Unix_seconds [of sent] assms by (simp add: fresh_def ts ParseInt_FormatInt)
  moreover have "check_signature ?J v signature timestamp body = Inr ()"
    using check_own_signature [OF assms(11) sg] .
  ultimately have "Verify_callback ?J v ?hs body u = (decodeCallback ?J body, u')"
    using ts FormatInt_plain(2) unfolding Verify_callback_def got Let_def by simp
  moreover obtain address where "url_Parse (cl_golib ?J) (whk_CallbackURL h) = Some address"
    using assms(10) by blast
  then have "Notify N (Some h) b w = attempt (hc_Do (nt_client N) (whk_CallbackURL h) ?hs body) (posted_answer h) w2"
    using assms(1,2,3,6) sg by (simp add: Notify_def call_def posted_answer_def [abs_def])
  ultimately show ?thesis using decode_settled [OF assms(7,8,9)] by auto
qed

definition demo_outcome :: delivery where
  "demo_outcome =
    \<lparr>dlv_ID = ''D'', dlv_NotificationID = ''N'', dlv_Recipient = \<lparr>rcp_Channel = ChannelEmail, rcp_Address = ''a@b''\<rparr>,
     dlv_SenderName = '''', dlv_status = StatusSent, dlv_attempts = 1, dlv_lastError = '''',
     dlv_failureReason = no_failure, dlv_providerMessageID = ''P'', dlv_notifiedAt = None, dlv_updatedAt = 7\<rparr>"

definition demo_batch :: batch where
  "demo_batch = \<lparr>bat_ID = ''B'', bat_NotificationID = ''N'', bat_SentAt = 8, bat_Results = results [demo_outcome]\<rparr>"

definition demo_callback_lib :: callback_lib where
  "demo_callback_lib =
    \<lparr>cl_golib = demo_golib\<lparr>url_Parse := \<lambda>s. Some \<lparr>Scheme = ''https'', Host = s, Hostname = s, has_User = False\<rparr>\<rparr>,
     json_Marshal = (\<lambda>b. if b = demo_batch then Inr ''{}'' else Inl (Foreign ''unsupported'')),
     json_Unmarshal = (\<lambda>s. if s = ''{}'' then Some (wire_of demo_batch) else None),
     hmac_sha256 = (\<lambda>key msg. ''x'')\<rparr>"

definition demo_hook :: webhook where
  "demo_hook = \<lparr>whk_ID = ''W'', whk_SourceID = ''S'', whk_CallbackURL = ''https://a.b'', whk_CreatedAt = 0,
     whk_UpdatedAt = 0, whk_isActive = True, whk_consecutiveFailures = 0\<rparr>"

definition demo_verifier :: "unit verifier" where
  "demo_verifier = \<lparr>vf_secret = ''k'', vf_tolerance = defaultTolerance,
     vf_now = (\<lambda>u. (unixToInternal * second + minute, u))\<rparr>"

definition demo_notifier :: "int result \<Rightarrow> unit callback_notifier" where
  "demo_notifier answer = \<lparr>nt_lib = demo_callback_lib, nt_client = \<lparr>hc_Do = (\<lambda>url hs body u. (answer, u))\<rparr>,
     nt_secrets = (\<lambda>s u. (Some ''k'', u)), nt_now = (\<lambda>u. (unixToInternal * second, u))\<rparr>"

definition demo_read :: callback where
  "demo_read = \<lparr>cb_ID = ''B'', cb_NotificationID = ''N'', cb_SentAt = 8, cb_Deliveries = [told demo_callback_lib demo_outcome]\<rparr>"

theorem posted_callback_verifies_witness:
  "\<exists>headers. Notify (demo_notifier (Inr 204)) (Some demo_hook) demo_batch ()
        = attempt (\<lambda>u. (Inr 204, u)) (posted_answer demo_hook) ()
    \<and> Verify_callback demo_callback_lib demo_verifier headers ''{}'' () = (Inr demo_read, ())"
  using posted_callback_verifies [of "demo_notifier (Inr 204)" demo_hook "()" "''k''" "()" "unixToInternal * second" "()"
      demo_batch "''{}''" "[demo_outcome]" demo_verifier "()" "unixToInternal * second + minute" "()"]
  by (simp add: demo_notifier_def demo_callback_lib_def demo_hook_def demo_verifier_def demo_read_def
      demo_batch_def told_of_def demo_outcome_def IsSettled_def defaultTolerance_def minute_def second_def unixToInternal_def)

text \<open>What \<open>Verify\<close> asks of the signature: the version, and the HMAC of the timestamp and the body in hex.\<close>

definition signed_with :: "callback_lib \<Rightarrow> string \<Rightarrow> string \<Rightarrow> string \<Rightarrow> string \<Rightarrow> bool" where
  "signed_with J secret signature timestamp body \<longleftrightarrow> take 3 signature = ''v1=''
     \<and> hex_DecodeString (drop 3 signature) = Some (hmac_sha256 J secret (timestamp @ ''.'' @ body))"

lemma check_signature_signed:
  "check_signature J v signature timestamp body = Inr () \<longleftrightarrow> signed_with J (vf_secret v) signature timestamp body"
proof -
  have "(\<exists>d. signature = ''v1='' @ d \<and> Q d) \<longleftrightarrow> take 3 signature = ''v1='' \<and> Q (drop 3 signature)" for Q
    by (metis append_eq_conv_conj append_take_drop_id length_Cons list.size(3) numeral_3_eq_3)
  then show ?thesis unfolding check_signature_iff signed_with_def .
qed

lemma check_signature_refuses:
  "check_signature J v signature timestamp body = Inl e \<Longrightarrow> callback_is e ErrSignatureInvalid"
  by (auto simp: check_signature_def split: option.splits prod.splits if_splits)

text \<open>
  C22. Only what was signed with the secret is accepted, and what is wrong is named. A request without
  one of the headers is refused as unsigned; one whose signature is not the HMAC of its timestamp and
  body as they arrived, or whose timestamp is no number of seconds, as badly signed; a signed one
  further than the tolerance from the receiver's clock as too old; and any other is answered as its
  body reads. But a signed timestamp more than 292 years ahead is not refused, because its difference
  saturates and cannot be negated in 64 bits. The tolerance is above zero, as \<open>NewVerifier\<close> sees to,
  and below the largest duration.
\<close>

theorem Verify_accepts_iff:
  assumes "0 < vf_tolerance v" "vf_tolerance v < 2 ^ 63 - 1"
  shows "let r = fst (Verify_callback J v headers body w);
       signature = header_Get headers SignatureHeader; timestamp = header_Get headers TimestampHeader;
       now = fst (vf_now v w) in
     if signature = '''' \<or> timestamp = '''' then r = Inl (Bare ErrSignatureMissing)
     else if \<not> signed_with J (vf_secret v) signature timestamp body
       then \<exists>e. r = Inl e \<and> callback_is e ErrSignatureInvalid
     else case ParseInt timestamp of
       None \<Rightarrow> \<exists>e. r = Inl e \<and> callback_is e ErrSignatureInvalid
     | Some s \<Rightarrow>
         if \<bar>now - time_Unix s\<bar> \<le> vf_tolerance v \<or> 2 ^ 63 \<le> time_Unix s - now then r = decodeCallback J body
         else \<exists>e. r = Inl e \<and> callback_is e ErrCallbackTooOld"
proof -
  let ?sig = "header_Get headers SignatureHeader" and ?ts = "header_Get headers TimestampHeader"
  show ?thesis
  proof (cases "?sig = '''' \<or> ?ts = ''''")
    case True
    then show ?thesis by (simp add: Verify_callback_def Let_def)
  next
    case present: False
    show ?thesis
    proof (cases "check_signature J v ?sig ?ts body")
      case (Inl e)
      then have "\<not> signed_with J (vf_secret v) ?sig ?ts body" by (simp flip: check_signature_signed)
      then show ?thesis using present Inl check_signature_refuses by (simp add: Verify_callback_def Let_def)
    next
      case (Inr u)
      then have "signed_with J (vf_secret v) ?sig ?ts body" by (simp flip: check_signature_signed)
      then show ?thesis using present Inr within_tolerance_iff [OF assms]
        by (cases "vf_now v w") (simp add: Verify_callback_def fresh_def Let_def split: option.split)
    qed
  qed
qed

theorem Verify_accepts_iff_witness:
  "fst (Verify_callback demo_callback_lib demo_verifier
      [(SignatureHeader, ''v1=78''), (TimestampHeader, ''10000000000'')] ''{}'' ()) = Inr demo_read
   \<and> minute < time_Unix 10000000000 - fst (vf_now demo_verifier ())"
proof -
  have "hex_DecodeString ''78'' = Some ''x''" "ParseInt ''10000000000'' = Some 10000000000"
    by (code_simp, simp add: ParseInt_def ParseUint_def digits_value_def is_digit_def byte_def)
  moreover have "time_Unix 10000000000 = 72135596800 * second"
    by (simp add: time_Unix_def unixToInternal_def to_int64_id)
  moreover have "decodeCallback demo_callback_lib ''{}'' = Inr demo_read"
    using decode_settled [of demo_callback_lib "''{}''" demo_batch "[demo_outcome]"]
    by (simp add: demo_callback_lib_def demo_batch_def demo_read_def told_of_def demo_outcome_def IsSettled_def)
  ultimately have "fst (Verify_callback demo_callback_lib demo_verifier
      [(SignatureHeader, ''v1=78''), (TimestampHeader, ''10000000000'')] ''{}'' ()) = Inr demo_read"
    using Verify_accepts_iff [of demo_verifier demo_callback_lib
        "[(SignatureHeader, ''v1=78''), (TimestampHeader, ''10000000000'')]" "''{}''" "()"]
    by (simp add: header_Get_def SignatureHeader_def TimestampHeader_def signed_with_def
        demo_verifier_def defaultTolerance_def demo_callback_lib_def minute_def second_def unixToInternal_def)
  then show ?thesis
    by (simp add: demo_verifier_def time_Unix_def unixToInternal_def to_int64_id minute_def second_def)
qed

end
