(* ===== verification/Limiter.thy ===== *)
theory Limiter
  imports Source
begin

text \<open>
  \<open>internal/adapter/ratelimit\<close>: one token bucket a source, in memory, and the sweep that forgets full
  buckets. The bucket is \<open>rate.Limiter\<close> of golang.org/x/time: what it is, a new one, \<open>AllowN\<close> of one
  token and whether \<open>TokensAt\<close> has reached the burst are parameters.
\<close>

record 'b bucket_lib =
  NewLimiter :: "int \<Rightarrow> 'b"
  AllowN :: "'b \<Rightarrow> time \<Rightarrow> bool \<times> 'b"
  TokensFull :: "int \<Rightarrow> 'b \<Rightarrow> time \<Rightarrow> bool"

definition sweepEvery :: duration where
  "sweepEvery = 5 * minute"

record 'b rate_memory =
  rm_buckets :: "string \<rightharpoonup> 'b"
  rm_burst :: int
  rm_lastSweep :: time

definition NewMemory :: "int \<Rightarrow> time \<Rightarrow> 'b rate_memory result" where
  "NewMemory perMinute now =
    (if perMinute \<le> 0 then
       Inl (WithStr (InternalErr ''rate limit must be above zero'') (Text ''got %d per minute'' [FmtD perMinute]))
     else Inr \<lparr>rm_buckets = (\<lambda>i. None), rm_burst = perMinute, rm_lastSweep = now\<rparr>)"

definition rate_sweep :: "'b bucket_lib \<Rightarrow> time \<Rightarrow> 'b rate_memory \<Rightarrow> 'b rate_memory" where
  "rate_sweep B now m =
    (if time_Sub now (rm_lastSweep m) < sweepEvery then m
     else m\<lparr>rm_lastSweep := now,
            rm_buckets := (\<lambda>i. case rm_buckets m i of
                None \<Rightarrow> None
              | Some b \<Rightarrow> if TokensFull B (rm_burst m) b now then None else Some b)\<rparr>)"

text \<open>\<open>Allow\<close> reads the clock once; the call is one step because it holds the lock.\<close>

definition Allow :: "'b bucket_lib \<Rightarrow> time \<Rightarrow> string \<Rightarrow> 'b rate_memory \<Rightarrow> bool result \<times> 'b rate_memory" where
  "Allow B now sourceID m =
    (let m = rate_sweep B now m;
         b = (case rm_buckets m sourceID of Some b \<Rightarrow> b | None \<Rightarrow> NewLimiter B (rm_burst m));
         (ok, b') = AllowN B b now in
     (Inr ok, m\<lparr>rm_buckets := (rm_buckets m)(sourceID \<mapsto> b')\<rparr>))"

fun Allow_run ::
    "'b bucket_lib \<Rightarrow> (time \<times> string) list \<Rightarrow> 'b rate_memory \<Rightarrow> bool result list \<times> 'b rate_memory" where
  "Allow_run B [] m = ([], m)"
| "Allow_run B ((now, s) # calls) m =
    (let (r, m') = Allow B now s m; (rs, m'') = Allow_run B calls m' in (r # rs, m''))"

subsection \<open>What the limiter promises\<close>

text \<open>A bucket for every source from the start, and none is ever dropped.\<close>

fun quota_run :: "'b bucket_lib \<Rightarrow> (time \<times> string) list \<Rightarrow> (string \<Rightarrow> 'b) \<Rightarrow> bool result list" where
  "quota_run B [] q = []"
| "quota_run B ((now, s) # calls) q =
    (let (ok, b') = AllowN B (q s) now in Inr ok # quota_run B calls (q(s := b')))"

text \<open>
  The documented behaviour the sweep relies on: a bucket that holds its whole burst answers, then
  and later, as one that was never used.
\<close>

definition full_is_new :: "'b bucket_lib \<Rightarrow> bool" where
  "full_is_new B \<longleftrightarrow> (\<forall>n b t u. TokensFull B n b t \<longrightarrow> t \<le> u \<longrightarrow> AllowN B b u = AllowN B (NewLimiter B n) u)"

definition slot_is :: "'b bucket_lib \<Rightarrow> int \<Rightarrow> time \<Rightarrow> 'b option \<Rightarrow> 'b \<Rightarrow> bool" where
  "slot_is B n now slot b = (case slot of
      Some b' \<Rightarrow> b' = b
    | None \<Rightarrow> \<forall>u \<ge> now. AllowN B b u = AllowN B (NewLimiter B n) u)"

definition represents :: "'b bucket_lib \<Rightarrow> time \<Rightarrow> 'b rate_memory \<Rightarrow> (string \<Rightarrow> 'b) \<Rightarrow> bool" where
  "represents B now m q \<longleftrightarrow> (\<forall>s. slot_is B (rm_burst m) now (rm_buckets m s) (q s))"

lemma slot_is_simps [simp]:
  "slot_is B n now (Some b') b \<longleftrightarrow> b' = b"
  "slot_is B n now None b \<longleftrightarrow> (\<forall>u \<ge> now. AllowN B b u = AllowN B (NewLimiter B n) u)"
  by (simp_all add: slot_is_def)

lemma represents_later: "represents B now m q \<Longrightarrow> now \<le> now' \<Longrightarrow> represents B now' m q"
proof -
  have "slot_is B n now slot b \<Longrightarrow> now \<le> now' \<Longrightarrow> slot_is B n now' slot b" for n slot b
    by (cases slot) simp_all
  then show "represents B now m q \<Longrightarrow> now \<le> now' \<Longrightarrow> represents B now' m q"
    unfolding represents_def by blast
qed

lemma represents_sweep:
  assumes "full_is_new B" "represents B now m q"
  shows "represents B now (rate_sweep B now m) q"
proof -
  have "slot_is B n now slot b \<Longrightarrow>
      slot_is B n now (case slot of None \<Rightarrow> None | Some b \<Rightarrow> if TokensFull B n b now then None else Some b) b" for n slot b
    using assms(1) by (cases slot) (auto simp: full_is_new_def)
  then show ?thesis using assms(2) by (simp add: represents_def rate_sweep_def)
qed

lemma rate_sweep_burst [simp]: "rm_burst (rate_sweep B now m) = rm_burst m"
  by (simp add: rate_sweep_def)

lemma represents_allow:
  assumes "full_is_new B" "represents B now m q"
  shows "\<exists>ok b'. AllowN B (q s) now = (ok, b')
    \<and> fst (Allow B now s m) = Inr ok \<and> represents B now (snd (Allow B now s m)) (q(s := b'))"
proof -
  let ?m = "rate_sweep B now m"
  have rep: "represents B now ?m q" by (rule represents_sweep [OF assms])
  let ?b = "case rm_buckets ?m s of Some b \<Rightarrow> b | None \<Rightarrow> NewLimiter B (rm_burst ?m)"
  have same: "AllowN B ?b now = AllowN B (q s) now"
    using rep [unfolded represents_def, THEN spec, of s] by (cases "rm_buckets ?m s") simp_all
  obtain ok b' where step: "AllowN B (q s) now = (ok, b')" by fastforce
  then have "Allow B now s m = (Inr ok, ?m\<lparr>rm_buckets := (rm_buckets ?m)(s \<mapsto> b')\<rparr>)"
    using same unfolding Allow_def Let_def by simp
  moreover have "represents B now (?m\<lparr>rm_buckets := (rm_buckets ?m)(s \<mapsto> b')\<rparr>) (q(s := b'))"
    using rep by (simp add: represents_def)
  ultimately show ?thesis using step by simp
qed

lemma Allow_run_represents:
  assumes "full_is_new B" "represents B t0 m q" "sorted (map fst calls)" "\<forall>c \<in> set calls. t0 \<le> fst c"
  shows "fst (Allow_run B calls m) = quota_run B calls q"
  using assms(2-)
proof (induction calls arbitrary: t0 m q)
  case Nil
  then show ?case by simp
next
  case (Cons c calls)
  obtain now s where c: "c = (now, s)" by fastforce
  have rep: "represents B now m q" using represents_later [OF Cons.prems(1)] Cons.prems(3) c by simp
  obtain ok b' where step: "AllowN B (q s) now = (ok, b')" "fst (Allow B now s m) = Inr ok"
    "represents B now (snd (Allow B now s m)) (q(s := b'))"
    using represents_allow [OF assms(1) rep] by blast
  have "fst (Allow_run B calls (snd (Allow B now s m))) = quota_run B calls (q(s := b'))"
    by (rule Cons.IH [OF step(3)]) (use Cons.prems c in auto)
  then show ?case using c step(1,2) by (simp add: case_prod_beta Let_def)
qed

text \<open>
  C38. Forgetting idle sources changes no answer. Whatever calls are made, in the order of the clock,
  the limiter that sweeps its full buckets answers exactly as one that keeps a bucket for every source
  for ever.
\<close>

theorem limiter_refines_quota:
  assumes "full_is_new B" "NewMemory perMinute t0 = Inr m"
    and "sorted (map fst calls)" "\<forall>c \<in> set calls. t0 \<le> fst c"
  shows "fst (Allow_run B calls m) = quota_run B calls (\<lambda>s. NewLimiter B perMinute)"
proof (rule Allow_run_represents [OF assms(1) _ assms(3,4)])
  show "represents B t0 m (\<lambda>s. NewLimiter B perMinute)"
    using assms(2) by (auto simp: NewMemory_def represents_def split: if_splits)
qed

text \<open>
  An instance: tokens in sixtieths of a nanosecond's refill, so that the arithmetic is exact.
\<close>

definition demo_buckets :: "(int \<times> int \<times> time) bucket_lib" where
  "demo_buckets =
    \<lparr>NewLimiter = (\<lambda>n. (n, n * minute, 0)),
     AllowN = (\<lambda>(n, tokens, last) t.
       let have_now = min (n * minute) (tokens + n * max 0 (t - last)) in
       if minute \<le> have_now then (True, (n, have_now - minute, max last t)) else (False, (n, have_now, max last t))),
     TokensFull = (\<lambda>n (n', tokens, last) t.
       n' = n \<and> last \<le> t \<and> 0 < n \<and> 0 \<le> t \<and> n * minute \<le> tokens + n * (t - last))\<rparr>"

lemma demo_buckets_full: "full_is_new demo_buckets"
  unfolding full_is_new_def
proof (intro allI impI)
  fix n b t u
  assume full: "TokensFull demo_buckets n b t" and "t \<le> u"
  obtain n' tokens last where b: "b = (n', tokens, last)" by (cases b) auto
  have n: "n' = n" "last \<le> t" "0 < n" "0 \<le> t" "n * minute \<le> tokens + n * (t - last)"
    using full by (simp_all add: demo_buckets_def b)
  have "n * (t - last) \<le> n * (u - last)" using n \<open>t \<le> u\<close> by (intro mult_left_mono) simp_all
  then have "n * minute \<le> tokens + n * (u - last)" using n by linarith
  moreover have "0 \<le> n * u" using n \<open>t \<le> u\<close> by simp
  moreover have "1 * minute \<le> n * minute" using n by (intro mult_right_mono) (simp_all add: minute_def second_def)
  ultimately have "min (n * minute) (tokens + n * (u - last)) = n * minute"
      "min (n * minute) (n * minute + n * u) = n * minute" "minute \<le> n * minute"
    by simp_all
  then show "AllowN demo_buckets b u = AllowN demo_buckets (NewLimiter demo_buckets n) u"
    using n \<open>t \<le> u\<close> by (simp add: demo_buckets_def b max_def Let_def del: min.bounded_iff)
qed

theorem limiter_refines_quota_witness:
  "\<exists>m. NewMemory 1 0 = Inr m
    \<and> fst (Allow_run demo_buckets [(0, ''a''), (1, ''a''), (6 * minute, ''b''), (7 * minute, ''a'')] m)
      = [Inr True, Inr False, Inr True, Inr True]"
proof -
  obtain m :: "(int \<times> int \<times> time) rate_memory" where m: "NewMemory 1 0 = Inr m"
    by (simp add: NewMemory_def)
  have "fst (Allow_run demo_buckets [(0, ''a''), (1, ''a''), (6 * minute, ''b''), (7 * minute, ''a'')] m)
      = quota_run demo_buckets [(0, ''a''), (1, ''a''), (6 * minute, ''b''), (7 * minute, ''a'')]
          (\<lambda>s. NewLimiter demo_buckets 1)"
    by (rule limiter_refines_quota [OF demo_buckets_full m]) (simp_all add: minute_def second_def)
  also have "\<dots> = [Inr True, Inr False, Inr True, Inr True]"
    by (simp add: demo_buckets_def minute_def second_def)
  finally show ?thesis using m by blast
qed

end
