(* ===== verification/Capacity.thy ===== *)
theory Capacity
  imports Console Encoding
begin

text \<open>
  \<open>internal/core/usecase/capacity.go\<close>: the operator is told when the disk runs out of room and when
  it has room again. Sizes are 64-bit words, as the code has them; a share of a gigabyte is printed
  with one digit, through the \<open>float64\<close> the code converts to.
\<close>

subsection \<open>A size as text\<close>

definition round_even :: "nat \<Rightarrow> nat \<Rightarrow> nat" where
  "round_even n d =
    (let q = n div d; r = n mod d in
     if 2 * r < d then q else if d < 2 * r then Suc q else if even q then q else Suc q)"

text \<open>The integer a \<open>float64\<close> holds: 53 bits, rounded to even.\<close>

fun bit_count :: "nat \<Rightarrow> nat" where
  "bit_count n = (if n = 0 then 0 else Suc (bit_count (n div 2)))"

declare bit_count.simps [simp del]

definition float64_of :: "nat \<Rightarrow> nat" where
  "float64_of n = (if n < 2 ^ 53 then n
     else let k = bit_count n - 53 in round_even n (2 ^ k) * 2 ^ k)"

definition unit_gb :: nat where
  "unit_gb = 2 ^ 30"

definition tenths_gb :: "64 word \<Rightarrow> nat" where
  "tenths_gb b = round_even (10 * float64_of (unat b)) unit_gb"

definition gb :: "64 word \<Rightarrow> string" where
  "gb b =
    (if unat b < unit_gb then decimal_text (unat (drop_bit 20 b)) @ '' MB''
     else decimal_text (tenths_gb b div 10) @ ''.'' @ decimal_text (tenths_gb b mod 10) @ '' GB'')"

subsection \<open>The check\<close>

type_synonym 'w named_store = "string \<times> ('w, 64 word) io"

record 'w capacity =
  cap_fs :: "string \<Rightarrow> ('w, 64 word \<times> 64 word) io"
  cap_alert :: "'w alerter"
  cap_sources :: "'w named_store list"
  cap_path :: string
  cap_floor :: "64 word"
  cap_low :: bool

definition NewCapacity ::
    "(string \<Rightarrow> ('w, 64 word \<times> 64 word) io) \<Rightarrow> 'w alerter \<Rightarrow> string \<Rightarrow> 64 word \<Rightarrow> 'w capacity" where
  "NewCapacity fs a path floor =
    \<lparr>cap_fs = fs, cap_alert = a, cap_sources = [], cap_path = path, cap_floor = floor, cap_low = False\<rparr>"

definition Watch :: "string \<Rightarrow> ('w, 64 word) io option \<Rightarrow> 'w capacity \<Rightarrow> 'w capacity" where
  "Watch name s C = (case s of None \<Rightarrow> C | Some m \<Rightarrow> C\<lparr>cap_sources := cap_sources C @ [(name, m)]\<rparr>)"

text \<open>The loop over the stores: the text so far and what is ours so far.\<close>

fun store_lines :: "'w named_store list \<Rightarrow> string \<Rightarrow> 64 word \<Rightarrow> 'w \<Rightarrow> (string \<times> 64 word) \<times> 'w" where
  "store_lines [] d ours w = ((d, ours), w)"
| "store_lines ((name, m) # rest) d ours w =
    (case m w of
       (Inl err, w') \<Rightarrow> store_lines rest (d @ [char_of (10 :: nat)] @ name @ '': unknown'') ours w'
     | (Inr n, w') \<Rightarrow> store_lines rest (d @ [char_of (10 :: nat)] @ name @ '': '' @ gb n) (ours + n) w')"

definition detail :: "'w capacity \<Rightarrow> 64 word \<Rightarrow> 64 word \<Rightarrow> ('w, string) act" where
  "detail C available all w =
    (let d = gb available @ '' free of '' @ gb all @ '' at '' @ cap_path C in
     case store_lines (cap_sources C) d 0 w of
       ((d, ours), w') \<Rightarrow>
         (if cap_sources C \<noteq> [] \<and> 0 < ours \<and> available < all
          then d @ [char_of (10 :: nat)] @ ''srosha is '' @ gb ours @ '' of the '' @ gb (all - available) @ '' in use''
          else d, w'))"

definition capacity_Check :: "'w capacity \<Rightarrow> 'w \<Rightarrow> (unit result \<times> 'w capacity) \<times> 'w" where
  "capacity_Check C w =
    (case cap_fs C (cap_path C) w of
       (Inl err, w') \<Rightarrow>
         ((Inl (WithErr (WithStr (InternalErr ''the request could not be completed'')
             (Text ''read free space at %s'' [FmtS (cap_path C)])) err), C), w')
     | (Inr (available, all), w') \<Rightarrow>
         if available < cap_floor C \<and> \<not> cap_low C then
           (case detail C available all w' of (d, w'') \<Rightarrow>
            case alt_Notify (cap_alert C) ''disk is running out'' d w'' of (_, w''') \<Rightarrow>
              ((Inr (), C\<lparr>cap_low := True\<rparr>), w'''))
         else if cap_floor C \<le> available \<and> cap_low C then
           (case detail C available all w' of (d, w'') \<Rightarrow>
            case alt_Notify (cap_alert C) ''disk has room again'' d w'' of (_, w''') \<Rightarrow>
              ((Inr (), C\<lparr>cap_low := False\<rparr>), w'''))
         else ((Inr (), C), w'))"

fun Check_run :: "nat \<Rightarrow> 'w capacity \<Rightarrow> 'w \<Rightarrow> unit result list \<times> 'w" where
  "Check_run 0 C w = ([], w)"
| "Check_run (Suc n) C w =
    (case capacity_Check C w of ((r, C'), w') \<Rightarrow>
     case Check_run n C' w' of (rs, w'') \<Rightarrow> (r # rs, w''))"

subsection \<open>The disk over time\<close>

text \<open>
  A deployment for the statements: the \<open>k\<close>-th look at the disk reads \<open>reading k\<close>, the stores answer
  from a state of their own, and the alerts are kept.
\<close>

type_synonym 'u watch = "nat \<times> 'u \<times> (string \<times> string) list"

definition looking :: "(nat \<Rightarrow> (64 word \<times> 64 word) result) \<Rightarrow> string \<Rightarrow> ('u watch, 64 word \<times> 64 word) io" where
  "looking reading path = (\<lambda>(k, u, as). (reading k, (Suc k, u, as)))"

definition sized :: "('u, 64 word) io \<Rightarrow> ('u watch, 64 word) io" where
  "sized m = (\<lambda>(k, u, as). case m u of (r, u') \<Rightarrow> (r, (k, u', as)))"

definition noting :: "'u watch alerter" where
  "noting = \<lparr>alt_Notify = (\<lambda>s d (k, u, as). ((), (k, u, as @ [(s, d)])))\<rparr>"

definition watching ::
    "(nat \<Rightarrow> (64 word \<times> 64 word) result) \<Rightarrow> (string \<times> ('u, 64 word) io) list \<Rightarrow> string \<Rightarrow> 64 word \<Rightarrow> 'u watch capacity" where
  "watching reading stores path floor =
    fold (\<lambda>(name, m). Watch name (Some (sized m))) stores (NewCapacity (looking reading) noting path floor)"

text \<open>What ought to be said: one alert at each crossing of the floor, starting with room.\<close>

definition title :: "bool \<Rightarrow> string" where
  "title low = (if low then ''disk is running out'' else ''disk has room again'')"

fun successes :: "(64 word \<times> 64 word) result list \<Rightarrow> (64 word \<times> 64 word) list" where
  "successes [] = []"
| "successes (Inl e # rs) = successes rs"
| "successes (Inr x # rs) = x # successes rs"

definition crossings :: "bool \<Rightarrow> 64 word \<Rightarrow> (64 word \<times> 64 word) list \<Rightarrow> bool list" where
  "crossings low floor rs = tl (remdups_adj (low # map (\<lambda>(a, t). a < floor) rs))"

lemma crossings_simps [simp]:
  "crossings low floor [] = []"
  "crossings low floor ((a, t) # rs) =
     (if (a < floor) = low then crossings low floor rs else (a < floor) # crossings (a < floor) floor rs)"
proof -
  have "tl (x # remdups_adj (y # xs)) = y # tl (remdups_adj (y # xs))" for x y :: bool and xs
    using hd_remdups_adj [of "y # xs"] remdups_adj_Nil_iff [of "y # xs"]
    by (cases "remdups_adj (y # xs)") simp_all
  then show "crossings low floor [] = []"
    "crossings low floor ((a, t) # rs) =
       (if (a < floor) = low then crossings low floor rs else (a < floor) # crossings (a < floor) floor rs)"
    by (auto simp: crossings_def)
qed

lemma store_lines_watch:
  "\<forall>(name, m) \<in> set stores. \<exists>m'. m = sized m' \<Longrightarrow>
     \<exists>u' x. store_lines stores d ours (k, u, as) = (x, (k, u', as))"
proof (induction stores arbitrary: d ours u)
  case Nil
  then show ?case by simp
next
  case (Cons s stores)
  obtain name m where s: "s = (name, sized m)" using Cons.prems by (cases s) auto
  obtain r u' where "m u = (r, u')" by fastforce
  with Cons s show ?case by (cases r) (simp_all add: sized_def)
qed

definition watched :: "(nat \<Rightarrow> (64 word \<times> 64 word) result) \<Rightarrow> 'u watch capacity \<Rightarrow> bool" where
  "watched reading C \<longleftrightarrow> cap_fs C = looking reading \<and> cap_alert C = noting
     \<and> (\<forall>(name, m) \<in> set (cap_sources C). \<exists>m'. m = sized m')"

lemma watched_watching:
  "watched reading (watching reading stores path floor) \<and> cap_floor (watching reading stores path floor) = floor
     \<and> \<not> cap_low (watching reading stores path floor)"
proof -
  let ?P = "\<lambda>C. watched reading C \<and> cap_floor C = floor \<and> \<not> cap_low C"
  have "?P C \<Longrightarrow> ?P (fold (\<lambda>(name, m). Watch name (Some (sized m))) stores C)" for C
  proof (induction stores arbitrary: C)
    case Nil
    then show ?case by simp
  next
    case (Cons s stores)
    have "?P ((case s of (name, m) \<Rightarrow> Watch name (Some (sized m))) C)"
      using Cons.prems by (cases s) (auto simp: Watch_def watched_def)
    from Cons.IH [OF this] show ?case unfolding fold.simps comp_def .
  qed
  moreover have "?P (NewCapacity (looking reading) noting path floor)"
    by (simp add: NewCapacity_def watched_def)
  ultimately show ?thesis unfolding watching_def by blast
qed

lemma detail_watch:
  assumes "watched reading C"
  shows "\<exists>d u'. detail C a t (k, u, as) = (d, (k, u', as))"
proof -
  obtain x u' where "store_lines (cap_sources C) (gb a @ '' free of '' @ gb t @ '' at '' @ cap_path C) 0 (k, u, as) = (x, (k, u', as))"
    using store_lines_watch [of "cap_sources C"] assms unfolding watched_def by blast
  then show ?thesis by (cases x) (simp add: detail_def)
qed

lemma check_step:
  assumes "watched reading C" and k: "reading k = Inr (a, t)"
  shows "\<exists>d u'. capacity_Check C (k, u, as) =
    ((Inr (), C\<lparr>cap_low := a < cap_floor C\<rparr>),
     (Suc k, u', as @ (if (a < cap_floor C) = cap_low C then [] else [(title (a < cap_floor C), d)])))"
proof -
  obtain d u' where d: "detail C a t (Suc k, u, as) = (d, (Suc k, u', as))"
    using detail_watch [OF assms(1)] by blast
  have look: "cap_fs C (cap_path C) (k, u, as) = (Inr (a, t), (Suc k, u, as))"
    and note_it: "alt_Notify (cap_alert C) s e (j, v, bs) = ((), (j, v, bs @ [(s, e)]))" for s e j v bs
    using assms by (simp_all add: watched_def looking_def noting_def)
  show ?thesis
  proof (cases "(a < cap_floor C) = cap_low C")
    case True
    then have "capacity_Check C (k, u, as) = ((Inr (), C), (Suc k, u, as))" and "C\<lparr>cap_low := a < cap_floor C\<rparr> = C"
      unfolding capacity_Check_def look by (auto simp: not_less)
    with True show ?thesis by simp
  next
    case False
    then have "capacity_Check C (k, u, as) =
        ((Inr (), C\<lparr>cap_low := a < cap_floor C\<rparr>), (Suc k, u', as @ [(title (a < cap_floor C), d)]))"
      unfolding capacity_Check_def look by (cases "cap_low C") (auto simp: d note_it title_def not_less)
    with False show ?thesis by auto
  qed
qed

lemma check_failed:
  assumes "watched reading C" "reading k = Inl e"
  shows "\<exists>e'. capacity_Check C (k, u, as) = ((Inl e', C), (Suc k, u, as))"
  using assms by (simp add: capacity_Check_def watched_def looking_def)

lemma check_run:
  assumes "watched reading C"
  shows "map (\<lambda>r. r = Inr ()) (fst (Check_run n C (k, u, as))) = map (\<lambda>j. \<not> isl (reading j)) [k..<k + n]
    \<and> map fst (snd (snd (snd (Check_run n C (k, u, as)))))
      = map fst as @ map title (crossings (cap_low C) (cap_floor C) (successes (map reading [k..<k + n])))"
  using assms
proof (induction n arbitrary: C k u as)
  case 0
  then show ?case by simp
next
  case (Suc n)
  have upt: "[k..<k + Suc n] = k # [Suc k..<Suc k + n]" by (simp add: upt_rec)
  show ?case
  proof (cases "reading k")
    case (Inl e)
    then obtain e' where "capacity_Check C (k, u, as) = ((Inl e', C), (Suc k, u, as))"
      using check_failed [OF Suc.prems] by blast
    with Suc.IH [OF Suc.prems, of "Suc k" u as] Inl show ?thesis
      unfolding upt by (simp add: case_prod_beta)
  next
    case (Inr x)
    obtain a t where x: "x = (a, t)" by fastforce
    let ?C = "C\<lparr>cap_low := a < cap_floor C\<rparr>"
    obtain d u' where st: "capacity_Check C (k, u, as) = ((Inr (), ?C),
        (Suc k, u', as @ (if (a < cap_floor C) = cap_low C then [] else [(title (a < cap_floor C), d)])))"
      using check_step [OF Suc.prems] Inr x by blast
    have "watched reading ?C" using Suc.prems by (simp add: watched_def)
    note IH = Suc.IH [OF this, of "Suc k" u' "as @ (if (a < cap_floor C) = cap_low C then [] else [(title (a < cap_floor C), d)])"]
    show ?thesis using IH Inr x unfolding upt by (simp add: st case_prod_beta)
  qed
qed

text \<open>
  The operator hears of every crossing once. Whatever the disk reads, whatever looks at it fail
  and whatever the stores answer, the alerts sent are one for each change between too little room and
  enough, in order, starting with the first shortage; a look that fails answers an error, sends
  nothing and forgets nothing.
\<close>

theorem alerts_at_crossings:
  assumes "Check_run n (watching reading stores path floor) (0, u, []) = (rs, (n', u', alerts))"
  shows "map (\<lambda>r. r = Inr ()) rs = map (\<lambda>k. \<not> isl (reading k)) [0..<n]
    \<and> map fst alerts = map title (crossings False floor (successes (map reading [0..<n])))"
  using check_run [of reading "watching reading stores path floor" n 0 u "[]"] watched_watching [of reading stores path floor]
  by (simp add: assms)

definition demo_reading :: "nat \<Rightarrow> (64 word \<times> 64 word) result" where
  "demo_reading k = (if k = 2 then Inl (Foreign ''stale handle'')
     else Inr ([9, 3, 3, 4, 8] ! k, 10))"

theorem alerts_at_crossings_witness:
  "\<exists>rs w. Check_run 5 (watching demo_reading [(''db'', ret 2 :: (unit, 64 word) io)] ''/'' 5) (0, (), []) = (rs, w)
     \<and> map fst (snd (snd w)) = [''disk is running out'', ''disk has room again'']"
proof -
  obtain rs n' u' alerts where run:
    "Check_run 5 (watching demo_reading [(''db'', ret 2 :: (unit, 64 word) io)] ''/'' 5) (0, (), []) = (rs, (n', u', alerts))"
    using prod_cases4 by blast
  from alerts_at_crossings [OF run] have "map fst alerts = [''disk is running out'', ''disk has room again'']"
    by (simp add: upt_rec demo_reading_def title_def)
  with run show ?thesis by simp
qed

end
