(* ===== verification/ApiKey.thy ===== *)
theory ApiKey
  imports Console Encoding
begin

text \<open>
  \<open>internal/adapter/auth\<close>: what an API key looks like, how one is minted and how one is recognised.
  SHA-256 and the random source are parameters; the random source answers 32 bytes or an error.
\<close>

definition key_prefix :: string where
  "key_prefix = ''srosha_''"

definition randomBytes :: nat where
  "randomBytes = 32"

definition bodyLen :: nat where
  "bodyLen = 43"

definition Hash :: "(string \<Rightarrow> string) \<Rightarrow> string \<Rightarrow> string" where
  "Hash sha256 key = hex_EncodeToString (sha256 key)"

definition Mint :: "(string \<Rightarrow> string) \<Rightarrow> (nat \<Rightarrow> ('w, string) io) \<Rightarrow> ('w, string \<times> string) io" where
  "Mint sha256 rand =
    attempt (rand randomBytes) (\<lambda>r. case r of
      Inl err \<Rightarrow> throw (WithErr (InternalErr ''could not generate a key'') err)
    | Inr raw \<Rightarrow> let key = key_prefix @ EncodeToString raw in ret (key, Hash sha256 key))"

definition refused_key :: goerr where
  "refused_key = WithErr (UnauthorizedErr ''invalid credentials'') (Sentinel (SourceE ErrUnknownKey))"

definition Parse :: "(string \<Rightarrow> string) \<Rightarrow> string \<Rightarrow> string result" where
  "Parse sha256 presented =
    (case strip_prefix key_prefix presented of
       None \<Rightarrow> Inl refused_key
     | Some body \<Rightarrow>
         if length body \<noteq> bodyLen then Inl refused_key
         else case DecodeString body of
           None \<Rightarrow> Inl refused_key
         | Some _ \<Rightarrow> Inr (Hash sha256 presented))"

lemma length_sextets: "length (sextets bs) = (length bs * 4 + 2) div 3"
  by (induction bs rule: sextets.induct) simp_all

lemma length_EncodeToString: "length (EncodeToString s) = (length s * 4 + 2) div 3"
  by (simp add: EncodeToString_def length_sextets)

text \<open>A minted key is recognised as the hash that was stored for it.\<close>

lemma minted_key_parses:
  assumes "Mint sha256 rand w = (Inr (key, hash), w')"
    and "\<And>w raw w'. rand randomBytes w = (Inr raw, w') \<Longrightarrow> length raw = randomBytes"
  shows "Parse sha256 key = Inr hash" "hash = Hash sha256 key"
proof -
  obtain raw where raw: "rand randomBytes w = (Inr raw, w')" "key = key_prefix @ EncodeToString raw"
    "hash = Hash sha256 key"
    using assms(1) by (auto simp: Mint_def attempt_def Let_def split: sum.splits prod.splits)
  then have "length (EncodeToString raw) = bodyLen"
    using assms(2) by (simp add: length_EncodeToString randomBytes_def bodyLen_def)
  then show "Parse sha256 key = Inr hash" "hash = Hash sha256 key"
    using raw by (simp_all add: Parse_def strip_prefix_Some [THEN iffD2] base64_roundtrip)
qed

text \<open>A key of the wrong shape is answered as an unknown one is.\<close>

lemma Parse_refuses: "Parse sha256 s = Inl e \<Longrightarrow> e = unknownKey"
  by (auto simp: Parse_def refused_key_def unknownKey_def split: option.splits if_splits)

end
