(* ===== verification/Wire.thy ===== *)
theory Wire
  imports Identities Instants
begin

text \<open>
  The messages of \<open>sdk/go/notification/v1\<close> and \<open>internal/adapter/api/grpcsrv/mapper.go\<close>: the
  translation between the wire and the core, in both directions. An enum of protobuf is open: a value
  is any 32-bit number, and the names are constants. A field that is a message may be absent.
\<close>

subsection \<open>The messages\<close>

definition PRIORITY_UNSPECIFIED :: int where "PRIORITY_UNSPECIFIED = 0"
definition PRIORITY_NORMAL :: int where "PRIORITY_NORMAL = 1"
definition PRIORITY_HIGH :: int where "PRIORITY_HIGH = 2"
definition PRIORITY_CRITICAL :: int where "PRIORITY_CRITICAL = 3"

lemmas pb_priorities =
  PRIORITY_UNSPECIFIED_def PRIORITY_NORMAL_def PRIORITY_HIGH_def PRIORITY_CRITICAL_def

definition CHANNEL_UNSPECIFIED :: int where "CHANNEL_UNSPECIFIED = 0"
definition CHANNEL_EMAIL :: int where "CHANNEL_EMAIL = 1"
definition CHANNEL_TELEGRAM :: int where "CHANNEL_TELEGRAM = 2"
definition CHANNEL_BALE :: int where "CHANNEL_BALE = 3"
definition CHANNEL_WHATSAPP :: int where "CHANNEL_WHATSAPP = 4"
definition CHANNEL_MATRIX :: int where "CHANNEL_MATRIX = 5"
definition CHANNEL_FCM :: int where "CHANNEL_FCM = 6"
definition CHANNEL_APNS :: int where "CHANNEL_APNS = 7"
definition CHANNEL_GOTIFY :: int where "CHANNEL_GOTIFY = 8"

lemmas pb_channels =
  CHANNEL_UNSPECIFIED_def CHANNEL_EMAIL_def CHANNEL_TELEGRAM_def CHANNEL_BALE_def CHANNEL_WHATSAPP_def
  CHANNEL_MATRIX_def CHANNEL_FCM_def CHANNEL_APNS_def CHANNEL_GOTIFY_def

definition WINDOW_UNSPECIFIED :: int where "WINDOW_UNSPECIFIED = 0"
definition WINDOW_LAST_HOUR :: int where "WINDOW_LAST_HOUR = 1"
definition WINDOW_LAST_DAY :: int where "WINDOW_LAST_DAY = 2"
definition WINDOW_LAST_WEEK :: int where "WINDOW_LAST_WEEK = 3"
definition WINDOW_LAST_MONTH :: int where "WINDOW_LAST_MONTH = 4"

lemmas pb_windows =
  WINDOW_UNSPECIFIED_def WINDOW_LAST_HOUR_def WINDOW_LAST_DAY_def WINDOW_LAST_WEEK_def WINDOW_LAST_MONTH_def

definition DELIVERY_STATUS_UNSPECIFIED :: int where "DELIVERY_STATUS_UNSPECIFIED = 0"
definition DELIVERY_STATUS_PENDING :: int where "DELIVERY_STATUS_PENDING = 1"
definition DELIVERY_STATUS_SENT :: int where "DELIVERY_STATUS_SENT = 2"
definition DELIVERY_STATUS_FAILED :: int where "DELIVERY_STATUS_FAILED = 3"

lemmas pb_statuses =
  DELIVERY_STATUS_UNSPECIFIED_def DELIVERY_STATUS_PENDING_def DELIVERY_STATUS_SENT_def DELIVERY_STATUS_FAILED_def

definition FAILURE_REASON_UNSPECIFIED :: int where "FAILURE_REASON_UNSPECIFIED = 0"
definition FAILURE_REASON_EXPIRED :: int where "FAILURE_REASON_EXPIRED = 1"
definition FAILURE_REASON_MAX_ATTEMPTS :: int where "FAILURE_REASON_MAX_ATTEMPTS = 2"
definition FAILURE_REASON_PERMANENT :: int where "FAILURE_REASON_PERMANENT = 3"
definition FAILURE_REASON_NO_SENDER :: int where "FAILURE_REASON_NO_SENDER = 4"
definition FAILURE_REASON_NOT_REACHABLE :: int where "FAILURE_REASON_NOT_REACHABLE = 5"

lemmas pb_reasons =
  FAILURE_REASON_UNSPECIFIED_def FAILURE_REASON_EXPIRED_def FAILURE_REASON_MAX_ATTEMPTS_def
  FAILURE_REASON_PERMANENT_def FAILURE_REASON_NO_SENDER_def FAILURE_REASON_NOT_REACHABLE_def

record pb_page =
  pbp_After :: string
  pbp_Limit :: int

record pb_route =
  pbr_Channel :: int
  pbr_Address :: string
  pbr_Sender :: string

record pb_submit_request =
  psr_IdempotencyKey :: string
  psr_Title :: string
  psr_Body :: string
  psr_Priority :: int
  psr_ExpireAt :: "timestamp option"
  psr_Metadata :: "(string \<times> string) list"
  psr_Routes :: "pb_route list"

record pb_submit_response =
  psp_Id :: string
  psp_EffectivePriority :: int
  psp_Downgraded :: bool
  psp_Duplicate :: bool

record pb_notification =
  pbn_Id :: string
  pbn_IdempotencyKey :: string
  pbn_Title :: string
  pbn_Body :: string
  pbn_RequestedPriority :: int
  pbn_EffectivePriority :: int
  pbn_ExpireAt :: "timestamp option"
  pbn_Metadata :: "(string \<times> string) list"
  pbn_CreatedAt :: "timestamp option"

record pb_delivery =
  pbd_Id :: string
  pbd_Channel :: int
  pbd_Address :: string
  pbd_Sender :: string
  pbd_Status :: int
  pbd_FailureReason :: int
  pbd_ProviderMessageId :: string
  pbd_UpdatedAt :: "timestamp option"

record pb_get_response =
  pgr_Notification :: "pb_notification option"
  pgr_Deliveries :: "pb_delivery list"
  pgr_NextPageToken :: string

record pb_list_response =
  plr_Notifications :: "pb_notification list"
  plr_NextPageToken :: string

record pb_register_credential =
  prc_Channel :: int
  prc_Name :: string
  prc_Config :: string
  prc_Secret :: string
  prc_IsDefault :: bool

record pb_credential =
  pbc_Id :: string
  pbc_Channel :: int
  pbc_Name :: string
  pbc_IsDefault :: bool
  pbc_IsActive :: bool
  pbc_CreatedAt :: "timestamp option"

record pb_webhook =
  pbw_Id :: string
  pbw_CallbackUrl :: string
  pbw_IsActive :: bool
  pbw_ConsecutiveFailures :: int
  pbw_CreatedAt :: "timestamp option"
  pbw_UpdatedAt :: "timestamp option"

record pb_whoami =
  pwh_Id :: string
  pwh_Name :: string
  pwh_MaxPriority :: int
  pwh_AllowCustomAddress :: bool
  pwh_DefaultAddresses :: "(string \<times> string) list"
  pwh_Retention :: duration
  pwh_RateLimitPerMinute :: int

subsection \<open>Inbound\<close>

definition toPriority :: "int \<Rightarrow> priority result" where
  "toPriority p =
    (if p = PRIORITY_UNSPECIFIED \<or> p = PRIORITY_NORMAL then Inr PriorityNormal
     else if p = PRIORITY_HIGH then Inr PriorityHigh
     else if p = PRIORITY_CRITICAL then Inr PriorityCritical
     else Inl (WithErr (InvalidInputErr ''unknown priority'') (Sentinel (SharedE ErrInvalidID))))"

definition toChannel :: "int \<Rightarrow> channel result" where
  "toChannel c =
    (if c = CHANNEL_EMAIL then Inr ChannelEmail
     else if c = CHANNEL_TELEGRAM then Inr ChannelTelegram
     else if c = CHANNEL_BALE then Inr ChannelBale
     else if c = CHANNEL_WHATSAPP then Inr ChannelWhatsApp
     else if c = CHANNEL_MATRIX then Inr ChannelMatrix
     else if c = CHANNEL_FCM then Inr ChannelFCM
     else if c = CHANNEL_APNS then Inr ChannelAPNs
     else if c = CHANNEL_GOTIFY then Inr ChannelGotify
     else if c = CHANNEL_UNSPECIFIED then
       Inl (WithErr (InvalidInputErr ''channel is required'') (Sentinel (SharedE ErrUnknownChannel)))
     else Inl (WithErr (InvalidInputErr ''unknown channel'') (Sentinel (SharedE ErrUnknownChannel))))"

definition toWindow :: "int \<Rightarrow> window result" where
  "toWindow w =
    (if w = WINDOW_UNSPECIFIED then Inr WindowAll
     else if w = WINDOW_LAST_HOUR then Inr WindowLastHour
     else if w = WINDOW_LAST_DAY then Inr WindowLastDay
     else if w = WINDOW_LAST_WEEK then Inr WindowLastWeek
     else if w = WINDOW_LAST_MONTH then Inr WindowLastMonth
     else Inl (WithStr (WithErr (InvalidInputErr ''unknown time window'') (Sentinel (NotificationE ErrUnknownWindow)))
            (Text ''window %d'' [FmtD w])))"

definition toTime :: "timestamp option \<Rightarrow> time option" where
  "toTime ts = map_option AsTime ts"

text \<open>The loop over the routes, and the senders they name by channel.\<close>

fun read_routes ::
    "pb_route list \<Rightarrow> route list \<Rightarrow> (channel \<times> string) list \<Rightarrow> (route list \<times> (channel \<times> string) list) result" where
  "read_routes [] routes senders = Inr (routes, senders)"
| "read_routes (r # rs) routes senders =
    then_result (toChannel (pbr_Channel r)) (\<lambda>channel.
    let routes = routes @ [\<lparr>rt_Channel = channel, rt_Address = pbr_Address r\<rparr>] in
    if pbr_Sender r \<noteq> '''' then
      (case map_of senders channel of
         None \<Rightarrow> read_routes rs routes (senders @ [(channel, pbr_Sender r)])
       | Some existing \<Rightarrow>
           if existing \<noteq> pbr_Sender r then
             Inl (WithErr (InvalidInputErr ''two senders named for one channel'') (Sentinel (SharedE ErrUnknownChannel)))
           else read_routes rs routes senders)
    else read_routes rs routes senders)"

definition metadata_of :: "(string \<times> string) list \<Rightarrow> (string \<times> string) list option" where
  "metadata_of m = (if m = [] then None else Some m)"

definition toSubmitCommand :: "string \<Rightarrow> pb_submit_request \<Rightarrow> submit_command result" where
  "toSubmitCommand sourceID req =
    then_result (toPriority (psr_Priority req)) (\<lambda>priority.
    then_result (read_routes (psr_Routes req) [] []) (\<lambda>(routes, senders).
    Inr \<lparr>cmd_SourceID = sourceID, cmd_IdempotencyKey = psr_IdempotencyKey req, cmd_Title = psr_Title req,
         cmd_Body = psr_Body req, cmd_Priority = priority, cmd_ExpireAt = toTime (psr_ExpireAt req),
         cmd_Metadata = metadata_of (psr_Metadata req), cmd_Routes = routes, cmd_Senders = senders\<rparr>))"

definition toCursor :: "golib \<Rightarrow> pb_page option \<Rightarrow> cursor result" where
  "toCursor L p =
    (case p of
       None \<Rightarrow> Inr \<lparr>After = None, Limit = 0\<rparr>
     | Some p \<Rightarrow>
         if pbp_After p \<noteq> '''' then
           then_result (ParseID L (pbp_After p)) (\<lambda>i. Inr \<lparr>After = Some i, Limit = pbp_Limit p\<rparr>)
         else Inr \<lparr>After = None, Limit = pbp_Limit p\<rparr>)"

definition toCredentialRegistration :: "pb_register_credential \<Rightarrow> credential_registration result" where
  "toCredentialRegistration req =
    then_result (toChannel (prc_Channel req)) (\<lambda>channel.
    Inr \<lparr>crg_Channel = channel, crg_Name = prc_Name req, crg_Config = prc_Config req,
         crg_Secret = prc_Secret req, crg_IsDefault = prc_IsDefault req\<rparr>)"

subsection \<open>Outbound\<close>

definition fromPriority :: "priority \<Rightarrow> int" where
  "fromPriority p =
    (if p = PriorityNormal then PRIORITY_NORMAL else if p = PriorityHigh then PRIORITY_HIGH
     else if p = PriorityCritical then PRIORITY_CRITICAL else PRIORITY_UNSPECIFIED)"

fun fromChannel :: "channel \<Rightarrow> int" where
  "fromChannel ChannelEmail = CHANNEL_EMAIL"
| "fromChannel ChannelTelegram = CHANNEL_TELEGRAM"
| "fromChannel ChannelBale = CHANNEL_BALE"
| "fromChannel ChannelWhatsApp = CHANNEL_WHATSAPP"
| "fromChannel ChannelMatrix = CHANNEL_MATRIX"
| "fromChannel ChannelFCM = CHANNEL_FCM"
| "fromChannel ChannelAPNs = CHANNEL_APNS"
| "fromChannel ChannelGotify = CHANNEL_GOTIFY"
| "fromChannel (ChannelOther s) = CHANNEL_UNSPECIFIED"

fun fromStatus :: "delivery_status \<Rightarrow> int" where
  "fromStatus StatusPending = DELIVERY_STATUS_PENDING"
| "fromStatus StatusSent = DELIVERY_STATUS_SENT"
| "fromStatus StatusFailed = DELIVERY_STATUS_FAILED"
| "fromStatus (StatusOther s) = DELIVERY_STATUS_UNSPECIFIED"

fun fromFailureReason :: "failure_reason \<Rightarrow> int" where
  "fromFailureReason FailureExpired = FAILURE_REASON_EXPIRED"
| "fromFailureReason FailurePermanent = FAILURE_REASON_PERMANENT"
| "fromFailureReason FailureMaxAttempts = FAILURE_REASON_MAX_ATTEMPTS"
| "fromFailureReason FailureNoSender = FAILURE_REASON_NO_SENDER"
| "fromFailureReason FailureNotReachable = FAILURE_REASON_NOT_REACHABLE"
| "fromFailureReason (FailureOther s) = FAILURE_REASON_UNSPECIFIED"

definition fromTime :: "time option \<Rightarrow> timestamp option" where
  "fromTime t = map_option timestamppb_New t"

definition fromNotification :: "notification \<Rightarrow> pb_notification" where
  "fromNotification n =
    \<lparr>pbn_Id = ntf_ID n, pbn_IdempotencyKey = ntf_IdempotencyKey n, pbn_Title = ntf_Title n,
     pbn_Body = ntf_Body n, pbn_RequestedPriority = fromPriority (ntf_RequestedPriority n),
     pbn_EffectivePriority = fromPriority (ntf_EffectivePriority n), pbn_ExpireAt = fromTime (ntf_ExpireAt n),
     pbn_Metadata = (case Metadata n of None \<Rightarrow> [] | Some m \<Rightarrow> m),
     pbn_CreatedAt = Some (timestamppb_New (ntf_CreatedAt n))\<rparr>"

definition fromDelivery :: "delivery \<Rightarrow> pb_delivery" where
  "fromDelivery d =
    \<lparr>pbd_Id = dlv_ID d, pbd_Channel = fromChannel (rcp_Channel (dlv_Recipient d)),
     pbd_Address = rcp_Address (dlv_Recipient d), pbd_Sender = dlv_SenderName d,
     pbd_Status = fromStatus (dlv_status d), pbd_FailureReason = fromFailureReason (dlv_failureReason d),
     pbd_ProviderMessageId = dlv_providerMessageID d, pbd_UpdatedAt = Some (timestamppb_New (dlv_updatedAt d))\<rparr>"

definition page_token :: "ID option \<Rightarrow> string" where
  "page_token c = (case c of None \<Rightarrow> '''' | Some i \<Rightarrow> i)"

definition fromNotifications :: "notification pagination \<Rightarrow> pb_notification list" where
  "fromNotifications page = map fromNotification (Items page)"

definition nextNotificationPageToken :: "notification pagination \<Rightarrow> string" where
  "nextNotificationPageToken page = page_token (NextCursor page)"

definition fromDeliveries :: "delivery pagination \<Rightarrow> pb_delivery list" where
  "fromDeliveries page = map fromDelivery (Items page)"

definition nextPageToken :: "delivery pagination \<Rightarrow> string" where
  "nextPageToken page = page_token (NextCursor page)"

definition fromCredential :: "credential \<Rightarrow> pb_credential" where
  "fromCredential c =
    \<lparr>pbc_Id = crd_ID c, pbc_Channel = fromChannel (crd_Channel c), pbc_Name = crd_Name c,
     pbc_IsDefault = crd_isDefault c, pbc_IsActive = crd_isActive c,
     pbc_CreatedAt = Some (timestamppb_New (crd_CreatedAt c))\<rparr>"

definition fromCredentials :: "credential list \<Rightarrow> pb_credential list" where
  "fromCredentials cs = map fromCredential cs"

definition onChannel :: "credential list \<Rightarrow> channel \<Rightarrow> credential list" where
  "onChannel cs c = filter (\<lambda>x. crd_Channel x = c) cs"

definition fromWebhook :: "webhook \<Rightarrow> pb_webhook" where
  "fromWebhook w =
    \<lparr>pbw_Id = whk_ID w, pbw_CallbackUrl = whk_CallbackURL w, pbw_IsActive = whk_isActive w,
     pbw_ConsecutiveFailures = to_int32 (whk_consecutiveFailures w),
     pbw_CreatedAt = Some (timestamppb_New (whk_CreatedAt w)),
     pbw_UpdatedAt = Some (timestamppb_New (whk_UpdatedAt w))\<rparr>"

subsection \<open>What crosses the wire\<close>

lemma toChannel_Inr: "toChannel (fromChannel c) = Inr c' \<longleftrightarrow> Channel_Valid c \<and> c' = c"
  by (cases c) (auto simp: toChannel_def pb_channels)

lemma toChannel_known: "toChannel n = Inr c \<longleftrightarrow> Channel_Valid c \<and> n = fromChannel c"
  by (cases c) (auto simp: toChannel_def pb_channels)

lemma toPriority_fromPriority: "Priority_Valid p \<Longrightarrow> toPriority (fromPriority p) = Inr p"
  by (auto simp: Priority_Valid_iff toPriority_def fromPriority_def pb_priorities priority_defs)

lemma toPriority_valid: "toPriority n = Inr p \<Longrightarrow> Priority_Valid p"
  by (auto simp: Priority_Valid_iff toPriority_def split: if_splits)

lemma toWindow_valid: "toWindow n = Inr w \<Longrightarrow> Window_Valid w"
  by (auto simp: Window_Valid_iff toWindow_def split: if_splits)

end
