(* ===== verification/Grpc.thy ===== *)
theory Grpc
  imports Wire ApiKey
begin

text \<open>
  \<open>internal/adapter/api/grpcsrv\<close>: the gRPC face of the service. The interceptors around every call,
  the handlers of the four services, and the only way an error leaves. A panic of a handler has no
  counterpart here, so Recovery has nothing to do, and Logging has no effect on the state.
\<close>

subsection \<open>Errors\<close>

datatype code =
    CodeOK
  | CodeCanceled
  | CodeUnknown
  | CodeInvalidArgument
  | CodeDeadlineExceeded
  | CodeNotFound
  | CodeAlreadyExists
  | CodePermissionDenied
  | CodeResourceExhausted
  | CodeFailedPrecondition
  | CodeAborted
  | CodeOutOfRange
  | CodeUnimplemented
  | CodeInternal
  | CodeUnavailable
  | CodeDataLoss
  | CodeUnauthenticated
  | CodeOther int

record status =
  sts_Code :: code
  sts_Message :: string

fun grpc_code :: "err_type \<Rightarrow> code" where
  "grpc_code ErrInvalidInput = CodeInvalidArgument"
| "grpc_code ErrUnauthorized = CodeUnauthenticated"
| "grpc_code ErrForbidden = CodePermissionDenied"
| "grpc_code ErrNotFound = CodeNotFound"
| "grpc_code ErrDuplicateEntry = CodeAlreadyExists"
| "grpc_code ErrTooMany = CodeResourceExhausted"
| "grpc_code ErrUnavailable = CodeUnavailable"
| "grpc_code ErrTimeout = CodeDeadlineExceeded"
| "grpc_code ErrInternal = CodeInternal"
| "grpc_code ErrUnknown = CodeInternal"
| "grpc_code (ErrTypeOther n) = CodeInternal"

definition grpc_Status :: "goerr \<Rightarrow> status" where
  "grpc_Status err =
    (case as_app err of
       None \<Rightarrow> \<lparr>sts_Code = CodeInternal, sts_Message = ''the request could not be completed''\<rparr>
     | Some (t, msg, _) \<Rightarrow> \<lparr>sts_Code = grpc_code t, sts_Message = msg\<rparr>)"

subsection \<open>Who is calling\<close>

record ctx =
  cx_Metadata :: "(string \<times> string list) list option"
  cx_Source :: "source option"

definition authHeader :: string where
  "authHeader = ''authorization''"

definition bearerPrefix :: string where
  "bearerPrefix = ''bearer ''"

text \<open>
  \<open>strings.EqualFold\<close> against the prefix: its letters fold to each other's ASCII case only.
\<close>

definition fold_letter :: "char \<Rightarrow> nat" where
  "fold_letter c = (if 65 \<le> byte c \<and> byte c \<le> 90 then byte c + 32 else byte c)"

definition EqualFold :: "string \<Rightarrow> string \<Rightarrow> bool" where
  "EqualFold s t \<longleftrightarrow> map fold_letter s = map fold_letter t"

definition bearer :: "ctx \<Rightarrow> string" where
  "bearer cx =
    (case cx_Metadata cx of
       None \<Rightarrow> ''''
     | Some md \<Rightarrow>
         (case map_of md authHeader of
            Some [presented] \<Rightarrow>
              if length presented < length bearerPrefix
                \<or> \<not> EqualFold (take (length bearerPrefix) presented) bearerPrefix
              then '''' else drop (length bearerPrefix) presented
          | _ \<Rightarrow> ''''))"

definition errUnidentified :: goerr where
  "errUnidentified = WithStr (InternalErr ''the request could not be completed'')
     (Text ''handler reached with no authenticated source'' [])"

definition SourceFrom :: "ctx \<Rightarrow> (source \<Rightarrow> ('w, 'a) io) \<Rightarrow> ('w, 'a) io" where
  "SourceFrom cx k = (case cx_Source cx of None \<Rightarrow> throw errUnidentified | Some src \<Rightarrow> k src)"

definition Auth ::
    "'w authenticator \<Rightarrow> (string \<Rightarrow> string result) \<Rightarrow> (ctx \<Rightarrow> ('w, 'a) io) \<Rightarrow> ctx \<Rightarrow> ('w, 'a) io" where
  "Auth authn scheme_Parse handler cx =
    and_then (lift (scheme_Parse (bearer cx))) (\<lambda>hash.
    and_then (Authenticate authn hash) (\<lambda>(src, keyID).
    ignoring (RecordUse authn keyID) (handler (cx\<lparr>cx_Source := Some src\<rparr>))))"

definition Errors :: "(ctx \<Rightarrow> ('w, 'a) io) \<Rightarrow> ctx \<Rightarrow> 'w \<Rightarrow> (status + 'a) \<times> 'w" where
  "Errors handler cx w =
    (case handler cx w of
       (Inl err, w') \<Rightarrow> (Inl (grpc_Status err), w')
     | (Inr resp, w') \<Rightarrow> (Inr resp, w'))"

subsection \<open>The handlers\<close>

record limits =
  lim_Retention :: duration
  lim_RateLimitPerMinute :: int

definition NotificationServer_Submit ::
    "'w submitter \<Rightarrow> ctx \<Rightarrow> pb_submit_request \<Rightarrow> ('w, pb_submit_response) io" where
  "NotificationServer_Submit S cx req =
    SourceFrom cx (\<lambda>src.
    and_then (lift (toSubmitCommand (src_ID src) req)) (\<lambda>cmd.
    and_then (Submit S cmd) (\<lambda>result.
    ret \<lparr>psp_Id = subm_ID result, psp_EffectivePriority = fromPriority (subm_EffectivePriority result),
         psp_Downgraded = subm_Downgraded result, psp_Duplicate = subm_Duplicate result\<rparr>)))"

definition NotificationServer_Get ::
    "golib \<Rightarrow> 'w querier \<Rightarrow> ctx \<Rightarrow> string \<Rightarrow> pb_page option \<Rightarrow> ('w, pb_get_response) io" where
  "NotificationServer_Get L Q cx i page =
    SourceFrom cx (\<lambda>src.
    and_then (lift (ParseID L i)) (\<lambda>i.
    and_then (lift (toCursor L page)) (\<lambda>c.
    and_then (Querier_Get Q (src_ID src) i c) (\<lambda>result.
    ret \<lparr>pgr_Notification = Some (fromNotification (qr_Notification result)),
         pgr_Deliveries = fromDeliveries (qr_Deliveries result),
         pgr_NextPageToken = nextPageToken (qr_Deliveries result)\<rparr>))))"

definition NotificationServer_List ::
    "golib \<Rightarrow> 'w querier \<Rightarrow> ctx \<Rightarrow> int \<Rightarrow> pb_page option \<Rightarrow> ('w, pb_list_response) io" where
  "NotificationServer_List L Q cx w page =
    SourceFrom cx (\<lambda>src.
    and_then (lift (toCursor L page)) (\<lambda>c.
    and_then (lift (toWindow w)) (\<lambda>window.
    and_then (Querier_List Q (src_ID src) \<lparr>lq_Window = window, lq_Cursor = c\<rparr>) (\<lambda>page.
    ret \<lparr>plr_Notifications = fromNotifications page, plr_NextPageToken = nextNotificationPageToken page\<rparr>))))"

definition WebhookServer_Register ::
    "'w registrar \<Rightarrow> ctx \<Rightarrow> string \<Rightarrow> ('w, pb_webhook \<times> string) io" where
  "WebhookServer_Register R cx url =
    SourceFrom cx (\<lambda>src.
    and_then (Register R (src_ID src) \<lparr>reg_CallbackURL = url\<rparr>) (\<lambda>(h, secret).
    ret (fromWebhook h, secret)))"

definition WebhookServer_RotateSecret :: "'w registrar \<Rightarrow> ctx \<Rightarrow> ('w, string) io" where
  "WebhookServer_RotateSecret R cx = SourceFrom cx (\<lambda>src. RotateSecret R (src_ID src))"

definition WebhookServer_Get :: "'w registrar \<Rightarrow> ctx \<Rightarrow> ('w, pb_webhook) io" where
  "WebhookServer_Get R cx =
    SourceFrom cx (\<lambda>src. and_then (Registrar_Get R (src_ID src)) (\<lambda>h. ret (fromWebhook h)))"

definition WebhookServer_Deactivate :: "'w registrar \<Rightarrow> ctx \<Rightarrow> ('w, pb_webhook) io" where
  "WebhookServer_Deactivate R cx =
    SourceFrom cx (\<lambda>src.
    and_then (Registrar_Deactivate R (src_ID src)) (\<lambda>_.
    and_then (Registrar_Get R (src_ID src)) (\<lambda>h. ret (fromWebhook h))))"

definition WebhookServer_Activate :: "'w registrar \<Rightarrow> ctx \<Rightarrow> ('w, pb_webhook) io" where
  "WebhookServer_Activate R cx =
    SourceFrom cx (\<lambda>src.
    and_then (Registrar_Activate R (src_ID src)) (\<lambda>_.
    and_then (Registrar_Get R (src_ID src)) (\<lambda>h. ret (fromWebhook h))))"

definition CredentialServer_Register ::
    "'w credentials \<Rightarrow> ctx \<Rightarrow> pb_register_credential \<Rightarrow> ('w, pb_credential) io" where
  "CredentialServer_Register C cx req =
    SourceFrom cx (\<lambda>src.
    and_then (lift (toCredentialRegistration req)) (\<lambda>reg.
    and_then (Credentials_Register C (src_ID src) reg) (\<lambda>c. ret (fromCredential c))))"

definition CredentialServer_List :: "'w credentials \<Rightarrow> ctx \<Rightarrow> int \<Rightarrow> ('w, pb_credential list) io" where
  "CredentialServer_List C cx channel =
    SourceFrom cx (\<lambda>src.
    and_then (Credentials_List C (src_ID src)) (\<lambda>got.
    if channel \<noteq> CHANNEL_UNSPECIFIED then
      and_then (lift (toChannel channel)) (\<lambda>c. ret (fromCredentials (onChannel got c)))
    else ret (fromCredentials got)))"

definition CredentialServer_act ::
    "ctx \<Rightarrow> string \<Rightarrow> (string \<Rightarrow> ID \<Rightarrow> ('w, credential) io) \<Rightarrow> ('w, credential) io" where
  "CredentialServer_act cx i do_it = SourceFrom cx (\<lambda>src. do_it (src_ID src) i)"

definition CredentialServer_Deactivate :: "'w credentials \<Rightarrow> ctx \<Rightarrow> string \<Rightarrow> ('w, pb_credential) io" where
  "CredentialServer_Deactivate C cx i =
    and_then (CredentialServer_act cx i (Credentials_Deactivate C)) (\<lambda>c. ret (fromCredential c))"

definition CredentialServer_Activate :: "'w credentials \<Rightarrow> ctx \<Rightarrow> string \<Rightarrow> ('w, pb_credential) io" where
  "CredentialServer_Activate C cx i =
    and_then (CredentialServer_act cx i (Credentials_Activate C)) (\<lambda>c. ret (fromCredential c))"

definition CredentialServer_SetDefault :: "'w credentials \<Rightarrow> ctx \<Rightarrow> string \<Rightarrow> ('w, pb_credential) io" where
  "CredentialServer_SetDefault C cx i =
    and_then (CredentialServer_act cx i (Credentials_SetDefault C)) (\<lambda>c. ret (fromCredential c))"

definition CredentialServer_Rotate ::
    "'w credentials \<Rightarrow> ctx \<Rightarrow> string \<Rightarrow> string \<Rightarrow> ('w, pb_credential) io" where
  "CredentialServer_Rotate C cx i secret =
    SourceFrom cx (\<lambda>src.
    and_then (Credentials_Rotate C (src_ID src) i secret) (\<lambda>c. ret (fromCredential c)))"

definition CredentialServer_Update ::
    "'w credentials \<Rightarrow> ctx \<Rightarrow> string \<Rightarrow> string \<Rightarrow> ('w, pb_credential) io" where
  "CredentialServer_Update C cx i config =
    SourceFrom cx (\<lambda>src.
    and_then (Credentials_Update C (src_ID src) i config) (\<lambda>c. ret (fromCredential c)))"

definition SourceServer_Whoami :: "limits \<Rightarrow> ctx \<Rightarrow> ('w, pb_whoami) io" where
  "SourceServer_Whoami lim cx =
    SourceFrom cx (\<lambda>src.
    ret \<lparr>pwh_Id = src_ID src, pwh_Name = src_Name src, pwh_MaxPriority = fromPriority (src_MaxPriority src),
         pwh_AllowCustomAddress = src_AllowCustomAddress src,
         pwh_DefaultAddresses = map (\<lambda>(c, a). (Channel_String c, a)) (src_DefaultAddresses src),
         pwh_Retention = lim_Retention lim,
         pwh_RateLimitPerMinute = to_int32 (lim_RateLimitPerMinute lim)\<rparr>)"

subsection \<open>The server\<close>

text \<open>Every rpc the server mounts, and its answers.\<close>

datatype rpc =
    RpcSubmit pb_submit_request
  | RpcGet string "pb_page option"
  | RpcList int "pb_page option"
  | RpcRegisterCredential pb_register_credential
  | RpcListCredentials int
  | RpcDeactivateCredential string
  | RpcActivateCredential string
  | RpcSetDefault string
  | RpcRotate string string
  | RpcUpdate string string
  | RpcRegisterWebhook string
  | RpcRotateSecret
  | RpcGetWebhook
  | RpcDeactivateWebhook
  | RpcActivateWebhook
  | RpcWhoami

datatype reply =
    Submitted pb_submit_response
  | Got pb_get_response
  | Listed pb_list_response
  | Identity pb_credential
  | Identities "pb_credential list"
  | Hook pb_webhook
  | HookSecret pb_webhook string
  | Secret string
  | Me pb_whoami

record 'w grpc_deps =
  gd_lib :: golib
  gd_submitter :: "'w submitter"
  gd_querier :: "'w querier"
  gd_registrar :: "'w registrar"
  gd_credentials :: "'w credentials"
  gd_limits :: limits
  gd_authn :: "'w authenticator"
  gd_scheme :: "string \<Rightarrow> string result"

definition answering :: "('a \<Rightarrow> reply) \<Rightarrow> ('w, 'a) io \<Rightarrow> ('w, reply) io" where
  "answering f m = and_then m (\<lambda>x. ret (f x))"

fun handle :: "'w grpc_deps \<Rightarrow> rpc \<Rightarrow> ctx \<Rightarrow> ('w, reply) io" where
  "handle D (RpcSubmit req) cx = answering Submitted (NotificationServer_Submit (gd_submitter D) cx req)"
| "handle D (RpcGet i page) cx = answering Got (NotificationServer_Get (gd_lib D) (gd_querier D) cx i page)"
| "handle D (RpcList w page) cx = answering Listed (NotificationServer_List (gd_lib D) (gd_querier D) cx w page)"
| "handle D (RpcRegisterCredential req) cx = answering Identity (CredentialServer_Register (gd_credentials D) cx req)"
| "handle D (RpcListCredentials c) cx = answering Identities (CredentialServer_List (gd_credentials D) cx c)"
| "handle D (RpcDeactivateCredential i) cx = answering Identity (CredentialServer_Deactivate (gd_credentials D) cx i)"
| "handle D (RpcActivateCredential i) cx = answering Identity (CredentialServer_Activate (gd_credentials D) cx i)"
| "handle D (RpcSetDefault i) cx = answering Identity (CredentialServer_SetDefault (gd_credentials D) cx i)"
| "handle D (RpcRotate i secret) cx = answering Identity (CredentialServer_Rotate (gd_credentials D) cx i secret)"
| "handle D (RpcUpdate i config) cx = answering Identity (CredentialServer_Update (gd_credentials D) cx i config)"
| "handle D (RpcRegisterWebhook url) cx =
     answering (\<lambda>(h, secret). HookSecret h secret) (WebhookServer_Register (gd_registrar D) cx url)"
| "handle D RpcRotateSecret cx = answering Secret (WebhookServer_RotateSecret (gd_registrar D) cx)"
| "handle D RpcGetWebhook cx = answering Hook (WebhookServer_Get (gd_registrar D) cx)"
| "handle D RpcDeactivateWebhook cx = answering Hook (WebhookServer_Deactivate (gd_registrar D) cx)"
| "handle D RpcActivateWebhook cx = answering Hook (WebhookServer_Activate (gd_registrar D) cx)"
| "handle D RpcWhoami cx = answering Me (SourceServer_Whoami (gd_limits D) cx)"

text \<open>The chain of \<open>New\<close>: Errors around Auth around the handler.\<close>

definition serve ::
    "'w grpc_deps \<Rightarrow> (string \<times> string list) list option \<Rightarrow> rpc \<Rightarrow> 'w \<Rightarrow> (status + reply) \<times> 'w" where
  "serve D md req =
     Errors (Auth (gd_authn D) (gd_scheme D) (handle D req)) \<lparr>cx_Metadata = md, cx_Source = None\<rparr>"

end
