(* ===== verification/Sdk.thy ===== *)
theory Sdk
  imports Grpc Callbacks
begin

text \<open>
  \<open>sdk/go/srosha\<close> with its \<open>internal/retry\<close> and \<open>internal/transport\<close>: the client a customer calls the
  service with. It translates its own types to the wire and back, repeats a call that is worth
  repeating, and turns every failure into one of its own errors.
\<close>

subsection \<open>Errors\<close>

datatype sdk_sentinel =
    ErrInvalidRequest
  | ErrUnauthorized
  | ErrForbidden
  | ErrNotFound
  | ErrDuplicate
  | ErrRateLimited
  | ErrUnavailable
  | ErrTimeout
  | ErrInternal

record sdk_error =
  sde_kind :: sdk_sentinel
  sde_Message :: string

text \<open>
  What a call of the transport fails with: a status, the error of a context that ended, or an error
  that is neither.
\<close>

datatype rpc_failure =
    StatusFailure status
  | ContextFailure string
  | OtherFailure string

fun kindOf :: "code \<Rightarrow> sdk_sentinel" where
  "kindOf CodeInvalidArgument = ErrInvalidRequest"
| "kindOf CodeUnauthenticated = ErrUnauthorized"
| "kindOf CodePermissionDenied = ErrForbidden"
| "kindOf CodeNotFound = ErrNotFound"
| "kindOf CodeAlreadyExists = ErrDuplicate"
| "kindOf CodeResourceExhausted = ErrRateLimited"
| "kindOf CodeUnavailable = ErrUnavailable"
| "kindOf CodeDeadlineExceeded = ErrTimeout"
| "kindOf CodeCanceled = ErrTimeout"
| "kindOf _ = ErrInternal"

fun wrap :: "rpc_failure \<Rightarrow> sdk_error" where
  "wrap (ContextFailure msg) = \<lparr>sde_kind = ErrTimeout, sde_Message = msg\<rparr>"
| "wrap (OtherFailure msg) = \<lparr>sde_kind = ErrUnavailable, sde_Message = msg\<rparr>"
| "wrap (StatusFailure st) = \<lparr>sde_kind = kindOf (sts_Code st), sde_Message = sts_Message st\<rparr>"

subsection \<open>Repeating\<close>

definition DefaultAttempts :: int where
  "DefaultAttempts = 3"

definition retry_base :: duration where
  "retry_base = 100000000"

definition maxWait :: duration where
  "maxWait = 5 * second"

definition rateLimitBase :: duration where
  "rateLimitBase = second"

text \<open>
  The environment of a retry: \<open>pause\<close> waits about as long as it is told (the jitter of a fifth either
  way is its own) and answers the context's error when that ended first; a \<open>float64\<close> beyond 64 bits
  converts to what the machine makes of it.
\<close>

record 'w retry_env =
  re_pause :: "duration \<Rightarrow> 'w \<Rightarrow> string option \<times> 'w"
  re_float_overflow :: "int \<Rightarrow> int"

fun worthRepeating :: "rpc_failure \<Rightarrow> bool" where
  "worthRepeating (StatusFailure st) \<longleftrightarrow>
     sts_Code st = CodeUnavailable \<or> sts_Code st = CodeDeadlineExceeded \<or> sts_Code st = CodeResourceExhausted"
| "worthRepeating (ContextFailure msg) \<longleftrightarrow> True"
| "worthRepeating (OtherFailure msg) \<longleftrightarrow> True"

definition wait_start :: "rpc_failure \<Rightarrow> duration" where
  "wait_start err = (case err of
      StatusFailure st \<Rightarrow> if sts_Code st = CodeResourceExhausted then rateLimitBase else retry_base
    | _ \<Rightarrow> retry_base)"

definition wait_for :: "'w retry_env \<Rightarrow> rpc_failure \<Rightarrow> nat \<Rightarrow> duration" where
  "wait_for P err n =
    (let x = wait_start err * 2 ^ n;
         d = (if x < 2 ^ 63 then x else re_float_overflow P x) in
     if maxWait < d then maxWait else d)"

text \<open>\<open>left\<close> attempts may still follow the one numbered \<open>n\<close>.\<close>

fun retry_loop ::
    "'w retry_env \<Rightarrow> nat \<Rightarrow> nat \<Rightarrow> ('w \<Rightarrow> (rpc_failure + 'a) \<times> 'w) \<Rightarrow> 'w \<Rightarrow> (rpc_failure + 'a) \<times> 'w" where
  "retry_loop P left n fn w =
    (case fn w of
       (Inr x, w') \<Rightarrow> (Inr x, w')
     | (Inl err, w') \<Rightarrow>
         if \<not> worthRepeating err then (Inl err, w')
         else (case left of
             0 \<Rightarrow> (Inl err, w')
           | Suc left' \<Rightarrow>
               (case re_pause P (wait_for P err n) w' of
                  (Some ended, w'') \<Rightarrow> (Inl (ContextFailure ended), w'')
                | (None, w'') \<Rightarrow> retry_loop P left' (Suc n) fn w'')))"

declare retry_loop.simps [simp del]

definition retry_Do ::
    "'w retry_env \<Rightarrow> int \<Rightarrow> ('w \<Rightarrow> (rpc_failure + 'a) \<times> 'w) \<Rightarrow> 'w \<Rightarrow> (rpc_failure + 'a) \<times> 'w" where
  "retry_Do P attempts fn =
    (let attempts = (if attempts < 1 then 1 else attempts) in retry_loop P (nat (attempts - 1)) 0 fn)"

subsection \<open>The client\<close>

text \<open>
  \<open>cli_invoke\<close> is one call of the connection, with the metadata of the interceptor; the timeout of a
  call is part of it and of the pause.
\<close>

record 'w client =
  cli_lib :: golib
  cli_invoke :: "(string \<times> string list) list \<Rightarrow> rpc \<Rightarrow> 'w \<Rightarrow> (rpc_failure + reply) \<times> 'w"
  cli_retry :: "'w retry_env"
  cli_APIKey :: string
  cli_attempts :: int
  cli_rand :: "nat \<Rightarrow> 'w \<Rightarrow> (unit + string) \<times> 'w"

definition sdk_authHeader :: string where
  "sdk_authHeader = ''authorization''"

definition sdk_bearerPrefix :: string where
  "sdk_bearerPrefix = ''bearer ''"

definition authenticate :: "string \<Rightarrow> (string \<times> string list) list" where
  "authenticate key = [(sdk_authHeader, [sdk_bearerPrefix @ key])]"

text \<open>\<open>Config.validate\<close>: what \<open>Dial\<close> refuses before it connects.\<close>

definition transport_validate :: "string \<Rightarrow> string \<Rightarrow> string option" where
  "transport_validate address key =
    (if TrimSpace address = '''' then Some ''srosha: no address''
     else if TrimSpace key = '''' then Some ''srosha: no api key'' else None)"

definition sdk_call :: "'w client \<Rightarrow> rpc \<Rightarrow> 'w \<Rightarrow> (sdk_error + reply) \<times> 'w" where
  "sdk_call C req w =
    (case retry_Do (cli_retry C) (cli_attempts C) (cli_invoke C (authenticate (cli_APIKey C)) req) w of
       (Inl err, w') \<Rightarrow> (Inl (wrap err), w')
     | (Inr x, w') \<Rightarrow> (Inr x, w'))"

subsection \<open>Its own types\<close>

text \<open>Channels, priorities, windows, statuses and reasons are strings here.\<close>

record sdk_route =
  srt_Channel :: string
  srt_Address :: string
  srt_Sender :: string

definition From :: "sdk_route \<Rightarrow> string \<Rightarrow> sdk_route" where
  "From r sender = r\<lparr>srt_Sender := sender\<rparr>"

definition To :: "string \<Rightarrow> string \<Rightarrow> sdk_route" where
  "To channel address = \<lparr>srt_Channel = channel, srt_Address = address, srt_Sender = ''''\<rparr>"

definition EmailTo :: "string \<Rightarrow> sdk_route" where
  "EmailTo address = \<lparr>srt_Channel = ''email'', srt_Address = address, srt_Sender = ''''\<rparr>"

definition TelegramTo :: "string \<Rightarrow> sdk_route" where
  "TelegramTo address = \<lparr>srt_Channel = ''telegram'', srt_Address = address, srt_Sender = ''''\<rparr>"

definition BaleTo :: "string \<Rightarrow> sdk_route" where
  "BaleTo address = \<lparr>srt_Channel = ''bale'', srt_Address = address, srt_Sender = ''''\<rparr>"

definition WhatsAppTo :: "string \<Rightarrow> sdk_route" where
  "WhatsAppTo address = \<lparr>srt_Channel = ''whatsapp'', srt_Address = address, srt_Sender = ''''\<rparr>"

definition MatrixTo :: "string \<Rightarrow> sdk_route" where
  "MatrixTo room = \<lparr>srt_Channel = ''matrix'', srt_Address = room, srt_Sender = ''''\<rparr>"

definition GotifyTo :: "string \<Rightarrow> sdk_route" where
  "GotifyTo applicationID = \<lparr>srt_Channel = ''gotify'', srt_Address = applicationID, srt_Sender = ''''\<rparr>"

definition FCMTo :: "string \<Rightarrow> sdk_route" where
  "FCMTo deviceToken = \<lparr>srt_Channel = ''fcm'', srt_Address = deviceToken, srt_Sender = ''''\<rparr>"

definition APNsTo :: "string \<Rightarrow> sdk_route" where
  "APNsTo deviceToken = \<lparr>srt_Channel = ''apns'', srt_Address = deviceToken, srt_Sender = ''''\<rparr>"

definition channelsOut :: "(string \<times> int) list" where
  "channelsOut =
     [(''email'', CHANNEL_EMAIL), (''telegram'', CHANNEL_TELEGRAM), (''bale'', CHANNEL_BALE),
      (''whatsapp'', CHANNEL_WHATSAPP), (''matrix'', CHANNEL_MATRIX), (''gotify'', CHANNEL_GOTIFY),
      (''fcm'', CHANNEL_FCM), (''apns'', CHANNEL_APNS)]"

definition prioritiesOut :: "(string \<times> int) list" where
  "prioritiesOut =
     [('''', PRIORITY_UNSPECIFIED), (''normal'', PRIORITY_NORMAL), (''high'', PRIORITY_HIGH),
      (''critical'', PRIORITY_CRITICAL)]"

definition windowsOut :: "(string \<times> int) list" where
  "windowsOut =
     [('''', WINDOW_UNSPECIFIED), (''last_hour'', WINDOW_LAST_HOUR), (''last_day'', WINDOW_LAST_DAY),
      (''last_week'', WINDOW_LAST_WEEK), (''last_month'', WINDOW_LAST_MONTH)]"

text \<open>A lookup in a Go map: the zero value for a key that is not there.\<close>

definition or_zero :: "(string \<times> int) list \<Rightarrow> string \<Rightarrow> int" where
  "or_zero m k = (case map_of m k of Some v \<Rightarrow> v | None \<Rightarrow> 0)"

definition sdk_toChannel :: "string \<Rightarrow> int" where
  "sdk_toChannel c = or_zero channelsOut c"

definition sdk_toPriority :: "string \<Rightarrow> int" where
  "sdk_toPriority p = or_zero prioritiesOut p"

definition sdk_toWindow :: "string \<Rightarrow> int" where
  "sdk_toWindow w = or_zero windowsOut w"

text \<open>The names of the generated enums; a number without a name prints as the number.\<close>

definition Channel_name :: "(int \<times> string) list" where
  "Channel_name =
     [(0, ''CHANNEL_UNSPECIFIED''), (1, ''CHANNEL_EMAIL''), (2, ''CHANNEL_TELEGRAM''), (3, ''CHANNEL_BALE''),
      (4, ''CHANNEL_WHATSAPP''), (5, ''CHANNEL_MATRIX''), (6, ''CHANNEL_FCM''), (7, ''CHANNEL_APNS''),
      (8, ''CHANNEL_GOTIFY'')]"

definition Priority_name :: "(int \<times> string) list" where
  "Priority_name =
     [(0, ''PRIORITY_UNSPECIFIED''), (1, ''PRIORITY_NORMAL''), (2, ''PRIORITY_HIGH''), (3, ''PRIORITY_CRITICAL'')]"

definition DeliveryStatus_name :: "(int \<times> string) list" where
  "DeliveryStatus_name =
     [(0, ''DELIVERY_STATUS_UNSPECIFIED''), (1, ''DELIVERY_STATUS_PENDING''), (2, ''DELIVERY_STATUS_SENT''),
      (3, ''DELIVERY_STATUS_FAILED'')]"

definition FailureReason_name :: "(int \<times> string) list" where
  "FailureReason_name =
     [(0, ''FAILURE_REASON_UNSPECIFIED''), (1, ''FAILURE_REASON_EXPIRED''), (2, ''FAILURE_REASON_MAX_ATTEMPTS''),
      (3, ''FAILURE_REASON_PERMANENT''), (4, ''FAILURE_REASON_NO_SENDER''), (5, ''FAILURE_REASON_NOT_REACHABLE'')]"

definition EnumStringOf :: "(int \<times> string) list \<Rightarrow> int \<Rightarrow> string" where
  "EnumStringOf names n = (case map_of names n of Some s \<Rightarrow> s | None \<Rightarrow> FormatInt n)"

definition TrimPrefix :: "string \<Rightarrow> string \<Rightarrow> string" where
  "TrimPrefix s p = (case strip_prefix p s of Some t \<Rightarrow> t | None \<Rightarrow> s)"

definition sdk_fromChannel :: "golib \<Rightarrow> int \<Rightarrow> string" where
  "sdk_fromChannel L c =
    (if c = CHANNEL_UNSPECIFIED then '''' else ToLower L (TrimPrefix (EnumStringOf Channel_name c) ''CHANNEL_''))"

definition sdk_fromPriority :: "golib \<Rightarrow> int \<Rightarrow> string" where
  "sdk_fromPriority L p =
    (if p = PRIORITY_UNSPECIFIED then '''' else ToLower L (TrimPrefix (EnumStringOf Priority_name p) ''PRIORITY_''))"

definition sdk_fromStatus :: "golib \<Rightarrow> int \<Rightarrow> string" where
  "sdk_fromStatus L s =
    (if s = DELIVERY_STATUS_UNSPECIFIED then ''''
     else ToLower L (TrimPrefix (EnumStringOf DeliveryStatus_name s) ''DELIVERY_STATUS_''))"

definition sdk_fromReason :: "golib \<Rightarrow> int \<Rightarrow> string" where
  "sdk_fromReason L r =
    (if r = FAILURE_REASON_UNSPECIFIED then ''''
     else ToLower L (TrimPrefix (EnumStringOf FailureReason_name r) ''FAILURE_REASON_''))"

definition toTimestamp :: "time \<Rightarrow> timestamp option" where
  "toTimestamp t = (if IsZero t then None else Some (timestamppb_New t))"

definition fromTimestamp :: "timestamp option \<Rightarrow> time" where
  "fromTimestamp ts = (case ts of None \<Rightarrow> 0 | Some ts \<Rightarrow> AsTime ts)"

definition toRoutes :: "sdk_route list \<Rightarrow> pb_route list" where
  "toRoutes rs = map (\<lambda>r. \<lparr>pbr_Channel = sdk_toChannel (srt_Channel r), pbr_Address = srt_Address r,
     pbr_Sender = srt_Sender r\<rparr>) rs"

record sdk_notification =
  sn_ID :: string
  sn_IdempotencyKey :: string
  sn_Title :: string
  sn_Body :: string
  sn_Requested :: string
  sn_Priority :: string
  sn_ExpireAt :: time
  sn_Metadata :: "(string \<times> string) list"
  sn_CreatedAt :: time

record sdk_delivery =
  sd_ID :: string
  sd_Channel :: string
  sd_Address :: string
  sd_Sender :: string
  sd_Status :: string
  sd_Reason :: string
  sd_ProviderMessageID :: string
  sd_UpdatedAt :: time

definition no_notification :: sdk_notification where
  "no_notification = \<lparr>sn_ID = '''', sn_IdempotencyKey = '''', sn_Title = '''', sn_Body = '''', sn_Requested = '''',
     sn_Priority = '''', sn_ExpireAt = 0, sn_Metadata = [], sn_CreatedAt = 0\<rparr>"

definition sdk_fromNotification :: "golib \<Rightarrow> pb_notification option \<Rightarrow> sdk_notification" where
  "sdk_fromNotification L n_opt =
    (case n_opt of
       None \<Rightarrow> no_notification
     | Some n \<Rightarrow>
         \<lparr>sn_ID = pbn_Id n, sn_IdempotencyKey = pbn_IdempotencyKey n, sn_Title = pbn_Title n, sn_Body = pbn_Body n,
          sn_Requested = sdk_fromPriority L (pbn_RequestedPriority n),
          sn_Priority = sdk_fromPriority L (pbn_EffectivePriority n), sn_ExpireAt = fromTimestamp (pbn_ExpireAt n),
          sn_Metadata = pbn_Metadata n, sn_CreatedAt = fromTimestamp (pbn_CreatedAt n)\<rparr>)"

definition sdk_fromDelivery :: "golib \<Rightarrow> pb_delivery \<Rightarrow> sdk_delivery" where
  "sdk_fromDelivery L d =
    \<lparr>sd_ID = pbd_Id d, sd_Channel = sdk_fromChannel L (pbd_Channel d), sd_Address = pbd_Address d,
     sd_Sender = pbd_Sender d, sd_Status = sdk_fromStatus L (pbd_Status d),
     sd_Reason = sdk_fromReason L (pbd_FailureReason d), sd_ProviderMessageID = pbd_ProviderMessageId d,
     sd_UpdatedAt = fromTimestamp (pbd_UpdatedAt d)\<rparr>"

definition sdk_fromDeliveries :: "golib \<Rightarrow> pb_delivery list \<Rightarrow> sdk_delivery list" where
  "sdk_fromDeliveries L ds = map (sdk_fromDelivery L) ds"


subsection \<open>Sending\<close>

record sdk_message =
  sm_IdempotencyKey :: string
  sm_Title :: string
  sm_Body :: string
  sm_Priority :: string
  sm_ExpireAt :: time
  sm_Metadata :: "(string \<times> string) list"
  sm_Routes :: "sdk_route list"

record receipt =
  rct_ID :: string
  rct_Priority :: string
  rct_Downgraded :: bool
  rct_Duplicate :: bool

definition idempotencyKeyBytes :: nat where
  "idempotencyKeyBytes = 16"

definition newIdempotencyKey :: "'w client \<Rightarrow> 'w \<Rightarrow> (sdk_error + string) \<times> 'w" where
  "newIdempotencyKey C w =
    (case cli_rand C idempotencyKeyBytes w of
       (Inl err, w') \<Rightarrow>
         (Inl \<lparr>sde_kind = ErrInternal, sde_Message = ''could not generate an idempotency key''\<rparr>, w')
     | (Inr raw, w') \<Rightarrow> (Inr (hex_EncodeToString raw), w'))"

definition submit_request_of :: "sdk_message \<Rightarrow> string \<Rightarrow> pb_submit_request" where
  "submit_request_of m key =
    \<lparr>psr_IdempotencyKey = key, psr_Title = sm_Title m, psr_Body = sm_Body m,
     psr_Priority = sdk_toPriority (sm_Priority m), psr_ExpireAt = toTimestamp (sm_ExpireAt m),
     psr_Metadata = sm_Metadata m, psr_Routes = toRoutes (sm_Routes m)\<rparr>"

text \<open>An answer of another type than the call's cannot come out of the generated stub.\<close>

definition wrong_reply :: sdk_error where
  "wrong_reply = \<lparr>sde_kind = ErrInternal, sde_Message = ''unexpected reply''\<rparr>"

definition sdk_Submit :: "'w client \<Rightarrow> sdk_message \<Rightarrow> 'w \<Rightarrow> (sdk_error + receipt) \<times> 'w" where
  "sdk_Submit C m w =
    (if sm_Routes m = [] then
       (Inl \<lparr>sde_kind = ErrInvalidRequest, sde_Message = ''a message needs at least one route''\<rparr>, w)
     else
       case (if sm_IdempotencyKey m = '''' then newIdempotencyKey C w else (Inr (sm_IdempotencyKey m), w)) of
         (Inl err, w') \<Rightarrow> (Inl err, w')
       | (Inr key, w') \<Rightarrow>
           (case sdk_call C (RpcSubmit (submit_request_of m key)) w' of
              (Inl err, w'') \<Rightarrow> (Inl err, w'')
            | (Inr (Submitted res), w'') \<Rightarrow>
                (Inr \<lparr>rct_ID = psp_Id res, rct_Priority = sdk_fromPriority (cli_lib C) (psp_EffectivePriority res),
                      rct_Downgraded = psp_Downgraded res, rct_Duplicate = psp_Duplicate res\<rparr>, w'')
            | (Inr _, w'') \<Rightarrow> (Inl wrong_reply, w'')))"

subsection \<open>Asking\<close>

record sdk_result =
  sr_Notification :: sdk_notification
  sr_Deliveries :: "sdk_delivery list"

text \<open>
  \<open>Get\<close> follows the page tokens until there is none. \<open>fuel\<close> bounds the pages; None is a loop that
  has not ended by then.
\<close>

fun Get_pages ::
    "'w client \<Rightarrow> string \<Rightarrow> nat \<Rightarrow> string \<Rightarrow> sdk_delivery list \<Rightarrow> 'w \<Rightarrow> (sdk_error + sdk_result) option \<times> 'w" where
  "Get_pages C i 0 token ds w = (None, w)"
| "Get_pages C i (Suc fuel) token ds w =
    (case sdk_call C (RpcGet i (Some \<lparr>pbp_After = token, pbp_Limit = 0\<rparr>)) w of
       (Inl err, w') \<Rightarrow> (Some (Inl err), w')
     | (Inr (Got res), w') \<Rightarrow>
         let ds = ds @ sdk_fromDeliveries (cli_lib C) (pgr_Deliveries res) in
         if pgr_NextPageToken res = '''' then
           (Some (Inr \<lparr>sr_Notification = sdk_fromNotification (cli_lib C) (pgr_Notification res), sr_Deliveries = ds\<rparr>), w')
         else Get_pages C i fuel (pgr_NextPageToken res) ds w'
     | (Inr _, w') \<Rightarrow> (Some (Inl wrong_reply), w'))"

definition sdk_Get :: "nat \<Rightarrow> 'w client \<Rightarrow> string \<Rightarrow> 'w \<Rightarrow> (sdk_error + sdk_result) option \<times> 'w" where
  "sdk_Get fuel C i = Get_pages C i fuel '''' []"

text \<open>
  \<open>List\<close> hands out one message at a time, and asks for the next page only when the loop goes on:
  \<open>wants\<close> says whether the loop's body asked for another after it. An error is handed out last.
\<close>

fun hand_out :: "(sdk_notification \<Rightarrow> bool) \<Rightarrow> sdk_notification list \<Rightarrow> sdk_notification list \<times> bool" where
  "hand_out wants [] = ([], True)"
| "hand_out wants (n # ns) =
    (if wants n then (case hand_out wants ns of (out, go) \<Rightarrow> (n # out, go)) else ([n], False))"

fun List_pages ::
    "'w client \<Rightarrow> (sdk_notification \<Rightarrow> bool) \<Rightarrow> string \<Rightarrow> nat \<Rightarrow> string \<Rightarrow> 'w
      \<Rightarrow> (sdk_notification list \<times> sdk_error option) option \<times> 'w" where
  "List_pages C wants window 0 token w = (None, w)"
| "List_pages C wants window (Suc fuel) token w =
    (case sdk_call C (RpcList (sdk_toWindow window) (Some \<lparr>pbp_After = token, pbp_Limit = 0\<rparr>)) w of
       (Inl err, w') \<Rightarrow> (Some ([], Some err), w')
     | (Inr (Listed res), w') \<Rightarrow>
         (case hand_out wants (map (\<lambda>n. sdk_fromNotification (cli_lib C) (Some n)) (plr_Notifications res)) of
            (out, go) \<Rightarrow>
              if \<not> go \<or> plr_NextPageToken res = '''' then (Some (out, None), w')
              else (case List_pages C wants window fuel (plr_NextPageToken res) w' of
                  (None, w'') \<Rightarrow> (None, w'')
                | (Some (rest, err), w'') \<Rightarrow> (Some (out @ rest, err), w'')))
     | (Inr _, w') \<Rightarrow> (Some ([], Some wrong_reply), w'))"

subsection \<open>Callbacks and who is calling\<close>

record sdk_webhook =
  swh_ID :: string
  swh_CallbackURL :: string
  swh_Active :: bool
  swh_ConsecutiveFailures :: int
  swh_CreatedAt :: time
  swh_UpdatedAt :: time

definition sdk_fromWebhook :: "pb_webhook \<Rightarrow> sdk_webhook" where
  "sdk_fromWebhook w =
    \<lparr>swh_ID = pbw_Id w, swh_CallbackURL = pbw_CallbackUrl w, swh_Active = pbw_IsActive w,
     swh_ConsecutiveFailures = pbw_ConsecutiveFailures w, swh_CreatedAt = fromTimestamp (pbw_CreatedAt w),
     swh_UpdatedAt = fromTimestamp (pbw_UpdatedAt w)\<rparr>"

definition Webhooks_Register :: "'w client \<Rightarrow> string \<Rightarrow> 'w \<Rightarrow> (sdk_error + (sdk_webhook \<times> string)) \<times> 'w" where
  "Webhooks_Register C url w =
    (case sdk_call C (RpcRegisterWebhook url) w of
       (Inl err, w') \<Rightarrow> (Inl err, w')
     | (Inr (HookSecret h secret), w') \<Rightarrow> (Inr (sdk_fromWebhook h, secret), w')
     | (Inr _, w') \<Rightarrow> (Inl wrong_reply, w'))"

definition Webhooks_RotateSecret :: "'w client \<Rightarrow> 'w \<Rightarrow> (sdk_error + string) \<times> 'w" where
  "Webhooks_RotateSecret C w =
    (case sdk_call C RpcRotateSecret w of
       (Inl err, w') \<Rightarrow> (Inl err, w')
     | (Inr (Secret secret), w') \<Rightarrow> (Inr secret, w')
     | (Inr _, w') \<Rightarrow> (Inl wrong_reply, w'))"

definition hook_call :: "'w client \<Rightarrow> rpc \<Rightarrow> 'w \<Rightarrow> (sdk_error + sdk_webhook) \<times> 'w" where
  "hook_call C req w =
    (case sdk_call C req w of
       (Inl err, w') \<Rightarrow> (Inl err, w')
     | (Inr (Hook h), w') \<Rightarrow> (Inr (sdk_fromWebhook h), w')
     | (Inr _, w') \<Rightarrow> (Inl wrong_reply, w'))"

definition Webhooks_Get :: "'w client \<Rightarrow> 'w \<Rightarrow> (sdk_error + sdk_webhook) \<times> 'w" where
  "Webhooks_Get C = hook_call C RpcGetWebhook"

definition Webhooks_Deactivate :: "'w client \<Rightarrow> 'w \<Rightarrow> (sdk_error + sdk_webhook) \<times> 'w" where
  "Webhooks_Deactivate C = hook_call C RpcDeactivateWebhook"

definition Webhooks_Activate :: "'w client \<Rightarrow> 'w \<Rightarrow> (sdk_error + sdk_webhook) \<times> 'w" where
  "Webhooks_Activate C = hook_call C RpcActivateWebhook"

record sdk_me =
  me_ID :: string
  me_Name :: string
  me_MaxPriority :: string
  me_AllowCustomAddress :: bool
  me_DefaultAddresses :: "(string \<times> string) list"
  me_Retention :: duration
  me_RateLimitPerMinute :: int

definition MaxWindow :: "sdk_me \<Rightarrow> string" where
  "MaxWindow m =
    (if 30 * 24 * hour \<le> me_Retention m then ''last_month''
     else if 7 * 24 * hour \<le> me_Retention m then ''last_week''
     else if 24 * hour \<le> me_Retention m then ''last_day''
     else if hour \<le> me_Retention m then ''last_hour''
     else '''')"

definition sdk_Whoami :: "'w client \<Rightarrow> 'w \<Rightarrow> (sdk_error + sdk_me) \<times> 'w" where
  "sdk_Whoami C w =
    (case sdk_call C RpcWhoami w of
       (Inl err, w') \<Rightarrow> (Inl err, w')
     | (Inr (Me res), w') \<Rightarrow>
         (Inr \<lparr>me_ID = pwh_Id res, me_Name = pwh_Name res, me_MaxPriority = sdk_fromPriority (cli_lib C) (pwh_MaxPriority res),
               me_AllowCustomAddress = pwh_AllowCustomAddress res, me_DefaultAddresses = pwh_DefaultAddresses res,
               me_Retention = pwh_Retention res, me_RateLimitPerMinute = pwh_RateLimitPerMinute res\<rparr>, w')
     | (Inr _, w') \<Rightarrow> (Inl wrong_reply, w'))"

subsection \<open>Identities\<close>

text \<open>
  The settings of a credential are a JSON object; \<open>marshal\<close> of a map of strings and numbers is a
  parameter, with the fields in the order of their names, as package json writes a map.
\<close>

datatype json_value = JString string | JNumber int

datatype sdk_credential =
    TelegramCredential string string
  | BaleCredential string string
  | SMTPCredential string int string string string string
  | MatrixCredential string string
  | GotifyCredential string string string
  | WhatsAppCredential string string
  | FCMCredential string
  | APNsCredential string string string string string
  | RawCredential string string string

fun sdk_channel :: "sdk_credential \<Rightarrow> string" where
  "sdk_channel (TelegramCredential token mode) = ''telegram''"
| "sdk_channel (BaleCredential token mode) = ''bale''"
| "sdk_channel (SMTPCredential host port user sender ctype pass) = ''email''"
| "sdk_channel (MatrixCredential server token) = ''matrix''"
| "sdk_channel (GotifyCredential server ctype token) = ''gotify''"
| "sdk_channel (WhatsAppCredential number token) = ''whatsapp''"
| "sdk_channel (FCMCredential account) = ''fcm''"
| "sdk_channel (APNsCredential kid tid topic environment k) = ''apns''"
| "sdk_channel (RawCredential channel config secret) = channel"

fun sdk_secret :: "sdk_credential \<Rightarrow> string" where
  "sdk_secret (TelegramCredential token mode) = token"
| "sdk_secret (BaleCredential token mode) = token"
| "sdk_secret (SMTPCredential host port user sender ctype pass) = pass"
| "sdk_secret (MatrixCredential server token) = token"
| "sdk_secret (GotifyCredential server ctype token) = token"
| "sdk_secret (WhatsAppCredential number token) = token"
| "sdk_secret (FCMCredential account) = account"
| "sdk_secret (APNsCredential kid tid topic environment k) = k"
| "sdk_secret (RawCredential channel config secret) = secret"

type_synonym marshal = "(string \<times> json_value) list \<Rightarrow> string + string"

fun Settings :: "marshal \<Rightarrow> sdk_credential \<Rightarrow> string + string" where
  "Settings M (TelegramCredential token mode) =
     (if mode = '''' then Inr '''' else M [(''parse_mode'', JString mode)])"
| "Settings M (BaleCredential token mode) =
     (if mode = '''' then Inr '''' else M [(''parse_mode'', JString mode)])"
| "Settings M (SMTPCredential host port user sender ctype pass) =
     M ((if ctype \<noteq> '''' then [(''content_type'', JString ctype)] else [])
        @ [(''from'', JString sender), (''host'', JString host), (''port'', JNumber port), (''username'', JString user)])"
| "Settings M (MatrixCredential server token) = M [(''homeserver'', JString server)]"
| "Settings M (GotifyCredential server ctype token) =
     M ((if ctype \<noteq> '''' then [(''content_type'', JString ctype)] else []) @ [(''server_url'', JString server)])"
| "Settings M (WhatsAppCredential number token) = M [(''phone_number_id'', JString number)]"
| "Settings M (FCMCredential account) = Inr ''''"
| "Settings M (APNsCredential kid tid topic environment k) =
     M [(''environment'', JString environment), (''key_id'', JString kid), (''team_id'', JString tid), (''topic'', JString topic)]"
| "Settings M (RawCredential channel config secret) = Inr config"

text \<open>A credential prints as what is not secret of it.\<close>

fun credential_String :: "golib \<Rightarrow> sdk_credential \<Rightarrow> string" where
  "credential_String L (TelegramCredential token mode) = Sprintf L ''TelegramCredential{ParseMode:%q}'' [FmtS mode]"
| "credential_String L (BaleCredential token mode) = Sprintf L ''BaleCredential{ParseMode:%q}'' [FmtS mode]"
| "credential_String L (SMTPCredential host port user sender ctype pass) =
     Sprintf L ''SMTPCredential{Host:%q, Port:%d, Username:%q, From:%q}'' [FmtS host, FmtD port, FmtS user, FmtS sender]"
| "credential_String L (MatrixCredential server token) = Sprintf L ''MatrixCredential{Homeserver:%q}'' [FmtS server]"
| "credential_String L (GotifyCredential server ctype token) =
     Sprintf L ''GotifyCredential{ServerURL:%q, ContentType:%q}'' [FmtS server, FmtS ctype]"
| "credential_String L (WhatsAppCredential number token) =
     Sprintf L ''WhatsAppCredential{PhoneNumberID:%q}'' [FmtS number]"
| "credential_String L (FCMCredential account) = ''FCMCredential{'' @ [CHR 0xE2, CHR 0x80, CHR 0xA6] @ ''}''"
| "credential_String L (APNsCredential kid tid topic environment k) =
     Sprintf L ''APNsCredential{KeyID:%q, TeamID:%q, Topic:%q, Environment:%q}''
       [FmtS kid, FmtS tid, FmtS topic, FmtS environment]"
| "credential_String L (RawCredential channel config secret) = Sprintf L ''RawCredential{Channel:%q}'' [FmtS channel]"

fun with_secret :: "string \<Rightarrow> sdk_credential \<Rightarrow> sdk_credential" where
  "with_secret s (TelegramCredential token mode) = TelegramCredential s mode"
| "with_secret s (BaleCredential token mode) = BaleCredential s mode"
| "with_secret s (SMTPCredential host port user sender ctype pass) = SMTPCredential host port user sender ctype s"
| "with_secret s (MatrixCredential server token) = MatrixCredential server s"
| "with_secret s (GotifyCredential server ctype token) = GotifyCredential server ctype s"
| "with_secret s (WhatsAppCredential number token) = WhatsAppCredential number s"
| "with_secret s (FCMCredential account) = FCMCredential s"
| "with_secret s (APNsCredential kid tid topic environment k) = APNsCredential kid tid topic environment s"
| "with_secret s (RawCredential channel config secret) = RawCredential channel config s"

text \<open>Neither what is printed nor the settings that are stored readable depend on the secret.\<close>

lemma secret_apart:
  "credential_String L (with_secret s c) = credential_String L c"
  "Settings M (with_secret s c) = Settings M c"
  "sdk_secret (with_secret s c) = s"
  by (cases c; simp)+

record sdk_identity =
  sid_ID :: string
  sid_Channel :: string
  sid_Name :: string
  sid_Default :: bool
  sid_Active :: bool
  sid_CreatedAt :: time

definition fromIdentity :: "golib \<Rightarrow> pb_credential \<Rightarrow> sdk_identity" where
  "fromIdentity L c =
    \<lparr>sid_ID = pbc_Id c, sid_Channel = sdk_fromChannel L (pbc_Channel c), sid_Name = pbc_Name c,
     sid_Default = pbc_IsDefault c, sid_Active = pbc_IsActive c, sid_CreatedAt = fromTimestamp (pbc_CreatedAt c)\<rparr>"

record sdk_registration =
  srg_Name :: string
  srg_Default :: bool
  srg_Credential :: "sdk_credential option"

definition identity_call :: "'w client \<Rightarrow> rpc \<Rightarrow> 'w \<Rightarrow> (sdk_error + sdk_identity) \<times> 'w" where
  "identity_call C req w =
    (case sdk_call C req w of
       (Inl err, w') \<Rightarrow> (Inl err, w')
     | (Inr (Identity c), w') \<Rightarrow> (Inr (fromIdentity (cli_lib C) c), w')
     | (Inr _, w') \<Rightarrow> (Inl wrong_reply, w'))"

definition sdk_Credentials_Register ::
    "marshal \<Rightarrow> 'w client \<Rightarrow> sdk_registration \<Rightarrow> 'w \<Rightarrow> (sdk_error + sdk_identity) \<times> 'w" where
  "sdk_Credentials_Register M C r w =
    (case srg_Credential r of
       None \<Rightarrow> (Inl \<lparr>sde_kind = ErrInvalidRequest, sde_Message = ''a registration needs a credential''\<rparr>, w)
     | Some cred \<Rightarrow>
         (case Settings M cred of
            Inl err \<Rightarrow> (Inl \<lparr>sde_kind = ErrInvalidRequest, sde_Message = err\<rparr>, w)
          | Inr settings \<Rightarrow>
              identity_call C (RpcRegisterCredential
                \<lparr>prc_Channel = sdk_toChannel (sdk_channel cred), prc_Name = srg_Name r, prc_Config = settings,
                 prc_Secret = sdk_secret cred, prc_IsDefault = srg_Default r\<rparr>) w))"

definition sdk_Credentials_List :: "'w client \<Rightarrow> string \<Rightarrow> 'w \<Rightarrow> (sdk_error + sdk_identity list) \<times> 'w" where
  "sdk_Credentials_List C channel w =
    (case sdk_call C (RpcListCredentials (sdk_toChannel channel)) w of
       (Inl err, w') \<Rightarrow> (Inl err, w')
     | (Inr (Identities cs), w') \<Rightarrow> (Inr (map (fromIdentity (cli_lib C)) cs), w')
     | (Inr _, w') \<Rightarrow> (Inl wrong_reply, w'))"

definition sdk_Credentials_Rotate ::
    "'w client \<Rightarrow> string \<Rightarrow> string \<Rightarrow> 'w \<Rightarrow> (sdk_error + sdk_identity) \<times> 'w" where
  "sdk_Credentials_Rotate C i secret = identity_call C (RpcRotate i secret)"

definition sdk_Credentials_Update ::
    "marshal \<Rightarrow> 'w client \<Rightarrow> string \<Rightarrow> sdk_credential option \<Rightarrow> 'w \<Rightarrow> (sdk_error + sdk_identity) \<times> 'w" where
  "sdk_Credentials_Update M C i cred_opt w =
    (case cred_opt of
       None \<Rightarrow> (Inl \<lparr>sde_kind = ErrInvalidRequest, sde_Message = ''an update needs a credential to read settings from''\<rparr>, w)
     | Some cred \<Rightarrow>
         (case Settings M cred of
            Inl err \<Rightarrow> (Inl \<lparr>sde_kind = ErrInvalidRequest, sde_Message = err\<rparr>, w)
          | Inr settings \<Rightarrow> identity_call C (RpcUpdate i settings) w))"

definition sdk_Credentials_Deactivate :: "'w client \<Rightarrow> string \<Rightarrow> 'w \<Rightarrow> (sdk_error + sdk_identity) \<times> 'w" where
  "sdk_Credentials_Deactivate C i = identity_call C (RpcDeactivateCredential i)"

definition sdk_Credentials_Activate :: "'w client \<Rightarrow> string \<Rightarrow> 'w \<Rightarrow> (sdk_error + sdk_identity) \<times> 'w" where
  "sdk_Credentials_Activate C i = identity_call C (RpcActivateCredential i)"

definition sdk_Credentials_SetDefault :: "'w client \<Rightarrow> string \<Rightarrow> 'w \<Rightarrow> (sdk_error + sdk_identity) \<times> 'w" where
  "sdk_Credentials_SetDefault C i = identity_call C (RpcSetDefault i)"


subsection \<open>Names on both sides\<close>

lemma sdk_fromChannel_name: "Channel_Valid c \<Longrightarrow> sdk_fromChannel L (fromChannel c) = Channel_String c"
  by (cases c) (simp_all add: sdk_fromChannel_def pb_channels EnumStringOf_def Channel_name_def TrimPrefix_def
      ToLower_name byte_def lower_name_def)

lemma sdk_fromStatus_name:
  "Status_Valid s \<Longrightarrow> sdk_fromStatus L (fromStatus s) = lower_name (Status_String s)"
  by (cases s) (simp_all add: sdk_fromStatus_def pb_statuses EnumStringOf_def DeliveryStatus_name_def TrimPrefix_def
      ToLower_name byte_def lower_name_def Status_Valid_def transitions_def)

lemma sdk_fromReason_name:
  "Failure_Valid r \<Longrightarrow> sdk_fromReason L (fromFailureReason r) = lower_name (Failure_String r)"
  "sdk_fromReason L (fromFailureReason no_failure) = ''''"
  by (cases r) (simp_all add: sdk_fromReason_def pb_reasons EnumStringOf_def FailureReason_name_def TrimPrefix_def
      ToLower_name byte_def lower_name_def)

lemma sdk_toChannel_known: "toChannel (sdk_toChannel s) = Inr c \<longleftrightarrow> s = Channel_String c \<and> Channel_Valid c"
proof -
  have "sdk_toChannel s = fromChannel (Channel s)"
    by (auto simp: sdk_toChannel_def or_zero_def channelsOut_def Channel_def AllChannels_def pb_channels)
  then have "toChannel (sdk_toChannel s) = Inr c \<longleftrightarrow> Channel_Valid (Channel s) \<and> c = Channel s"
    by (simp only: toChannel_Inr)
  then show ?thesis by auto
qed


subsection \<open>A message on its way in, a delivery on its way out\<close>

definition route_channel :: "pb_route \<Rightarrow> channel" where
  "route_channel r = (case toChannel (pbr_Channel r) of Inr c \<Rightarrow> c | Inl e \<Rightarrow> ChannelOther '''')"

definition agree :: "pb_route list \<Rightarrow> (channel \<times> string) list \<Rightarrow> bool" where
  "agree rs senders \<longleftrightarrow>
     (\<forall>r \<in> set rs. pbr_Sender r \<noteq> '''' \<longrightarrow>
        (\<forall>n. map_of senders (route_channel r) = Some n \<longrightarrow> n = pbr_Sender r)
        \<and> (\<forall>q \<in> set rs. pbr_Sender q \<noteq> '''' \<longrightarrow> route_channel q = route_channel r \<longrightarrow> pbr_Sender q = pbr_Sender r))"

lemma read_routes_works:
  assumes "\<forall>r \<in> set rs. \<not> isl (toChannel (pbr_Channel r))" "agree rs senders"
  shows "\<exists>senders'. read_routes rs routes senders =
      Inr (routes @ map (\<lambda>r. \<lparr>rt_Channel = route_channel r, rt_Address = pbr_Address r\<rparr>) rs, senders')
    \<and> (\<forall>c n. map_of senders c = Some n \<longrightarrow> map_of senders' c = Some n)
    \<and> (\<forall>r \<in> set rs. pbr_Sender r \<noteq> '''' \<longrightarrow> map_of senders' (route_channel r) = Some (pbr_Sender r))"
  using assms
proof (induction rs arbitrary: routes senders)
  case Nil
  then show ?case by simp
next
  case (Cons r rs)
  then obtain c where c: "toChannel (pbr_Channel r) = Inr c" by (auto simp: isl_def) (metis sum.exhaust)
  then have rc: "route_channel r = c" by (simp add: route_channel_def)
  let ?routes = "routes @ [\<lparr>rt_Channel = c, rt_Address = pbr_Address r\<rparr>]"
  define next_senders where
    "next_senders = (if pbr_Sender r \<noteq> '''' \<and> map_of senders c = None then senders @ [(c, pbr_Sender r)] else senders)"
  have more: "map_of senders d = Some n \<Longrightarrow> map_of next_senders d = Some n" for d n
    by (auto simp: next_senders_def map_add_def)
  have here: "map_of next_senders c = Some (pbr_Sender r)" if "pbr_Sender r \<noteq> ''''"
    using Cons.prems(2) that rc by (cases "map_of senders c") (auto simp: next_senders_def agree_def map_add_def)
  have "agree rs next_senders"
    using Cons.prems(2) rc by (auto simp: agree_def next_senders_def map_add_def split: if_splits option.splits)
  from Cons.IH [OF _ this, of ?routes] Cons.prems(1) obtain senders' where
    IH: "read_routes rs ?routes next_senders = Inr (?routes @ map (\<lambda>r. \<lparr>rt_Channel = route_channel r, rt_Address = pbr_Address r\<rparr>) rs, senders')"
      "\<forall>c n. map_of next_senders c = Some n \<longrightarrow> map_of senders' c = Some n"
      "\<forall>r \<in> set rs. pbr_Sender r \<noteq> '''' \<longrightarrow> map_of senders' (route_channel r) = Some (pbr_Sender r)"
    by auto
  have "read_routes (r # rs) routes senders = read_routes rs ?routes next_senders"
    using c Cons.prems(2) rc
    by (cases "map_of senders c") (auto simp: then_result_def Let_def next_senders_def agree_def)
  then show ?case using IH more here rc by auto
qed

lemma read_routes_names:
  "read_routes rs routes senders = Inr (routes', senders') \<Longrightarrow> (c, n) \<in> set senders' \<Longrightarrow>
     (c, n) \<in> set senders \<or> (\<exists>r \<in> set rs. c = route_channel r \<and> n = pbr_Sender r \<and> n \<noteq> [])"
proof (induction rs arbitrary: routes senders)
  case (Cons r rs)
  then show ?case
    by (fastforce simp: then_result_Inr Let_def route_channel_def split: if_splits option.splits)
qed simp

definition known_channel :: "string \<Rightarrow> bool" where
  "known_channel s \<longleftrightarrow> s \<in> Channel_String ` set AllChannels"

lemma route_channel_out:
  "known_channel (srt_Channel r) \<Longrightarrow> toChannel (sdk_toChannel (srt_Channel r)) = Inr (Channel (srt_Channel r))"
  by (auto simp: known_channel_def sdk_toChannel_known Channel_Valid_iff [symmetric])

lemma toPriority_out:
  "toPriority (sdk_toPriority p) =
     Inr (if p = ''high'' then PriorityHigh else if p = ''critical'' then PriorityCritical else PriorityNormal)"
  by (simp add: toPriority_def sdk_toPriority_def or_zero_def prioritiesOut_def pb_priorities)

text \<open>
  C20. A message crosses the wire unchanged. Where every channel is one of the eight, no two senders are
  named for one channel and the expiry is Go's zero time (which stands for none) or up to \<open>2 ^ 62\<close> seconds
  after it, what \<open>Submit\<close> of the SDK sends is read by the service as a command of the calling source with the same key, title,
  body, expiry, metadata, and the same routes in the same order, and with exactly the senders named, each
  for its channel. The priority is the one given if that is \<open>high\<close>, \<open>critical\<close> or \<open>normal\<close>; none, or one
  the SDK does not know, is read as normal.
\<close>

theorem message_crosses_unchanged:
  assumes "\<forall>r \<in> set (sm_Routes m). known_channel (srt_Channel r)"
    and "\<forall>r \<in> set (sm_Routes m). \<forall>q \<in> set (sm_Routes m). srt_Sender r \<noteq> '''' \<longrightarrow> srt_Sender q \<noteq> ''''
       \<longrightarrow> srt_Channel q = srt_Channel r \<longrightarrow> srt_Sender q = srt_Sender r"
    and "0 \<le> sm_ExpireAt m" "sm_ExpireAt m < 2 ^ 62 * second"
  shows "\<exists>cmd. toSubmitCommand s (submit_request_of m key) = Inr cmd
    \<and> cmd_SourceID cmd = s \<and> cmd_IdempotencyKey cmd = key \<and> cmd_Title cmd = sm_Title m \<and> cmd_Body cmd = sm_Body m
    \<and> cmd_ExpireAt cmd = (if sm_ExpireAt m = 0 then None else Some (sm_ExpireAt m))
    \<and> cmd_Metadata cmd = metadata_of (sm_Metadata m)
    \<and> cmd_Priority cmd = (if sm_Priority m = ''high'' then PriorityHigh
         else if sm_Priority m = ''critical'' then PriorityCritical else PriorityNormal)
    \<and> map (\<lambda>r. (Channel_String (rt_Channel r), rt_Address r)) (cmd_Routes cmd)
        = map (\<lambda>r. (srt_Channel r, srt_Address r)) (sm_Routes m)
    \<and> (\<forall>r \<in> set (sm_Routes m). srt_Sender r \<noteq> '''' \<longrightarrow>
         map_of (cmd_Senders cmd) (Channel (srt_Channel r)) = Some (srt_Sender r))
    \<and> (\<forall>(c, n) \<in> set (cmd_Senders cmd). \<exists>r \<in> set (sm_Routes m). c = Channel (srt_Channel r) \<and> n = srt_Sender r \<and> n \<noteq> '''')"
proof -
  let ?rs = "toRoutes (sm_Routes m)"
  have chan: "route_channel \<lparr>pbr_Channel = sdk_toChannel (srt_Channel r), pbr_Address = a, pbr_Sender = n\<rparr> = Channel (srt_Channel r)"
    if "r \<in> set (sm_Routes m)" for r a n
    using route_channel_out [OF bspec [OF assms(1) that]] by (simp add: route_channel_def)
  have inj: "Channel x = Channel y \<longleftrightarrow> x = y" for x y by (metis Channel_String_Channel)
  have "\<forall>r \<in> set ?rs. \<not> isl (toChannel (pbr_Channel r))"
    using route_channel_out [OF bspec [OF assms(1)]] by (auto simp: toRoutes_def)
  moreover have "agree ?rs []"
    unfolding agree_def toRoutes_def using assms(2) by (auto simp: chan inj)
  ultimately obtain senders where read: "read_routes ?rs [] [] =
      Inr (map (\<lambda>r. \<lparr>rt_Channel = route_channel r, rt_Address = pbr_Address r\<rparr>) ?rs, senders)"
    and named: "\<forall>r \<in> set ?rs. pbr_Sender r \<noteq> '''' \<longrightarrow> map_of senders (route_channel r) = Some (pbr_Sender r)"
    using read_routes_works [of ?rs "[]" "[]"] by auto
  have routes: "map (\<lambda>r. (Channel_String (rt_Channel r), rt_Address r))
      (map (\<lambda>r. \<lparr>rt_Channel = route_channel r, rt_Address = pbr_Address r\<rparr>) ?rs)
      = map (\<lambda>r. (srt_Channel r, srt_Address r)) (sm_Routes m)"
    by (simp add: toRoutes_def chan)
  have senders: "\<forall>r \<in> set (sm_Routes m). srt_Sender r \<noteq> '''' \<longrightarrow> map_of senders (Channel (srt_Channel r)) = Some (srt_Sender r)"
  proof (intro ballI impI)
    fix r assume r: "r \<in> set (sm_Routes m)" "srt_Sender r \<noteq> ''''"
    let ?q = "\<lparr>pbr_Channel = sdk_toChannel (srt_Channel r), pbr_Address = srt_Address r, pbr_Sender = srt_Sender r\<rparr>"
    have "?q \<in> set ?rs" using r(1) by (auto simp: toRoutes_def)
    from bspec [OF named this] show "map_of senders (Channel (srt_Channel r)) = Some (srt_Sender r)"
      using r chan by simp
  qed
  have only: "\<forall>(c, n) \<in> set senders. \<exists>r \<in> set (sm_Routes m). c = Channel (srt_Channel r) \<and> n = srt_Sender r \<and> n \<noteq> ''''"
  proof clarify
    fix c n assume "(c, n) \<in> set senders"
    with read_routes_names [OF read] show "\<exists>r \<in> set (sm_Routes m). c = Channel (srt_Channel r) \<and> n = srt_Sender r \<and> n \<noteq> ''''"
      by (auto simp: toRoutes_def chan)
  qed
  have expire: "toTime (toTimestamp (sm_ExpireAt m)) = (if sm_ExpireAt m = 0 then None else Some (sm_ExpireAt m))"
    using AsTime_New [OF assms(3,4)] by (simp add: toTime_def toTimestamp_def IsZero_def)
  show ?thesis
    unfolding toSubmitCommand_def submit_request_of_def
    using read routes senders only expire by (simp add: toPriority_out then_result_def)
qed

theorem message_crosses_unchanged_witness:
  defines "m \<equiv> \<lparr>sm_IdempotencyKey = ''k'', sm_Title = ''t'', sm_Body = ''b'', sm_Priority = ''high'', sm_ExpireAt = 7,
      sm_Metadata = [], sm_Routes = [From (EmailTo ''a@b'') ''news'', TelegramTo ''@c'']\<rparr>"
  shows "\<exists>cmd. toSubmitCommand ''s'' (submit_request_of m ''k'') = Inr cmd
    \<and> map (\<lambda>r. (Channel_String (rt_Channel r), rt_Address r)) (cmd_Routes cmd) = [(''email'', ''a@b''), (''telegram'', ''@c'')]
    \<and> map_of (cmd_Senders cmd) ChannelEmail = Some ''news''"
proof -
  have "known_channel ''email''" "known_channel ''telegram''" "Channel ''email'' = ChannelEmail"
    by (auto simp: known_channel_def AllChannels_def Channel_def)
  then show ?thesis
    using message_crosses_unchanged [of m "''s''" "''k''"]
    by (auto simp: m_def From_def EmailTo_def TelegramTo_def second_def)
qed

end
