(* ===== verification/Link.thy ===== *)
theory Link
  imports Sdk
begin

text \<open>
  The client and the service together. A customer's SDK calls the deployed gateway over a network that
  may lose a request before it arrives or its answer after it was served, and the SDK repeats what is
  worth repeating.
\<close>

record gateway_config =
  gwc_age :: duration
  gwc_ring :: keyring
  gwc_rand :: "nat \<Rightarrow> (world, string) io"
  gwc_sha256 :: "string \<Rightarrow> string"
  gwc_limits :: limits
  gwc_touchAfter :: duration
  gwc_policy :: url_policy

definition deployed_authn :: "env \<Rightarrow> gateway_config \<Rightarrow> world authenticator" where
  "deployed_authn E G = \<lparr>auth_keys = pg_keys E, auth_now = Now E, auth_touchAfter = gwc_touchAfter G\<rparr>"

definition deployed_grpc :: "env \<Rightarrow> gateway_config \<Rightarrow> world grpc_deps" where
  "deployed_grpc E G =
    \<lparr>gd_lib = lib E, gd_submitter = deployed_submitter E (gwc_age G),
     gd_querier = \<lparr>q_lib = lib E, q_notifs = deployed_notifs E (gwc_age G), q_deliveries = deployed_deliveries E\<rparr>,
     gd_registrar = \<lparr>reg_lib = lib E, reg_sources = deployed_sources E,
       reg_webhooks = \<lparr>ws_repo = pg_webhooks E, ws_newID = NewID E, ws_now = Now E, ws_policy = gwc_policy G\<rparr>,
       reg_secrets = \<lparr>sgs_Issue = WebhookKeeper_Issue
         \<lparr>wkp_store = \<lparr>wst_WriteSecret = pg_WriteSecret E, wst_ReadSecret = pg_ReadSecret E\<rparr>,
          wkp_keys = gwc_ring G, wkp_now = Now E, wkp_rand = gwc_rand G\<rparr>\<rparr>\<rparr>,
     gd_credentials = deployed_credentials E (gwc_ring G) (gwc_rand G),
     gd_limits = gwc_limits G, gd_authn = deployed_authn E G, gd_scheme = Parse (gwc_sha256 G)\<rparr>"

subsection \<open>A network that loses\<close>

datatype fate = Dropped rpc_failure | AnswerLost rpc_failure | Arrives

text \<open>The state of a link: the service's world, and the number of calls and draws made so far.\<close>

type_synonym link = "world \<times> nat"

definition over_network ::
    "world grpc_deps \<Rightarrow> (nat \<Rightarrow> fate) \<Rightarrow> (string \<times> string list) list \<Rightarrow> rpc \<Rightarrow> link \<Rightarrow> (rpc_failure + reply) \<times> link" where
  "over_network D fates md req l =
    (case l of (w, k) \<Rightarrow>
       case fates k of
         Dropped e \<Rightarrow> (Inl e, (w, Suc k))
       | AnswerLost e \<Rightarrow> (Inl e, (snd (serve D (Some md) req w), Suc k))
       | Arrives \<Rightarrow>
           (case serve D (Some md) req w of
              (Inl st, w') \<Rightarrow> (Inl (StatusFailure st), (w', Suc k))
            | (Inr r, w') \<Rightarrow> (Inr r, (w', Suc k))))"

record link_config =
  lnk_fates :: "nat \<Rightarrow> fate"
  lnk_ended :: "nat \<Rightarrow> string option"
  lnk_overflow :: "int \<Rightarrow> int"
  lnk_drawn :: "nat \<Rightarrow> unit + string"
  lnk_key :: string
  lnk_attempts :: int

definition linked :: "env \<Rightarrow> gateway_config \<Rightarrow> link_config \<Rightarrow> link client" where
  "linked E G N =
    \<lparr>cli_lib = lib E, cli_invoke = over_network (deployed_grpc E G) (lnk_fates N),
     cli_retry = \<lparr>re_pause = (\<lambda>d (w, k). (lnk_ended N k, (w, k))), re_float_overflow = lnk_overflow N\<rparr>,
     cli_APIKey = lnk_key N, cli_attempts = lnk_attempts N,
     cli_rand = (\<lambda>n (w, k). (lnk_drawn N k, (w, k)))\<rparr>"

subsection \<open>Repeating a call\<close>

text \<open>
  What a property of single calls says of a repeated one: an invariant of every call is kept, no more
  calls are made than allowed, and a success is the success of the last call.
\<close>

lemma retry_loop_run:
  assumes "retry_loop P left n fn w = (r, w')"
    and step: "\<And>w r w'. fn w = (r, w') \<Longrightarrow> I w \<Longrightarrow> I w'"
    and pause: "\<And>d w r w'. re_pause P d w = (r, w') \<Longrightarrow> I w \<Longrightarrow> I w'"
    and "I w"
  shows "I w' \<and> (\<forall>x. r = Inr x \<longrightarrow> (\<exists>v. I v \<and> fn v = (Inr x, w')))"
  using assms(1,4)
proof (induction left arbitrary: n w)
  case 0
  obtain a v where a: "fn w = (a, v)" by fastforce
  then have "I v" using step 0 by blast
  then show ?case using 0 a by (cases a) (auto simp: retry_loop.simps [of P 0] split: if_splits)
next
  case (Suc left)
  obtain a v where a: "fn w = (a, v)" by fastforce
  then have v: "I v" using step Suc.prems by blast
  show ?case
  proof (cases a)
    case (Inr x)
    then show ?thesis using Suc.prems a v by (auto simp: retry_loop.simps [of P "Suc left"])
  next
    case (Inl e)
    show ?thesis
    proof (cases "worthRepeating e")
      case False
      then show ?thesis using Suc.prems a v Inl by (auto simp: retry_loop.simps [of P "Suc left"])
    next
      case True
      obtain b u where p: "re_pause P (wait_for P e n) v = (b, u)" by fastforce
      then have u: "I u" using pause v by blast
      show ?thesis
      proof (cases b)
        case None
        then have "retry_loop P left (Suc n) fn u = (r, w')"
          using Suc.prems(1) a Inl True p by (simp add: retry_loop.simps [of P "Suc left"])
        from Suc.IH [OF this u] show ?thesis .
      next
        case (Some x)
        then show ?thesis using Suc.prems(1) a Inl True p u by (auto simp: retry_loop.simps [of P "Suc left"])
      qed
    qed
  qed
qed

lemma retry_loop_count:
  assumes "retry_loop P left n fn w = (r, w')"
    and step: "\<And>w r w'. fn w = (r, w') \<Longrightarrow> count w' = Suc (count w)"
    and pause: "\<And>d w r w'. re_pause P d w = (r, w') \<Longrightarrow> count w' = (count w :: nat)"
  shows "count w < count w' \<and> count w' \<le> count w + Suc left"
  using assms(1)
proof (induction left arbitrary: n w)
  case 0
  obtain a v where a: "fn w = (a, v)" by fastforce
  then show ?case using 0 step [OF a] by (cases a) (auto simp: retry_loop.simps [of P 0] split: if_splits)
next
  case (Suc left)
  obtain a v where a: "fn w = (a, v)" by fastforce
  note v = step [OF a]
  show ?case
  proof (cases "\<exists>e. a = Inl e \<and> worthRepeating e")
    case False
    then show ?thesis using Suc.prems a v
      by (cases a) (auto simp: retry_loop.simps [of P "Suc left"])
  next
    case True
    then obtain e where e: "a = Inl e" "worthRepeating e" by blast
    obtain b u where p: "re_pause P (wait_for P e n) v = (b, u)" by fastforce
    note u = pause [OF p]
    show ?thesis
    proof (cases b)
      case None
      then have "retry_loop P left (Suc n) fn u = (r, w')"
        using Suc.prems a e p by (simp add: retry_loop.simps [of P "Suc left"])
      from Suc.IH [OF this] show ?thesis using u v by simp
    next
      case (Some x)
      then show ?thesis using Suc.prems a e p u v by (auto simp: retry_loop.simps [of P "Suc left"])
    qed
  qed
qed


lemma retry_Do_run:
  assumes "retry_Do P attempts fn w = (r, w')"
    and "\<And>w r w'. fn w = (r, w') \<Longrightarrow> I w \<Longrightarrow> I w'" "\<And>d w r w'. re_pause P d w = (r, w') \<Longrightarrow> I w \<Longrightarrow> I w'" "I w"
  shows "I w' \<and> (\<forall>x. r = Inr x \<longrightarrow> (\<exists>v. I v \<and> fn v = (Inr x, w')))"
proof -
  have "retry_loop P (nat ((if attempts < 1 then 1 else attempts) - 1)) 0 fn w = (r, w')"
    using assms(1) by (simp add: retry_Do_def Let_def)
  from retry_loop_run [of P _ _ fn w r w' I, OF this] assms(2-) show ?thesis by blast
qed

lemma retry_Do_count:
  assumes "retry_Do P attempts fn w = (r, w')"
    and "\<And>w r w'. fn w = (r, w') \<Longrightarrow> count w' = Suc (count w)"
      "\<And>d w r w'. re_pause P d w = (r, w') \<Longrightarrow> count w' = (count w :: nat)"
  shows "count w < count w' \<and> int (count w') \<le> int (count w) + max 1 attempts"
proof -
  let ?left = "nat ((if attempts < 1 then 1 else attempts) - 1)"
  have "retry_loop P ?left 0 fn w = (r, w')" using assms(1) by (simp add: retry_Do_def Let_def)
  from retry_loop_count [OF this assms(2,3)] have "count w < count w' \<and> count w' \<le> count w + Suc ?left" .
  then show ?thesis by (cases "attempts < 1") auto
qed

subsection \<open>What serving a submission does\<close>

lemma keeps_authenticating:
  "keeps db_step (Authenticate (deployed_authn E G) h)" "keeps db_step (RecordUse (deployed_authn E G) i)"
  by (auto intro!: keeps_db keeps_pg_keys split: option.split prod.split
      simp: Authenticate_def RecordUse_def deployed_authn_def pg_keys_def)

lemma closed_authenticating:
  "keeps tx_closed (Authenticate (deployed_authn E G) h)" "keeps tx_closed (RecordUse (deployed_authn E G) i)"
proof -
  have "keeps tx_closed (pg_ReadSourceByKeyHash E h t)" for h t
    by (auto intro!: keeps_tx_closed split: sum.split prod.split simp: pg_ReadSourceByKeyHash_def)
  then show "keeps tx_closed (Authenticate (deployed_authn E G) h)"
    by (auto intro!: keeps_tx_closed split: option.split prod.split
        simp: Authenticate_def deployed_authn_def pg_keys_def)
  have "keeps tx_closed (pg_TouchKey E i t d)" for t d
    by (auto intro!: keeps_tx_closed simp: pg_TouchKey_def)
  then show "keeps tx_closed (RecordUse (deployed_authn E G) i)"
    by (auto intro!: keeps_tx_closed simp: RecordUse_def deployed_authn_def pg_keys_def)
qed

text \<open>A key, by its hash, is of one source, and no write of the program gives it to another or removes it.\<close>

definition key_of :: "database \<Rightarrow> string \<Rightarrow> string \<Rightarrow> bool" where
  "key_of db hash s \<longleftrightarrow> (\<exists>k \<in> set (t_api_keys db). ak_key_hash k = hash \<and> ak_source_id k = s)"

lemma key_of_iff:
  "key_of db hash s \<longleftrightarrow> (hash, s) \<in> set (map (\<lambda>k. (ak_key_hash k, ak_source_id k)) (t_api_keys db))"
  by (auto simp: key_of_def)

lemma key_of_step:
  assumes "key_of db hash s"
  shows "key_of (run_write w db) hash s"
proof (cases "writes_keys w")
  case False
  then show ?thesis using assms by (simp add: key_of_def keys_frame)
next
  case True
  then have "\<exists>new. map (\<lambda>k. (ak_key_hash k, ak_source_id k)) (t_api_keys (run_write w db))
      = map (\<lambda>k. (ak_key_hash k, ak_source_id k)) (t_api_keys db) @ new"
    by (cases w) (auto simp: run_write_simps map_update_where)
  then have "set (map (\<lambda>k. (ak_key_hash k, ak_source_id k)) (t_api_keys db))
      \<subseteq> set (map (\<lambda>k. (ak_key_hash k, ak_source_id k)) (t_api_keys (run_write w db)))"
    by (metis set_append Un_upper1)
  then show ?thesis using assms unfolding key_of_iff by blast
qed

lemma key_of_grows: "grows w w' \<Longrightarrow> key_of (w_db w) hash s \<Longrightarrow> key_of (w_db w') hash s"
proof -
  have "key_of db hash s \<Longrightarrow> key_of (run_writes ws db) hash s" for ws db
    by (induction ws arbitrary: db) (simp_all add: key_of_step del: run_write.simps)
  then show "grows w w' \<Longrightarrow> key_of (w_db w) hash s \<Longrightarrow> key_of (w_db w') hash s"
    by (auto simp: grows_def writes_to_def)
qed

lemma Authenticate_names:
  assumes "Authenticate (deployed_authn E G) hash w = (Inr (src, keyID), w')"
  shows "key_of (w_db w') hash (src_ID src)"
proof -
  obtain now w0 where "pg_ReadSourceByKeyHash E hash now w0 = (Inr (Some (src, keyID)), w')"
    using assms by (auto simp: Authenticate_def deployed_authn_def pg_keys_def call_eq and_then_Inr lift_def
        split: if_splits option.splits prod.splits)
  then obtain row where x: "exec E (sql_ReadSourceByKeyHash hash now) w0 = (Inr (row, keyID), w')" "toSource row = Inr src"
    by (auto simp: pg_ReadSourceByKeyHash_def attempt_sum_eq and_then_Inr lift_def split: if_splits)
  obtain m :: world where "sql_ReadSourceByKeyHash hash now (w_db m) = (Inr (row, keyID), w_db w')"
    using exec_Inr [OF x(1)] by auto
  then obtain k where k: "the_row (\<lambda>k. ak_key_hash k = hash \<and> ak_revoked_at k = None
        \<and> (case ak_expires_at k of None \<Rightarrow> True | Some t \<Rightarrow> now < t)
        \<and> has_id so_id (ak_source_id k) (t_sources (w_db w'))) (t_api_keys (w_db w')) = Some k"
      and r: "the_row (\<lambda>r. so_id r = ak_source_id k) (t_sources (w_db w')) = Some row"
    by (auto simp: sql_ReadSourceByKeyHash_def one_row_def split: option.splits)
  have "src_ID src = so_id row" using x(2) by (auto simp: toSource_def then_result_Inr split: sum.splits if_splits)
  then show ?thesis using the_row_Some [OF k] the_row_Some [OF r] by (auto simp: key_of_def)
qed

text \<open>The metadata of a call present a key of the source.\<close>

definition presented_by :: "gateway_config \<Rightarrow> (string \<times> string list) list option \<Rightarrow> database \<Rightarrow> string \<Rightarrow> bool" where
  "presented_by G md db s \<longleftrightarrow>
     (\<exists>hash. Parse (gwc_sha256 G) (bearer \<lparr>cx_Metadata = md, cx_Source = None\<rparr>) = Inr hash \<and> key_of db hash s)"

lemma presented_by_grows: "grows w w' \<Longrightarrow> presented_by G md (w_db w) s \<Longrightarrow> presented_by G md (w_db w') s"
  using key_of_grows by (auto simp: presented_by_def)

text \<open>A served call: refused on the way, or handled for the source its key names.\<close>

lemma serve_run:
  assumes "serve (deployed_grpc E G) md req w = (r, w')"
  obtains (refused) e where "r = Inl (grpc_Status e)" "db_step w w'" "tx_closed w w'"
  | (handled) src w1 x where "db_step w w1" "tx_closed w w1"
      "handle (deployed_grpc E G) req \<lparr>cx_Metadata = md, cx_Source = Some src\<rparr> w1 = (x, w')"
      "r = (case x of Inl e \<Rightarrow> Inl (grpc_Status e) | Inr y \<Rightarrow> Inr y)"
      "presented_by G md (w_db w1) (src_ID src)"
proof -
  let ?cx = "\<lparr>cx_Metadata = md, cx_Source = None\<rparr>"
  have D: "gd_authn (deployed_grpc E G) = deployed_authn E G" "gd_scheme (deployed_grpc E G) = Parse (gwc_sha256 G)"
    by (simp_all add: deployed_grpc_def)
  have refl: "db_step w w" "tx_closed w w" by (rule db_steps.refl_R, rule closed_tx.refl_R)
  obtain x where x: "Auth (deployed_authn E G) (Parse (gwc_sha256 G)) (handle (deployed_grpc E G) req) ?cx w = (x, w')"
    and r: "r = (case x of Inl e \<Rightarrow> Inl (grpc_Status e) | Inr y \<Rightarrow> Inr y)"
    using assms unfolding serve_def Errors_def D by (auto split: prod.splits sum.splits)
  show thesis
  proof (cases "Parse (gwc_sha256 G) (bearer ?cx)")
    case (Inl e)
    then have "x = Inl e" "w' = w" using x by (auto simp: Auth_def and_then_def)
    then show thesis using refused r refl by simp
  next
    case (Inr hash)
    obtain a w1 where a: "Authenticate (deployed_authn E G) hash w = (a, w1)" by fastforce
    note step = keepsD [OF keeps_authenticating(1) a] keepsD [OF closed_authenticating(1) a]
    show thesis
    proof (cases a)
      case (Inl e)
      then have "x = Inl e" "w' = w1" using x a \<open>Parse _ _ = Inr hash\<close> by (auto simp: Auth_def and_then_def)
      then show thesis using refused r step by simp
    next
      case (Inr p)
      obtain src keyID where p: "p = (src, keyID)" by fastforce
      obtain b w2 where b: "RecordUse (deployed_authn E G) keyID w1 = (b, w2)" by fastforce
      have "handle (deployed_grpc E G) req \<lparr>cx_Metadata = md, cx_Source = Some src\<rparr> w2 = (x, w')"
        using x a b Inr p \<open>Parse _ _ = Inr hash\<close> by (simp add: Auth_def and_then_def ignoring_def attempt_def)
      moreover have "db_step w w2" "tx_closed w w2"
        using step keepsD [OF keeps_authenticating(2) b] keepsD [OF closed_authenticating(2) b]
        by (blast intro: db_steps.trans_R closed_tx.trans_R)+
      moreover have "presented_by G md (w_db w2) (src_ID src)"
        using Authenticate_names [of E G hash w src keyID w1] a Inr p \<open>Parse _ _ = Inr hash\<close>
          key_of_grows [of w1 w2] keepsD [OF keeps_authenticating(2) b]
        by (auto simp: presented_by_def db_step_def)
      ultimately show thesis using handled r by blast
    qed
  qed
qed

lemma grows_Submit: "keeps grows (Submit (deployed_submitter E age) cmd)"
proof -
  have adm: "keeps grows (Admit (deployed_sources E) i)" for i
  proof -
    have "keeps grows (pg_ReadSource E i)" by (rule keeps_grows_of) (rule keeps_pg_sources)
    then show ?thesis by (auto intro!: keeps_grows simp: Admit_def Load_def deployed_gateway pg_sources_def)
  qed
  have pub: "keeps grows (publish_all (deployed_submitter E age) n ds)" for n ds
  proof (induction ds)
    case Nil
    then show ?case by (simp add: keeps_def growing.refl_R)
  next
    case (Cons d ds)
    then show ?case by (auto intro!: keeps_grows simp: Service_Publish_def deployed_gateway outside_publisher_def)
  qed
  note sub = keeps_submission [of E age, THEN keeps_grows_of]
  have acc: "keeps grows (accept (deployed_submitter E age) cmd src)" for src
    using pub sub unfolding accept_def checkSenders_def
    by (auto intro!: keeps_grows split: sum.split prod.split simp: deployed_submitter_def)
  show ?thesis
    using adm sub(4) acc unfolding Submit_def
    by (auto intro!: keeps_grows split: option.split simp: deployed_submitter_def)
qed

lemma closed_Submit: "keeps tx_closed (Submit (deployed_submitter E age) cmd)"
proof -
  have pub: "keeps tx_closed (publish_all (deployed_submitter E age) n ds)" for n ds
  proof (induction ds)
    case Nil
    then show ?case by (simp add: keeps_def closed_tx.refl_R)
  next
    case (Cons d ds)
    then show ?case by (auto intro!: keeps_tx_closed simp: Service_Publish_def deployed_gateway outside_publisher_def)
  qed
  have rcd: "keeps tx_closed (raced (deployed_submitter E age) cmd e)" for e
    using closed_submission(3) unfolding raced_def
    by (auto intro!: keeps_tx_closed split: sum.split option.split simp: deployed_submitter_def)
  have acc: "keeps tx_closed (accept (deployed_submitter E age) cmd src)" for src
    using pub rcd closed_submission(1) unfolding accept_def checkSenders_def
    by (auto intro!: keeps_tx_closed split: sum.split prod.split simp: deployed_submitter_def)
  show ?thesis
    using closed_submission acc unfolding Submit_def
    by (auto intro!: keeps_tx_closed split: option.split simp: deployed_submitter_def)
qed


definition link_ok :: "link \<Rightarrow> bool" where
  "link_ok l \<longleftrightarrow> reachable (w_db (fst l)) \<and> w_tx (fst l) = NoTx"

lemma link_ok_step: "grows w w' \<Longrightarrow> tx_closed w w' \<Longrightarrow> link_ok (w, k) \<Longrightarrow> link_ok (w', k')"
  using grows_reachable [of w w'] by (simp add: link_ok_def tx_closed_def)

lemma toSubmitCommand_names:
  "toSubmitCommand s req = Inr cmd \<Longrightarrow> cmd_SourceID cmd = s \<and> cmd_IdempotencyKey cmd = psr_IdempotencyKey req"
  by (auto simp: toSubmitCommand_def then_result_def split: sum.splits prod.splits)

lemma served_submit:
  assumes "serve (deployed_grpc E G) md (RpcSubmit req) w = (r, w')" "w_tx w = NoTx"
  shows "grows w w' \<and> tx_closed w w' \<and> (\<forall>x. r = Inr x \<longrightarrow> (\<exists>p cmd. x = Submitted p
    \<and> cmd_IdempotencyKey cmd = psr_IdempotencyKey req \<and> presented_by G md (w_db w') (cmd_SourceID cmd)
    \<and> (psr_IdempotencyKey req \<noteq> '''' \<longrightarrow> known_message (w_db w') cmd (psp_Id p))))"
  using assms(1)
proof (cases rule: serve_run)
  case (refused e)
  then show ?thesis by (simp add: db_step_def)
next
  case (handled src w1 x)
  let ?S = "deployed_submitter E (gwc_age G)"
  have tx: "w_tx w1 = NoTx" using handled(2) assms(2) by (simp add: tx_closed_def)
  have g: "grows w w1" using handled(1) by (simp add: db_step_def)
  have h: "answering Submitted (NotificationServer_Submit ?S \<lparr>cx_Metadata = md, cx_Source = Some src\<rparr> req) w1 = (x, w')"
    using handled(3) by (simp add: deployed_grpc_def)
  show ?thesis
  proof (cases "toSubmitCommand (src_ID src) req")
    case (Inl e)
    then have "x = Inl e" "w' = w1"
      using h by (auto simp: answering_def NotificationServer_Submit_def SourceFrom_def and_then_def)
    then show ?thesis using g handled(2,4) by simp
  next
    case (Inr cmd)
    note names = toSubmitCommand_names [OF Inr]
    obtain a v where a: "Submit ?S cmd w1 = (a, v)" by fastforce
    have v: "v = w'" and x: "x = (case a of Inl e \<Rightarrow> Inl e | Inr res \<Rightarrow> Inr (Submitted
        \<lparr>psp_Id = subm_ID res, psp_EffectivePriority = fromPriority (subm_EffectivePriority res),
         psp_Downgraded = subm_Downgraded res, psp_Duplicate = subm_Duplicate res\<rparr>))"
      using h Inr a by (auto simp: answering_def NotificationServer_Submit_def SourceFrom_def and_then_def split: sum.splits)
    have "grows w w'" using growing.trans_R [OF g] keepsD [OF grows_Submit a] v by blast
    moreover have "presented_by G md (w_db w') (cmd_SourceID cmd)"
      using presented_by_grows [OF _ handled(5)] keepsD [OF grows_Submit a] v names by simp
    moreover have "tx_closed w w'" using closed_tx.trans_R [OF handled(2)] keepsD [OF closed_Submit a] v by blast
    moreover have "known_message (w_db w') cmd (subm_ID res)" if "a = Inr res" "psr_IdempotencyKey req \<noteq> ''''" for res
      using Submit_known [of E "gwc_age G" cmd w1 res w'] a v that names tx by simp
    ultimately show ?thesis using handled(4) x names by (cases a) auto
  qed
qed

lemma network_submit:
  assumes "over_network (deployed_grpc E G) fates md (RpcSubmit req) l = (r, l')" "link_ok l"
  shows "link_ok l' \<and> (\<forall>x. r = Inr x \<longrightarrow> (\<exists>p cmd. x = Submitted p
    \<and> cmd_IdempotencyKey cmd = psr_IdempotencyKey req \<and> presented_by G (Some md) (w_db (fst l')) (cmd_SourceID cmd)
    \<and> (psr_IdempotencyKey req \<noteq> '''' \<longrightarrow> known_message (w_db (fst l')) cmd (psp_Id p))))"
proof -
  obtain w k where l: "l = (w, k)" by fastforce
  obtain a w1 where s: "serve (deployed_grpc E G) (Some md) (RpcSubmit req) w = (a, w1)" by fastforce
  have tx: "w_tx w = NoTx" using assms(2) l by (simp add: link_ok_def)
  note served = served_submit [OF s tx]
  have ok: "link_ok (w1, j)" "link_ok (w, j)" for j
    using served link_ok_step [of w w1 k j] assms(2) l by (simp_all add: link_ok_def)
  show ?thesis
  proof (cases "fates k")
    case (Dropped e)
    then show ?thesis using assms(1) l ok by (auto simp: over_network_def)
  next
    case (AnswerLost e)
    then show ?thesis using assms(1) l ok s by (auto simp: over_network_def)
  next
    case Arrives
    then show ?thesis using assms(1) l ok s served by (cases a) (auto simp: over_network_def)
  qed
qed

lemma network_count:
  "over_network D fates md req l = (r, l') \<Longrightarrow> snd l' = Suc (snd l)"
  by (cases l) (auto simp: over_network_def split: fate.splits prod.splits sum.splits)

lemma linked_pause: "re_pause (cli_retry (linked E G N)) d l = (r, l') \<Longrightarrow> l' = l"
  by (cases l) (auto simp: linked_def)

text \<open>
  C17. A submission through the SDK is made once, however often it is tried. Over a network that loses
  requests or answers, with other processes writing meanwhile, one \<open>Submit\<close> makes no more calls than
  the client allows; and when it answers a receipt, the database holds exactly one message under the
  submission's one idempotency key (the message's own, or the one drawn before the first call) of the
  source whose API key the client presents, and the receipt names it.
\<close>

theorem sdk_submit_stands_once:
  assumes "sdk_Submit (linked E G N) m (w, k) = (r, (w', k'))"
    and "reachable (w_db w)" "w_tx w = NoTx"
    and "\<forall>j raw. lnk_drawn N j = Inr raw \<longrightarrow> raw \<noteq> ''''"
  shows "int k' \<le> int k + max 1 (lnk_attempts N) \<and>
    (\<forall>receipt. r = Inr receipt \<longrightarrow> (\<exists>s key row.
       (if sm_IdempotencyKey m = '''' then \<exists>raw. lnk_drawn N k = Inr raw \<and> key = hex_EncodeToString raw
        else key = sm_IdempotencyKey m)
       \<and> presented_by G (Some (authenticate (lnk_key N))) (w_db w') s
       \<and> nt_id row = rct_ID receipt
       \<and> {x \<in> set (t_notifications (w_db w')). nt_source_id x = s \<and> nt_idempotency_key x = Some key} = {row}))"
proof -
  let ?C = "linked E G N"
  define got_key where "got_key = (if sm_IdempotencyKey m = '''' then newIdempotencyKey ?C (w, k) else (Inr (sm_IdempotencyKey m), (w, k)))"
  obtain a l where a: "got_key = (a, l)" by (cases got_key) blast
  have l: "l = (w, k)"
    using a by (auto simp: got_key_def newIdempotencyKey_def linked_def split: if_splits sum.splits)
  have ok: "link_ok (w, k)" using assms(2,3) by (simp add: link_ok_def)
  have submit: "sdk_Submit ?C m (w, k) =
      (if sm_Routes m = [] then (Inl \<lparr>sde_kind = ErrInvalidRequest, sde_Message = ''a message needs at least one route''\<rparr>, (w, k))
       else case a of
         Inl err \<Rightarrow> (Inl err, l)
       | Inr key \<Rightarrow>
           (case sdk_call ?C (RpcSubmit (submit_request_of m key)) l of
              (Inl err, w'') \<Rightarrow> (Inl err, w'')
            | (Inr (Submitted res), w'') \<Rightarrow>
                (Inr \<lparr>rct_ID = psp_Id res, rct_Priority = sdk_fromPriority (cli_lib ?C) (psp_EffectivePriority res),
                      rct_Downgraded = psp_Downgraded res, rct_Duplicate = psp_Duplicate res\<rparr>, w'')
            | (Inr _, w'') \<Rightarrow> (Inl wrong_reply, w'')))"
    unfolding sdk_Submit_def got_key_def [symmetric] a by (cases a) simp_all
  show ?thesis
  proof (cases "sm_Routes m = [] \<or> isl a")
    case True
    then show ?thesis using assms(1) a l by (auto simp: submit isl_def split: if_splits)
  next
    case False
    then obtain key where key: "a = Inr key" by (cases a) auto
    have k1: "if sm_IdempotencyKey m = '''' then \<exists>raw. lnk_drawn N k = Inr raw \<and> key = hex_EncodeToString raw
        else key = sm_IdempotencyKey m"
      using a key by (auto simp: got_key_def newIdempotencyKey_def linked_def split: sum.splits)
    have ne: "hex_EncodeToString s \<noteq> ''''" if "s \<noteq> ''''" for s
      using that by (cases s) (simp_all add: hex_EncodeToString_def)
    have k2: "key \<noteq> ''''"
      using a key assms(4) ne by (auto simp: got_key_def newIdempotencyKey_def linked_def split: if_splits sum.splits)
    let ?req = "RpcSubmit (submit_request_of m key)"
    let ?fn = "over_network (deployed_grpc E G) (lnk_fates N) (authenticate (lnk_key N)) ?req"
    obtain b l' where b: "retry_Do (cli_retry ?C) (lnk_attempts N) ?fn (w, k) = (b, l')"
      by (rule prod.exhaust)
    have run: "link_ok l' \<and> (\<forall>x. b = Inr x \<longrightarrow> (\<exists>v. link_ok v \<and> ?fn v = (Inr x, l')))"
    proof (rule retry_Do_run [where I = link_ok, OF b])
      show "link_ok (w, k)" by (rule ok)
      show "link_ok v'" if "?fn v = (x, v')" "link_ok v" for v x v' using network_submit [OF that] by (rule conjunct1)
      show "link_ok v'" if "re_pause (cli_retry ?C) d v = (x, v')" "link_ok v" for d v x v'
        using linked_pause [OF that(1)] that(2) by simp
    qed
    have count: "snd (w, k) < snd l' \<and> int (snd l') \<le> int (snd (w, k)) + max 1 (lnk_attempts N)"
    proof (rule retry_Do_count [OF b])
      show "snd v' = Suc (snd v)" if "?fn v = (x, v')" for v x v' using that by (rule network_count)
      show "snd v' = snd v" if "re_pause (cli_retry ?C) d v = (x, v')" for d v x v'
        using linked_pause [OF that] by simp
    qed
    have call: "sdk_call ?C ?req (w, k) = (case b of Inl err \<Rightarrow> Inl (wrap err) | Inr x \<Rightarrow> Inr x, l')"
      using b by (cases b) (simp_all add: sdk_call_def linked_def)
    have l': "l' = (w', k')"
      using assms(1) False a l key call
      by (auto simp: submit split: sum.splits reply.splits)
    show ?thesis
    proof (cases b)
      case (Inl e)
      then show ?thesis using assms(1) False a l key call count l'
        by (auto simp: submit)
    next
      case (Inr x)
      then obtain v where "link_ok v" "?fn v = (Inr x, l')" using run by blast
      from network_submit [OF this(2,1)] obtain p cmd where p: "x = Submitted p"
        and cmd: "cmd_IdempotencyKey cmd = key" "known_message (w_db w') cmd (psp_Id p)"
        and by_key: "presented_by G (Some (authenticate (lnk_key N))) (w_db w') (cmd_SourceID cmd)"
        using k2 l' by (auto simp: submit_request_of_def)
      obtain row where row: "row \<in> set (t_notifications (w_db w'))" "nt_id row = psp_Id p"
        "nt_source_id row = cmd_SourceID cmd" "nt_idempotency_key row = Some key"
        using cmd by (auto simp: known_message_def)
      have uniq: "unique_on notifications_source_idempotency_key (t_notifications (w_db w'))"
        using reachable_db_ok [of "w_db w'"] run l' by (simp add: link_ok_def db_ok_def notifications_ok_def)
      have nk: "notifications_source_idempotency_key y = Some (cmd_SourceID cmd, key)"
        if "nt_source_id y = cmd_SourceID cmd" "nt_idempotency_key y = Some key" for y
        using that by (simp add: notifications_source_idempotency_key_def)
      have "y = row" if "y \<in> set (t_notifications (w_db w'))" "nt_source_id y = cmd_SourceID cmd"
          "nt_idempotency_key y = Some key" for y
        by (rule unique_on_inj [OF uniq that(1) row(1) nk [OF that(2,3)] nk [OF row(3,4)]])
      then have "{y \<in> set (t_notifications (w_db w')). nt_source_id y = cmd_SourceID cmd \<and> nt_idempotency_key y = Some key} = {row}"
        using row by blast
      moreover have "r = Inr \<lparr>rct_ID = psp_Id p, rct_Priority = sdk_fromPriority (cli_lib ?C) (psp_EffectivePriority p),
          rct_Downgraded = psp_Downgraded p, rct_Duplicate = psp_Duplicate p\<rparr>"
        using assms(1) False a l key call Inr p
        by (auto simp: submit)
      ultimately show ?thesis using count l' k1 row(2) by_key
        by (intro conjI allI impI exI [of _ "cmd_SourceID cmd"] exI [of _ key] exI [of _ row]) simp_all
    qed
  qed
qed


definition demo_gateway :: gateway_config where
  "demo_gateway = \<lparr>gwc_age = hour, gwc_ring = demo_ring ''1'', gwc_rand = demo_rand, gwc_sha256 = (\<lambda>s. s),
     gwc_limits = \<lparr>lim_Retention = hour, lim_RateLimitPerMinute = 600\<rparr>, gwc_touchAfter = minute, gwc_policy = Strict\<rparr>"

definition demo_link :: link_config where
  "demo_link = \<lparr>lnk_fates = (\<lambda>k. if k = 0 then AnswerLost (OtherFailure ''connection reset'') else Arrives),
     lnk_ended = (\<lambda>k. None), lnk_overflow = id, lnk_drawn = (\<lambda>k. Inr ''abc''), lnk_key = ''srosha_'',
     lnk_attempts = 3\<rparr>"

definition demo_sdk_message :: sdk_message where
  "demo_sdk_message = \<lparr>sm_IdempotencyKey = '''', sm_Title = ''Paid'', sm_Body = ''Order 7 is paid'',
     sm_Priority = ''high'', sm_ExpireAt = 0, sm_Metadata = [], sm_Routes = [EmailTo ''a@b.c'']\<rparr>"

text \<open>A key for the demo's source, and a submission under a key whose message is already there.\<close>

definition demo_key :: string where
  "demo_key = key_prefix @ replicate 43 CHR ''A''"

definition demo_keyed_world :: world where
  "demo_keyed_world = demo_open_world\<lparr>w_db := run_write
     (CreateAPIKey (demo_id CHR ''8'') (demo_id CHR ''2'') (Hash id demo_key) ''server'' 30 None) (w_db demo_open_world)\<rparr>"

definition demo_keyed_link :: link_config where
  "demo_keyed_link = demo_link\<lparr>lnk_key := demo_key\<rparr>"

definition demo_again :: sdk_message where
  "demo_again = demo_sdk_message\<lparr>sm_IdempotencyKey := ''k''\<rparr>"

definition demo_again_command :: submit_command where
  "demo_again_command = projr (toSubmitCommand (demo_id CHR ''2'') (submit_request_of demo_again ''k''))"

lemma demo_presented:
  "Parse id (bearer \<lparr>cx_Metadata = Some (authenticate demo_key), cx_Source = None\<rparr>) = Inr (Hash id demo_key)"
proof -
  have "case Parse id (bearer \<lparr>cx_Metadata = Some (authenticate demo_key), cx_Source = None\<rparr>) of
      Inr h \<Rightarrow> h = Hash id demo_key | _ \<Rightarrow> False"
    by code_simp
  then show ?thesis by (simp split: sum.splits)
qed

lemma demo_keyed_reads:
  "case fst (sql_ReadSourceByKeyHash (Hash id demo_key) t (w_db demo_keyed_world)) of
     Inr (row, i) \<Rightarrow> toSource row = Inr demo_active_source \<and> i = demo_id CHR ''8'' | _ \<Rightarrow> False"
  "case toSubmitCommand (demo_id CHR ''2'') (submit_request_of demo_again ''k'') of
     Inr cmd \<Rightarrow> cmd_SourceID cmd = demo_id CHR ''2'' \<and> cmd_IdempotencyKey cmd = ''k'' | _ \<Rightarrow> False"
  by (code_simp, code_simp)

definition demo_ready :: "world \<Rightarrow> bool" where
  "demo_ready v \<longleftrightarrow> t_sources (w_db v) = t_sources (w_db demo_open_world)
     \<and> t_notifications (w_db v) = t_notifications (w_db demo_open_world) \<and> w_tx v = NoTx
     \<and> (\<exists>x. t_api_keys (w_db v) = [\<lparr>ak_id = demo_id CHR ''8'', ak_source_id = demo_id CHR ''2'',
          ak_key_hash = Hash id demo_key, ak_label = ''server'', ak_created_at = 30, ak_last_used_at = x,
          ak_expires_at = None, ak_revoked_at = None\<rparr>])"

lemma demo_keyed_ready: "demo_ready demo_keyed_world"
proof -
  have "t_api_keys (w_db demo_keyed_world) = [\<lparr>ak_id = demo_id CHR ''8'', ak_source_id = demo_id CHR ''2'',
      ak_key_hash = Hash id demo_key, ak_label = ''server'', ak_created_at = 30, ak_last_used_at = None,
      ak_expires_at = None, ak_revoked_at = None\<rparr>]"
    by code_simp
  then show ?thesis
    by (auto simp: demo_ready_def demo_keyed_world_def sources_frame notifications_frame demo_open_world_def demo_world_def
        simp del: run_write.simps)
qed

lemma demo_link_quiet: "quiet demo_env"
  by (simp add: quiet_def demo_env_def)

lemma demo_submits_again:
  assumes "demo_ready v" "cmd_SourceID c = demo_id CHR ''2''" "cmd_IdempotencyKey c = ''k''"
  shows "\<exists>v'. Submit (deployed_submitter demo_env hour) c v = (Inr (duplicateOf demo_kept), v') \<and> demo_ready v'"
proof -
  let ?w1 = "v\<lparr>w_admissions := w_admissions v @ [demo_id CHR ''2'']\<rparr>"
  let ?w2 = "?w1\<lparr>w_trips := Suc (w_trips v)\<rparr>"
  have src: "pg_ReadSource demo_env (demo_id CHR ''2'') ?w1 = (Inr demo_active_source, ?w2)"
    using demo_open_reads(1) exec_quiet_row [OF demo_link_quiet, of ?w1 "sql_ReadSource (demo_id CHR ''2'')"] assms(1)
    by (auto simp: demo_ready_def pg_ReadSource_def attempt_def sql_ReadSource_def split: sum.splits)
  have msg: "pg_ReadByIdempotencyKey demo_env (demo_id CHR ''2'') ''k'' ?w2
      = (Inr (Some demo_kept), ?w2\<lparr>w_trips := Suc (Suc (w_trips v))\<rparr>)"
    using demo_open_reads(2) exec_quiet_row [OF demo_link_quiet, of ?w2
        "sql_ReadNotificationByIdempotencyKey (demo_id CHR ''2'') (Some ''k'')"] assms(1)
    by (auto simp: demo_ready_def pg_ReadByIdempotencyKey_def attempt_def optional_def
        sql_ReadNotificationByIdempotencyKey_def split: sum.splits)
  have "Submit (deployed_submitter demo_env hour) c v
      = (Inr (duplicateOf demo_kept), ?w2\<lparr>w_trips := Suc (Suc (w_trips v))\<rparr>)"
    using src msg assms(2,3)
    by (simp add: Submit_def Admit_def Load_def deployed_gateway and_then_def
        outside_Allow_def demo_env_def pg_sources_def source_EnsureActive_def demo_active_source_def
        GetByIdempotencyKey_def pg_notifications_def)
  then show ?thesis using assms(1) by (auto simp: demo_ready_def)
qed

lemma demo_authenticates:
  assumes "demo_ready v"
  shows "\<exists>v'. Authenticate (deployed_authn demo_env demo_gateway) (Hash id demo_key) v
      = (Inr (demo_active_source, demo_id CHR ''8''), v') \<and> demo_ready v'"
proof -
  let ?now = "clock demo_env (w_clock v)" and ?v1 = "v\<lparr>w_clock := Suc (w_clock v)\<rparr>"
  let ?stmt = "sql_ReadSourceByKeyHash (Hash id demo_key) ?now"
  have ro: "?stmt (w_db ?v1) = (fst (?stmt (w_db ?v1)), w_db ?v1)" by (simp add: sql_ReadSourceByKeyHash_def)
  obtain row where "fst (?stmt (w_db v)) = Inr (row, demo_id CHR ''8'')" "toSource row = Inr demo_active_source"
  proof -
    have "fst (?stmt (w_db v)) = fst (?stmt (w_db demo_keyed_world))"
      using assms demo_keyed_ready by (auto simp: demo_ready_def sql_ReadSourceByKeyHash_def)
    then show thesis
      using that demo_keyed_reads(1) [of ?now] by (cases "fst (?stmt (w_db demo_keyed_world))") (auto split: prod.splits)
  qed
  then have "pg_ReadSourceByKeyHash demo_env (Hash id demo_key) ?now ?v1
      = (Inr (Some (demo_active_source, demo_id CHR ''8'')), ?v1\<lparr>w_trips := Suc (w_trips v)\<rparr>)"
    using exec_quiet_row [where stmt = ?stmt and w = ?v1, OF demo_link_quiet _ ro] assms
    by (simp add: demo_ready_def pg_ReadSourceByKeyHash_def attempt_def and_then_def)
  moreover have "Hash id demo_key \<noteq> ''''" by code_simp
  ultimately have "Authenticate (deployed_authn demo_env demo_gateway) (Hash id demo_key) v
      = (Inr (demo_active_source, demo_id CHR ''8''), ?v1\<lparr>w_trips := Suc (w_trips v)\<rparr>)"
    by (simp add: Authenticate_def deployed_authn_def pg_keys_def call_eq Now_def and_then_def source_EnsureActive_def
        demo_active_source_def)
  then show ?thesis using assms by (auto simp: demo_ready_def)
qed

lemma demo_records_use:
  assumes "demo_ready v"
  shows "demo_ready (snd (RecordUse (deployed_authn demo_env demo_gateway) (demo_id CHR ''8'') v))"
proof -
  let ?v1 = "v\<lparr>w_clock := Suc (w_clock v)\<rparr>" and ?now = "clock demo_env (w_clock v)"
  let ?stmt = "sql_TouchAPIKey (demo_id CHR ''8'') ?now (?now + - minute)"
  have "w_tx ?v1 = NoTx" using assms by (simp add: demo_ready_def)
  from exec_quiet [OF demo_link_quiet this, of ?stmt]
  have "snd (RecordUse (deployed_authn demo_env demo_gateway) (demo_id CHR ''8'') v)
      = ?v1\<lparr>w_trips := Suc (w_trips v), w_db := snd (?stmt (w_db v))\<rparr>"
    by (simp add: RecordUse_def deployed_authn_def pg_keys_def call_def Now_def pg_TouchKey_def or_failed_def attempt_def
        demo_gateway_def ret_def sql_TouchAPIKey_def Let_def)
  then show ?thesis using assms by (auto simp: demo_ready_def sql_TouchAPIKey_def Let_def)
qed

definition demo_answer :: reply where
  "demo_answer = Submitted \<lparr>psp_Id = demo_id CHR ''3'', psp_EffectivePriority = fromPriority PriorityNormal,
     psp_Downgraded = False, psp_Duplicate = True\<rparr>"

lemma demo_serves_again:
  assumes "demo_ready v"
  shows "\<exists>v'. serve (deployed_grpc demo_env demo_gateway) (Some (authenticate demo_key))
      (RpcSubmit (submit_request_of demo_again ''k'')) v = (Inr demo_answer, v') \<and> demo_ready v'"
proof -
  obtain v1 where v1: "Authenticate (deployed_authn demo_env demo_gateway) (Hash id demo_key) v
      = (Inr (demo_active_source, demo_id CHR ''8''), v1)" "demo_ready v1"
    using demo_authenticates [OF assms] by blast
  obtain u v2 where v2: "RecordUse (deployed_authn demo_env demo_gateway) (demo_id CHR ''8'') v1 = (u, v2)" by fastforce
  then have r2: "demo_ready v2" using demo_records_use [OF v1(2)] by simp
  obtain cmd where cmd: "toSubmitCommand (demo_id CHR ''2'') (submit_request_of demo_again ''k'') = Inr cmd"
    "cmd_SourceID cmd = demo_id CHR ''2''" "cmd_IdempotencyKey cmd = ''k''"
    using demo_keyed_reads(2) by (auto split: sum.splits)
  obtain v3 where v3: "Submit (deployed_submitter demo_env hour) cmd v2 = (Inr (duplicateOf demo_kept), v3)" "demo_ready v3"
    using demo_submits_again [OF r2 cmd(2,3)] by blast
  have "gwc_sha256 demo_gateway = id" "gwc_age demo_gateway = hour" by (auto simp: demo_gateway_def)
  moreover have "src_ID demo_active_source = demo_id CHR ''2''" by (simp add: demo_active_source_def)
  ultimately have "serve (deployed_grpc demo_env demo_gateway) (Some (authenticate demo_key))
      (RpcSubmit (submit_request_of demo_again ''k'')) v = (Inr demo_answer, v3)"
    using v1(1) v2 v3(1) cmd(1) demo_presented
    by (simp add: serve_def Errors_def Auth_def deployed_grpc_def and_then_def ignoring_def attempt_def answering_def
        NotificationServer_Submit_def SourceFrom_def demo_answer_def duplicateOf_def demo_kept_def WasDowngraded_def)
  then show ?thesis using v3(2) by blast
qed

text \<open>The first call is served and its answer lost; the second is answered, and the message stands once.\<close>

theorem sdk_submit_stands_once_witness:
  "\<exists>w' receipt row. sdk_Submit (linked demo_env demo_gateway demo_keyed_link) demo_again (demo_keyed_world, 0) = (Inr receipt, (w', 2))
    \<and> rct_ID receipt = demo_id CHR ''3'' \<and> nt_id row = demo_id CHR ''3''
    \<and> {x \<in> set (t_notifications (w_db w')). nt_source_id x = demo_id CHR ''2'' \<and> nt_idempotency_key x = Some ''k''} = {row}"
proof -
  let ?C = "linked demo_env demo_gateway demo_keyed_link" and ?req = "RpcSubmit (submit_request_of demo_again ''k'')"
  obtain v1 where v1: "serve (deployed_grpc demo_env demo_gateway) (Some (authenticate demo_key)) ?req demo_keyed_world
      = (Inr demo_answer, v1)" "demo_ready v1" using demo_serves_again [OF demo_keyed_ready] by blast
  obtain v2 where v2: "serve (deployed_grpc demo_env demo_gateway) (Some (authenticate demo_key)) ?req v1
      = (Inr demo_answer, v2)" "demo_ready v2" using demo_serves_again [OF v1(2)] by blast
  have lnk: "lnk_key demo_keyed_link = demo_key" "lnk_attempts demo_keyed_link = 3"
    "lnk_fates demo_keyed_link = (\<lambda>k. if k = 0 then AnswerLost (OtherFailure ''connection reset'') else Arrives)"
    "lnk_ended demo_keyed_link = (\<lambda>k. None)"
    by (simp_all add: demo_keyed_link_def demo_link_def)
  have "sdk_call ?C ?req (demo_keyed_world, 0) = (Inr demo_answer, (v2, 2))"
    using v1(1) v2(1)
    by (simp add: sdk_call_def retry_Do_def linked_def lnk retry_loop.simps over_network_def)
  then obtain receipt where run: "sdk_Submit ?C demo_again (demo_keyed_world, 0) = (Inr receipt, (v2, 2))"
    and id: "rct_ID receipt = demo_id CHR ''3''"
    by (simp add: sdk_Submit_def demo_again_def demo_sdk_message_def demo_answer_def)
  have "reachable (w_db demo_keyed_world)"
    using reachable_run_writes [OF demo_reachable, of "[UpdateReview (demo_id CHR ''2'') True (Some 12) (Some 12) '''' 12,
        CreateAPIKey (demo_id CHR ''8'') (demo_id CHR ''2'') (Hash id demo_key) ''server'' 30 None]"]
    by (simp add: demo_keyed_world_def demo_open_world_def run_writes_def del: run_write.simps)
  moreover have "w_tx demo_keyed_world = NoTx" using demo_keyed_ready by (simp add: demo_ready_def)
  moreover have "\<forall>j raw. lnk_drawn demo_keyed_link j = Inr raw \<longrightarrow> raw \<noteq> ''''"
    by (simp add: demo_keyed_link_def demo_link_def)
  ultimately obtain s row where s: "presented_by demo_gateway (Some (authenticate demo_key)) (w_db v2) s"
    and row: "nt_id row = demo_id CHR ''3''"
      "{x \<in> set (t_notifications (w_db v2)). nt_source_id x = s \<and> nt_idempotency_key x = Some ''k''} = {row}"
    using sdk_submit_stands_once [OF run] id by (auto simp: demo_again_def lnk)
  have "s = demo_id CHR ''2''"
    using s v2(2) by (auto simp: presented_by_def key_of_def demo_ready_def)
  then show ?thesis using run id row by blast
qed

subsection \<open>What the caller hears of a failure\<close>

text \<open>One of its errors for each kind of ours, and the words written for it; nothing of the cause.\<close>

definition told_error :: "goerr \<Rightarrow> sdk_error" where
  "told_error e =
    (case as_app e of
       None \<Rightarrow> \<lparr>sde_kind = ErrInternal, sde_Message = ''the request could not be completed''\<rparr>
     | Some (t, words, _) \<Rightarrow>
         \<lparr>sde_kind = (case t of
              err_type.ErrInvalidInput \<Rightarrow> ErrInvalidRequest
            | err_type.ErrUnauthorized \<Rightarrow> ErrUnauthorized
            | err_type.ErrForbidden \<Rightarrow> ErrForbidden
            | err_type.ErrNotFound \<Rightarrow> ErrNotFound
            | err_type.ErrDuplicateEntry \<Rightarrow> ErrDuplicate
            | err_type.ErrTooMany \<Rightarrow> ErrRateLimited
            | err_type.ErrUnavailable \<Rightarrow> ErrUnavailable
            | err_type.ErrTimeout \<Rightarrow> ErrTimeout
            | _ \<Rightarrow> ErrInternal),
          sde_Message = words\<rparr>)"

lemma wrap_Status: "wrap (StatusFailure (grpc_Status e)) = told_error e"
  by (auto simp: grpc_Status_def told_error_def split: option.split err_type.split)

text \<open>
  A repeated call that fails: all attempts but the last failed in a way worth repeating, and the last was
  the last one allowed or failed in another way.
\<close>

lemma retry_loop_tried:
  assumes "retry_loop P left n fn w = (Inl err, w')" and pause: "\<And>d w. re_pause P d w = (None, w)"
  shows "\<exists>j. j \<le> left \<and> fn (((\<lambda>v. snd (fn v)) ^^ j) w) = (Inl err, w')
    \<and> (\<forall>i < j. \<exists>e. fst (fn (((\<lambda>v. snd (fn v)) ^^ i) w)) = Inl e \<and> worthRepeating e)
    \<and> (j = left \<or> \<not> worthRepeating err)"
  using assms(1)
proof (induction left arbitrary: n w)
  case 0
  obtain a v where a: "fn w = (a, v)" by fastforce
  then show ?case using 0 by (auto simp: retry_loop.simps [of P 0] split: sum.splits if_splits intro!: exI [of _ 0])
next
  case (Suc left)
  obtain a v where a: "fn w = (a, v)" by fastforce
  show ?case
  proof (cases "\<exists>e. a = Inl e \<and> worthRepeating e")
    case False
    then show ?thesis using Suc.prems a
      by (cases a) (auto simp: retry_loop.simps [of P "Suc left"] intro!: exI [of _ 0])
  next
    case True
    then have "retry_loop P left (Suc n) fn v = (Inl err, w')"
      using Suc.prems a by (auto simp: retry_loop.simps [of P "Suc left"] pause)
    from Suc.IH [OF this] obtain j where j: "j \<le> left" "fn (((\<lambda>v. snd (fn v)) ^^ j) v) = (Inl err, w')"
      "\<forall>i < j. \<exists>e. fst (fn (((\<lambda>v. snd (fn v)) ^^ i) v)) = Inl e \<and> worthRepeating e"
      "j = left \<or> \<not> worthRepeating err" by blast
    have shift: "((\<lambda>v. snd (fn v)) ^^ Suc i) w = ((\<lambda>v. snd (fn v)) ^^ i) v" for i
      using a by (simp add: funpow_Suc_right del: funpow.simps)
    have "\<exists>e. fst (fn (((\<lambda>v. snd (fn v)) ^^ i) w)) = Inl e \<and> worthRepeating e" if "i < Suc j" for i
      using that j(3) True a shift by (cases i) auto
    then show ?thesis using j(1,2,4) shift by (intro exI [of _ "Suc j"]) auto
  qed
qed

definition passing :: "sdk_sentinel set" where
  "passing = {ErrUnavailable, ErrTimeout, ErrRateLimited}"

lemma worthRepeating_Status: "worthRepeating (StatusFailure (grpc_Status e)) \<longleftrightarrow> sde_kind (told_error e) \<in> passing"
proof -
  have "grpc_code t \<noteq> CodeCanceled" for t by (cases t) simp_all
  then show ?thesis unfolding wrap_Status [symmetric] passing_def
    by (cases "sts_Code (grpc_Status e)") (auto simp: grpc_Status_def split: option.splits)
qed

text \<open>What the service does with one call of the client, up to the error the handler answers.\<close>

definition one_call :: "env \<Rightarrow> gateway_config \<Rightarrow> string \<Rightarrow> rpc \<Rightarrow> (world, reply) io" where
  "one_call E G key req = Auth (deployed_authn E G) (Parse (gwc_sha256 G)) (handle (deployed_grpc E G) req)
     \<lparr>cx_Metadata = Some (authenticate key), cx_Source = None\<rparr>"

lemma network_calm:
  assumes "\<forall>j. fates j = Arrives"
  shows "over_network (deployed_grpc E G) fates (authenticate key) req (v, i) =
    (case one_call E G key req v of
       (Inl e, v') \<Rightarrow> (Inl (StatusFailure (grpc_Status e)), (v', Suc i)) | (Inr x, v') \<Rightarrow> (Inr x, (v', Suc i)))"
  using assms
  by (simp add: over_network_def serve_def Errors_def one_call_def deployed_grpc_def split: prod.split sum.split)

text \<open>
  C18. The caller of the SDK hears what the service meant. When every request and every answer arrives and
  the caller's context does not end, a call that fails answers the SDK's error for the kind of failure the
  handler (or the check of the key) reported at the last attempt, with the words written for a client and
  never its cause. Every attempt before that one failed with a kind that may pass (unavailable, timed out,
  rate limited), and it is the last attempt the client allows or its own kind is another: a failure of any
  other kind is not repeated.
\<close>

theorem sdk_reports_what_failed:
  assumes "sdk_call (linked E G N) req (w, k) = (Inl err, (w', k'))"
    and "\<forall>j. lnk_fates N j = Arrives" "\<forall>j. lnk_ended N j = None"
  defines "after \<equiv> \<lambda>j. ((\<lambda>v. snd (one_call E G (lnk_key N) req v)) ^^ j) w"
  shows "\<exists>e j. k' = k + Suc j \<and> one_call E G (lnk_key N) req (after j) = (Inl e, w') \<and> err = told_error e
    \<and> (\<forall>i < j. \<exists>f. fst (one_call E G (lnk_key N) req (after i)) = Inl f
          \<and> sde_kind (told_error f) \<in> {ErrUnavailable, ErrTimeout, ErrRateLimited})
    \<and> (int (Suc j) = max 1 (lnk_attempts N) \<or> sde_kind err \<notin> {ErrUnavailable, ErrTimeout, ErrRateLimited})"
proof -
  let ?fn = "over_network (deployed_grpc E G) (lnk_fates N) (authenticate (lnk_key N)) req"
  let ?left = "nat ((if lnk_attempts N < 1 then 1 else lnk_attempts N) - 1)"
  let ?P = "cli_retry (linked E G N)" and ?one = "one_call E G (lnk_key N) req"
  obtain failure where f: "retry_loop ?P ?left 0 ?fn (w, k) = (Inl failure, (w', k'))" "err = wrap failure"
    using assms(1) by (auto simp: sdk_call_def retry_Do_def linked_def Let_def split: prod.splits sum.splits)
  have "re_pause ?P d l = (None, l)" for d l using assms(3) by (cases l) (simp add: linked_def)
  from retry_loop_tried [OF f(1) this] obtain j where j: "j \<le> ?left"
    "?fn (((\<lambda>v. snd (?fn v)) ^^ j) (w, k)) = (Inl failure, (w', k'))"
    "\<forall>i < j. \<exists>e. fst (?fn (((\<lambda>v. snd (?fn v)) ^^ i) (w, k))) = Inl e \<and> worthRepeating e"
    "j = ?left \<or> \<not> worthRepeating failure" by blast
  note calm = network_calm [OF assms(2), of E G "lnk_key N" req]
  have at: "((\<lambda>v. snd (?fn v)) ^^ i) (w, k) = (after i, k + i)" for i
    by (induction i) (simp_all add: after_def calm split: prod.split sum.split)
  obtain e where e: "?one (after j) = (Inl e, w')" "failure = StatusFailure (grpc_Status e)" "k' = k + Suc j"
    using j(2) unfolding at calm by (auto split: prod.splits sum.splits)
  have err: "err = told_error e" using f(2) e(2) wrap_Status by simp
  have before: "\<exists>f. fst (?one (after i)) = Inl f \<and> sde_kind (told_error f) \<in> passing" if i: "i < j" for i
  proof -
    obtain x where x: "fst (?fn (after i, k + i)) = Inl x" "worthRepeating x" using j(3) [unfolded at] i by blast
    obtain a v where a: "?one (after i) = (a, v)" by fastforce
    then obtain y where "a = Inl y" "x = StatusFailure (grpc_Status y)"
      using x(1) by (cases a) (simp_all add: calm)
    then show ?thesis using a x(2) worthRepeating_Status by simp
  qed
  have last: "int (Suc j) = max 1 (lnk_attempts N) \<or> sde_kind err \<notin> passing"
    using j(4) e(2) err worthRepeating_Status by (cases "lnk_attempts N < 1") auto
  show ?thesis
  proof (intro exI conjI)
    show "k' = k + Suc j" "?one (after j) = (Inl e, w')" "err = told_error e" using e(1,3) err by simp_all
    show "\<forall>i < j. \<exists>f. fst (?one (after i)) = Inl f
        \<and> sde_kind (told_error f) \<in> {ErrUnavailable, ErrTimeout, ErrRateLimited}"
      using before unfolding passing_def by blast
    show "int (Suc j) = max 1 (lnk_attempts N) \<or> sde_kind err \<notin> {ErrUnavailable, ErrTimeout, ErrRateLimited}"
      using last unfolding passing_def .
  qed
qed


definition demo_calm :: link_config where
  "demo_calm = demo_link\<lparr>lnk_fates := \<lambda>k. Arrives\<rparr>"

lemma demo_call_refused:
  "sdk_call (linked demo_env demo_gateway demo_calm) RpcWhoami (demo_open_world, 0)
     = (Inl \<lparr>sde_kind = ErrUnauthorized, sde_Message = ''invalid credentials''\<rparr>, (demo_open_world, 1))"
proof -
  have "bearer \<lparr>cx_Metadata = Some (authenticate ''srosha_''), cx_Source = None\<rparr> = ''srosha_''"
    by (simp add: bearer_def authenticate_def sdk_authHeader_def authHeader_def sdk_bearerPrefix_def bearerPrefix_def EqualFold_def)
  moreover have "Parse h ''srosha_'' = Inl refused_key" for h
    by (simp add: Parse_def key_prefix_def bodyLen_def)
  ultimately have "serve (deployed_grpc demo_env demo_gateway) (Some (authenticate ''srosha_'')) RpcWhoami w
      = (Inl (grpc_Status refused_key), w)" for w
    by (simp add: serve_def Errors_def Auth_def deployed_grpc_def)
  then show ?thesis
    by (simp add: sdk_call_def retry_Do_def linked_def demo_calm_def demo_link_def retry_loop.simps over_network_def
        grpc_Status_def refused_key_def UnauthorizedErr_def New_def)
qed

theorem sdk_reports_what_failed_witness:
  "\<exists>e. one_call demo_env demo_gateway (lnk_key demo_calm) RpcWhoami demo_open_world = (Inl e, demo_open_world)
    \<and> told_error e = \<lparr>sde_kind = ErrUnauthorized, sde_Message = ''invalid credentials''\<rparr>"
  using sdk_reports_what_failed [OF demo_call_refused]
  by (force simp: demo_calm_def demo_link_def)

subsection \<open>What a caller can learn\<close>

text \<open>The database without the messages of the other sources, and without their deliveries.\<close>

definition own_messages :: "string \<Rightarrow> database \<Rightarrow> notification_row list" where
  "own_messages s db = filter (\<lambda>r. nt_source_id r = s) (t_notifications db)"

definition only_own :: "string \<Rightarrow> database \<Rightarrow> database" where
  "only_own s db = db\<lparr>t_notifications := own_messages s db,
     t_deliveries := filter (\<lambda>d. dl_notification_id d \<in> nt_id ` set (own_messages s db)) (t_deliveries db)\<rparr>"

definition seen_by :: "string \<Rightarrow> world \<Rightarrow> world" where
  "seen_by s w = w\<lparr>w_db := only_own s (w_db w)\<rparr>"

text \<open>Reading, where no other process writes: the answer of a round trip, and one trip more.\<close>

definition read_answer :: "env \<Rightarrow> 'a stmt \<Rightarrow> world \<Rightarrow> 'a result" where
  "read_answer E stmt w =
    (if w_tx w = Aborted then Inl tx_aborted
     else case round_trips E (w_trips w) of
         Delivered \<Rightarrow> fst (stmt (w_db w)) | Lost s \<Rightarrow> Inl (connection_error s) | Unacked s \<Rightarrow> Inl (connection_error s))"

definition read_world :: "env \<Rightarrow> 'a stmt \<Rightarrow> world \<Rightarrow> world" where
  "read_world E stmt w =
    (let w' = w\<lparr>w_trips := Suc (w_trips w)\<rparr> in
     if w_tx w = Open \<and> server_error (read_answer E stmt w) then w'\<lparr>w_tx := Aborted\<rparr> else w')"

lemma exec_reading:
  assumes "alone E" "\<And>db. snd (stmt db) = db"
  shows "exec E stmt w = (read_answer E stmt w, read_world E stmt w)"
proof -
  obtain x where st: "stmt (w_db w) = (x, w_db w)" using assms(2) [of "w_db w"] by (cases "stmt (w_db w)") simp
  have b: "begin_trip E w = w\<lparr>w_trips := Suc (w_trips w)\<rparr>"
    using assms(1) by (simp add: begin_trip_def alone_def run_writes_def)
  show ?thesis
    by (cases "round_trips E (w_trips w)")
      (simp_all add: exec_def b st read_answer_def read_world_def abort_on_def Let_def server_error_def)
qed

lemma seen_by_simps [simp]:
  "w_tx (seen_by s w) = w_tx w" "w_trips (seen_by s w) = w_trips w" "w_db (seen_by s w) = only_own s (w_db w)"
  "w_clock (seen_by s w) = w_clock w"
  by (simp_all add: seen_by_def)

lemma read_world_seen:
  "read_answer E stmt (seen_by s w) = read_answer E stmt w \<Longrightarrow>
     read_world E stmt (seen_by s w) = seen_by s (read_world E stmt w)"
  by (simp add: read_world_def seen_by_def Let_def)

lemma read_world_db [simp]: "w_db (read_world E stmt w) = w_db w"
  by (simp add: read_world_def Let_def)

lemma exec_seen_by:
  assumes "alone E" "\<And>db. snd (stmt db) = db" "fst (stmt (only_own s (w_db w))) = fst (stmt (w_db w))"
  shows "exec E stmt (seen_by s w) = (read_answer E stmt w, seen_by s (read_world E stmt w))"
proof -
  have "read_answer E stmt (seen_by s w) = read_answer E stmt w"
    using assms(3) by (simp add: read_answer_def split: round_trip.split)
  then show ?thesis by (simp add: exec_reading [OF assms(1,2)] read_world_seen)
qed

text \<open>A delivery of a message is seen exactly when its message is.\<close>

lemma own_deliveries:
  assumes "\<exists>r \<in> set (t_notifications db). nt_id r = i \<and> nt_source_id r = s"
  shows "filter (\<lambda>d. dl_notification_id d = i \<and> P d) (t_deliveries (only_own s db))
    = filter (\<lambda>d. dl_notification_id d = i \<and> P d) (t_deliveries db)"
proof -
  have "i \<in> nt_id ` set (own_messages s db)" using assms by (force simp: own_messages_def)
  then show ?thesis by (auto simp: only_own_def intro: filter_cong)
qed

lemma the_row_own:
  assumes "distinct (map nt_id rows)"
  shows "the_row (\<lambda>r. nt_id r = i) (filter (\<lambda>r. nt_source_id r = s) rows)
    = (case the_row (\<lambda>r. nt_id r = i) rows of
         Some r \<Rightarrow> if nt_source_id r = s then Some r else None | None \<Rightarrow> None)"
  using assms
proof (induction rows)
  case Nil
  then show ?case by simp
next
  case (Cons r rows)
  have "the_row (\<lambda>r. nt_id r = i) rows = None" if "nt_id r = i"
    using Cons.prems that by (simp add: the_row_None_iff) (metis image_eqI)
  then have "the_row (\<lambda>r. nt_id r = i) (filter (\<lambda>r. nt_source_id r = s) rows) = None" if "nt_id r = i"
    using Cons that by simp
  then show ?case using Cons by simp
qed


text \<open>The outcome an rpc has for its caller, once the caller is known.\<close>

definition outcome_for :: "env \<Rightarrow> gateway_config \<Rightarrow> source \<Rightarrow> rpc \<Rightarrow> world \<Rightarrow> status + reply" where
  "outcome_for E G src req w =
     fst (Errors (handle (deployed_grpc E G) req) \<lparr>cx_Metadata = None, cx_Source = Some src\<rparr> w)"

lemma outcome_answering:
  assumes "handle (deployed_grpc E G) req \<lparr>cx_Metadata = None, cx_Source = Some src\<rparr> = answering f m"
  shows "outcome_for E G src req w = (case fst (m w) of Inl e \<Rightarrow> Inl (grpc_Status e) | Inr x \<Rightarrow> Inr (f x))"
  unfolding outcome_for_def Errors_def assms answering_def and_then_def
  by (auto split: prod.split sum.split)

lemma listing_blind:
  assumes "alone E"
  shows "fst (Querier_List (gd_querier (deployed_grpc E G)) s q (seen_by s w))
    = fst (Querier_List (gd_querier (deployed_grpc E G)) s q w)"
proof -
  have page: "fst (pg_PageBySource E s t c (seen_by s v)) = fst (pg_PageBySource E s t c v)" for t c v
  proof -
    let ?stmt = "sql_PageNotificationsBySource s (cursor_column (Normalize c)) (Some t) None (to_int32 (Limit (Normalize c)) + 1)"
    have ro: "snd (?stmt db) = db" for db by (simp add: sql_PageNotificationsBySource_def)
    have "fst (?stmt (only_own s (w_db v))) = fst (?stmt (w_db v))"
      by (simp add: sql_PageNotificationsBySource_def only_own_def own_messages_def conj_ac)
    note seen = exec_seen_by [OF assms ro this] exec_reading [OF assms ro, of v]
    show ?thesis
      unfolding pg_PageBySource_def Let_def or_failed_def attempt_def seen
      by (auto simp: and_then_def split: sum.split prod.split)
  qed
  have "seen_by s (w\<lparr>w_clock := Suc (w_clock w)\<rparr>) = seen_by s w\<lparr>w_clock := Suc (w_clock w)\<rparr>"
    by (simp add: seen_by_def)
  then show ?thesis
    using page [of _ _ "w\<lparr>w_clock := Suc (w_clock w)\<rparr>"]
    by (simp add: Querier_List_def notification_Page_def deployed_grpc_def deployed_notifs_def pg_notifications_def
        call_def Now_def)
qed


lemma stored_message_reads:
  assumes "reachable db" "row \<in> set (t_notifications db)"
  shows "\<exists>n. toNotification row = Inr n \<and> ntf_SourceID n = nt_source_id row"
proof -
  have "priority_check (nt_requested_priority row) \<and> priority_check (nt_effective_priority row)"
    using reachable_db_ok [OF assms(1)] assms(2) by (auto simp: db_ok_def notifications_ok_def list_all_iff)
  moreover have "\<exists>p. ParsePriority x = Inr p" if "priority_check x" for x
    using that by (auto simp: priority_check_def ParsePriority_def priorityNames_def)
  ultimately obtain p q where "ParsePriority (nt_requested_priority row) = Inr p"
    "ParsePriority (nt_effective_priority row) = Inr q" by blast
  then show ?thesis by (simp add: toNotification_def toMetadata_def)
qed

text \<open>The two statements behind \<open>Get\<close>, where nobody else writes.\<close>

lemma reading_own:
  assumes "alone E" "distinct (map nt_id (t_notifications (w_db w)))"
    and "\<And>r. the_row (\<lambda>r. nt_id r = i) (t_notifications (w_db w)) = Some r \<Longrightarrow> nt_source_id r = s"
  shows "pg_ReadNotification E i (seen_by s w)
    = (case pg_ReadNotification E i w of (a, v) \<Rightarrow> (a, seen_by s v))"
proof -
  let ?stmt = "sql_ReadNotification i"
  have ro: "snd (?stmt db) = db" for db by (simp add: sql_ReadNotification_def)
  have "fst (?stmt (only_own s (w_db w))) = fst (?stmt (w_db w))"
    using assms(3) unfolding sql_ReadNotification_def only_own_def own_messages_def
    by (simp add: the_row_own [OF assms(2)] split: option.split)
  note seen = exec_seen_by [OF assms(1) ro this] exec_reading [OF assms(1) ro, of w]
  show ?thesis
    unfolding pg_ReadNotification_def attempt_def seen
    by (auto split: sum.split)
qed

lemma paging_own:
  assumes "alone E" "\<exists>r \<in> set (t_notifications (w_db w)). nt_id r = i \<and> nt_source_id r = s"
  shows "fst (pg_PageByNotificationID E i c (seen_by s w)) = fst (pg_PageByNotificationID E i c w)"
proof -
  let ?stmt = "sql_PageDeliveriesByNotificationID i (cursor_column (Normalize c)) (to_int32 (Limit (Normalize c)) + 1)"
  have ro: "snd (?stmt db) = db" for db by (simp add: sql_PageDeliveriesByNotificationID_def)
  have "fst (?stmt (only_own s (w_db w))) = fst (?stmt (w_db w))"
    unfolding sql_PageDeliveriesByNotificationID_def using own_deliveries [OF assms(2)] by simp
  note seen = exec_seen_by [OF assms(1) ro this] exec_reading [OF assms(1) ro, of w]
  show ?thesis
    unfolding pg_PageByNotificationID_def Let_def or_failed_def attempt_def seen
    by (auto simp: and_then_def split: sum.split prod.split)
qed

text \<open>A message of another source is refused in the words used for one that is not there.\<close>

lemma reading_foreign:
  assumes "alone E" "reachable (w_db w)" "the_row (\<lambda>r. nt_id r = i) (t_notifications (w_db w)) = Some r" "nt_source_id r \<noteq> s"
  defines "answer \<equiv> \<lambda>a. case a of Inl e \<Rightarrow> Inl (grpc_Status e) | Inr n \<Rightarrow>
      if ntf_SourceID n \<noteq> s then Inl (grpc_Status (foreign_message i s)) else Inr n"
  shows "answer (fst (pg_ReadNotification E i (seen_by s w))) = answer (fst (pg_ReadNotification E i w))
    \<and> isl (answer (fst (pg_ReadNotification E i w)))"
proof -
  let ?stmt = "sql_ReadNotification i"
  have ro: "snd (?stmt db) = db" for db by (simp add: sql_ReadNotification_def)
  have ok: "distinct (map nt_id (t_notifications (w_db w)))"
    using reachable_db_ok [OF assms(2)] by (simp add: db_ok_def notifications_ok_def)
  obtain n where n: "toNotification r = Inr n" "ntf_SourceID n \<noteq> s"
    using stored_message_reads [OF assms(2)] the_row_Some [OF assms(3)] assms(4) by metis
  have w: "fst (?stmt (w_db w)) = Inr r" using assms(3) by (simp add: sql_ReadNotification_def one_row_def)
  have h: "fst (?stmt (only_own s (w_db w))) = Inl pgx_ErrNoRows"
    using assms(3,4) unfolding sql_ReadNotification_def only_own_def own_messages_def
    by (simp add: the_row_own [OF ok] one_row_def)
  have st: "grpc_Status (foreign_message i s) = grpc_Status (WithErr (NotFoundErr ''notification not found'')
      (Sentinel (NotificationE notification_error.ErrNotFound)))"
    by (simp add: grpc_Status_def foreign_message_def NotFoundErr_def New_def)
  show ?thesis
    unfolding pg_ReadNotification_def attempt_def exec_reading [OF assms(1) ro] answer_def
    by (auto simp: read_answer_def w h n st noRows_def split: round_trip.split)
qed

lemma Get_outcome:
  "outcome_for E G src (RpcGet i page) w =
    (case ParseID (lib E) i of Inl e \<Rightarrow> Inl (grpc_Status e) | Inr i \<Rightarrow>
     case toCursor (lib E) page of Inl e \<Rightarrow> Inl (grpc_Status e) | Inr c \<Rightarrow>
     case pg_ReadNotification E i w of (a, v) \<Rightarrow>
     (case a of Inl e \<Rightarrow> Inl (grpc_Status e) | Inr n \<Rightarrow>
      if ntf_SourceID n \<noteq> src_ID src then Inl (grpc_Status (foreign_message i (src_ID src))) else
      case fst (pg_PageByNotificationID E i (Normalize c) v) of Inl e \<Rightarrow> Inl (grpc_Status e)
      | Inr p \<Rightarrow> Inr (Got \<lparr>pgr_Notification = Some (fromNotification n), pgr_Deliveries = fromDeliveries p,
          pgr_NextPageToken = nextPageToken p\<rparr>)))"
  by (auto simp: outcome_answering NotificationServer_Get_def SourceFrom_def and_then_def lift_def Querier_Get_def
      deployed_grpc_def deployed_notifs_def deployed_deliveries_def pg_notifications_def pg_deliveries_def
      notification_Get_def ListForNotification_def split: sum.split prod.split)


lemma Get_blind:
  assumes "alone E" "reachable (w_db w)"
  shows "outcome_for E G src (RpcGet i page) (seen_by (src_ID src) w) = outcome_for E G src (RpcGet i page) w"
proof (cases "\<exists>j c. ParseID (lib E) i = Inr j \<and> toCursor (lib E) page = Inr c")
  case False
  then show ?thesis by (auto simp: Get_outcome split: sum.split)
next
  case True
  then obtain j c where j: "ParseID (lib E) i = Inr j" and c: "toCursor (lib E) page = Inr c" by blast
  let ?s = "src_ID src" and ?row = "the_row (\<lambda>r. nt_id r = j) (t_notifications (w_db w))"
  obtain a v where a: "pg_ReadNotification E j w = (a, v)" by fastforce
  show ?thesis
  proof (cases "\<exists>r. ?row = Some r \<and> nt_source_id r \<noteq> ?s")
    case True
    then obtain r where r: "?row = Some r" "nt_source_id r \<noteq> ?s" by blast
    obtain b u where b: "pg_ReadNotification E j (seen_by ?s w) = (b, u)" by fastforce
    from reading_foreign [OF assms r] show ?thesis
      by (auto simp: Get_outcome j c a b split: sum.splits if_splits)
  next
    case False
    have ok: "distinct (map nt_id (t_notifications (w_db w)))"
      using reachable_db_ok [OF assms(2)] by (simp add: db_ok_def notifications_ok_def)
    have own: "pg_ReadNotification E j (seen_by ?s w) = (a, seen_by ?s v)"
      using reading_own [OF assms(1) ok, of j ?s] False a by auto
    show ?thesis
    proof (cases a)
      case (Inl e)
      then show ?thesis by (simp add: Get_outcome j c a own)
    next
      case (Inr n)
      have ro: "snd (sql_ReadNotification j db) = db" for db by (simp add: sql_ReadNotification_def)
      have v: "w_db v = w_db w" and row: "\<exists>r. ?row = Some r"
        using a Inr unfolding pg_ReadNotification_def attempt_def exec_reading [OF assms(1) ro]
        by (auto simp: read_answer_def sql_ReadNotification_def one_row_def split: sum.splits if_splits round_trip.splits option.splits)
      then obtain r where r: "?row = Some r" by blast
      then have "r \<in> set (t_notifications (w_db v)) \<and> nt_id r = j \<and> nt_source_id r = ?s"
        using False v the_row_Some [OF r] by auto
      then have "fst (pg_PageByNotificationID E j d (seen_by ?s v)) = fst (pg_PageByNotificationID E j d v)" for d
        using paging_own [OF assms(1), of v j ?s] by blast
      then show ?thesis by (simp add: Get_outcome j c a own Inr)
    qed
  qed
qed

lemma List_blind:
  assumes "alone E"
  shows "outcome_for E G src (RpcList win page) (seen_by (src_ID src) w) = outcome_for E G src (RpcList win page) w"
proof -
  have "handle (deployed_grpc E G) (RpcList win page) \<lparr>cx_Metadata = None, cx_Source = Some src\<rparr>
      = answering Listed (and_then (lift (toCursor (lib E) page)) (\<lambda>c. and_then (lift (toWindow win)) (\<lambda>window.
          and_then (Querier_List (gd_querier (deployed_grpc E G)) (src_ID src) \<lparr>lq_Window = window, lq_Cursor = c\<rparr>)
            (\<lambda>page. ret \<lparr>plr_Notifications = fromNotifications page, plr_NextPageToken = nextNotificationPageToken page\<rparr>))))"
    by (simp add: NotificationServer_List_def SourceFrom_def deployed_grpc_def)
  note out = outcome_answering [OF this]
  have fst_then: "fst (and_then m (\<lambda>x. ret (f x)) v) = (case fst (m v) of Inl e \<Rightarrow> Inl e | Inr x \<Rightarrow> Inr (f x))"
    for m :: "(world, notification pagination) io" and f :: "notification pagination \<Rightarrow> pb_list_response" and v
    by (simp add: and_then_def split: prod.split sum.split)
  show ?thesis
    by (cases "toCursor (lib E) page"; cases "toWindow win")
      (simp_all add: out fst_then listing_blind [OF assms])
qed

text \<open>
  C19. What a caller is told does not depend on what others have. Where no other process writes, a
  \<open>Get\<close> or a \<open>List\<close> of a source answers the same whether the messages of all other sources, and their
  deliveries, are in the database or not: a message of somebody else is refused in the words and with
  the code of one that does not exist.
\<close>

theorem answers_blind_to_others:
  assumes "alone E" "reachable (w_db w)" "req = RpcGet i page \<or> req = RpcList win page"
  shows "outcome_for E G src req (seen_by (src_ID src) w) = outcome_for E G src req w"
  using assms(3) Get_blind [OF assms(1,2)] List_blind [OF assms(1)] by metis

definition demo_stranger :: source where
  "demo_stranger = \<lparr>src_ID = demo_id CHR ''9'', src_Name = ''other'', src_Description = '''', src_MaxPriority = PriorityNormal,
     src_IsActive = True, src_OwnerUserID = demo_id CHR ''1'', src_ApprovedAt = None, src_ReviewedAt = None,
     src_ReviewNote = '''', src_AllowCustomAddress = False, src_DefaultAddresses = [], src_CreatedAt = 0, src_UpdatedAt = 0\<rparr>"

theorem answers_blind_to_others_witness:
  "outcome_for demo_env demo_gateway demo_stranger (RpcGet (demo_id CHR ''3'') None) (seen_by (src_ID demo_stranger) demo_world)
     = outcome_for demo_env demo_gateway demo_stranger (RpcGet (demo_id CHR ''3'') None) demo_world"
  by (rule answers_blind_to_others [OF _ demo_reachable]) (simp_all add: alone_def demo_env_def)

end
