(* ===== verification/Broker.thy ===== *)
theory Broker
  imports Dispatch Gateway Encoding
begin

text \<open>
  \<open>internal/adapter/mq/nats\<close>: the hand-off from the gateway to the dispatcher. The client of
  JetStream and package json are parameters; what the broker does with a message between its publication and its
  last answer is not assumed, except where a statement says so. Logging is left out.
\<close>

subsection \<open>Subjects and streams\<close>

definition DispatchRoot :: string where
  "DispatchRoot = ''notify''"

definition tokenSeparator :: string where
  "tokenSeparator = ''.''"

definition tailWildcard :: string where
  "tailWildcard = ''>''"

definition tokenWildcard :: string where
  "tokenWildcard = ''*''"

definition dispatchConsumer :: string where
  "dispatchConsumer = ''dispatcher''"

definition backoff :: "duration list" where
  "backoff = [5 * second, 30 * second, 2 * minute, 10 * minute]"

definition ContainsAny :: "string \<Rightarrow> string \<Rightarrow> bool" where
  "ContainsAny s chars \<longleftrightarrow> list_ex (\<lambda>c. c \<in> set chars) s"

record subjects =
  sbj_root :: string

definition NewSubjects :: "string \<Rightarrow> subjects result" where
  "NewSubjects root =
    (if root = '''' then Inl (InternalErr ''subject root is empty'')
     else if ContainsAny root (tokenSeparator @ tailWildcard @ tokenWildcard)
        \<or> ContainsAny root [CHR '' '', CHR 0x09]
     then Inl (WithStr (InternalErr ''subject root is not a single token'') (Text ''root %q'' [FmtS root]))
     else Inr \<lparr>sbj_root = root\<rparr>)"

definition Subjects_IsZero :: "subjects \<Rightarrow> bool" where
  "Subjects_IsZero S \<longleftrightarrow> sbj_root S = ''''"

definition subject_join :: "subjects \<Rightarrow> string list \<Rightarrow> string" where
  "subject_join S tokens = sbj_root S @ tokenSeparator @ Join tokenSeparator tokens"

definition Wildcard :: "subjects \<Rightarrow> string" where
  "Wildcard S = subject_join S [tailWildcard]"

definition ForDispatch :: "golib \<Rightarrow> subjects \<Rightarrow> dispatch_event \<Rightarrow> string result" where
  "ForDispatch L S e =
    (if Subjects_IsZero S then Inl (InternalErr ''subjects were never built'')
     else if \<not> Channel_Valid (ev_Channel e) then
       Inl (WithStr (WithErr (InternalErr ''event has an unknown channel'') (Sentinel (SharedE ErrUnknownChannel)))
         (Text ''delivery %q, channel %q'' [FmtS (ev_DeliveryID e), FmtS (Channel_String (ev_Channel e))]))
     else if \<not> Priority_Valid (ev_Priority e) then
       Inl (WithStr (InternalErr ''event has an unknown priority'')
         (Text ''delivery %q, priority %d'' [FmtS (ev_DeliveryID e), FmtD (sint (priority_word (ev_Priority e)))]))
     else Inr (subject_join S [Channel_String (ev_Channel e), ToLower L (Priority_String L (ev_Priority e))]))"

record stream_id =
  str_Name :: string
  str_Subjects :: subjects

definition Stream_IsZero :: "stream_id \<Rightarrow> bool" where
  "Stream_IsZero s \<longleftrightarrow> str_Name s = '''' \<or> Subjects_IsZero (str_Subjects s)"

definition NewStream :: "string \<Rightarrow> subjects \<Rightarrow> stream_id result" where
  "NewStream name S =
    (if name = '''' then Inl (InternalErr ''stream has no name'')
     else if Subjects_IsZero S then Inl (WithStr (InternalErr ''stream has no subjects'') (Text name []))
     else Inr \<lparr>str_Name = name, str_Subjects = S\<rparr>)"

definition DispatchStream :: "string \<Rightarrow> stream_id result" where
  "DispatchStream name = then_result (NewSubjects DispatchRoot) (\<lambda>S. NewStream name S)"

subsection \<open>The client of the broker\<close>

datatype retention_policy = LimitsPolicy | InterestPolicy | WorkQueuePolicy

datatype storage_type = FileStorage | MemoryStorage

record js_stream_config =
  jss_Name :: string
  jss_Subjects :: "string list"
  jss_Retention :: retention_policy
  jss_Storage :: storage_type
  jss_Duplicates :: duration
  jss_MaxAge :: duration

datatype ack_policy = AckExplicit | AckNone | AckAll

record js_consumer_config =
  jsc_Durable :: string
  jsc_FilterSubject :: string
  jsc_AckPolicy :: ack_policy
  jsc_MaxDeliver :: int
  jsc_AckWait :: duration
  jsc_BackOff :: "duration list"
  jsc_MaxAckPending :: int

text \<open>\<open>js_Publish\<close> is told the subject, the data, the message id and the stream expected.\<close>

record 'w jetstream =
  js_Publish :: "string \<Rightarrow> string \<Rightarrow> string \<Rightarrow> string \<Rightarrow> ('w, unit) io"
  js_CreateOrUpdateStream :: "js_stream_config \<Rightarrow> ('w, unit) io"
  js_CreateOrUpdateConsumer :: "string \<Rightarrow> js_consumer_config \<Rightarrow> ('w, unit) io"

record stream_config =
  stc_Stream :: stream_id
  stc_DuplicateWindow :: duration
  stc_MaxAge :: duration

definition EnsureStream :: "'w jetstream option \<Rightarrow> stream_config \<Rightarrow> ('w, unit) io" where
  "EnsureStream js_opt cfg =
    (case js_opt of
       None \<Rightarrow> throw (InternalErr ''no jetstream handle'')
     | Some js \<Rightarrow>
         if Stream_IsZero (stc_Stream cfg) then throw (InternalErr ''stream was never built'')
         else attempt (js_CreateOrUpdateStream js
             \<lparr>jss_Name = str_Name (stc_Stream cfg), jss_Subjects = [Wildcard (str_Subjects (stc_Stream cfg))],
              jss_Retention = WorkQueuePolicy, jss_Storage = FileStorage,
              jss_Duplicates = stc_DuplicateWindow cfg, jss_MaxAge = stc_MaxAge cfg\<rparr>)
           (\<lambda>r. case r of
              Inl err \<Rightarrow> throw (WithErr (WithStr (UnavailableErr ''the request could not be completed'')
                (Text (''ensure stream '' @ str_Name (stc_Stream cfg)) [])) err)
            | Inr _ \<Rightarrow> ret ()))"

subsection \<open>The event as bytes\<close>

record event_json =
  ej_Marshal :: "dispatch_event \<Rightarrow> string result"
  ej_Unmarshal :: "string \<Rightarrow> dispatch_event result"

definition encode :: "event_json \<Rightarrow> dispatch_event \<Rightarrow> string \<Rightarrow> string result" where
  "encode J e i =
    (case ej_Marshal J e of
       Inl err \<Rightarrow> Inl (WithErr (WithStr (InternalErr ''event could not be encoded'') (Text i [])) err)
     | Inr data \<Rightarrow> Inr data)"

definition decode :: "event_json \<Rightarrow> string \<Rightarrow> dispatch_event result" where
  "decode J data =
    (case ej_Unmarshal J data of
       Inl err \<Rightarrow> Inl (WithErr (InternalErr ''event could not be decoded'') err)
     | Inr e \<Rightarrow> if ev_DeliveryID e = '''' then Inl (InternalErr ''event carries no delivery id'') else Inr e)"

subsection \<open>Publishing\<close>

record 'w dispatch_publisher =
  dp_lib :: golib
  dp_json :: event_json
  dp_js :: "'w jetstream"
  dp_stream :: stream_id

definition NewDispatchPublisher ::
    "golib \<Rightarrow> event_json \<Rightarrow> 'w jetstream option \<Rightarrow> stream_id \<Rightarrow> 'w dispatch_publisher result" where
  "NewDispatchPublisher L J js_opt s =
    (case js_opt of
       None \<Rightarrow> Inl (InternalErr ''no jetstream handle'')
     | Some js \<Rightarrow>
         if Stream_IsZero s then Inl (InternalErr ''publisher has no stream'')
         else Inr \<lparr>dp_lib = L, dp_json = J, dp_js = js, dp_stream = s\<rparr>)"

definition nats_send :: "'w jetstream \<Rightarrow> stream_id \<Rightarrow> string \<Rightarrow> string \<Rightarrow> string \<Rightarrow> ('w, unit) io" where
  "nats_send js s subject msgID data =
    attempt (js_Publish js subject data msgID (str_Name s)) (\<lambda>r. case r of
      Inl err \<Rightarrow> throw (WithErr (WithStr (UnavailableErr ''the request could not be completed'')
        (Text (''publish '' @ subject @ '' to '' @ str_Name s) [])) err)
    | Inr _ \<Rightarrow> ret ())"

definition DispatchPublisher_Publish :: "'w dispatch_publisher \<Rightarrow> dispatch_event \<Rightarrow> ('w, unit) io" where
  "DispatchPublisher_Publish P e =
    (case ForDispatch (dp_lib P) (str_Subjects (dp_stream P)) e of
       Inl err \<Rightarrow> throw err
     | Inr subject \<Rightarrow>
         (case encode (dp_json P) e (ev_DeliveryID e) of
            Inl err \<Rightarrow> throw err
          | Inr data \<Rightarrow> nats_send (dp_js P) (dp_stream P) subject (ev_DeliveryID e) data))"

subsection \<open>Consuming\<close>

record consumer_config =
  cc_Stream :: stream_id
  cc_MaxAttempts :: int
  cc_AckWait :: duration
  cc_MaxInFlight :: int

record 'w consumer =
  con_json :: event_json
  con_handler :: "ID \<Rightarrow> int \<Rightarrow> ('w, unit) io"
  con_ackWait :: duration
  con_backoff :: "duration list"

definition delaysFor :: "int \<Rightarrow> duration list" where
  "delaysFor maxAttempts =
    (if int (length backoff) \<le> maxAttempts then backoff else take (nat maxAttempts) backoff)"

definition NewConsumer ::
    "event_json \<Rightarrow> 'w jetstream option \<Rightarrow> consumer_config \<Rightarrow> (ID \<Rightarrow> int \<Rightarrow> ('w, unit) io) option \<Rightarrow> bool
      \<Rightarrow> ('w, 'w consumer) io" where
  "NewConsumer J js_opt cfg handler_opt has_log =
    (case js_opt of
       None \<Rightarrow> throw (InternalErr ''no jetstream handle'')
     | Some js \<Rightarrow>
    (case handler_opt of
       None \<Rightarrow> throw (InternalErr ''consumer has nothing to hand events to'')
     | Some handler \<Rightarrow>
         if \<not> has_log then throw (InternalErr ''consumer has no logger'')
         else if Stream_IsZero (cc_Stream cfg) then throw (InternalErr ''consumer has no stream'')
         else if cc_MaxAttempts cfg \<le> 0 then throw (InternalErr ''consumer needs a delivery limit above zero'')
         else if cc_AckWait cfg \<le> 0 then throw (InternalErr ''consumer needs an ack wait above zero'')
         else if cc_MaxInFlight cfg \<le> 0 then throw (InternalErr ''consumer needs a limit on messages in flight'')
         else
           let delays = delaysFor (cc_MaxAttempts cfg) in
           attempt (js_CreateOrUpdateConsumer js (str_Name (cc_Stream cfg))
               \<lparr>jsc_Durable = dispatchConsumer, jsc_FilterSubject = Wildcard (str_Subjects (cc_Stream cfg)),
                jsc_AckPolicy = AckExplicit, jsc_MaxDeliver = cc_MaxAttempts cfg, jsc_AckWait = cc_AckWait cfg,
                jsc_BackOff = delays, jsc_MaxAckPending = cc_MaxInFlight cfg\<rparr>)
             (\<lambda>r. case r of
                Inl err \<Rightarrow> throw (WithErr (WithStr (UnavailableErr ''the request could not be completed'')
                  (Text (''create consumer on '' @ str_Name (cc_Stream cfg)) [])) err)
              | Inr _ \<Rightarrow> ret \<lparr>con_json = J, con_handler = handler, con_ackWait = cc_AckWait cfg, con_backoff = delays\<rparr>)))"

text \<open>None is the panic of an index out of range.\<close>

definition delay :: "'w consumer \<Rightarrow> int \<Rightarrow> duration option" where
  "delay C attempts =
    (let n = (if attempts < 1 then 1 else attempts);
         n = (if int (length (con_backoff C)) < n then int (length (con_backoff C)) else n) in
     if n < 1 then None else Some (con_backoff C ! nat (n - 1)))"

text \<open>
  A message as the broker offers it: its count of offers, when it is a JetStream message at all, and
  its bytes. \<open>consumer_handle\<close> says which answer the broker is given; whether that arrives is the
  broker's matter, since an error of it is only logged.
\<close>

record offer =
  off_NumDelivered :: "64 word result"
  off_Data :: string

datatype verdict = Acked | Naked duration | Termed

definition nak :: "'w consumer \<Rightarrow> int \<Rightarrow> verdict option" where
  "nak C attempts = map_option Naked (delay C attempts)"

definition consumer_handle :: "'w consumer \<Rightarrow> offer \<Rightarrow> 'w \<Rightarrow> verdict option \<times> 'w" where
  "consumer_handle C m w =
    (case off_NumDelivered m of
       Inl err \<Rightarrow> (Some Termed, w)
     | Inr delivered \<Rightarrow>
         (case decode (con_json C) (off_Data m) of
            Inl err \<Rightarrow> (Some Termed, w)
          | Inr event \<Rightarrow>
              let attempts = sint delivered in
              (case con_handler C (ev_DeliveryID event) attempts w of
                 (Inl err, w') \<Rightarrow> (nak C attempts, w')
               | (Inr _, w') \<Rightarrow> (Some Acked, w'))))"

subsection \<open>A delivery on its last attempt\<close>

text \<open>
  Where every round trip is answered, and the registry refuses an identity only as one that is not
  there, the last attempt at a delivery always ends in an outcome: whatever the provider says, and
  whatever other processes write meanwhile.
\<close>

definition answering_db :: "env \<Rightarrow> bool" where
  "answering_db E \<longleftrightarrow> (\<forall>k. round_trips E k = Delivered)
    \<and> (\<forall>k s c n e. identity_refused E k s c n = Some e \<longrightarrow> IsType e ErrInvalidInput)"

definition sound_from :: "world \<Rightarrow> world \<Rightarrow> bool" where
  "sound_from w0 w \<longleftrightarrow> grows w0 w \<and> w_tx w = NoTx"

definition always_nil :: "world \<Rightarrow> (world, unit) io \<Rightarrow> bool" where
  "always_nil w0 m \<longleftrightarrow> (\<forall>w. sound_from w0 w \<longrightarrow> fst (m w) = Inr ())"

lemma exec_answered:
  assumes "answering_db E" "w_tx w = NoTx"
  shows "\<exists>db w'. writes_to (w_db w) db \<and> exec E stmt w = (fst (stmt db), w') \<and> w_tx w' = NoTx
     \<and> w_db w' = snd (stmt db)"
proof -
  have "writes_to (w_db w) (w_db (begin_trip E w))" by (rule begin_trip_writes)
  moreover have "w_tx (begin_trip E w) = NoTx" using assms(2) by (simp add: begin_trip_def)
  ultimately show ?thesis
    using assms by (intro exI [of _ "w_db (begin_trip E w)"])
      (simp add: exec_def answering_db_def Let_def abort_on_def split: prod.split)
qed

lemma exec_answered_ok:
  assumes "answering_db E" "sound_from w0 w" "world_ok w0" "exec E stmt w = (r, w')"
  shows "\<exists>db. db_ok db \<and> r = fst (stmt db)"
proof -
  obtain db where db: "writes_to (w_db w) db" "r = fst (stmt db)"
    using exec_answered [OF assms(1), of w stmt] assms(2,4) by (auto simp: sound_from_def)
  have "world_ok w" using assms(2,3) world_ok_grows by (auto simp: sound_from_def)
  then have "db_ok db"
    using db(1) db_ok_run_writes by (auto simp: world_ok_def writes_to_def)
  with db(2) show ?thesis by blast
qed

lemma nil_attempt:
  assumes "keeps grows m" "keeps tx_closed m"
    and "\<And>w r w'. sound_from w0 w \<Longrightarrow> m w = (r, w') \<Longrightarrow> always_nil w0 (f r)"
  shows "always_nil w0 (attempt m f)"
  unfolding always_nil_def
proof (intro allI impI)
  fix w
  assume w: "sound_from w0 w"
  obtain r w' where m: "m w = (r, w')" by fastforce
  have "sound_from w0 w'"
    using w keepsD [OF assms(1) m] keepsD [OF assms(2) m] grows_trans
    by (auto simp: sound_from_def tx_closed_def)
  then show "fst (attempt m f w) = Inr ()"
    using assms(3) [OF w m] by (simp add: always_nil_def attempt_def m)
qed

lemma nil_call:
  assumes "keeps grows m" "keeps tx_closed m" "\<And>x. always_nil w0 (f x)"
  shows "always_nil w0 (call m f)"
  unfolding always_nil_def
proof (intro allI impI)
  fix w
  assume w: "sound_from w0 w"
  obtain x w' where m: "m w = (x, w')" by fastforce
  have "sound_from w0 w'"
    using w keepsD [OF assms(1) m] keepsD [OF assms(2) m] grows_trans
    by (auto simp: sound_from_def tx_closed_def)
  then show "fst (call m f w) = Inr ()" using assms(3) by (simp add: always_nil_def call_def m)
qed

lemma nil_announce: "always_nil w0 (announce D n)"
  by (simp add: always_nil_def announce_nil)

lemma tx_closed_recorders:
  "keeps tx_closed (Tracker_Get (pg_tracker E) i)"
  "keeps tx_closed (pg_ReadNotification E i)"
  "keeps tx_closed (settled_call (outcome_only (RecordSent (pg_tracker E) d pid n)))"
  "keeps tx_closed (settled_call (outcome_only (RecordFailure (pg_tracker E) d reason detail n)))"
proof -
  have up: "keeps tx_closed (pg_UpdateDelivery E x)" for x
    unfolding pg_UpdateDelivery_def by (auto intro!: keeps_tx_closed)
  have upd: "w_tx w' = NoTx" if "w_tx w = NoTx" "pg_UpdateDelivery E x w = (r, w')" for x w r w'
    using keepsD [OF up that(2)] that(1) by (simp add: tx_closed_def)
  have "keeps tx_closed (outcome_only (RecordSent (pg_tracker E) d pid n))"
    by (auto simp: keeps_def tx_closed_def outcome_only_def RecordSent_def pg_tracker_def pg_deliveries_def Now_def
        split: prod.split sum.split dest: upd [rotated])
  then show "keeps tx_closed (settled_call (outcome_only (RecordSent (pg_tracker E) d pid n)))"
    unfolding settled_call_def by (intro keeps_tx_closed)
  have "keeps tx_closed (outcome_only (RecordFailure (pg_tracker E) d reason detail n))"
    by (auto simp: keeps_def tx_closed_def outcome_only_def RecordFailure_def pg_tracker_def pg_deliveries_def Now_def
        split: prod.split sum.split dest: upd [rotated])
  then show "keeps tx_closed (settled_call (outcome_only (RecordFailure (pg_tracker E) d reason detail n)))"
    unfolding settled_call_def by (intro keeps_tx_closed)
  show "keeps tx_closed (Tracker_Get (pg_tracker E) i)" "keeps tx_closed (pg_ReadNotification E i)"
    by (auto intro!: keeps_tx_closed split: sum.split
        simp: Tracker_Get_def pg_tracker_def pg_deliveries_def pg_ReadDelivery_def pg_ReadNotification_def)
qed

lemma update_answered:
  assumes "answering_db E" "sound_from w0 w" "world_ok w0" "pg_UpdateDelivery E d w = (r, w')"
    and "status_check (Status_String (dlv_status d))" "failure_check (optional (Failure_String (dlv_failureReason d)))"
  shows "settled_result r = Inr ()"
proof -
  obtain rows w1 where x: "exec E (sql_UpdateDelivery (outcome_row d)) w = (Inr rows, w1)"
  proof -
    obtain r1 w1 where run: "exec E (sql_UpdateDelivery (outcome_row d)) w = (r1, w1)" by fastforce
    obtain db where "r1 = fst (sql_UpdateDelivery (outcome_row d) db)"
      using exec_answered_ok [OF assms(1-3) run] by blast
    then have "\<exists>k. r1 = Inr k"
      using assms(5,6) by (auto simp: sql_UpdateDelivery_def outcome_row_def Let_def)
    with run that show ?thesis by blast
  qed
  with assms(4) have "r = Inr () \<or> (\<exists>e. r = Inl e \<and> is_err e (DeliveryE ErrAlreadySettled))"
    by (auto simp: pg_UpdateDelivery_def or_failed_eq split: if_splits)
  then show ?thesis by (auto simp: settled_result_def)
qed


lemma pending_failure: "Failure_Valid reason \<Longrightarrow> failure_check (optional (Failure_String reason))"
  by (cases reason) (simp_all add: failure_check_def optional_def)

lemma nil_recorders:
  assumes "answering_db E" "world_ok w0" "dlv_status d = StatusPending"
  shows "always_nil w0 (settled_call (outcome_only (RecordSent (pg_tracker E) d pid n)))"
    and "Failure_Valid reason \<Longrightarrow>
      always_nil w0 (settled_call (outcome_only (RecordFailure (pg_tracker E) d reason detail n)))"
proof -
  have now: "sound_from w0 (snd (Now E w))" if "sound_from w0 w" for w
    using that keepsD [OF keeps_Now [THEN keeps_grows_of], of E w] grows_trans
    by (auto simp: sound_from_def Now_def grows_def)
  have none: "failure_check (optional '''')"
    by (simp add: failure_check_def optional_def)
  show "always_nil w0 (settled_call (outcome_only (RecordSent (pg_tracker E) d pid n)))"
    unfolding always_nil_def
  proof (intro allI impI)
    fix w assume w: "sound_from w0 w"
    define d' where "d' = d\<lparr>dlv_status := StatusSent, dlv_updatedAt := clock E (w_clock w),
        dlv_providerMessageID := pid, dlv_attempts := n, dlv_lastError := '''', dlv_failureReason := no_failure\<rparr>"
    obtain r w2 where up: "pg_UpdateDelivery E d' (snd (Now E w)) = (r, w2)" by fastforce
    have "settled_result r = Inr ()"
      by (rule update_answered [OF assms(1) now [OF w] assms(2) up]) (simp_all add: d'_def status_check_def none)
    moreover have "\<exists>d''. RecordSent (pg_tracker E) d pid n w = ((r, d''), w2)"
      using up assms(3)
      by (simp add: RecordSent_def Now_def pg_tracker_def pg_deliveries_def MarkSent_def moveTo_def CanTransitionTo_iff
          then_result_def d'_def)
    ultimately show "fst (settled_call (outcome_only (RecordSent (pg_tracker E) d pid n)) w) = Inr ()"
      by (auto simp: settled_call_def attempt_def outcome_only_def lift_def)
  qed
  show "always_nil w0 (settled_call (outcome_only (RecordFailure (pg_tracker E) d reason detail n)))"
    if "Failure_Valid reason"
    unfolding always_nil_def
  proof (intro allI impI)
    fix w assume w: "sound_from w0 w"
    define d' where "d' = d\<lparr>dlv_status := StatusFailed, dlv_updatedAt := clock E (w_clock w),
        dlv_failureReason := reason, dlv_lastError := detail, dlv_attempts := n\<rparr>"
    obtain r w2 where up: "pg_UpdateDelivery E d' (snd (Now E w)) = (r, w2)" by fastforce
    have "settled_result r = Inr ()"
      by (rule update_answered [OF assms(1) now [OF w] assms(2) up])
        (simp_all add: d'_def status_check_def pending_failure that)
    moreover have "\<exists>d''. RecordFailure (pg_tracker E) d reason detail n w = ((r, d''), w2)"
      using up assms(3) that
      by (simp add: RecordFailure_def Now_def pg_tracker_def pg_deliveries_def MarkFailed_def moveTo_def CanTransitionTo_iff
          then_result_def d'_def)
    ultimately show "fst (settled_call (outcome_only (RecordFailure (pg_tracker E) d reason detail n)) w) = Inr ()"
      by (auto simp: settled_call_def attempt_def outcome_only_def lift_def)
  qed
qed


lemma read_delivery_answered:
  assumes "answering_db E" "sound_from w0 w" "world_ok w0" "Tracker_Get (pg_tracker E) i w = (Inl e, w')"
  shows "is_err e (DeliveryE delivery_error.ErrNotFound)"
proof -
  have run: "pg_ReadDelivery E i w = (Inl e, w')"
    using assms(4) by (simp add: Tracker_Get_def pg_tracker_def pg_deliveries_def)
  obtain r w1 where x: "exec E (sql_ReadDelivery i) w = (r, w1)" by fastforce
  obtain db where db: "db_ok db" "r = fst (sql_ReadDelivery i db)"
    using exec_answered_ok [OF assms(1-3) x] by blast
  show ?thesis
  proof (cases r)
    case (Inl err)
    with db have "err = pgx_ErrNoRows" by (auto simp: sql_ReadDelivery_def one_row_def split: option.splits)
    with run x Inl show ?thesis by (auto simp: pg_ReadDelivery_def attempt_def noRows_def)
  next
    case (Inr row)
    with db have "row \<in> set (t_deliveries db)"
      by (auto simp: sql_ReadDelivery_def one_row_def dest: the_row_Some split: option.splits)
    with db(1) have "delivery_row_ok row" by (simp add: db_ok_def deliveries_ok_def list_all_iff)
    with run x Inr show ?thesis by (simp add: pg_ReadDelivery_def attempt_def toDelivery_ok)
  qed
qed

lemma checked_priority: "priority_check s \<Longrightarrow> \<exists>p. ParsePriority s = Inr p"
  by (auto simp: priority_check_def ParsePriority_def priorityNames_def)

lemma toNotification_ok: "notifications_ok rows \<Longrightarrow> row \<in> set rows \<Longrightarrow> \<exists>n. toNotification row = Inr n"
  using checked_priority [of "nt_requested_priority row"] checked_priority [of "nt_effective_priority row"]
  by (fastforce simp: notifications_ok_def list_all_iff toNotification_def toMetadata_def)

lemma read_notification_answered:
  assumes "answering_db E" "sound_from w0 w" "world_ok w0" "pg_ReadNotification E i w = (Inl e, w')"
  shows "is_err e (NotificationE notification_error.ErrNotFound)"
proof -
  obtain r w1 where x: "exec E (sql_ReadNotification i) w = (r, w1)" by fastforce
  obtain db where db: "db_ok db" "r = fst (sql_ReadNotification i db)"
    using exec_answered_ok [OF assms(1-3) x] by blast
  show ?thesis
  proof (cases r)
    case (Inl err)
    with db have "err = pgx_ErrNoRows" by (auto simp: sql_ReadNotification_def one_row_def split: option.splits)
    with assms(4) x Inl show ?thesis by (auto simp: pg_ReadNotification_def attempt_def noRows_def)
  next
    case (Inr row)
    with db have "row \<in> set (t_notifications db)"
      by (auto simp: sql_ReadNotification_def one_row_def dest: the_row_Some split: option.splits)
    with db(1) toNotification_ok obtain n where "toNotification row = Inr n" by (auto simp: db_ok_def)
    with assms(4) x Inr show ?thesis by (simp add: pg_ReadNotification_def attempt_def)
  qed
qed

lemma nil_and_then:
  assumes "always_nil w0 m" "keeps grows m" "keeps tx_closed m" "always_nil w0 (f ())"
  shows "always_nil w0 (and_then m f)"
  unfolding always_nil_def
proof (intro allI impI)
  fix w
  assume w: "sound_from w0 w"
  obtain r w' where m: "m w = (r, w')" by fastforce
  have "sound_from w0 w'"
    using w keepsD [OF assms(2) m] keepsD [OF assms(3) m] grows_trans
    by (auto simp: sound_from_def tx_closed_def)
  moreover have "r = Inr ()" using assms(1) w m by (auto simp: always_nil_def)
  ultimately show "fst (and_then m f w) = Inr ()"
    using assms(4) by (simp add: always_nil_def and_then_def m)
qed

lemma nil_fail:
  assumes "answering_db E" "world_ok w0" "dlv_status d = StatusPending" "Failure_Valid reason"
  shows "always_nil w0 (fail (deployed_dispatcher E c) d n reason detail)"
  unfolding fail_def using nil_recorders(2) [OF assms]
  by (intro nil_and_then nil_announce)
    (simp_all add: keeps_dispatch [THEN keeps_grows_of] tx_closed_recorders)

lemma nil_sendFailed:
  assumes "answering_db E" "world_ok w0" "dlv_status d = StatusPending"
  shows "always_nil w0 (sendFailed (deployed_dispatcher E c) d n err True)"
  unfolding sendFailed_def using nil_fail [OF assms] by (auto split: send_kind.split)


lemma nil_deliver_message:
  assumes "answering_db E" "world_ok w0" "dlv_status d = StatusPending"
  shows "always_nil w0 (deliver_message (deployed_dispatcher E c) d True n)"
proof -
  let ?D = "deployed_dispatcher E c"
  have sent: "always_nil w0 (and_then (settled_call (outcome_only (RecordSent (pg_tracker E) d pid k))) (\<lambda>_. announce ?D (Some n)))"
    for pid k
    using nil_recorders(1) [OF assms]
    by (intro nil_and_then nil_announce) (simp_all add: keeps_dispatch [THEN keeps_grows_of] tx_closed_recorders)
  have send: "always_nil w0 (attempt (outside_Send E m) (\<lambda>r. case r of
      Inl err \<Rightarrow> sendFailed ?D d n err True
    | Inr pid \<Rightarrow> and_then (settled_call (outcome_only (RecordSent (pg_tracker E) d pid k))) (\<lambda>_. announce ?D (Some n))))"
    for m k
    using sent nil_sendFailed [OF assms]
    by (intro nil_attempt keeps_outside tx_closed_asking) (auto split: sum.split)
  have missing: "always_nil w0 (fail ?D d (Some n) FailureNoSender detail)" for detail
    by (rule nil_fail [OF assms]) simp
  have refusal: "IsType e ErrInvalidInput" if "outside_For E s ch nm w = (Inl e, w')" for s ch nm w w' e
    using that assms(1) by (auto simp: outside_For_def answering_db_def split: option.splits)
  show ?thesis
    unfolding deliver_message_def deployed_simps outside_senders_def sender_registry.simps
  proof (intro nil_attempt keeps_outside tx_closed_asking, goal_cases)
    case (1 w r w')
    then show ?case
      using refusal missing send outside_For_sender by (auto split: sum.split)
  qed
qed

lemma nil_deliver:
  assumes "answering_db E" "world_ok w0" "dlv_status d = StatusPending"
  shows "always_nil w0 (deliver (deployed_dispatcher E c) d True)"
proof -
  let ?D = "deployed_dispatcher E c"
  have gone: "always_nil w0 (fail ?D d m reason detail)" if "Failure_Valid reason" for m reason detail
    by (rule nil_fail [OF assms that])
  have get: "notification_Get (d_notifs ?D) i = pg_ReadNotification E i" for i
    by (simp add: notification_Get_def pg_notifications_def)
  have rest: "always_nil w0 (call (Now E) (\<lambda>now. if IsExpired n now then fail ?D d (Some n) FailureExpired ''''
      else deliver_message ?D d True n))" for n
    using gone nil_deliver_message [OF assms] by (intro nil_call tx_closed_asking keeps_Now [THEN keeps_grows_of]) simp
  have reads: "keeps grows (pg_ReadNotification E i)" for i
    using keeps_services(6) [THEN keeps_grows_of, of E c i] by (simp add: get)
  show ?thesis
    unfolding deliver_def get deployed_simps
  proof (intro nil_attempt reads tx_closed_recorders, goal_cases)
    case (1 w r w')
    then show ?case
      using read_notification_answered [OF assms(1) 1(1) assms(2)] gone rest
      by (cases r) auto
  qed
qed

lemma Handle_last:
  assumes "answering_db E" "world_ok w" "w_tx w = NoTx" "cfg_MaxAttempts c \<le> n"
  shows "fst (Handle (deployed_dispatcher E c) i n w) = Inr ()"
proof -
  let ?D = "deployed_dispatcher E c"
  have last: "d_maxAttempts ?D \<le> n" using assms(4) by (simp add: deployed_dispatcher_def)
  have "always_nil w (Handle ?D i n)"
    unfolding Handle_def deployed_simps
  proof (intro nil_attempt keeps_services [THEN keeps_grows_of] tx_closed_recorders, goal_cases)
    case (1 v r v')
    have "world_ok v" using 1(1) world_ok_grows assms(2) by (auto simp: sound_from_def)
    note spec = Tracker_Get_read [OF 1(2) this]
    show ?case
    proof (cases r)
      case (Inl e)
      with 1 read_delivery_answered [OF assms(1) 1(1) assms(2)] show ?thesis
        by (simp add: always_nil_def)
    next
      case (Inr d)
      then show ?thesis
        using spec nil_deliver [OF assms(1,2), of d c] last by (auto simp: always_nil_def)
    qed
  qed
  then show ?thesis using assms(3) by (simp add: always_nil_def sound_from_def grows_refl)
qed


subsection \<open>The consumer of the deployment\<close>

definition deployed_consumer ::
    "env \<Rightarrow> dispatch_settings \<Rightarrow> event_json \<Rightarrow> world jetstream \<Rightarrow> consumer_config \<Rightarrow> (world, world consumer) io" where
  "deployed_consumer E c J js cfg = NewConsumer J (Some js) cfg (Some (Handle (deployed_dispatcher E c))) True"

lemma NewConsumer_made:
  assumes "NewConsumer J js_opt cfg h_opt has_log v = (Inr C, v')"
  shows "con_json C = J" "h_opt = Some (con_handler C)" "con_backoff C = delaysFor (cc_MaxAttempts cfg)"
    "0 < cc_MaxAttempts cfg"
  using assms by (auto simp: NewConsumer_def attempt_def Let_def split: option.splits if_splits prod.splits sum.splits)

lemma delaysFor_length: "0 < k \<Longrightarrow> delaysFor k \<noteq> [] \<and> int (length (delaysFor k)) = min k 4"
  by (auto simp: delaysFor_def backoff_def)

lemma delaysFor_nth: "0 \<le> i \<Longrightarrow> i < min k 4 \<Longrightarrow> delaysFor k ! nat i = backoff ! nat i"
  by (auto simp: delaysFor_def)

lemma delay_consumer:
  assumes "con_backoff C = delaysFor k" "0 < k"
  shows "delay C n = Some (backoff ! nat (min (max n 1) (min k 4) - 1))"
proof -
  have "min (max n 1) (min k 4) - 1 < min k 4" "0 \<le> min (max n 1) (min k 4) - 1" using assms(2) by auto
  from delaysFor_nth [OF this(2,1)] show ?thesis
    using delaysFor_length [OF assms(2)] assms by (auto simp: delay_def Let_def min_def max_def)
qed

text \<open>
  C14. The consumer answers every message it is offered, once, and says the right thing. It never
  panics; a message whose metadata or body cannot be read is terminated and nothing is touched; any other
  is handled once, and acknowledged exactly when the handling answered nil, and then its delivery, if there
  was one, is settled or gone with its message; when the handling answered an error the message is asked
  for again, after the table's delay for that attempt.
\<close>

theorem consumer_answers:
  assumes "deployed_consumer E c J js cfg v = (Inr C, v')"
    and "reachable (w_db w)" "consumer_handle C m w = (answer, w')"
  shows "case (off_NumDelivered m, decode J (off_Data m)) of
      (Inr n, Inr event) \<Rightarrow>
        (case Handle (deployed_dispatcher E c) (ev_DeliveryID event) (sint n) w of
           (Inr _, w1) \<Rightarrow> answer = Some Acked \<and> w' = w1
             \<and> (stored_delivery w (ev_DeliveryID event) \<noteq> None \<longrightarrow> settled_or_gone w' (ev_DeliveryID event))
         | (Inl _, w1) \<Rightarrow> w' = w1
             \<and> answer = Some (Naked (backoff ! nat (min (max (sint n) 1) (min (cc_MaxAttempts cfg) 4) - 1))))
    | _ \<Rightarrow> answer = Some Termed \<and> w' = w"
proof -
  note C = NewConsumer_made [OF assms(1) [unfolded deployed_consumer_def]]
  have handler: "con_handler C = Handle (deployed_dispatcher E c)" using C(2) by simp
  show ?thesis
  proof (cases "isl (off_NumDelivered m) \<or> isl (decode J (off_Data m))")
    case True
    then show ?thesis
      using assms(3) C(1) by (cases "off_NumDelivered m"; cases "decode J (off_Data m)") (auto simp: consumer_handle_def)
  next
    case False
    then obtain n event where read: "off_NumDelivered m = Inr n" "decode J (off_Data m) = Inr event"
      by (cases "off_NumDelivered m"; cases "decode J (off_Data m)") auto
    obtain r w1 where h: "Handle (deployed_dispatcher E c) (ev_DeliveryID event) (sint n) w = (r, w1)" by fastforce
    have out: "answer = (case r of Inl e \<Rightarrow> nak C (sint n) | Inr u \<Rightarrow> Some Acked)" "w' = w1"
      using assms(3) read C(1) handler h by (auto simp: consumer_handle_def Let_def split: sum.splits)
    show ?thesis
    proof (cases r)
      case (Inl e)
      with out read h delay_consumer [OF C(3,4)] show ?thesis by (simp add: nak_def)
    next
      case (Inr u)
      then have "Handle (deployed_dispatcher E c) (ev_DeliveryID event) (sint n) w = (Inr (), w1)" using h by simp
      from Handle_settles [OF assms(2) _ this] show ?thesis using out read h Inr by simp
    qed
  qed
qed

definition demo_json :: event_json where
  "demo_json = \<lparr>ej_Marshal = (\<lambda>e. Inr (ev_DeliveryID e)),
     ej_Unmarshal = (\<lambda>s. Inr \<lparr>ev_DeliveryID = s, ev_SourceID = '''', ev_Channel = ChannelEmail, ev_Priority = PriorityNormal\<rparr>)\<rparr>"

definition demo_jetstream :: "world jetstream" where
  "demo_jetstream = \<lparr>js_Publish = (\<lambda>subject data i s. ret ()), js_CreateOrUpdateStream = (\<lambda>cfg. ret ()),
     js_CreateOrUpdateConsumer = (\<lambda>s cfg. ret ())\<rparr>"

definition demo_consumer_config :: consumer_config where
  "demo_consumer_config = \<lparr>cc_Stream = \<lparr>str_Name = ''SROSHA'', str_Subjects = \<lparr>sbj_root = DispatchRoot\<rparr>\<rparr>,
     cc_MaxAttempts = 5, cc_AckWait = minute, cc_MaxInFlight = 8\<rparr>"

definition demo_offer :: offer where
  "demo_offer = \<lparr>off_NumDelivered = Inr 1, off_Data = demo_id CHR ''4''\<rparr>"

definition demo_consumer :: "world consumer" where
  "demo_consumer = \<lparr>con_json = demo_json, con_handler = Handle (deployed_dispatcher demo_env demo_settings),
     con_ackWait = minute, con_backoff = delaysFor 5\<rparr>"

lemma demo_consumer_made:
  "deployed_consumer demo_env demo_settings demo_json demo_jetstream demo_consumer_config w = (Inr demo_consumer, w)"
  by (simp add: deployed_consumer_def NewConsumer_def demo_consumer_config_def demo_jetstream_def demo_consumer_def
      Stream_IsZero_def Subjects_IsZero_def DispatchRoot_def minute_def second_def attempt_def ret_def)

theorem consumer_answers_witness:
  "fst (consumer_handle demo_consumer demo_offer demo_world) = Some Acked
    \<and> settled_or_gone (snd (consumer_handle demo_consumer demo_offer demo_world)) (demo_id CHR ''4'')"
proof -
  have run: "consumer_handle demo_consumer demo_offer demo_world =
      (fst (consumer_handle demo_consumer demo_offer demo_world), snd (consumer_handle demo_consumer demo_offer demo_world))"
    by simp
  have "map_option dlv_attempts (stored_delivery demo_world (demo_id CHR ''4'')) = Some 0" by code_simp
  then have "stored_delivery demo_world (demo_id CHR ''4'') \<noteq> None" by auto
  moreover have "decode demo_json (off_Data demo_offer) = Inr \<lparr>ev_DeliveryID = demo_id CHR ''4'', ev_SourceID = '''',
      ev_Channel = ChannelEmail, ev_Priority = PriorityNormal\<rparr>"
    by (simp add: decode_def demo_json_def demo_offer_def demo_id_def)
  moreover have "off_NumDelivered demo_offer = Inr 1" by (simp add: demo_offer_def)
  moreover note demo_Handle
  ultimately show ?thesis
    using consumer_answers [OF demo_consumer_made demo_reachable run] by (auto split: prod.splits sum.splits)
qed


text \<open>
  C13. No delivery is left undecided by the broker's last offer. When a message that can be read is offered
  for the last time the consumer's limit allows, every round trip to the database is answered, and whatever
  identity the registry refuses it refuses with invalid input (which it does for all that is wrong with an
  identity but a secret the keyring cannot open), the message is acknowledged and its delivery is settled or
  gone: even if the provider fails it again, and whatever other processes write meanwhile.
\<close>

theorem last_offer_settles:
  assumes "deployed_consumer E c J js cfg v = (Inr C, v')" "cfg_MaxAttempts c = cc_MaxAttempts cfg"
    and "\<forall>k. round_trips E k = Delivered"
    and "\<forall>k s ch name e. identity_refused E k s ch name = Some e \<longrightarrow> IsType e ErrInvalidInput"
    and "reachable (w_db w)" "w_tx w = NoTx"
    and "off_NumDelivered m = Inr n" "cc_MaxAttempts cfg \<le> sint n" "decode J (off_Data m) = Inr event"
  shows "fst (consumer_handle C m w) = Some Acked
    \<and> (stored_delivery w (ev_DeliveryID event) \<noteq> None
        \<longrightarrow> settled_or_gone (snd (consumer_handle C m w)) (ev_DeliveryID event))"
proof -
  note C = NewConsumer_made [OF assms(1) [unfolded deployed_consumer_def]]
  have "answering_db E" using assms(3,4) by (simp add: answering_db_def)
  moreover have "world_ok w" by (simp add: world_ok_def reachable_db_ok [OF assms(5)])
  ultimately obtain w1 where h: "Handle (deployed_dispatcher E c) (ev_DeliveryID event) (sint n) w = (Inr (), w1)"
    using Handle_last [of E w c "sint n" "ev_DeliveryID event"] assms(2,6,8)
    by (metis old.unit.exhaust prod.collapse)
  have "con_handler C = Handle (deployed_dispatcher E c)" using C(2) by simp
  then have "consumer_handle C m w = (Some Acked, w1)"
    using assms(7,9) C(1) h by (simp add: consumer_handle_def)
  with Handle_settles [OF assms(5) _ h] show ?thesis by simp
qed

definition demo_last_settings :: dispatch_settings where
  "demo_last_settings = demo_settings\<lparr>cfg_MaxAttempts := 5\<rparr>"

definition demo_last_env :: env where
  "demo_last_env = demo_env\<lparr>provider := (\<lambda>k m. Inl (UnavailableErr ''no answer''))\<rparr>"

theorem last_offer_settles_witness:
  "settled_or_gone (snd (consumer_handle
      (demo_consumer\<lparr>con_handler := Handle (deployed_dispatcher demo_last_env demo_last_settings)\<rparr>)
      (demo_offer\<lparr>off_NumDelivered := Inr 5\<rparr>) demo_world)) (demo_id CHR ''4'')"
proof -
  have made: "deployed_consumer demo_last_env demo_last_settings demo_json demo_jetstream demo_consumer_config demo_world
      = (Inr (demo_consumer\<lparr>con_handler := Handle (deployed_dispatcher demo_last_env demo_last_settings)\<rparr>), demo_world)"
    by (simp add: deployed_consumer_def NewConsumer_def demo_consumer_config_def demo_jetstream_def demo_consumer_def
      Stream_IsZero_def Subjects_IsZero_def DispatchRoot_def minute_def second_def attempt_def ret_def)
  have read: "decode demo_json (off_Data (demo_offer\<lparr>off_NumDelivered := Inr 5\<rparr>)) = Inr \<lparr>ev_DeliveryID = demo_id CHR ''4'',
      ev_SourceID = '''', ev_Channel = ChannelEmail, ev_Priority = PriorityNormal\<rparr>"
    by (simp add: decode_def demo_json_def demo_offer_def demo_id_def)
  have "\<forall>k. round_trips demo_last_env k = Delivered"
    "\<forall>k s ch name e. identity_refused demo_last_env k s ch name = Some e \<longrightarrow> IsType e ErrInvalidInput"
    by (simp_all add: demo_last_env_def demo_env_def)
  moreover have "w_tx demo_world = NoTx" by (simp add: demo_world_def)
  moreover have "map_option dlv_attempts (stored_delivery demo_world (demo_id CHR ''4'')) = Some 0" by code_simp
  ultimately show ?thesis
    using last_offer_settles [OF made _ _ _ demo_reachable _ _ _ read]
    by (auto simp: demo_last_settings_def demo_consumer_config_def)
qed

subsection \<open>From the gateway to the dispatcher\<close>

text \<open>What the encoder and the decoder of package json promise on the events of the program.\<close>

definition event_json_ok :: "event_json \<Rightarrow> bool" where
  "event_json_ok J \<longleftrightarrow> (\<forall>e. Channel_Valid (ev_Channel e) \<longrightarrow> Priority_Valid (ev_Priority e)
     \<longrightarrow> (\<exists>data. ej_Marshal J e = Inr data \<and> ej_Unmarshal J data = Inr e))"

lemma channel_token: "Channel_Valid c \<Longrightarrow> CHR ''.'' \<notin> set (Channel_String c)"
  by (cases c) simp_all

lemma priority_token:
  "Priority_Valid p \<Longrightarrow> ToLower L (Priority_String L p) =
     (if p = PriorityNormal then ''normal'' else if p = PriorityHigh then ''high'' else ''critical'')"
  by (auto simp: Priority_Valid_def priorityNames_def Priority_String_def ToLower_name ascii_def byte_def
      lower_name_def priority_defs split: if_splits)

lemma subject_tokens:
  assumes "DispatchStream name = Inr s" "Channel_Valid (ev_Channel e)" "Priority_Valid (ev_Priority e)"
  shows "\<exists>subject. ForDispatch L (str_Subjects s) e = Inr subject
    \<and> Split CHR ''.'' subject = [DispatchRoot, Channel_String (ev_Channel e), ToLower L (Priority_String L (ev_Priority e))]"
proof -
  have root: "sbj_root (str_Subjects s) = DispatchRoot" "\<not> Subjects_IsZero (str_Subjects s)"
    using assms(1) by (auto simp: DispatchStream_def then_result_def NewSubjects_def NewStream_def Subjects_IsZero_def
        split: if_splits sum.splits)
  have "CHR ''.'' \<notin> set (ToLower L (Priority_String L (ev_Priority e)))"
    by (simp add: priority_token [OF assms(3)])
  moreover have "CHR ''.'' \<notin> set DispatchRoot" by (simp add: DispatchRoot_def)
  ultimately show ?thesis
    using root assms(2,3) channel_token
    by (simp add: ForDispatch_def subject_join_def tokenSeparator_def Split_append Split_plain)
qed

text \<open>
  What the gateway publishes is what the dispatcher handles. An event with a known channel and
  priority is published once, to the stream, under three tokens that name the service, the channel
  and the priority, with the delivery's own identifier as the message id; and the consumer that is
  offered those bytes hands exactly that delivery to its handler. Any other event is refused before
  the broker is asked.
\<close>

theorem published_is_handled:
  assumes "event_json_ok J" "DispatchStream name = Inr s" "ev_DeliveryID e \<noteq> ''''"
    and "P = \<lparr>dp_lib = L, dp_json = J, dp_js = js, dp_stream = s\<rparr>" "con_json C = J"
  shows "if Channel_Valid (ev_Channel e) \<and> Priority_Valid (ev_Priority e) then
      \<exists>subject data. Split CHR ''.'' subject =
            [''notify'', Channel_String (ev_Channel e), ToLower L (Priority_String L (ev_Priority e))]
        \<and> snd (DispatchPublisher_Publish P e w) = snd (js_Publish js subject data (ev_DeliveryID e) name w)
        \<and> isl (fst (DispatchPublisher_Publish P e w)) = isl (fst (js_Publish js subject data (ev_DeliveryID e) name w))
        \<and> consumer_handle C \<lparr>off_NumDelivered = Inr n, off_Data = data\<rparr> v =
            (case con_handler C (ev_DeliveryID e) (sint n) v of
               (Inl err, v') \<Rightarrow> (nak C (sint n), v') | (Inr u, v') \<Rightarrow> (Some Acked, v'))
    else isl (fst (DispatchPublisher_Publish P e w)) \<and> snd (DispatchPublisher_Publish P e w) = w"
proof (cases "Channel_Valid (ev_Channel e) \<and> Priority_Valid (ev_Priority e)")
  case True
  then obtain subject where subject: "ForDispatch L (str_Subjects s) e = Inr subject"
    "Split CHR ''.'' subject = [DispatchRoot, Channel_String (ev_Channel e), ToLower L (Priority_String L (ev_Priority e))]"
    using subject_tokens [OF assms(2)] by blast
  from True assms(1) obtain data where data: "ej_Marshal J e = Inr data" "ej_Unmarshal J data = Inr e"
    unfolding event_json_ok_def by blast
  have name: "str_Name s = name"
    using assms(2) by (auto simp: DispatchStream_def then_result_def NewStream_def split: if_splits sum.splits)
  have "DispatchPublisher_Publish P e w = nats_send js s subject (ev_DeliveryID e) data w"
    using subject(1) data(1) assms(4) by (simp add: DispatchPublisher_Publish_def encode_def)
  moreover have "decode J data = Inr e" using data(2) assms(3) by (simp add: decode_def)
  moreover have "snd (nats_send js s subject i data w) = snd (js_Publish js subject data i name w)
      \<and> isl (fst (nats_send js s subject i data w)) = isl (fst (js_Publish js subject data i name w))" for i
    by (simp add: nats_send_def attempt_def throw_def ret_def name split: prod.split sum.split)
  ultimately show ?thesis
    unfolding if_P [OF True] using subject(2) assms(5)
    by - (rule exI [where x = subject], rule exI [where x = data],
      simp add: consumer_handle_def DispatchRoot_def Let_def split: prod.split sum.split)
next
  case False
  then show ?thesis
    using assms(4) by (auto simp: DispatchPublisher_Publish_def ForDispatch_def throw_def)
qed


text \<open>An encoding that keeps the promise: each letter after a mark, and another mark at the end.\<close>

definition demo_mark :: "string \<Rightarrow> string" where
  "demo_mark s = concat (map (\<lambda>c. [CHR ''1'', c]) s) @ ''0''"

fun demo_unmark :: "string \<Rightarrow> string \<times> string" where
  "demo_unmark (a # c # rest) = (if a = CHR ''1'' then (case demo_unmark rest of (s, r) \<Rightarrow> (c # s, r)) else ([], c # rest))"
| "demo_unmark rest = ([], [])"

definition demo_event_json :: event_json where
  "demo_event_json = \<lparr>ej_Marshal = (\<lambda>e. Inr (demo_mark (ev_DeliveryID e) @ demo_mark (ev_SourceID e)
       @ demo_mark (Channel_String (ev_Channel e)) @ demo_mark (Priority_String demo_golib (ev_Priority e)))),
     ej_Unmarshal = (\<lambda>s. case demo_unmark s of (i, s) \<Rightarrow> case demo_unmark s of (src, s) \<Rightarrow>
       case demo_unmark s of (ch, s) \<Rightarrow> case demo_unmark s of (p, s) \<Rightarrow>
       then_result (ParsePriority p) (\<lambda>p. Inr \<lparr>ev_DeliveryID = i, ev_SourceID = src, ev_Channel = Channel ch, ev_Priority = p\<rparr>))\<rparr>"

lemma demo_unmark_mark: "demo_unmark (demo_mark s @ r) = (s, r)"
proof (induction s)
  case Nil
  show ?case by (cases r) (simp_all add: demo_mark_def)
next
  case (Cons c s)
  then show ?case by (simp add: demo_mark_def)
qed

lemma demo_event_json_ok: "event_json_ok demo_event_json"
proof -
  have "demo_unmark (demo_mark s) = (s, [])" for s using demo_unmark_mark [of s "[]"] by simp
  moreover have "Channel (Channel_String c) = c" if "Channel_Valid c" for c using that by simp
  ultimately show ?thesis
    by (auto simp: event_json_ok_def demo_event_json_def demo_unmark_mark then_result_def ParsePriority_String)
qed

definition demo_event :: dispatch_event where
  "demo_event = \<lparr>ev_DeliveryID = demo_id CHR ''4'', ev_SourceID = demo_id CHR ''2'', ev_Channel = ChannelEmail,
     ev_Priority = PriorityNormal\<rparr>"

definition demo_stream :: stream_id where
  "demo_stream = \<lparr>str_Name = ''SROSHA'', str_Subjects = \<lparr>sbj_root = ''notify''\<rparr>\<rparr>"

lemma demo_stream_built: "DispatchStream ''SROSHA'' = Inr demo_stream"
  by (simp add: DispatchStream_def NewSubjects_def NewStream_def then_result_def DispatchRoot_def ContainsAny_def
      tokenSeparator_def tailWildcard_def tokenWildcard_def Subjects_IsZero_def demo_stream_def)

theorem published_is_handled_witness:
  "\<exists>subject data. Split CHR ''.'' subject = [''notify'', ''email'', ''normal'']
    \<and> consumer_handle (demo_consumer\<lparr>con_json := demo_event_json\<rparr>) \<lparr>off_NumDelivered = Inr 1, off_Data = data\<rparr> demo_world
        = (case con_handler demo_consumer (demo_id CHR ''4'') 1 demo_world of
             (Inl err, v') \<Rightarrow> (nak (demo_consumer\<lparr>con_json := demo_event_json\<rparr>) 1, v') | (Inr u, v') \<Rightarrow> (Some Acked, v'))"
proof -
  have known: "Channel_Valid (ev_Channel demo_event) \<and> Priority_Valid (ev_Priority demo_event)"
    by (simp add: demo_event_def Priority_Valid_def priorityNames_def)
  have "ev_DeliveryID demo_event \<noteq> ''''" by (simp add: demo_event_def demo_id_def)
  from published_is_handled [OF demo_event_json_ok demo_stream_built this refl,
      of "demo_consumer\<lparr>con_json := demo_event_json\<rparr>" demo_golib demo_jetstream demo_world 1 demo_world] known
  obtain subject data where "Split CHR ''.'' subject = [''notify'', ''email'', ''normal'']"
    "consumer_handle (demo_consumer\<lparr>con_json := demo_event_json\<rparr>) \<lparr>off_NumDelivered = Inr 1, off_Data = data\<rparr> demo_world
        = (case con_handler demo_consumer (demo_id CHR ''4'') (sint (1 :: 64 word)) demo_world of
             (Inl err, v') \<Rightarrow> (nak (demo_consumer\<lparr>con_json := demo_event_json\<rparr>) (sint (1 :: 64 word)), v')
           | (Inr u, v') \<Rightarrow> (Some Acked, v'))"
    by (auto simp: demo_event_def priority_token Priority_Valid_def priorityNames_def)
  moreover have "sint (1 :: 64 word) = 1" by simp
  ultimately show ?thesis by (metis (no_types))
qed

end
