(* ===== verification/Alert.thy ===== *)
theory Alert
  imports Console "HOL-Library.Sublist"
begin

text \<open>
  \<open>internal/adapter/alert\<close>: alerts wait in a bounded queue for one worker. \<open>Notify\<close> is called from
  anywhere, the worker runs beside it, \<open>Close\<close> tells it to end; the step relation interleaves them as
  Go does. The state keeps what a reader of the process could have written down: what was accepted, what
  was pushed, and what had been accepted when \<open>Close\<close> was called.
\<close>

record alert_item =
  it_subject :: string
  it_detail :: string

definition alert_message :: "string \<Rightarrow> alert_item \<Rightarrow> message" where
  "alert_message address it =
    \<lparr>msg_DeliveryID = '''', msg_Recipient = \<lparr>rcp_Channel = ChannelGotify, rcp_Address = address\<rparr>,
     msg_Title = it_subject it, msg_Body = it_detail it, msg_Metadata = []\<rparr>"

text \<open>Where the worker is: waiting in \<open>run\<close>, in \<open>push\<close> from there, in \<open>drain\<close>, in \<open>push\<close> from there, returned.\<close>

datatype alert_worker = Waiting | Pushing alert_item | Draining | DrainPushing alert_item | Returned

record alerter_state =
  as_address :: string
  as_cap :: nat
  as_queue :: "alert_item list"
  as_stopped :: bool
  as_worker :: alert_worker
  as_pushed :: "message list"
  as_accepted :: "alert_item list"
  as_before_close :: "alert_item list"

text \<open>\<open>New\<close>: without a pusher there is no queue and no worker.\<close>

definition NewAlerter :: "bool \<Rightarrow> string \<Rightarrow> nat \<Rightarrow> alerter_state option" where
  "NewAlerter has_pusher address cap =
    (if \<not> has_pusher then None
     else Some \<lparr>as_address = address, as_cap = cap, as_queue = [], as_stopped = False, as_worker = Waiting,
                as_pushed = [], as_accepted = [], as_before_close = []\<rparr>)"

text \<open>
  \<open>Notify\<close> never waits: a worker that is waiting for an alert takes it from the caller's hand, a queue
  with room takes it, and otherwise it is dropped.
\<close>

definition alert_Notify :: "alert_item \<Rightarrow> alerter_state \<Rightarrow> alerter_state" where
  "alert_Notify it s =
    (if as_worker s = Waiting \<and> as_queue s = [] \<and> as_cap s = 0
     then s\<lparr>as_worker := Pushing it, as_accepted := as_accepted s @ [it]\<rparr>
     else if length (as_queue s) < as_cap s
     then s\<lparr>as_queue := as_queue s @ [it], as_accepted := as_accepted s @ [it]\<rparr>
     else s)"

definition alert_Close :: "alerter_state \<Rightarrow> alerter_state" where
  "alert_Close s = (if as_stopped s then s else s\<lparr>as_stopped := True, as_before_close := as_accepted s\<rparr>)"

text \<open>One step of the worker. \<open>select\<close> takes either way when both the queue and the stop are ready.\<close>

inductive alert_worker_step :: "alerter_state \<Rightarrow> alerter_state \<Rightarrow> bool" where
  Receive: "as_worker s = Waiting \<Longrightarrow> as_queue s = it # rest \<Longrightarrow>
      alert_worker_step s (s\<lparr>as_queue := rest, as_worker := Pushing it\<rparr>)"
| Push: "as_worker s = Pushing it \<Longrightarrow>
      alert_worker_step s (s\<lparr>as_pushed := as_pushed s @ [alert_message (as_address s) it], as_worker := Waiting\<rparr>)"
| Stop: "as_worker s = Waiting \<Longrightarrow> as_stopped s \<Longrightarrow> alert_worker_step s (s\<lparr>as_worker := Draining\<rparr>)"
| Drain: "as_worker s = Draining \<Longrightarrow> as_queue s = it # rest \<Longrightarrow>
      alert_worker_step s (s\<lparr>as_queue := rest, as_worker := DrainPushing it\<rparr>)"
| DrainPush: "as_worker s = DrainPushing it \<Longrightarrow>
      alert_worker_step s (s\<lparr>as_pushed := as_pushed s @ [alert_message (as_address s) it], as_worker := Draining\<rparr>)"
| Return: "as_worker s = Draining \<Longrightarrow> as_queue s = [] \<Longrightarrow> alert_worker_step s (s\<lparr>as_worker := Returned\<rparr>)"

code_pred alert_worker_step .

inductive_cases alert_worker_stepE: "alert_worker_step s s'"

inductive alert_step :: "alerter_state \<Rightarrow> alerter_state \<Rightarrow> bool" where
  Notified: "alert_step s (alert_Notify it s)"
| Closed: "alert_step s (alert_Close s)"
| Worked: "alert_worker_step s s' \<Longrightarrow> alert_step s s'"

inductive alert_reachable :: "string \<Rightarrow> nat \<Rightarrow> alerter_state \<Rightarrow> bool" for address cap where
  Begin: "NewAlerter True address cap = Some s \<Longrightarrow> alert_reachable address cap s"
| Next: "alert_reachable address cap s \<Longrightarrow> alert_step s s' \<Longrightarrow> alert_reachable address cap s'"

subsection \<open>What the queue promises\<close>

fun in_hand :: "alert_worker \<Rightarrow> alert_item list" where
  "in_hand (Pushing it) = [it]"
| "in_hand (DrainPushing it) = [it]"
| "in_hand w = []"

definition alerter_ok :: "string \<Rightarrow> nat \<Rightarrow> alerter_state \<Rightarrow> bool" where
  "alerter_ok address cap s \<longleftrightarrow> as_address s = address \<and> as_cap s = cap \<and> length (as_queue s) \<le> cap
     \<and> as_pushed s @ map (alert_message address) (in_hand (as_worker s) @ as_queue s)
         = map (alert_message address) (as_accepted s)
     \<and> (as_stopped s \<longrightarrow> prefix (as_before_close s) (as_accepted s))
     \<and> (as_worker s \<in> {Draining, Returned} \<or> (\<exists>it. as_worker s = DrainPushing it) \<longrightarrow> as_stopped s)
     \<and> (as_worker s = Returned \<longrightarrow> prefix (map (alert_message address) (as_before_close s)) (as_pushed s))"

lemma alerter_ok_Notify: "alerter_ok address cap s \<Longrightarrow> alerter_ok address cap (alert_Notify it s)"
  by (auto simp: alerter_ok_def alert_Notify_def)

lemma alerter_ok_Close: "alerter_ok address cap s \<Longrightarrow> alerter_ok address cap (alert_Close s)"
  by (auto simp: alerter_ok_def alert_Close_def)

lemma alerter_ok_worker: "alert_worker_step s s' \<Longrightarrow> alerter_ok address cap s \<Longrightarrow> alerter_ok address cap s'"
proof (induction rule: alert_worker_step.induct)
  case (Return s)
  then have "as_pushed s = map (alert_message address) (as_accepted s)" "prefix (as_before_close s) (as_accepted s)"
    by (simp_all add: alerter_ok_def)
  then have "prefix (map (alert_message address) (as_before_close s)) (as_pushed s)"
    by (auto simp: prefix_def)
  with Return show ?case by (simp add: alerter_ok_def)
qed (auto simp: alerter_ok_def)

lemma alerter_ok_reachable: "alert_reachable address cap s \<Longrightarrow> alerter_ok address cap s"
proof (induction rule: alert_reachable.induct)
  case (Begin s)
  then show ?case by (auto simp: NewAlerter_def alerter_ok_def)
next
  case (Next s s')
  from Next.hyps(2) Next.IH show ?case
    by cases (simp_all add: alerter_ok_Notify alerter_ok_Close alerter_ok_worker)
qed

text \<open>
  Alerts are pushed in the order they were accepted, each exactly once. In every interleaving of
  callers, worker and \<open>Close\<close>, what was accepted is what was pushed, then what the worker holds, then
  what waits; no more wait than the queue has room for; and when the worker has returned, every alert
  accepted before \<open>Close\<close> was pushed.
\<close>

theorem alerts_in_order:
  assumes "alert_reachable address cap s"
  shows "as_pushed s @ map (alert_message address) (in_hand (as_worker s) @ as_queue s)
      = map (alert_message address) (as_accepted s)
    \<and> length (as_queue s) \<le> cap
    \<and> (as_worker s = Returned \<longrightarrow> prefix (map (alert_message address) (as_before_close s)) (as_pushed s))"
  using alerter_ok_reachable [OF assms] by (simp add: alerter_ok_def)

text \<open>A run: three alerts for a queue of one, the worker in between, and then the end.\<close>

definition demo_item :: "string \<Rightarrow> alert_item" where
  "demo_item s = \<lparr>it_subject = s, it_detail = ''''\<rparr>"

definition demo_alerter :: alerter_state where
  "demo_alerter = \<lparr>as_address = ''ops'', as_cap = 1, as_queue = [demo_item ''b''], as_stopped = False,
     as_worker = Pushing (demo_item ''a''), as_pushed = [], as_accepted = [demo_item ''a'', demo_item ''b''],
     as_before_close = []\<rparr>"

lemma demo_alerter_reachable: "alert_reachable ''ops'' 1 demo_alerter"
proof -
  define s0 where "s0 = \<lparr>as_address = ''ops'', as_cap = 1, as_queue = [], as_stopped = False, as_worker = Waiting,
                as_pushed = [], as_accepted = [], as_before_close = []\<rparr>"
  have "alert_reachable ''ops'' 1 s0" by (rule Begin) (simp add: NewAlerter_def s0_def)
  then have "alert_reachable ''ops'' 1 (alert_Notify (demo_item ''a'') s0)" by (rule Next) (rule Notified)
  then have "alert_reachable ''ops'' 1 ((alert_Notify (demo_item ''a'') s0)\<lparr>as_queue := [], as_worker := Pushing (demo_item ''a'')\<rparr>)"
    by (rule Next) (rule Worked, rule Receive, simp_all add: alert_Notify_def s0_def)
  from Next [OF this Notified [of _ "demo_item ''b''"]]
  have "alert_reachable ''ops'' 1 (alert_Notify (demo_item ''b'')
      ((alert_Notify (demo_item ''a'') s0)\<lparr>as_queue := [], as_worker := Pushing (demo_item ''a'')\<rparr>))" .
  then show ?thesis by (simp add: alert_Notify_def s0_def demo_alerter_def)
qed

theorem alerts_in_order_witness:
  "as_pushed demo_alerter @ map (alert_message ''ops'') (in_hand (as_worker demo_alerter) @ as_queue demo_alerter)
      = map (alert_message ''ops'') [demo_item ''a'', demo_item ''b'']"
  using alerts_in_order [OF demo_alerter_reachable] by (simp add: demo_alerter_def)

subsection \<open>Close returns\<close>

fun left_to_do :: "alert_worker \<Rightarrow> nat" where
  "left_to_do Waiting = 2"
| "left_to_do (Pushing it) = 3"
| "left_to_do Draining = 1"
| "left_to_do (DrainPushing it) = 2"
| "left_to_do Returned = 0"

definition alert_work :: "alerter_state \<Rightarrow> nat" where
  "alert_work s = 2 * length (as_queue s) + left_to_do (as_worker s)"

lemma worker_step_works: "alert_worker_step s s' \<Longrightarrow> alert_work s' < alert_work s"
  by (induction rule: alert_worker_step.induct) (simp_all add: alert_work_def)

lemma worker_not_stuck: "as_stopped s \<Longrightarrow> as_worker s \<noteq> Returned \<Longrightarrow> \<exists>s'. alert_worker_step s s'"
  by (cases "as_worker s"; cases "as_queue s") (blast intro: alert_worker_step.intros)+

lemma worker_step_stopped: "alert_worker_step s s' \<Longrightarrow> as_stopped s' = as_stopped s \<and> as_accepted s' = as_accepted s"
  by (induction rule: alert_worker_step.induct) simp_all

inductive alert_worker_steps :: "nat \<Rightarrow> alerter_state \<Rightarrow> alerter_state \<Rightarrow> bool" where
  Idle: "alert_worker_steps 0 s s"
| Busy: "alert_worker_step s s' \<Longrightarrow> alert_worker_steps n s' s'' \<Longrightarrow> alert_worker_steps (Suc n) s s''"

lemma worker_steps_bound: "alert_worker_steps n s s' \<Longrightarrow> n + alert_work s' \<le> alert_work s"
  by (induction rule: alert_worker_steps.induct) (auto dest: worker_step_works)

lemma worker_steps_kept:
  "alert_worker_steps n s s' \<Longrightarrow> as_stopped s' = as_stopped s \<and> as_accepted s' = as_accepted s
     \<and> (alerter_ok address cap s \<longrightarrow> alerter_ok address cap s')"
  by (induction rule: alert_worker_steps.induct) (auto dest: worker_step_stopped alerter_ok_worker)

lemma worker_returns: "as_stopped s \<Longrightarrow> \<exists>n s'. alert_worker_steps n s s' \<and> as_worker s' = Returned"
proof (induction "alert_work s" arbitrary: s rule: less_induct)
  case less
  show ?case
  proof (cases "as_worker s = Returned")
    case True
    then show ?thesis by (blast intro: Idle)
  next
    case False
    then obtain s' where s': "alert_worker_step s s'" using worker_not_stuck [OF less.prems] by blast
    with less.hyps [OF worker_step_works [OF s']] worker_step_stopped [OF s'] less.prems show ?thesis
      by (blast intro: Busy)
  qed
qed

lemma worker_step_returned:
  "alert_worker_step s s' \<Longrightarrow> as_worker s \<noteq> Returned \<and> (as_worker s' = Returned \<longrightarrow> as_queue s' = [])"
  by (induction rule: alert_worker_step.induct) simp_all

lemma worker_steps_empty:
  "alert_worker_steps n s s' \<Longrightarrow> as_worker s' = Returned \<Longrightarrow> as_worker s \<noteq> Returned \<Longrightarrow> as_queue s' = []"
proof (induction rule: alert_worker_steps.induct)
  case (Busy s s' n s'')
  from Busy.hyps(2) show ?case
    by cases (use Busy worker_step_returned in auto)
qed simp

text \<open>
  \<open>Close\<close> returns. Once the stop is given, and callers have gone quiet, the worker is never stuck
  before it has returned, takes at most two steps for each alert that waits and three for itself
  whatever it chooses, and when it has returned everything that was accepted was pushed, in order.
\<close>

theorem close_drains:
  assumes "alert_reachable address cap s" "as_stopped s"
  shows "(\<exists>n s'. alert_worker_steps n s s' \<and> as_worker s' = Returned)
    \<and> (\<forall>n s'. alert_worker_steps n s s' \<longrightarrow> n \<le> 2 * length (as_queue s) + 3
        \<and> (as_worker s' = Returned \<or> (\<exists>s''. alert_worker_step s' s'')))
    \<and> (\<forall>n s'. alert_worker_steps n s s' \<longrightarrow> as_worker s' = Returned \<longrightarrow> as_worker s \<noteq> Returned \<longrightarrow>
        as_pushed s' = map (alert_message address) (as_accepted s))"
proof (intro conjI allI impI)
  show "\<exists>n s'. alert_worker_steps n s s' \<and> as_worker s' = Returned" by (rule worker_returns [OF assms(2)])
next
  fix n s'
  assume "alert_worker_steps n s s'"
  from worker_steps_bound [OF this] show "n \<le> 2 * length (as_queue s) + 3"
    by (cases "as_worker s") (simp_all add: alert_work_def)
next
  fix n s'
  assume "alert_worker_steps n s s'"
  with worker_steps_kept assms(2) worker_not_stuck show "as_worker s' = Returned \<or> (\<exists>s''. alert_worker_step s' s'')"
    by blast
next
  fix n s'
  assume run: "alert_worker_steps n s s'" and last: "as_worker s' = Returned" "as_worker s \<noteq> Returned"
  have "alerter_ok address cap s'"
    using worker_steps_kept [OF run, of address cap] alerter_ok_reachable [OF assms(1)] by blast
  with last worker_steps_kept [OF run] worker_steps_empty [OF run last] show "as_pushed s' = map (alert_message address) (as_accepted s)"
    by (simp add: alerter_ok_def)
qed

theorem close_drains_witness:
  "\<exists>n s'. n \<le> 5 \<and> alert_worker_steps n (alert_Close demo_alerter) s'
    \<and> as_pushed s' = [alert_message ''ops'' (demo_item ''a''), alert_message ''ops'' (demo_item ''b'')]"
proof -
  have here: "alert_reachable ''ops'' 1 (alert_Close demo_alerter)"
    by (rule Next [OF demo_alerter_reachable Closed])
  have at: "as_stopped (alert_Close demo_alerter)" "as_worker (alert_Close demo_alerter) \<noteq> Returned"
    "length (as_queue (alert_Close demo_alerter)) = 1"
    "as_accepted (alert_Close demo_alerter) = [demo_item ''a'', demo_item ''b'']"
    by (simp_all add: alert_Close_def demo_alerter_def)
  from close_drains [OF here at(1)] at show ?thesis by fastforce
qed

end
