(* ===== verification/Providers.thy ===== *)
theory Providers
  imports Dispatch Encoding "HOL-Library.Sublist"
begin

text \<open>
  \<open>internal/adapter/sender/*\<close>: one provider per channel, each the only place that knows how its API is
  called and what its refusals mean for a retry. The HTTP client, package json, the escaping of
  \<open>net/url\<close> and the sources of access tokens are parameters; a JSON object is written with its fields in
  the order of the code, one that is left out when empty is left out. A body whose reading fails is a
  body its decoder refuses.
\<close>

subsection \<open>What the senders share\<close>

record http_request =
  rq_Method :: string
  rq_URL :: string
  rq_Header :: "(string \<times> string) list"
  rq_Body :: string

record http_response =
  rs_StatusCode :: int
  rs_Header :: "(string \<times> string) list"
  rs_Body :: string

text \<open>A failure of the client: \<open>*url.Error\<close>, which quotes the address, around its cause, or another.\<close>

datatype call_failure = UrlError string goerr | PlainFailure goerr

fun without_url :: "call_failure \<Rightarrow> goerr" where
  "without_url (UrlError quoted err) = err"
| "without_url (PlainFailure err) = err"

record 'w transport =
  tr_NewRequest :: "http_request \<Rightarrow> call_failure option"
  tr_Do :: "http_request \<Rightarrow> 'w \<Rightarrow> (call_failure + http_response) \<times> 'w"

datatype json =
    JsonString string
  | JsonBool bool
  | JsonNumber int
  | JsonArray "json list"
  | JsonObject "(string \<times> json) list"

definition RuneCount :: "string \<Rightarrow> nat" where
  "RuneCount s = length (runes s)"

text \<open>\<open>strings.IndexFunc\<close> finds no rune outside the alphabet.\<close>

definition only_of :: "string \<Rightarrow> string \<Rightarrow> bool" where
  "only_of alphabet s \<longleftrightarrow> list_all (\<lambda>(r, _). r \<in> byte ` set alphabet) (runes s)"

text \<open>\<open>strings.ReplaceAll\<close> for a non-empty text to replace: \<open>k\<close> bytes of a match are still to be skipped.\<close>

fun replace_all :: "string \<Rightarrow> string \<Rightarrow> string \<Rightarrow> nat \<Rightarrow> string" where
  "replace_all old by [] k = []"
| "replace_all old by (c # cs) (Suc k) = replace_all old by cs k"
| "replace_all old by (c # cs) 0 =
     (if HasPrefix (c # cs) old then by @ replace_all old by cs (length old - 1)
      else c # replace_all old by cs 0)"

definition redact :: "string \<Rightarrow> string \<Rightarrow> string" where
  "redact s token = (if token = '''' then s else replace_all token ''[REDACTED]'' s 0)"

text \<open>What a sender decides on its own, before asking.\<close>

definition refused_send :: "string \<Rightarrow> goerr" where
  "refused_send detail = Send SendPermanent 0 detail None"

definition compose :: "string \<Rightarrow> string \<Rightarrow> string" where
  "compose title body =
    (let title = TrimSpace title in
     if title = '''' then body else title @ [CHR 0x0A, CHR 0x0A] @ body)"

subsection \<open>Telegram and Bale\<close>

text \<open>
  Two packages of one shape: the name in their texts, their address and their error differ, and
  \<open>bot_api\<close> holds those.
\<close>

record bot_api =
  ba_name :: string
  ba_base :: string
  ba_channel :: channel

definition telegram_api :: bot_api where
  "telegram_api = \<lparr>ba_name = ''telegram'', ba_base = ''https://api.telegram.org'', ba_channel = ChannelTelegram\<rparr>"

definition bale_api :: bot_api where
  "bale_api = \<lparr>ba_name = ''bale'', ba_base = ''https://tapi.bale.ai'', ba_channel = ChannelBale\<rparr>"

definition sendMethod :: string where
  "sendMethod = ''sendMessage''"

definition maxTextLen :: nat where
  "maxTextLen = 4096"

definition tokenAlphabet :: string where
  "tokenAlphabet = ''abcdefghijklmnopqrstuvwxyzABCDEFGHIJKLMNOPQRSTUVWXYZ0123456789_-:.''"

definition defaultRetryAfter :: duration where
  "defaultRetryAfter = 30 * second"

text \<open>The answer: ok, the description, the message's id when there is a result, the wait when parameters are there.\<close>

record bot_answer =
  ban_OK :: bool
  ban_Description :: string
  ban_MessageID :: "int option"
  ban_RetryAfter :: "int option"

record bot_lib =
  bl_lib :: golib
  bl_Marshal :: "json \<Rightarrow> string result"
  bl_config :: "string \<Rightarrow> string result"
  bl_answer :: "string \<Rightarrow> bot_answer result"

record 'w bot_sender =
  bs_client :: "'w transport"
  bs_token :: string
  bs_ParseMode :: string
  bs_baseURL :: string

definition usableToken :: "string \<Rightarrow> bool" where
  "usableToken token \<longleftrightarrow> only_of tokenAlphabet token"

definition bot_New :: "bot_lib \<Rightarrow> bot_api \<Rightarrow> 'w transport option \<Rightarrow> string \<Rightarrow> string \<Rightarrow> 'w bot_sender result" where
  "bot_New B A client_opt token rawConfig =
    (case client_opt of
       None \<Rightarrow> Inl (InternalErr (ba_name A @ '' sender has no http client''))
     | Some client \<Rightarrow>
         if token = '''' then Inl (InvalidInputErr (''no '' @ ba_name A @ '' token for this identity''))
         else if \<not> usableToken token then Inl (InvalidInputErr (ba_name A @ '' token has the wrong format''))
         else if rawConfig = '''' then
           Inr \<lparr>bs_client = client, bs_token = token, bs_ParseMode = '''', bs_baseURL = ba_base A\<rparr>
         else (case bl_config B rawConfig of
             Inl err \<Rightarrow> Inl (WithErr (InvalidInputErr (ba_name A @ '' settings are not valid json'')) err)
           | Inr mode \<Rightarrow> Inr \<lparr>bs_client = client, bs_token = token, bs_ParseMode = mode, bs_baseURL = ba_base A\<rparr>))"

definition bot_endpoint :: "'w bot_sender \<Rightarrow> string" where
  "bot_endpoint S = bs_baseURL S @ ''/bot'' @ bs_token S @ ''/'' @ sendMethod"

definition bot_retryAfter :: "bot_answer \<Rightarrow> duration" where
  "bot_retryAfter a = (case ban_RetryAfter a of
      Some n \<Rightarrow> if 0 < n then to_int64 (n * second) else defaultRetryAfter
    | None \<Rightarrow> defaultRetryAfter)"

definition bot_classify :: "bot_lib \<Rightarrow> bot_api \<Rightarrow> int \<Rightarrow> bot_answer \<Rightarrow> goerr" where
  "bot_classify B A status a =
    (let detail = (if ban_Description a = '''' then Sprintf (bl_lib B) (ba_name A @ '' answered %d'') [FmtD status]
                   else ban_Description a) in
     if status = 429 then Send SendTransient (bot_retryAfter a) detail None
     else if 500 \<le> status then Send SendTransient 0 detail None
     else if status = 403 then Send SendUnreachable 0 detail None
     else if 400 \<le> status then Send SendPermanent 0 detail None
     else Send SendTransient 0 detail None)"

definition bot_unreachable :: "bot_lib \<Rightarrow> bot_api \<Rightarrow> string \<Rightarrow> string \<Rightarrow> goerr \<Rightarrow> goerr" where
  "bot_unreachable B A what token err =
    Send SendTransient 0
      (redact (Sprintf (bl_lib B) (ba_name A @ '' %s: %v'') [FmtS what, FmtS (Error (bl_lib B) err)]) token) (Some err)"

definition bot_payload :: "'w bot_sender \<Rightarrow> message \<Rightarrow> string \<Rightarrow> json" where
  "bot_payload S m text = JsonObject ([(''chat_id'', JsonString (rcp_Address (msg_Recipient m))), (''text'', JsonString text)]
     @ (if bs_ParseMode S = '''' then [] else [(''parse_mode'', JsonString (bs_ParseMode S))]))"

definition bot_Send :: "bot_lib \<Rightarrow> bot_api \<Rightarrow> 'w bot_sender \<Rightarrow> message \<Rightarrow> ('w, string) io" where
  "bot_Send B A S m w =
    (let text = compose (msg_Title m) (msg_Body m) in
     if maxTextLen < RuneCount text then
       (Inl (refused_send (Sprintf (bl_lib B) (''message is longer than '' @ ba_name A @ '' accepts (max %d)'')
          [FmtD (int maxTextLen)])), w)
     else case bl_Marshal B (bot_payload S m text) of
       Inl err \<Rightarrow> (Inl (refused_send (''message could not be encoded for '' @ ba_name A)), w)
     | Inr payload \<Rightarrow>
         let req = \<lparr>rq_Method = ''POST'', rq_URL = bot_endpoint S,
                    rq_Header = [(''Content-Type'', ''application/json'')], rq_Body = payload\<rparr> in
         case tr_NewRequest (bs_client S) req of
           Some f \<Rightarrow> (Inl (bot_unreachable B A ''request'' (bs_token S) (without_url f)), w)
         | None \<Rightarrow>
             (case tr_Do (bs_client S) req w of
                (Inl f, w') \<Rightarrow> (Inl (bot_unreachable B A ''call'' (bs_token S) (without_url f)), w')
              | (Inr resp, w') \<Rightarrow>
                  ((case bl_answer B (rs_Body resp) of
                      Inl err \<Rightarrow> Inl (bot_unreachable B A ''answer'' (bs_token S) err)
                    | Inr a \<Rightarrow>
                        if \<not> ban_OK a \<or> rs_StatusCode resp \<noteq> 200 then Inl (bot_classify B A (rs_StatusCode resp) a)
                        else (case ban_MessageID a of
                            None \<Rightarrow> Inl (bot_unreachable B A ''answer'' (bs_token S)
                              (Text (ba_name A @ '' said ok with no result'') []))
                          | Some n \<Rightarrow> Inr (FormatInt n))), w')))"

definition telegram_New :: "bot_lib \<Rightarrow> 'w transport option \<Rightarrow> string \<Rightarrow> string \<Rightarrow> 'w bot_sender result" where
  "telegram_New B = bot_New B telegram_api"

definition telegram_Send :: "bot_lib \<Rightarrow> 'w bot_sender \<Rightarrow> message \<Rightarrow> ('w, string) io" where
  "telegram_Send B = bot_Send B telegram_api"

definition telegram_classify :: "bot_lib \<Rightarrow> int \<Rightarrow> bot_answer \<Rightarrow> goerr" where
  "telegram_classify B = bot_classify B telegram_api"

definition bale_classify :: "bot_lib \<Rightarrow> int \<Rightarrow> bot_answer \<Rightarrow> goerr" where
  "bale_classify B = bot_classify B bale_api"

definition bale_unreachable :: "bot_lib \<Rightarrow> string \<Rightarrow> string \<Rightarrow> goerr \<Rightarrow> goerr" where
  "bale_unreachable B = bot_unreachable B bale_api"

definition bale_New :: "bot_lib \<Rightarrow> 'w transport option \<Rightarrow> string \<Rightarrow> string \<Rightarrow> 'w bot_sender result" where
  "bale_New B = bot_New B bale_api"

definition bale_Send :: "bot_lib \<Rightarrow> 'w bot_sender \<Rightarrow> message \<Rightarrow> ('w, string) io" where
  "bale_Send B = bot_Send B bale_api"


subsection \<open>WhatsApp\<close>

record whatsapp_answer =
  wan_MessageIDs :: "string list"
  wan_Error :: "(int \<times> string) option"

record whatsapp_lib =
  wl_lib :: golib
  wl_Marshal :: "json \<Rightarrow> string result"
  wl_config :: "string \<Rightarrow> string result"
  wl_strings :: "string \<Rightarrow> string list result"
  wl_answer :: "string \<Rightarrow> whatsapp_answer result"

record 'w whatsapp_sender =
  wsd_client :: "'w transport"
  wsd_token :: string
  wsd_PhoneNumberID :: string
  wsd_baseURL :: string

definition whatsapp_base :: string where
  "whatsapp_base = ''https://graph.facebook.com''"

definition apiVersion :: string where
  "apiVersion = ''v21.0''"

definition whatsapp_sendPath :: string where
  "whatsapp_sendPath = ''messages''"

definition defaultLanguage :: string where
  "defaultLanguage = ''en_US''"

definition idAlphabet :: string where
  "idAlphabet = ''0123456789''"

definition usableID :: "string \<Rightarrow> bool" where
  "usableID i \<longleftrightarrow> only_of idAlphabet i"

text \<open>The configuration is the number's id; \<open>validate\<close> trims it in place.\<close>

definition whatsapp_validate :: "string \<Rightarrow> string result" where
  "whatsapp_validate phone =
    (let phone = TrimSpace phone in
     if phone = '''' then Inl (InvalidInputErr ''whatsapp settings have no phone number id'')
     else if \<not> usableID phone then Inl (InvalidInputErr ''whatsapp phone number id has the wrong format'')
     else Inr phone)"

definition whatsapp_ParseConfig :: "whatsapp_lib \<Rightarrow> string \<Rightarrow> string result" where
  "whatsapp_ParseConfig B raw =
    (if raw = '''' then whatsapp_validate ''''
     else case wl_config B raw of
         Inl err \<Rightarrow> Inl (WithErr (InvalidInputErr ''whatsapp settings are not valid json'') err)
       | Inr phone \<Rightarrow> whatsapp_validate phone)"

definition whatsapp_New :: "'w transport option \<Rightarrow> string \<Rightarrow> string \<Rightarrow> 'w whatsapp_sender result" where
  "whatsapp_New client_opt token phone =
    (case client_opt of
       None \<Rightarrow> Inl (InternalErr ''whatsapp sender has no http client'')
     | Some client \<Rightarrow>
         if token = '''' then Inl (InvalidInputErr ''no whatsapp token for this identity'')
         else then_result (whatsapp_validate phone) (\<lambda>phone.
           Inr \<lparr>wsd_client = client, wsd_token = token, wsd_PhoneNumberID = phone, wsd_baseURL = whatsapp_base\<rparr>))"

definition codeReengagement :: int where "codeReengagement = 131047"
definition codeUndeliverable :: int where "codeUndeliverable = 131026"
definition codeRateLimit :: int where "codeRateLimit = 130429"
definition codePairRateLimit :: int where "codePairRateLimit = 131056"

definition whatsapp_classify :: "whatsapp_lib \<Rightarrow> int \<Rightarrow> whatsapp_answer \<Rightarrow> string \<Rightarrow> goerr" where
  "whatsapp_classify B status a token =
    (let code = (case wan_Error a of Some (c, _) \<Rightarrow> c | None \<Rightarrow> 0);
         detail = (case wan_Error a of
             Some (_, msg) \<Rightarrow> if msg \<noteq> '''' then redact msg token else Sprintf (wl_lib B) ''whatsapp answered %d'' [FmtD status]
           | None \<Rightarrow> Sprintf (wl_lib B) ''whatsapp answered %d'' [FmtD status]) in
     if code = codeReengagement \<or> code = codeUndeliverable then Send SendUnreachable 0 detail None
     else if code = codeRateLimit \<or> code = codePairRateLimit \<or> status = 429 then
       Send SendTransient defaultRetryAfter detail None
     else if 500 \<le> status then Send SendTransient 0 detail None
     else if 400 \<le> status then Send SendPermanent 0 detail None
     else Send SendTransient 0 detail None)"

definition whatsapp_unreachable :: "golib \<Rightarrow> string \<Rightarrow> goerr \<Rightarrow> goerr" where
  "whatsapp_unreachable L what err =
    Send SendTransient 0 (Sprintf L ''whatsapp %s: %v'' [FmtS what, FmtS (Error L err)]) (Some err)"

text \<open>A template: its name, its language and its parameters.\<close>

definition md :: "message \<Rightarrow> string \<Rightarrow> string" where
  "md m key = (case map_of (msg_Metadata m) key of Some v \<Rightarrow> v | None \<Rightarrow> '''')"

definition templateFrom :: "whatsapp_lib \<Rightarrow> message \<Rightarrow> (string \<times> string \<times> string list) option result" where
  "templateFrom B m =
    (let name = TrimSpace (md m ''template'') in
     if name = '''' then Inr None
     else
       let language = (if md m ''template_language'' = '''' then defaultLanguage else md m ''template_language'');
           raw = md m ''template_params'' in
       if raw = '''' then Inr (Some (name, language, []))
       else case wl_strings B raw of
           Inl err \<Rightarrow> Inl (refused_send (Sprintf (wl_lib B) ''%s must be a json array of strings'' [FmtS ''template_params'']))
         | Inr params \<Rightarrow> Inr (Some (name, language, params)))"

definition whatsapp_recipient :: "string \<Rightarrow> string result" where
  "whatsapp_recipient address =
    (case strip_prefix ''+'' (TrimSpace address) of
       None \<Rightarrow> Inl (refused_send ''the recipient address is not a phone number'')
     | Some to_number \<Rightarrow>
         if to_number = '''' then Inl (refused_send ''the recipient address is not a phone number'') else Inr to_number)"

definition components :: "string list \<Rightarrow> json list option" where
  "components params =
    (if params = [] then None
     else Some [JsonObject [(''type'', JsonString ''body''),
       (''parameters'', JsonArray (map (\<lambda>p. JsonObject [(''type'', JsonString ''text''), (''text'', JsonString p)]) params))]])"

definition whatsapp_compose :: "whatsapp_lib \<Rightarrow> message \<Rightarrow> json result" where
  "whatsapp_compose B m =
    then_result (whatsapp_recipient (rcp_Address (msg_Recipient m))) (\<lambda>to_number.
    then_result (templateFrom B m) (\<lambda>t.
    let head = [(''messaging_product'', JsonString ''whatsapp''), (''to'', JsonString to_number)] in
    case t of
      Some (name, language, params) \<Rightarrow>
        Inr (JsonObject (head @ [(''type'', JsonString ''template''),
          (''template'', JsonObject ([(''name'', JsonString name), (''language'', JsonObject [(''code'', JsonString language)])]
             @ (case components params of None \<Rightarrow> [] | Some cs \<Rightarrow> [(''components'', JsonArray cs)])))]))
    | None \<Rightarrow>
        let text = compose (msg_Title m) (msg_Body m) in
        if maxTextLen < RuneCount text then
          Inl (refused_send (Sprintf (wl_lib B) ''message is longer than whatsapp accepts (max %d)'' [FmtD (int maxTextLen)]))
        else Inr (JsonObject (head @ [(''type'', JsonString ''text''),
          (''text'', JsonObject [(''preview_url'', JsonBool False), (''body'', JsonString text)])]))))"

definition whatsapp_endpoint :: "'w whatsapp_sender \<Rightarrow> string" where
  "whatsapp_endpoint S = wsd_baseURL S @ ''/'' @ apiVersion @ ''/'' @ wsd_PhoneNumberID S @ ''/'' @ whatsapp_sendPath"

definition whatsapp_Send :: "whatsapp_lib \<Rightarrow> 'w whatsapp_sender \<Rightarrow> message \<Rightarrow> ('w, string) io" where
  "whatsapp_Send B S m w =
    (case whatsapp_compose B m of
       Inl err \<Rightarrow> (Inl err, w)
     | Inr body \<Rightarrow>
    (case wl_Marshal B body of
       Inl err \<Rightarrow> (Inl (refused_send ''message could not be encoded for whatsapp''), w)
     | Inr payload \<Rightarrow>
         let req = \<lparr>rq_Method = ''POST'', rq_URL = whatsapp_endpoint S,
                    rq_Header = [(''Content-Type'', ''application/json''), (''Authorization'', ''Bearer '' @ wsd_token S)],
                    rq_Body = payload\<rparr> in
         case tr_NewRequest (wsd_client S) req of
           Some f \<Rightarrow> (Inl (whatsapp_unreachable (wl_lib B) ''request'' (without_url f)), w)
         | None \<Rightarrow>
             (case tr_Do (wsd_client S) req w of
                (Inl f, w') \<Rightarrow> (Inl (whatsapp_unreachable (wl_lib B) ''call'' (without_url f)), w')
              | (Inr resp, w') \<Rightarrow>
                  ((case wl_answer B (rs_Body resp) of
                      Inl err \<Rightarrow> Inl (whatsapp_unreachable (wl_lib B) ''answer'' err)
                    | Inr a \<Rightarrow>
                        if rs_StatusCode resp < 200 \<or> 300 \<le> rs_StatusCode resp \<or> wan_Error a \<noteq> None then
                          Inl (whatsapp_classify B (rs_StatusCode resp) a (wsd_token S))
                        else (case wan_MessageIDs a of
                            i # _ \<Rightarrow> if i = '''' then Inl (whatsapp_unreachable (wl_lib B) ''answer''
                                (Text ''whatsapp accepted the message without naming it'' []))
                              else Inr i
                          | [] \<Rightarrow> Inl (whatsapp_unreachable (wl_lib B) ''answer''
                              (Text ''whatsapp accepted the message without naming it'' [])))), w'))))"

subsection \<open>Matrix\<close>

text \<open>What \<open>validate\<close> looks at beyond \<open>url\<close>: the path, the query and the fragment of an address.\<close>

record address_lib =
  al_lib :: golib
  al_tail :: "string \<Rightarrow> string \<times> string \<times> string"
  al_PathEscape :: "string \<Rightarrow> string"
  al_WithQuery :: "string \<Rightarrow> (string \<times> string) list \<Rightarrow> string option"

definition TrimRight_slash :: "string \<Rightarrow> string" where
  "TrimRight_slash s = rev (dropWhile (\<lambda>c. c = CHR ''/'') (rev s))"

record matrix_answer =
  man_EventID :: string
  man_ErrCode :: string
  man_Error :: string
  man_RetryAfterMs :: int

record matrix_lib =
  ml_address :: address_lib
  ml_Marshal :: "json \<Rightarrow> string result"
  ml_config :: "string \<Rightarrow> string result"
  ml_answer :: "string \<Rightarrow> matrix_answer result"

record 'w matrix_sender =
  msd_client :: "'w transport"
  msd_token :: string
  msd_Homeserver :: string

definition matrix_maxTextLen :: nat where
  "matrix_maxTextLen = 32768"

definition matrix_defaultRetryAfter :: duration where
  "matrix_defaultRetryAfter = 5 * second"

definition matrix_validate :: "address_lib \<Rightarrow> string \<Rightarrow> string result" where
  "matrix_validate A homeserver =
    (let h = TrimRight_slash (TrimSpace homeserver) in
     if h = '''' then Inl (InvalidInputErr ''matrix settings have no homeserver'')
     else case url_Parse (al_lib A) h of
         None \<Rightarrow> Inl (InvalidInputErr ''matrix homeserver is not a url'')
       | Some u \<Rightarrow>
           if Scheme u \<noteq> ''https'' then Inl (InvalidInputErr ''matrix homeserver must use https'')
           else if Host u = '''' then Inl (InvalidInputErr ''matrix homeserver has no host'')
           else if has_User u then Inl (InvalidInputErr ''matrix homeserver must not carry credentials'')
           else if al_tail A h \<noteq> ('''', '''', '''') then
             Inl (WithStr (InvalidInputErr ''matrix homeserver must be a bare address'') (Text ''got %q'' [FmtS h]))
           else Inr h)"

definition matrix_ParseConfig :: "matrix_lib \<Rightarrow> string \<Rightarrow> string result" where
  "matrix_ParseConfig B raw =
    (if raw = '''' then matrix_validate (ml_address B) ''''
     else case ml_config B raw of
         Inl err \<Rightarrow> Inl (WithErr (InvalidInputErr ''matrix settings are not valid json'') err)
       | Inr h \<Rightarrow> matrix_validate (ml_address B) h)"

definition matrix_New :: "matrix_lib \<Rightarrow> 'w transport option \<Rightarrow> string \<Rightarrow> string \<Rightarrow> 'w matrix_sender result" where
  "matrix_New B client_opt token homeserver =
    (case client_opt of
       None \<Rightarrow> Inl (InternalErr ''matrix sender has no http client'')
     | Some client \<Rightarrow>
         if token = '''' then Inl (InvalidInputErr ''no matrix access token for this identity'')
         else then_result (matrix_validate (ml_address B) homeserver) (\<lambda>h.
           Inr \<lparr>msd_client = client, msd_token = token, msd_Homeserver = h\<rparr>))"

definition matrix_retryAfter :: "matrix_answer \<Rightarrow> duration" where
  "matrix_retryAfter a =
    (if 0 < man_RetryAfterMs a then to_int64 (man_RetryAfterMs a * 1000000) else matrix_defaultRetryAfter)"

definition matrix_classify :: "matrix_lib \<Rightarrow> int \<Rightarrow> matrix_answer \<Rightarrow> goerr" where
  "matrix_classify B status a =
    (let detail = (if man_Error a = '''' then Sprintf (al_lib (ml_address B)) ''matrix answered %d'' [FmtD status] else man_Error a);
         detail = (if man_ErrCode a \<noteq> '''' then man_ErrCode a @ '': '' @ detail else detail) in
     if man_ErrCode a = ''M_FORBIDDEN'' \<or> man_ErrCode a = ''M_NOT_FOUND'' then Send SendUnreachable 0 detail None
     else if man_ErrCode a = ''M_UNKNOWN_TOKEN'' \<or> man_ErrCode a = ''M_MISSING_TOKEN'' then Send SendPermanent 0 detail None
     else if man_ErrCode a = ''M_LIMIT_EXCEEDED'' \<or> status = 429 then Send SendTransient (matrix_retryAfter a) detail None
     else if 500 \<le> status then Send SendTransient 0 detail None
     else if 400 \<le> status then Send SendPermanent 0 detail None
     else Send SendTransient 0 detail None)"

definition matrix_unreachable :: "golib \<Rightarrow> string \<Rightarrow> goerr \<Rightarrow> goerr" where
  "matrix_unreachable L what err =
    Send SendTransient 0 (Sprintf L ''matrix %s: %v'' [FmtS what, FmtS (Error L err)]) (Some err)"

definition matrix_endpoint :: "matrix_lib \<Rightarrow> 'w matrix_sender \<Rightarrow> string \<Rightarrow> string \<Rightarrow> string result" where
  "matrix_endpoint B S room txn =
    (if TrimSpace room = '''' then Inl (refused_send ''the message has no room to go to'')
     else Inr (msd_Homeserver S @ ''/_matrix/client/v3/rooms/'' @ al_PathEscape (ml_address B) room
       @ ''/send/m.room.message/'' @ al_PathEscape (ml_address B) txn))"

definition matrix_Send :: "matrix_lib \<Rightarrow> 'w matrix_sender \<Rightarrow> message \<Rightarrow> ('w, string) io" where
  "matrix_Send B S m w =
    (let L = al_lib (ml_address B); text = compose (msg_Title m) (msg_Body m) in
     if msg_DeliveryID m = '''' then (Inl (refused_send ''the message has no id to send it under''), w)
     else if matrix_maxTextLen < RuneCount text then
       (Inl (refused_send (Sprintf L ''message is longer than matrix accepts (max %d)'' [FmtD (int matrix_maxTextLen)])), w)
     else case ml_Marshal B (JsonObject [(''msgtype'', JsonString ''m.text''), (''body'', JsonString text)]) of
       Inl err \<Rightarrow> (Inl (refused_send ''message could not be encoded for matrix''), w)
     | Inr payload \<Rightarrow>
    (case matrix_endpoint B S (rcp_Address (msg_Recipient m)) (msg_DeliveryID m) of
       Inl err \<Rightarrow> (Inl err, w)
     | Inr target \<Rightarrow>
         let req = \<lparr>rq_Method = ''PUT'', rq_URL = target,
                    rq_Header = [(''Content-Type'', ''application/json''), (''Authorization'', ''Bearer '' @ msd_token S)],
                    rq_Body = payload\<rparr> in
         case tr_NewRequest (msd_client S) req of
           Some f \<Rightarrow> (Inl (matrix_unreachable L ''request'' (without_url f)), w)
         | None \<Rightarrow>
             (case tr_Do (msd_client S) req w of
                (Inl f, w') \<Rightarrow> (Inl (matrix_unreachable L ''call'' (without_url f)), w')
              | (Inr resp, w') \<Rightarrow>
                  ((case ml_answer B (rs_Body resp) of
                      Inl err \<Rightarrow> Inl (matrix_unreachable L ''answer'' err)
                    | Inr a \<Rightarrow>
                        if rs_StatusCode resp < 200 \<or> 300 \<le> rs_StatusCode resp \<or> man_ErrCode a \<noteq> '''' then
                          Inl (matrix_classify B (rs_StatusCode resp) a)
                        else if man_EventID a = '''' then Inl (matrix_unreachable L ''answer''
                          (Text ''matrix accepted the message without naming the event'' []))
                        else Inr (man_EventID a)), w'))))"


subsection \<open>Gotify\<close>

record gotify_config =
  gfc_ServerURL :: string
  gfc_ContentType :: string

record gotify_error =
  gfe_Error :: string
  gfe_Description :: string

record gotify_lib =
  gl_address :: address_lib
  gl_Marshal :: "json \<Rightarrow> string result"
  gl_config :: "string \<Rightarrow> gotify_config result"
  gl_error :: "string \<Rightarrow> gotify_error"
  gl_answer :: "string \<Rightarrow> int result"

record 'w gotify_sender =
  gsd_client :: "'w transport"
  gsd_token :: string
  gsd_cfg :: gotify_config

definition TypePlain :: string where "TypePlain = ''text/plain''"
definition TypeMarkdown :: string where "TypeMarkdown = ''text/markdown''"

definition gotify_validate :: "address_lib \<Rightarrow> gotify_config \<Rightarrow> gotify_config result" where
  "gotify_validate A c =
    (let h = TrimRight_slash (TrimSpace (gfc_ServerURL c)) in
     if h = '''' then Inl (InvalidInputErr ''gotify settings have no server url'')
     else if gfc_ContentType c \<noteq> '''' \<and> gfc_ContentType c \<noteq> TypePlain \<and> gfc_ContentType c \<noteq> TypeMarkdown then
       Inl (WithStr (InvalidInputErr ''gotify settings name an unknown content type'')
         (Text ''content_type %q, want %q or %q'' [FmtS (gfc_ContentType c), FmtS TypePlain, FmtS TypeMarkdown]))
     else
       let ct = (if gfc_ContentType c = '''' then TypePlain else gfc_ContentType c) in
       case url_Parse (al_lib A) h of
         None \<Rightarrow> Inl (InvalidInputErr ''gotify server url is not a url'')
       | Some u \<Rightarrow>
           if Scheme u \<noteq> ''https'' then Inl (InvalidInputErr ''gotify server url must use https'')
           else if Host u = '''' then Inl (InvalidInputErr ''gotify server url has no host'')
           else if has_User u then Inl (InvalidInputErr ''gotify server url must not carry credentials'')
           else if al_tail A h \<noteq> ('''', '''', '''') then Inl (InvalidInputErr ''gotify server url must be a bare address'')
           else Inr \<lparr>gfc_ServerURL = h, gfc_ContentType = ct\<rparr>)"

definition gotify_ParseConfig :: "gotify_lib \<Rightarrow> string \<Rightarrow> gotify_config result" where
  "gotify_ParseConfig B raw =
    (if raw = '''' then gotify_validate (gl_address B) \<lparr>gfc_ServerURL = '''', gfc_ContentType = ''''\<rparr>
     else case gl_config B raw of
         Inl err \<Rightarrow> Inl (WithErr (InvalidInputErr ''gotify settings are not valid json'') err)
       | Inr c \<Rightarrow> gotify_validate (gl_address B) c)"

definition gotify_New :: "gotify_lib \<Rightarrow> 'w transport option \<Rightarrow> string \<Rightarrow> gotify_config \<Rightarrow> 'w gotify_sender result" where
  "gotify_New B client_opt token cfg =
    (case client_opt of
       None \<Rightarrow> Inl (InternalErr ''gotify sender has no http client'')
     | Some client \<Rightarrow>
         if token = '''' then Inl (InvalidInputErr ''no gotify application token for this identity'')
         else then_result (gotify_validate (gl_address B) cfg) (\<lambda>cfg.
           Inr \<lparr>gsd_client = client, gsd_token = token, gsd_cfg = cfg\<rparr>))"

definition renderAs :: "gotify_config \<Rightarrow> (string \<times> json) list" where
  "renderAs c =
    (if gfc_ContentType c = '''' \<or> gfc_ContentType c = TypePlain then []
     else [(''extras'', JsonObject [(''client::display'', JsonObject [(''contentType'', JsonString (gfc_ContentType c))])])])"

definition gotify_classify :: "gotify_lib \<Rightarrow> int \<Rightarrow> gotify_error \<Rightarrow> goerr" where
  "gotify_classify B status a =
    (let detail = (if gfe_Description a = '''' then Sprintf (al_lib (gl_address B)) ''gotify answered %d'' [FmtD status]
                   else gfe_Description a);
         detail = (if gfe_Error a \<noteq> '''' then gfe_Error a @ '': '' @ detail else detail) in
     if status = 401 \<or> status = 403 then Send SendPermanent 0 detail None
     else if status = 429 then Send SendTransient defaultRetryAfter detail None
     else if 500 \<le> status then Send SendTransient 0 detail None
     else if 400 \<le> status then Send SendPermanent 0 detail None
     else Send SendTransient 0 detail None)"

definition gotify_unreachable :: "golib \<Rightarrow> string \<Rightarrow> goerr \<Rightarrow> goerr" where
  "gotify_unreachable L what err =
    Send SendTransient 0 (Sprintf L ''gotify %s: %v'' [FmtS what, FmtS (Error L err)]) (Some err)"

definition gotify_endpoint :: "gotify_lib \<Rightarrow> 'w gotify_sender \<Rightarrow> string \<Rightarrow> string result" where
  "gotify_endpoint B S applicationID =
    (let i = TrimSpace applicationID in
     if i = '''' then Inl (refused_send ''the message has no application id to send to'')
     else case al_WithQuery (gl_address B) (gfc_ServerURL (gsd_cfg S) @ ''/message'')
           [(''token'', gsd_token S), (''appid'', i)] of
         None \<Rightarrow> Inl (refused_send ''gotify server url could not be used'')
       | Some u \<Rightarrow> Inr u)"

definition gotify_Send :: "gotify_lib \<Rightarrow> 'w gotify_sender \<Rightarrow> message \<Rightarrow> ('w, string) io" where
  "gotify_Send B S m w =
    (let L = al_lib (gl_address B) in
     if matrix_maxTextLen < RuneCount (msg_Body m) then
       (Inl (refused_send (Sprintf L ''message is longer than gotify accepts (max %d)'' [FmtD (int matrix_maxTextLen)])), w)
     else case gotify_endpoint B S (rcp_Address (msg_Recipient m)) of
       Inl err \<Rightarrow> (Inl err, w)
     | Inr target \<Rightarrow>
    (case gl_Marshal B (JsonObject ([(''title'', JsonString (msg_Title m)), (''message'', JsonString (msg_Body m))]
          @ renderAs (gsd_cfg S))) of
       Inl err \<Rightarrow> (Inl (refused_send ''message could not be encoded for gotify''), w)
     | Inr payload \<Rightarrow>
         let req = \<lparr>rq_Method = ''POST'', rq_URL = target,
                    rq_Header = [(''Content-Type'', ''application/json'')], rq_Body = payload\<rparr> in
         case tr_NewRequest (gsd_client S) req of
           Some f \<Rightarrow> (Inl (gotify_unreachable L ''request'' (without_url f)), w)
         | None \<Rightarrow>
             (case tr_Do (gsd_client S) req w of
                (Inl f, w') \<Rightarrow> (Inl (gotify_unreachable L ''call'' (without_url f)), w')
              | (Inr resp, w') \<Rightarrow>
                  (if rs_StatusCode resp < 200 \<or> 300 \<le> rs_StatusCode resp then
                     Inl (gotify_classify B (rs_StatusCode resp) (gl_error B (rs_Body resp)))
                   else case gl_answer B (rs_Body resp) of
                       Inl err \<Rightarrow> Inl (gotify_unreachable L ''answer'' err)
                     | Inr n \<Rightarrow>
                         if n = 0 then Inl (gotify_unreachable L ''answer''
                           (Text ''gotify accepted the message without naming it'' []))
                         else Inr (FormatInt n), w'))))"

subsection \<open>FCM\<close>

record fcm_answer =
  fan_Name :: string
  fan_Code :: int
  fan_Message :: string
  fan_Status :: string
  fan_DetailCodes :: "string list"

record fcm_lib =
  fl_lib :: golib
  fl_Marshal :: "json \<Rightarrow> string result"
  fl_PathEscape :: "string \<Rightarrow> string"
  fl_answer :: "string \<Rightarrow> fcm_answer result"
  fl_until :: "string \<Rightarrow> duration option"

text \<open>A supply of access tokens; a failure says whether the account itself was rejected.\<close>

record 'w google_source =
  gs_Token :: "'w \<Rightarrow> ((bool \<times> goerr) + string) \<times> 'w"

record 'w fcm_sender =
  fsd_client :: "'w transport"
  fsd_tokens :: "'w google_source"
  fsd_url :: string

definition fcm_maxTitleLen :: nat where "fcm_maxTitleLen = 1024"
definition fcm_maxBodyLen :: nat where "fcm_maxBodyLen = 2048"
definition fcm_minDeviceTokenLen :: nat where "fcm_minDeviceTokenLen = 32"
definition fcm_maxDeviceTokenLen :: nat where "fcm_maxDeviceTokenLen = 4096"

definition fcm_New ::
    "fcm_lib \<Rightarrow> 'w transport option \<Rightarrow> 'w google_source option \<Rightarrow> string \<Rightarrow> 'w fcm_sender result" where
  "fcm_New B client_opt tokens_opt projectID =
    (case client_opt of
       None \<Rightarrow> Inl (InternalErr ''fcm sender has no http client'')
     | Some client \<Rightarrow>
    (case tokens_opt of
       None \<Rightarrow> Inl (InternalErr ''fcm sender cannot mint tokens'')
     | Some tokens \<Rightarrow>
         if TrimSpace projectID = '''' then Inl (InvalidInputErr ''no firebase project for this identity'')
         else Inr \<lparr>fsd_client = client, fsd_tokens = tokens,
           fsd_url = ''https://fcm.googleapis.com/v1/projects/'' @ fl_PathEscape B projectID @ ''/messages:send''\<rparr>))"

definition fcmCode :: "fcm_answer \<Rightarrow> string" where
  "fcmCode a = (case find (\<lambda>c. c \<noteq> '''') (fan_DetailCodes a) of Some c \<Rightarrow> c | None \<Rightarrow> '''')"

definition fcm_retryAfter :: "fcm_lib \<Rightarrow> http_response \<Rightarrow> duration" where
  "fcm_retryAfter B resp =
    (let raw = (case map_of (rs_Header resp) ''Retry-After'' of Some v \<Rightarrow> v | None \<Rightarrow> '''') in
     if raw = '''' then defaultRetryAfter
     else case ParseInt raw of
         Some secs \<Rightarrow> if 0 < secs then to_int64 (secs * second)
           else (case fl_until B raw of Some d \<Rightarrow> if 0 < d then d else defaultRetryAfter | None \<Rightarrow> defaultRetryAfter)
       | None \<Rightarrow> (case fl_until B raw of Some d \<Rightarrow> if 0 < d then d else defaultRetryAfter | None \<Rightarrow> defaultRetryAfter))"

definition fcm_code_of :: "fcm_answer \<Rightarrow> string" where
  "fcm_code_of a = (if fcmCode a = '''' then fan_Status a else fcmCode a)"

definition fcm_classify :: "fcm_lib \<Rightarrow> http_response \<Rightarrow> fcm_answer \<Rightarrow> goerr" where
  "fcm_classify B resp a =
    (let status = rs_StatusCode resp;
         detail = (if fan_Message a = '''' then Sprintf (fl_lib B) ''fcm answered %d'' [FmtD status] else fan_Message a);
         code = fcm_code_of a;
         detail = (if code \<noteq> '''' then code @ '': '' @ detail else detail) in
     if code = ''UNREGISTERED'' \<or> code = ''SENDER_ID_MISMATCH'' then Send SendUnreachable 0 detail None
     else if code = ''QUOTA_EXCEEDED'' \<or> status = 429 then Send SendTransient (fcm_retryAfter B resp) detail None
     else if code = ''UNAVAILABLE'' \<or> code = ''INTERNAL'' then Send SendTransient (fcm_retryAfter B resp) detail None
     else if code = ''THIRD_PARTY_AUTH_ERROR'' then Send SendPermanent 0 detail None
     else if 500 \<le> status then Send SendTransient 0 detail None
     else if 400 \<le> status then Send SendPermanent 0 detail None
     else Send SendTransient 0 detail None)"

definition fcm_unreachable :: "golib \<Rightarrow> string \<Rightarrow> goerr \<Rightarrow> goerr" where
  "fcm_unreachable L what err =
    Send SendTransient 0 (Sprintf L ''fcm %s: %v'' [FmtS what, FmtS (Error L err)]) (Some err)"

definition reservedDataKey :: "golib \<Rightarrow> string \<Rightarrow> bool" where
  "reservedDataKey L key =
    (let k = ToLower L key in
     k = ''from'' \<or> k = ''message_type'' \<or> k = ''notification'' \<or> HasPrefix k ''google'' \<or> HasPrefix k ''gcm'')"

text \<open>The loop runs over a map; the key named is the first of the list.\<close>

definition payloadData :: "golib \<Rightarrow> (string \<times> string) list \<Rightarrow> (string \<times> string) list result" where
  "payloadData L metadata =
    (case find (\<lambda>(k, _). reservedDataKey L k) metadata of
       Some (k, _) \<Rightarrow> Inl (refused_send (Sprintf L ''metadata key %q is reserved by fcm'' [FmtS k]))
     | None \<Rightarrow> Inr metadata)"

definition fcm_payload :: "fcm_lib \<Rightarrow> message \<Rightarrow> string result" where
  "fcm_payload B m =
    (let L = fl_lib B; device = TrimSpace (rcp_Address (msg_Recipient m)) in
     if length device < fcm_minDeviceTokenLen \<or> fcm_maxDeviceTokenLen < length device then
       Inl (refused_send ''the message has no usable device token'')
     else if TrimSpace (msg_Body m) = '''' then Inl (refused_send ''a push notification needs a body'')
     else if fcm_maxTitleLen < RuneCount (msg_Title m) then
       Inl (refused_send (Sprintf L ''title is longer than fcm accepts (max %d)'' [FmtD (int fcm_maxTitleLen)]))
     else if fcm_maxBodyLen < RuneCount (msg_Body m) then
       Inl (refused_send (Sprintf L ''body is longer than fcm accepts (max %d)'' [FmtD (int fcm_maxBodyLen)]))
     else then_result (payloadData L (msg_Metadata m)) (\<lambda>data.
       let title = TrimSpace (msg_Title m) in
       case fl_Marshal B (JsonObject [(''message'', JsonObject
           ([(''token'', JsonString device),
             (''notification'', JsonObject ((if title = '''' then [] else [(''title'', JsonString title)])
                @ [(''body'', JsonString (msg_Body m))]))]
            @ (if data = [] then [] else [(''data'', JsonObject (map (\<lambda>(k, v). (k, JsonString v)) data))])))]) of
         Inl err \<Rightarrow> Inl (refused_send ''message could not be encoded for fcm'')
       | Inr body \<Rightarrow> Inr body))"

definition fcm_Send :: "fcm_lib \<Rightarrow> 'w fcm_sender \<Rightarrow> message \<Rightarrow> ('w, string) io" where
  "fcm_Send B S m w =
    (let L = fl_lib B in
     case fcm_payload B m of
       Inl err \<Rightarrow> (Inl err, w)
     | Inr body \<Rightarrow>
    (case gs_Token (fsd_tokens S) w of
       (Inl (rejected, err), w1) \<Rightarrow>
         (Inl (if rejected then refused_send (Error L err) else fcm_unreachable L ''token'' err), w1)
     | (Inr token, w1) \<Rightarrow>
         let req = \<lparr>rq_Method = ''POST'', rq_URL = fsd_url S,
                    rq_Header = [(''Content-Type'', ''application/json''), (''Authorization'', ''Bearer '' @ token)],
                    rq_Body = body\<rparr> in
         case tr_NewRequest (fsd_client S) req of
           Some f \<Rightarrow> (Inl (fcm_unreachable L ''request'' (without_url f)), w1)
         | None \<Rightarrow>
             (case tr_Do (fsd_client S) req w1 of
                (Inl f, w') \<Rightarrow> (Inl (fcm_unreachable L ''call'' (without_url f)), w')
              | (Inr resp, w') \<Rightarrow>
                  ((case fl_answer B (rs_Body resp) of
                      Inl err \<Rightarrow> Inl (fcm_unreachable L ''answer'' err)
                    | Inr a \<Rightarrow>
                        if rs_StatusCode resp < 200 \<or> 300 \<le> rs_StatusCode resp \<or> fan_Code a \<noteq> 0 then
                          Inl (fcm_classify B resp a)
                        else if fan_Name a = '''' then Inl (fcm_unreachable L ''answer''
                          (Text ''fcm accepted the message without naming it'' []))
                        else Inr (fan_Name a)), w'))))"

subsection \<open>APNs\<close>

record apns_config =
  apc_KeyID :: string
  apc_TeamID :: string
  apc_Topic :: string
  apc_Environment :: string

text \<open>A refusal: the reason and the time of an \<open>Unregistered\<close>. A body that cannot be read leaves both empty.\<close>

record apns_answer =
  apn_Reason :: string
  apn_Timestamp :: int

record apns_lib =
  pl_lib :: golib
  pl_Marshal :: "json \<Rightarrow> string result"
  pl_PathEscape :: "string \<Rightarrow> string"
  pl_config :: "string \<Rightarrow> apns_config result"
  pl_answer :: "string \<Rightarrow> apns_answer"
  pl_ulid :: "string \<Rightarrow> string option"

record 'w apple_source =
  as_Token :: "'w \<Rightarrow> (goerr + string) \<times> 'w"
  as_Expire :: "'w \<Rightarrow> 'w"

record 'w apns_sender =
  asd_client :: "'w transport"
  asd_tokens :: "'w apple_source"
  asd_cfg :: apns_config
  asd_host :: string

definition productionHost :: string where "productionHost = ''https://api.push.apple.com''"
definition sandboxHost :: string where "sandboxHost = ''https://api.sandbox.push.apple.com''"
definition environmentProduction :: string where "environmentProduction = ''production''"
definition environmentSandbox :: string where "environmentSandbox = ''sandbox''"
definition apns_pushTypeAlert :: string where "apns_pushTypeAlert = ''alert''"
definition apns_priorityImmediate :: string where "apns_priorityImmediate = ''10''"
definition apns_headerID :: string where "apns_headerID = ''apns-id''"
definition maxPayloadBytes :: nat where "maxPayloadBytes = 4096"
definition apns_minDeviceTokenLen :: nat where "apns_minDeviceTokenLen = 32"
definition apns_maxDeviceTokenLen :: nat where "apns_maxDeviceTokenLen = 200"
definition apns_defaultRetryAfter :: duration where "apns_defaultRetryAfter = 10 * second"

definition apns_validate :: "golib \<Rightarrow> apns_config \<Rightarrow> apns_config result" where
  "apns_validate L c =
    (let keyID = TrimSpace (apc_KeyID c); teamID = TrimSpace (apc_TeamID c); topic = TrimSpace (apc_Topic c);
         e = ToLower L (TrimSpace (apc_Environment c));
         environment = (if e = '''' then environmentProduction else e) in
     if keyID = '''' then Inl (InvalidInputErr ''apns settings have no key id'')
     else if teamID = '''' then Inl (InvalidInputErr ''apns settings have no team id'')
     else if topic = '''' then Inl (InvalidInputErr ''apns settings have no topic'')
     else if environment \<noteq> environmentProduction \<and> environment \<noteq> environmentSandbox then
       Inl (WithStr (InvalidInputErr ''apns environment must be production or sandbox'') (Text (''got '' @ environment) []))
     else Inr \<lparr>apc_KeyID = keyID, apc_TeamID = teamID, apc_Topic = topic, apc_Environment = environment\<rparr>)"

definition apns_ParseConfig :: "apns_lib \<Rightarrow> string \<Rightarrow> apns_config result" where
  "apns_ParseConfig B raw =
    (if raw = '''' then
       apns_validate (pl_lib B) \<lparr>apc_KeyID = '''', apc_TeamID = '''', apc_Topic = '''', apc_Environment = ''''\<rparr>
     else case pl_config B raw of
         Inl err \<Rightarrow> Inl (WithErr (InvalidInputErr ''apns settings are not valid json'') err)
       | Inr c \<Rightarrow> apns_validate (pl_lib B) c)"

definition apns_host :: "apns_config \<Rightarrow> string" where
  "apns_host c = (if apc_Environment c = environmentSandbox then sandboxHost else productionHost)"

definition apns_New ::
    "apns_lib \<Rightarrow> 'w transport option \<Rightarrow> 'w apple_source option \<Rightarrow> apns_config \<Rightarrow> 'w apns_sender result" where
  "apns_New B client_opt tokens_opt cfg =
    (case client_opt of
       None \<Rightarrow> Inl (InternalErr ''apns sender has no http client'')
     | Some client \<Rightarrow>
    (case tokens_opt of
       None \<Rightarrow> Inl (InternalErr ''apns sender cannot sign provider tokens'')
     | Some tokens \<Rightarrow> then_result (apns_validate (pl_lib B) cfg) (\<lambda>cfg.
         Inr \<lparr>asd_client = client, asd_tokens = tokens, asd_cfg = cfg, asd_host = apns_host cfg\<rparr>)))"

text \<open>The sixteen bytes of a ULID, written as a UUID.\<close>

definition notificationID :: "apns_lib \<Rightarrow> string \<Rightarrow> string option" where
  "notificationID B i =
    (case pl_ulid B i of
       None \<Rightarrow> None
     | Some b \<Rightarrow>
         let part = (\<lambda>first past. hex_EncodeToString (take (past - first) (drop first b))) in
         Some (part 0 4 @ ''-'' @ part 4 6 @ ''-'' @ part 6 8 @ ''-'' @ part 8 10 @ ''-'' @ part 10 16))"

definition reasonBadDeviceToken :: string where "reasonBadDeviceToken = ''BadDeviceToken''"
definition reasonUnregistered :: string where "reasonUnregistered = ''Unregistered''"
definition reasonNotForTopic :: string where "reasonNotForTopic = ''DeviceTokenNotForTopic''"
definition reasonExpiredToken :: string where "reasonExpiredToken = ''ExpiredProviderToken''"
definition reasonTooManyTokenUpdates :: string where "reasonTooManyTokenUpdates = ''TooManyProviderTokenUpdates''"
definition reasonTooManyRequests :: string where "reasonTooManyRequests = ''TooManyRequests''"
definition reasonInternal :: string where "reasonInternal = ''InternalServerError''"
definition reasonUnavailable :: string where "reasonUnavailable = ''ServiceUnavailable''"

definition apns_classify :: "golib \<Rightarrow> int \<Rightarrow> apns_answer \<Rightarrow> goerr" where
  "apns_classify L status body =
    (let reason = apn_Reason body;
         detail = (if reason = '''' then Sprintf L ''apns answered %d'' [FmtD status] else reason);
         detail = (if reason = reasonUnregistered \<and> 0 < apn_Timestamp body then
             Sprintf L ''%s (since %d)'' [FmtS detail, FmtD (apn_Timestamp body)] else detail) in
     if reason = reasonBadDeviceToken \<or> reason = reasonUnregistered \<or> reason = reasonNotForTopic then
       Send SendUnreachable 0 detail None
     else if reason = reasonExpiredToken \<or> reason = reasonTooManyTokenUpdates \<or> reason = reasonTooManyRequests
         \<or> reason = reasonInternal \<or> reason = reasonUnavailable \<or> status = 429 then
       Send SendTransient apns_defaultRetryAfter detail None
     else if 500 \<le> status then Send SendTransient 0 detail None
     else if 400 \<le> status then Send SendPermanent 0 detail None
     else Send SendTransient 0 detail None)"

definition apns_unreachable :: "golib \<Rightarrow> string \<Rightarrow> goerr \<Rightarrow> goerr" where
  "apns_unreachable L what err =
    Send SendTransient 0 (Sprintf L ''apns %s: %v'' [FmtS what, FmtS (Error L err)]) (Some err)"

text \<open>\<open>strings.EqualFold\<close> with \<open>aps\<close>: beside its two cases an s folds with the long s, U+017F.\<close>

definition folds_to_aps :: "string \<Rightarrow> bool" where
  "folds_to_aps key =
    (case map fst (runes key) of
       [a, p, s] \<Rightarrow> a \<in> {0x41, 0x61} \<and> p \<in> {0x50, 0x70} \<and> s \<in> {0x53, 0x73, 0x17F}
     | _ \<Rightarrow> False)"

definition apns_deviceToken :: "string \<Rightarrow> string result" where
  "apns_deviceToken address =
    (let t = TrimSpace address in
     if length t < apns_minDeviceTokenLen \<or> apns_maxDeviceTokenLen < length t \<or> \<not> isHex t then
       Inl (refused_send ''the message has no usable device token'')
     else Inr t)"

definition apns_payload :: "apns_lib \<Rightarrow> message \<Rightarrow> string result" where
  "apns_payload B m =
    (let body = TrimSpace (msg_Body m); title = TrimSpace (msg_Title m) in
     if body = '''' then Inl (refused_send ''a push notification needs a body'')
     else if list_ex (\<lambda>(key, _). folds_to_aps key) (msg_Metadata m) then
       Inl (refused_send (''metadata key '' @ [CHR 0x22] @ ''aps'' @ [CHR 0x22] @ '' is reserved by apns''))
     else case pl_Marshal B (JsonObject
         ((''aps'', JsonObject [(''alert'', JsonObject ((''body'', JsonString body)
             # (if title = '''' then [] else [(''title'', JsonString title)])))])
          # map (\<lambda>(key, v). (key, JsonString v)) (msg_Metadata m))) of
         Inl err \<Rightarrow> Inl (refused_send ''message could not be encoded for apns'')
       | Inr raw \<Rightarrow>
           if maxPayloadBytes < length raw then
             Inl (refused_send (Sprintf (pl_lib B) ''payload is %d bytes, more than apns accepts (max %d)''
               [FmtD (int (length raw)), FmtD (int maxPayloadBytes)]))
           else Inr raw)"

definition apns_request :: "apns_lib \<Rightarrow> 'w apns_sender \<Rightarrow> message \<Rightarrow> ('w, http_request) io" where
  "apns_request B S m w =
    (case apns_deviceToken (rcp_Address (msg_Recipient m)) of
       Inl err \<Rightarrow> (Inl err, w)
     | Inr device \<Rightarrow>
    (case apns_payload B m of
       Inl err \<Rightarrow> (Inl err, w)
     | Inr body \<Rightarrow>
    (case as_Token (asd_tokens S) w of
       (Inl err, w1) \<Rightarrow> (Inl (refused_send (Error (pl_lib B) err)), w1)
     | (Inr token, w1) \<Rightarrow>
         let req = \<lparr>rq_Method = ''POST'', rq_URL = asd_host S @ ''/3/device/'' @ pl_PathEscape B device,
               rq_Header = [(''Content-Type'', ''application/json''), (''Authorization'', ''bearer '' @ token),
                 (''apns-topic'', apc_Topic (asd_cfg S)), (''apns-push-type'', apns_pushTypeAlert),
                 (''apns-priority'', apns_priorityImmediate)]
                 @ (case notificationID B (msg_DeliveryID m) of Some i \<Rightarrow> [(apns_headerID, i)] | None \<Rightarrow> []),
               rq_Body = body\<rparr> in
         (case tr_NewRequest (asd_client S) req of
            Some f \<Rightarrow> (Inl (apns_unreachable (pl_lib B) ''request'' (without_url f)), w1)
          | None \<Rightarrow> (Inr req, w1)))))"

definition apns_Send :: "apns_lib \<Rightarrow> 'w apns_sender \<Rightarrow> message \<Rightarrow> ('w, string) io" where
  "apns_Send B S m w =
    (case apns_request B S m w of
       (Inl err, w1) \<Rightarrow> (Inl err, w1)
     | (Inr req, w1) \<Rightarrow>
    (case tr_Do (asd_client S) req w1 of
       (Inl f, w2) \<Rightarrow> (Inl (apns_unreachable (pl_lib B) ''call'' (without_url f)), w2)
     | (Inr resp, w2) \<Rightarrow>
         let i = (case map_of (rs_Header resp) apns_headerID of Some v \<Rightarrow> v | None \<Rightarrow> '''') in
         if rs_StatusCode resp < 200 \<or> 300 \<le> rs_StatusCode resp then
           let answer = pl_answer B (rs_Body resp) in
           (Inl (apns_classify (pl_lib B) (rs_StatusCode resp) answer),
            if apn_Reason answer = reasonExpiredToken then as_Expire (asd_tokens S) w2 else w2)
         else if i = '''' then (Inl (apns_unreachable (pl_lib B) ''answer''
           (Text ''apns accepted the message without naming it'' [])), w2)
         else (Inr i, w2)))"


subsection \<open>What a refusal means\<close>

text \<open>
  \<open>provider_answers\<close> is what a provider's \<open>classify\<close> owes the core: every answer becomes a send error,
  and one that names no code of the provider's own is final exactly when its status blames the request.
\<close>

definition is_send :: "goerr \<Rightarrow> bool" where
  "is_send e \<longleftrightarrow> as_send e \<noteq> None"

definition blames_request :: "int \<Rightarrow> bool" where
  "blames_request status \<longleftrightarrow> 400 \<le> status \<and> status < 500 \<and> status \<noteq> 429"

locale provider_answers =
  fixes classify :: "int \<Rightarrow> 'a \<Rightarrow> goerr"
    and names_code :: "'a \<Rightarrow> bool"
  assumes classified: "is_send (classify status a)"
    and unnamed: "\<not> names_code a \<Longrightarrow> IsPermanentSend (classify status a) \<longleftrightarrow> blames_request status"
begin

lemma unnamed_kind:
  assumes "\<not> names_code a"
  shows "SendKindOf (classify status a) = SendTransient \<longleftrightarrow> \<not> blames_request status"
  using unnamed [OF assms, of status] by (cases "SendKindOf (classify status a)") (auto simp: IsPermanentSend_def Final_def)

text \<open>What the dispatcher makes of it before the last attempt.\<close>

lemma refused_now:
  assumes "\<not> names_code a"
  shows "sendFailed D del n (classify status a) False =
    (if blames_request status
     then fail D del (Some n) (if SendKindOf (classify status a) = SendUnreachable then FailureNotReachable else FailurePermanent)
       (Error (d_lib D) (classify status a))
     else ignoring (Tracker_Release (d_deliveries D) del) (throw (classify status a)))"
  using unnamed_kind [OF assms, of status]
  by (cases "SendKindOf (classify status a)") (auto simp: sendFailed_def)

end

definition whatsapp_names_code :: "whatsapp_answer \<Rightarrow> bool" where
  "whatsapp_names_code a \<longleftrightarrow> (case wan_Error a of None \<Rightarrow> False
     | Some (code, _) \<Rightarrow> code \<in> {codeReengagement, codeUndeliverable, codeRateLimit, codePairRateLimit})"

definition matrix_names_code :: "matrix_answer \<Rightarrow> bool" where
  "matrix_names_code a \<longleftrightarrow> man_ErrCode a \<in>
     {''M_FORBIDDEN'', ''M_NOT_FOUND'', ''M_UNKNOWN_TOKEN'', ''M_MISSING_TOKEN'', ''M_LIMIT_EXCEEDED''}"

definition fcm_names_code :: "fcm_answer \<Rightarrow> bool" where
  "fcm_names_code a \<longleftrightarrow> fcm_code_of a \<in>
     {''UNREGISTERED'', ''SENDER_ID_MISMATCH'', ''QUOTA_EXCEEDED'', ''UNAVAILABLE'', ''INTERNAL'', ''THIRD_PARTY_AUTH_ERROR''}"

definition apns_names_code :: "apns_answer \<Rightarrow> bool" where
  "apns_names_code a \<longleftrightarrow> apn_Reason a \<in> {reasonBadDeviceToken, reasonUnregistered, reasonNotForTopic, reasonExpiredToken,
     reasonTooManyTokenUpdates, reasonTooManyRequests, reasonInternal, reasonUnavailable}"

lemma send_kinds [simp]:
  "as_send (Send k d t c) = Some (k, d)" "is_send (Send k d t c)"
  "IsPermanentSend (Send k d t c) = Final k" "SendKindOf (Send k d t c) = k"
  by (simp_all add: IsPermanentSend_def SendKindOf_def is_send_def)

lemmas answer_simps = blames_request_def Let_def Final_def

interpretation telegram: provider_answers "telegram_classify B" "\<lambda>_. False"
  by unfold_locales (auto simp: telegram_classify_def bot_classify_def answer_simps)

interpretation bale: provider_answers "bale_classify B" "\<lambda>_. False"
  by unfold_locales (auto simp: bale_classify_def bot_classify_def answer_simps)

interpretation whatsapp: provider_answers "\<lambda>status a. whatsapp_classify B status a token" whatsapp_names_code
  by unfold_locales (auto simp: whatsapp_classify_def whatsapp_names_code_def codeReengagement_def codeUndeliverable_def
      codeRateLimit_def codePairRateLimit_def answer_simps split: option.splits)

interpretation matrix: provider_answers "matrix_classify B" matrix_names_code
  by unfold_locales (auto simp: matrix_classify_def matrix_names_code_def answer_simps)

interpretation gotify: provider_answers "gotify_classify B" "\<lambda>_. False"
  by unfold_locales (auto simp: gotify_classify_def answer_simps)

interpretation fcm: provider_answers "\<lambda>status a. fcm_classify B (resp\<lparr>rs_StatusCode := status\<rparr>) a" fcm_names_code
  by unfold_locales (auto simp: fcm_classify_def fcm_names_code_def answer_simps)

interpretation apns: provider_answers "apns_classify L" apns_names_code
  by unfold_locales (auto simp: apns_classify_def apns_names_code_def answer_simps)

text \<open>
  C25. The providers agree on what a refusal means. Whatever text comes with it, a status from 400 to
  499 other than 429 settles the delivery at once and any other status leaves it to another attempt,
  with all seven providers, unless the answer names one of the codes its provider decides by.
\<close>

theorem refusals_agree:
  fixes status :: int
  defines "final \<equiv> 400 \<le> status \<and> status < 500 \<and> status \<noteq> 429"
  assumes "\<not> whatsapp_names_code wa" "\<not> matrix_names_code ma" "\<not> fcm_names_code fa" "\<not> apns_names_code pa"
  shows "IsPermanentSend (telegram_classify Bt status ta) = final
    \<and> IsPermanentSend (bale_classify Bb status ba) = final
    \<and> IsPermanentSend (gotify_classify Bg status ga) = final
    \<and> IsPermanentSend (whatsapp_classify Bw status wa token) = final
    \<and> IsPermanentSend (matrix_classify Bm status ma) = final
    \<and> IsPermanentSend (fcm_classify Bf (resp\<lparr>rs_StatusCode := status\<rparr>) fa) = final
    \<and> IsPermanentSend (apns_classify L status pa) = final
    \<and> sendFailed D del n (telegram_classify Bt status ta) False =
        (if final then fail D del (Some n) (if status = 403 then FailureNotReachable else FailurePermanent)
             (Error (d_lib D) (telegram_classify Bt status ta))
         else ignoring (Tracker_Release (d_deliveries D) del) (throw (telegram_classify Bt status ta)))"
proof -
  have "SendKindOf (telegram_classify Bt status ta) = SendUnreachable \<longleftrightarrow> status = 403"
    by (auto simp: telegram_classify_def bot_classify_def Let_def)
  moreover have "sendFailed D del n (telegram_classify Bt status ta) False =
    (if final then fail D del (Some n) (if SendKindOf (telegram_classify Bt status ta) = SendUnreachable
         then FailureNotReachable else FailurePermanent) (Error (d_lib D) (telegram_classify Bt status ta))
     else ignoring (Tracker_Release (d_deliveries D) del) (throw (telegram_classify Bt status ta)))"
    by (subst telegram.refused_now) (simp_all add: final_def blames_request_def)
  ultimately show ?thesis
    using telegram.unnamed bale.unnamed gotify.unnamed whatsapp.unnamed [OF assms(2)] matrix.unnamed [OF assms(3)]
      fcm.unnamed [OF assms(4)] apns.unnamed [OF assms(5)]
    by (simp add: final_def blames_request_def)
qed

definition unnamed_whatsapp :: whatsapp_answer where
  "unnamed_whatsapp = \<lparr>wan_MessageIDs = [], wan_Error = Some (100, '''')\<rparr>"

definition unnamed_matrix :: matrix_answer where
  "unnamed_matrix = \<lparr>man_EventID = '''', man_ErrCode = ''M_UNKNOWN'', man_Error = '''', man_RetryAfterMs = 0\<rparr>"

definition unnamed_fcm :: fcm_answer where
  "unnamed_fcm = \<lparr>fan_Name = '''', fan_Code = 404, fan_Message = '''', fan_Status = ''INVALID_ARGUMENT'', fan_DetailCodes = []\<rparr>"

definition unnamed_apns :: apns_answer where
  "unnamed_apns = \<lparr>apn_Reason = ''BadTopic'', apn_Timestamp = 0\<rparr>"

theorem refusals_agree_witness:
  "IsPermanentSend (apns_classify demo_golib 404 unnamed_apns) \<and> (\<forall>M. \<not> IsPermanentSend (matrix_classify M 502 unnamed_matrix))"
proof -
  have "\<not> whatsapp_names_code unnamed_whatsapp" "\<not> matrix_names_code unnamed_matrix"
    "\<not> fcm_names_code unnamed_fcm" "\<not> apns_names_code unnamed_apns"
    by (simp_all add: whatsapp_names_code_def unnamed_whatsapp_def codeReengagement_def codeUndeliverable_def
      codeRateLimit_def codePairRateLimit_def matrix_names_code_def unnamed_matrix_def fcm_names_code_def unnamed_fcm_def
      fcm_code_of_def fcmCode_def apns_names_code_def unnamed_apns_def reasonBadDeviceToken_def reasonUnregistered_def
      reasonNotForTopic_def reasonExpiredToken_def reasonTooManyTokenUpdates_def reasonTooManyRequests_def
      reasonInternal_def reasonUnavailable_def)
  note agree = refusals_agree [OF this]
  note matrix_agrees = agree [THEN conjunct2, THEN conjunct2, THEN conjunct2, THEN conjunct2, THEN conjunct1]
  note apns_agrees = agree [THEN conjunct2, THEN conjunct2, THEN conjunct2, THEN conjunct2, THEN conjunct2, THEN conjunct2,
    THEN conjunct1]
  show ?thesis by (simp add: matrix_agrees apns_agrees)
qed

subsection \<open>Every failure is classified\<close>

lemma unreachable_classified [simp]:
  "is_send (bot_unreachable B A what token err)" "is_send (whatsapp_unreachable L what err)"
  "is_send (matrix_unreachable L what err)" "is_send (gotify_unreachable L what err)"
  "is_send (fcm_unreachable L what err)" "is_send (apns_unreachable L what err)"
  "is_send (refused_send detail)"
  by (simp_all add: bot_unreachable_def whatsapp_unreachable_def matrix_unreachable_def gotify_unreachable_def
      fcm_unreachable_def apns_unreachable_def refused_send_def)

lemma bot_classify_classified [simp]: "is_send (bot_classify B A status a)"
  by (simp add: bot_classify_def Let_def)

lemma bot_Send_classified: "bot_Send B A S m w = (Inl e, w') \<Longrightarrow> is_send e"
  by (auto simp: bot_Send_def Let_def split: if_splits sum.splits prod.splits option.splits)

lemma whatsapp_compose_classified: "whatsapp_compose B m = Inl e \<Longrightarrow> is_send e"
  by (auto simp: whatsapp_compose_def then_result_def whatsapp_recipient_def templateFrom_def Let_def
      split: if_splits sum.splits option.splits)

lemma whatsapp_Send_classified: "whatsapp_Send B S m w = (Inl e, w') \<Longrightarrow> is_send e"
  by (auto simp: whatsapp_Send_def Let_def dest: whatsapp_compose_classified
      intro: whatsapp.classified split: if_splits sum.splits prod.splits option.splits list.splits)

lemma matrix_Send_classified: "matrix_Send B S m w = (Inl e, w') \<Longrightarrow> is_send e"
  by (auto simp: matrix_Send_def matrix_endpoint_def Let_def
      intro: matrix.classified split: if_splits sum.splits prod.splits option.splits)

lemma gotify_Send_classified: "gotify_Send B S m w = (Inl e, w') \<Longrightarrow> is_send e"
  by (auto simp: gotify_Send_def gotify_endpoint_def Let_def
      intro: gotify.classified split: if_splits sum.splits prod.splits option.splits)

lemma fcm_payload_classified: "fcm_payload B m = Inl e \<Longrightarrow> is_send e"
  by (auto simp: fcm_payload_def payloadData_def then_result_def Let_def
      split: if_splits sum.splits option.splits)

lemma fcm_classify_classified [simp]: "is_send (fcm_classify B resp a)"
  by (simp add: fcm_classify_def Let_def)

lemma fcm_Send_classified: "fcm_Send B S m w = (Inl e, w') \<Longrightarrow> is_send e"
  by (auto simp: fcm_Send_def Let_def dest: fcm_payload_classified
      split: if_splits sum.splits prod.splits option.splits)

lemma apns_request_classified: "apns_request B S m w = (Inl e, w') \<Longrightarrow> is_send e"
  by (auto simp: apns_request_def apns_deviceToken_def apns_payload_def Let_def
      split: if_splits sum.splits prod.splits option.splits)

lemma apns_Send_classified: "apns_Send B S m w = (Inl e, w') \<Longrightarrow> is_send e"
  by (auto simp: apns_Send_def Let_def dest: apns_request_classified
      intro: apns.classified split: if_splits sum.splits prod.splits option.splits)


subsection \<open>A token is not quoted\<close>

lemma HasPrefix_prefix: "HasPrefix s p \<longleftrightarrow> prefix p s"
proof -
  have "strip_prefix p s \<noteq> None \<longleftrightarrow> prefix p s"
    by (induction p s rule: strip_prefix.induct) auto
  then show ?thesis by (simp add: HasPrefix_def)
qed

lemma sublist_across:
  assumes "sublist t (xs @ c # ys)" "c \<notin> set t"
  shows "sublist t xs \<or> sublist t ys"
  using assms(1)
proof (induction xs)
  case Nil
  then show ?case using assms(2) by (cases t) (auto simp: sublist_Cons_right prefix_Cons)
next
  case (Cons x xs)
  from Cons.prems consider "prefix t (x # xs @ c # ys)" | "sublist t (xs @ c # ys)"
    by (auto simp: sublist_Cons_right)
  then show ?case
  proof cases
    case 1
    then consider "prefix t (x # xs)" | us where "t = (x # xs) @ us" "prefix us (c # ys)"
      using prefix_append [of t "x # xs" "c # ys"] by auto
    then have "prefix t (x # xs)"
    proof cases
      case 2
      then show ?thesis using assms(2) by (cases us) auto
    qed
    then show ?thesis by (simp add: prefix_imp_sublist)
  next
    case 2
    then show ?thesis using Cons.IH by (auto simp: sublist_Cons_right)
  qed
qed

text \<open>A text without brackets that the output of a replacement starts with, its input starts with.\<close>

lemma replace_all_prefix:
  "prefix p (replace_all old (CHR ''['' # by_rest) s 0) \<Longrightarrow> CHR ''['' \<notin> set p \<Longrightarrow> prefix p s"
proof (induction s arbitrary: p)
  case (Cons c cs)
  show ?case
  proof (cases "HasPrefix (c # cs) old")
    case True
    then show ?thesis using Cons.prems by (cases p) auto
  next
    case False
    then show ?thesis using Cons by (cases p) auto
  qed
qed simp

lemma replaced_gone:
  assumes "t \<noteq> ''''" "CHR ''['' \<notin> set t" "CHR '']'' \<notin> set t" "\<not> sublist t ''REDACTED''"
  shows "\<not> sublist t (replace_all t ''[REDACTED]'' s k)"
  using assms
proof (induction t "''[REDACTED]''" s k rule: replace_all.induct)
  case (3 t c cs)
  note assms = 3(3-)
  show ?case
  proof (cases "HasPrefix (c # cs) t")
    case True
    let ?R = "replace_all t ''[REDACTED]'' cs (length t - 1)"
    have "\<not> sublist t (''[REDACTED'' @ CHR '']'' # ?R)"
    proof
      assume "sublist t (''[REDACTED'' @ CHR '']'' # ?R)"
      from sublist_across [OF this assms(3)] 3(1) [OF True assms] have "sublist t ([] @ CHR ''['' # ''REDACTED'')" by simp
      from sublist_across [OF this assms(2)] assms(1,4) show False by simp
    qed
    then show ?thesis using True by simp
  next
    case False
    let ?R = "replace_all t ''[REDACTED]'' cs 0"
    have "\<not> prefix t (c # ?R)"
    proof
      assume "prefix t (c # ?R)"
      then obtain t' where t': "t = c # t'" "prefix t' ?R" using assms(1) by (cases t) auto
      then have "prefix t' cs" using replace_all_prefix [of t' t "''REDACTED]''" cs] assms(2) by simp
      then show False using False t'(1) by (simp add: HasPrefix_prefix)
    qed
    then show ?thesis using 3(2) [OF False assms] False by (simp add: sublist_Cons_right)
  qed
qed auto


lemma bot_New_made:
  assumes "bot_New B A client_opt token rawConfig = Inr S"
  shows "bs_token S = token" "token \<noteq> ''''" "usableToken token"
  using assms by (auto simp: bot_New_def Let_def split: option.splits if_splits sum.splits)

lemma bot_Send_cause:
  "bot_Send B A S m w = (Inl (Send k r d (Some c)), w') \<Longrightarrow> \<exists>text. d = redact text (bs_token S)"
  by (auto simp: bot_Send_def bot_unreachable_def bot_classify_def refused_send_def Let_def
      split: if_splits sum.splits prod.splits option.splits)

lemma usable_no_brackets:
  assumes "usableToken token" shows "CHR ''['' \<notin> set token" "CHR '']'' \<notin> set token"
proof -
  have small: "n < 128" if "n \<in> byte ` set tokenAlphabet" for n
    using that by (auto simp: tokenAlphabet_def byte_def)
  have "list_all (\<lambda>c. byte c \<in> byte ` set tokenAlphabet) token"
    using assms runes_all_small [of "\<lambda>n. n \<in> byte ` set tokenAlphabet" token, OF small]
    by (simp add: usableToken_def only_of_def)
  then have "set token \<subseteq> set tokenAlphabet"
    by (auto simp: list_all_iff byte_def image_iff)
  then show "CHR ''['' \<notin> set token" "CHR '']'' \<notin> set token"
    by (auto simp: tokenAlphabet_def)
qed

text \<open>
  C27. A bot's token is in every address it calls, and the HTTP client quotes the address in its errors;
  yet no error with a cause that a Telegram or Bale sender answers holds the token anywhere in its text,
  whatever the client wrote and however often. (The two letters or more of the mark itself apart.)
\<close>

theorem bot_errors_hide_token:
  assumes "bot_New B A client_opt token rawConfig = Inr S" "\<not> sublist token ''REDACTED''"
    and "bot_Send B A S m w = (Inl (Send k r d (Some c)), w')"
  shows "\<not> sublist token d \<and> sublist token (bot_endpoint S)"
proof -
  note S = bot_New_made [OF assms(1)]
  obtain t where "d = redact t token" using bot_Send_cause [OF assms(3)] S(1) by auto
  then have "d = replace_all token ''[REDACTED]'' t 0" using S(2) by (simp add: redact_def)
  then have "\<not> sublist token d"
    using replaced_gone [OF S(2) usable_no_brackets [OF S(3)] assms(2)] by simp
  moreover have "bot_endpoint S = (bs_baseURL S @ ''/bot'') @ token @ ''/'' @ sendMethod"
    by (simp add: bot_endpoint_def S(1))
  then have "sublist token (bot_endpoint S)" by (metis sublist_appendI)
  ultimately show ?thesis by simp
qed

text \<open>A client that quotes the address it could not reach.\<close>

definition demo_bot_lib :: bot_lib where
  "demo_bot_lib = \<lparr>bl_lib = demo_golib\<lparr>Sprintf := \<lambda>f args. concat (map (\<lambda>a. case a of FmtS s \<Rightarrow> s | _ \<Rightarrow> '''') args)\<rparr>,
     bl_Marshal = \<lambda>_. Inr ''{}'', bl_config = Inr, bl_answer = \<lambda>_. Inl (Foreign ''no answer'')\<rparr>"

definition deaf_client :: "unit transport" where
  "deaf_client = \<lparr>tr_NewRequest = \<lambda>_. None, tr_Do = \<lambda>req w. (Inl (PlainFailure (Foreign (rq_URL req))), w)\<rparr>"

definition demo_bot_message :: message where
  "demo_bot_message = \<lparr>msg_DeliveryID = '''', msg_Recipient = \<lparr>rcp_Channel = ChannelTelegram, rcp_Address = ''7''\<rparr>,
     msg_Title = '''', msg_Body = ''hi'', msg_Metadata = []\<rparr>"

definition demo_bot :: "unit bot_sender" where
  "demo_bot = \<lparr>bs_client = deaf_client, bs_token = ''1:ab'', bs_ParseMode = '''', bs_baseURL = ''https://api.telegram.org''\<rparr>"

lemma demo_bot_made: "bot_New demo_bot_lib telegram_api (Some deaf_client) ''1:ab'' '''' = Inr demo_bot"
  by (simp add: bot_New_def demo_bot_def telegram_api_def usableToken_def only_of_def tokenAlphabet_def byte_def Let_def)

lemma demo_bot_fails:
  "\<exists>d c. bot_Send demo_bot_lib telegram_api demo_bot demo_bot_message () = (Inl (Send SendTransient 0 d (Some c)), ())"
  by (simp add: bot_Send_def demo_bot_def deaf_client_def demo_bot_lib_def demo_bot_message_def bot_unreachable_def
      compose_def RuneCount_def maxTextLen_def TrimSpace_def is_space_rune_def byte_def Let_def)

theorem bot_errors_hide_token_witness:
  "\<exists>d c. bot_Send demo_bot_lib telegram_api demo_bot demo_bot_message () = (Inl (Send SendTransient 0 d (Some c)), ())
    \<and> \<not> sublist ''1:ab'' d"
proof -
  have "\<not> sublist ''1:ab'' ''REDACTED''" by (simp add: sublist_Cons_right)
  with demo_bot_fails show ?thesis using bot_errors_hide_token [OF demo_bot_made] by blast
qed


end
