(* ===== verification/Tokens.thy ===== *)
theory Tokens
  imports Providers Instants
begin

text \<open>
  The access tokens of two providers. \<open>internal/infra/appleauth\<close> signs Apple's itself and keeps each for
  a while; \<open>internal/infra/googleauth\<close> exchanges a service account for Google's and keeps one supply per
  account. Sources are shared: a sender holds a reference, so they live in a store of their own and the
  minter's map holds references into it. Locks make each call one step.
\<close>

subsection \<open>Apple: signing\<close>

definition tokenLifetime :: duration where
  "tokenLifetime = 45 * minute"

definition maxCachedIdentities :: nat where
  "maxCachedIdentities = 1024"

record apple_identity =
  api_KeyID :: string
  api_TeamID :: string

text \<open>Keys as \<open>crypto/x509\<close> reads them; an ECDSA key has its curve.\<close>

datatype parsed_key = EcdsaKey string string | RsaKey string | OtherKey

text \<open>
  Beside the readers of keys: the digest, the encoder of JSON and the signature, a
  pair of numbers drawn with randomness from the state.
\<close>

record 'w apple_lib =
  atl_lib :: golib
  atl_pem :: "string \<Rightarrow> string option"
  atl_pkcs8 :: "string \<Rightarrow> parsed_key option"
  atl_sha256 :: "string \<Rightarrow> string"
  atl_Marshal :: "json \<Rightarrow> string result"
  atl_ecdsa :: "string \<Rightarrow> string \<Rightarrow> 'w \<Rightarrow> (nat \<times> nat) option \<times> 'w"

definition apple_identity_validate :: "apple_identity \<Rightarrow> unit result" where
  "apple_identity_validate i =
    (if TrimSpace (api_KeyID i) = '''' then Inl (Text ''appleauth: no key id'' [])
     else if TrimSpace (api_TeamID i) = '''' then Inl (Text ''appleauth: no team id'' [])
     else Inr ())"

definition apple_parseKey :: "'w apple_lib \<Rightarrow> string \<Rightarrow> string result" where
  "apple_parseKey B p8 =
    (case atl_pem B p8 of
       None \<Rightarrow> Inl (Text ''appleauth: the signing key is not pem'' [])
     | Some block \<Rightarrow>
    (case atl_pkcs8 B block of
       None \<Rightarrow> Inl (Text ''appleauth: the signing key is not usable'' [])
     | Some (EcdsaKey curve key) \<Rightarrow>
         if curve \<noteq> ''P-256'' then Inl (Text ''appleauth: the signing key is not on p-256'' []) else Inr key
     | Some _ \<Rightarrow> Inl (Text ''appleauth: the signing key is not an ecdsa key'' [])))"

text \<open>\<open>FillBytes\<close> of 32 bytes, most significant first.\<close>

definition fill_bytes :: "nat \<Rightarrow> nat \<Rightarrow> string" where
  "fill_bytes width n = map (\<lambda>i. char_of (n div 256 ^ (width - 1 - i))) [0..<width]"

definition apple_sign :: "'w apple_lib \<Rightarrow> apple_identity \<Rightarrow> string \<Rightarrow> time \<Rightarrow> ('w, string) io" where
  "apple_sign B i key issued w =
    (case atl_Marshal B (JsonObject [(''alg'', JsonString ''ES256''), (''kid'', JsonString (api_KeyID i)),
        (''typ'', JsonString ''JWT'')]) of
       Inl err \<Rightarrow> (Inl (Wrapped ''appleauth'' err), w)
     | Inr header \<Rightarrow>
    (case atl_Marshal B (JsonObject [(''iss'', JsonString (api_TeamID i)), (''iat'', JsonNumber (Unix_seconds issued))]) of
       Inl err \<Rightarrow> (Inl (Wrapped ''appleauth'' err), w)
     | Inr claims \<Rightarrow>
         let signing = EncodeToString header @ ''.'' @ EncodeToString claims in
         (case atl_ecdsa B key (atl_sha256 B signing) w of
            (None, w') \<Rightarrow> (Inl (Text ''appleauth: could not sign a provider token'' []), w')
          | (Some (r, s), w') \<Rightarrow>
              (Inr (signing @ ''.'' @ EncodeToString (fill_bytes 32 r @ fill_bytes 32 s)), w'))))"

subsection \<open>Apple: the sources\<close>

record apple_cached =
  asc_key :: string
  asc_id :: apple_identity
  asc_token :: string
  asc_minted :: time

record apple_minter =
  ami_store :: "apple_cached list"
  ami_sources :: "(string \<times> nat) list"

definition apple_NewMinter :: "bool \<Rightarrow> apple_minter result" where
  "apple_NewMinter has_clock =
    (if \<not> has_clock then Inl (Text ''appleauth: no clock'' []) else Inr \<lparr>ami_store = [], ami_sources = []\<rparr>)"

text \<open>What the map is keyed by: a digest over the identity and the file.\<close>

definition apple_digest :: "'w apple_lib \<Rightarrow> string \<Rightarrow> apple_identity \<Rightarrow> string" where
  "apple_digest B p8 i = atl_sha256 B (api_KeyID i @ [CHR 0x00] @ api_TeamID i @ [CHR 0x00] @ p8)"

definition apple_Open :: "'w apple_lib \<Rightarrow> string \<Rightarrow> apple_identity \<Rightarrow> apple_minter \<Rightarrow> nat result \<times> apple_minter" where
  "apple_Open B p8 i m =
    (case apple_identity_validate i of
       Inl err \<Rightarrow> (Inl err, m)
     | Inr _ \<Rightarrow>
    (case apple_parseKey B p8 of
       Inl err \<Rightarrow> (Inl err, m)
     | Inr key \<Rightarrow>
         let sum = apple_digest B p8 i in
         case map_of (ami_sources m) sum of
           Some a \<Rightarrow> (Inr a, m)
         | None \<Rightarrow>
             let kept = (if maxCachedIdentities \<le> length (ami_sources m) then [] else ami_sources m);
                 a = length (ami_store m) in
             (Inr a, \<lparr>ami_store = ami_store m @ [\<lparr>asc_key = key, asc_id = i, asc_token = '''', asc_minted = 0\<rparr>],
                     ami_sources = (sum, a) # kept\<rparr>)))"

text \<open>\<open>Token\<close>, with what the clock says.\<close>

definition apple_Token :: "'w apple_lib \<Rightarrow> nat \<Rightarrow> time \<Rightarrow> apple_minter \<times> 'w \<Rightarrow> string result \<times> apple_minter \<times> 'w" where
  "apple_Token B a now mw =
    (case mw of (m, w) \<Rightarrow>
     let s = ami_store m ! a in
     if asc_token s \<noteq> '''' \<and> time_Sub now (asc_minted s) < tokenLifetime then (Inr (asc_token s), m, w)
     else case apple_sign B (asc_id s) (asc_key s) now w of
         (Inl err, w') \<Rightarrow> (Inl err, m, w')
       | (Inr token, w') \<Rightarrow>
           (Inr token, m\<lparr>ami_store := (ami_store m)[a := s\<lparr>asc_token := token, asc_minted := now\<rparr>]\<rparr>, w'))"

definition apple_Expire :: "nat \<Rightarrow> apple_minter \<Rightarrow> apple_minter" where
  "apple_Expire a m =
    m\<lparr>ami_store := (ami_store m)[a := (ami_store m ! a)\<lparr>asc_token := '''', asc_minted := 0\<rparr>]\<rparr>"

subsection \<open>Google\<close>

definition maxCachedAccounts :: nat where
  "maxCachedAccounts = 1024"

definition finalCodes :: "string list" where
  "finalCodes = [''invalid_grant'', ''invalid_client'', ''unauthorized_client'', ''invalid_scope'', ''access_denied'']"

text \<open>
  A failure of the exchange: an answer of Google's, with its status when there is one, its code and its
  body, or anything before an answer. \<open>timed_out\<close> is the wait ending first.
\<close>

datatype exchange_failure = RetrieveError "int option" string string goerr | NoAnswer goerr | TimedOut goerr

record 'w google_lib =
  ggl_lib :: golib
  ggl_error :: "string \<Rightarrow> string option"
  ggl_account :: "string \<Rightarrow> (string \<times> string \<times> string) option"
  ggl_sha256 :: "string \<Rightarrow> string"
  ggl_config :: "string \<Rightarrow> string option"
  ggl_pem :: "string \<Rightarrow> string option"
  ggl_pkcs8 :: "string \<Rightarrow> parsed_key option"
  ggl_pkcs1 :: "string \<Rightarrow> bool"
  ggl_exchange :: "string \<Rightarrow> 'w \<Rightarrow> (exchange_failure + string) \<times> 'w"

fun google_rejected :: "'w google_lib \<Rightarrow> exchange_failure \<Rightarrow> bool" where
  "google_rejected B (RetrieveError status errorCode body err) =
    (if (case status of Some n \<Rightarrow> 500 \<le> n | None \<Rightarrow> False) then False
     else if errorCode = '''' then (case ggl_error B body of None \<Rightarrow> False | Some code \<Rightarrow> code \<in> set finalCodes)
     else errorCode \<in> set finalCodes)"
| "google_rejected B (NoAnswer err) = False"
| "google_rejected B (TimedOut err) = False"

record google_account =
  gga_ProjectID :: string
  gga_Email :: string

definition ParseAccount :: "'w google_lib \<Rightarrow> string \<Rightarrow> google_account result" where
  "ParseAccount B file =
    (case ggl_account B file of
       None \<Rightarrow> Inl (Text ''googleauth: service account is not valid json'' [])
     | Some (ty, project, email) \<Rightarrow>
         if ty \<noteq> ''service_account'' then Inl (Text ''googleauth: not a service account key file'' [])
         else if project = '''' then Inl (Text ''googleauth: service account names no project'' [])
         else if email = '''' then Inl (Text ''googleauth: service account has no client_email'' [])
         else Inr \<lparr>gga_ProjectID = project, gga_Email = email\<rparr>)"

definition checkKey :: "'w google_lib \<Rightarrow> string \<Rightarrow> unit result" where
  "checkKey B pemKey =
    (case ggl_pem B pemKey of
       None \<Rightarrow> Inl (Text ''googleauth: service account private key is not pem'' [])
     | Some block \<Rightarrow>
    (case ggl_pkcs8 B block of
       Some (RsaKey k) \<Rightarrow> Inr ()
     | Some _ \<Rightarrow> Inl (Text ''googleauth: service account key is not rsa'' [])
     | None \<Rightarrow> if ggl_pkcs1 B block then Inr ()
         else Inl (Text ''googleauth: service account private key is not usable'' [])))"

text \<open>A supply is the library's, which keeps its token while it is valid; here it is named by the file it was made from.\<close>

record google_cached =
  ggc_account :: google_account
  ggc_file :: string

record google_minter =
  gmi_scopes :: "string list"
  gmi_store :: "google_cached list"
  gmi_sources :: "(string \<times> nat) list"

definition google_NewMinter :: "bool \<Rightarrow> string list \<Rightarrow> google_minter result" where
  "google_NewMinter has_client scopes =
    (if \<not> has_client then Inl (Text ''googleauth: no http client'' [])
     else if scopes = [] then Inl (Text ''googleauth: no scopes'' [])
     else Inr \<lparr>gmi_scopes = scopes, gmi_store = [], gmi_sources = []\<rparr>)"

definition google_Open :: "'w google_lib \<Rightarrow> string \<Rightarrow> google_minter \<Rightarrow> nat result \<times> google_minter" where
  "google_Open B file m =
    (case ParseAccount B file of
       Inl err \<Rightarrow> (Inl err, m)
     | Inr account \<Rightarrow>
         let sum = ggl_sha256 B file in
         case map_of (gmi_sources m) sum of
           Some a \<Rightarrow> (Inr a, m)
         | None \<Rightarrow>
        (case ggl_config B file of
           None \<Rightarrow> (Inl (Text ''googleauth: service account is not usable'' []), m)
         | Some privateKey \<Rightarrow>
        (case checkKey B privateKey of
           Inl err \<Rightarrow> (Inl err, m)
         | Inr _ \<Rightarrow>
             let kept = (if maxCachedAccounts \<le> length (gmi_sources m) then [] else gmi_sources m);
                 a = length (gmi_store m) in
             (Inr a, m\<lparr>gmi_store := gmi_store m @ [\<lparr>ggc_account = account, ggc_file = file\<rparr>],
                      gmi_sources := (sum, a) # kept\<rparr>))))"

text \<open>
  \<open>Token\<close>: its failures are all errors of a text around their cause; the first component says whether
  \<open>ErrRejected\<close> is among the causes.
\<close>

definition google_Token :: "'w google_lib \<Rightarrow> google_cached \<Rightarrow> 'w \<Rightarrow> ((bool \<times> goerr) + string) \<times> 'w" where
  "google_Token B s w =
    (let email = gga_Email (ggc_account s) in
     case ggl_exchange B (ggc_file s) w of
       (Inr token, w') \<Rightarrow> (Inr token, w')
     | (Inl f, w') \<Rightarrow>
         (Inl (google_rejected B f,
            (let prefix = (if google_rejected B f then ''googleauth: google refused the service account for '' @ email
                           else ''googleauth: token for '' @ email) in
             Wrapped prefix (case f of RetrieveError _ _ _ err \<Rightarrow> err | NoAnswer err \<Rightarrow> err | TimedOut err \<Rightarrow> err))), w'))"

subsection \<open>What Apple's tokens promise\<close>

text \<open>
  The names Apple gives out have no NUL, which separates them in what is digested. A step is a call of
  any goroutine; what a source answers depends on the clock and on the randomness of the moment.
\<close>

definition plain_names :: "apple_identity \<Rightarrow> bool" where
  "plain_names i \<longleftrightarrow> CHR 0x00 \<notin> set (api_KeyID i) \<and> CHR 0x00 \<notin> set (api_TeamID i)"

inductive apple_step :: "'w apple_lib \<Rightarrow> apple_minter \<Rightarrow> apple_minter \<Rightarrow> bool" for B where
  Opened: "plain_names i \<Longrightarrow> apple_Open B p8 i m = (r, m') \<Longrightarrow> apple_step B m m'"
| Asked: "a < length (ami_store m) \<Longrightarrow> apple_Token B a now (m, w) = (r, m', w') \<Longrightarrow> apple_step B m m'"
| Expired: "a < length (ami_store m) \<Longrightarrow> apple_step B m (apple_Expire a m)"

abbreviation apple_steps :: "'w apple_lib \<Rightarrow> apple_minter \<Rightarrow> apple_minter \<Rightarrow> bool" where
  "apple_steps B \<equiv> (apple_step B)\<^sup>*\<^sup>*"

definition signed_by :: "'w apple_lib \<Rightarrow> apple_identity \<Rightarrow> string \<Rightarrow> time \<Rightarrow> string \<Rightarrow> bool" where
  "signed_by B i key minted t \<longleftrightarrow> (\<exists>v v'. apple_sign B i key minted v = (Inr t, v'))"

definition cached_ok :: "'w apple_lib \<Rightarrow> apple_cached \<Rightarrow> bool" where
  "cached_ok B s \<longleftrightarrow> (asc_token s \<noteq> '''' \<longrightarrow> signed_by B (asc_id s) (asc_key s) (asc_minted s) (asc_token s))"

definition entry_ok :: "'w apple_lib \<Rightarrow> apple_cached list \<Rightarrow> string \<times> nat \<Rightarrow> bool" where
  "entry_ok B st e \<longleftrightarrow> snd e < length st \<and> plain_names (asc_id (st ! snd e))
     \<and> (\<exists>p8. fst e = apple_digest B p8 (asc_id (st ! snd e)) \<and> apple_parseKey B p8 = Inr (asc_key (st ! snd e)))"

definition minter_ok :: "'w apple_lib \<Rightarrow> apple_minter \<Rightarrow> bool" where
  "minter_ok B m \<longleftrightarrow> list_all (cached_ok B) (ami_store m) \<and> list_all (entry_ok B (ami_store m)) (ami_sources m)
     \<and> length (ami_sources m) \<le> maxCachedIdentities"

text \<open>Sources are never taken away and keep whom they sign for.\<close>

definition same_signers :: "apple_cached list \<Rightarrow> apple_cached list \<Rightarrow> bool" where
  "same_signers st st' \<longleftrightarrow> length st \<le> length st'
     \<and> (\<forall>a < length st. asc_id (st' ! a) = asc_id (st ! a) \<and> asc_key (st' ! a) = asc_key (st ! a))"

lemma same_signers_refl [simp]: "same_signers st st"
  by (simp add: same_signers_def)

lemma same_signers_trans: "same_signers st st' \<Longrightarrow> same_signers st' st'' \<Longrightarrow> same_signers st st''"
  by (auto simp: same_signers_def)

lemma same_signers_update:
  "a < length st \<Longrightarrow> asc_id s = asc_id (st ! a) \<Longrightarrow> asc_key s = asc_key (st ! a) \<Longrightarrow> same_signers st (st[a := s])"
  by (auto simp: same_signers_def nth_list_update)

lemma same_signers_append: "same_signers st (st @ [s])"
  by (auto simp: same_signers_def nth_append)

lemma entry_ok_later: "entry_ok B st e \<Longrightarrow> same_signers st st' \<Longrightarrow> entry_ok B st' e"
  by (auto simp: entry_ok_def same_signers_def)

lemma entries_ok_later:
  "list_all (entry_ok B st) es \<Longrightarrow> same_signers st st' \<Longrightarrow> list_all (entry_ok B st') es"
  by (auto simp: list_all_iff intro: entry_ok_later)

lemma apple_Open_cases:
  assumes "apple_Open B p8 i m = (r, m')"
  obtains (refused) e where "r = Inl e" "m' = m"
  | (cached) a where "r = Inr a" "m' = m" "map_of (ami_sources m) (apple_digest B p8 i) = Some a"
  | (fresh) key kept where "r = Inr (length (ami_store m))" "apple_parseKey B p8 = Inr key"
      "kept = [] \<and> maxCachedIdentities \<le> length (ami_sources m) \<or> kept = ami_sources m \<and> length (ami_sources m) < maxCachedIdentities"
      "m' = \<lparr>ami_store = ami_store m @ [\<lparr>asc_key = key, asc_id = i, asc_token = '''', asc_minted = 0\<rparr>],
             ami_sources = (apple_digest B p8 i, length (ami_store m)) # kept\<rparr>"
proof (cases "apple_identity_validate i")
  case (Inl e)
  then show ?thesis using assms refused [of e] by (simp add: apple_Open_def)
next
  case valid: (Inr u)
  show ?thesis
  proof (cases "apple_parseKey B p8")
    case (Inl e)
    then show ?thesis using assms refused [of e] valid by (simp add: apple_Open_def)
  next
    case key: (Inr key)
    show ?thesis
    proof (cases "map_of (ami_sources m) (apple_digest B p8 i)")
      case (Some a)
      then show ?thesis using assms cached [of a] valid key by (auto simp: apple_Open_def)
    next
      case None
      then show ?thesis
        using assms fresh [of key "if maxCachedIdentities \<le> length (ami_sources m) then [] else ami_sources m"] valid key
        by (simp add: apple_Open_def Let_def split: if_splits)
    qed
  qed
qed

lemma apple_sign_nonempty: "apple_sign B i key now v = (Inr t, v') \<Longrightarrow> t \<noteq> ''''"
  by (auto simp: apple_sign_def Let_def split: sum.splits option.splits prod.splits)

lemma apple_Token_cases:
  assumes "apple_Token B a now (m, w) = (r, m', w')"
  defines "s \<equiv> ami_store m ! a"
  obtains (held) "r = Inr (asc_token s)" "m' = m" "w' = w" "asc_token s \<noteq> ''''" "time_Sub now (asc_minted s) < tokenLifetime"
  | (failed) e where "r = Inl e" "m' = m" "asc_token s = '''' \<or> tokenLifetime \<le> time_Sub now (asc_minted s)"
  | (signed) t where "r = Inr t" "apple_sign B (asc_id s) (asc_key s) now w = (Inr t, w')"
      "m' = m\<lparr>ami_store := (ami_store m)[a := s\<lparr>asc_token := t, asc_minted := now\<rparr>]\<rparr>"
      "asc_token s = '''' \<or> tokenLifetime \<le> time_Sub now (asc_minted s)"
proof (cases "asc_token s \<noteq> '''' \<and> time_Sub now (asc_minted s) < tokenLifetime")
  case True
  then have "r = Inr (asc_token s) \<and> m' = m \<and> w' = w" using assms(1) by (auto simp: apple_Token_def Let_def s_def)
  then show ?thesis using held True by blast
next
  case False
  then have due: "asc_token s = '''' \<or> tokenLifetime \<le> time_Sub now (asc_minted s)" by auto
  obtain x v where x: "apple_sign B (asc_id s) (asc_key s) now w = (x, v)" by fastforce
  show ?thesis
  proof (cases x)
    case (Inl e)
    then have "r = Inl e \<and> m' = m" using assms(1) x False by (auto simp: apple_Token_def Let_def s_def)
    then show ?thesis using failed due by blast
  next
    case (Inr t)
    then have "r = Inr t \<and> w' = v \<and> m' = m\<lparr>ami_store := (ami_store m)[a := s\<lparr>asc_token := t, asc_minted := now\<rparr>]\<rparr>"
      using assms(1) x False by (auto simp: apple_Token_def Let_def s_def)
    then show ?thesis using signed due x Inr by blast
  qed
qed

lemma apple_step_keeps:
  assumes "apple_step B m m'" "minter_ok B m"
  shows "minter_ok B m' \<and> same_signers (ami_store m) (ami_store m')"
  using assms
proof (induction rule: apple_step.induct)
  case (Opened i p8 m r m')
  from Opened(2) show ?case
  proof (cases rule: apple_Open_cases)
    case (fresh key kept)
    let ?s = "\<lparr>asc_key = key, asc_id = i, asc_token = '''', asc_minted = 0\<rparr>"
    have "list_all (entry_ok B (ami_store m @ [?s])) kept"
      using Opened(3) fresh(3) entries_ok_later [OF _ same_signers_append] by (auto simp: minter_ok_def)
    moreover have "entry_ok B (ami_store m @ [?s]) (apple_digest B p8 i, length (ami_store m))"
      using Opened(1) fresh(2) by (auto simp: entry_ok_def)
    moreover have "length kept < maxCachedIdentities" using fresh(3) by (auto simp: maxCachedIdentities_def)
    ultimately show ?thesis
      using Opened(3) fresh(4) by (simp add: minter_ok_def cached_ok_def same_signers_append)
  qed (use Opened(3) in simp_all)
next
  case (Asked a m now w r m' w')
  from Asked(2) show ?case
  proof (cases rule: apple_Token_cases)
    case (signed t)
    let ?s = "(ami_store m ! a)\<lparr>asc_token := t, asc_minted := now\<rparr>"
    have kept: "same_signers (ami_store m) ((ami_store m)[a := ?s])"
      using Asked(1) by (rule same_signers_update) simp_all
    moreover have "cached_ok B ?s" using signed(2) by (auto simp: cached_ok_def signed_by_def)
    then have "list_all (cached_ok B) ((ami_store m)[a := ?s])"
      using Asked(3) by (auto simp: minter_ok_def list_all_iff dest: set_update_subset_insert [THEN subsetD])
    ultimately show ?thesis
      using Asked(3) signed(3) entries_ok_later [OF _ kept] by (auto simp: minter_ok_def)
  qed (use Asked(3) in simp_all)
next
  case (Expired a m)
  let ?s = "(ami_store m ! a)\<lparr>asc_token := '''', asc_minted := 0\<rparr>"
  have kept: "same_signers (ami_store m) ((ami_store m)[a := ?s])"
    using Expired(1) by (rule same_signers_update) simp_all
  moreover have "list_all (cached_ok B) ((ami_store m)[a := ?s])"
    using Expired(2) by (auto simp: minter_ok_def cached_ok_def list_all_iff dest: set_update_subset_insert [THEN subsetD])
  ultimately show ?case
    using Expired(2) entries_ok_later [OF _ kept] by (auto simp: minter_ok_def apple_Expire_def)
qed

lemma apple_steps_keep:
  assumes "apple_steps B m m'" "minter_ok B m"
  shows "minter_ok B m' \<and> same_signers (ami_store m) (ami_store m')"
  using assms
proof (induction rule: rtranclp_induct)
  case (step m1 m2)
  then show ?case using apple_step_keeps [OF step(2)] same_signers_trans by blast
qed simp

lemma minter_ok_new: "apple_NewMinter True = Inr m \<Longrightarrow> minter_ok B m"
  by (auto simp: apple_NewMinter_def minter_ok_def)

lemma digested_apart:
  assumes "plain_names i" "plain_names j" "inj (atl_sha256 B)" "apple_digest B p8 i = apple_digest B q8 j"
  shows "i = j \<and> p8 = q8"
proof -
  have split: "x = y \<and> s = t" if "x @ c # s = y @ c # t" "c \<notin> set x" "c \<notin> set y" for x y s t :: string and c
    using that
  proof (induction x arbitrary: y)
    case Nil
    then show ?case by (cases y) auto
  next
    case (Cons a x)
    then show ?case by (cases y) auto
  qed
  have "api_KeyID i @ CHR 0x00 # api_TeamID i @ CHR 0x00 # p8 = api_KeyID j @ CHR 0x00 # api_TeamID j @ CHR 0x00 # q8"
    using assms(3,4) by (simp add: apple_digest_def inj_eq)
  from split [OF this] assms(1,2) have "api_KeyID i = api_KeyID j"
    "api_TeamID i @ CHR 0x00 # p8 = api_TeamID j @ CHR 0x00 # q8" by (auto simp: plain_names_def)
  moreover from split [OF this(2)] assms(1,2) have "api_TeamID i = api_TeamID j" "p8 = q8" by (auto simp: plain_names_def)
  ultimately show ?thesis by simp
qed

lemma apple_Open_signer:
  assumes "minter_ok B m" "plain_names i" "inj (atl_sha256 B)" "apple_Open B p8 i m = (Inr a, m')"
  shows "a < length (ami_store m') \<and> asc_id (ami_store m' ! a) = i \<and> apple_parseKey B p8 = Inr (asc_key (ami_store m' ! a))"
  using assms(4)
proof (cases rule: apple_Open_cases)
  case (cached b)
  then have "entry_ok B (ami_store m) (apple_digest B p8 i, a)"
    using assms(1) by (auto simp: minter_ok_def list_all_iff dest: map_of_SomeD)
  then show ?thesis using cached(2) digested_apart [OF assms(2) _ assms(3)] by (auto simp: entry_ok_def)
qed auto

text \<open>
  C28. A token of Apple's is the right one and in time, however the cache was shared, cleared or expired
  between opening the identity and asking: the source opened for a key file and an identity answers only
  tokens signed for that identity with that key, less than 45 minutes before; it signs anew only when it
  holds none or the last is 45 minutes old; and the cache never holds more than 1024 sources. (The digest
  is taken to be free of collisions.)
\<close>

theorem apple_token_right_and_fresh:
  assumes "inj (atl_sha256 B)" "apple_NewMinter True = Inr m0" "apple_steps B m0 m" "plain_names i"
    and "apple_Open B p8 i m = (Inr a, m1)" "apple_steps B m1 m2" "apple_Token B a now (m2, w) = (Inr t, m3, w')"
  shows "(\<exists>key minted. apple_parseKey B p8 = Inr key \<and> signed_by B i key minted t \<and> time_Sub now minted < tokenLifetime)
    \<and> (m3 = m2 \<and> w' = w \<and> t = asc_token (ami_store m2 ! a)
       \<or> asc_token (ami_store m2 ! a) = '''' \<or> tokenLifetime \<le> time_Sub now (asc_minted (ami_store m2 ! a)))
    \<and> length (ami_sources m3) \<le> maxCachedIdentities"
proof -
  have ok: "minter_ok B m" using apple_steps_keep [OF assms(3)] minter_ok_new [OF assms(2)] by blast
  have "apple_step B m m1" using assms(4,5) by (rule apple_step.Opened)
  then have ok1: "minter_ok B m1" using apple_step_keeps [OF _ ok] by blast
  note opened = apple_Open_signer [OF ok assms(4,1,5)]
  have ok2: "minter_ok B m2" "same_signers (ami_store m1) (ami_store m2)" using apple_steps_keep [OF assms(6) ok1] by blast+
  then have a: "a < length (ami_store m2)" "asc_id (ami_store m2 ! a) = i"
    "apple_parseKey B p8 = Inr (asc_key (ami_store m2 ! a))"
    using opened by (auto simp: same_signers_def)
  have "minter_ok B m3" using apple_step_keeps [OF apple_step.Asked [OF a(1) assms(7)] ok2(1)] by blast
  moreover have "cached_ok B (ami_store m2 ! a)" using ok2(1) a(1) by (simp add: minter_ok_def list_all_length)
  ultimately have held: "length (ami_sources m3) \<le> maxCachedIdentities"
    "asc_token (ami_store m2 ! a) \<noteq> '''' \<Longrightarrow> signed_by B i (asc_key (ami_store m2 ! a)) (asc_minted (ami_store m2 ! a))
      (asc_token (ami_store m2 ! a))"
    using a(2) by (auto simp: minter_ok_def cached_ok_def)
  from assms(7) show ?thesis
  proof (cases rule: apple_Token_cases)
    case held
    then show ?thesis using a(3) \<open>length (ami_sources m3) \<le> _\<close> \<open>_ \<Longrightarrow> signed_by _ _ _ _ _\<close> by auto
  next
    case (signed t')
    then have "signed_by B i (asc_key (ami_store m2 ! a)) now t" using a(2) by (auto simp: signed_by_def)
    moreover have "time_Sub now now < tokenLifetime" by (simp add: time_Sub_def tokenLifetime_def minute_def second_def)
    ultimately show ?thesis using a(3) held(1) signed(4) by blast
  qed simp
qed

definition demo_apple :: "unit apple_lib" where
  "demo_apple = \<lparr>atl_lib = demo_golib, atl_pem = Some, atl_pkcs8 = \<lambda>b. Some (EcdsaKey ''P-256'' b), atl_sha256 = id,
     atl_Marshal = \<lambda>_. Inr ''{}'', atl_ecdsa = \<lambda>_ _ w. (Some (1, 2), w)\<rparr>"

definition demo_names :: apple_identity where
  "demo_names = \<lparr>api_KeyID = ''KEY1'', api_TeamID = ''TEAM1''\<rparr>"

definition empty_minter :: apple_minter where
  "empty_minter = \<lparr>ami_store = [], ami_sources = []\<rparr>"

lemma demo_apple_opens: "apple_Open demo_apple ''p8'' demo_names empty_minter = (Inr 0, snd (apple_Open demo_apple ''p8'' demo_names empty_minter))"
proof -
  have "TrimSpace ''KEY1'' = ''KEY1''" "TrimSpace ''TEAM1'' = ''TEAM1''"
    by (rule TrimSpace_no_space; simp add: byte_def is_space_rune_def)+
  then show ?thesis
    by (simp add: apple_Open_def apple_identity_validate_def apple_parseKey_def demo_apple_def demo_names_def empty_minter_def Let_def)
qed

theorem apple_token_right_and_fresh_witness:
  "\<exists>t key minted. fst (apple_Token demo_apple 0 7 (snd (apple_Open demo_apple ''p8'' demo_names empty_minter), ())) = Inr t
    \<and> apple_parseKey demo_apple ''p8'' = Inr key \<and> signed_by demo_apple demo_names key minted t"
proof -
  let ?m = "snd (apple_Open demo_apple ''p8'' demo_names empty_minter)"
  have inj: "inj (atl_sha256 demo_apple)" by (simp add: demo_apple_def)
  have new: "apple_NewMinter True = Inr empty_minter" by (simp add: apple_NewMinter_def empty_minter_def)
  have plain: "plain_names demo_names" by (simp add: plain_names_def demo_names_def)
  have "\<exists>t m3. apple_Token demo_apple 0 7 (?m, ()) = (Inr t, m3, ())"
    by (simp add: apple_Token_def apple_sign_def demo_apple_def Let_def)
  then obtain t m3 where run: "apple_Token demo_apple 0 7 (?m, ()) = (Inr t, m3, ())" by blast
  then show ?thesis
    using apple_token_right_and_fresh [OF inj new rtranclp.rtrancl_refl plain demo_apple_opens rtranclp.rtrancl_refl run] by auto
qed

subsection \<open>A token Apple calls expired\<close>

text \<open>A state that holds the minter, and a sender's view of one source of it.\<close>

record 'v apple_world =
  aw_minter :: apple_minter
  aw_now :: time
  aw_rest :: 'v

definition minter_source :: "'v apple_lib \<Rightarrow> nat \<Rightarrow> 'v apple_world apple_source" where
  "minter_source L a =
    \<lparr>as_Token = \<lambda>w. (case apple_Token L a (aw_now w) (aw_minter w, aw_rest w) of
         (r, m, v) \<Rightarrow> (r, w\<lparr>aw_minter := m, aw_rest := v\<rparr>)),
     as_Expire = \<lambda>w. w\<lparr>aw_minter := apple_Expire a (aw_minter w)\<rparr>\<rparr>"

lemma apns_Send_answered:
  assumes "apns_request B S m w = (Inr req, w1)" "tr_Do (asd_client S) req w1 = (Inr resp, w2)"
    and "rs_StatusCode resp < 200 \<or> 300 \<le> rs_StatusCode resp"
  shows "apns_Send B S m w = (Inl (apns_classify (pl_lib B) (rs_StatusCode resp) (pl_answer B (rs_Body resp))),
     if apn_Reason (pl_answer B (rs_Body resp)) = reasonExpiredToken then as_Expire (asd_tokens S) w2 else w2)"
  using assms by (simp add: apns_Send_def Let_def)

lemma reasons_apart:
  "reasonExpiredToken \<noteq> reasonBadDeviceToken" "reasonExpiredToken \<noteq> reasonUnregistered" "reasonExpiredToken \<noteq> reasonNotForTopic"
  by (simp_all add: reasonExpiredToken_def reasonBadDeviceToken_def reasonUnregistered_def reasonNotForTopic_def)

text \<open>
  C29. A notification Apple refuses because the provider token has expired is tried again, and with
  another token: the failure is temporary, and in the state it leaves the source holds no token, so
  whenever it is asked next, it signs.
\<close>

theorem expired_token_is_replaced:
  assumes "asd_tokens S = minter_source L a" "apns_request B S m w = (Inr req, w1)"
    and "tr_Do (asd_client S) req w1 = (Inr resp, w2)" "a < length (ami_store (aw_minter w2))"
    and "400 \<le> rs_StatusCode resp" "apn_Reason (pl_answer B (rs_Body resp)) = ''ExpiredProviderToken''"
  shows "\<exists>e w3. apns_Send B S m w = (Inl e, w3) \<and> SendKindOf e = SendTransient \<and> SendRetryAfter e = 10 * second
    \<and> (\<forall>later v. fst (apple_Token L a later (aw_minter w3, v)) =
         fst (apple_sign L (asc_id (ami_store (aw_minter w2) ! a)) (asc_key (ami_store (aw_minter w2) ! a)) later v))"
proof -
  let ?e = "apns_classify (pl_lib B) (rs_StatusCode resp) (pl_answer B (rs_Body resp))"
  let ?w3 = "w2\<lparr>aw_minter := apple_Expire a (aw_minter w2)\<rparr>"
  have reason: "apn_Reason (pl_answer B (rs_Body resp)) = reasonExpiredToken"
    using assms(6) by (simp add: reasonExpiredToken_def)
  have "rs_StatusCode resp < 200 \<or> 300 \<le> rs_StatusCode resp" using assms(5) by linarith
  from apns_Send_answered [OF assms(2,3) this] have sent: "apns_Send B S m w = (Inl ?e, ?w3)"
    using reason assms(1) by (simp add: minter_source_def)
  have "SendKindOf ?e = SendTransient \<and> SendRetryAfter ?e = 10 * second"
    using reason reasons_apart by (simp add: apns_classify_def Let_def SendRetryAfter_def apns_defaultRetryAfter_def)
  moreover have "fst (apple_Token L a later (aw_minter ?w3, v)) =
      fst (apple_sign L (asc_id (ami_store (aw_minter w2) ! a)) (asc_key (ami_store (aw_minter w2) ! a)) later v)" for later v
    using assms(4) by (simp add: apple_Token_def apple_Expire_def Let_def split: sum.split prod.split)
  ultimately show ?thesis using sent by blast
qed

definition demo_apns_lib :: apns_lib where
  "demo_apns_lib = \<lparr>pl_lib = demo_golib, pl_Marshal = \<lambda>_. Inr ''{}'', pl_PathEscape = id,
     pl_config = \<lambda>_. Inl (Foreign ''no settings''), pl_answer = \<lambda>s. \<lparr>apn_Reason = s, apn_Timestamp = 0\<rparr>, pl_ulid = \<lambda>_. None\<rparr>"

definition refusing_apple :: "unit apple_world transport" where
  "refusing_apple = \<lparr>tr_NewRequest = \<lambda>_. None,
     tr_Do = \<lambda>req w. (Inr \<lparr>rs_StatusCode = 403, rs_Header = [], rs_Body = ''ExpiredProviderToken''\<rparr>, w)\<rparr>"

definition demo_apns :: "unit apple_world apns_sender" where
  "demo_apns = \<lparr>asd_client = refusing_apple, asd_tokens = minter_source demo_apple 0,
     asd_cfg = \<lparr>apc_KeyID = ''KEY1'', apc_TeamID = ''TEAM1'', apc_Topic = ''com.acme'', apc_Environment = ''production''\<rparr>,
     asd_host = productionHost\<rparr>"

definition demo_apple_world :: "unit apple_world" where
  "demo_apple_world = \<lparr>aw_minter = \<lparr>ami_store = [\<lparr>asc_key = ''p8'', asc_id = demo_names, asc_token = ''old'', asc_minted = 7\<rparr>],
       ami_sources = []\<rparr>, aw_now = 8, aw_rest = ()\<rparr>"

definition demo_push :: message where
  "demo_push = \<lparr>msg_DeliveryID = '''', msg_Recipient = \<lparr>rcp_Channel = ChannelAPNs,
     rcp_Address = ''0123456789abcdef0123456789abcdef''\<rparr>, msg_Title = '''', msg_Body = ''hi'', msg_Metadata = []\<rparr>"

lemma demo_push_requested: "\<exists>req. apns_request demo_apns_lib demo_apns demo_push demo_apple_world = (Inr req, demo_apple_world)"
proof -
  have device: "apns_deviceToken ''0123456789abcdef0123456789abcdef'' = Inr ''0123456789abcdef0123456789abcdef''"
  proof -
    have "TrimSpace ''0123456789abcdef0123456789abcdef'' = ''0123456789abcdef0123456789abcdef''"
      by (rule TrimSpace_no_space) (simp_all add: byte_def is_space_rune_def)
    then show ?thesis
      by (simp add: apns_deviceToken_def isHex_def byte_def apns_minDeviceTokenLen_def apns_maxDeviceTokenLen_def)
  qed
  have "TrimSpace ''hi'' = ''hi''" "TrimSpace '''' = ''''"
    by (rule TrimSpace_no_space; simp add: byte_def is_space_rune_def)+
  then have body: "apns_payload demo_apns_lib demo_push = Inr ''{}''"
    by (simp add: apns_payload_def demo_push_def demo_apns_lib_def maxPayloadBytes_def Let_def)
  have "as_Token (asd_tokens demo_apns) demo_apple_world = (Inr ''old'', demo_apple_world)"
    by (simp add: demo_apns_def minter_source_def demo_apple_world_def apple_Token_def time_Sub_def tokenLifetime_def
      minute_def second_def)
  then show ?thesis
    using device body by (simp add: apns_request_def demo_push_def demo_apns_def refusing_apple_def Let_def)
qed

theorem expired_token_is_replaced_witness:
  "\<exists>e w3. apns_Send demo_apns_lib demo_apns demo_push demo_apple_world = (Inl e, w3) \<and> SendKindOf e = SendTransient
    \<and> fst (apple_Token demo_apple 0 9 (aw_minter w3, ())) = fst (apple_sign demo_apple demo_names ''p8'' 9 ())"
proof -
  obtain req where req: "apns_request demo_apns_lib demo_apns demo_push demo_apple_world = (Inr req, demo_apple_world)"
    using demo_push_requested by blast
  have tokens: "asd_tokens demo_apns = minter_source demo_apple 0" by (simp add: demo_apns_def)
  have answer: "tr_Do (asd_client demo_apns) req demo_apple_world
      = (Inr \<lparr>rs_StatusCode = 403, rs_Header = [], rs_Body = ''ExpiredProviderToken''\<rparr>, demo_apple_world)"
    by (simp add: demo_apns_def refusing_apple_def)
  from expired_token_is_replaced [OF tokens req answer]
  obtain e w3 where "apns_Send demo_apns_lib demo_apns demo_push demo_apple_world = (Inl e, w3)" "SendKindOf e = SendTransient"
    "\<And>later v. fst (apple_Token demo_apple 0 later (aw_minter w3, v)) =
       fst (apple_sign demo_apple (asc_id (ami_store (aw_minter demo_apple_world) ! 0))
         (asc_key (ami_store (aw_minter demo_apple_world) ! 0)) later v)"
    by (auto simp: demo_apns_lib_def demo_apple_world_def)
  then show ?thesis by (auto simp: demo_apple_world_def)
qed

end
