(* ===== verification/Mail.thy ===== *)
theory Mail
  imports Providers
begin

text \<open>
  Mail: \<open>internal/infra/smtp\<close> hands a message to a server, \<open>internal/adapter/sender/email\<close> sends
  notifications through it and \<open>internal/adapter/mailer\<close> the sign-in codes. The mail library, the parser of
  addresses and html/template are parameters. A text that cannot be cut is the panic it is: None.
\<close>

subsection \<open>What a failure says\<close>

text \<open>
  Failures of the validation carry no reply code; those of the library are wrapped with the code found in
  their text, the operation and the redacted text.
\<close>

datatype mail_error = Uncoded goerr | Coded (reply_code: int) (failed_op: string) (redacted: string)

fun mail_error_text :: "golib \<Rightarrow> mail_error \<Rightarrow> string" where
  "mail_error_text L (Uncoded e) = Error L e"
| "mail_error_text L (Coded code op err) =
    (if code = 0 then Sprintf L ''smtp: %s: %v'' [FmtS op, FmtS err]
     else Sprintf L ''smtp: %s: %d: %v'' [FmtS op, FmtD code, FmtS err])"

text \<open>The error as the rest of the program sees it. What is below it is a text with no cause.\<close>

fun mail_goerr :: "golib \<Rightarrow> mail_error \<Rightarrow> goerr" where
  "mail_goerr L (Uncoded e) = e"
| "mail_goerr L (Coded code op err) = Foreign (mail_error_text L (Coded code op err))"

definition isBoundary :: "char \<Rightarrow> bool" where
  "isBoundary b \<longleftrightarrow> b \<in> {CHR '' '', CHR '':'', CHR 0x09, CHR 0x0A, CHR 0x22, CHR ''(''}"

text \<open>The loop over the positions: \<open>prev\<close> is the byte before the one looked at.\<close>

fun replyCode_from :: "char option \<Rightarrow> string \<Rightarrow> int" where
  "replyCode_from prev (a # b # c # rest) =
    (let code = int (byte a - 48) * 100 + int (byte b - 48) * 10 + int (byte c - 48) in
     if (case prev of None \<Rightarrow> True | Some p \<Rightarrow> isBoundary p)
        \<and> is_digit a \<and> is_digit b \<and> is_digit c
        \<and> (case rest of [] \<Rightarrow> True | d # _ \<Rightarrow> isBoundary d \<or> d = CHR ''-'')
        \<and> 200 \<le> code \<and> code \<le> 599
     then code else replyCode_from (Some a) (b # c # rest))"
| "replyCode_from prev msg = 0"

definition smtp_replyCode :: "string \<Rightarrow> int" where
  "smtp_replyCode msg = replyCode_from None msg"

text \<open>\<open>strings.Index\<close>.\<close>

fun Index :: "string \<Rightarrow> string \<Rightarrow> nat option" where
  "Index [] sub = (if sub = [] then Some 0 else None)"
| "Index (c # cs) sub = (if HasPrefix (c # cs) sub then Some 0 else map_option Suc (Index cs sub))"

definition smtp_redact :: "golib \<Rightarrow> string \<Rightarrow> string option" where
  "smtp_redact L s =
    (case Index (ToLower L s) ''password'' of
       None \<Rightarrow> Some s
     | Some i \<Rightarrow> if i \<le> length s then Some (take i s @ ''[REDACTED]'') else None)"

definition smtp_wrap :: "golib \<Rightarrow> string \<Rightarrow> string \<Rightarrow> mail_error option" where
  "smtp_wrap L op err = map_option (Coded (smtp_replyCode err) op) (smtp_redact L err)"

subsection \<open>Opening an account\<close>

definition implicitTLSPort :: int where "implicitTLSPort = 465"
definition defaultPort :: int where "defaultPort = 587"

record dialer_config =
  mdc_Timeout :: duration
  mdc_TrustAnyCertificate :: bool

definition NewDialer :: "dialer_config \<Rightarrow> dialer_config result" where
  "NewDialer cfg = (if mdc_Timeout cfg \<le> 0 then Inl (Text ''smtp: timeout must be above zero'' []) else Inr cfg)"

record identity =
  sid_Host :: string
  sid_Port :: int
  sid_Username :: string
  sid_Password :: string

definition identity_validate :: "identity \<Rightarrow> unit result" where
  "identity_validate i =
    (if TrimSpace (sid_Host i) = '''' then Inl (Text ''smtp: no host'' [])
     else if sid_Port i < 1 \<or> 65535 < sid_Port i then Inl (Text ''smtp: port %d is not usable'' [FmtD (sid_Port i)])
     else if sid_Username i \<noteq> '''' \<and> sid_Password i = '''' then Inl (Text ''smtp: a user with no password'' [])
     else Inr ())"

text \<open>
  The options of the library's client: TLS is mandatory whatever the port; one port speaks it from the
  first byte.
\<close>

datatype smtp_auth = NoAuth | AutoDiscover string string

record client_options =
  co_Host :: string
  co_Port :: int
  co_Timeout :: duration
  co_TLSMandatory :: bool
  co_SSL :: bool
  co_Insecure :: "string option"
  co_Auth :: smtp_auth

record mail_message =
  mm_From :: string
  mm_To :: string
  mm_Subject :: string
  mm_Body :: string
  mm_ContentType :: string
  mm_HTML :: string

text \<open>
  The library: a refusal to build a client, a refusal of a sender's or a recipient's address (its text),
  the id a message is given, and the conversation with the server.
\<close>

record 'w mail_lib =
  gm_lib :: golib
  gm_NewClient :: "client_options \<Rightarrow> string option"
  gm_From :: "string \<Rightarrow> string option"
  gm_To :: "string \<Rightarrow> bool"
  gm_MessageID :: "'w \<Rightarrow> string list \<times> 'w"
  gm_DialAndSend :: "client_options \<Rightarrow> mail_message \<Rightarrow> string list \<Rightarrow> 'w \<Rightarrow> string option \<times> 'w"

definition mail_Open :: "'w mail_lib \<Rightarrow> dialer_config \<Rightarrow> identity \<Rightarrow> (mail_error + client_options) option" where
  "mail_Open G cfg i0 =
    (let i = (if sid_Port i0 = 0 then i0\<lparr>sid_Port := defaultPort\<rparr> else i0) in
     case identity_validate i of
       Inl err \<Rightarrow> Some (Inl (Uncoded err))
     | Inr _ \<Rightarrow>
         let opts = \<lparr>co_Host = sid_Host i, co_Port = sid_Port i, co_Timeout = mdc_Timeout cfg, co_TLSMandatory = True,
           co_SSL = (sid_Port i = implicitTLSPort),
           co_Insecure = (if mdc_TrustAnyCertificate cfg then Some (sid_Host i) else None),
           co_Auth = (if sid_Username i = '''' then NoAuth else AutoDiscover (sid_Username i) (sid_Password i))\<rparr> in
         case gm_NewClient G opts of
           Some err \<Rightarrow> map_option Inl (smtp_wrap (gm_lib G) ''open'' err)
         | None \<Rightarrow> Some (Inr opts))"

definition Trim_angles :: "string \<Rightarrow> string" where
  "Trim_angles s =
    (let angle = (\<lambda>c. c = CHR ''<'' \<or> c = CHR ''>'') in rev (dropWhile angle (rev (dropWhile angle s))))"

definition mail_Send :: "'w mail_lib \<Rightarrow> client_options \<Rightarrow> mail_message \<Rightarrow> 'w \<Rightarrow> (mail_error + string) option \<times> 'w" where
  "mail_Send G client m w =
    (let fault = (\<lambda>op err. map_option Inl (smtp_wrap (gm_lib G) op err)) in
     case gm_From G (mm_From m) of
       Some err \<Rightarrow> (fault ''from'' err, w)
     | None \<Rightarrow>
         if \<not> gm_To G (mm_To m) then (fault ''to'' ''the recipient address cannot be used'', w)
         else case gm_MessageID G w of (ids, w1) \<Rightarrow>
          (case gm_DialAndSend G client m ids w1 of
             (Some err, w2) \<Rightarrow> (fault ''send'' err, w2)
           | (None, w2) \<Rightarrow>
               (case ids of
                  [] \<Rightarrow> (fault ''send'' ''the message went out with no Message-ID'', w2)
                | i # _ \<Rightarrow> (Some (Inr (Trim_angles i)), w2))))"

subsection \<open>The mail sender\<close>

record email_config =
  emc_Host :: string
  emc_Port :: int
  emc_Username :: string
  emc_From :: string
  emc_ContentType :: string

definition email_TypeHTML :: string where "email_TypeHTML = ''text/html''"

definition email_validate :: "golib \<Rightarrow> email_config \<Rightarrow> email_config result" where
  "email_validate L c =
    (if \<not> ParseAddress L (emc_From c) then
       Inl (WithStr (InvalidInputErr ''email settings have no usable from address'') (Text ''from %q'' [FmtS (emc_From c)]))
     else if emc_ContentType c = '''' then Inr (c\<lparr>emc_ContentType := TypePlain\<rparr>)
     else if emc_ContentType c = TypePlain \<or> emc_ContentType c = email_TypeHTML then Inr c
     else Inl (WithStr (InvalidInputErr ''email settings name an unknown content type'')
       (Text ''content_type %q, want %q or %q'' [FmtS (emc_ContentType c), FmtS TypePlain, FmtS email_TypeHTML])))"

definition email_ParseConfig :: "golib \<Rightarrow> (string \<Rightarrow> email_config result) \<Rightarrow> string \<Rightarrow> email_config result" where
  "email_ParseConfig L unmarshal raw =
    (if raw = '''' then email_validate L
       \<lparr>emc_Host = '''', emc_Port = 0, emc_Username = '''', emc_From = '''', emc_ContentType = ''''\<rparr>
     else case unmarshal raw of
         Inl err \<Rightarrow> Inl (WithErr (InvalidInputErr ''email settings are not valid json'') err)
       | Inr c \<Rightarrow> email_validate L c)"

record email_sender =
  esd_dialer :: dialer_config
  esd_cfg :: email_config
  esd_id :: identity

definition checkIdentity :: "'w mail_lib \<Rightarrow> dialer_config \<Rightarrow> identity \<Rightarrow> unit result option" where
  "checkIdentity G d i =
    map_option (\<lambda>r. case r of
        Inl err \<Rightarrow> Inl (WithErr (WithStr (InvalidInputErr ''email settings cannot be used'')
          (Text ''host %q'' [FmtS (sid_Host i)])) (mail_goerr (gm_lib G) err))
      | Inr _ \<Rightarrow> Inr ()) (mail_Open G d i)"

definition email_New :: "'w mail_lib \<Rightarrow> dialer_config option \<Rightarrow> email_config \<Rightarrow> string \<Rightarrow> email_sender result option" where
  "email_New G dialer_opt cfg password =
    (case dialer_opt of
       None \<Rightarrow> Some (Inl (InternalErr ''email sender has no dialer''))
     | Some d \<Rightarrow>
    (case email_validate (gm_lib G) cfg of
       Inl err \<Rightarrow> Some (Inl err)
     | Inr cfg \<Rightarrow>
         let i = \<lparr>sid_Host = emc_Host cfg, sid_Port = emc_Port cfg, sid_Username = emc_Username cfg, sid_Password = password\<rparr> in
         map_option (\<lambda>r. then_result r (\<lambda>_. Inr \<lparr>esd_dialer = d, esd_cfg = cfg, esd_id = i\<rparr>)) (checkIdentity G d i)))"

fun email_replyCode :: "mail_error \<Rightarrow> int" where
  "email_replyCode (Coded code op err) = code"
| "email_replyCode (Uncoded e) = 0"

definition email_classify :: "golib \<Rightarrow> mail_error \<Rightarrow> goerr" where
  "email_classify L err =
    (let code = email_replyCode err; detail = mail_error_text L err in
     if 500 \<le> code then Send SendPermanent 0 detail (Some (mail_goerr L err))
     else if 400 \<le> code then Send SendTransient 0 detail (Some (mail_goerr L err))
     else Send SendTransient 0 detail (Some (mail_goerr L err)))"

definition mail_of :: "email_sender \<Rightarrow> message \<Rightarrow> mail_message" where
  "mail_of S m = \<lparr>mm_From = emc_From (esd_cfg S), mm_To = rcp_Address (msg_Recipient m), mm_Subject = msg_Title m,
     mm_Body = msg_Body m, mm_ContentType = emc_ContentType (esd_cfg S), mm_HTML = ''''\<rparr>"

definition email_Send :: "'w mail_lib \<Rightarrow> email_sender \<Rightarrow> message \<Rightarrow> 'w \<Rightarrow> string result option \<times> 'w" where
  "email_Send G S m w =
    (case mail_Open G (esd_dialer S) (esd_id S) of
       None \<Rightarrow> (None, w)
     | Some (Inl err) \<Rightarrow> (Some (Inl (email_classify (gm_lib G) err)), w)
     | Some (Inr client) \<Rightarrow>
         (case mail_Send G client (mail_of S m) w of
            (None, w') \<Rightarrow> (None, w')
          | (Some (Inl err), w') \<Rightarrow> (Some (Inl (email_classify (gm_lib G) err)), w')
          | (Some (Inr i), w') \<Rightarrow> (Some (Inr i), w')))"

subsection \<open>The sign-in letter\<close>

text \<open>The letter in html is a template's; \<open>rendered\<close> is its rendering.\<close>

definition letter_subject :: string where
  "letter_subject = ''Your srosha sign-in code''"

definition letter_body :: "string \<Rightarrow> string" where
  "letter_body code =
    ''Your sign-in code is:'' @ [CHR 0x0A, CHR 0x0A] @ ''    '' @ code @ [CHR 0x0A, CHR 0x0A]
    @ ''Type it into the page that asked for it.'' @ [CHR 0x0A]
    @ ''Ten minutes. One use. Three guesses.'' @ [CHR 0x0A, CHR 0x0A]
    @ ''If you didn'' @ [CHR 0x27] @ ''t ask for this, somebody typed your address. Nothing has'' @ [CHR 0x0A]
    @ ''happened to your account and there'' @ [CHR 0x27] @ ''s nothing you need to do.'' @ [CHR 0x0A]"

definition letter_compose :: "string \<Rightarrow> string \<Rightarrow> string \<Rightarrow> string \<Rightarrow> mail_message" where
  "letter_compose sender to_address code html =
    \<lparr>mm_From = sender, mm_To = to_address, mm_Subject = letter_subject, mm_Body = letter_body code,
     mm_ContentType = ''text/plain'', mm_HTML = html\<rparr>"

record letter_mailer =
  mlr_dialer :: dialer_config
  mlr_id :: identity
  mlr_from :: string

definition mailer_New :: "dialer_config option \<Rightarrow> goerr option \<Rightarrow> identity \<Rightarrow> string \<Rightarrow> letter_mailer result" where
  "mailer_New dialer_opt unreadable i sender =
    (case dialer_opt of
       None \<Rightarrow> Inl (InternalErr ''mailer has no dialer'')
     | Some d \<Rightarrow>
         if TrimSpace sender = '''' then Inl (InternalErr ''mailer has no from address'')
         else case unreadable of
             Some err \<Rightarrow> Inl (WithErr (WithStr (InternalErr ''a letter could not be read'') (Text ''signin_code'' [])) err)
           | None \<Rightarrow> Inr \<lparr>mlr_dialer = d, mlr_id = i, mlr_from = sender\<rparr>)"

definition mailer_SendCode ::
    "'w mail_lib \<Rightarrow> (string \<Rightarrow> string result) \<Rightarrow> letter_mailer \<Rightarrow> string \<Rightarrow> string \<Rightarrow> 'w \<Rightarrow> unit result option \<times> 'w" where
  "mailer_SendCode G rendered M email code w =
    (let unsent = (\<lambda>detail err. Some (Inl (WithErr (WithStr (UnavailableErr ''the sign-in code could not be sent'') detail)
           (mail_goerr (gm_lib G) err)))) in
     case rendered code of
       Inl err \<Rightarrow> (Some (Inl (WithErr (WithStr (InternalErr ''a letter could not be written'') (Text ''signin_code'' [])) err)), w)
     | Inr html \<Rightarrow>
    (case mail_Open G (mlr_dialer M) (mlr_id M) of
       None \<Rightarrow> (None, w)
     | Some (Inl err) \<Rightarrow> (unsent (Text ''open smtp'' []) err, w)
     | Some (Inr client) \<Rightarrow>
         (case mail_Send G client (letter_compose (mlr_from M) email code html) w of
            (None, w') \<Rightarrow> (None, w')
          | (Some (Inl err), w') \<Rightarrow> (unsent (Text ''send to %q'' [FmtS email]) err, w')
          | (Some (Inr i), w') \<Rightarrow> (Some (Inr ()), w'))))"

subsection \<open>The first digit of a reply decides\<close>

lemma replyCode_from_range: "replyCode_from prev s = 0 \<or> (200 \<le> replyCode_from prev s \<and> replyCode_from prev s \<le> 599)"
  by (induction prev s rule: replyCode_from.induct) (auto simp: Let_def)

lemma replyCode_from_skip:
  "\<not> is_digit a \<Longrightarrow> replyCode_from prev (a # s) = replyCode_from (Some a) s"
  by (cases "(prev, a # s)" rule: replyCode_from.cases) (auto simp: Let_def)

text \<open>Text without digits before the code is passed over; its last byte has to be a boundary.\<close>

lemma replyCode_from_before:
  "\<forall>c \<in> set before. \<not> is_digit c \<Longrightarrow>
     replyCode_from prev (before @ s) = replyCode_from (if before = [] then prev else Some (last before)) s"
  by (induction before arbitrary: prev) (simp_all add: replyCode_from_skip)

lemma replyCode_at:
  assumes "is_digit a" "is_digit b" "is_digit c" "CHR ''2'' \<le> a" "a \<le> CHR ''5''"
    and "case prev of None \<Rightarrow> True | Some p \<Rightarrow> isBoundary p"
  shows "replyCode_from prev (a # b # c # CHR '' '' # rest) =
    int (byte a - 48) * 100 + int (byte b - 48) * 10 + int (byte c - 48)"
proof -
  have a: "50 \<le> byte a" "byte a \<le> 53"
    using assms(4,5) by (simp_all add: byte_def less_eq_char_def)
  have "48 \<le> byte b \<and> byte b \<le> 57" "48 \<le> byte c \<and> byte c \<le> 57" using assms(2,3) by (auto simp: is_digit_def)
  then have "200 \<le> int (byte a - 48) * 100 + int (byte b - 48) * 10 + int (byte c - 48)"
    "int (byte a - 48) * 100 + int (byte b - 48) * 10 + int (byte c - 48) \<le> 599" using a by linarith+
  moreover have "isBoundary CHR '' ''" by (simp add: isBoundary_def)
  ultimately show ?thesis using assms by simp
qed

subsection \<open>Cutting at a password\<close>

lemma Index_None: "Index s sub = None \<Longrightarrow> \<not> sublist sub s"
proof (induction s)
  case Nil
  then show ?case by (auto simp: HasPrefix_prefix split: if_splits)
next
  case (Cons c s)
  then show ?case by (auto simp: HasPrefix_prefix sublist_Cons_right split: if_splits)
qed

text \<open>The first occurrence is one, and none ends before it does.\<close>

lemma Index_first:
  "Index s sub = Some i \<Longrightarrow> sub \<noteq> [] \<Longrightarrow> i \<le> length s \<and> \<not> sublist sub (take i s) \<and> prefix sub (drop i s)"
proof (induction s arbitrary: i)
  case Nil
  then show ?case by (auto simp: HasPrefix_prefix split: if_splits)
next
  case (Cons c s)
  show ?case
  proof (cases "HasPrefix (c # s) sub")
    case True
    then show ?thesis using Cons.prems by (simp add: HasPrefix_prefix)
  next
    case False
    then obtain j where j: "i = Suc j" "Index s sub = Some j"
      using Cons.prems by auto
    have "\<not> prefix sub (c # take j s)"
    proof
      assume "prefix sub (c # take j s)"
      moreover have "prefix (c # take j s) (c # s)" by (simp add: take_is_prefix)
      ultimately have "prefix sub (c # s)" by (rule prefix_order.trans)
      then show False using False by (simp add: HasPrefix_prefix)
    qed
    then show ?thesis using Cons.IH [OF j(2)] Cons.prems(2) j(1) by (simp add: sublist_Cons_right)
  qed
qed

lemma ToLower_cut:
  assumes "ascii s"
  shows "ToLower L (take i s) = take i (ToLower L s)" "ToLower L (drop i s) = drop i (ToLower L s)"
    "length (ToLower L s) = length s"
proof -
  have "ascii (take i s)" "ascii (drop i s)"
    using assms by (auto simp: ascii_def list_all_iff dest: in_set_takeD in_set_dropD)
  then show "ToLower L (take i s) = take i (ToLower L s)" "ToLower L (drop i s) = drop i (ToLower L s)"
    "length (ToLower L s) = length s"
    using assms by (simp_all add: ToLower_ascii take_map drop_map)
qed

lemma smtp_redact_ascii: "ascii s \<Longrightarrow> smtp_redact L s \<noteq> None"
  using Index_first [of "ToLower L s"] ToLower_cut(3) [of s L] by (auto simp: smtp_redact_def split: option.splits)

text \<open>
  What is written down of a mail failure whose text is ASCII holds nothing from the first
  \<open>password\<close> on, in whatever case it is written: the text is cut there and marked, or has none and stays.
\<close>

theorem redact_cuts_ascii:
  assumes "ascii s"
  shows "\<exists>i t. smtp_redact L s = Some t \<and> \<not> sublist ''password'' (ToLower L (take i s))
    \<and> (t = take i s @ ''[REDACTED]'' \<and> prefix ''password'' (ToLower L (drop i s)) \<or> t = s \<and> i = length s)"
proof (cases "Index (ToLower L s) ''password''")
  case None
  then show ?thesis using Index_None [OF None] by (intro exI [of _ "length s"]) (simp add: smtp_redact_def)
next
  case (Some i)
  then have "i \<le> length s" "\<not> sublist ''password'' (ToLower L (take i s))" "prefix ''password'' (ToLower L (drop i s))"
    using Index_first [OF Some] ToLower_cut [OF assms] by auto
  then show ?thesis using Some by (intro exI [of _ i]) (simp add: smtp_redact_def)
qed

lemma ToLower_same:
  "byte c < 128 \<Longrightarrow> \<not> (65 \<le> byte c \<and> byte c \<le> 90) \<Longrightarrow> ToLower L (c # s) = c # ToLower L s"
  by (auto simp: ToLower_def to_lower_rune_def encode_rune_def Let_def byte_def)

text \<open>A byte that begins no rune is rewritten as three.\<close>

lemma ToLower_bad: "ToLower demo_golib (CHR 0xC0 # s) = CHR 0xEF # CHR 0xBF # CHR 0xBD # ToLower demo_golib s"
proof -
  have "map (char_of :: nat \<Rightarrow> char) [0xEF, 0xBF, 0xBD] = [CHR 0xEF, CHR 0xBF, CHR 0xBD]" by code_simp
  then show ?thesis
    by (simp add: ToLower_def byte_def rune_error_def to_lower_rune_def demo_golib_def encode_rune_def)
qed

lemma ToLower_empty: "ToLower L [] = []"
  by (simp add: ToLower_def)

lemmas lowered = ToLower_same ToLower_bad ToLower_empty byte_def

theorem redact_cuts_ascii_witness:
  "smtp_redact demo_golib ''535 password=x'' = Some ''535 [REDACTED]''
    \<and> (\<exists>i. \<not> sublist ''password'' (ToLower demo_golib (take i ''535 password=x'')))"
proof -
  have "ascii ''535 password=x''" by (simp add: byte_def)
  moreover have "ToLower demo_golib ''535 password=x'' = ''535 password=x''" by (simp add: lowered)
  then have "smtp_redact demo_golib ''535 password=x'' = Some ''535 [REDACTED]''"
    by (simp add: smtp_redact_def HasPrefix_def)
  ultimately show ?thesis using redact_cuts_ascii [of "''535 password=x''" demo_golib] by blast
qed

text \<open>
  Bytes that are no UTF-8 grow when the text is lower-cased, so the cut is made too late: after the
  password, or beyond the end of the text, which panics.
\<close>

lemma redact_leaks:
  "smtp_redact demo_golib (CHR 0xC0 # CHR 0xC0 # CHR 0xC0 # CHR 0xC0 # CHR 0xC0 # CHR 0xC0 # ''password=abc was refused'')
    = Some (CHR 0xC0 # CHR 0xC0 # CHR 0xC0 # CHR 0xC0 # CHR 0xC0 # CHR 0xC0 # ''password=abc[REDACTED]'')"
  by (simp add: smtp_redact_def lowered HasPrefix_def)

lemma redact_panics:
  "smtp_redact demo_golib (CHR 0xC0 # CHR 0xC0 # CHR 0xC0 # CHR 0xC0 # CHR 0xC0 # ''password'') = None"
  by (simp add: smtp_redact_def lowered HasPrefix_def)

subsection \<open>A refusal by the server\<close>

text \<open>
  C30. The first digit of a server's reply decides about a mail. Where the library reports the failed
  dialogue in ASCII, as three digits and a space with any text after it, and before it nothing or text
  without digits that ends in a separator, the sender answers a final error if the first digit is 5 and a
  temporary one if it is 2, 3 or 4. (A failure that quotes no reply may be read as one: see
  \<open>unreachable_server_is_final\<close>.)
\<close>

theorem first_digit_decides:
  assumes "mail_Open G (esd_dialer S) (esd_id S) = Some (Inr client)"
    and "gm_From G (emc_From (esd_cfg S)) = None" "gm_To G (rcp_Address (msg_Recipient m))"
    and "gm_MessageID G w = (ids, w1)"
    and "gm_DialAndSend G client (mail_of S m) ids w1 = (Some (before @ d1 # d2 # d3 # CHR '' '' # rest), w2)"
    and "list_all (\<lambda>c. \<not> is_digit c) before" "before = [] \<or> isBoundary (last before)"
    and "CHR ''2'' \<le> d1" "d1 \<le> CHR ''5''" "is_digit d2" "is_digit d3" "ascii (before @ rest)"
  shows "\<exists>err. email_Send G S m w = (Some (Inl err), w2) \<and> is_send err \<and> (IsPermanentSend err \<longleftrightarrow> d1 = CHR ''5'')"
proof -
  let ?reply = "before @ d1 # d2 # d3 # CHR '' '' # rest"
  have d1: "50 \<le> byte d1" "byte d1 \<le> 53" using assms(8,9) by (simp_all add: byte_def less_eq_char_def)
  then have digit: "is_digit d1" by (simp add: is_digit_def)
  have small: "48 \<le> byte d2" "byte d2 \<le> 57" "48 \<le> byte d3" "byte d3 \<le> 57" using assms(10,11) by (auto simp: is_digit_def)
  let ?code = "int (byte d1 - 48) * 100 + int (byte d2 - 48) * 10 + int (byte d3 - 48)"
  have "smtp_replyCode ?reply = ?code"
    using assms(6,7) replyCode_at [OF digit assms(10,11,8,9)]
    by (auto simp: smtp_replyCode_def replyCode_from_before list_all_iff simp del: replyCode_from.simps)
  moreover have "ascii ?reply" using assms(12) d1 small by (simp add: byte_def)
  then obtain t where "smtp_redact (gm_lib G) ?reply = Some t" using smtp_redact_ascii by blast
  ultimately have sent: "email_Send G S m w = (Some (Inl (email_classify (gm_lib G) (Coded ?code ''send'' t))), w2)"
    using assms(1-5) by (simp add: email_Send_def mail_Send_def mail_of_def smtp_wrap_def)
  have "(char_of :: nat \<Rightarrow> char) 53 = CHR ''5''" by code_simp
  moreover have "d1 = char_of (byte d1)" by (simp add: byte_def)
  moreover have "byte CHR ''5'' = 53" by (simp add: byte_def)
  ultimately have "byte d1 = 53 \<longleftrightarrow> d1 = CHR ''5''" by metis
  moreover have "500 \<le> ?code \<longleftrightarrow> byte d1 = 53" using d1 small by linarith
  ultimately show ?thesis using sent by (simp add: email_classify_def Let_def Final_def)
qed


definition refusing_mail :: "string \<Rightarrow> unit mail_lib" where
  "refusing_mail reply = \<lparr>gm_lib = demo_golib, gm_NewClient = \<lambda>_. None, gm_From = \<lambda>_. None, gm_To = \<lambda>_. True,
     gm_MessageID = \<lambda>w. ([''<1@srosha>''], w), gm_DialAndSend = \<lambda>_ _ _ w. (Some reply, w)\<rparr>"

definition demo_email_sender :: email_sender where
  "demo_email_sender = \<lparr>esd_dialer = \<lparr>mdc_Timeout = minute, mdc_TrustAnyCertificate = False\<rparr>,
     esd_cfg = \<lparr>emc_Host = ''smtp.acme.test'', emc_Port = 0, emc_Username = '''', emc_From = ''a@acme.test'', emc_ContentType = ''text/plain''\<rparr>,
     esd_id = \<lparr>sid_Host = ''smtp.acme.test'', sid_Port = 0, sid_Username = '''', sid_Password = ''''\<rparr>\<rparr>"

lemma demo_email_opens:
  "\<exists>client. mail_Open (refusing_mail reply) (esd_dialer demo_email_sender) (esd_id demo_email_sender) = Some (Inr client)"
proof -
  have "TrimSpace ''smtp.acme.test'' = ''smtp.acme.test''"
    by (rule TrimSpace_no_space) (simp_all add: byte_def is_space_rune_def)
  then show ?thesis
    by (simp add: mail_Open_def refusing_mail_def demo_email_sender_def identity_validate_def defaultPort_def Let_def)
qed

theorem first_digit_decides_witness:
  "\<exists>err. email_Send (refusing_mail ''smtp: 550 no such mailbox'') demo_email_sender demo_bot_message () = (Some (Inl err), ())
    \<and> IsPermanentSend err"
proof -
  obtain client where "mail_Open (refusing_mail ''smtp: 550 no such mailbox'') (esd_dialer demo_email_sender)
      (esd_id demo_email_sender) = Some (Inr client)" using demo_email_opens by blast
  moreover have "list_all (\<lambda>c. \<not> is_digit c) ''smtp: ''" "''smtp: '' = [] \<or> isBoundary (last ''smtp: '')"
    "CHR ''2'' \<le> CHR ''5''" "CHR ''5'' \<le> CHR ''5''" "is_digit CHR ''5''" "is_digit CHR ''0''"
    "ascii (''smtp: '' @ ''no such mailbox'')"
    by (simp_all add: is_digit_def byte_def isBoundary_def less_eq_char_def)
  ultimately show ?thesis
    using first_digit_decides [of "refusing_mail ''smtp: 550 no such mailbox''" demo_email_sender client demo_bot_message "()"
      "[''<1@srosha>'']" "()" "''smtp: ''" "CHR ''5''" "CHR ''5''" "CHR ''0''" "''no such mailbox''" "()"]
    by (auto simp: refusing_mail_def)
qed

text \<open>
  A connection that is never made has no reply code, yet its error quotes the address dialled, and the
  port most accounts use is read as one: the failure is final.
\<close>

lemma port_read_as_reply:
  "smtp_replyCode ''dial failed: dial tcp 192.0.2.1:587: connect: connection refused'' = 587"
  by (simp add: smtp_replyCode_def is_digit_def isBoundary_def byte_def)

lemma unreachable_server_is_final:
  "IsPermanentSend (email_classify L (Coded (smtp_replyCode
     ''dial failed: dial tcp 192.0.2.1:587: connect: connection refused'') ''send'' t))"
  by (simp add: port_read_as_reply email_classify_def Final_def Let_def)

text \<open>Every failure of a mail is classified.\<close>

lemma email_Send_classified: "email_Send G S m w = (Some (Inl e), w') \<Longrightarrow> is_send e"
  by (auto simp: email_Send_def email_classify_def Let_def split: option.splits sum.splits prod.splits)

end
