(* ===== verification/Registry.thy ===== *)
theory Registry
  imports Credential Demo Tokens Mail
begin

text \<open>
  \<open>internal/adapter/sender/registry.go\<close>: which identity a message goes out as, and the sender built
  from it. A sender keeps its provider's type; sending through it is \<open>built_Send\<close>. The clock of Apple's
  tokens and the store of both minters are part of the state behind the two suppliers.
\<close>

subsection \<open>The service's own identities\<close>

record whatsapp_own =
  wo_Token :: string
  wo_PhoneNumberID :: string

record matrix_own =
  mo_Token :: string
  mo_Homeserver :: string

record gotify_own =
  go_Token :: string
  go_ServerURL :: string

record apns_own =
  ao_Key :: string
  ao_KeyID :: string
  ao_TeamID :: string
  ao_Topic :: string
  ao_Environment :: string

record smtp_own =
  smo_Host :: string
  smo_Port :: int
  smo_Username :: string
  smo_From :: string
  smo_Password :: string

record fallback =
  fb_TelegramToken :: string
  fb_BaleToken :: string
  fb_WhatsApp :: whatsapp_own
  fb_Matrix :: matrix_own
  fb_Gotify :: gotify_own
  fb_FCMServiceAccount :: string
  fb_APNs :: apns_own
  fb_SMTP :: smtp_own

definition whatsapp_configured :: "whatsapp_own \<Rightarrow> bool" where
  "whatsapp_configured own \<longleftrightarrow> wo_Token own \<noteq> '''' \<and> wo_PhoneNumberID own \<noteq> ''''"

definition matrix_configured :: "matrix_own \<Rightarrow> bool" where
  "matrix_configured own \<longleftrightarrow> mo_Token own \<noteq> '''' \<and> mo_Homeserver own \<noteq> ''''"

definition gotify_configured :: "gotify_own \<Rightarrow> bool" where
  "gotify_configured own \<longleftrightarrow> go_Token own \<noteq> '''' \<and> go_ServerURL own \<noteq> ''''"

definition apns_configured :: "apns_own \<Rightarrow> bool" where
  "apns_configured own \<longleftrightarrow> ao_Key own \<noteq> '''' \<and> ao_KeyID own \<noteq> '''' \<and> ao_TeamID own \<noteq> '''' \<and> ao_Topic own \<noteq> ''''"

definition smtp_configured :: "smtp_own \<Rightarrow> bool" where
  "smtp_configured own \<longleftrightarrow> smo_Host own \<noteq> '''' \<and> smo_From own \<noteq> ''''"

definition apns_own_String :: "golib \<Rightarrow> apns_own \<Rightarrow> string" where
  "apns_own_String L own = Sprintf L ''APNs{KeyID:%q, TeamID:%q, Topic:%q, Environment:%q}''
    [FmtS (ao_KeyID own), FmtS (ao_TeamID own), FmtS (ao_Topic own), FmtS (ao_Environment own)]"

definition smtp_own_String :: "golib \<Rightarrow> smtp_own \<Rightarrow> string" where
  "smtp_own_String L own = Sprintf L ''SMTP{Host:%q, Port:%d, Username:%q, From:%q}''
    [FmtS (smo_Host own), FmtD (smo_Port own), FmtS (smo_Username own), FmtS (smo_From own)]"

subsection \<open>A sender that was built\<close>

datatype 'w built =
    BuiltTelegram "'w bot_sender"
  | BuiltBale "'w bot_sender"
  | BuiltEmail email_sender
  | BuiltMatrix "'w matrix_sender"
  | BuiltGotify "'w gotify_sender"
  | BuiltWhatsApp "'w whatsapp_sender"
  | BuiltFCM "'w fcm_sender"
  | BuiltAPNs "'w apns_sender"

record 'w provider_libs =
  pv_telegram :: bot_lib
  pv_bale :: bot_lib
  pv_whatsapp :: whatsapp_lib
  pv_matrix :: matrix_lib
  pv_gotify :: gotify_lib
  pv_fcm :: fcm_lib
  pv_apns :: apns_lib
  pv_mail :: "'w mail_lib"
  pv_email_config :: "string \<Rightarrow> email_config result"

fun built_Channel :: "'w built \<Rightarrow> channel" where
  "built_Channel (BuiltTelegram s) = ChannelTelegram"
| "built_Channel (BuiltBale s) = ChannelBale"
| "built_Channel (BuiltEmail s) = ChannelEmail"
| "built_Channel (BuiltMatrix s) = ChannelMatrix"
| "built_Channel (BuiltGotify s) = ChannelGotify"
| "built_Channel (BuiltWhatsApp s) = ChannelWhatsApp"
| "built_Channel (BuiltFCM s) = ChannelFCM"
| "built_Channel (BuiltAPNs s) = ChannelAPNs"

definition no_panic :: "('w, 'a) io \<Rightarrow> 'w \<Rightarrow> 'a result option \<times> 'w" where
  "no_panic act w = (case act w of (r, w') \<Rightarrow> (Some r, w'))"

fun built_Send :: "'w provider_libs \<Rightarrow> 'w built \<Rightarrow> message \<Rightarrow> 'w \<Rightarrow> string result option \<times> 'w" where
  "built_Send P (BuiltTelegram s) m = no_panic (telegram_Send (pv_telegram P) s m)"
| "built_Send P (BuiltBale s) m = no_panic (bale_Send (pv_bale P) s m)"
| "built_Send P (BuiltEmail s) m = email_Send (pv_mail P) s m"
| "built_Send P (BuiltMatrix s) m = no_panic (matrix_Send (pv_matrix P) s m)"
| "built_Send P (BuiltGotify s) m = no_panic (gotify_Send (pv_gotify P) s m)"
| "built_Send P (BuiltWhatsApp s) m = no_panic (whatsapp_Send (pv_whatsapp P) s m)"
| "built_Send P (BuiltFCM s) m = no_panic (fcm_Send (pv_fcm P) s m)"
| "built_Send P (BuiltAPNs s) m = no_panic (apns_Send (pv_apns P) s m)"

subsection \<open>The registry\<close>

text \<open>The two suppliers of tokens: Google's also says which project the account belongs to.\<close>

type_synonym 'w google_tokens = "string \<Rightarrow> ('w, 'w google_source \<times> string) io"
type_synonym 'w apple_tokens = "string \<Rightarrow> apple_identity \<Rightarrow> ('w, 'w apple_source) io"
type_synonym 'w open_material = "string \<Rightarrow> channel \<Rightarrow> ID \<Rightarrow> ('w, string \<times> string) io"

record 'w registry =
  rg_creds :: "'w credential_service"
  rg_secrets :: "'w open_material"
  rg_client :: "'w transport"
  rg_mail :: dialer_config
  rg_tokens :: "'w google_tokens"
  rg_apple :: "'w apple_tokens"
  rg_own :: fallback

definition NewRegistry ::
    "'w credential_service option \<Rightarrow> 'w open_material option \<Rightarrow> 'w transport option \<Rightarrow> dialer_config option
     \<Rightarrow> 'w google_tokens option \<Rightarrow> 'w apple_tokens option \<Rightarrow> fallback \<Rightarrow> 'w registry result" where
  "NewRegistry creds_opt secrets_opt client_opt mail_opt tokens_opt apple_opt own =
    (case creds_opt of None \<Rightarrow> Inl (InternalErr ''sender registry cannot resolve credentials'') | Some creds \<Rightarrow>
    (case secrets_opt of None \<Rightarrow> Inl (InternalErr ''sender registry cannot open credentials'') | Some secrets \<Rightarrow>
    (case client_opt of None \<Rightarrow> Inl (InternalErr ''sender registry has no http client'') | Some client \<Rightarrow>
    (case mail_opt of None \<Rightarrow> Inl (InternalErr ''sender registry has no mail dialer'') | Some dialer \<Rightarrow>
    (case tokens_opt of None \<Rightarrow> Inl (InternalErr ''sender registry cannot mint google tokens'') | Some tokens \<Rightarrow>
    (case apple_opt of None \<Rightarrow> Inl (InternalErr ''sender registry cannot sign apple tokens'') | Some apple \<Rightarrow>
      Inr \<lparr>rg_creds = creds, rg_secrets = secrets, rg_client = client, rg_mail = dialer, rg_tokens = tokens,
           rg_apple = apple, rg_own = own\<rparr>))))))"

definition noSender :: "channel \<Rightarrow> goerr" where
  "noSender c = WithStr (WithErr (InvalidInputErr ''no sender configured for this channel'')
     (Sentinel (SenderE ErrNoSender))) (Text (''channel '' @ Channel_String c) [])"

type_synonym 'w building = "'w \<Rightarrow> 'w built result option \<times> 'w"

definition building :: "('a \<Rightarrow> 'w built) \<Rightarrow> 'a result \<Rightarrow> 'w building" where
  "building wrapped r w = (Some (map_sum id wrapped r), w)"

definition registry_buildFCM :: "'w provider_libs \<Rightarrow> 'w registry \<Rightarrow> string \<Rightarrow> 'w building" where
  "registry_buildFCM P R serviceAccount w =
    (if TrimSpace serviceAccount = '''' then
       (Some (Inl (InvalidInputErr ''no fcm service account for this identity'')), w)
     else case rg_tokens R serviceAccount w of
       (Inl err, w') \<Rightarrow> (Some (Inl (WithErr (InvalidInputErr ''fcm service account is not usable'') err)), w')
     | (Inr (source, project), w') \<Rightarrow>
         building BuiltFCM (fcm_New (pv_fcm P) (Some (rg_client R)) (Some source) project) w')"

definition registry_buildAPNs :: "'w provider_libs \<Rightarrow> 'w registry \<Rightarrow> apns_config \<Rightarrow> string \<Rightarrow> 'w building" where
  "registry_buildAPNs P R cfg key w =
    (if TrimSpace key = '''' then (Some (Inl (InvalidInputErr ''no apns signing key for this identity'')), w)
     else case rg_apple R key \<lparr>api_KeyID = apc_KeyID cfg, api_TeamID = apc_TeamID cfg\<rparr> w of
       (Inl err, w') \<Rightarrow> (Some (Inl (WithErr (InvalidInputErr ''apns signing key is not usable'') err)), w')
     | (Inr source, w') \<Rightarrow> building BuiltAPNs (apns_New (pv_apns P) (Some (rg_client R)) (Some source) cfg) w')"

definition refuse_build :: "goerr \<Rightarrow> 'w building" where
  "refuse_build err w = (Some (Inl err), w)"

definition with_config :: "'c result \<Rightarrow> ('c \<Rightarrow> 'w building) \<Rightarrow> 'w building" where
  "with_config r f = (case r of Inl err \<Rightarrow> refuse_build err | Inr cfg \<Rightarrow> f cfg)"

definition build_email :: "'w provider_libs \<Rightarrow> 'w registry \<Rightarrow> email_config \<Rightarrow> string \<Rightarrow> 'w building" where
  "build_email P R cfg password w =
    (map_option (map_sum id BuiltEmail) (email_New (pv_mail P) (Some (rg_mail R)) cfg password), w)"

fun registry_build :: "'w provider_libs \<Rightarrow> 'w registry \<Rightarrow> channel \<Rightarrow> string \<Rightarrow> string \<Rightarrow> 'w building" where
  "registry_build P R ChannelTelegram config secret =
     building BuiltTelegram (telegram_New (pv_telegram P) (Some (rg_client R)) secret config)"
| "registry_build P R ChannelBale config secret =
     building BuiltBale (bale_New (pv_bale P) (Some (rg_client R)) secret config)"
| "registry_build P R ChannelEmail config secret =
     with_config (email_ParseConfig (gm_lib (pv_mail P)) (pv_email_config P) config) (\<lambda>cfg. build_email P R cfg secret)"
| "registry_build P R ChannelMatrix config secret =
     with_config (matrix_ParseConfig (pv_matrix P) config) (\<lambda>cfg.
       building BuiltMatrix (matrix_New (pv_matrix P) (Some (rg_client R)) secret cfg))"
| "registry_build P R ChannelGotify config secret =
     with_config (gotify_ParseConfig (pv_gotify P) config) (\<lambda>cfg.
       building BuiltGotify (gotify_New (pv_gotify P) (Some (rg_client R)) secret cfg))"
| "registry_build P R ChannelWhatsApp config secret =
     with_config (whatsapp_ParseConfig (pv_whatsapp P) config) (\<lambda>cfg.
       building BuiltWhatsApp (whatsapp_New (Some (rg_client R)) secret cfg))"
| "registry_build P R ChannelFCM config secret = registry_buildFCM P R secret"
| "registry_build P R ChannelAPNs config secret =
     with_config (apns_ParseConfig (pv_apns P) config) (\<lambda>cfg. registry_buildAPNs P R cfg secret)"
| "registry_build P R c config secret = refuse_build (noSender c)"

definition buildOwn :: "'w provider_libs \<Rightarrow> 'w registry \<Rightarrow> channel \<Rightarrow> string \<Rightarrow> 'w building" where
  "buildOwn P R c token = (if token = '''' then refuse_build (noSender c) else registry_build P R c '''' token)"

fun registry_ours :: "'w provider_libs \<Rightarrow> 'w registry \<Rightarrow> channel \<Rightarrow> 'w building" where
  "registry_ours P R ChannelTelegram = buildOwn P R ChannelTelegram (fb_TelegramToken (rg_own R))"
| "registry_ours P R ChannelBale = buildOwn P R ChannelBale (fb_BaleToken (rg_own R))"
| "registry_ours P R ChannelEmail =
    (let own = fb_SMTP (rg_own R) in
     if \<not> smtp_configured own then refuse_build (noSender ChannelEmail)
     else build_email P R \<lparr>emc_Host = smo_Host own, emc_Port = smo_Port own, emc_Username = smo_Username own,
       emc_From = smo_From own, emc_ContentType = ''''\<rparr> (smo_Password own))"
| "registry_ours P R ChannelMatrix =
    (let own = fb_Matrix (rg_own R) in
     if \<not> matrix_configured own then refuse_build (noSender ChannelMatrix)
     else building BuiltMatrix (matrix_New (pv_matrix P) (Some (rg_client R)) (mo_Token own) (mo_Homeserver own)))"
| "registry_ours P R ChannelGotify =
    (let own = fb_Gotify (rg_own R) in
     if \<not> gotify_configured own then refuse_build (noSender ChannelGotify)
     else building BuiltGotify (gotify_New (pv_gotify P) (Some (rg_client R)) (go_Token own)
       \<lparr>gfc_ServerURL = go_ServerURL own, gfc_ContentType = ''''\<rparr>))"
| "registry_ours P R ChannelWhatsApp =
    (let own = fb_WhatsApp (rg_own R) in
     if \<not> whatsapp_configured own then refuse_build (noSender ChannelWhatsApp)
     else building BuiltWhatsApp (whatsapp_New (Some (rg_client R)) (wo_Token own) (wo_PhoneNumberID own)))"
| "registry_ours P R ChannelFCM =
    (if fb_FCMServiceAccount (rg_own R) = '''' then refuse_build (noSender ChannelFCM)
     else registry_buildFCM P R (fb_FCMServiceAccount (rg_own R)))"
| "registry_ours P R ChannelAPNs =
    (let own = fb_APNs (rg_own R) in
     if \<not> apns_configured own then refuse_build (noSender ChannelAPNs)
     else registry_buildAPNs P R \<lparr>apc_KeyID = ao_KeyID own, apc_TeamID = ao_TeamID own, apc_Topic = ao_Topic own,
       apc_Environment = ao_Environment own\<rparr> (ao_Key own))"
| "registry_ours P R c = refuse_build (noSender c)"

definition registry_For :: "'w provider_libs \<Rightarrow> 'w registry \<Rightarrow> string \<Rightarrow> channel \<Rightarrow> string \<Rightarrow> 'w building" where
  "registry_For P R sourceID c name w =
    (case credential_Resolve (rg_creds R) sourceID c name w of
       (Inl err, w1) \<Rightarrow>
         if name = '''' \<and> is_err err (CredentialE ErrNoCredentials) then registry_ours P R c w1
         else (Some (Inl err), w1)
     | (Inr cred, w1) \<Rightarrow>
    (case rg_secrets R sourceID c (crd_ID cred) w1 of
       (Inl err, w2) \<Rightarrow> (Some (Inl err), w2)
     | (Inr (config, secret), w2) \<Rightarrow> registry_build P R c config secret w2))"

subsection \<open>Whose identity a message goes out as\<close>

lemma pick_named_registered: "pick_named cs n = Inl e \<Longrightarrow> \<not> is_err e (CredentialE ErrNoCredentials)"
  by (induction cs) (auto split: if_splits)

lemma Pick_none_registered:
  "Pick creds name = Inl e \<Longrightarrow> is_err e (CredentialE ErrNoCredentials) \<longleftrightarrow> name = '''' \<and> creds = []"
  using pick_named_registered [of creds name e] by (auto simp: Pick_def split: if_splits option.splits)

lemma build_steps_own [simp]:
  "build_email P (R\<lparr>rg_own := own\<rparr>) = build_email P R"
  "registry_buildFCM P (R\<lparr>rg_own := own\<rparr>) = registry_buildFCM P R"
  "registry_buildAPNs P (R\<lparr>rg_own := own\<rparr>) = registry_buildAPNs P R"
  by (intro ext; simp add: build_email_def registry_buildFCM_def registry_buildAPNs_def split: prod.split sum.split)+

lemma registry_build_own [simp]: "registry_build P (R\<lparr>rg_own := own\<rparr>) c config secret = registry_build P R c config secret"
  by (cases c) simp_all

text \<open>
  What a sender holds of the secret it was built from: the secret itself, or the source of tokens the
  library opened from it.
\<close>

fun holds_secret :: "'w registry \<Rightarrow> string \<Rightarrow> 'w \<Rightarrow> 'w built \<Rightarrow> bool" where
  "holds_secret R secret w (BuiltTelegram s) \<longleftrightarrow> bs_token s = secret"
| "holds_secret R secret w (BuiltBale s) \<longleftrightarrow> bs_token s = secret"
| "holds_secret R secret w (BuiltEmail s) \<longleftrightarrow> sid_Password (esd_id s) = secret"
| "holds_secret R secret w (BuiltMatrix s) \<longleftrightarrow> msd_token s = secret"
| "holds_secret R secret w (BuiltGotify s) \<longleftrightarrow> gsd_token s = secret"
| "holds_secret R secret w (BuiltWhatsApp s) \<longleftrightarrow> wsd_token s = secret"
| "holds_secret R secret w (BuiltFCM s) \<longleftrightarrow>
     (\<exists>project w'. rg_tokens R secret w = (Inr (fsd_tokens s, project), w'))"
| "holds_secret R secret w (BuiltAPNs s) \<longleftrightarrow>
     (\<exists>identity w'. rg_apple R secret identity w = (Inr (asd_tokens s), w'))"

lemma new_senders_hold_secret:
  "bot_New B A (Some client) token raw = Inr bs \<Longrightarrow> bs_token bs = token"
  "matrix_New Bm (Some client) token h = Inr ms \<Longrightarrow> msd_token ms = token"
  "gotify_New Bg (Some client) token cfg = Inr gs \<Longrightarrow> gsd_token gs = token"
  "whatsapp_New (Some client) token phone = Inr ws \<Longrightarrow> wsd_token ws = token"
  "email_New G (Some d) ecfg password = Some (Inr es) \<Longrightarrow> sid_Password (esd_id es) = password"
  by (auto simp: bot_New_made matrix_New_def gotify_New_def whatsapp_New_def email_New_def then_result_Inr Let_def
      split: if_splits sum.splits)

lemma building_Inr: "building wrapped r w = (Some (Inr b), w') \<longleftrightarrow> (\<exists>s. r = Inr s \<and> b = wrapped s) \<and> w' = w"
  by (cases r) (auto simp: building_def)

lemma with_config_Inr:
  "with_config r f w = (Some (Inr b), w') \<longleftrightarrow> (\<exists>cfg. r = Inr cfg \<and> f cfg w = (Some (Inr b), w'))"
  by (cases r) (auto simp: with_config_def refuse_build_def)

lemma build_email_Inr:
  "build_email P R cfg password w = (Some (Inr b), w') \<longleftrightarrow>
     (\<exists>s. email_New (pv_mail P) (Some (rg_mail R)) cfg password = Some (Inr s) \<and> b = BuiltEmail s) \<and> w' = w"
  by (cases "email_New (pv_mail P) (Some (rg_mail R)) cfg password")
    (auto simp: build_email_def map_sum_def split: sum.splits)

lemma buildFCM_Inr:
  "registry_buildFCM P R secret w = (Some (Inr b), w') \<Longrightarrow> built_Channel b = ChannelFCM \<and> holds_secret R secret w b"
  by (auto simp: registry_buildFCM_def building_Inr fcm_New_def split: if_splits prod.splits sum.splits)

lemma buildAPNs_Inr:
  "registry_buildAPNs P R cfg secret w = (Some (Inr b), w') \<Longrightarrow> built_Channel b = ChannelAPNs \<and> holds_secret R secret w b"
  by (fastforce simp: registry_buildAPNs_def building_Inr apns_New_def then_result_Inr split: if_splits prod.splits sum.splits)

lemma registry_build_made:
  assumes "registry_build P R c config secret w = (Some (Inr b), w')"
  shows "built_Channel b = c \<and> holds_secret R secret w b"
  using assms
  by (cases c) (auto simp: building_Inr with_config_Inr build_email_Inr refuse_build_def telegram_New_def bale_New_def
      dest: new_senders_hold_secret buildFCM_Inr buildAPNs_Inr)

lemma Pick_Inr:
  assumes "Pick creds name = Inr cred"
  shows "cred \<in> set creds \<and> crd_isActive cred \<and> (if name = '''' then crd_isDefault cred else crd_Name cred = name)"
proof (cases "name = ''''")
  case True
  then have "find (\<lambda>c. crd_isDefault c \<and> crd_isActive c) creds = Some cred"
    using assms by (auto simp: Pick_def split: option.splits if_splits)
  then show ?thesis using True by (auto simp: find_Some_iff)
next
  case False
  then show ?thesis using assms pick_named_Inr by (simp add: Pick_def)
qed

text \<open>
  C23. A message goes out as the identity its source chose and never as the service's own in its place:
  once the source's identities of the channel were read, whenever one was named or there is any, what
  \<open>For\<close> answers does not depend on the service's identities, and a sender it answers is of that channel
  and is built from an active identity of those read, the one named or else the default: it holds the
  secret opened for that identity, or with FCM and APNs the source of tokens opened from it. Only a
  source that named none and has none on the channel gets the service's own.
\<close>

theorem identity_is_the_sources:
  assumes "cr_ListBySourceAndChannel (cs_repo (rg_creds R)) sourceID c w = (Inr creds, w1)"
  shows "if name = '''' \<and> creds = [] then registry_For P R sourceID c name w = registry_ours P R c w1
    else (\<forall>own. registry_For P (R\<lparr>rg_own := own\<rparr>) sourceID c name w = registry_For P R sourceID c name w)
      \<and> (\<forall>b w'. registry_For P R sourceID c name w = (Some (Inr b), w') \<longrightarrow>
          (\<exists>cred config secret w2. cred \<in> set creds \<and> crd_isActive cred
            \<and> (if name = '''' then crd_isDefault cred else crd_Name cred = name)
            \<and> rg_secrets R sourceID c (crd_ID cred) w1 = (Inr (config, secret), w2)
            \<and> built_Channel b = c \<and> holds_secret R secret w2 b))"
proof -
  have resolve: "credential_Resolve (rg_creds R) sourceID c name w = (Pick creds name, w1)"
    using assms by (simp add: credential_Resolve_def and_then_def lift_def)
  show ?thesis
  proof (cases "Pick creds name")
    case (Inl e)
    then show ?thesis
      using resolve Pick_none_registered [OF Inl] by (auto simp: registry_For_def)
  next
    case (Inr cred)
    then have "\<not> (name = '''' \<and> creds = [])" by (auto simp: Pick_def)
    moreover have "\<exists>config secret w2. rg_secrets R sourceID c (crd_ID cred) w1 = (Inr (config, secret), w2)
        \<and> built_Channel b = c \<and> holds_secret R secret w2 b"
      if "registry_For P R sourceID c name w = (Some (Inr b), w')" for b w'
      using that resolve Inr
      by (auto simp: registry_For_def dest!: registry_build_made split: prod.splits sum.splits)
    moreover have "registry_For P (R\<lparr>rg_own := own\<rparr>) sourceID c name w = registry_For P R sourceID c name w" for own
      using resolve Inr by (simp add: registry_For_def split: prod.split sum.split)
    ultimately show ?thesis using Pick_Inr [OF Inr] by meson
  qed
qed

subsection \<open>What refusals and failures look like\<close>

text \<open>
  C26. Whatever sender was built, every failure it answers is a send error, which says whether another
  attempt is worth making; only a mail sender can panic instead.
\<close>

theorem failures_are_classified:
  "case built_Send P b m w of
     (None, w') \<Rightarrow> built_Channel b = ChannelEmail
   | (Some (Inl e), w') \<Rightarrow> is_send e
   | (Some (Inr i), w') \<Rightarrow> True"
  by (cases b)
    (auto simp: no_panic_def telegram_Send_def bale_Send_def split: prod.split option.split sum.split
      dest: bot_Send_classified whatsapp_Send_classified matrix_Send_classified gotify_Send_classified
        fcm_Send_classified apns_Send_classified email_Send_classified)

lemma refused_by_validation:
  "matrix_validate A h = Inl e \<Longrightarrow> of_type ErrInvalidInput e"
  "gotify_validate A gc = Inl e \<Longrightarrow> of_type ErrInvalidInput e"
  "whatsapp_validate phone = Inl e \<Longrightarrow> of_type ErrInvalidInput e"
  "apns_validate L ac = Inl e \<Longrightarrow> of_type ErrInvalidInput e"
  "email_validate L ec = Inl e \<Longrightarrow> of_type ErrInvalidInput e"
  by (auto simp: matrix_validate_def gotify_validate_def whatsapp_validate_def apns_validate_def email_validate_def Let_def
      split: if_splits option.splits)

lemma refused_by_parsing:
  "matrix_ParseConfig Bm raw = Inl e \<Longrightarrow> of_type ErrInvalidInput e"
  "gotify_ParseConfig Bg raw = Inl e \<Longrightarrow> of_type ErrInvalidInput e"
  "whatsapp_ParseConfig Bw raw = Inl e \<Longrightarrow> of_type ErrInvalidInput e"
  "apns_ParseConfig Ba raw = Inl e \<Longrightarrow> of_type ErrInvalidInput e"
  "email_ParseConfig L unmarshal raw = Inl e \<Longrightarrow> of_type ErrInvalidInput e"
  by (auto simp: matrix_ParseConfig_def gotify_ParseConfig_def whatsapp_ParseConfig_def apns_ParseConfig_def
      email_ParseConfig_def dest: refused_by_validation split: if_splits sum.splits)

lemma refused_by_New:
  "bot_New B A (Some client) token raw = Inl e \<Longrightarrow> of_type ErrInvalidInput e"
  "matrix_New Bm (Some client) token h = Inl e \<Longrightarrow> of_type ErrInvalidInput e"
  "gotify_New Bg (Some client) token cfg = Inl e \<Longrightarrow> of_type ErrInvalidInput e"
  "whatsapp_New (Some client) token phone = Inl e \<Longrightarrow> of_type ErrInvalidInput e"
  "fcm_New Bf (Some client) (Some gs) project = Inl e \<Longrightarrow> of_type ErrInvalidInput e"
  "apns_New Ba (Some client) (Some src) acfg = Inl e \<Longrightarrow> of_type ErrInvalidInput e"
  by (auto simp: bot_New_def matrix_New_def gotify_New_def whatsapp_New_def fcm_New_def apns_New_def
      then_result_def Let_def dest: refused_by_validation split: if_splits sum.splits)

lemma checkIdentity_refuses: "checkIdentity G d i = Some (Inl e) \<Longrightarrow> of_type ErrInvalidInput e"
  by (cases "mail_Open G d i") (auto simp: checkIdentity_def split: sum.splits)

lemma email_New_refuses:
  assumes "email_New G (Some d) ecfg password = Some (Inl e)" shows "of_type ErrInvalidInput e"
proof (cases "email_validate (gm_lib G) ecfg")
  case (Inl err)
  then show ?thesis using assms refused_by_validation(5) by (auto simp: email_New_def)
next
  case (Inr cfg)
  let ?i = "\<lparr>sid_Host = emc_Host cfg, sid_Port = emc_Port cfg, sid_Username = emc_Username cfg, sid_Password = password\<rparr>"
  show ?thesis
    using assms Inr checkIdentity_refuses [of G d ?i]
    by (cases "checkIdentity G d ?i") (auto simp: email_New_def Let_def then_result_def split: sum.splits)
qed

lemma building_Inl: "building wrapped r w = (Some (Inl e), w') \<longleftrightarrow> r = Inl e \<and> w' = w"
  by (cases r) (auto simp: building_def)

lemma with_config_Inl:
  "with_config r f w = (Some (Inl e), w') \<longleftrightarrow>
     (r = Inl e \<and> w' = w) \<or> (\<exists>cfg. r = Inr cfg \<and> f cfg w = (Some (Inl e), w'))"
  by (cases r) (auto simp: with_config_def refuse_build_def)

lemma build_email_Inl:
  "build_email P R cfg password w = (Some (Inl e), w') \<Longrightarrow> of_type ErrInvalidInput e"
  by (cases "email_New (pv_mail P) (Some (rg_mail R)) cfg password")
    (auto simp: build_email_def map_sum_def dest: email_New_refuses split: sum.splits)

lemma buildFCM_Inl: "registry_buildFCM P R secret w = (Some (Inl e), w') \<Longrightarrow> of_type ErrInvalidInput e"
  by (auto simp: registry_buildFCM_def building_Inl dest: refused_by_New split: if_splits prod.splits sum.splits)

lemma buildAPNs_Inl: "registry_buildAPNs P R cfg secret w = (Some (Inl e), w') \<Longrightarrow> of_type ErrInvalidInput e"
  by (auto simp: registry_buildAPNs_def building_Inl dest: refused_by_New split: if_splits prod.splits sum.splits)

lemma noSender_type [simp]: "of_type ErrInvalidInput (noSender c)"
  by (simp add: noSender_def)

lemma registry_build_refuses:
  "registry_build P R c config secret w = (Some (Inl e), w') \<Longrightarrow> of_type ErrInvalidInput e"
  by (cases c) (auto simp: building_Inl with_config_Inl refuse_build_def telegram_New_def bale_New_def
      dest: refused_by_parsing refused_by_New build_email_Inl buildFCM_Inl buildAPNs_Inl)

lemma registry_ours_refuses: "registry_ours P R c w = (Some (Inl e), w') \<Longrightarrow> of_type ErrInvalidInput e"
  by (cases c) (auto simp: building_Inl refuse_build_def buildOwn_def Let_def simp del: registry_build.simps
      dest: refused_by_New build_email_Inl buildFCM_Inl buildAPNs_Inl registry_build_refuses split: if_splits)

lemma Pick_refuses: "Pick creds name = Inl e \<Longrightarrow> of_type ErrInvalidInput e"
  using pick_named_Inl by (auto simp: Pick_def split: if_splits option.splits)

lemmas registry_refusal =
  registry_build_refuses [THEN TypeOf_of_type, THEN conjunct2]
  registry_ours_refuses [THEN TypeOf_of_type, THEN conjunct2]
  Pick_refuses [THEN TypeOf_of_type, THEN conjunct2]

text \<open>
  C24. An identity that cannot be used fails its delivery at once. The registry refuses with invalid
  input when there is no such identity, it is switched off, no default is set, its settings or its secret
  make no sender, or the service has none of its own on the channel; its only other refusals are the
  failures to read the source's identities and to open the secret of the one picked. Told of a refusal,
  the dispatcher fails the delivery as NO_SENDER and sends nothing if it is invalid input, and otherwise
  answers the error and leaves the delivery as it is, on the last attempt too.
\<close>

theorem unusable_identity_is_no_sender:
  assumes "registry_For P R (ntf_SourceID n) (rcp_Channel (dlv_Recipient del)) (dlv_SenderName del) w = (Some (Inl e), w')"
    and "reg_For (d_senders D) (ntf_SourceID n) (rcp_Channel (dlv_Recipient del)) (dlv_SenderName del) v = (Inl e, v')"
  shows "(IsType e ErrInvalidInput
      \<or> cr_ListBySourceAndChannel (cs_repo (rg_creds R)) (ntf_SourceID n) (rcp_Channel (dlv_Recipient del)) w = (Inl e, w')
      \<or> (\<exists>creds cred w1. cr_ListBySourceAndChannel (cs_repo (rg_creds R)) (ntf_SourceID n) (rcp_Channel (dlv_Recipient del)) w
            = (Inr creds, w1) \<and> Pick creds (dlv_SenderName del) = Inr cred
          \<and> rg_secrets R (ntf_SourceID n) (rcp_Channel (dlv_Recipient del)) (crd_ID cred) w1 = (Inl e, w')))
    \<and> deliver_message D del lastChance n v =
        (if IsType e ErrInvalidInput then fail D del (Some n) FailureNoSender (Error (d_lib D) e) v' else (Inl e, v'))"
proof
  let ?list = "cr_ListBySourceAndChannel (cs_repo (rg_creds R)) (ntf_SourceID n) (rcp_Channel (dlv_Recipient del)) w"
  show "IsType e ErrInvalidInput \<or> ?list = (Inl e, w')
      \<or> (\<exists>creds cred w1. ?list = (Inr creds, w1) \<and> Pick creds (dlv_SenderName del) = Inr cred
          \<and> rg_secrets R (ntf_SourceID n) (rcp_Channel (dlv_Recipient del)) (crd_ID cred) w1 = (Inl e, w'))"
    using assms(1) by (auto simp: registry_For_def credential_Resolve_def and_then_def lift_def
        dest: registry_refusal split: if_splits sum.splits prod.splits)
  show "deliver_message D del lastChance n v =
      (if IsType e ErrInvalidInput then fail D del (Some n) FailureNoSender (Error (d_lib D) e) v' else (Inl e, v'))"
    using assms(2) by (simp add: deliver_message_def attempt_def throw_def)
qed

subsection \<open>A registry\<close>

definition demo_libs :: "unit provider_libs" where
  "demo_libs = \<lparr>pv_telegram = demo_bot_lib, pv_bale = demo_bot_lib,
     pv_whatsapp = \<lparr>wl_lib = demo_golib, wl_Marshal = \<lambda>_. Inr ''{}'', wl_config = Inr, wl_strings = \<lambda>_. Inr [],
       wl_answer = \<lambda>_. Inl (Foreign ''no answer'')\<rparr>,
     pv_matrix = \<lparr>ml_address = \<lparr>al_lib = demo_golib, al_tail = \<lambda>_. ('''', '''', ''''), al_PathEscape = id, al_WithQuery = \<lambda>_ _. None\<rparr>,
       ml_Marshal = \<lambda>_. Inr ''{}'', ml_config = Inr, ml_answer = \<lambda>_. Inl (Foreign ''no answer'')\<rparr>,
     pv_gotify = \<lparr>gl_address = \<lparr>al_lib = demo_golib, al_tail = \<lambda>_. ('''', '''', ''''), al_PathEscape = id, al_WithQuery = \<lambda>_ _. None\<rparr>,
       gl_Marshal = \<lambda>_. Inr ''{}'', gl_config = \<lambda>_. Inl (Foreign ''no settings''),
       gl_error = \<lambda>_. \<lparr>gfe_Error = '''', gfe_Description = ''''\<rparr>, gl_answer = \<lambda>_. Inr 0\<rparr>,
     pv_fcm = \<lparr>fl_lib = demo_golib, fl_Marshal = \<lambda>_. Inr ''{}'', fl_PathEscape = id, fl_answer = \<lambda>_. Inl (Foreign ''no answer''),
       fl_until = \<lambda>_. None\<rparr>,
     pv_apns = demo_apns_lib, pv_mail = refusing_mail ''550 no'',
     pv_email_config = \<lambda>_. Inl (Foreign ''no settings'')\<rparr>"

definition no_identities :: fallback where
  "no_identities = \<lparr>fb_TelegramToken = '''', fb_BaleToken = '''', fb_WhatsApp = \<lparr>wo_Token = '''', wo_PhoneNumberID = ''''\<rparr>,
     fb_Matrix = \<lparr>mo_Token = '''', mo_Homeserver = ''''\<rparr>, fb_Gotify = \<lparr>go_Token = '''', go_ServerURL = ''''\<rparr>,
     fb_FCMServiceAccount = '''',
     fb_APNs = \<lparr>ao_Key = '''', ao_KeyID = '''', ao_TeamID = '''', ao_Topic = '''', ao_Environment = ''''\<rparr>,
     fb_SMTP = \<lparr>smo_Host = '''', smo_Port = 0, smo_Username = '''', smo_From = '''', smo_Password = ''''\<rparr>\<rparr>"

definition their_bot :: credential where
  "their_bot = \<lparr>crd_ID = ''7'', crd_SourceID = ''src'', crd_Channel = ChannelTelegram, crd_Name = ''ops'', crd_CreatedAt = 0,
     crd_UpdatedAt = 0, crd_isDefault = True, crd_isActive = True\<rparr>"

definition demo_registry :: "unit registry" where
  "demo_registry = \<lparr>rg_creds = \<lparr>cs_repo = \<lparr>cr_ListBySourceAndChannel = \<lambda>s c. ret [their_bot], cr_ListBySourceID = \<lambda>s. ret [],
       cr_ReadByID = \<lambda>s i. ret their_bot, cr_Deactivate = \<lambda>c. ret (), cr_Activate = \<lambda>c. ret (), cr_SetDefault = \<lambda>c. ret (),
       cr_ClearDefault = \<lambda>s c t. ret ()\<rparr>, cs_now = \<lambda>w. (0, w)\<rparr>,
     rg_secrets = \<lambda>s c i. ret ('''', ''1:ab''), rg_client = deaf_client,
     rg_mail = \<lparr>mdc_Timeout = minute, mdc_TrustAnyCertificate = False\<rparr>,
     rg_tokens = \<lambda>f. throw (Foreign ''no google''), rg_apple = \<lambda>p i. throw (Foreign ''no apple''), rg_own = no_identities\<rparr>"

theorem identity_is_the_sources_witness:
  "registry_For demo_libs demo_registry ''src'' ChannelTelegram '''' () = (Some (Inr (BuiltTelegram demo_bot)), ())
    \<and> (\<forall>own. registry_For demo_libs (demo_registry\<lparr>rg_own := own\<rparr>) ''src'' ChannelTelegram '''' ()
          = (Some (Inr (BuiltTelegram demo_bot)), ()))"
proof -
  have listed: "cr_ListBySourceAndChannel (cs_repo (rg_creds demo_registry)) ''src'' ChannelTelegram () = (Inr [their_bot], ())"
    by (simp add: demo_registry_def ret_def)
  have "registry_For demo_libs demo_registry ''src'' ChannelTelegram '''' () = (Some (Inr (BuiltTelegram demo_bot)), ())"
    using demo_bot_made
    by (simp add: registry_For_def credential_Resolve_def demo_registry_def ret_def and_then_def lift_def Pick_def their_bot_def
        telegram_New_def demo_libs_def building_def)
  then show ?thesis using identity_is_the_sources [OF listed, of "''''" demo_libs] by simp
qed

text \<open>A dispatcher on that registry; what is no refusal is left out of it.\<close>

definition choosy_dispatcher :: "world dispatcher" where
  "choosy_dispatcher = (deployed_dispatcher demo_env demo_settings)\<lparr>d_senders :=
     \<lparr>reg_For = \<lambda>s c name. throw (case fst (registry_For demo_libs demo_registry s c name ()) of
        Some (Inl e) \<Rightarrow> e | _ \<Rightarrow> noSender c)\<rparr>\<rparr>"

definition no_such_name :: goerr where
  "no_such_name = WithStr (WithErr (InvalidInputErr ''no credential with that name'')
     (Sentinel (CredentialE credential_error.ErrNotFound))) (Text ''name %q'' [FmtS ''other''])"

theorem unusable_identity_is_no_sender_witness:
  "\<forall>n del. deliver_message choosy_dispatcher (del\<lparr>dlv_SenderName := ''other''\<rparr>) True n demo_world
     = fail choosy_dispatcher (del\<lparr>dlv_SenderName := ''other''\<rparr>) (Some n) FailureNoSender
         (Error (d_lib choosy_dispatcher) no_such_name) demo_world"
proof (intro allI)
  fix n :: notification and del :: delivery
  let ?del = "del\<lparr>dlv_SenderName := ''other''\<rparr>"
  have refused: "registry_For demo_libs demo_registry (ntf_SourceID n) (rcp_Channel (dlv_Recipient ?del)) (dlv_SenderName ?del) ()
      = (Some (Inl no_such_name), ())"
    by (simp add: registry_For_def credential_Resolve_def demo_registry_def ret_def and_then_def lift_def Pick_def
        their_bot_def no_such_name_def)
  then have "reg_For (d_senders choosy_dispatcher) (ntf_SourceID n) (rcp_Channel (dlv_Recipient ?del)) (dlv_SenderName ?del) demo_world
      = (Inl no_such_name, demo_world)"
    by (simp add: choosy_dispatcher_def throw_def)
  moreover have "of_type ErrInvalidInput no_such_name" by (simp add: no_such_name_def)
  then have "IsType no_such_name ErrInvalidInput" using TypeOf_of_type by blast
  ultimately show "deliver_message choosy_dispatcher ?del True n demo_world
      = fail choosy_dispatcher ?del (Some n) FailureNoSender (Error (d_lib choosy_dispatcher) no_such_name) demo_world"
    using unusable_identity_is_no_sender [where lastChance = True, OF refused] by simp
qed

end
