(* ===== verification/Browser.thy ===== *)
theory Browser
  imports Operators Gateway Identities Encoding
begin

text \<open>
  \<open>internal/adapter/api/web\<close>: \<open>web.go\<close>, \<open>session.go\<close>, \<open>form.go\<close>, \<open>render.go\<close>, \<open>errors.go\<close> and
  \<open>const.go\<close>, the half that the portal and the admin surface share: reading a form and a query
  string, the cookie, the guard, the pages and the engine. Gin's router is a parameter: it answers
  which registered route a path is, with the values of its parameters. The templates are parameters
  too: a page is its name and the data handed to it. Log lines are not modelled.
\<close>

subsection \<open>Package net/url\<close>

text \<open>\<open>QueryEscape\<close> and \<open>QueryUnescape\<close> work on bytes.\<close>

definition plain_in_query :: "char \<Rightarrow> bool" where
  "plain_in_query c \<longleftrightarrow>
     is_digit c \<or> (65 \<le> byte c \<and> byte c \<le> 90) \<or> (97 \<le> byte c \<and> byte c \<le> 122) \<or> c \<in> List.set ''-_.~''"

definition upper_hex :: "nat \<Rightarrow> char" where
  "upper_hex n = ''0123456789ABCDEF'' ! n"

definition escape_byte :: "char \<Rightarrow> string" where
  "escape_byte c =
     (if plain_in_query c then [c]
      else if c = CHR '' '' then ''+''
      else [CHR ''%'', upper_hex (byte c div 16), upper_hex (byte c mod 16)])"

definition QueryEscape :: "string \<Rightarrow> string" where
  "QueryEscape s = concat (map escape_byte s)"

fun QueryUnescape :: "string \<Rightarrow> string option" where
  "QueryUnescape [] = Some []"
| "QueryUnescape (c # s) =
    (if c = CHR ''%'' then
       (case s of
          a # b # t \<Rightarrow>
            (case (hex_value a, hex_value b) of
               (Some h, Some l) \<Rightarrow> map_option (Cons (char_of (h * 16 + l))) (QueryUnescape t)
             | _ \<Rightarrow> None)
        | _ \<Rightarrow> None)
     else map_option (Cons (if c = CHR ''+'' then CHR '' '' else c)) (QueryUnescape s))"

text \<open>
  \<open>ParseQuery\<close> keeps every pair it could read and says whether it met one that it could not. Its
  bound on the number of pairs is far above what the forms here may carry and is not modelled.
\<close>

definition cut_or_all :: "char \<Rightarrow> string \<Rightarrow> string \<times> string" where
  "cut_or_all x s = (case cut_at x s of None \<Rightarrow> (s, []) | Some (a, b) \<Rightarrow> (a, b))"

definition read_pair :: "string \<Rightarrow> (string \<times> string) list \<times> bool" where
  "read_pair piece =
     (if CHR '';'' \<in> List.set piece then ([], True)
      else if piece = [] then ([], False)
      else (case cut_or_all (CHR ''='') piece of (key, val) \<Rightarrow>
        (case (QueryUnescape key, QueryUnescape val) of
           (Some k, Some v) \<Rightarrow> ([(k, v)], False)
         | _ \<Rightarrow> ([], True))))"

lemma cut_or_all_length: "cut_or_all x (c # s) = (a, b) \<Longrightarrow> length b < length (c # s)"
  by (auto simp: cut_or_all_def simp del: cut_at.simps dest!: cut_at_Some split: option.splits)
     (metis length_append length_Cons add_Suc_right le_add2 less_Suc_eq_le)

function ParseQuery :: "string \<Rightarrow> (string \<times> string) list \<times> bool" where
  "ParseQuery [] = ([], False)"
| "ParseQuery (c # s) =
    (case cut_or_all (CHR ''&'') (c # s) of (piece, rest) \<Rightarrow>
     (case read_pair piece of (kv, bad) \<Rightarrow>
     (case ParseQuery rest of (vs, worse) \<Rightarrow> (kv @ vs, bad \<or> worse))))"
  by pat_completeness auto
termination
  by (relation "measure length") (auto dest: cut_or_all_length [OF sym])

text \<open>\<open>Values.Get\<close>, and \<open>m[key]\<close>.\<close>

definition values_at :: "(string \<times> string) list \<Rightarrow> string \<Rightarrow> string list" where
  "values_at vs k = map snd (filter (\<lambda>(k', v). k' = k) vs)"

definition first_value :: "(string \<times> string) list \<Rightarrow> string \<Rightarrow> string" where
  "first_value vs k = (case values_at vs k of [] \<Rightarrow> '''' | v # _ \<Rightarrow> v)"

lemma hex_value_upper: "n < 16 \<Longrightarrow> hex_value (upper_hex n) = Some n"
proof -
  assume "n < 16"
  then have "n \<in> {0, 1, 2, 3, 4, 5, 6, 7, 8, 9, 10, 11, 12, 13, 14, 15}" by (simp; arith)
  then show ?thesis by (auto simp: hex_value_def upper_hex_def byte_def)
qed

lemma unescape_byte: "QueryUnescape (escape_byte c @ s) = map_option (Cons c) (QueryUnescape s)"
proof -
  have "char_of (byte c div 16 * 16 + byte c mod 16) = c"
    by (simp add: byte_def)
  moreover have "byte c < 256"
    by (simp add: byte_def)
  moreover have "plain_in_query c \<Longrightarrow> c \<noteq> CHR ''%'' \<and> c \<noteq> CHR ''+''"
    by (auto simp: plain_in_query_def is_digit_def byte_def)
  ultimately show ?thesis
    by (auto simp: escape_byte_def hex_value_upper)
qed

lemma escape_roundtrip: "QueryUnescape (QueryEscape s) = Some s"
  by (induction s) (simp_all add: QueryEscape_def unescape_byte)

lemma upper_hex_plain: "n < 16 \<Longrightarrow> upper_hex n \<notin> List.set ''&;=''"
proof -
  assume "n < 16"
  then have "n \<in> {0, 1, 2, 3, 4, 5, 6, 7, 8, 9, 10, 11, 12, 13, 14, 15}" by (simp; arith)
  then show ?thesis by (auto simp: upper_hex_def)
qed

text \<open>An escaped text holds nothing that ends a key, a value or a pair.\<close>

lemma plain_byte: "x \<in> List.set ''&;='' \<Longrightarrow> \<not> plain_in_query x"
  by (auto simp: plain_in_query_def is_digit_def byte_def)

lemma escape_byte_plain:
  assumes "x \<in> List.set ''&;=''"
  shows "x \<notin> List.set (escape_byte c)"
proof -
  have "byte c div 16 < 16"
    using byte_less [of c] by simp
  with assms show ?thesis
    using plain_byte [OF assms] upper_hex_plain [of "byte c div 16"] upper_hex_plain [of "byte c mod 16"]
    unfolding escape_byte_def by (cases "plain_in_query c") auto
qed

lemma escaped_plain: "x \<in> List.set ''&;='' \<Longrightarrow> x \<notin> List.set (QueryEscape s)"
  by (induction s) (simp_all add: QueryEscape_def escape_byte_plain)

lemma cut_at_none: "x \<notin> List.set s \<Longrightarrow> cut_at x s = None"
  by (induction s) auto

lemma cut_at_before: "x \<notin> List.set a \<Longrightarrow> cut_at x (a @ x # b) = Some (a, b)"
  by (induction a) auto

text \<open>A key written plainly, and any value escaped, are read back.\<close>

lemma read_escaped_pair:
  assumes "QueryUnescape key = Some key" "key \<noteq> []" "\<forall>x \<in> List.set ''&;=''. x \<notin> List.set key"
  shows "ParseQuery (key @ CHR ''='' # QueryEscape v) = ([(key, v)], False)"
proof -
  let ?q = "key @ CHR ''='' # QueryEscape v"
  have no: "CHR ''&'' \<notin> List.set ?q" "CHR '';'' \<notin> List.set ?q" "CHR ''='' \<notin> List.set key"
    using assms(3) by (simp_all add: escaped_plain)
  then have "read_pair ?q = ([(key, v)], False)"
    using assms(1) by (simp add: read_pair_def cut_or_all_def cut_at_before escape_roundtrip)
  moreover have "cut_or_all (CHR ''&'') ?q = (?q, [])"
    using cut_at_none [OF no(1)] by (simp only: cut_or_all_def option.case)
  moreover obtain c t where ct: "?q = c # t"
    by (cases ?q) auto
  ultimately show ?thesis
    unfolding ct by (simp only: ParseQuery.simps prod.case append_Nil2 simp_thms)
qed

subsection \<open>Requests, answers and pages\<close>

text \<open>
  The content type is what \<open>mime.ParseMediaType\<close> makes of the header: the media type, and whether
  the header was malformed.
\<close>

record web_request =
  wr_Method :: string
  wr_Path :: string
  wr_RawQuery :: string
  wr_Cookies :: "(string \<times> string) list"
  wr_Media :: "string \<times> bool"
  wr_Body :: string

record cookie =
  ck_Name :: string
  ck_Value :: string
  ck_Path :: string
  ck_Domain :: string
  ck_HttpOnly :: bool
  ck_Secure :: bool
  ck_SameSite :: string
  ck_Expires :: time
  ck_MaxAge :: int

record chrome =
  chr_SignedIn :: bool
  chr_Wide :: bool

record admin_chrome =
  ach_SignedIn :: bool
  ach_SuperAdmin :: bool

record channel_guide =
  cg_Channel :: channel
  cg_Identity :: string
  cg_Settings :: string
  cg_Hint :: string

text \<open>The data of each page.\<close>

datatype page =
    SignInPage chrome string string
  | CodePage chrome string string
  | AccountPage chrome user
  | SourceListPage chrome "source list" string
  | SourceNewPage chrome string string
  | SourcePage chrome source
  | SourceEditPage chrome source "channel list" string
  | KeysPage chrome string "key list" string
  | KeyIssuedPage chrome string string string
  | SendersPage chrome string "credential list" string string "channel_guide list"
  | CallbackPage chrome string "webhook option" string
  | CallbackSecretPage chrome string string string
  | ReferencePage chrome string
  | QueuePage admin_chrome "source list" bool string
  | AdminSourcesPage admin_chrome "source list" bool string string
  | AdminSourcePage admin_chrome source "credential list" "audit_entry list" bool string
  | AdminLogPage admin_chrome string "operator_message list" bool string "operator_delivery list" string
  | PeoplePage admin_chrome "user list" bool string
  | PersonPage admin_chrome user bool string
  | AuditPage admin_chrome "audit_entry list" bool string

text \<open>
  \<open>SeeOther\<close> is a 303, \<open>Html\<close> a page by its name, \<open>Words\<close> a status and a line of text, \<open>Document\<close>
  a whole file, \<open>StatusOnly\<close> a status alone: 404 and 405 from the engine, 500 after a panic.
  \<open>Elsewhere\<close> is the router's own redirect to a tidied path, \<open>File\<close> what the file server answers.
\<close>

datatype web_reply =
    SeeOther string
  | Html string page
  | Words nat string
  | Document string
  | StatusOnly nat
  | Elsewhere string
  | File string

record response =
  rs_Cookies :: "cookie list"
  rs_Reply :: web_reply

definition respond :: "web_reply \<Rightarrow> 'w \<Rightarrow> response \<times> 'w" where
  "respond r = (\<lambda>w. (\<lparr>rs_Cookies = [], rs_Reply = r\<rparr>, w))"

definition respond_with :: "cookie list \<Rightarrow> web_reply \<Rightarrow> 'w \<Rightarrow> response \<times> 'w" where
  "respond_with cs r = (\<lambda>w. (\<lparr>rs_Cookies = cs, rs_Reply = r\<rparr>, w))"

text \<open>A call to the core, whose error the handler looks at.\<close>

definition ask :: "('w, 'a) io \<Rightarrow> ('a result \<Rightarrow> 'w \<Rightarrow> 'b \<times> 'w) \<Rightarrow> 'w \<Rightarrow> 'b \<times> 'w" where
  "ask m k = (\<lambda>w. case m w of (r, w') \<Rightarrow> k r w')"

lemma respond_simps [simp]:
  "respond r w = (\<lparr>rs_Cookies = [], rs_Reply = r\<rparr>, w)"
  "respond_with cs r w = (\<lparr>rs_Cookies = cs, rs_Reply = r\<rparr>, w)"
  by (simp_all add: respond_def respond_with_def)

text \<open>\<open>message\<close>: the only part of an error that a page shows.\<close>

definition web_message :: "goerr \<Rightarrow> string" where
  "web_message err = (case as_app err of None \<Rightarrow> ''Something went wrong. Try again.'' | Some (_, m, _) \<Rightarrow> m)"

text \<open>Gin's context: the request, the values of the path's parameters, and whom the guard let in.\<close>

record web_context =
  cx_Request :: web_request
  cx_Params :: "(string \<times> string) list"
  cx_User :: "user option"

type_synonym 'w handler = "web_context \<Rightarrow> 'w \<Rightarrow> response \<times> 'w"

definition param :: "web_context \<Rightarrow> string \<Rightarrow> string" where
  "param c k = first_value (cx_Params c) k"

definition query_value :: "web_context \<Rightarrow> string \<Rightarrow> string" where
  "query_value c k = first_value (fst (ParseQuery (wr_RawQuery (cx_Request c)))) k"

subsection \<open>Forms\<close>

definition maxFormBytes :: nat where "maxFormBytes = 4096"

definition form_media :: string where
  "form_media = ''application/x-www-form-urlencoded''"

text \<open>
  \<open>ParseForm\<close> reads the body once: the first call answers the error and later ones none. The form
  is nil until then.
\<close>

definition parsePostForm :: "web_request \<Rightarrow> (string \<times> string) list \<times> bool" where
  "parsePostForm r =
    (case wr_Media r of (media, malformed) \<Rightarrow>
     if media = form_media then
       (if maxFormBytes < length (wr_Body r) then ([], True)
        else (case ParseQuery (wr_Body r) of (vs, bad) \<Rightarrow> (vs, malformed \<or> bad)))
     else ([], malformed))"

type_synonym post_form = "(string \<times> string) list option"

definition ParseForm :: "web_request \<Rightarrow> post_form \<Rightarrow> (string \<times> string) list \<times> bool" where
  "ParseForm r form =
    (case form of
       Some vs \<Rightarrow> (vs, False)
     | None \<Rightarrow>
         (case (if wr_Method r \<in> {''POST'', ''PUT'', ''PATCH''} then parsePostForm r else ([], False)) of
            (vs, bad) \<Rightarrow> (vs, bad \<or> snd (ParseQuery (wr_RawQuery r)))))"

definition formValue :: "web_context \<Rightarrow> post_form \<Rightarrow> string \<Rightarrow> string \<times> post_form" where
  "formValue c form name =
    (case ParseForm (cx_Request c) form of (vs, bad) \<Rightarrow>
     (if bad then [] else first_value vs name, Some vs))"

text \<open>\<open>c.Request.PostForm\<close>, after the first field was read.\<close>

definition posted :: "post_form \<Rightarrow> string \<Rightarrow> string list" where
  "posted form k = (case form of None \<Rightarrow> [] | Some vs \<Rightarrow> values_at vs k)"

subsection \<open>The cookie and the guard\<close>

record 'w sign_in_port =
  sip_Request :: "string \<Rightarrow> ('w, unit) io"
  sip_Verify :: "string \<Rightarrow> string \<Rightarrow> ('w, session) io"
  sip_Whoami :: "ID \<Rightarrow> ('w, user) io"
  sip_End :: "ID \<Rightarrow> ('w, unit) io"

definition sign_in_pages :: "'w sign_in \<Rightarrow> 'w sign_in_port" where
  "sign_in_pages S =
    \<lparr>sip_Request = Request S, sip_Verify = Verify S, sip_Whoami = Whoami S, sip_End = End S\<rparr>"

record 'w sessions =
  wss_signIn :: "'w sign_in_port"
  wss_name :: string
  wss_secure :: bool

definition newSessions :: "'w sign_in_port \<Rightarrow> string \<Rightarrow> bool \<Rightarrow> 'w sessions" where
  "newSessions S name secure = \<lparr>wss_signIn = S, wss_name = name, wss_secure = secure\<rparr>"

definition unix_epoch :: time where
  "unix_epoch = 62135596800 * second"

definition sessions_begin :: "'w sessions \<Rightarrow> session \<Rightarrow> cookie" where
  "sessions_begin S sess =
    \<lparr>ck_Name = wss_name S, ck_Value = ses_ID sess, ck_Path = ''/'', ck_Domain = [], ck_HttpOnly = True,
     ck_Secure = wss_secure S, ck_SameSite = ''Lax'', ck_Expires = ses_ExpiresAt sess, ck_MaxAge = 0\<rparr>"

definition sessions_clear :: "'w sessions \<Rightarrow> cookie" where
  "sessions_clear S =
    \<lparr>ck_Name = wss_name S, ck_Value = [], ck_Path = ''/'', ck_Domain = [], ck_HttpOnly = True,
     ck_Secure = wss_secure S, ck_SameSite = ''Lax'', ck_Expires = unix_epoch, ck_MaxAge = -1\<rparr>"

text \<open>Gin answers the unescaped value, or an empty one where it cannot be unescaped.\<close>

definition sessions_ID :: "'w sessions \<Rightarrow> web_context \<Rightarrow> ID option" where
  "sessions_ID S c =
    (case values_at (wr_Cookies (cx_Request c)) (wss_name S) of
       [] \<Rightarrow> None
     | raw # _ \<Rightarrow>
         (case QueryUnescape raw of
            None \<Rightarrow> None
          | Some v \<Rightarrow> if v = [] then None else Some v))"

record may =
  may_allows :: "user \<Rightarrow> bool"
  may_endsSession :: bool

definition anybody :: may where
  "anybody = \<lparr>may_allows = \<lambda>_. True, may_endsSession = False\<rparr>"

definition operator_rule :: may where
  "operator_rule = \<lparr>may_allows = \<lambda>u. IsOperator (usr_Role u), may_endsSession = True\<rparr>"

definition superAdmin :: may where
  "superAdmin = \<lparr>may_allows = \<lambda>u. usr_Role u = RoleSuperAdmin, may_endsSession = False\<rparr>"

definition guard :: "'w sessions \<Rightarrow> may \<Rightarrow> string \<Rightarrow> 'w handler \<Rightarrow> 'w handler" where
  "guard S rule refusedPath next c =
    (case sessions_ID S c of
       None \<Rightarrow> respond (SeeOther refusedPath)
     | Some i \<Rightarrow>
         ask (sip_Whoami (wss_signIn S) i) (\<lambda>r. case r of
           Inl err \<Rightarrow> respond_with [sessions_clear S] (SeeOther refusedPath)
         | Inr u \<Rightarrow>
             if \<not> may_allows rule u then
               respond_with (if may_endsSession rule then [sessions_clear S] else []) (SeeOther refusedPath)
             else next (c\<lparr>cx_User := Some u\<rparr>)))"

text \<open>A page outside a guarded group panics; \<open>recovery\<close> answers 500 and nothing else.\<close>

definition recovery :: "'w \<Rightarrow> response \<times> 'w" where
  "recovery = respond (StatusOnly 500)"

definition signedInUser :: "web_context \<Rightarrow> (user \<Rightarrow> 'w \<Rightarrow> response \<times> 'w) \<Rightarrow> 'w \<Rightarrow> response \<times> 'w" where
  "signedInUser c k = (case cx_User c of None \<Rightarrow> recovery | Some u \<Rightarrow> k u)"

subsection \<open>The engine\<close>

text \<open>
  A surface is the pages its templates were parsed for and its table of routes, each a method, a
  pattern and a handler. The router is gin's.
\<close>

type_synonym 'w web_route = "(string \<times> string) \<times> 'w handler"

record 'w surface =
  sf_pages :: "string list"
  sf_routes :: "'w web_route list"

datatype matched =
    Matched "string \<times> string" "(string \<times> string) list"
  | NoSuchMethod
  | NoSuchRoute
  | Tidied string

type_synonym router = "(string \<times> string) list \<Rightarrow> string \<Rightarrow> string \<Rightarrow> matched"

text \<open>
  What is embedded of the directory \<open>public/\<close>: whether a surface's template parses, its assets and
  the files that are served whole.
\<close>

record public_files =
  pf_template :: "string \<Rightarrow> string \<Rightarrow> unit result"
  pf_assets :: "string \<Rightarrow> (string \<Rightarrow> string) result"
  pf_guarded :: "string \<Rightarrow> string \<Rightarrow> string result"

fun newPageRender :: "public_files \<Rightarrow> string \<Rightarrow> string list \<Rightarrow> string list result" where
  "newPageRender P dir [] = Inr []"
| "newPageRender P dir (name # names) =
    then_result (pf_template P dir name) (\<lambda>_.
    then_result (newPageRender P dir names) (\<lambda>ps. Inr (name # ps)))"

definition render_reply :: "string list \<Rightarrow> web_reply \<Rightarrow> web_reply" where
  "render_reply pages r =
    (case r of
       Html name p \<Rightarrow> if name \<in> List.set pages then r else Words 200 (''no such page: '' @ name)
     | _ \<Rightarrow> r)"

definition static_files :: "(string \<Rightarrow> string) \<Rightarrow> 'w handler" where
  "static_files assets c = respond (File (assets (param c ''filepath'')))"

definition web_serve :: "router \<Rightarrow> 'w surface \<Rightarrow> web_request \<Rightarrow> 'w \<Rightarrow> response \<times> 'w" where
  "web_serve gin S r =
    (case gin (map fst (sf_routes S)) (wr_Method r) (wr_Path r) of
       Matched key ps \<Rightarrow>
         (case map_of (sf_routes S) key of
            None \<Rightarrow> respond (StatusOnly 404)
          | Some h \<Rightarrow>
              (\<lambda>w. case h \<lparr>cx_Request = r, cx_Params = ps, cx_User = None\<rparr> w of
                 (a, w') \<Rightarrow> (a\<lparr>rs_Reply := render_reply (sf_pages S) (rs_Reply a)\<rparr>, w')))
     | NoSuchMethod \<Rightarrow> respond (StatusOnly 405)
     | NoSuchRoute \<Rightarrow> respond (StatusOnly 404)
     | Tidied loc \<Rightarrow> respond (Elsewhere loc))"

subsection \<open>Reasoning about handlers\<close>

text \<open>
  \<open>always Q f\<close>: whatever the core answers, the response of \<open>f\<close> satisfies \<open>Q\<close>. The rules follow
  the calls of a handler.
\<close>

definition always :: "(response \<Rightarrow> bool) \<Rightarrow> ('w \<Rightarrow> response \<times> 'w) \<Rightarrow> bool" where
  "always Q f \<longleftrightarrow> (\<forall>w. Q (fst (f w)))"

named_theorems answers

lemma always_respond [answers, simp]: "always Q (respond r) \<longleftrightarrow> Q \<lparr>rs_Cookies = [], rs_Reply = r\<rparr>"
  by (simp add: always_def)

lemma always_respond_with [answers, simp]: "always Q (respond_with cs r) \<longleftrightarrow> Q \<lparr>rs_Cookies = cs, rs_Reply = r\<rparr>"
  by (simp add: always_def)

lemma always_ask: "(\<And>r. always Q (k r)) \<Longrightarrow> always Q (ask m k)"
  by (simp add: always_def ask_def split: prod.split)

text \<open>A call that is known to fail.\<close>

lemma always_ask_error:
  assumes "\<And>w. \<exists>e w'. m w = (Inl e, w')" "\<And>e. always Q (k (Inl e))"
  shows "always Q (ask m k)"
  unfolding always_def ask_def
proof
  fix w
  from assms(1) [of w] obtain e w' where "m w = (Inl e, w')" by blast
  then show "Q (fst (case m w of (r, w') \<Rightarrow> k r w'))"
    using assms(2) [of e] by (simp add: always_def)
qed

lemma always_inside: "always Q (signedInUser (c\<lparr>cx_User := Some u\<rparr>) k) \<longleftrightarrow> always Q (k u)"
  by (simp add: signedInUser_def)

lemma ask_run: "m w = (r, w') \<Longrightarrow> ask m k w = k r w'"
  by (simp add: ask_def)

lemma inside_simps [simp]:
  "cx_User (c\<lparr>cx_User := x\<rparr>) = x"
  "param (c\<lparr>cx_User := x\<rparr>) = param c"
  "query_value (c\<lparr>cx_User := x\<rparr>) = query_value c"
  "formValue (c\<lparr>cx_User := x\<rparr>) = formValue c"
  by (simp_all add: param_def query_value_def formValue_def fun_eq_iff)

lemma always_guard:
  assumes "\<And>cs. Q \<lparr>rs_Cookies = cs, rs_Reply = SeeOther refusedPath\<rparr>"
    and "\<And>u. may_allows rule u \<Longrightarrow> always Q (next (c\<lparr>cx_User := Some u\<rparr>))"
  shows "always Q (guard S rule refusedPath next c)"
  unfolding guard_def using assms
  by (auto split: option.split sum.split intro!: always_ask)

text \<open>What the guard does with each of the three answers.\<close>

lemma guard_run:
  "sessions_ID S c = None \<Longrightarrow> guard S rule to next c w = (\<lparr>rs_Cookies = [], rs_Reply = SeeOther to\<rparr>, w)"
  "\<lbrakk>sessions_ID S c = Some i; sip_Whoami (wss_signIn S) i w = (Inl err, w')\<rbrakk>
    \<Longrightarrow> guard S rule to next c w = (\<lparr>rs_Cookies = [sessions_clear S], rs_Reply = SeeOther to\<rparr>, w')"
  "\<lbrakk>sessions_ID S c = Some i; sip_Whoami (wss_signIn S) i w = (Inr u, w'); \<not> may_allows rule u\<rbrakk>
    \<Longrightarrow> guard S rule to next c w =
      (\<lparr>rs_Cookies = (if may_endsSession rule then [sessions_clear S] else []), rs_Reply = SeeOther to\<rparr>, w')"
  "\<lbrakk>sessions_ID S c = Some i; sip_Whoami (wss_signIn S) i w = (Inr u, w'); may_allows rule u\<rbrakk>
    \<Longrightarrow> guard S rule to next c w = next (c\<lparr>cx_User := Some u\<rparr>) w'"
  by (simp_all add: guard_def ask_run)

lemma web_serve_run:
  assumes "gin (map fst (sf_routes S)) (wr_Method r) (wr_Path r) = Matched key ps" "map_of (sf_routes S) key = Some h"
  shows "web_serve gin S r w =
    (case h \<lparr>cx_Request = r, cx_Params = ps, cx_User = None\<rparr> w of
       (a, w') \<Rightarrow> (a\<lparr>rs_Reply := render_reply (sf_pages S) (rs_Reply a)\<rparr>, w'))"
  using assms by (simp add: web_serve_def)

text \<open>A property of every handler of the table, and of the engine's own answers.\<close>

lemma serve_always:
  assumes "\<And>key h c. (key, h) \<in> List.set (sf_routes S) \<Longrightarrow> always (\<lambda>a. Q (render_reply (sf_pages S) (rs_Reply a))) (h c)"
    and "Q (StatusOnly 404)" "Q (StatusOnly 405)" "\<And>loc. Q (Elsewhere loc)"
  shows "Q (rs_Reply (fst (web_serve gin S r w)))"
  using assms
  by (auto simp: web_serve_def always_def split: matched.split option.split prod.split dest!: map_of_SomeD)
     (metis fst_conv)

lemma page_render: "newPageRender P dir names = Inr pages \<Longrightarrow> pages = names"
  by (induction names arbitrary: pages) (auto simp: then_result_Inr)

lemma guarded_keys: "map fst (map (\<lambda>(key, h). (key, g h)) routes) = map fst routes"
  by (induction routes) auto

subsection \<open>What the router documents\<close>

text \<open>
  A pattern is matched segment by segment: \<open>:name\<close> takes one segment that is not empty, \<open>*name\<close> the
  rest of the path. A router answers a registered route of the method asked for whose pattern
  matches, with the values of its parameters; which one of several, and what it answers otherwise,
  is left to it.
\<close>

fun segments :: "string \<Rightarrow> string list" where
  "segments [] = [[]]"
| "segments (c # s) =
    (if c = CHR ''/'' then [] # segments s
     else (case segments s of [] \<Rightarrow> [[c]] | x # xs \<Rightarrow> (c # x) # xs))"

fun match_segments :: "string list \<Rightarrow> string list \<Rightarrow> (string \<times> string) list option" where
  "match_segments [] [] = Some []"
| "match_segments (p # ps) (s # ss) =
    (case p of
       [] \<Rightarrow> if s = [] then match_segments ps ss else None
     | c # name \<Rightarrow>
         if c = CHR '':'' then (if s = [] then None else map_option (Cons (name, s)) (match_segments ps ss))
         else if c = CHR ''*'' then Some [(name, concat (map (Cons (CHR ''/'')) (s # ss)))]
         else if p = s then match_segments ps ss else None)"
| "match_segments _ _ = None"

definition path_params :: "string \<Rightarrow> string \<Rightarrow> (string \<times> string) list option" where
  "path_params pattern path = match_segments (segments pattern) (segments path)"

definition follows_patterns :: "router \<Rightarrow> bool" where
  "follows_patterns gin \<longleftrightarrow>
     (\<forall>table m path key ps. gin table m path = Matched key ps \<longrightarrow>
        key \<in> List.set table \<and> fst key = m \<and> path_params (snd key) path = Some ps)"

text \<open>One router that does: the first route of the table that matches.\<close>

definition first_match :: router where
  "first_match table m path =
    (let fits = filter (\<lambda>key. path_params (snd key) path \<noteq> None) table in
     case filter (\<lambda>key. fst key = m) fits of
       key # _ \<Rightarrow> Matched key (the (path_params (snd key) path))
     | [] \<Rightarrow> if fits = [] then NoSuchRoute else NoSuchMethod)"

lemma first_match_follows: "follows_patterns first_match"
proof (unfold follows_patterns_def, intro allI impI)
  fix table :: "(string \<times> string) list" and m path key ps
  let ?fits = "filter (\<lambda>key. path_params (snd key) path \<noteq> None) table"
  assume "first_match table m path = Matched key ps"
  then obtain rest where "filter (\<lambda>key. fst key = m) ?fits = key # rest"
    and ps: "ps = the (path_params (snd key) path)"
    by (auto simp: first_match_def Let_def split: list.splits if_splits)
  then have "key \<in> List.set (filter (\<lambda>key. fst key = m) ?fits)"
    by simp
  then show "key \<in> List.set table \<and> fst key = m \<and> path_params (snd key) path = Some ps"
    using ps by auto
qed

text \<open>Two patterns that no path can match both: at some segment both are literal and differ.\<close>

definition is_param :: "string \<Rightarrow> bool" where
  "is_param s \<longleftrightarrow> (case s of [] \<Rightarrow> False | c # _ \<Rightarrow> c = CHR '':'')"

definition is_rest :: "string \<Rightarrow> bool" where
  "is_rest s \<longleftrightarrow> (case s of [] \<Rightarrow> False | c # _ \<Rightarrow> c = CHR ''*'')"

fun apart :: "string list \<Rightarrow> string list \<Rightarrow> bool" where
  "apart [] [] = False"
| "apart [] (q # qs) = True"
| "apart (p # ps) [] = True"
| "apart (p # ps) (q # qs) =
    (if is_rest p \<or> is_rest q then False
     else (\<not> is_param p \<and> \<not> is_param q \<and> p \<noteq> q) \<or> apart ps qs)"

lemma match_literal:
  "\<not> is_rest p \<Longrightarrow> match_segments (p # ps) (s # ss) = Some out \<Longrightarrow>
     (is_param p \<or> p = s) \<and> (\<exists>out'. match_segments ps ss = Some out')"
  by (cases p) (auto simp: is_rest_def is_param_def split: if_splits)

lemma apart_no_match: "apart ps qs \<Longrightarrow> match_segments ps xs = Some out \<Longrightarrow> match_segments qs xs = None"
proof (induction ps qs arbitrary: xs out rule: apart.induct)
  case (2 q qs)
  then show ?case by (cases xs) auto
next
  case (3 p ps)
  then show ?case by (cases xs) auto
next
  case (4 p ps q qs)
  then have plain: "\<not> is_rest p" "\<not> is_rest q"
    by (auto split: if_splits)
  obtain s ss where xs: "xs = s # ss"
    using 4(3) by (cases xs) auto
  with 4(3) plain(1) obtain out' where left: "is_param p \<or> p = s" "match_segments ps ss = Some out'"
    using match_literal by blast
  have "match_segments qs ss = None" if "apart ps qs"
    using 4(1) [OF _ that left(2)] plain by simp
  then have "\<nexists>y. match_segments (q # qs) (s # ss) = Some y"
    using match_literal [OF plain(2)] 4(2) plain left(1) by (metis apart.simps(4) option.distinct(1))
  then show ?case
    by (simp add: xs)
qed simp

subsection \<open>Two tables that differ behind other methods\<close>

text \<open>\<open>same_gets xs ys\<close>: the same routes in the same order, with the same handler for every GET.\<close>

definition same_gets :: "'w web_route list \<Rightarrow> 'w web_route list \<Rightarrow> bool" where
  "same_gets = list_all2 (\<lambda>a b. fst a = fst b \<and> (fst (fst a) = ''GET'' \<longrightarrow> snd a = snd b))"

lemma same_gets_append: "same_gets xs ys \<Longrightarrow> same_gets us vs \<Longrightarrow> same_gets (xs @ us) (ys @ vs)"
  by (simp add: same_gets_def list_all2_appendI)

lemma same_gets_refl: "same_gets xs xs"
  by (simp add: same_gets_def list_all2_same)

lemma same_gets_map: "same_gets xs ys \<Longrightarrow> same_gets (map (\<lambda>(k, h). (k, g h)) xs) (map (\<lambda>(k, h). (k, g h)) ys)"
  unfolding same_gets_def by (induction rule: list_all2_induct) (auto split: prod.splits)

lemma same_gets_keys: "same_gets xs ys \<Longrightarrow> map fst xs = map fst ys"
  unfolding same_gets_def by (induction rule: list_all2_induct) auto

lemma same_gets_map_of: "same_gets xs ys \<Longrightarrow> fst key = ''GET'' \<Longrightarrow> map_of xs key = map_of ys key"
  unfolding same_gets_def by (induction rule: list_all2_induct) auto

lemma same_gets_serve:
  assumes "same_gets (sf_routes S) (sf_routes S')" "sf_pages S = sf_pages S'"
    and "follows_patterns gin" "wr_Method r = ''GET''"
  shows "web_serve gin S r = web_serve gin S' r"
proof -
  have "map_of (sf_routes S) key = map_of (sf_routes S') key"
    if "gin (map fst (sf_routes S')) (wr_Method r) (wr_Path r) = Matched key ps" for key ps
    using that assms(3,4) same_gets_map_of [OF assms(1)] unfolding follows_patterns_def by metis
  then show ?thesis
    unfolding web_serve_def assms(2) same_gets_keys [OF assms(1)] by (auto split: matched.split)
qed

text \<open>The guard uses one call of the sign-in port.\<close>

lemma guard_same:
  assumes "sip_Whoami S = sip_Whoami S'"
  shows "guard (newSessions S name secure) rule p = guard (newSessions S' name secure) rule p"
  unfolding guard_def newSessions_def sessions_ID_def sessions_clear_def sessions.select_convs assms ..

end
