(* ===== verification/Portal.thy ===== *)
theory Portal
  imports Browser
begin

text \<open>
  \<open>internal/adapter/api/web\<close>: \<open>portal.go\<close> and the \<open>portal_*.go\<close> files. The customer's surface: what
  it needs of the core as records of ports, each built on the use case that satisfies it, one
  handler per page, and the table of its routes.
\<close>

subsection \<open>Names\<close>

definition pathHome :: string where "pathHome = ''/''"
definition pathSignIn :: string where "pathSignIn = ''/signin''"
definition pathCode :: string where "pathCode = ''/signin/code''"
definition pathSignOut :: string where "pathSignOut = ''/signout''"
definition pathStatic :: string where "pathStatic = ''/static''"
definition pathSources :: string where "pathSources = ''/sources''"
definition pathSourceNew :: string where "pathSourceNew = ''/sources/new''"
definition pathSource :: string where "pathSource = ''/sources/:id''"
definition pathSourceEdit :: string where "pathSourceEdit = ''/sources/:id/edit''"
definition pathSenderOff :: string where "pathSenderOff = ''/sources/:id/senders/:senderID/off''"
definition pathSenderOn :: string where "pathSenderOn = ''/sources/:id/senders/:senderID/on''"
definition pathSenderTest :: string where "pathSenderTest = ''/sources/:id/senders/:senderID/test''"
definition pathSourceKeys :: string where "pathSourceKeys = ''/sources/:id/keys''"
definition pathKeyRevoke :: string where "pathKeyRevoke = ''/sources/:id/keys/:keyID/revoke''"
definition pathSourceSenders :: string where "pathSourceSenders = ''/sources/:id/senders''"
definition pathSourceCallback :: string where "pathSourceCallback = ''/sources/:id/callback''"
definition pathReference :: string where "pathReference = ''/reference''"

definition portalCookieName :: string where "portalCookieName = ''srosha_portal''"
definition surfacePortal :: string where "surfacePortal = ''portal''"
definition fileSDKReadme :: string where "fileSDKReadme = ''sdk.md''"

definition inside_page :: chrome where
  "inside_page = \<lparr>chr_SignedIn = True, chr_Wide = False\<rparr>"

definition wide_page :: chrome where
  "wide_page = \<lparr>chr_SignedIn = True, chr_Wide = True\<rparr>"

definition outside_page :: chrome where
  "outside_page = \<lparr>chr_SignedIn = False, chr_Wide = False\<rparr>"

subsection \<open>Getting in and being in\<close>

definition signin_show :: "'w handler" where
  "signin_show c = respond (Html ''signin'' (SignInPage outside_page '''' ''''))"

definition signin_request :: "'w sign_in_port \<Rightarrow> 'w handler" where
  "signin_request S c =
    (case formValue c None ''email'' of (email, form) \<Rightarrow>
     ask (sip_Request S email) (\<lambda>r. case r of
       Inl err \<Rightarrow> respond (Html ''signin'' (SignInPage outside_page email (web_message err)))
     | Inr _ \<Rightarrow> respond (SeeOther (pathCode @ ''?'' @ ''email'' @ ''='' @ QueryEscape email))))"

definition signin_showCode :: "'w handler" where
  "signin_showCode c = respond (Html ''code'' (CodePage outside_page (query_value c ''email'') ''''))"

definition signin_verify :: "'w sign_in_port \<Rightarrow> 'w sessions \<Rightarrow> 'w handler" where
  "signin_verify S ss c =
    (case formValue c None ''email'' of (email, form) \<Rightarrow>
     (case formValue c form ''code'' of (code, form) \<Rightarrow>
     ask (sip_Verify S email code) (\<lambda>r. case r of
       Inl err \<Rightarrow> respond (Html ''code'' (CodePage outside_page email (web_message err)))
     | Inr sess \<Rightarrow> respond_with [sessions_begin ss sess] (SeeOther pathHome))))"

definition account_show :: "'w handler" where
  "account_show c = signedInUser c (\<lambda>u. respond (Html ''account'' (AccountPage inside_page u)))"

definition account_signOut :: "'w sign_in_port \<Rightarrow> 'w sessions \<Rightarrow> 'w handler" where
  "account_signOut S ss c =
    (case sessions_ID ss c of
       Some i \<Rightarrow> ask (sip_End S i) (\<lambda>_. respond_with [sessions_clear ss] (SeeOther pathSignIn))
     | None \<Rightarrow> respond_with [sessions_clear ss] (SeeOther pathSignIn))"

subsection \<open>A customer's sources\<close>

record 'w source_pages =
  sop_Register :: "user \<Rightarrow> source_registration \<Rightarrow> ('w, source) io"
  sop_Mine :: "user \<Rightarrow> ('w, source list) io"
  sop_One :: "user \<Rightarrow> string \<Rightarrow> ('w, source) io"
  sop_Update :: "user \<Rightarrow> string \<Rightarrow> source_settings \<Rightarrow> ('w, source) io"

definition source_pages_of :: "'w sources \<Rightarrow> 'w source_pages" where
  "source_pages_of S = \<lparr>sop_Register = Sources_Register S, sop_Mine = Sources_Mine S,
     sop_One = Sources_One S, sop_Update = Sources_Update S\<rparr>"

definition notFound :: "'w \<Rightarrow> response \<times> 'w" where
  "notFound = respond (Words 404 ''no such source'')"

definition sources_list :: "'w source_pages \<Rightarrow> 'w handler" where
  "sources_list S c = signedInUser c (\<lambda>u.
    ask (sop_Mine S u) (\<lambda>r. case r of
      Inl err \<Rightarrow> respond (Html ''sources'' (SourceListPage inside_page [] (web_message err)))
    | Inr mine \<Rightarrow> respond (Html ''sources'' (SourceListPage inside_page mine ''''))))"

definition sources_showNew :: "'w handler" where
  "sources_showNew c = respond (Html ''source_new'' (SourceNewPage inside_page '''' ''''))"

text \<open>
  \<open>defaultAddresses\<close>: the channels and the addresses of the form, paired by position. A later pair
  overwrites an earlier one of its channel.
\<close>

fun map_put :: "'k \<Rightarrow> 'v \<Rightarrow> ('k \<times> 'v) list \<Rightarrow> ('k \<times> 'v) list" where
  "map_put k v [] = [(k, v)]"
| "map_put k v ((k', v') # m) = (if k' = k then (k, v) # m else (k', v') # map_put k v m)"

fun put_addresses :: "string list \<Rightarrow> string list \<Rightarrow> (channel \<times> string) list \<Rightarrow> (channel \<times> string) list" where
  "put_addresses (ch # chs) (a # addrs) out =
    (let channel = TrimSpace ch; address = TrimSpace a in
     put_addresses chs addrs
       (if channel = [] \<or> address = [] then out else map_put (Channel channel) address out))"
| "put_addresses _ _ out = out"

definition defaultAddresses :: "post_form \<Rightarrow> (channel \<times> string) list" where
  "defaultAddresses form = put_addresses (posted form ''channel'') (posted form ''address'') []"

definition sources_create :: "'w source_pages \<Rightarrow> 'w handler" where
  "sources_create S c =
    (case formValue c None ''name'' of (name, form) \<Rightarrow>
     signedInUser c (\<lambda>u.
     ask (sop_Register S u \<lparr>sreg_Name = name, sreg_DefaultAddresses = Some (defaultAddresses form)\<rparr>) (\<lambda>r. case r of
       Inl err \<Rightarrow> respond (Html ''source_new'' (SourceNewPage inside_page name (web_message err)))
     | Inr _ \<Rightarrow> respond (SeeOther pathSources))))"

definition sources_show :: "'w source_pages \<Rightarrow> 'w handler" where
  "sources_show S c = signedInUser c (\<lambda>u.
    ask (sop_One S u (param c ''id'')) (\<lambda>r. case r of
      Inl err \<Rightarrow> notFound
    | Inr src \<Rightarrow> respond (Html ''source'' (SourcePage inside_page src))))"

definition sources_showEdit :: "'w source_pages \<Rightarrow> 'w handler" where
  "sources_showEdit S c = signedInUser c (\<lambda>u.
    ask (sop_One S u (param c ''id'')) (\<lambda>r. case r of
      Inl err \<Rightarrow> notFound
    | Inr src \<Rightarrow> respond (Html ''source_edit'' (SourceEditPage inside_page src AllChannels ''''))))"

definition sources_editWith :: "'w source_pages \<Rightarrow> web_context \<Rightarrow> string \<Rightarrow> string \<Rightarrow> 'w \<Rightarrow> response \<times> 'w" where
  "sources_editWith S c i problem = signedInUser c (\<lambda>u.
    ask (sop_One S u i) (\<lambda>r. case r of
      Inl err \<Rightarrow> notFound
    | Inr src \<Rightarrow> respond (Html ''source_edit'' (SourceEditPage inside_page src AllChannels problem))))"

definition sources_update :: "'w source_pages \<Rightarrow> 'w handler" where
  "sources_update S c =
    (let i = param c ''id'' in
     case formValue c None ''name'' of (name, form) \<Rightarrow>
     (case formValue c form ''description'' of (descr, form) \<Rightarrow>
     signedInUser c (\<lambda>u.
     ask (sop_Update S u i \<lparr>sset_Name = name, sset_Description = descr,
            sset_DefaultAddresses = Some (defaultAddresses form)\<rparr>) (\<lambda>r. case r of
       Inl err \<Rightarrow> sources_editWith S c i (web_message err)
     | Inr _ \<Rightarrow> respond (SeeOther (pathSources @ ''/'' @ i))))))"

subsection \<open>Their keys\<close>

record 'w key_pages =
  kep_Issue :: "user \<Rightarrow> string \<Rightarrow> string \<Rightarrow> ('w, string \<times> key) io"
  kep_List :: "user \<Rightarrow> string \<Rightarrow> ('w, key list) io"
  kep_Revoke :: "user \<Rightarrow> string \<Rightarrow> ID \<Rightarrow> ('w, unit) io"

definition key_pages_of :: "'w keys \<Rightarrow> 'w key_pages" where
  "key_pages_of K = \<lparr>kep_Issue = Keys_Issue K, kep_List = Keys_List K, kep_Revoke = Keys_Revoke K\<rparr>"

definition keys_listWith :: "'w key_pages \<Rightarrow> web_context \<Rightarrow> string \<Rightarrow> string \<Rightarrow> 'w \<Rightarrow> response \<times> 'w" where
  "keys_listWith K c sourceID problem = signedInUser c (\<lambda>u.
    ask (kep_List K u sourceID) (\<lambda>r. case r of
      Inl err \<Rightarrow> notFound
    | Inr ks \<Rightarrow> respond (Html ''keys'' (KeysPage inside_page sourceID ks problem))))"

definition keys_list :: "'w key_pages \<Rightarrow> 'w handler" where
  "keys_list K c =
    (let i = param c ''id'' in
     signedInUser c (\<lambda>u.
     ask (kep_List K u i) (\<lambda>r. case r of
       Inl err \<Rightarrow> notFound
     | Inr ks \<Rightarrow> respond (Html ''keys'' (KeysPage inside_page i ks '''')))))"

definition keys_issue :: "'w key_pages \<Rightarrow> 'w handler" where
  "keys_issue K c =
    (let i = param c ''id'' in
     case formValue c None ''label'' of (label, form) \<Rightarrow>
     signedInUser c (\<lambda>u.
     ask (kep_Issue K u i label) (\<lambda>r. case r of
       Inl err \<Rightarrow> keys_listWith K c i (web_message err)
     | Inr (key, made) \<Rightarrow> respond (Html ''key_issued'' (KeyIssuedPage inside_page i key (key_Label made))))))"

definition keys_revoke :: "'w key_pages \<Rightarrow> 'w handler" where
  "keys_revoke K c =
    (let i = param c ''id'' in
     signedInUser c (\<lambda>u.
     ask (kep_Revoke K u i (param c ''keyID'')) (\<lambda>_.
     respond (SeeOther (pathSources @ ''/'' @ i @ ''/keys'')))))"

subsection \<open>Their senders and callback\<close>

record 'w sender_pages =
  sep_Register :: "string \<Rightarrow> credential_registration \<Rightarrow> ('w, credential) io"
  sep_List :: "string \<Rightarrow> ('w, credential list) io"
  sep_Deactivate :: "string \<Rightarrow> ID \<Rightarrow> ('w, credential) io"
  sep_Activate :: "string \<Rightarrow> ID \<Rightarrow> ('w, credential) io"

definition sender_pages_of :: "'w credentials \<Rightarrow> 'w sender_pages" where
  "sender_pages_of C = \<lparr>sep_Register = Credentials_Register C, sep_List = Credentials_List C,
     sep_Deactivate = Credentials_Deactivate C, sep_Activate = Credentials_Activate C\<rparr>"

record 'w trial_pages =
  trp_Run :: "user \<Rightarrow> string \<Rightarrow> ID \<Rightarrow> ('w, string) io"

definition trial_pages_of :: "'w trials \<Rightarrow> 'w trial_pages" where
  "trial_pages_of T = \<lparr>trp_Run = Trials_Run T\<rparr>"

record 'w callback_pages =
  cbp_Register :: "string \<Rightarrow> registration \<Rightarrow> ('w, webhook \<times> string) io"
  cbp_Get :: "string \<Rightarrow> ('w, webhook) io"

definition callback_pages_of :: "'w registrar \<Rightarrow> 'w callback_pages" where
  "callback_pages_of R = \<lparr>cbp_Register = Register R, cbp_Get = Registrar_Get R\<rparr>"

record 'w identity_pages =
  idp_senders :: "'w sender_pages"
  idp_trials :: "'w trial_pages"
  idp_callbacks :: "'w callback_pages"
  idp_sources :: "'w source_pages"

text \<open>The dash of the guides is one character of three bytes, the apostrophe one byte.\<close>

definition dash :: string where
  "dash = map char_of [0xE2, 0x80, 0x94 :: nat]"

definition apostrophe :: string where
  "apostrophe = [char_of (39 :: nat)]"

definition channelGuides :: "channel_guide list" where
  \<open>channelGuides =
    [\<lparr>cg_Channel = ChannelEmail, cg_Identity = ''the mailbox password.'',
      cg_Settings = ''{"host":"smtp.acme.test","port":587,"username":"noreply@acme.test","from":"noreply@acme.test"}'',
      cg_Hint = ''host, port, username, from, content_type. Port 0 means 587, ''
        @ ''465 is TLS from the first byte, anything else is STARTTLS. ''
        @ ''content_type is text/plain or text/html, and empty means plain.''\<rparr>,
     \<lparr>cg_Channel = ChannelTelegram, cg_Identity = ''the bot token BotFather gave you, whole.'', cg_Settings = [],
      cg_Hint = ''This channel takes no settings '' @ dash @ '' the token is the whole identity.''\<rparr>,
     \<lparr>cg_Channel = ChannelBale, cg_Identity = ''the bot token from Bale'' @ apostrophe @ ''s BotFather, whole.'',
      cg_Settings = [],
      cg_Hint = ''This channel takes no settings '' @ dash @ '' the token is the whole identity.''\<rparr>,
     \<lparr>cg_Channel = ChannelWhatsApp, cg_Identity = ''the access token of your Meta app.'',
      cg_Settings = ''{"phone_number_id":"123456789012345"}'',
      cg_Hint = ''phone_number_id '' @ dash @ '' the id Meta issues for the number you send ''
        @ ''from, not the number itself.''\<rparr>,
     \<lparr>cg_Channel = ChannelMatrix, cg_Identity = ''the access token of the account that posts.'',
      cg_Settings = ''{"homeserver":"https://matrix.acme.test"}'',
      cg_Hint = ''homeserver '' @ dash @ '' https, and a bare address: no path, no query, '' @ ''no credentials in it.''\<rparr>,
     \<lparr>cg_Channel = ChannelGotify,
      cg_Identity = ''the application token. It alone decides which application a message lands in.'',
      cg_Settings = ''{"server_url":"https://gotify.acme.test"}'',
      cg_Hint = ''server_url '' @ dash @ '' your own server, https, and a bare address: ''
        @ ''no path, no query, no credentials in it.''\<rparr>,
     \<lparr>cg_Channel = ChannelFCM,
      cg_Identity = ''the whole service account json file, pasted in. The project is inside it.'', cg_Settings = [],
      cg_Hint = ''This channel takes no settings '' @ dash @ '' the service account is the whole identity.''\<rparr>,
     \<lparr>cg_Channel = ChannelAPNs,
      cg_Identity = ''the contents of the .p8 signing key, pasted in, BEGIN and END lines with it.'',
      cg_Settings = ''{"key_id":"ABC1234567","team_id":"DEF7654321","topic":"ir.acme.app","environment":"production"}'',
      cg_Hint = ''key_id, team_id, topic, environment. topic is the app'' @ apostrophe @ ''s bundle ''
        @ ''id; environment is production or sandbox, and empty means ''
        @ ''production. None of the four is a secret '' @ dash @ '' only the key is.''\<rparr>]\<close>

definition senders_page :: "string \<Rightarrow> credential list \<Rightarrow> string \<Rightarrow> string \<Rightarrow> web_reply" where
  "senders_page sourceID senders problem outcome =
     Html ''senders'' (SendersPage inside_page sourceID senders problem outcome channelGuides)"

text \<open>The ownership check that every handler here runs first.\<close>

definition mine :: "'w identity_pages \<Rightarrow> web_context \<Rightarrow> (string \<Rightarrow> 'w \<Rightarrow> response \<times> 'w) \<Rightarrow> 'w \<Rightarrow> response \<times> 'w" where
  "mine H c k =
    (let i = param c ''id'' in
     signedInUser c (\<lambda>u.
     ask (sop_One (idp_sources H) u i) (\<lambda>r. case r of Inl err \<Rightarrow> notFound | Inr _ \<Rightarrow> k i)))"

definition identity_showSenders :: "'w identity_pages \<Rightarrow> 'w handler" where
  "identity_showSenders H c = mine H c (\<lambda>i.
    ask (sep_List (idp_senders H) i) (\<lambda>r. case r of
      Inl err \<Rightarrow> respond (senders_page i [] (web_message err) '''')
    | Inr senders \<Rightarrow> respond (senders_page i senders '''' '''')))"

definition renderSenders :: "'w identity_pages \<Rightarrow> string \<Rightarrow> string \<Rightarrow> string \<Rightarrow> 'w \<Rightarrow> response \<times> 'w" where
  "renderSenders H i problem outcome =
    ask (sep_List (idp_senders H) i) (\<lambda>r. case r of
      Inl err \<Rightarrow> notFound
    | Inr senders \<Rightarrow> respond (senders_page i senders problem outcome))"

text \<open>The composite literal evaluates its fields in order, so the channel is the first one read.\<close>

definition identity_addSender :: "'w identity_pages \<Rightarrow> 'w handler" where
  "identity_addSender H c = mine H c (\<lambda>i.
    case formValue c None ''channel'' of (channel, form) \<Rightarrow>
    (case formValue c form ''name'' of (name, form) \<Rightarrow>
    (case formValue c form ''secret'' of (secret, form) \<Rightarrow>
    (case formValue c form ''config'' of (config, form) \<Rightarrow>
    ask (sep_Register (idp_senders H) i
        \<lparr>crg_Channel = Channel channel, crg_Name = name,
         crg_Config = (if length config = 0 then ''{}'' else config), crg_Secret = secret,
         crg_IsDefault = False\<rparr>) (\<lambda>r. case r of
      Inl err \<Rightarrow> renderSenders H i (web_message err) ''''
    | Inr _ \<Rightarrow> respond (SeeOther (pathSources @ ''/'' @ i @ ''/senders'')))))))"

definition identity_testSender :: "'w identity_pages \<Rightarrow> 'w handler" where
  "identity_testSender H c = mine H c (\<lambda>i.
    signedInUser c (\<lambda>u.
    ask (trp_Run (idp_trials H) u i (param c ''senderID'')) (\<lambda>r. case r of
      Inl err \<Rightarrow> renderSenders H i (web_message err) ''''
    | Inr providerID \<Rightarrow> renderSenders H i '''' (''Sent. The provider called it '' @ providerID @ ''.''))))"

definition identity_switchSender :: "'w identity_pages \<Rightarrow> bool \<Rightarrow> 'w handler" where
  "identity_switchSender H on c = mine H c (\<lambda>i.
    ask ((if on then sep_Activate (idp_senders H) else sep_Deactivate (idp_senders H)) i (param c ''senderID'')) (\<lambda>r.
    case r of
      Inl err \<Rightarrow> renderSenders H i (web_message err) ''''
    | Inr _ \<Rightarrow> respond (SeeOther (pathSources @ ''/'' @ i @ ''/senders''))))"

definition identity_showCallback :: "'w identity_pages \<Rightarrow> 'w handler" where
  "identity_showCallback H c = mine H c (\<lambda>i.
    ask (cbp_Get (idp_callbacks H) i) (\<lambda>r.
    respond (Html ''callback'' (CallbackPage inside_page i
      (case r of Inl err \<Rightarrow> None | Inr h \<Rightarrow> Some h) ''''))))"

definition identity_setCallback :: "'w identity_pages \<Rightarrow> 'w handler" where
  "identity_setCallback H c = mine H c (\<lambda>i.
    case formValue c None ''url'' of (address, form) \<Rightarrow>
    ask (cbp_Register (idp_callbacks H) i \<lparr>reg_CallbackURL = address\<rparr>) (\<lambda>r. case r of
      Inl err \<Rightarrow> respond (Html ''callback'' (CallbackPage inside_page i None (web_message err)))
    | Inr (h, secret) \<Rightarrow>
        respond (Html ''callback_secret'' (CallbackSecretPage inside_page i secret (whk_CallbackURL h)))))"

definition reference_show :: "string \<Rightarrow> 'w handler" where
  "reference_show doc c = respond (Html ''reference'' (ReferencePage wide_page doc))"

subsection \<open>The surface\<close>

text \<open>A port that was not given is \<open>None\<close>, Go's nil.\<close>

record 'w portal_deps =
  pod_SignIn :: "'w sign_in_port option"
  pod_Sources :: "'w source_pages option"
  pod_Keys :: "'w key_pages option"
  pod_Senders :: "'w sender_pages option"
  pod_Trials :: "'w trial_pages option"
  pod_Callbacks :: "'w callback_pages option"
  pod_SecureCookie :: bool
  pod_Log :: bool

fun errors_Join :: "goerr list \<Rightarrow> goerr option" where
  "errors_Join [] = None"
| "errors_Join (e # es) = Some (case errors_Join es of None \<Rightarrow> e | Some rest \<Rightarrow> Joined e rest)"

definition missing :: "bool \<Rightarrow> string \<Rightarrow> goerr list" where
  "missing absent what = (if absent then [Text what []] else [])"

definition portal_validate :: "'w portal_deps \<Rightarrow> goerr option" where
  "portal_validate d = errors_Join
    (missing (pod_SignIn d = None) ''no sign-in use case''
     @ missing (pod_Sources d = None) ''no sources use case''
     @ missing (pod_Keys d = None) ''no keys use case''
     @ missing (pod_Senders d = None) ''no credentials use case''
     @ missing (pod_Trials d = None) ''no trials use case''
     @ missing (pod_Callbacks d = None) ''no webhook use case''
     @ missing (\<not> pod_Log d) ''no logger'')"

definition portal_pages :: "string list" where
  "portal_pages = [''signin'', ''code'', ''account'', ''sources'', ''source_new'', ''source'', ''source_edit'',
     ''keys'', ''key_issued'', ''senders'', ''callback'', ''callback_secret'', ''reference'']"

definition static_pattern :: string where "static_pattern = pathStatic @ ''/*filepath''"

text \<open>The routes that need no session, and those of the guarded group.\<close>

definition open_routes :: "'w sign_in_port \<Rightarrow> 'w sessions \<Rightarrow> 'w web_route list" where
  "open_routes S ss =
    [((''GET'', pathSignIn), signin_show),
     ((''POST'', pathSignIn), signin_request S),
     ((''GET'', pathCode), signin_showCode),
     ((''POST'', pathCode), signin_verify S ss),
     ((''POST'', pathSignOut), account_signOut S ss)]"

definition static_routes :: "(string \<Rightarrow> string) \<Rightarrow> 'w web_route list" where
  "static_routes assets =
    [((''GET'', static_pattern), static_files assets), ((''HEAD'', static_pattern), static_files assets)]"

definition authed_routes :: "'w source_pages \<Rightarrow> 'w key_pages \<Rightarrow> 'w identity_pages \<Rightarrow> string \<Rightarrow> 'w web_route list" where
  "authed_routes S K H readme =
    [((''GET'', pathHome), account_show),
     ((''GET'', pathSources), sources_list S),
     ((''GET'', pathSourceNew), sources_showNew),
     ((''POST'', pathSources), sources_create S),
     ((''GET'', pathSource), sources_show S),
     ((''GET'', pathSourceEdit), sources_showEdit S),
     ((''POST'', pathSourceEdit), sources_update S),
     ((''GET'', pathSourceKeys), keys_list K),
     ((''POST'', pathSourceKeys), keys_issue K),
     ((''POST'', pathKeyRevoke), keys_revoke K),
     ((''GET'', pathSourceSenders), identity_showSenders H),
     ((''POST'', pathSourceSenders), identity_addSender H),
     ((''POST'', pathSenderOff), identity_switchSender H False),
     ((''POST'', pathSenderOn), identity_switchSender H True),
     ((''POST'', pathSenderTest), identity_testSender H),
     ((''GET'', pathSourceCallback), identity_showCallback H),
     ((''POST'', pathSourceCallback), identity_setCallback H),
     ((''GET'', pathReference), reference_show readme)]"

definition guarded :: "('w handler \<Rightarrow> 'w handler) \<Rightarrow> 'w web_route list \<Rightarrow> 'w web_route list" where
  "guarded g routes = map (\<lambda>(key, h). (key, g h)) routes"

definition NewPortal :: "public_files \<Rightarrow> 'w portal_deps \<Rightarrow> 'w surface result" where
  "NewPortal P d =
    (case portal_validate d of
       Some err \<Rightarrow> Inl err
     | None \<Rightarrow>
         then_result (newPageRender P surfacePortal portal_pages) (\<lambda>pages.
         then_result (pf_assets P surfacePortal) (\<lambda>assets.
         then_result (pf_guarded P surfacePortal fileSDKReadme) (\<lambda>readme.
         let signIn = the (pod_SignIn d);
             ss = newSessions signIn portalCookieName (pod_SecureCookie d);
             sources = the (pod_Sources d);
             identity = \<lparr>idp_senders = the (pod_Senders d), idp_trials = the (pod_Trials d),
               idp_callbacks = the (pod_Callbacks d), idp_sources = sources\<rparr> in
         Inr \<lparr>sf_pages = pages,
              sf_routes = open_routes signIn ss
                @ guarded (guard ss anybody pathSignIn) (authed_routes sources (the (pod_Keys d)) identity readme)
                @ static_routes assets\<rparr>))))"

subsection \<open>Every page is answered in full\<close>

lemmas signin_handlers = signin_show_def signin_request_def signin_showCode_def signin_verify_def
  account_show_def account_signOut_def
lemmas source_handlers = sources_list_def sources_showNew_def sources_create_def sources_show_def
  sources_showEdit_def sources_editWith_def sources_update_def notFound_def
lemmas key_handlers = keys_listWith_def keys_list_def keys_issue_def keys_revoke_def notFound_def
lemmas identity_handlers = identity_showSenders_def renderSenders_def identity_addSender_def
  identity_testSender_def identity_switchSender_def identity_showCallback_def identity_setCallback_def
  mine_def senders_page_def notFound_def reference_show_def

text \<open>The portal, once it is built.\<close>

lemma NewPortal_surface:
  assumes "NewPortal P d = Inr S"
  obtains si so ke se tr ca readme assets where
    "pod_SignIn d = Some si" "pod_Sources d = Some so" "pod_Keys d = Some ke" "pod_Senders d = Some se"
    "pod_Trials d = Some tr" "pod_Callbacks d = Some ca" "pf_guarded P surfacePortal fileSDKReadme = Inr readme"
    "pf_assets P surfacePortal = Inr assets"
    "S = \<lparr>sf_pages = portal_pages, sf_routes =
      open_routes si (newSessions si portalCookieName (pod_SecureCookie d))
      @ guarded (guard (newSessions si portalCookieName (pod_SecureCookie d)) anybody pathSignIn)
          (authed_routes so ke \<lparr>idp_senders = se, idp_trials = tr, idp_callbacks = ca, idp_sources = so\<rparr> readme)
      @ static_routes assets\<rparr>"
proof -
  have join: "errors_Join (missing b t @ es) = None \<longleftrightarrow> \<not> b \<and> errors_Join es = None" for b t es
    by (simp add: missing_def)
  have last: "errors_Join (missing b t) = None \<longleftrightarrow> \<not> b" for b t
    by (simp add: missing_def)
  have valid: "portal_validate d = None"
    using assms by (simp add: NewPortal_def split: option.splits)
  then obtain si so ke se tr ca where ports: "pod_SignIn d = Some si" "pod_Sources d = Some so"
    "pod_Keys d = Some ke" "pod_Senders d = Some se" "pod_Trials d = Some tr" "pod_Callbacks d = Some ca"
    by (auto simp: portal_validate_def join last)
  from assms valid obtain pages assets readme where files: "newPageRender P surfacePortal portal_pages = Inr pages"
    "pf_assets P surfacePortal = Inr assets" "pf_guarded P surfacePortal fileSDKReadme = Inr readme"
    by (auto simp: NewPortal_def then_result_Inr)
  show thesis
    using assms valid ports files page_render [OF files(1)]
    by (intro that [OF ports files(3) files(2)]) (simp add: NewPortal_def then_result_def Let_def)
qed

text \<open>Neither the 500 of a panic nor the line that a page without a template leaves.\<close>

definition whole_reply :: "web_reply \<Rightarrow> bool" where
  "whole_reply r \<longleftrightarrow> r \<noteq> StatusOnly 500 \<and> (\<forall>name. r \<noteq> Words 200 (''no such page: '' @ name))"

lemma whole_simps [simp]:
  "whole_reply (SeeOther p)" "whole_reply (Html n pg)" "whole_reply (Document b)" "whole_reply (File b)"
  "whole_reply (StatusOnly 404)" "whole_reply (StatusOnly 405)" "whole_reply (Elsewhere p)"
  "whole_reply (Words 404 t)" "whole_reply (Words 500 t)"
  by (simp_all add: whole_reply_def)

lemma render_simps [simp]:
  "render_reply pages (SeeOther p) = SeeOther p" "render_reply pages (Document b) = Document b"
  "render_reply pages (File b) = File b" "render_reply pages (StatusOnly k) = StatusOnly k"
  "render_reply pages (Words k t) = Words k t" "render_reply pages (Elsewhere p) = Elsewhere p"
  "name \<in> List.set pages \<Longrightarrow> render_reply pages (Html name pg) = Html name pg"
  by (simp_all add: render_reply_def)

definition whole :: "string list \<Rightarrow> ('w \<Rightarrow> response \<times> 'w) \<Rightarrow> bool" where
  "whole pages f \<longleftrightarrow> always (\<lambda>a. whole_reply (render_reply pages (rs_Reply a))) f"

lemma whole_rules:
  "whole_reply (render_reply pages r) \<Longrightarrow> whole pages (respond r)"
  "whole_reply (render_reply pages r) \<Longrightarrow> whole pages (respond_with cs r)"
  "(\<And>r. whole pages (k r)) \<Longrightarrow> whole pages (ask m k)"
  "(\<And>u. may_allows rule u \<Longrightarrow> whole pages (next (c\<lparr>cx_User := Some u\<rparr>))) \<Longrightarrow> whole pages (guard S rule p next c)"
  by (auto simp: whole_def intro!: always_ask always_guard)

lemma open_whole:
  assumes "(key, h) \<in> List.set (open_routes S ss)" "List.set [''signin'', ''code''] \<subseteq> List.set pages"
  shows "whole pages (h c)"
  using assms
  by (auto simp: open_routes_def signin_handlers intro!: whole_rules split: prod.split sum.split option.split)

lemma static_whole: "(key, h) \<in> List.set (static_routes assets) \<Longrightarrow> whole pages (h c)"
  by (auto simp: static_routes_def static_files_def intro!: whole_rules)

lemma authed_whole:
  assumes "(key, h) \<in> List.set (authed_routes S K H readme)" "cx_User c = Some u"
  shows "whole portal_pages (h c)"
  using assms
  by (auto simp: authed_routes_def signin_handlers source_handlers key_handlers identity_handlers signedInUser_def
      portal_pages_def Let_def intro!: whole_rules split: prod.split sum.split)

lemma guarded_whole:
  assumes "(key, h) \<in> List.set (guarded (guard ss rule p) routes)"
    and "\<And>key h c u. (key, h) \<in> List.set routes \<Longrightarrow> cx_User c = Some u \<Longrightarrow> whole pages (h c)"
  shows "whole pages (h c)"
proof -
  obtain behind where "(key, behind) \<in> List.set routes" "h = guard ss rule p behind"
    using assms(1) by (auto simp: guarded_def)
  then show ?thesis
    using assms(2) [of key behind] by (simp add: whole_rules(4))
qed

lemma portal_whole:
  assumes "NewPortal P d = Inr S"
  shows "whole_reply (rs_Reply (fst (web_serve gin S r w)))"
proof (rule NewPortal_surface [OF assms], rule serve_always)
  fix si so ke se tr ca readme assets key h c
  assume S: "S = \<lparr>sf_pages = portal_pages, sf_routes =
      open_routes si (newSessions si portalCookieName (pod_SecureCookie d))
      @ guarded (guard (newSessions si portalCookieName (pod_SecureCookie d)) anybody pathSignIn)
          (authed_routes so ke \<lparr>idp_senders = se, idp_trials = tr, idp_callbacks = ca, idp_sources = so\<rparr> readme)
      @ static_routes assets\<rparr>"
    and h: "(key, h) \<in> List.set (sf_routes S)"
  have "List.set [''signin'', ''code''] \<subseteq> List.set portal_pages"
    by (simp add: portal_pages_def)
  with h consider "whole portal_pages (h c)"
    | "(key, h) \<in> List.set (guarded (guard (newSessions si portalCookieName (pod_SecureCookie d)) anybody pathSignIn)
        (authed_routes so ke \<lparr>idp_senders = se, idp_trials = tr, idp_callbacks = ca, idp_sources = so\<rparr> readme))"
    using open_whole [of key h si] static_whole [of key h assets] by (auto simp: S)
  then have "whole portal_pages (h c)"
  proof cases
    case 2
    then show ?thesis by (rule guarded_whole) (rule authed_whole)
  qed
  then show "always (\<lambda>a. whole_reply (render_reply (sf_pages S) (rs_Reply a))) (h c)"
    by (simp add: whole_def S)
qed simp_all

subsection \<open>A source that is not yours is a source that is not there\<close>

text \<open>
  \<open>only R Q f\<close>: whatever the state, the response satisfies \<open>Q\<close> and the states before and after are
  related by \<open>R\<close>.
\<close>

definition only :: "('w \<Rightarrow> 'w \<Rightarrow> bool) \<Rightarrow> (response \<Rightarrow> bool) \<Rightarrow> ('w \<Rightarrow> response \<times> 'w) \<Rightarrow> bool" where
  "only R Q f \<longleftrightarrow> (\<forall>w. Q (fst (f w)) \<and> R w (snd (f w)))"

definition refuses :: "('w \<Rightarrow> 'w \<Rightarrow> bool) \<Rightarrow> ('w, 'a) io \<Rightarrow> bool" where
  "refuses R m \<longleftrightarrow> (\<forall>w. \<exists>e w'. m w = (Inl e, w') \<and> R w w')"

lemma only_respond: "reflp R \<Longrightarrow> Q \<lparr>rs_Cookies = [], rs_Reply = r\<rparr> \<Longrightarrow> only R Q (respond r)"
  by (simp add: only_def reflpD)

lemma only_ask:
  assumes "transp R" "refuses R m" "\<And>e. only R Q (k (Inl e))"
  shows "only R Q (ask m k)"
  unfolding only_def
proof
  fix w
  from assms(2) obtain e w' where m: "m w = (Inl e, w')" "R w w'"
    unfolding refuses_def by blast
  have "Q (fst (k (Inl e) w'))" "R w' (snd (k (Inl e) w'))"
    using assms(3) by (simp_all add: only_def)
  then show "Q (fst (ask m k w)) \<and> R w (snd (ask m k w))"
    using m transpD [OF assms(1) m(2)] by (simp add: ask_run)
qed

text \<open>Everything that starts by asking whose source it is is refused with it.\<close>

lemma refuses_and_then: "refuses R m \<Longrightarrow> refuses R (and_then m f)"
  unfolding refuses_def by (metis and_then_run(1))

lemma refuses_with_One:
  assumes "refuses R (Sources_One S u i)"
  shows "refuses R (Sources_Update S u i settings)"
    "ks_sources K = S \<Longrightarrow> refuses R (Keys_Issue K u i label)"
    "ks_sources K = S \<Longrightarrow> refuses R (Keys_List K u i)"
    "ks_sources K = S \<Longrightarrow> refuses R (Keys_Revoke K u i j)"
  using assms
  by (simp_all add: Sources_Update_def Keys_Issue_def Keys_List_def Keys_Revoke_def refuses_and_then)

text \<open>The routes that name a source, and the portal over the use cases.\<close>

definition source_keys :: "(string \<times> string) list" where
  "source_keys =
    [(''GET'', pathSource), (''GET'', pathSourceEdit), (''POST'', pathSourceEdit), (''GET'', pathSourceKeys),
     (''POST'', pathSourceKeys), (''POST'', pathKeyRevoke), (''GET'', pathSourceSenders),
     (''POST'', pathSourceSenders), (''POST'', pathSenderOff), (''POST'', pathSenderOn),
     (''POST'', pathSenderTest), (''GET'', pathSourceCallback), (''POST'', pathSourceCallback)]"

definition portal_over ::
    "'w sign_in \<Rightarrow> 'w sources \<Rightarrow> 'w keys \<Rightarrow> 'w credentials \<Rightarrow> 'w trials \<Rightarrow> 'w registrar \<Rightarrow> bool \<Rightarrow> 'w portal_deps" where
  "portal_over SI S K C T R secure =
    \<lparr>pod_SignIn = Some (sign_in_pages SI), pod_Sources = Some (source_pages_of S), pod_Keys = Some (key_pages_of K),
     pod_Senders = Some (sender_pages_of C), pod_Trials = Some (trial_pages_of T),
     pod_Callbacks = Some (callback_pages_of R), pod_SecureCookie = secure, pod_Log = True\<rparr>"

definition stranger_reply :: "string \<times> string \<Rightarrow> string \<Rightarrow> web_reply" where
  "stranger_reply key i =
    (if key = (''POST'', pathKeyRevoke) then SeeOther (pathSources @ ''/'' @ i @ ''/keys'')
     else Words 404 ''no such source'')"

lemmas portal_paths = pathHome_def pathSignIn_def pathCode_def pathSignOut_def pathStatic_def static_pattern_def
  pathSources_def pathSourceNew_def pathSource_def pathSourceEdit_def pathSenderOff_def pathSenderOn_def
  pathSenderTest_def pathSourceKeys_def pathKeyRevoke_def pathSourceSenders_def pathSourceCallback_def pathReference_def

text \<open>The table of the portal names no route twice.\<close>

definition portal_routes ::
    "'w sign_in_port \<Rightarrow> 'w sessions \<Rightarrow> 'w web_route list \<Rightarrow> (string \<Rightarrow> string) \<Rightarrow> 'w web_route list" where
  "portal_routes si ss inner assets = open_routes si ss @ guarded (guard ss anybody pathSignIn) inner @ static_routes assets"

definition portal_keys :: "(string \<times> string) list" where
  "portal_keys =
    [(''GET'', pathSignIn), (''POST'', pathSignIn), (''GET'', pathCode), (''POST'', pathCode), (''POST'', pathSignOut),
     (''GET'', pathHome), (''GET'', pathSources), (''GET'', pathSourceNew), (''POST'', pathSources),
     (''GET'', pathSource), (''GET'', pathSourceEdit), (''POST'', pathSourceEdit), (''GET'', pathSourceKeys),
     (''POST'', pathSourceKeys), (''POST'', pathKeyRevoke), (''GET'', pathSourceSenders),
     (''POST'', pathSourceSenders), (''POST'', pathSenderOff), (''POST'', pathSenderOn), (''POST'', pathSenderTest),
     (''GET'', pathSourceCallback), (''POST'', pathSourceCallback), (''GET'', pathReference),
     (''GET'', static_pattern), (''HEAD'', static_pattern)]"

lemma portal_routes_keys: "map fst (portal_routes si ss (authed_routes so ke H readme) assets) = portal_keys"
  by (simp add: portal_routes_def open_routes_def guarded_def authed_routes_def static_routes_def portal_keys_def)

lemma portal_distinct:
  "distinct (map fst (portal_routes si ss (authed_routes so ke H readme) assets))"
  by (simp add: portal_routes_keys portal_keys_def portal_paths)

lemma portal_route:
  assumes "(key, h) \<in> List.set (authed_routes so ke H readme)"
  shows "map_of (portal_routes si ss (authed_routes so ke H readme) assets) key = Some (guard ss anybody pathSignIn h)"
proof (rule map_of_is_SomeI [OF portal_distinct])
  show "(key, guard ss anybody pathSignIn h) \<in> List.set (portal_routes si ss (authed_routes so ke H readme) assets)"
    using assms by (auto simp: portal_routes_def guarded_def intro!: image_eqI)
qed

lemma source_keys_routed:
  assumes "key \<in> List.set source_keys"
  obtains h where "(key, h) \<in> List.set (authed_routes so ke H readme)"
proof -
  have "List.set source_keys \<subseteq> fst ` List.set (authed_routes so ke H readme)"
    by (simp add: source_keys_def authed_routes_def)
  then show thesis
    using assms that by fastforce
qed

abbreviation says :: "web_reply \<Rightarrow> response \<Rightarrow> bool" where
  "says r \<equiv> \<lambda>a. a = \<lparr>rs_Cookies = [], rs_Reply = r\<rparr>"

lemma refused_handlers:
  assumes "refuses R (Sources_One S u (param c ''id''))" "ks_sources K = S" "idp_sources H = source_pages_of S"
    and "reflp R" "transp R" "cx_User c = Some u"
  shows "only R (says (Words 404 ''no such source'')) (sources_show (source_pages_of S) c)"
    "only R (says (Words 404 ''no such source'')) (sources_showEdit (source_pages_of S) c)"
    "only R (says (Words 404 ''no such source'')) (sources_update (source_pages_of S) c)"
    "only R (says (Words 404 ''no such source'')) (keys_list (key_pages_of K) c)"
    "only R (says (Words 404 ''no such source'')) (keys_issue (key_pages_of K) c)"
    "only R (says (SeeOther (pathSources @ ''/'' @ param c ''id'' @ ''/keys''))) (keys_revoke (key_pages_of K) c)"
    "only R (says (Words 404 ''no such source'')) (mine H c k)"
proof -
  note no = refuses_with_One [OF assms(1)]
  note rules = only_respond [OF assms(4)] only_ask [OF assms(5)]
  note simps = source_pages_of_def key_pages_of_def signedInUser_def assms(3,6) Let_def
  note intros = rules no(1) no(2-4) [OF assms(2)] assms(1)
  show "only R (says (Words 404 ''no such source'')) (sources_show (source_pages_of S) c)"
    "only R (says (Words 404 ''no such source'')) (sources_showEdit (source_pages_of S) c)"
    "only R (says (Words 404 ''no such source'')) (sources_update (source_pages_of S) c)"
    by (auto simp: source_handlers simps intro!: intros split: prod.split)
  show "only R (says (Words 404 ''no such source'')) (keys_list (key_pages_of K) c)"
    "only R (says (Words 404 ''no such source'')) (keys_issue (key_pages_of K) c)"
    "only R (says (SeeOther (pathSources @ ''/'' @ param c ''id'' @ ''/keys''))) (keys_revoke (key_pages_of K) c)"
    by (auto simp: key_handlers simps intro!: intros split: prod.split)
  show "only R (says (Words 404 ''no such source'')) (mine H c k)"
    by (auto simp: mine_def notFound_def simps intro!: intros)
qed

text \<open>On each of the thirteen routes.\<close>

lemma refused_routes:
  assumes "refuses R (Sources_One S u (param c ''id''))" "ks_sources K = S" "idp_sources H = source_pages_of S"
    and "reflp R" "transp R" "cx_User c = Some u"
    and "(key, h) \<in> List.set (authed_routes (source_pages_of S) (key_pages_of K) H readme)" "key \<in> List.set source_keys"
  shows "only R (says (stranger_reply key (param c ''id''))) (h c)"
  using assms(7,8)
  by (simp only: authed_routes_def list.set insert_iff empty_iff prod.inject; elim disjE)
     (simp_all add: refused_handlers [OF assms(1-6)]
       refused_handlers(6) [OF assms(1-6), unfolded pathSources_def, simplified] source_keys_def stranger_reply_def portal_paths
       identity_showSenders_def identity_addSender_def identity_testSender_def identity_switchSender_def
       identity_showCallback_def identity_setCallback_def)


text \<open>
  C31. Nobody can find out which source ids exist. For a source that the core does not let the
  signed-in person see, whether it belongs to somebody else or was never there, all thirteen pages
  and forms that name a source answer the same thing, whatever the form holds: the 404 of a missing
  source, or for revoking a key the redirect it always makes. Nothing of the core has run but the
  check of the session and the question whose source it is.
\<close>

theorem ids_cannot_be_tested:
  assumes "NewPortal P (portal_over SI S K C T R secure) = Inr A" "ks_sources K = S"
    and "gin (map fst (sf_routes A)) (wr_Method r) (wr_Path r) = Matched key ps" "key \<in> List.set source_keys"
    and "sessions_ID (newSessions (sign_in_pages SI) portalCookieName secure)
           \<lparr>cx_Request = r, cx_Params = ps, cx_User = None\<rparr> = Some sid"
    and "Whoami SI sid w = (Inr u, w')"
    and "\<forall>v. \<exists>e v'. Sources_One S u (first_value ps ''id'') v = (Inl e, v') \<and> Rel v v'" "reflp Rel" "transp Rel"
  shows "fst (web_serve gin A r w) = \<lparr>rs_Cookies = [], rs_Reply = stranger_reply key (first_value ps ''id'')\<rparr>
    \<and> Rel w' (snd (web_serve gin A r w))"
proof -
  let ?c = "\<lparr>cx_Request = r, cx_Params = ps, cx_User = None\<rparr>"
  let ?ss = "newSessions (sign_in_pages SI) portalCookieName secure"
  let ?H = "\<lparr>idp_senders = sender_pages_of C, idp_trials = trial_pages_of T, idp_callbacks = callback_pages_of R,
    idp_sources = source_pages_of S\<rparr>"
  obtain readme assets where A: "A = \<lparr>sf_pages = portal_pages, sf_routes = portal_routes (sign_in_pages SI) ?ss
      (authed_routes (source_pages_of S) (key_pages_of K) ?H readme) assets\<rparr>"
    by (rule NewPortal_surface [OF assms(1)]) (simp add: portal_over_def portal_routes_def)
  obtain h where h: "(key, h) \<in> List.set (authed_routes (source_pages_of S) (key_pages_of K) ?H readme)"
    using source_keys_routed [OF assms(4)] by blast
  have routed: "map_of (sf_routes A) key = Some (guard ?ss anybody pathSignIn h)"
    using portal_route [OF h] by (simp add: A)
  obtain a w2 where run: "h (?c\<lparr>cx_User := Some u\<rparr>) w' = (a, w2)"
    by (cases "h (?c\<lparr>cx_User := Some u\<rparr>) w'")
  have "only Rel (says (stranger_reply key (first_value ps ''id''))) (h (?c\<lparr>cx_User := Some u\<rparr>))"
    using refused_routes [of Rel S u "?c\<lparr>cx_User := Some u\<rparr>" K ?H key h readme] assms(2,4,7,8,9) h
    by (simp add: refuses_def param_def)
  then have answered: "a = \<lparr>rs_Cookies = [], rs_Reply = stranger_reply key (first_value ps ''id'')\<rparr>" "Rel w' w2"
    using run unfolding only_def by (metis fst_conv, metis snd_conv)
  have "guard ?ss anybody pathSignIn h ?c w = (a, w2)"
    unfolding run [symmetric]
    by (rule guard_run(4) [OF assms(5)]) (simp_all add: assms(6) newSessions_def sign_in_pages_def anybody_def)
  then have "web_serve gin A r w = (a\<lparr>rs_Reply := render_reply (sf_pages A) (rs_Reply a)\<rparr>, w2)"
    by (simp add: web_serve_run [where gin = gin and S = A and r = r, OF assms(3) routed])
  with answered show ?thesis
    by (simp add: stranger_reply_def)
qed


text \<open>A surface over the demo files, whose sign-in knows one person.\<close>

definition demo_files :: public_files where
  "demo_files = \<lparr>pf_template = \<lambda>_ _. ok, pf_assets = \<lambda>_. Inr (\<lambda>_. []), pf_guarded = \<lambda>_ _. Inr ''doc''\<rparr>"

definition demo_person :: "role \<Rightarrow> user" where
  "demo_person r = \<lparr>usr_ID = ''U1'', usr_Email = ''a@b.c'', usr_Role = r, usr_IsActive = True, usr_CreatedAt = 5, usr_UpdatedAt = 5\<rparr>"

definition demo_front :: "role \<Rightarrow> world sign_in" where
  "demo_front r = (deployed_sign_in demo_env (throw (Foreign ''no digits'')))
    \<lparr>si_now := \<lambda>w. (6, w),
     si_users := (pg_users demo_env)\<lparr>ur_ReadByID := \<lambda>_. ret (demo_person r)\<rparr>,
     si_sessions := \<lparr>ser_Create = \<lambda>_. ret (), ser_Read = \<lambda>i. ret (session_New i ''U1'' 5), ser_Touch = \<lambda>_. ret (),
       ser_Delete = \<lambda>_. ret ()\<rparr>\<rparr>"

definition demo_elsewhere :: "world sources" where
  "demo_elsewhere = (deployed_console demo_env None)
    \<lparr>srcs_repo := (pg_sources demo_env)\<lparr>sr_ReadByID := \<lambda>_. ret (demo_source\<lparr>src_OwnerUserID := ''U2''\<rparr>)\<rparr>\<rparr>"

definition demo_get :: "string \<Rightarrow> string \<Rightarrow> web_request" where
  "demo_get name path = \<lparr>wr_Method = ''GET'', wr_Path = path, wr_RawQuery = [], wr_Cookies = [(name, ''sid'')],
     wr_Media = ([], False), wr_Body = []\<rparr>"

lemma demo_signed_in: "Whoami (demo_front r) i w = (Inr (demo_person r), w)"
  by (simp add: Whoami_def demo_front_def call_def session_Valid_def session_New_def session_Lifetime_def hour_def
      minute_def second_def time_Sub_def IdleTimeout_def user_EnsureActive_def demo_person_def)

lemma demo_templates: "newPageRender demo_files dir names = Inr names"
  by (induction names) (simp_all add: demo_files_def then_result_def)

lemma demo_portal_opens: "portal_validate d = None \<Longrightarrow> \<exists>A. NewPortal demo_files d = Inr A"
proof -
  have "pf_assets demo_files dir = Inr (\<lambda>_. [])" "pf_guarded demo_files dir name = Inr ''doc''" for dir name
    by (simp_all add: demo_files_def)
  then show "portal_validate d = None \<Longrightarrow> \<exists>A. NewPortal demo_files d = Inr A"
    by (simp add: NewPortal_def demo_templates then_result_def Let_def)
qed

lemma demo_cookie:
  "sessions_ID (newSessions S name secure) \<lparr>cx_Request = demo_get name path, cx_Params = ps, cx_User = x\<rparr> = Some ''sid''"
  by (simp add: sessions_ID_def newSessions_def demo_get_def values_at_def)

theorem ids_cannot_be_tested_witness:
  "\<forall>C T R K. \<exists>A. NewPortal demo_files (portal_over (demo_front RoleCustomer) demo_elsewhere
       (K\<lparr>ks_sources := demo_elsewhere\<rparr>) C T R True) = Inr A
     \<and> fst (web_serve first_match A (demo_get portalCookieName ''/sources/S9'') demo_world)
        = \<lparr>rs_Cookies = [], rs_Reply = Words 404 ''no such source''\<rparr>"
proof (intro allI)
  fix C :: "world credentials" and T :: "world trials" and R :: "world registrar" and K :: "world keys"
  let ?K = "K\<lparr>ks_sources := demo_elsewhere\<rparr>"
  let ?d = "portal_over (demo_front RoleCustomer) demo_elsewhere ?K C T R True"
  have "portal_validate ?d = None"
    by (simp add: portal_validate_def portal_over_def missing_def)
  then obtain A where A: "NewPortal demo_files ?d = Inr A"
    using demo_portal_opens by blast
  then have keys: "map fst (sf_routes A) = portal_keys"
    by (rule NewPortal_surface) (simp add: portal_routes_def [symmetric] portal_routes_keys)
  have found: "first_match portal_keys ''GET'' ''/sources/S9'' = Matched (''GET'', pathSource) [(''id'', ''S9'')]"
    by code_simp
  have foreign: "\<forall>v. \<exists>e v'. Sources_One demo_elsewhere (demo_person RoleCustomer) (first_value [(''id'', ''S9'')] ''id'') v = (Inl e, v') \<and> True"
    by (simp add: Sources_One_def demo_elsewhere_def demo_source_def demo_person_def)
  have "fst (web_serve first_match A (demo_get portalCookieName ''/sources/S9'') demo_world)
      = \<lparr>rs_Cookies = [], rs_Reply = stranger_reply (''GET'', pathSource) (first_value [(''id'', ''S9'')] ''id'')\<rparr>"
    by (rule ids_cannot_be_tested [where Rel = "\<lambda>_ _. True", THEN conjunct1, OF A _ _ _ demo_cookie demo_signed_in foreign])
       (simp_all add: keys found demo_get_def source_keys_def reflp_def transp_def)
  with A show "\<exists>A. NewPortal demo_files ?d = Inr A
     \<and> fst (web_serve first_match A (demo_get portalCookieName ''/sources/S9'') demo_world)
        = \<lparr>rs_Cookies = [], rs_Reply = Words 404 ''no such source''\<rparr>"
    by (auto simp: stranger_reply_def)
qed


subsection \<open>Reading changes nothing\<close>

text \<open>The calls that the pages read with.\<close>

definition portal_reads where
  "portal_reads d =
    (map_option sip_Whoami (pod_SignIn d), map_option (\<lambda>s. (sop_Mine s, sop_One s)) (pod_Sources d),
     map_option kep_List (pod_Keys d), map_option sep_List (pod_Senders d), map_option cbp_Get (pod_Callbacks d),
     pod_SecureCookie d)"

lemma open_same_gets: "same_gets (open_routes si ss) (open_routes si' ss')"
  by (simp add: same_gets_def open_routes_def)

lemma authed_same_gets:
  assumes "sop_Mine so = sop_Mine so'" "sop_One so = sop_One so'" "kep_List ke = kep_List ke'"
    and "sep_List se = sep_List se'" "cbp_Get ca = cbp_Get ca'"
  shows "same_gets
      (authed_routes so ke \<lparr>idp_senders = se, idp_trials = tr, idp_callbacks = ca, idp_sources = so\<rparr> readme)
      (authed_routes so' ke' \<lparr>idp_senders = se', idp_trials = tr', idp_callbacks = ca', idp_sources = so'\<rparr> readme)"
proof -
  have "sources_list so = sources_list so'" "sources_show so = sources_show so'" "sources_showEdit so = sources_showEdit so'"
    "keys_list ke = keys_list ke'"
    by (intro ext; simp add: sources_list_def sources_show_def sources_showEdit_def keys_list_def Let_def assms(1-3))+
  moreover have "identity_showSenders \<lparr>idp_senders = se, idp_trials = tr, idp_callbacks = ca, idp_sources = so\<rparr>
      = identity_showSenders \<lparr>idp_senders = se', idp_trials = tr', idp_callbacks = ca', idp_sources = so'\<rparr>"
    "identity_showCallback \<lparr>idp_senders = se, idp_trials = tr, idp_callbacks = ca, idp_sources = so\<rparr>
      = identity_showCallback \<lparr>idp_senders = se', idp_trials = tr', idp_callbacks = ca', idp_sources = so'\<rparr>"
    by (intro ext; simp add: identity_showSenders_def identity_showCallback_def mine_def Let_def assms(2,4,5))+
  ultimately show ?thesis
    by (simp add: same_gets_def authed_routes_def)
qed

lemma portal_same_gets:
  assumes "NewPortal P d = Inr A" "NewPortal P d' = Inr A'" "portal_reads d = portal_reads d'"
  shows "same_gets (sf_routes A) (sf_routes A')" "sf_pages A = sf_pages A'"
proof -
  obtain si so ke se tr ca readme assets where d: "pod_SignIn d = Some si" "pod_Sources d = Some so"
    "pod_Keys d = Some ke" "pod_Senders d = Some se" "pod_Callbacks d = Some ca"
    "pf_guarded P surfacePortal fileSDKReadme = Inr readme" "pf_assets P surfacePortal = Inr assets"
    and A: "A = \<lparr>sf_pages = portal_pages, sf_routes =
      portal_routes si (newSessions si portalCookieName (pod_SecureCookie d))
        (authed_routes so ke \<lparr>idp_senders = se, idp_trials = tr, idp_callbacks = ca, idp_sources = so\<rparr> readme) assets\<rparr>"
    by (rule NewPortal_surface [OF assms(1)]) (simp add: portal_routes_def)
  obtain si' so' ke' se' tr' ca' readme' assets' where d': "pod_SignIn d' = Some si'" "pod_Sources d' = Some so'"
    "pod_Keys d' = Some ke'" "pod_Senders d' = Some se'" "pod_Callbacks d' = Some ca'"
    "pf_guarded P surfacePortal fileSDKReadme = Inr readme'" "pf_assets P surfacePortal = Inr assets'"
    and A': "A' = \<lparr>sf_pages = portal_pages, sf_routes =
      portal_routes si' (newSessions si' portalCookieName (pod_SecureCookie d'))
        (authed_routes so' ke' \<lparr>idp_senders = se', idp_trials = tr', idp_callbacks = ca', idp_sources = so'\<rparr> readme') assets'\<rparr>"
    by (rule NewPortal_surface [OF assms(2)]) (simp add: portal_routes_def)
  have same: "sip_Whoami si = sip_Whoami si'" "sop_Mine so = sop_Mine so'" "sop_One so = sop_One so'"
    "kep_List ke = kep_List ke'" "sep_List se = sep_List se'" "cbp_Get ca = cbp_Get ca'"
    "pod_SecureCookie d = pod_SecureCookie d'" "readme = readme'" "assets = assets'"
    using assms(3) d d' by (simp_all add: portal_reads_def)
  show "same_gets (sf_routes A) (sf_routes A')"
    unfolding A A' portal_routes_def guarded_def same(7-9) guard_same [OF same(1)]
    by (simp add: open_same_gets same_gets_refl same_gets_map authed_same_gets same(2-6) same_gets_append)
  show "sf_pages A = sf_pages A'"
    by (simp add: A A')
qed

end
