(* ===== verification/Panel.thy ===== *)
theory Panel
  imports Portal "HOL-Library.Multiset"
begin

text \<open>
  \<open>internal/adapter/api/web\<close>: \<open>admin.go\<close> and the \<open>admin_*.go\<close> files. The operator's surface: the
  queue and the decisions, the people, the audit log and the diagram, behind two rules. It shares
  the sign-in handlers with the portal and nothing else of it.
\<close>

subsection \<open>Names\<close>

definition pathQueue :: string where "pathQueue = pathHome"
definition pathApprove :: string where "pathApprove = ''/sources/:id/approve''"
definition pathRefuse :: string where "pathRefuse = ''/sources/:id/refuse''"
definition pathSuspend :: string where "pathSuspend = ''/sources/:id/suspend''"
definition pathRestore :: string where "pathRestore = ''/sources/:id/restore''"
definition pathAdminLog :: string where "pathAdminLog = ''/sources/:id/log''"
definition pathAudit :: string where "pathAudit = ''/audit''"
definition pathPeople :: string where "pathPeople = ''/people''"
definition pathPerson :: string where "pathPerson = ''/people/:id''"
definition pathPersonRole :: string where "pathPersonRole = ''/people/:id/role''"
definition pathPersonActive :: string where "pathPersonActive = ''/people/:id/active''"
definition pathArchitecture :: string where "pathArchitecture = ''/architecture''"

definition adminCookieName :: string where "adminCookieName = ''srosha_admin''"
definition surfaceAdmin :: string where "surfaceAdmin = ''admin''"
definition fileArchitecture :: string where "fileArchitecture = ''architecture.html''"

subsection \<open>What the surface needs\<close>

record 'w operator_pages =
  opp_Queue :: "user \<Rightarrow> ('w, source list \<times> bool) io"
  opp_AllSources :: "user \<Rightarrow> ('w, source list \<times> bool) io"
  opp_Source :: "user \<Rightarrow> string \<Rightarrow> ('w, source) io"
  opp_Approve :: "user \<Rightarrow> string \<Rightarrow> ('w, unit) io"
  opp_Refuse :: "user \<Rightarrow> string \<Rightarrow> string \<Rightarrow> ('w, unit) io"
  opp_Suspend :: "user \<Rightarrow> string \<Rightarrow> string \<Rightarrow> ('w, unit) io"
  opp_Restore :: "user \<Rightarrow> string \<Rightarrow> ('w, unit) io"
  opp_Messages :: "user \<Rightarrow> string \<Rightarrow> ('w, operator_message list \<times> bool) io"
  opp_Deliveries :: "user \<Rightarrow> string \<Rightarrow> string \<Rightarrow> ('w, operator_delivery list) io"
  opp_Senders :: "user \<Rightarrow> string \<Rightarrow> ('w, credential list) io"
  opp_SourceHistory :: "user \<Rightarrow> string \<Rightarrow> ('w, audit_entry list \<times> bool) io"
  opp_People :: "user \<Rightarrow> ('w, user list \<times> bool) io"
  opp_Person :: "user \<Rightarrow> ID \<Rightarrow> ('w, user) io"
  opp_SetRole :: "user \<Rightarrow> ID \<Rightarrow> role \<Rightarrow> string \<Rightarrow> ('w, unit) io"
  opp_SetPersonActive :: "user \<Rightarrow> ID \<Rightarrow> bool \<Rightarrow> string \<Rightarrow> ('w, unit) io"
  opp_Audit :: "user \<Rightarrow> ('w, audit_entry list \<times> bool) io"

definition operator_pages_of :: "'w operators \<Rightarrow> 'w operator_pages" where
  "operator_pages_of P =
    \<lparr>opp_Queue = \<lambda>u. Queue P (Some u), opp_AllSources = \<lambda>u. AllSources P (Some u),
     opp_Source = \<lambda>u. Operators_Source P (Some u), opp_Approve = \<lambda>u. Operators_Approve P (Some u),
     opp_Refuse = \<lambda>u. Operators_Refuse P (Some u), opp_Suspend = \<lambda>u. Operators_Suspend P (Some u),
     opp_Restore = \<lambda>u. Operators_Restore P (Some u), opp_Messages = \<lambda>u. Messages P (Some u),
     opp_Deliveries = \<lambda>u. Deliveries P (Some u), opp_Senders = \<lambda>u. Senders P (Some u),
     opp_SourceHistory = \<lambda>u. SourceHistory P (Some u), opp_People = \<lambda>u. People P (Some u),
     opp_Person = \<lambda>u. Person P (Some u), opp_SetRole = \<lambda>u. SetRole P (Some u),
     opp_SetPersonActive = \<lambda>u. SetPersonActive P (Some u), opp_Audit = \<lambda>u. Audit P (Some u)\<rparr>"

definition chromeFor :: "user \<Rightarrow> admin_chrome" where
  "chromeFor u = \<lparr>ach_SignedIn = True, ach_SuperAdmin = (usr_Role u = RoleSuperAdmin)\<rparr>"

subsection \<open>The queue and one source\<close>

definition review_queue :: "'w operator_pages \<Rightarrow> 'w handler" where
  "review_queue H c = signedInUser c (\<lambda>actor.
    ask (opp_Queue H actor) (\<lambda>r. case r of
      Inl err \<Rightarrow> respond (Html ''queue'' (QueuePage (chromeFor actor) [] False (web_message err)))
    | Inr (xs, truncated) \<Rightarrow> respond (Html ''queue'' (QueuePage (chromeFor actor) xs truncated ''''))))"

definition inState :: "source list \<Rightarrow> string \<Rightarrow> source list \<times> string" where
  "inState all state =
    (if state = [] then (all, [])
     else if state = ''sending'' then (filter src_IsActive all, [])
     else if state = ''waiting'' then (filter (\<lambda>s. \<not> IsReviewed s) all, [])
     else if state = ''suspended'' then
       (filter (\<lambda>s. \<not> src_IsActive s \<and> IsReviewed s \<and> IsApproved s) all, [])
     else if state = ''refused'' then
       (filter (\<lambda>s. \<not> src_IsActive s \<and> IsReviewed s \<and> \<not> IsApproved s) all, [])
     else (all, ''no such state: '' @ state))"

definition review_list :: "'w operator_pages \<Rightarrow> 'w handler" where
  "review_list H c = signedInUser c (\<lambda>actor.
    ask (opp_AllSources H actor) (\<lambda>r. case r of
      Inl err \<Rightarrow> respond (Html ''sources'' (AdminSourcesPage (chromeFor actor) [] False [] (web_message err)))
    | Inr (all, truncated) \<Rightarrow>
        (let state = query_value c ''state'' in
         case inState all state of (shown, problem) \<Rightarrow>
         respond (Html ''sources'' (AdminSourcesPage (chromeFor actor) shown truncated state problem)))))"

definition cannotBeLetOut :: "source \<Rightarrow> string" where
  "cannotBeLetOut src =
    (if src_IsActive src \<or> IsReachable src then []
     else ''this source has nowhere to send: no default address is set for any ''
       @ ''channel, and custom addresses are not allowed. Only the customer can ''
       @ ''fix this, by adding an address.'')"

definition refuseRead :: "goerr \<Rightarrow> 'w \<Rightarrow> response \<times> 'w" where
  "refuseRead err =
    (if IsType err err_type.ErrNotFound then notFound else respond (Words 500 ''something went wrong''))"

definition readSource ::
    "'w operator_pages \<Rightarrow> web_context \<Rightarrow> string \<Rightarrow> (source \<Rightarrow> 'w \<Rightarrow> response \<times> 'w) \<Rightarrow> 'w \<Rightarrow> response \<times> 'w" where
  "readSource H c i k = signedInUser c (\<lambda>actor.
    ask (opp_Source H actor i) (\<lambda>r. case r of Inl err \<Rightarrow> refuseRead err | Inr src \<Rightarrow> k src))"

text \<open>The two secondary reads of a source's page: a failure leaves the page without them.\<close>

definition review_history ::
    "'w operator_pages \<Rightarrow> web_context \<Rightarrow> string \<Rightarrow> (audit_entry list \<times> bool \<Rightarrow> 'w \<Rightarrow> response \<times> 'w) \<Rightarrow> 'w \<Rightarrow> response \<times> 'w" where
  "review_history H c sourceID k = signedInUser c (\<lambda>actor.
    ask (opp_SourceHistory H actor sourceID) (\<lambda>r. k (case r of Inl err \<Rightarrow> ([], False) | Inr x \<Rightarrow> x)))"

definition review_senders ::
    "'w operator_pages \<Rightarrow> web_context \<Rightarrow> string \<Rightarrow> (credential list \<Rightarrow> 'w \<Rightarrow> response \<times> 'w) \<Rightarrow> 'w \<Rightarrow> response \<times> 'w" where
  "review_senders H c sourceID k = signedInUser c (\<lambda>actor.
    ask (opp_Senders H actor sourceID) (\<lambda>r. k (case r of Inl err \<Rightarrow> [] | Inr x \<Rightarrow> x)))"

definition source_page ::
    "'w operator_pages \<Rightarrow> web_context \<Rightarrow> user \<Rightarrow> source \<Rightarrow> string \<Rightarrow> 'w \<Rightarrow> response \<times> 'w" where
  "source_page H c actor src problem =
    review_history H c (src_ID src) (\<lambda>(history, truncated).
    review_senders H c (src_ID src) (\<lambda>senders.
    respond (Html ''source'' (AdminSourcePage (chromeFor actor) src senders history truncated problem))))"

definition review_show :: "'w operator_pages \<Rightarrow> 'w handler" where
  "review_show H c = signedInUser c (\<lambda>actor.
    readSource H c (param c ''id'') (\<lambda>src. source_page H c actor src (cannotBeLetOut src)))"

definition review_showWith :: "'w operator_pages \<Rightarrow> web_context \<Rightarrow> string \<Rightarrow> string \<Rightarrow> 'w \<Rightarrow> response \<times> 'w" where
  "review_showWith H c i problem =
    readSource H c i (\<lambda>src. signedInUser c (\<lambda>actor. source_page H c actor src problem))"

text \<open>What every decision's handler does with the outcome.\<close>

definition decided :: "'w operator_pages \<Rightarrow> web_context \<Rightarrow> string \<Rightarrow> unit result \<Rightarrow> 'w \<Rightarrow> response \<times> 'w" where
  "decided H c i r =
    (case r of
       Inl err \<Rightarrow> review_showWith H c i (web_message err)
     | Inr _ \<Rightarrow> respond (SeeOther (pathSources @ ''/'' @ i)))"

definition review_approve :: "'w operator_pages \<Rightarrow> 'w handler" where
  "review_approve H c =
    (let i = param c ''id'' in signedInUser c (\<lambda>u. ask (opp_Approve H u i) (decided H c i)))"

definition review_refuse :: "'w operator_pages \<Rightarrow> 'w handler" where
  "review_refuse H c =
    (let i = param c ''id'' in
     case formValue c None ''note'' of (note, form) \<Rightarrow>
     signedInUser c (\<lambda>u. ask (opp_Refuse H u i note) (decided H c i)))"

definition review_suspend :: "'w operator_pages \<Rightarrow> 'w handler" where
  "review_suspend H c =
    (let i = param c ''id'' in
     case formValue c None ''note'' of (note, form) \<Rightarrow>
     signedInUser c (\<lambda>u. ask (opp_Suspend H u i note) (decided H c i)))"

definition review_restore :: "'w operator_pages \<Rightarrow> 'w handler" where
  "review_restore H c =
    (let i = param c ''id'' in signedInUser c (\<lambda>u. ask (opp_Restore H u i) (decided H c i)))"

definition review_messages :: "'w operator_pages \<Rightarrow> 'w handler" where
  "review_messages H c =
    (let i = param c ''id'' in
     signedInUser c (\<lambda>actor.
     readSource H c i (\<lambda>_.
     ask (opp_Messages H actor i) (\<lambda>r. case r of
       Inl err \<Rightarrow> refuseRead err
     | Inr (msgs, truncated) \<Rightarrow>
         (let selected = query_value c ''message'' in
          if selected \<noteq> [] then
            ask (opp_Deliveries H actor i selected) (\<lambda>r. case r of
              Inl err \<Rightarrow> respond (Html ''log''
                (AdminLogPage (chromeFor actor) i msgs truncated selected [] (web_message err)))
            | Inr deliveries \<Rightarrow> respond (Html ''log''
                (AdminLogPage (chromeFor actor) i msgs truncated selected deliveries [])))
          else respond (Html ''log'' (AdminLogPage (chromeFor actor) i msgs truncated [] [] [])))))))"

subsection \<open>People, the audit log and the diagram\<close>

definition personNotFound :: "'w \<Rightarrow> response \<times> 'w" where
  "personNotFound = respond (Words 404 ''no such person'')"

definition people_list :: "'w operator_pages \<Rightarrow> 'w handler" where
  "people_list H c = signedInUser c (\<lambda>actor.
    ask (opp_People H actor) (\<lambda>r. case r of
      Inl err \<Rightarrow> respond (Html ''people'' (PeoplePage (chromeFor actor) [] False (web_message err)))
    | Inr (people, truncated) \<Rightarrow> respond (Html ''people'' (PeoplePage (chromeFor actor) people truncated []))))"

definition readPerson ::
    "'w operator_pages \<Rightarrow> web_context \<Rightarrow> ID \<Rightarrow> (user \<Rightarrow> 'w \<Rightarrow> response \<times> 'w) \<Rightarrow> 'w \<Rightarrow> response \<times> 'w" where
  "readPerson H c i k = signedInUser c (\<lambda>actor.
    ask (opp_Person H actor i) (\<lambda>r. case r of Inl err \<Rightarrow> personNotFound | Inr p \<Rightarrow> k p))"

definition person_page :: "user \<Rightarrow> user \<Rightarrow> string \<Rightarrow> 'w \<Rightarrow> response \<times> 'w" where
  "person_page actor person problem =
    respond (Html ''person'' (PersonPage (chromeFor actor) person (usr_ID person = usr_ID actor) problem))"

definition people_show :: "'w operator_pages \<Rightarrow> 'w handler" where
  "people_show H c = signedInUser c (\<lambda>actor.
    readPerson H c (param c ''id'') (\<lambda>person. person_page actor person []))"

definition people_showWith :: "'w operator_pages \<Rightarrow> web_context \<Rightarrow> ID \<Rightarrow> string \<Rightarrow> 'w \<Rightarrow> response \<times> 'w" where
  "people_showWith H c i problem = signedInUser c (\<lambda>actor.
    readPerson H c i (\<lambda>person. person_page actor person problem))"

definition people_setRole :: "'w operator_pages \<Rightarrow> 'w handler" where
  "people_setRole H c =
    (let i = param c ''id'' in
     case formValue c None ''role'' of (role, form) \<Rightarrow>
     (case formValue c form ''note'' of (note, form) \<Rightarrow>
     signedInUser c (\<lambda>u.
     ask (opp_SetRole H u i (Role role) note) (\<lambda>r. case r of
       Inl err \<Rightarrow> people_showWith H c i (web_message err)
     | Inr _ \<Rightarrow> respond (SeeOther (pathPeople @ ''/'' @ i))))))"

definition people_setActive :: "'w operator_pages \<Rightarrow> 'w handler" where
  "people_setActive H c =
    (let i = param c ''id'' in
     case formValue c None ''active'' of (ticked, form) \<Rightarrow>
     (case formValue c form ''note'' of (note, form) \<Rightarrow>
     signedInUser c (\<lambda>u.
     ask (opp_SetPersonActive H u i (ticked = ''true'') note) (\<lambda>r. case r of
       Inl err \<Rightarrow> people_showWith H c i (web_message err)
     | Inr _ \<Rightarrow> respond (SeeOther (pathPeople @ ''/'' @ i))))))"

definition audit_show :: "'w operator_pages \<Rightarrow> 'w handler" where
  "audit_show H c = signedInUser c (\<lambda>actor.
    ask (opp_Audit H actor) (\<lambda>r. case r of
      Inl err \<Rightarrow> respond (Html ''audit'' (AuditPage (chromeFor actor) [] False (web_message err)))
    | Inr (entries, truncated) \<Rightarrow> respond (Html ''audit'' (AuditPage (chromeFor actor) entries truncated []))))"

definition architecture_show :: "string \<Rightarrow> 'w handler" where
  "architecture_show doc c = respond (Document doc)"

subsection \<open>The surface\<close>

record 'w admin_deps =
  add_SignIn :: "'w sign_in_port option"
  add_Operators :: "'w operator_pages option"
  add_SecureCookie :: bool
  add_Log :: bool

definition admin_validate :: "'w admin_deps \<Rightarrow> goerr option" where
  "admin_validate d = errors_Join
    (missing (add_SignIn d = None) ''no sign-in use case''
     @ missing (add_Operators d = None) ''no operators use case''
     @ missing (\<not> add_Log d) ''no logger'')"

definition admin_pages :: "string list" where
  "admin_pages = [''signin'', ''code'', ''queue'', ''sources'', ''source'', ''log'', ''people'', ''person'', ''audit'']"

definition operator_routes :: "'w operator_pages \<Rightarrow> string \<Rightarrow> 'w web_route list" where
  "operator_routes H diagram =
    [((''GET'', pathQueue), review_queue H),
     ((''GET'', pathSources), review_list H),
     ((''GET'', pathSource), review_show H),
     ((''POST'', pathApprove), review_approve H),
     ((''POST'', pathRefuse), review_refuse H),
     ((''POST'', pathSuspend), review_suspend H),
     ((''POST'', pathRestore), review_restore H),
     ((''GET'', pathAdminLog), review_messages H),
     ((''GET'', pathArchitecture), architecture_show diagram)]"

definition top_routes :: "'w operator_pages \<Rightarrow> 'w web_route list" where
  "top_routes H =
    [((''GET'', pathAudit), audit_show H),
     ((''GET'', pathPeople), people_list H),
     ((''GET'', pathPerson), people_show H),
     ((''POST'', pathPersonRole), people_setRole H),
     ((''POST'', pathPersonActive), people_setActive H)]"

definition NewAdmin :: "public_files \<Rightarrow> 'w admin_deps \<Rightarrow> 'w surface result" where
  "NewAdmin P d =
    (case admin_validate d of
       Some err \<Rightarrow> Inl err
     | None \<Rightarrow>
         then_result (newPageRender P surfaceAdmin admin_pages) (\<lambda>pages.
         then_result (pf_assets P surfaceAdmin) (\<lambda>assets.
         then_result (pf_guarded P surfaceAdmin fileArchitecture) (\<lambda>diagram.
         let signIn = the (add_SignIn d);
             ss = newSessions signIn adminCookieName (add_SecureCookie d);
             ops = the (add_Operators d) in
         Inr \<lparr>sf_pages = pages,
              sf_routes = open_routes signIn ss
                @ guarded (guard ss operator_rule pathSignIn) (operator_routes ops diagram)
                @ guarded (guard ss superAdmin pathQueue) (top_routes ops)
                @ static_routes assets\<rparr>))))"

subsection \<open>The table\<close>

definition admin_routes ::
    "'w sign_in_port \<Rightarrow> 'w sessions \<Rightarrow> 'w operator_pages \<Rightarrow> string \<Rightarrow> (string \<Rightarrow> string) \<Rightarrow> 'w web_route list" where
  "admin_routes si ss H diagram assets =
     open_routes si ss
     @ guarded (guard ss operator_rule pathSignIn) (operator_routes H diagram)
     @ guarded (guard ss superAdmin pathQueue) (top_routes H)
     @ static_routes assets"

lemma NewAdmin_surface:
  assumes "NewAdmin P d = Inr S"
  obtains si ops diagram assets where
    "add_SignIn d = Some si" "add_Operators d = Some ops" "pf_guarded P surfaceAdmin fileArchitecture = Inr diagram"
    "pf_assets P surfaceAdmin = Inr assets"
    "S = \<lparr>sf_pages = admin_pages,
          sf_routes = admin_routes si (newSessions si adminCookieName (add_SecureCookie d)) ops diagram assets\<rparr>"
proof -
  have valid: "admin_validate d = None"
    using assms by (simp add: NewAdmin_def split: option.splits)
  then obtain si ops where ports: "add_SignIn d = Some si" "add_Operators d = Some ops"
    by (auto simp: admin_validate_def missing_def split: if_splits option.splits)
  from assms valid obtain pages assets diagram where files: "newPageRender P surfaceAdmin admin_pages = Inr pages"
    "pf_assets P surfaceAdmin = Inr assets" "pf_guarded P surfaceAdmin fileArchitecture = Inr diagram"
    by (auto simp: NewAdmin_def then_result_Inr)
  show thesis
    using assms valid ports files page_render [OF files(1)]
    by (intro that [OF ports files(3) files(2)]) (simp add: NewAdmin_def then_result_def Let_def admin_routes_def)
qed

lemmas admin_paths = portal_paths pathQueue_def pathApprove_def pathRefuse_def pathSuspend_def pathRestore_def
  pathAdminLog_def pathAudit_def pathPeople_def pathPerson_def pathPersonRole_def pathPersonActive_def pathArchitecture_def

lemma admin_distinct: "distinct (map fst (admin_routes si ss H diagram assets))"
  by (simp add: admin_routes_def open_routes_def guarded_def operator_routes_def top_routes_def static_routes_def admin_paths)

lemma operator_route:
  assumes "(key, h) \<in> List.set (operator_routes H diagram)"
  shows "map_of (admin_routes si ss H diagram assets) key = Some (guard ss operator_rule pathSignIn h)"
proof (rule map_of_is_SomeI [OF admin_distinct])
  show "(key, guard ss operator_rule pathSignIn h) \<in> List.set (admin_routes si ss H diagram assets)"
    using assms by (auto simp: admin_routes_def guarded_def intro!: image_eqI)
qed

lemma top_route:
  assumes "(key, h) \<in> List.set (top_routes H)"
  shows "map_of (admin_routes si ss H diagram assets) key = Some (guard ss superAdmin pathQueue h)"
proof (rule map_of_is_SomeI [OF admin_distinct])
  show "(key, guard ss superAdmin pathQueue h) \<in> List.set (admin_routes si ss H diagram assets)"
    using assms by (auto simp: admin_routes_def guarded_def intro!: image_eqI)
qed

subsection \<open>Every page is answered in full\<close>

lemmas review_handlers = review_queue_def review_list_def refuseRead_def readSource_def review_history_def
  review_senders_def source_page_def review_show_def review_showWith_def decided_def review_approve_def
  review_refuse_def review_suspend_def review_restore_def review_messages_def notFound_def
lemmas people_handlers = personNotFound_def people_list_def readPerson_def person_page_def people_show_def
  people_showWith_def people_setRole_def people_setActive_def audit_show_def architecture_show_def

lemma operator_whole:
  assumes "(key, h) \<in> List.set (operator_routes H diagram)" "cx_User c = Some u"
  shows "whole admin_pages (h c)"
  using assms
  by (auto simp: operator_routes_def review_handlers architecture_show_def signedInUser_def admin_pages_def Let_def
      intro!: whole_rules split: prod.split sum.split)

lemma top_whole:
  assumes "(key, h) \<in> List.set (top_routes H)" "cx_User c = Some u"
  shows "whole admin_pages (h c)"
  using assms
  by (auto simp: top_routes_def people_handlers signedInUser_def admin_pages_def Let_def
      intro!: whole_rules split: prod.split sum.split)

lemma admin_whole:
  fixes S :: "'w surface"
  assumes "NewAdmin P d = Inr S"
  shows "whole_reply (rs_Reply (fst (web_serve gin S r w)))"
proof (rule NewAdmin_surface [OF assms], rule serve_always)
  fix si :: "'w sign_in_port" and ops diagram assets key and h :: "'w handler" and c
  let ?ss = "newSessions si adminCookieName (add_SecureCookie d)"
  assume S: "S = \<lparr>sf_pages = admin_pages, sf_routes = admin_routes si ?ss ops diagram assets\<rparr>"
    and h: "(key, h) \<in> List.set (sf_routes S)"
  have "List.set [''signin'', ''code''] \<subseteq> List.set admin_pages"
    by (simp add: admin_pages_def)
  with h consider "whole admin_pages (h c)"
    | "(key, h) \<in> List.set (guarded (guard ?ss operator_rule pathSignIn) (operator_routes ops diagram))"
    | "(key, h) \<in> List.set (guarded (guard ?ss superAdmin pathQueue) (top_routes ops))"
    using open_whole [of key h si] static_whole [of key h assets] by (auto simp: S admin_routes_def)
  then have "whole admin_pages (h c)"
  proof cases
    case 2
    then show ?thesis by (rule guarded_whole) (rule operator_whole)
  next
    case 3
    then show ?thesis by (rule guarded_whole) (rule top_whole)
  qed
  then show "always (\<lambda>a. whole_reply (render_reply (sf_pages S) (rs_Reply a))) (h c)"
    by (simp add: whole_def S)
qed simp_all

text \<open>
  No request makes a page panic or name a page that is not there. On either surface, whatever
  the request, whatever the router makes of it and whatever the core answers, the reply is never the
  500 of a page that was mounted outside its guard, and never the line that stands for a template
  the surface did not load.
\<close>

theorem pages_finish:
  assumes "NewPortal P d = Inr S \<or> NewAdmin P d' = Inr S"
  shows "rs_Reply (fst (web_serve gin S r w)) \<noteq> StatusOnly 500
    \<and> (\<forall>name. rs_Reply (fst (web_serve gin S r w)) \<noteq> Words 200 (''no such page: '' @ name))"
  using assms portal_whole [of P d S gin r w] admin_whole [of P d' S gin r w] unfolding whole_reply_def by blast

definition demo_admin :: "role \<Rightarrow> world admin_deps" where
  "demo_admin r = \<lparr>add_SignIn = Some (sign_in_pages (demo_front r)),
     add_Operators = Some (operator_pages_of (deployed_operators demo_env None 50)), add_SecureCookie = True, add_Log = True\<rparr>"

lemma demo_admin_opens: "admin_validate d = None \<Longrightarrow> \<exists>A. NewAdmin demo_files d = Inr A"
proof -
  have "pf_assets demo_files dir = Inr (\<lambda>_. [])" "pf_guarded demo_files dir name = Inr ''doc''" for dir name
    by (simp_all add: demo_files_def)
  then show "admin_validate d = None \<Longrightarrow> \<exists>A. NewAdmin demo_files d = Inr A"
    by (simp add: NewAdmin_def demo_templates then_result_def Let_def)
qed

lemma demo_admin_valid [simp]: "admin_validate (demo_admin r) = None"
  by (simp add: admin_validate_def demo_admin_def missing_def)

theorem pages_finish_witness:
  "\<exists>A. NewAdmin demo_files (demo_admin RoleAdmin) = Inr A
     \<and> (\<forall>gin r w. rs_Reply (fst (web_serve gin A r w)) \<noteq> StatusOnly 500)"
proof -
  obtain A where A: "NewAdmin demo_files (demo_admin RoleAdmin) = Inr A"
    using demo_admin_opens [OF demo_admin_valid] by blast
  then show ?thesis
    using pages_finish [OF disjI2 [OF A]] by blast
qed

subsection \<open>Whom the operator's pages let in\<close>

text \<open>The keys of the nine pages of every operator, and of the five of a super admin.\<close>

definition operator_keys :: "(string \<times> string) list" where
  "operator_keys =
    [(''GET'', pathQueue), (''GET'', pathSources), (''GET'', pathSource), (''POST'', pathApprove), (''POST'', pathRefuse),
     (''POST'', pathSuspend), (''POST'', pathRestore), (''GET'', pathAdminLog), (''GET'', pathArchitecture)]"

definition top_keys :: "(string \<times> string) list" where
  "top_keys =
    [(''GET'', pathAudit), (''GET'', pathPeople), (''GET'', pathPerson), (''POST'', pathPersonRole), (''POST'', pathPersonActive)]"

lemma operator_keys_routed:
  assumes "key \<in> List.set operator_keys"
  obtains h where "(key, h) \<in> List.set (operator_routes H diagram)"
proof -
  have "List.set operator_keys \<subseteq> fst ` List.set (operator_routes H diagram)"
    by (simp add: operator_keys_def operator_routes_def)
  then show thesis
    using assms that by fastforce
qed

lemma top_keys_routed:
  assumes "key \<in> List.set top_keys"
  obtains h where "(key, h) \<in> List.set (top_routes H)"
proof -
  have "List.set top_keys \<subseteq> fst ` List.set (top_routes H)"
    by (simp add: top_keys_def top_routes_def)
  then show thesis
    using assms that by fastforce
qed

lemma admin_guarded:
  assumes "NewAdmin P d = Inr A" "add_SignIn d = Some si"
    and "gin (map fst (sf_routes A)) (wr_Method r) (wr_Path r) = Matched key ps"
    and "key \<in> List.set operator_keys \<or> key \<in> List.set top_keys"
  obtains h where
    "web_serve gin A r w =
      (case guard (newSessions si adminCookieName (add_SecureCookie d))
           (if key \<in> List.set operator_keys then operator_rule else superAdmin)
           (if key \<in> List.set operator_keys then pathSignIn else pathQueue) h
           \<lparr>cx_Request = r, cx_Params = ps, cx_User = None\<rparr> w of
         (a, w') \<Rightarrow> (a\<lparr>rs_Reply := render_reply admin_pages (rs_Reply a)\<rparr>, w'))"
proof -
  let ?ss = "newSessions si adminCookieName (add_SecureCookie d)"
  obtain ops diagram assets where A: "A = \<lparr>sf_pages = admin_pages, sf_routes = admin_routes si ?ss ops diagram assets\<rparr>"
    by (rule NewAdmin_surface [OF assms(1)]) (simp add: assms(2))
  have apart: "key \<in> List.set top_keys \<Longrightarrow> key \<notin> List.set operator_keys"
    by (auto simp: operator_keys_def top_keys_def admin_paths)
  note run = web_serve_run [where gin = gin and S = A and r = r, OF assms(3)]
  show thesis
  proof (cases "key \<in> List.set operator_keys")
    case True
    then obtain h where "(key, h) \<in> List.set (operator_routes ops diagram)"
      by (rule operator_keys_routed)
    then have "map_of (sf_routes A) key = Some (guard ?ss operator_rule pathSignIn h)"
      by (simp add: A operator_route)
    from run [OF this] show thesis
      by (intro that [of h]) (simp add: True A)
  next
    case False
    with assms(4) obtain h where "(key, h) \<in> List.set (top_routes ops)"
      using top_keys_routed by blast
    then have "map_of (sf_routes A) key = Some (guard ?ss superAdmin pathQueue h)"
      by (simp add: A top_route)
    from run [OF this] show thesis
      by (intro that [of h]) (simp add: False A)
  qed
qed

text \<open>
  C32. Every refusal of an operator's page looks the same. Whether the session ended, the account is
  off, the core did not answer or the person behind a live session is a customer, the response to a
  request that carries a cookie is one redirect to the sign-in page that removes the cookie, and
  nothing but the check of the session has run.
\<close>

theorem refusals_look_the_same:
  assumes "NewAdmin P d = Inr A" "add_SignIn d = Some si"
    and "gin (map fst (sf_routes A)) (wr_Method r) (wr_Path r) = Matched key ps" "key \<in> List.set operator_keys"
    and "sessions_ID (newSessions si adminCookieName (add_SecureCookie d))
           \<lparr>cx_Request = r, cx_Params = ps, cx_User = None\<rparr> = Some i"
    and "sip_Whoami si i w = (answer, w')" "\<forall>u. answer = Inr u \<longrightarrow> \<not> IsOperator (usr_Role u)"
  shows "web_serve gin A r w =
    (\<lparr>rs_Cookies = [sessions_clear (newSessions si adminCookieName (add_SecureCookie d))], rs_Reply = SeeOther pathSignIn\<rparr>, w')"
proof -
  let ?ss = "newSessions si adminCookieName (add_SecureCookie d)"
  have si: "wss_signIn ?ss = si"
    by (simp add: newSessions_def)
  have refused: "guard ?ss operator_rule pathSignIn h \<lparr>cx_Request = r, cx_Params = ps, cx_User = None\<rparr> w
      = (\<lparr>rs_Cookies = [sessions_clear ?ss], rs_Reply = SeeOther pathSignIn\<rparr>, w')" for h
    using assms(5-7) guard_run(2,3) [where S = ?ss, unfolded si]
    by (cases answer) (simp_all add: operator_rule_def)
  show ?thesis
    by (rule admin_guarded [where gin = gin and r = r and w = w, OF assms(1-3) disjI1 [OF assms(4)]]) (simp add: assms(4) refused)
qed

theorem refusals_look_the_same_witness:
  "\<exists>A. NewAdmin demo_files (demo_admin RoleCustomer) = Inr A
     \<and> fst (web_serve first_match A (demo_get adminCookieName ''/sources/S1/log'') demo_world)
        = \<lparr>rs_Cookies = [sessions_clear (newSessions (sign_in_pages (demo_front RoleCustomer)) adminCookieName True)],
           rs_Reply = SeeOther ''/signin''\<rparr>"
proof -
  obtain A where A: "NewAdmin demo_files (demo_admin RoleCustomer) = Inr A"
    using demo_admin_opens [OF demo_admin_valid] by blast
  have found: "first_match (map fst (sf_routes A)) ''GET'' ''/sources/S1/log'' = Matched (''GET'', pathAdminLog) [(''id'', ''S1'')]"
    by (rule NewAdmin_surface [OF A])
       (simp add: admin_routes_def open_routes_def guarded_def operator_routes_def top_routes_def static_routes_def admin_paths
         first_match_def path_params_def)
  have signIn: "add_SignIn (demo_admin RoleCustomer) = Some (sign_in_pages (demo_front RoleCustomer))"
    "add_SecureCookie (demo_admin RoleCustomer) = True"
    by (simp_all add: demo_admin_def)
  have who: "sip_Whoami (sign_in_pages (demo_front RoleCustomer)) ''sid'' demo_world = (Inr (demo_person RoleCustomer), demo_world)"
    by (simp add: sign_in_pages_def demo_signed_in)
  have customer: "\<forall>u. Inr (demo_person RoleCustomer) = (Inr u :: user result) \<longrightarrow> \<not> IsOperator (usr_Role u)"
    by (simp add: demo_person_def IsOperator_def)
  have "web_serve first_match A (demo_get adminCookieName ''/sources/S1/log'') demo_world
      = (\<lparr>rs_Cookies = [sessions_clear (newSessions (sign_in_pages (demo_front RoleCustomer)) adminCookieName
           (add_SecureCookie (demo_admin RoleCustomer)))], rs_Reply = SeeOther pathSignIn\<rparr>, demo_world)"
    by (rule refusals_look_the_same [OF A signIn(1) _ _ demo_cookie who customer, where key = "(''GET'', pathAdminLog)"])
       (simp_all add: demo_get_def found operator_keys_def)
  with A show ?thesis
    by (auto simp: signIn(2) pathSignIn_def)
qed

text \<open>
  The people and the audit log are not behind the operator's rule: a customer with a live session
  keeps the cookie there, and a session that ended loses it, so the two can be told apart.
\<close>

lemma customer_told_apart:
  assumes "NewAdmin P d = Inr A" "add_SignIn d = Some si"
    and "gin (map fst (sf_routes A)) (wr_Method r) (wr_Path r) = Matched key ps" "key \<in> List.set top_keys"
    and "sessions_ID (newSessions si adminCookieName (add_SecureCookie d))
           \<lparr>cx_Request = r, cx_Params = ps, cx_User = None\<rparr> = Some i"
    and "sip_Whoami si i v = (Inr u, v')" "usr_Role u = RoleCustomer" "sip_Whoami si i w = (Inl err, w')"
  shows "rs_Cookies (fst (web_serve gin A r v)) = []"
    and "rs_Cookies (fst (web_serve gin A r w)) = [sessions_clear (newSessions si adminCookieName (add_SecureCookie d))]"
proof -
  let ?ss = "newSessions si adminCookieName (add_SecureCookie d)"
  let ?c = "\<lparr>cx_Request = r, cx_Params = ps, cx_User = None\<rparr>"
  have si: "wss_signIn ?ss = si"
    by (simp add: newSessions_def)
  have apart: "key \<notin> List.set operator_keys"
    using assms(4) by (auto simp: operator_keys_def top_keys_def admin_paths)
  have customer: "\<not> may_allows superAdmin u" "\<not> may_endsSession superAdmin"
    by (simp_all add: superAdmin_def assms(7))
  have kept: "guard ?ss superAdmin pathQueue h ?c v = (\<lparr>rs_Cookies = [], rs_Reply = SeeOther pathQueue\<rparr>, v')" for h
    using guard_run(3) [where S = ?ss, unfolded si, OF assms(5,6) customer(1)] customer(2) by simp
  show "rs_Cookies (fst (web_serve gin A r v)) = []"
    by (rule admin_guarded [where gin = gin and r = r and w = v, OF assms(1-3) disjI2 [OF assms(4)]]) (simp add: apart kept)
  have removed: "guard ?ss superAdmin pathQueue h ?c w
      = (\<lparr>rs_Cookies = [sessions_clear ?ss], rs_Reply = SeeOther pathQueue\<rparr>, w')" for h
    using guard_run(2) [where S = ?ss, unfolded si, OF assms(5,8)] by simp
  show "rs_Cookies (fst (web_serve gin A r w)) = [sessions_clear ?ss]"
    by (rule admin_guarded [where gin = gin and r = r and w = w, OF assms(1-3) disjI2 [OF assms(4)]]) (simp add: apart removed)
qed

subsection \<open>Reading changes nothing\<close>

definition admin_reads where
  "admin_reads d =
    (map_option sip_Whoami (add_SignIn d),
     map_option (\<lambda>P. (opp_Queue P, opp_AllSources P, opp_Source P, opp_Messages P, opp_Deliveries P, opp_Senders P,
       opp_SourceHistory P, opp_People P, opp_Person P, opp_Audit P)) (add_Operators d), add_SecureCookie d)"

lemma source_page_same:
  assumes "opp_Senders H = opp_Senders H'" "opp_SourceHistory H = opp_SourceHistory H'"
  shows "source_page H = source_page H'"
  by (intro ext) (simp add: source_page_def review_history_def review_senders_def assms)

lemma operator_same_gets:
  assumes "opp_Queue H = opp_Queue H'" "opp_AllSources H = opp_AllSources H'" "opp_Source H = opp_Source H'"
    and "opp_Messages H = opp_Messages H'" "opp_Deliveries H = opp_Deliveries H'" "opp_Senders H = opp_Senders H'"
    and "opp_SourceHistory H = opp_SourceHistory H'"
  shows "same_gets (operator_routes H diagram) (operator_routes H' diagram)"
proof -
  have read: "readSource H = readSource H'"
    by (intro ext) (simp add: readSource_def assms(3))
  have "review_queue H = review_queue H'" "review_list H = review_list H'" "review_show H = review_show H'"
    by (intro ext; simp add: review_queue_def review_list_def review_show_def assms(1,2) read source_page_same [OF assms(6,7)])+
  moreover have "review_messages H = review_messages H'"
    unfolding review_messages_def [abs_def] read assms(4,5) ..
  ultimately show ?thesis
    by (simp add: same_gets_def operator_routes_def)
qed

lemma top_same_gets:
  assumes "opp_People H = opp_People H'" "opp_Person H = opp_Person H'" "opp_Audit H = opp_Audit H'"
  shows "same_gets (top_routes H) (top_routes H')"
proof -
  have "people_list H = people_list H'" "people_show H = people_show H'" "audit_show H = audit_show H'"
    by (intro ext; simp add: people_list_def people_show_def readPerson_def audit_show_def assms)+
  then show ?thesis
    by (simp add: same_gets_def top_routes_def)
qed

lemma admin_same_gets:
  assumes "NewAdmin P d = Inr A" "NewAdmin P d' = Inr A'" "admin_reads d = admin_reads d'"
  shows "same_gets (sf_routes A) (sf_routes A')" "sf_pages A = sf_pages A'"
proof -
  obtain si ops diagram assets where d: "add_SignIn d = Some si" "add_Operators d = Some ops"
    "pf_guarded P surfaceAdmin fileArchitecture = Inr diagram" "pf_assets P surfaceAdmin = Inr assets"
    and A: "A = \<lparr>sf_pages = admin_pages,
      sf_routes = admin_routes si (newSessions si adminCookieName (add_SecureCookie d)) ops diagram assets\<rparr>"
    by (rule NewAdmin_surface [OF assms(1)])
  obtain si' ops' diagram' assets' where d': "add_SignIn d' = Some si'" "add_Operators d' = Some ops'"
    "pf_guarded P surfaceAdmin fileArchitecture = Inr diagram'" "pf_assets P surfaceAdmin = Inr assets'"
    and A': "A' = \<lparr>sf_pages = admin_pages,
      sf_routes = admin_routes si' (newSessions si' adminCookieName (add_SecureCookie d')) ops' diagram' assets'\<rparr>"
    by (rule NewAdmin_surface [OF assms(2)])
  have same: "sip_Whoami si = sip_Whoami si'" "add_SecureCookie d = add_SecureCookie d'" "diagram = diagram'" "assets = assets'"
    using assms(3) d d' by (simp_all add: admin_reads_def)
  have gets: "same_gets (operator_routes ops diagram) (operator_routes ops' diagram)" "same_gets (top_routes ops) (top_routes ops')"
    using assms(3) d d' by (simp_all add: admin_reads_def operator_same_gets top_same_gets)
  show "same_gets (sf_routes A) (sf_routes A')"
    unfolding A A' admin_routes_def guarded_def same(2-4) guard_same [OF same(1)]
    using gets by (simp add: same open_same_gets same_gets_refl same_gets_map same_gets_append)
  show "sf_pages A = sf_pages A'"
    by (simp add: A A')
qed

text \<open>
  C33. A link cannot cause a change. Take two portals, or two operator's surfaces, whose cores agree
  on the calls that read (who is signed in, the lists and the single items) and differ in every call
  that changes something: sign-in codes and sessions, registering and editing sources, keys,
  senders, trials and callbacks, the decisions on a source, roles and accounts. To every GET they
  give the same response and end in the same state.
\<close>

theorem get_cannot_mutate:
  assumes "follows_patterns gin" "wr_Method r = ''GET''"
    and "NewPortal P d = Inr A \<and> NewPortal P d' = Inr A' \<and> portal_reads d = portal_reads d'
       \<or> NewAdmin P e = Inr A \<and> NewAdmin P e' = Inr A' \<and> admin_reads e = admin_reads e'"
  shows "web_serve gin A r = web_serve gin A' r"
proof -
  have "same_gets (sf_routes A) (sf_routes A') \<and> sf_pages A = sf_pages A'"
    using assms(3) portal_same_gets [of P d A d' A'] admin_same_gets [of P e A e' A'] by blast
  then show ?thesis
    using same_gets_serve [of A A'] assms(1,2) by blast
qed

theorem get_cannot_mutate_witness:
  "\<exists>A A'. NewAdmin demo_files (demo_admin RoleAdmin) = Inr A
     \<and> NewAdmin demo_files ((demo_admin RoleAdmin)\<lparr>add_Operators :=
          Some ((operator_pages_of (deployed_operators demo_env None 50))\<lparr>opp_Approve := \<lambda>_ _. throw (Foreign ''gone'')\<rparr>)\<rparr>) = Inr A'
     \<and> web_serve first_match A (demo_get adminCookieName ''/'') = web_serve first_match A' (demo_get adminCookieName ''/'')"
proof -
  let ?d' = "(demo_admin RoleAdmin)\<lparr>add_Operators :=
    Some ((operator_pages_of (deployed_operators demo_env None 50))\<lparr>opp_Approve := \<lambda>_ _. throw (Foreign ''gone'')\<rparr>)\<rparr>"
  have "admin_validate ?d' = None"
    by (simp add: admin_validate_def demo_admin_def missing_def)
  then obtain A A' where built: "NewAdmin demo_files (demo_admin RoleAdmin) = Inr A" "NewAdmin demo_files ?d' = Inr A'"
    using demo_admin_opens [OF demo_admin_valid] demo_admin_opens [of ?d'] by blast
  moreover have "admin_reads (demo_admin RoleAdmin) = admin_reads ?d'"
    by (simp add: admin_reads_def demo_admin_def)
  ultimately have "web_serve first_match A (demo_get adminCookieName ''/'') = web_serve first_match A' (demo_get adminCookieName ''/'')"
    using get_cannot_mutate [where gin = first_match and r = "demo_get adminCookieName ''/''" and P = demo_files
      and e = "demo_admin RoleAdmin" and e' = ?d' and A = A and A' = A', OF first_match_follows _ disjI2]
    by (simp add: demo_get_def)
  with built show ?thesis by blast
qed

subsection \<open>From the form to the code page\<close>

lemma open_route:
  assumes "NewPortal P d = Inr A \<or> NewAdmin P d' = Inr A"
  obtains si where
    "map_of (sf_routes A) (''POST'', pathSignIn) = Some (signin_request si)"
    "map_of (sf_routes A) (''GET'', pathCode) = Some signin_showCode"
    "''code'' \<in> List.set (sf_pages A)"
  using assms
proof
  assume "NewPortal P d = Inr A"
  then show thesis
    by (rule NewPortal_surface) (rule that, simp_all add: open_routes_def portal_paths portal_pages_def)
next
  assume "NewAdmin P d' = Inr A"
  then show thesis
    by (rule NewAdmin_surface) (rule that, simp_all add: admin_routes_def open_routes_def portal_paths admin_pages_def)
qed

text \<open>
  C35. The address somebody typed reaches the code page unchanged. When the sign-in form is accepted,
  on either surface, the browser is redirected to an address of which the path is the code page;
  asking for it shows that page with the very bytes the form held, whatever they are: spaces,
  ampersands, percent signs, bytes that are no text.
\<close>

theorem address_survives_the_redirect:
  assumes "NewPortal P d = Inr A \<or> NewAdmin P d' = Inr A"
    and "gin (map fst (sf_routes A)) (wr_Method r) (wr_Path r) = Matched (''POST'', pathSignIn) ps"
    and "rs_Reply (fst (web_serve gin A r w)) = SeeOther loc"
    and "loc = wr_Path r2 @ ''?'' @ wr_RawQuery r2" "wr_Path r2 = ''/signin/code''"
    and "gin (map fst (sf_routes A)) (wr_Method r2) (wr_Path r2) = Matched (''GET'', pathCode) ps2"
  shows "rs_Reply (fst (web_serve gin A r2 w2)) = Html ''code'' (CodePage outside_page
    (fst (formValue \<lparr>cx_Request = r, cx_Params = ps, cx_User = None\<rparr> None ''email'')) '''')"
proof -
  let ?email = "fst (formValue \<lparr>cx_Request = r, cx_Params = ps, cx_User = None\<rparr> None ''email'')"
  obtain si where routes: "map_of (sf_routes A) (''POST'', pathSignIn) = Some (signin_request si)"
    "map_of (sf_routes A) (''GET'', pathCode) = Some signin_showCode" "''code'' \<in> List.set (sf_pages A)"
    by (rule open_route [OF assms(1)])
  have "loc = pathCode @ ''?'' @ ''email'' @ ''='' @ QueryEscape ?email"
    using assms(3) web_serve_run [where gin = gin and S = A and r = r, OF assms(2) routes(1)]
    by (auto simp: signin_request_def ask_def render_reply_def split: prod.splits sum.splits if_splits)
  then have query: "wr_RawQuery r2 = ''email'' @ CHR ''='' # QueryEscape ?email"
    using assms(4,5) by (simp add: pathCode_def)
  have "ParseQuery (wr_RawQuery r2) = ([(''email'', ?email)], False)"
    unfolding query by (rule read_escaped_pair) simp_all
  then show ?thesis
    using web_serve_run [where gin = gin and S = A and r = r2, OF assms(6) routes(2)] routes(3)
    by (simp add: signin_showCode_def query_value_def first_value_def values_at_def)
qed

definition demo_mailing :: "world admin_deps" where
  "demo_mailing = (demo_admin RoleAdmin)
    \<lparr>add_SignIn := Some ((sign_in_pages (demo_front RoleAdmin))\<lparr>sip_Request := \<lambda>_. ret ()\<rparr>)\<rparr>"

definition demo_form :: web_request where
  "demo_form = \<lparr>wr_Method = ''POST'', wr_Path = ''/signin'', wr_RawQuery = [], wr_Cookies = [],
     wr_Media = (form_media, False), wr_Body = ''email=a%26+b''\<rparr>"

definition demo_follow :: web_request where
  "demo_follow = \<lparr>wr_Method = ''GET'', wr_Path = ''/signin/code'', wr_RawQuery = ''email=a%26+b'', wr_Cookies = [],
     wr_Media = ([], False), wr_Body = []\<rparr>"

definition admin_keys :: "(string \<times> string) list" where
  "admin_keys =
    [(''GET'', pathSignIn), (''POST'', pathSignIn), (''GET'', pathCode), (''POST'', pathCode), (''POST'', pathSignOut)]
    @ operator_keys @ top_keys @ [(''GET'', static_pattern), (''HEAD'', static_pattern)]"

lemma admin_routes_keys: "map fst (admin_routes si ss H diagram assets) = admin_keys"
  by (simp add: admin_routes_def open_routes_def guarded_def operator_routes_def top_routes_def static_routes_def
      admin_keys_def operator_keys_def top_keys_def)

lemma admin_surface_keys:
  assumes "NewAdmin P d = Inr A"
  shows "map fst (sf_routes A) = admin_keys"
  by (rule NewAdmin_surface [OF assms]) (simp add: admin_routes_keys)

theorem address_survives_the_redirect_witness:
  "\<exists>A. NewAdmin demo_files demo_mailing = Inr A
     \<and> rs_Reply (fst (web_serve first_match A demo_follow demo_world)) = Html ''code'' (CodePage outside_page ''a& b'' '''')"
proof -
  let ?si = "(sign_in_pages (demo_front RoleAdmin))\<lparr>sip_Request := \<lambda>_. ret ()\<rparr>"
  have valid: "admin_validate demo_mailing = None" and port: "add_SignIn demo_mailing = Some ?si"
    by (simp_all add: demo_mailing_def admin_validate_def demo_admin_def missing_def)
  obtain A where A: "NewAdmin demo_files demo_mailing = Inr A"
    using demo_admin_opens [OF valid] by blast
  note keys = admin_surface_keys [OF A]
  have posted: "first_match admin_keys ''POST'' ''/signin'' = Matched (''POST'', pathSignIn) []"
    and followed: "first_match admin_keys ''GET'' ''/signin/code'' = Matched (''GET'', pathCode) []"
    by code_simp+
  have form: "fst (formValue \<lparr>cx_Request = demo_form, cx_Params = [], cx_User = None\<rparr> None ''email'') = ''a& b''"
    and escaped: "QueryEscape ''a& b'' = ''a%26+b''"
    by code_simp+
  have "map_of (sf_routes A) (''POST'', pathSignIn) = Some (signin_request ?si)"
    by (rule NewAdmin_surface [OF A]) (simp add: admin_routes_def open_routes_def portal_paths port)
  with form have "rs_Reply (fst (web_serve first_match A demo_form demo_world)) = SeeOther ''/signin/code?email=a%26+b''"
    by (subst web_serve_run [where gin = first_match and S = A and r = demo_form and key = "(''POST'', pathSignIn)" and ps = "[]"])
       (auto simp: keys posted demo_form_def signin_request_def ask_def escaped pathCode_def render_reply_def
          split: prod.splits)
  then have "rs_Reply (fst (web_serve first_match A demo_follow demo_world)) = Html ''code'' (CodePage outside_page
      (fst (formValue \<lparr>cx_Request = demo_form, cx_Params = [], cx_User = None\<rparr> None ''email'')) '''')"
    by (intro address_survives_the_redirect [OF disjI2 [OF A], of first_match demo_form "[]" _
          "''/signin/code?email=a%26+b''" demo_follow "[]"])
       (simp_all add: keys posted followed demo_form_def demo_follow_def)
  with A form show ?thesis by auto
qed

subsection \<open>The two surfaces\<close>

text \<open>The eleven routes that only the operator's surface has; the other six the portal spells as well.\<close>

definition admin_only :: "(string \<times> string) list" where
  "admin_only =
    [(''POST'', pathApprove), (''POST'', pathRefuse), (''POST'', pathSuspend), (''POST'', pathRestore),
     (''GET'', pathAdminLog), (''GET'', pathArchitecture)] @ top_keys"

lemma admin_apart:
  assumes "key \<in> List.set admin_only" "k \<in> List.set portal_keys"
  shows "apart (segments (snd key)) (segments (snd k))"
proof -
  have "list_all (\<lambda>key. list_all (\<lambda>k. apart (segments (snd key)) (segments (snd k))) portal_keys) admin_only"
    by code_simp
  then show ?thesis
    using assms by (simp add: list_all_iff)
qed

text \<open>
  C34. No operator's page answers on the portal. A request whose path is that of one of the eleven
  routes that only the operator's surface has, with any method, runs nothing on the portal: the
  state is untouched, no cookie is set, and the reply is the engine's own.
\<close>

theorem no_admin_route_on_the_portal:
  assumes "NewPortal P d = Inr A" "follows_patterns gin"
    and "key \<in> List.set admin_only" "path_params (snd key) (wr_Path r) = Some ps"
  shows "web_serve gin A r w = (\<lparr>rs_Cookies = [], rs_Reply = rs_Reply (fst (web_serve gin A r w))\<rparr>, w)
    \<and> rs_Reply (fst (web_serve gin A r w)) \<in> {StatusOnly 404, StatusOnly 405} \<union> range Elsewhere"
proof -
  have keys: "map fst (sf_routes A) = portal_keys"
    by (rule NewPortal_surface [OF assms(1)]) (simp add: portal_routes_def [symmetric] portal_routes_keys)
  have "path_params (snd k) (wr_Path r) = None" if "k \<in> List.set portal_keys" for k
    using admin_apart [OF assms(3) that] assms(4) apart_no_match unfolding path_params_def by blast
  then have "gin portal_keys (wr_Method r) (wr_Path r) \<noteq> Matched k qs" for k qs
    using assms(2) unfolding follows_patterns_def by (metis option.distinct(1))
  then show ?thesis
    by (auto simp: web_serve_def keys split: matched.split)
qed

theorem no_admin_route_on_the_portal_witness:
  "\<forall>C T R K S. \<exists>A. NewPortal demo_files (portal_over (demo_front RoleSuperAdmin) S K C T R True) = Inr A
     \<and> snd (web_serve first_match A (demo_get portalCookieName ''/people/U1/role'') demo_world) = demo_world"
proof (intro allI)
  fix C :: "world credentials" and T :: "world trials" and R :: "world registrar" and K :: "world keys" and S :: "world sources"
  let ?d = "portal_over (demo_front RoleSuperAdmin) S K C T R True"
  have "portal_validate ?d = None"
    by (simp add: portal_validate_def portal_over_def missing_def)
  then obtain A where A: "NewPortal demo_files ?d = Inr A"
    using demo_portal_opens by blast
  have known: "(''POST'', pathPersonRole) \<in> List.set admin_only"
    "path_params (snd (''POST'', pathPersonRole)) ''/people/U1/role'' = Some [(''id'', ''U1'')]"
    by code_simp+
  have "wr_Path (demo_get portalCookieName ''/people/U1/role'') = ''/people/U1/role''"
    by (simp add: demo_get_def)
  with known(2) have "path_params (snd (''POST'', pathPersonRole)) (wr_Path (demo_get portalCookieName ''/people/U1/role''))
      = Some [(''id'', ''U1'')]"
    by (simp only:)
  from no_admin_route_on_the_portal [OF A first_match_follows known(1) this, of demo_world]
  have "web_serve first_match A (demo_get portalCookieName ''/people/U1/role'') demo_world
      = (\<lparr>rs_Cookies = [], rs_Reply = rs_Reply (fst (web_serve first_match A (demo_get portalCookieName ''/people/U1/role'') demo_world))\<rparr>,
         demo_world)"
    by blast
  then have "snd (web_serve first_match A (demo_get portalCookieName ''/people/U1/role'') demo_world) = demo_world"
    by (metis snd_conv)
  with A show "\<exists>A. NewPortal demo_files ?d = Inr A
     \<and> snd (web_serve first_match A (demo_get portalCookieName ''/people/U1/role'') demo_world) = demo_world"
    by blast
qed

subsection \<open>The four states of the list, and the button\<close>

text \<open>
  The operator's list loses no source and shows none twice. Over sources that are in one of
  their four situations, the four narrowed lists hold together exactly the sources of the whole
  list, each in one of them, and each list is the situation it is named after; anything else that
  is asked for shows the whole list.
\<close>

theorem states_partition:
  assumes "\<forall>s \<in> List.set all. in_situation s"
  shows "mset all = mset (fst (inState all ''waiting'')) + mset (fst (inState all ''sending''))
      + mset (fst (inState all ''refused'')) + mset (fst (inState all ''suspended''))
    \<and> fst (inState all ''waiting'') = filter waiting all \<and> fst (inState all ''sending'') = filter active all
    \<and> fst (inState all ''refused'') = filter refused all \<and> fst (inState all ''suspended'') = filter suspended all
    \<and> (\<forall>st. st \<notin> {''waiting'', ''sending'', ''refused'', ''suspended''} \<longrightarrow> fst (inState all st) = all)"
proof -
  have named: "waiting s \<longleftrightarrow> \<not> IsReviewed s" "active s \<longleftrightarrow> src_IsActive s"
    "refused s \<longleftrightarrow> \<not> src_IsActive s \<and> IsReviewed s \<and> \<not> IsApproved s"
    "suspended s \<longleftrightarrow> \<not> src_IsActive s \<and> IsReviewed s \<and> IsApproved s" if "s \<in> List.set all" for s
    using assms that by (auto simp: in_situation_def waiting_def active_def refused_def suspended_def)
  have "mset all = mset (filter waiting all) + mset (filter active all) + mset (filter refused all) + mset (filter suspended all)"
    using assms
    by (induction all) (auto simp: in_situation_def waiting_def active_def refused_def suspended_def)
  moreover have "fst (inState all ''waiting'') = filter waiting all" "fst (inState all ''sending'') = filter active all"
    "fst (inState all ''refused'') = filter refused all" "fst (inState all ''suspended'') = filter suspended all"
    using named by (auto simp: inState_def intro!: filter_cong)
  ultimately show ?thesis
    by (simp add: inState_def)
qed

theorem states_partition_witness:
  "fst (inState [demo_source, demo_source\<lparr>src_IsActive := True, src_ApprovedAt := Some 7, src_ReviewedAt := Some 7\<rparr>] ''waiting'')
     = filter waiting [demo_source, demo_source\<lparr>src_IsActive := True, src_ApprovedAt := Some 7, src_ReviewedAt := Some 7\<rparr>]"
proof -
  have "\<forall>s \<in> List.set [demo_source, demo_source\<lparr>src_IsActive := True, src_ApprovedAt := Some 7, src_ReviewedAt := Some 7\<rparr>].
      in_situation s"
    by (simp add: in_situation_def waiting_def active_def IsReviewed_def IsApproved_def demo_source_def)
  from states_partition [OF this] show ?thesis by blast
qed

text \<open>
  The sentence an operator reads before pressing the button is the one the button would answer, and
  without it the button works: approving while the source waits, restoring once it was reviewed.
\<close>

lemma page_predicts_the_button:
  assumes "\<not> src_IsActive src"
  shows "cannotBeLetOut src = [] \<longleftrightarrow> (\<exists>s. Approve src now = Inr s)"
    "IsReviewed src \<Longrightarrow> cannotBeLetOut src = [] \<longleftrightarrow> (\<exists>s. source_Restore src now = Inr s)"
    "Approve src now = Inl err \<Longrightarrow> cannotBeLetOut src = web_message err"
  using assms
  by (auto simp: cannotBeLetOut_def Approve_def source_Restore_def Let_def web_message_def no_reachable_address_def
      InvalidInputErr_def New_def)

subsection \<open>Forms that could not be read\<close>

text \<open>A form over the bound reads as empty, field by field.\<close>

lemma oversized_form_is_empty:
  assumes "wr_Method (cx_Request c) = ''POST''" "fst (wr_Media (cx_Request c)) = form_media"
    and "maxFormBytes < length (wr_Body (cx_Request c))"
  shows "formValue c None name = ([], Some [])" "formValue c (Some []) name = ([], Some [])"
    "defaultAddresses (Some []) = []"
  using assms
  by (auto simp: formValue_def ParseForm_def parsePostForm_def first_value_def values_at_def defaultAddresses_def posted_def
      split: prod.split)

text \<open>
  The core refuses an empty name, an empty address or an empty reason. It does not refuse an account
  being switched off: a form that could not be read does that, and one that could not be read issues
  a key without a label.
\<close>

lemma unreadable_form_switches_off:
  assumes "wr_Method (cx_Request c) = ''POST''" "fst (wr_Media (cx_Request c)) = form_media"
    and "maxFormBytes < length (wr_Body (cx_Request c))" "cx_User c = Some u"
    and "opp_SetPersonActive H u (param c ''id'') False [] w = (Inr (), w')"
  shows "people_setActive H c w = (\<lparr>rs_Cookies = [], rs_Reply = SeeOther (pathPeople @ ''/'' @ param c ''id'')\<rparr>, w')"
  using assms(4,5) oversized_form_is_empty [OF assms(1-3)]
  by (simp add: people_setActive_def signedInUser_def ask_run Let_def)

lemma unreadable_form_issues_key:
  assumes "wr_Method (cx_Request c) = ''POST''" "fst (wr_Media (cx_Request c)) = form_media"
    and "maxFormBytes < length (wr_Body (cx_Request c))" "cx_User c = Some u"
    and "kep_Issue K u (param c ''id'') [] w = (Inr (key, made), w')"
  shows "keys_issue K c w
    = (\<lparr>rs_Cookies = [], rs_Reply = Html ''key_issued'' (KeyIssuedPage inside_page (param c ''id'') key (key_Label made))\<rparr>, w')"
  using assms(4,5) oversized_form_is_empty [OF assms(1-3)]
  by (simp add: keys_issue_def signedInUser_def ask_run Let_def)

text \<open>
  Changing the address of a callback that exists shows the page of a new signing secret with no
  secret on it: the use case answers one only the first time.
\<close>

lemma changed_callback_shows_no_secret:
  assumes "cx_User c = Some u" "sop_One (idp_sources H) u (param c ''id'') w = (Inr src, w1)"
    and "idp_callbacks H = callback_pages_of R"
    and "Manage (reg_sources R) (param c ''id'') w1 = (Inr src', w2)"
    and "webhook_Get (reg_webhooks R) (param c ''id'') w2 = (Inr (Some existing), w3)"
    and "webhook_Register (reg_lib R) (reg_webhooks R) (param c ''id'')
           \<lparr>reg_CallbackURL = fst (formValue c None ''url'')\<rparr> w3 = (Inr h, w4)"
  shows "identity_setCallback H c w
    = (\<lparr>rs_Cookies = [], rs_Reply = Html ''callback_secret''
         (CallbackSecretPage inside_page (param c ''id'') [] (whk_CallbackURL h))\<rparr>, w4)"
proof -
  have "Register R (param c ''id'') \<lparr>reg_CallbackURL = fst (formValue c None ''url'')\<rparr> w1 = (Inr (h, []), w4)"
    by (simp add: Register_def and_then_def assms(4-6))
  then show ?thesis
    using assms(1-3)
    by (cases "formValue c None ''url''")
       (simp add: identity_setCallback_def mine_def signedInUser_def callback_pages_of_def ask_run Let_def)
qed

end
