(* ===== verification/Process.thy ===== *)
theory Process
  imports Portal "HOL-Library.Multiset"
begin

text \<open>
  What every binary does around its use cases: \<open>internal/registry/registry.go\<close> closes what was opened,
  \<open>internal/adapter/api/http\<close> answers whether the process lives and is ready, \<open>bootstrap/watch.go\<close>
  turns readiness into alerts and \<open>bootstrap/healthcheck.go\<close> asks for it. JSON, the HTTP client and
  splitting a listen address are parameters.
\<close>

subsection \<open>What is open\<close>

datatype tier = TierStore | TierBroker | TierClient | TierServer

fun tier_rank :: "tier \<Rightarrow> nat" where
  "tier_rank TierStore = 0"
| "tier_rank TierBroker = 1"
| "tier_rank TierClient = 2"
| "tier_rank TierServer = 3"

record 'w dependency =
  dep_name :: string
  dep_tier :: tier
  dep_ready :: "('w, goerr option) act option"
  dep_close :: "('w, unit) io"

record 'w resources =
  rs_steps :: "'w dependency list"

definition NewResources :: "'w resources" where
  "NewResources = \<lparr>rs_steps = []\<rparr>"

definition resources_add :: "'w resources \<Rightarrow> 'w dependency \<Rightarrow> 'w resources" where
  "resources_add R s = R\<lparr>rs_steps := rs_steps R @ [s]\<rparr>"

record health_check =
  hc_Name :: string
  hc_Err :: "goerr option"

fun ready_loop :: "'w dependency list \<Rightarrow> health_check list \<Rightarrow> ('w, health_check list) act" where
  "ready_loop [] checks w = (checks, w)"
| "ready_loop (s # ss) checks w =
    (case dep_ready s of
       None \<Rightarrow> ready_loop ss checks w
     | Some ready \<Rightarrow>
         (case ready w of (err, w') \<Rightarrow> ready_loop ss (checks @ [\<lparr>hc_Name = dep_name s, hc_Err = err\<rparr>]) w'))"

definition Resources_Ready :: "'w resources \<Rightarrow> ('w, health_check list) act" where
  "Resources_Ready R = ready_loop (rs_steps R) []"

text \<open>\<open>Close\<close>: one pass over the steps from the last to the first for each tier, from the highest.\<close>

definition close_step :: "'w dependency \<Rightarrow> goerr list \<Rightarrow> 'w \<Rightarrow> goerr list \<times> 'w" where
  "close_step s failures w =
    (case dep_close s w of
       (Inl err, w') \<Rightarrow> (failures @ [Wrapped (dep_name s @ '': '') err], w')
     | (Inr _, w') \<Rightarrow> (failures, w'))"

fun close_pass :: "tier \<Rightarrow> 'w dependency list \<Rightarrow> goerr list \<Rightarrow> 'w \<Rightarrow> goerr list \<times> 'w" where
  "close_pass t [] failures w = (failures, w)"
| "close_pass t (s # ss) failures w =
    (if dep_tier s \<noteq> t then close_pass t ss failures w
     else (case close_step s failures w of (failures, w') \<Rightarrow> close_pass t ss failures w'))"

fun close_tiers :: "tier list \<Rightarrow> 'w dependency list \<Rightarrow> goerr list \<Rightarrow> 'w \<Rightarrow> goerr list \<times> 'w" where
  "close_tiers [] ss failures w = (failures, w)"
| "close_tiers (t # ts) ss failures w =
    (case close_pass t ss failures w of (failures, w') \<Rightarrow> close_tiers ts ss failures w')"

definition Resources_Close :: "'w resources \<Rightarrow> 'w \<Rightarrow> goerr option \<times> 'w resources \<times> 'w" where
  "Resources_Close R w =
    (case close_tiers [TierServer, TierClient, TierBroker, TierStore] (rev (rs_steps R)) [] w of
       (failures, w') \<Rightarrow> (errors_Join failures, R\<lparr>rs_steps := []\<rparr>, w'))"

text \<open>The closes of a list of dependencies, one after the other, whichever fails.\<close>

fun close_all :: "'w dependency list \<Rightarrow> goerr list \<Rightarrow> 'w \<Rightarrow> goerr list \<times> 'w" where
  "close_all [] failures w = (failures, w)"
| "close_all (s # ss) failures w = (case close_step s failures w of (failures, w') \<Rightarrow> close_all ss failures w')"

lemma close_pass_filter: "close_pass t ss fs w = close_all (filter (\<lambda>s. dep_tier s = t) ss) fs w"
  by (induction t ss fs w rule: close_pass.induct) (auto split: prod.split)

lemma close_all_append:
  "close_all (xs @ ys) fs w = (case close_all xs fs w of (fs', w') \<Rightarrow> close_all ys fs' w')"
  by (induction xs fs w rule: close_all.induct) (auto split: prod.split)

lemma close_tiers_concat:
  "close_tiers ts ss fs w = close_all (concat (map (\<lambda>t. filter (\<lambda>s. dep_tier s = t) ss) ts)) fs w"
  by (induction ts ss fs w rule: close_tiers.induct) (simp_all add: close_pass_filter close_all_append split: prod.split)

text \<open>Going down the tiers is the stable sort by tier, backwards.\<close>

lemma tier_filter_sorted: "sorted (map (\<lambda>s. tier_rank (dep_tier s)) (filter (\<lambda>s. dep_tier s = t) ss))"
  by (induction ss) auto

lemma tiers_sorted:
  "concat (map (\<lambda>t. filter (\<lambda>s. dep_tier s = t) (rev ss)) [TierServer, TierClient, TierBroker, TierStore])
    = rev (sort_key (\<lambda>s. tier_rank (dep_tier s)) ss)"
proof -
  let ?f = "\<lambda>s. tier_rank (dep_tier s)"
  let ?at = "\<lambda>t. filter (\<lambda>s. dep_tier s = t) ss"
  let ?ys = "?at TierStore @ ?at TierBroker @ ?at TierClient @ ?at TierServer"
  have rank: "tier_rank a = tier_rank b \<longleftrightarrow> a = b" for a b
    by (cases a; cases b) simp_all
  have "sort_key ?f ss = ?ys"
  proof (rule properties_for_sort_key)
    show "mset ?ys = mset ss"
    proof (induction ss)
      case (Cons s ss)
      then show ?case by (cases "dep_tier s") auto
    qed simp
    show "filter (\<lambda>x. ?f k = ?f x) ?ys = filter (\<lambda>x. ?f k = ?f x) ss" for k
      unfolding rank by (cases "dep_tier k") (auto simp: filter_empty_conv intro!: filter_cong)
    show "sorted (map ?f ?ys)"
      by (auto simp: sorted_append tier_filter_sorted)
  qed
  then show ?thesis
    by (simp add: rev_filter)
qed

text \<open>
  What the closes of a list come to: each is called in the state its predecessors left, and what those that
  fail answered is kept under their names.
\<close>

definition closed_to :: "'w dependency list \<Rightarrow> 'w \<Rightarrow> 'w" where
  "closed_to ss w = fold (\<lambda>s w. snd (dep_close s w)) ss w"

definition close_failures :: "'w dependency list \<Rightarrow> 'w \<Rightarrow> goerr list" where
  "close_failures ss w = concat (map (\<lambda>i.
     case fst (dep_close (ss ! i) (closed_to (take i ss) w)) of
       Inl err \<Rightarrow> [Wrapped (dep_name (ss ! i) @ '': '') err] | Inr _ \<Rightarrow> []) [0..<length ss])"

lemma close_failures_Cons:
  "close_failures (s # ss) w =
     (case fst (dep_close s w) of Inl err \<Rightarrow> [Wrapped (dep_name s @ '': '') err] | Inr _ \<Rightarrow> [])
     @ close_failures ss (snd (dep_close s w))"
  unfolding close_failures_def closed_to_def
  by (simp add: upt_conv_Cons map_Suc_upt [symmetric] comp_def del: upt_Suc cong del: sum.case_cong_weak)

lemma close_all_closes: "close_all ss fs w = (fs @ close_failures ss w, closed_to ss w)"
proof (induction ss arbitrary: fs w)
  case Nil
  then show ?case by (simp add: close_failures_def closed_to_def)
next
  case (Cons s ss)
  then show ?case
    by (cases "dep_close s w"; cases "fst (dep_close s w)")
      (simp_all add: close_step_def close_failures_Cons closed_to_def)
qed

text \<open>
  C36. Everything that was opened is closed once, in the order that leaves nothing without what it
  uses: from the servers over the clients and the broker to the store, and within a tier the last
  opened first, which is the stable sort by tier, read backwards. Every close function on that list is
  called, whether or not the ones before it failed; the answer joins, in that order, what each failing one
  answered under its name, and is nil if none failed; and closing again calls nothing.
\<close>

theorem closes_in_reverse:
  "Resources_Close R w =
     (let order = rev (sort_key (\<lambda>s. tier_rank (dep_tier s)) (rs_steps R)) in
      (errors_Join (concat (map (\<lambda>i.
         case fst (dep_close (order ! i) (fold (\<lambda>s w. snd (dep_close s w)) (take i order) w)) of
           Inl err \<Rightarrow> [Wrapped (dep_name (order ! i) @ '': '') err] | Inr _ \<Rightarrow> []) [0..<length order])),
       R\<lparr>rs_steps := []\<rparr>, fold (\<lambda>s w. snd (dep_close s w)) order w))
   \<and> (\<forall>v. Resources_Close (fst (snd (Resources_Close R w))) v = (None, fst (snd (Resources_Close R w)), v))"
proof -
  have "Resources_Close R w =
     (let order = rev (sort_key (\<lambda>s. tier_rank (dep_tier s)) (rs_steps R)) in
      (errors_Join (close_failures order w), R\<lparr>rs_steps := []\<rparr>, closed_to order w))" for R :: "'a resources" and w
    by (simp only: Resources_Close_def close_tiers_concat tiers_sorted close_all_closes Let_def prod.case append_Nil)
  then show ?thesis
    by (simp add: Let_def close_failures_def closed_to_def)
qed

subsection \<open>Health\<close>

record 'w health_deps =
  hd_Binary :: string
  hd_Ready :: "('w, health_check list) act option"
  hd_Log :: bool

definition health_validate :: "'w health_deps \<Rightarrow> goerr option" where
  "health_validate d = errors_Join
    (missing (hd_Binary d = []) ''binary is empty''
     @ missing (hd_Ready d = None) ''no readiness check''
     @ missing (\<not> hd_Log d) ''no logger'')"

record check_status =
  chk_Name :: string
  chk_Status :: string

record health_report =
  hr_Binary :: string
  hr_Status :: string
  hr_Checks :: "check_status list"

definition statusReady :: string where "statusReady = ''ready''"
definition statusNotReady :: string where "statusNotReady = ''not ready''"
definition statusUp :: string where "statusUp = ''up''"
definition statusDown :: string where "statusDown = ''down''"

fun report_checks :: "health_report \<Rightarrow> health_check list \<Rightarrow> health_report" where
  "report_checks out [] = out"
| "report_checks out (c # cs) =
    (case hc_Err c of
       Some err \<Rightarrow>
         report_checks (out\<lparr>hr_Status := statusNotReady,
           hr_Checks := hr_Checks out @ [\<lparr>chk_Name = hc_Name c, chk_Status = statusDown\<rparr>]\<rparr>) cs
     | None \<Rightarrow>
         report_checks (out\<lparr>hr_Checks := hr_Checks out @ [\<lparr>chk_Name = hc_Name c, chk_Status = statusUp\<rparr>]\<rparr>) cs)"

text \<open>\<open>/readyz\<close>: the status code and the report; \<open>/healthz\<close> asks nothing.\<close>

definition readyz :: "'w health_deps \<Rightarrow> ('w, nat \<times> health_report) act" where
  "readyz d w =
    (case the (hd_Ready d) w of (checks, w') \<Rightarrow>
     (let out = report_checks \<lparr>hr_Binary = hd_Binary d, hr_Status = statusReady, hr_Checks = []\<rparr> checks in
      ((if hr_Status out \<noteq> statusReady then 503 else 200, out), w')))"

definition healthz :: "('w, nat \<times> string) act" where
  "healthz w = ((200, ''ok'' @ [char_of (10 :: nat)]), w)"

definition NewHealth :: "'w health_deps \<Rightarrow> (('w, nat \<times> string) act \<times> ('w, nat \<times> health_report) act) result" where
  "NewHealth d = (case health_validate d of Some err \<Rightarrow> Inl err | None \<Rightarrow> Inr (healthz, readyz d))"

lemma report_checks_run:
  "report_checks out cs = out
    \<lparr>hr_Status := (if list_all (\<lambda>c. hc_Err c = None) cs then hr_Status out else statusNotReady),
     hr_Checks := hr_Checks out @ map (\<lambda>c. \<lparr>chk_Name = hc_Name c,
       chk_Status = (if hc_Err c = None then statusUp else statusDown)\<rparr>) cs\<rparr>"
  by (induction cs arbitrary: out) (auto split: option.split)

text \<open>
  The process is ready exactly when every dependency answered, each is named in order, and nothing of
  an error's text is in the report.
\<close>

lemma readyz_reports:
  assumes "hd_Ready d = Some ready" "ready w = (checks, w')"
  shows "fst (fst (readyz d w)) = 200 \<longleftrightarrow> (\<forall>c \<in> List.set checks. hc_Err c = None)"
    "fst (fst (readyz d w)) \<in> {200, 503}"
    "map chk_Name (hr_Checks (snd (fst (readyz d w)))) = map hc_Name checks"
  using assms
  by (simp_all add: readyz_def Let_def report_checks_run statusReady_def statusNotReady_def list_all_iff comp_def)

lemma report_blind_to_errors:
  "report_checks out (map (\<lambda>c. c\<lparr>hc_Err := map_option f (hc_Err c)\<rparr>) checks) = report_checks out checks"
  by (induction checks arbitrary: out) (auto split: option.split)

subsection \<open>The probe\<close>

definition JoinHostPort :: "string \<Rightarrow> string \<Rightarrow> string" where
  "JoinHostPort host port =
    (if CHR '':'' \<in> List.set host then ''['' @ host @ '']:'' @ port else host @ '':'' @ port)"

definition dialable :: "(string \<Rightarrow> (string \<times> string) option) \<Rightarrow> string \<Rightarrow> string" where
  "dialable SplitHostPort addr =
    (case SplitHostPort addr of
       None \<Rightarrow> addr
     | Some (host, port) \<Rightarrow>
         JoinHostPort (if host = [] \<or> host = ''0.0.0.0'' \<or> host = ''::'' then ''127.0.0.1'' else host) port)"

definition Probe :: "(string \<Rightarrow> (string \<times> string) option) \<Rightarrow> (string \<Rightarrow> ('w, nat \<times> string) io) \<Rightarrow> string \<Rightarrow> ('w, unit) io" where
  "Probe SplitHostPort Get addr =
    (let url = ''http://'' @ dialable SplitHostPort addr @ ''/readyz'' in
     attempt (Get url) (\<lambda>r. case r of
       Inl err \<Rightarrow> throw (Wrapped ''not ready: '' err)
     | Inr (code, status) \<Rightarrow>
         if code \<noteq> 200 then throw (Text ''not ready: %s said %s'' [FmtS url, FmtS status]) else ret ()))"

subsection \<open>The watcher\<close>

text \<open>What was wrong last time, by dependency; a name that was never looked at is absent.\<close>

record watcher =
  wch_down :: "(string \<times> bool) list"
  wch_seen :: bool

definition newWatcher :: watcher where
  "newWatcher = \<lparr>wch_down = [], wch_seen = False\<rparr>"

definition watch_one :: "golib \<Rightarrow> 'w alerter \<Rightarrow> bool \<Rightarrow> health_check \<Rightarrow> (string \<times> bool) list \<Rightarrow> 'w \<Rightarrow> (string \<times> bool) list \<times> 'w" where
  "watch_one L N seen c down w =
    (let was = map_of down (hc_Name c); now = (hc_Err c \<noteq> None); down = map_put (hc_Name c) now down in
     if \<not> seen \<or> was = None \<or> was = Some now then (down, w)
     else (case hc_Err c of
         Some err \<Rightarrow> (down, snd (alt_Notify N (hc_Name c @ '' is down'') (Error L err) w))
       | None \<Rightarrow> (down, snd (alt_Notify N (hc_Name c @ '' is back'') ''it answers again'' w))))"

fun watch_loop :: "golib \<Rightarrow> 'w alerter \<Rightarrow> bool \<Rightarrow> health_check list \<Rightarrow> (string \<times> bool) list \<Rightarrow> 'w \<Rightarrow> (string \<times> bool) list \<times> 'w" where
  "watch_loop L N seen [] down w = (down, w)"
| "watch_loop L N seen (c # cs) down w =
    (case watch_one L N seen c down w of (down, w') \<Rightarrow> watch_loop L N seen cs down w')"

definition watch_compare :: "golib \<Rightarrow> 'w alerter \<Rightarrow> watcher \<Rightarrow> health_check list \<Rightarrow> 'w \<Rightarrow> watcher \<times> 'w" where
  "watch_compare L N W checks w =
    (case watch_loop L N (wch_seen W) checks (wch_down W) w of (down, w') \<Rightarrow> (\<lparr>wch_down = down, wch_seen = True\<rparr>, w'))"

text \<open>The looks of a run of the process, one answer of every dependency at each tick.\<close>

fun watch_looks :: "golib \<Rightarrow> 'w alerter \<Rightarrow> watcher \<Rightarrow> health_check list list \<Rightarrow> 'w \<Rightarrow> watcher \<times> 'w" where
  "watch_looks L N W [] w = (W, w)"
| "watch_looks L N W (checks # rest) w =
    (case watch_compare L N W checks w of (W', w') \<Rightarrow> watch_looks L N W' rest w')"

text \<open>
  The reference: a look beside the one before it, the dependencies in the order they were opened. A
  dependency that changed is told, whatever was told earlier.
\<close>

definition news_of :: "golib \<Rightarrow> health_check \<Rightarrow> string \<times> string" where
  "news_of L c = (case hc_Err c of
     Some err \<Rightarrow> (hc_Name c @ '' is down'', Error L err)
   | None \<Rightarrow> (hc_Name c @ '' is back'', ''it answers again''))"

definition answer_changed :: "health_check \<times> health_check \<Rightarrow> bool" where
  "answer_changed p \<longleftrightarrow> (hc_Err (fst p) = None) \<noteq> (hc_Err (snd p) = None)"

fun news :: "golib \<Rightarrow> health_check list list \<Rightarrow> (string \<times> string) list" where
  "news L (a # b # rest) = map (news_of L) (map snd (filter answer_changed (zip a b))) @ news L (b # rest)"
| "news L _ = []"

fun tell_all :: "'w alerter \<Rightarrow> (string \<times> string) list \<Rightarrow> 'w \<Rightarrow> 'w" where
  "tell_all N [] w = w"
| "tell_all N ((s, d) # rest) w = tell_all N rest (snd (alt_Notify N s d w))"

lemma tell_all_append: "tell_all N (xs @ ys) w = tell_all N ys (tell_all N xs w)"
  by (induction N xs w rule: tell_all.induct) auto

lemma map_of_put: "map_of (map_put k v m) = (map_of m)(k \<mapsto> v)"
  by (induction k v m rule: map_put.induct) (auto simp: fun_eq_iff)

text \<open>The names of a look, each once, and what the watcher remembers after it.\<close>

definition remembers_look :: "(string \<times> bool) list \<Rightarrow> health_check list \<Rightarrow> bool" where
  "remembers_look down checks \<longleftrightarrow> (\<forall>c \<in> List.set checks. map_of down (hc_Name c) = Some (hc_Err c \<noteq> None))"

lemma watch_loop_silent:
  assumes "distinct (map hc_Name cs)"
  shows "\<exists>down'. watch_loop L N False cs down w = (down', w) \<and> remembers_look down' cs
    \<and> (\<forall>k. k \<notin> hc_Name ` List.set cs \<longrightarrow> map_of down' k = map_of down k)"
  using assms
proof (induction cs arbitrary: down)
  case (Cons c cs)
  let ?down = "map_put (hc_Name c) (hc_Err c \<noteq> None) down"
  from Cons obtain down' where "watch_loop L N False cs ?down w = (down', w)" "remembers_look down' cs"
    "\<forall>k. k \<notin> hc_Name ` List.set cs \<longrightarrow> map_of down' k = map_of ?down k"
    by fastforce
  then show ?case
    using Cons.prems by (auto simp: watch_one_def Let_def remembers_look_def map_of_put)
qed (simp add: remembers_look_def)

lemma watch_loop_tells:
  assumes "distinct (map hc_Name cs)" "map hc_Name old = map hc_Name cs" "remembers_look down old"
  shows "\<exists>down'. (\<forall>w. watch_loop L N True cs down w
        = (down', tell_all N (map (news_of L) (map snd (filter answer_changed (zip old cs)))) w))
    \<and> remembers_look down' cs \<and> (\<forall>k. k \<notin> hc_Name ` List.set cs \<longrightarrow> map_of down' k = map_of down k)"
  using assms
proof (induction cs arbitrary: old down)
  case Nil
  then show ?case by (simp add: remembers_look_def)
next
  case (Cons c cs)
  then obtain a as where old: "old = a # as" "hc_Name a = hc_Name c" "map hc_Name as = map hc_Name cs"
    by (cases old) auto
  let ?down = "map_put (hc_Name c) (hc_Err c \<noteq> None) down"
  have was: "map_of down (hc_Name c) = Some (hc_Err a \<noteq> None)"
    using Cons.prems(3) old by (simp add: remembers_look_def)
  have fresh: "hc_Name c \<notin> hc_Name ` List.set cs" "hc_Name ` List.set as = hc_Name ` List.set cs"
    using Cons.prems(1) old(3) by (simp, metis list.set_map)
  then have "hc_Name b \<noteq> hc_Name c" if "b \<in> List.set as" for b
    using that by (metis image_eqI)
  then have "remembers_look ?down as"
    using Cons.prems(3) old(1) by (simp add: remembers_look_def map_of_put)
  with Cons.IH [OF _ old(3)] Cons.prems(1) obtain down' where rest:
    "\<And>w. watch_loop L N True cs ?down w = (down', tell_all N (map (news_of L) (map snd (filter answer_changed (zip as cs)))) w)"
    "remembers_look down' cs" "\<forall>k. k \<notin> hc_Name ` List.set cs \<longrightarrow> map_of down' k = map_of ?down k"
    by fastforce
  have "watch_one L N True c down w =
      (?down, if answer_changed (a, c) then snd (alt_Notify N (fst (news_of L c)) (snd (news_of L c)) w) else w)" for w
    using was by (auto simp: watch_one_def answer_changed_def news_of_def Let_def split: option.split)
  then have "watch_loop L N True (c # cs) down w
      = (down', tell_all N (map (news_of L) (map snd (filter answer_changed (zip old (c # cs))))) w)" for w
    by (cases "news_of L c") (simp add: rest(1) [simplified] old(1))
  moreover have "remembers_look down' (c # cs)"
    using rest(2,3) fresh(1) by (simp add: remembers_look_def map_of_put)
  ultimately show ?case
    using rest(3) by (intro exI [of _ down'] conjI allI) (simp_all add: map_of_put)
qed

text \<open>Looks at the same dependencies in the same order, each named once.\<close>

definition same_dependencies :: "string list \<Rightarrow> health_check list list \<Rightarrow> bool" where
  "same_dependencies names looks \<longleftrightarrow> distinct names \<and> (\<forall>checks \<in> List.set looks. map hc_Name checks = names)"

lemma looks_tell_news:
  assumes "same_dependencies names (old # looks)" "wch_seen W" "remembers_look (wch_down W) old"
  shows "snd (watch_looks L N W looks w) = tell_all N (news L (old # looks)) w"
  using assms
proof (induction looks arbitrary: old W w)
  case (Cons checks looks)
  have "distinct (map hc_Name checks)" "map hc_Name old = map hc_Name checks"
    using Cons.prems(1) by (auto simp: same_dependencies_def)
  from watch_loop_tells [OF this Cons.prems(3)] obtain down' where
    told: "\<And>w. watch_loop L N True checks (wch_down W) w
      = (down', tell_all N (map (news_of L) (map snd (filter answer_changed (zip old checks)))) w)"
    and kept: "remembers_look down' checks"
    by blast
  have "same_dependencies names (checks # looks)"
    using Cons.prems(1) by (simp add: same_dependencies_def)
  from Cons.IH [OF this, of "\<lparr>wch_down = down', wch_seen = True\<rparr>"] kept show ?case
    by (simp add: watch_compare_def Cons.prems(2) told tell_all_append)
qed simp

text \<open>
  C37. The watcher tells exactly what changed. Over any run of looks at the same dependencies, the
  alerts sent are, in order, one for each dependency whose answer differs from the look before: that
  it is down, with the error, or that it is back. The first look is silent, and nothing is told twice.
\<close>

theorem watcher_tells_changes:
  assumes "same_dependencies names looks"
  shows "snd (watch_looks L N newWatcher looks w) = tell_all N (news L looks) w"
proof (cases looks)
  case (Cons checks rest)
  have "distinct (map hc_Name checks)"
    using assms Cons by (auto simp: same_dependencies_def)
  from watch_loop_silent [OF this, of L N "[]" w] obtain down' where
    "watch_loop L N False checks [] w = (down', w)" "remembers_look down' checks"
    by blast
  then show ?thesis
    using looks_tell_news [of names checks rest "\<lparr>wch_down = down', wch_seen = True\<rparr>" L N w] assms
    by (simp add: Cons watch_compare_def newWatcher_def)
qed simp

theorem watcher_tells_changes_witness:
  "snd (watch_looks demo_golib \<lparr>alt_Notify = \<lambda>s d w. ((), w @ [s])\<rparr> newWatcher
      [[\<lparr>hc_Name = ''nats'', hc_Err = None\<rparr>], [\<lparr>hc_Name = ''nats'', hc_Err = Some (Text ''closed'' [])\<rparr>],
       [\<lparr>hc_Name = ''nats'', hc_Err = Some (Text ''closed'' [])\<rparr>], [\<lparr>hc_Name = ''nats'', hc_Err = None\<rparr>]] [])
    = [''nats is down'', ''nats is back'']"
proof -
  have "same_dependencies [''nats'']
      [[\<lparr>hc_Name = ''nats'', hc_Err = None\<rparr>], [\<lparr>hc_Name = ''nats'', hc_Err = Some (Text ''closed'' [])\<rparr>],
       [\<lparr>hc_Name = ''nats'', hc_Err = Some (Text ''closed'' [])\<rparr>], [\<lparr>hc_Name = ''nats'', hc_Err = None\<rparr>]]"
    by (simp add: same_dependencies_def)
  then show ?thesis
    by (subst watcher_tells_changes) (simp_all add: answer_changed_def news_of_def)
qed

end
