(* ===== verification/Spec2Isabelle.thy ===== *)
theory Spec2Isabelle
  imports Delivery Notification Source Credential Webhook Accounts Schema World Demo
    PgMessages PgSources PgPeople Dispatch Frames Gateway Console Operators
    Encoding Secrets Identities Instants Callbacks Limiter Capacity ApiKey Wire Grpc Sdk Link
    Broker Alert Providers Tokens Mail Registry Browser Portal Panel Process
begin

text \<open>
  A verification library for srosha, a notification service: a customer's source submits a message,
  a gateway stores it and its deliveries in Postgres and announces each delivery on NATS, and a
  dispatcher sends every delivery through a provider, writes the outcome down and calls the
  source's webhook back. A console lets people sign in, register sources and identities, and lets
  operators review them.

  \<^bold>\<open>Foundations\<close>

  \<^item> \<open>Prelude\<close>: tables as lists of rows, their updates and searches, the collections of rules.
  \<^item> \<open>GoLib\<close>: the part of Go's library the sources use, on byte strings: runes and UTF-8, trimming,
    case mapping, number parsing, addresses of \<open>net/netip\<close>, times as nanoseconds. What is not
    computed here (Unicode tables, JSON quoting, URL parsing, formatting) is a field of \<open>golib\<close>.
  \<^item> \<open>Errs\<close>: \<open>pkg/errs\<close> and every sentinel of \<open>internal/core\<close>; \<open>errors.Is\<close>, \<open>IsType\<close> and the text
    of an error. \<open>internal/core/shared/senderror.go\<close> is here too.
  \<^item> \<open>Effects\<close>: \<open>io\<close>, a function from a state to a result and a state, with the ways the code
    goes on after a call: return the error, look at it, or log it and go on; \<open>keeps R m\<close> says every
    run of \<open>m\<close> relates its states by \<open>R\<close>, and the locale \<open>preorder_on_states\<close> carries that through
    every combinator.

  \<^bold>\<open>The domain\<close> (\<open>internal/core/shared\<close>, \<open>internal/core/domain\<close>)

  \<open>Shared\<close>, \<open>Delivery\<close>, \<open>Notification\<close>, \<open>Source\<close>, \<open>Credential\<close>, \<open>Webhook\<close> and \<open>Accounts\<close> (users,
  login codes, sessions) each follow one package: the entity is a record with the package's fields,
  each method a definition of its name, each port a record of operations over a state. \<open>Delivery\<close>
  also states the contract of its repository as the locale \<open>delivery_store\<close>.

  \<^bold>\<open>Storage\<close> (\<open>internal/adapter/db/postgres\<close>)

  \<^item> \<open>Database\<close>: the tables of the migrations as lists of rows, and each statement of
    \<open>gen/*.sql.go\<close> as a function on the database with the constraints it can violate.
  \<^item> \<open>Schema\<close>: what holds in every database the program can reach, and how rows evolve.
  \<^item> \<open>World\<close>: the database together with everything outside. Before each statement the other
    processes of the deployment run any sequence of the program's own writes, and the answer of a
    statement may be lost before or after it took effect. \<open>grows\<close> is what any such run does.
  \<^item> \<open>PgMessages\<close>, \<open>PgSources\<close>, \<open>PgPeople\<close>: the repositories; the first interprets
    \<open>delivery_store\<close> on the model of \<open>delivery.go\<close>.
  \<^item> \<open>Demo\<close>: a small deployment the examples run on.

  \<^bold>\<open>Use cases\<close> (\<open>internal/core/usecase\<close>)

  Each use case is defined on any ports, as the code is, and its promises are proved on the ports of
  the deployment: the repositories over the world.

  \<^item> \<open>Dispatch\<close>: \<open>dispatch.go\<close>. What Handle acknowledges is settled; it sends at most once.
  \<^item> \<open>Frames\<close>: what a run leaves alone, as the locale \<open>db_relation\<close>: a relation between databases that
    the writes of the other processes keep is kept by whatever the repositories do.
  \<^item> \<open>Gateway\<close>: \<open>submit.go\<close>, \<open>query.go\<close>, \<open>register.go\<close>, \<open>retention.go\<close>. A submission is all or
    nothing, and idempotent while its message is kept; the sweep forgets what is old. The sweep's fuel is
    its own limit of batches.
  \<^item> \<open>Console\<close>: \<open>signin.go\<close>, \<open>gate.go\<close>, \<open>source.go\<close>, \<open>key.go\<close>, \<open>trial.go\<close> and the repository
    \<open>audit.go\<close>. \<open>Operators\<close>: \<open>operator.go\<close>, \<open>operator_people.go\<close>, \<open>operator_read.go\<close>. Every change
    that passes the gate is recorded, or is not made (identities, callbacks and signing in pass none);
    roles are checked before anything is read.
  \<^item> \<open>Identities\<close>: \<open>credential.go\<close>, on the keeper below. A channel gets its new default whole or
    keeps the old one.

  \<^bold>\<open>The hand-off and the senders\<close> (\<open>internal/adapter\<close>)

  \<^item> \<open>Broker\<close>: \<open>mq/nats\<close>: subjects, the stream, the codec, the publisher and the consumer's answer to
    each offer. What is published is handled; an offer is acknowledged exactly when the handler answered
    nil; the last offer of a delivery settles it, unless the secret of its identity cannot be opened. The
    client of JetStream is a parameter.
  \<^item> \<open>Alert\<close>: \<open>alert\<close>: the bounded queue of operator alerts as a step relation of its worker beside
    the callers. Alerts go out in order, and closing drains the queue.
  \<^item> \<open>Providers\<close>: \<open>sender/*\<close>: one definition group per provider: its settings, its request, and what
    its refusals mean for a retry. HTTP and JSON are parameters.
    The locale \<open>provider_answers\<close> states what a refusal means; all seven providers interpret it.
  \<^item> \<open>Tokens\<close>: \<open>internal/infra/appleauth\<close> and \<open>internal/infra/googleauth\<close>: sources of access tokens in
    a store, shared by reference. An Apple token is the right one and in time.
  \<^item> \<open>Mail\<close>: \<open>internal/infra/smtp\<close>, \<open>sender/email\<close> and \<open>internal/adapter/mailer\<close>. The first digit of a
    server's reply decides; what is quoted of a failure is cut at a password.
  \<^item> \<open>Registry\<close>: \<open>sender/registry.go\<close>: the choice of an identity and the sender built from it. A message
    never goes out as the service when its source named or has an identity.

  \<^bold>\<open>Secrets\<close> (\<open>pkg/crypto\<close>, \<open>internal/adapter/secret\<close>)

  \<^item> \<open>Encoding\<close>: the encodings of bytes as text the program uses, with their round trips.
  \<^item> \<open>Secrets\<close>: the keyring, the keeper of provider secrets and of webhook secrets. AES-GCM and the
    random source are parameters; \<open>gcm_ok\<close> states that what was sealed opens under the same nonce and
    binding, and \<open>gcm_binds\<close> that a ciphertext belongs to one plaintext and one binding. What was sealed
    comes back, and reading re-seals under the active key without changing what opens.

  \<^bold>\<open>The service's edge and the client\<close>

  \<^item> \<open>Instants\<close>: times as they cross the wire. \<open>Wire\<close>: the messages of the public contract
    (\<open>sdk/go/notification/v1\<close>) as records and \<open>grpcsrv/mapper.go\<close> between them and the domain.
  \<^item> \<open>ApiKey\<close>: \<open>internal/adapter/auth\<close>. A key that was minted is read back as its hash.
  \<^item> \<open>Limiter\<close>: \<open>internal/adapter/ratelimit\<close>. Sweeping the map of buckets never changes an answer:
    it refines one quota per source, kept for ever.
  \<^item> \<open>Grpc\<close>: \<open>internal/adapter/api/grpcsrv\<close>: handlers, the interceptors that authenticate and
    translate errors; \<open>serve\<close> is one request from its metadata to its status.
  \<^item> \<open>Sdk\<close>: \<open>sdk/go/srosha\<close>: what a customer calls, its conversions and retries.
  \<^item> \<open>Link\<close>: the client and the server joined over a network that loses requests and answers. A
    submission stands once, failures arrive as what they were, and nobody learns of others' messages.
  \<^item> \<open>Callbacks\<close>: \<open>internal/adapter/notifier\<close> signs what \<open>sdk/go/srosha/callback.go\<close> verifies.
  \<^item> \<open>Capacity\<close>: \<open>internal/core/usecase/capacity.go\<close>. One alert for each crossing of the floor.

  \<^bold>\<open>The pages and the process\<close> (\<open>internal/adapter/api/web\<close>, \<open>internal/registry\<close>)

  \<^item> \<open>Browser\<close>: what the two surfaces of the console share: query strings and forms, the cookie, the guard,
    the pages and the engine. Gin's router is a parameter; \<open>follows_patterns\<close> states what it documents.
    A page is its name and the data its template gets.
  \<^item> \<open>Portal\<close>: the customer's surface, each handler over ports that the use cases above fill. A source of
    somebody else and one that never was are answered alike.
  \<^item> \<open>Panel\<close>: the operator's surface. No page panics, a GET changes nothing, every refusal looks the same,
    and no operator's route answers on the portal.
  \<^item> \<open>Process\<close>: what is open and the order it closes in, readiness and its report, the watcher that
    alerts when readiness changes.

  \<^bold>\<open>Bounds and limits\<close>

  Loops over lists are structural recursions. Reading all pages takes fuel, and the property on it
  says how much is enough. \<open>int32\<close> columns wrap where the code converts; other integers of the
  sources stay below their width and are unbounded. Times are nanoseconds; that Postgres rounds
  them to microseconds, that text columns refuse NUL and invalid UTF-8,
  and isolation finer than statements and serial transactions are not modelled. Logging and
  contexts have no effect on the state and are left out. The database keeps the identifiers of
  deleted deliveries as a ghost column no statement reads.

  \<^bold>\<open>Not modelled\<close>

  The wiring of processes (\<open>cmd\<close>, most of \<open>internal/bootstrap\<close> and of \<open>internal/registry\<close>), the
  settings and the environment they are read from, the html templates, the encoding of gRPC
  messages and the clients of third-party services: they hold no rule of the program beyond the
  calls they make. The manifest lists every part and its state.
\<close>

end
